(* ===== verification/GoLib.thy ===== *)
theory GoLib
  imports Complex_Main "HOL-Library.Multiset" "HOL-Library.AList" "HOL-Library.Sublist" "HOL-Library.Char_ord"
begin

text \<open>
  The prelude of the development: the parts of Go and of its standard library that the
  modelled packages use (package \<^verbatim>\<open>strings\<close>, \<^verbatim>\<open>strconv.Quote\<close>, maps, error results),
  with the simplification rules the component theories share.

  \<^item> A Go string is a \<^typ>\<open>string\<close>, the list of its characters. The code modelled
    here treats strings as sequences of runes or of ASCII bytes; for ASCII text both
    readings agree, and case mapping is the ASCII one.
  \<^item> A Go map that is only read by key is a map \<^typ>\<open>'k \<rightharpoonup> 'v\<close>. A Go map that is ranged
    over is an association list with distinct keys whose order stands for the order in
    which the range statement visits it: Go leaves that order open, so a theorem that
    holds for every such list holds for every run.
  \<^item> A function that returns a value and an \<^verbatim>\<open>error\<close> returns a sum, \<^term>\<open>Inl e\<close> for the
    error and \<^term>\<open>Inr v\<close> for the value.
\<close>

named_theorems go_simps \<open>unfoldings of the modelled string and map primitives\<close>

declare length_dropWhile_le [termination_simp]

lemma length_tl_dropWhile_less [termination_simp]:
  "length (dropWhile P cs) - Suc 0 < Suc (length cs)"
  using length_dropWhile_le [of P cs] by linarith

section \<open>Strings\<close>

text \<open>The UTF-8 bytes of the dash that several messages have before a hint.\<close>

definition em_dash :: string where "em_dash = [CHR 0xE2, CHR 0x80, CHR 0x94]"

definition has_prefix :: "string \<Rightarrow> string \<Rightarrow> bool" where
  "has_prefix s p \<longleftrightarrow> take (length p) s = p"

definition has_suffix :: "string \<Rightarrow> string \<Rightarrow> bool" where
  "has_suffix s p \<longleftrightarrow> has_prefix (rev s) (rev p)"

definition trim_prefix :: "string \<Rightarrow> string \<Rightarrow> string" where
  "trim_prefix s p = (if has_prefix s p then drop (length p) s else s)"

definition cut_prefix :: "string \<Rightarrow> string \<Rightarrow> string option" where
  "cut_prefix s p = (if has_prefix s p then Some (drop (length p) s) else None)"

text \<open>\<^verbatim>\<open>strings.ReplaceAll\<close> with a one-character pattern.\<close>

definition replace_char :: "char \<Rightarrow> string \<Rightarrow> string \<Rightarrow> string" where
  "replace_char c r s = concat (map (\<lambda>x. if x = c then r else [x]) s)"

text \<open>\<^verbatim>\<open>ReplaceAllString\<close> for a regular expression that matches a maximal non-empty run of a
  character class.\<close>

fun replace_runs :: "(char \<Rightarrow> bool) \<Rightarrow> string \<Rightarrow> string \<Rightarrow> string" where
  "replace_runs P r [] = []"
| "replace_runs P r (c # cs) =
     (if P c then r @ replace_runs P r (dropWhile P cs) else c # replace_runs P r cs)"

text \<open>\<^verbatim>\<open>strings.Trim\<close> and \<^verbatim>\<open>strings.TrimSpace\<close>, \<^verbatim>\<open>strings.TrimRight\<close>.\<close>

definition trim_right :: "(char \<Rightarrow> bool) \<Rightarrow> string \<Rightarrow> string" where
  "trim_right P s = rev (dropWhile P (rev s))"

definition trim_with :: "(char \<Rightarrow> bool) \<Rightarrow> string \<Rightarrow> string" where
  "trim_with P s = trim_right P (dropWhile P s)"

definition is_space :: "char \<Rightarrow> bool" where
  "is_space c \<longleftrightarrow> c \<in> set [CHR '' '', CHR 0x09, CHR 0x0A, CHR 0x0B, CHR 0x0C, CHR 0x0D]"

definition trim_space :: "string \<Rightarrow> string" where
  "trim_space s = trim_with is_space s"

text \<open>ASCII letter classes and case mapping.\<close>

definition is_upper :: "char \<Rightarrow> bool" where
  "is_upper c \<longleftrightarrow> CHR ''A'' \<le> c \<and> c \<le> CHR ''Z''"

definition is_lower :: "char \<Rightarrow> bool" where
  "is_lower c \<longleftrightarrow> CHR ''a'' \<le> c \<and> c \<le> CHR ''z''"

definition is_digit :: "char \<Rightarrow> bool" where
  "is_digit c \<longleftrightarrow> CHR ''0'' \<le> c \<and> c \<le> CHR ''9''"

definition lower_char :: "char \<Rightarrow> char" where
  "lower_char c = (if is_upper c then char_of (of_char c + 32 :: nat) else c)"

definition upper_char :: "char \<Rightarrow> char" where
  "upper_char c = (if is_lower c then char_of (of_char c - 32 :: nat) else c)"

definition to_lower :: "string \<Rightarrow> string" where
  "to_lower s = map lower_char s"

definition to_upper :: "string \<Rightarrow> string" where
  "to_upper s = map upper_char s"

text \<open>\<^verbatim>\<open>strings.SplitN(s, sep, 2)\<close> and \<^verbatim>\<open>strings.Cut\<close> for a one-character separator.\<close>

definition before_char :: "char \<Rightarrow> string \<Rightarrow> string" where
  "before_char c s = takeWhile (\<lambda>x. x \<noteq> c) s"

definition cut_char :: "char \<Rightarrow> string \<Rightarrow> (string \<times> string) option" where
  "cut_char c s =
     (if c \<in> set s then Some (before_char c s, tl (dropWhile (\<lambda>x. x \<noteq> c) s)) else None)"

text \<open>\<^verbatim>\<open>strings.Split\<close> for a one-character separator.\<close>

fun split_char :: "char \<Rightarrow> string \<Rightarrow> string list" where
  "split_char c [] = [[]]"
| "split_char c (x # xs) =
     (if x = c then [] # split_char c xs
      else (case split_char c xs of [] \<Rightarrow> [[x]] | w # ws \<Rightarrow> (x # w) # ws))"

text \<open>\<^verbatim>\<open>strings.Fields\<close>: the maximal runs of non-space characters.\<close>

fun fields :: "string \<Rightarrow> string list" where
  "fields [] = []"
| "fields (c # cs) =
     (if is_space c then fields cs
      else (c # takeWhile (\<lambda>x. \<not> is_space x) cs) # fields (dropWhile (\<lambda>x. \<not> is_space x) cs))"

text \<open>\<^verbatim>\<open>strings.Contains\<close> and \<^verbatim>\<open>strings.Join\<close>.\<close>

fun contains_str :: "string \<Rightarrow> string \<Rightarrow> bool" where
  "contains_str [] p = (p = [])"
| "contains_str (c # cs) p = (has_prefix (c # cs) p \<or> contains_str cs p)"

fun join_with :: "string \<Rightarrow> string list \<Rightarrow> string" where
  "join_with sep [] = []"
| "join_with sep [s] = s"
| "join_with sep (s # t # ss) = s @ sep @ join_with sep (t # ss)"

text \<open>Decimal rendering, \<^verbatim>\<open>fmt.Sprintf("%d", n)\<close>.\<close>

definition digit_char :: "nat \<Rightarrow> char" where
  "digit_char d = char_of (48 + d)"

fun show_nat :: "nat \<Rightarrow> string" where
  "show_nat n = (if n < 10 then [digit_char n] else show_nat (n div 10) @ [digit_char (n mod 10)])"

declare show_nat.simps [simp del]

definition show_int :: "int \<Rightarrow> string" where
  "show_int i = (if i < 0 then CHR ''-'' # show_nat (nat (- i)) else show_nat (nat i))"

text \<open>\<^verbatim>\<open>strconv.Quote\<close>, which \<^verbatim>\<open>fmt\<close> applies for \<^verbatim>\<open>%q\<close>, on ASCII text.\<close>

definition hex_char :: "nat \<Rightarrow> char" where
  "hex_char d = (if d < 10 then char_of (48 + d) else char_of (87 + d))"

definition quote_char :: "char \<Rightarrow> string" where
  "quote_char c =
     (if c = CHR 0x22 then [CHR 0x5C, CHR 0x22]
      else if c = CHR 0x5C then [CHR 0x5C, CHR 0x5C]
      else if c = CHR 0x07 then [CHR 0x5C, CHR ''a'']
      else if c = CHR 0x08 then [CHR 0x5C, CHR ''b'']
      else if c = CHR 0x0C then [CHR 0x5C, CHR ''f'']
      else if c = CHR 0x0A then [CHR 0x5C, CHR ''n'']
      else if c = CHR 0x0D then [CHR 0x5C, CHR ''r'']
      else if c = CHR 0x09 then [CHR 0x5C, CHR ''t'']
      else if c = CHR 0x0B then [CHR 0x5C, CHR ''v'']
      else if (of_char c :: nat) < 32 \<or> of_char c = (127 :: nat)
        then [CHR 0x5C, CHR ''x'', hex_char (of_char c div 16), hex_char (of_char c mod 16)]
      else [c])"

definition go_quote :: "string \<Rightarrow> string" where
  "go_quote s = [CHR 0x22] @ concat (map quote_char s) @ [CHR 0x22]"

section \<open>Lemmas on the primitives\<close>

lemma has_prefix_append [simp]: "has_prefix (p @ s) p"
  by (simp add: has_prefix_def)

lemma has_prefix_iff: "has_prefix s p \<longleftrightarrow> (\<exists>t. s = p @ t)"
  by (metis append_eq_conv_conj append_take_drop_id has_prefix_def)

lemma set_dropWhile_subset: "set (dropWhile P xs) \<subseteq> set xs"
  by (induction xs) auto

lemma set_trim_right: "set (trim_right P s) \<subseteq> set s"
  using set_dropWhile_subset [of P "rev s"] by (simp add: trim_right_def)

lemma set_trim_with: "set (trim_with P s) \<subseteq> set s"
  using set_trim_right [of P "dropWhile P s"] set_dropWhile_subset [of P s]
  by (auto simp: trim_with_def)

lemma set_replace_runs: "set (replace_runs P r s) \<subseteq> set r \<union> {c \<in> set s. \<not> P c}"
proof (induction P r s rule: replace_runs.induct)
  case (2 P r c cs)
  then show ?case using set_dropWhile_subset [of P cs] by auto
qed simp

lemma contains_str_append: "contains_str s p \<Longrightarrow> contains_str (t @ s) p"
  by (induction t) auto

lemma contains_str_prefix: "has_prefix s p \<Longrightarrow> contains_str s p"
  by (cases s) (auto simp: has_prefix_def)

lemma contains_str_mid: "contains_str (a @ p @ b) p"
  by (rule contains_str_append) (simp add: contains_str_prefix)

lemma char_le_iff: "c \<le> d \<longleftrightarrow> (of_char c :: nat) \<le> of_char d" for c d :: char
  by (simp add: less_eq_char_def)

lemma of_char_less: "(of_char c :: nat) < 256"
  by (rule nat_of_char_less_256)

lemma lower_of_upper: "is_upper c \<Longrightarrow> is_lower (lower_char c)"
  by (simp add: is_upper_def is_lower_def lower_char_def char_le_iff)

lemma upper_not_lower: "is_upper c \<Longrightarrow> \<not> is_lower c"
  by (auto simp: is_upper_def is_lower_def char_le_iff)

lemma to_lower_no_upper: "\<not> is_upper c \<Longrightarrow> lower_char c = c"
  by (simp add: lower_char_def)

lemma replace_char_absent: "c \<notin> set s \<Longrightarrow> replace_char c r s = s"
  by (induction s) (auto simp: replace_char_def)

lemma trim_right_append: "\<not> P c \<Longrightarrow> trim_right P (s @ [c]) = s @ [c]"
  by (simp add: trim_right_def)

lemma trim_with_id:
  assumes "s \<noteq> [] \<Longrightarrow> \<not> P (hd s) \<and> \<not> P (last s)"
  shows "trim_with P s = s"
proof (cases s)
  case (Cons x xs)
  with assms have h: "\<not> P x" and l: "\<not> P (last s)" by auto
  from Cons h have "dropWhile P s = s" by simp
  moreover have "rev s \<noteq> []" "hd (rev s) = last s" using Cons by (simp_all add: hd_rev)
  then have "dropWhile P (rev s) = rev s" using l by (metis dropWhile.simps(2) list.collapse)
  ultimately show ?thesis by (simp add: trim_with_def trim_right_def)
qed (simp add: trim_with_def trim_right_def)

lemma trim_right_split: "trim_right P d @ rev (takeWhile P (rev d)) = d"
  by (metis rev_append rev_rev_ident takeWhile_dropWhile_id trim_right_def)

lemma trim_with_hd: "trim_with P s \<noteq> [] \<Longrightarrow> \<not> P (hd (trim_with P s))"
proof -
  assume ne: "trim_with P s \<noteq> []"
  let ?d = "dropWhile P s"
  from ne have n: "?d \<noteq> []" by (cases ?d) (auto simp: trim_with_def trim_right_def)
  have "?d = trim_with P s @ rev (takeWhile P (rev ?d))"
    by (simp add: trim_with_def trim_right_split)
  with ne have "hd ?d = hd (trim_with P s)" by (metis hd_append2)
  with n show ?thesis by (metis hd_dropWhile)
qed

lemma trim_with_last: "trim_with P s \<noteq> [] \<Longrightarrow> \<not> P (last (trim_with P s))"
  by (metis (no_types, lifting) dropWhile_eq_Nil_conv hd_dropWhile last_rev rev_is_Nil_conv
      trim_right_def trim_with_def)

lemma sublist_trim_with: "sublist (trim_with P s) s"
proof -
  let ?d = "dropWhile P s"
  have "s = takeWhile P s @ trim_with P s @ rev (takeWhile P (rev ?d))"
    by (metis takeWhile_dropWhile_id trim_with_def trim_right_split)
  then show ?thesis by (metis sublist_appendI)
qed

lemma successively_sublist: "sublist xs ys \<Longrightarrow> successively P ys \<Longrightarrow> successively P xs"
  by (auto simp: sublist_def successively_append_iff)

section \<open>Error results\<close>

fun sum_map :: "('a \<Rightarrow> 'e + 'b) \<Rightarrow> 'a list \<Rightarrow> 'e + 'b list" where
  "sum_map f [] = Inr []"
| "sum_map f (x # xs) =
     (case f x of Inl e \<Rightarrow> Inl e
      | Inr y \<Rightarrow> (case sum_map f xs of Inl e \<Rightarrow> Inl e | Inr ys \<Rightarrow> Inr (y # ys)))"

lemma sum_map_Inr_iff:
  "sum_map f xs = Inr ys \<longleftrightarrow> list_all2 (\<lambda>x y. f x = Inr y) xs ys"
proof (induction xs arbitrary: ys)
  case (Cons x xs)
  have "sum_map f (x # xs) = Inr ys \<longleftrightarrow>
      (\<exists>y zs. ys = y # zs \<and> f x = Inr y \<and> sum_map f xs = Inr zs)"
    by (auto split: sum.splits)
  then show ?case by (simp add: Cons.IH list_all2_Cons1)
qed auto

lemma sum_map_Inl_iff:
  "sum_map f xs = Inl e \<longleftrightarrow>
     (\<exists>us x vs. xs = us @ x # vs \<and> f x = Inl e \<and> (\<forall>u \<in> set us. \<exists>y. f u = Inr y))"
proof (induction xs)
  case (Cons x xs)
  show ?case
  proof (cases "f x")
    case (Inl e')
    show ?thesis
    proof
      assume "sum_map f (x # xs) = Inl e"
      with Inl have "f x = Inl e" by simp
      then show "\<exists>us y vs. x # xs = us @ y # vs \<and> f y = Inl e \<and> (\<forall>u \<in> set us. \<exists>y. f u = Inr y)"
        by (metis append_Nil empty_iff empty_set)
    next
      assume "\<exists>us y vs. x # xs = us @ y # vs \<and> f y = Inl e \<and> (\<forall>u \<in> set us. \<exists>y. f u = Inr y)"
      with Inl show "sum_map f (x # xs) = Inl e" by (auto simp: Cons_eq_append_conv)
    qed
  next
    case (Inr y)
    then have "sum_map f (x # xs) = Inl e \<longleftrightarrow> sum_map f xs = Inl e"
      by (simp split: sum.splits)
    also have "\<dots> \<longleftrightarrow> (\<exists>us z vs. xs = us @ z # vs \<and> f z = Inl e \<and> (\<forall>u \<in> set us. \<exists>y. f u = Inr y))"
      by (rule Cons.IH)
    also have "\<dots> \<longleftrightarrow> (\<exists>us z vs. x # xs = us @ z # vs \<and> f z = Inl e \<and> (\<forall>u \<in> set us. \<exists>y. f u = Inr y))"
      using Inr by (auto simp: Cons_eq_append_conv) (metis append_Cons list.set_intros set_ConsD)+
    finally show ?thesis .
  qed
qed simp

lemma sum_map_length: "sum_map f xs = Inr ys \<Longrightarrow> length ys = length xs"
  by (auto simp: sum_map_Inr_iff dest: list_all2_lengthD)

section \<open>Range order\<close>

text \<open>A range statement over a map visits the pairs of \<^term>\<open>xs\<close> in the order \<^term>\<open>\<sigma> xs\<close>.\<close>

definition permutes_range :: "('a list \<Rightarrow> 'a list) \<Rightarrow> bool" where
  "permutes_range \<sigma> \<longleftrightarrow> (\<forall>xs. mset (\<sigma> xs) = mset xs)"

lemma permutes_range_set: "permutes_range \<sigma> \<Longrightarrow> set (\<sigma> xs) = set xs"
  unfolding permutes_range_def by (metis set_mset_mset)

end
