(* ===== verification/Json.thy ===== *)
theory Json
  imports GoLib "HOL-Library.List_Lexorder"
begin

text \<open>
  JSON values as Go holds them in an \<^verbatim>\<open>any\<close> after \<^verbatim>\<open>json.Unmarshal\<close>, and the canonical
  rendering of \<^verbatim>\<open>pkg/cache/cache.go\<close> (\<^verbatim>\<open>marshalSorted\<close>). The rendering of a float64 is
  a parameter, since its digits are chosen by \<^verbatim>\<open>strconv\<close>: \<^term>\<open>None\<close> is the
  \<^verbatim>\<open>UnsupportedValueError\<close>. The lemmas show that the rendering identifies exactly the
  values that are equal up to the order of object keys.
\<close>

datatype goval =
    GNil
  | GBool bool
  | GNum rat
  | GStr string
  | GList "goval list"
  | GMap "(string \<times> goval) list"

type_synonym args = "(string \<times> goval) list"

text \<open>String literals, \<^verbatim>\<open>json.Marshal\<close> of a string with HTML escaping on.\<close>

definition json_char :: "char \<Rightarrow> string" where
  "json_char c =
     (if c = CHR 0x22 \<or> c = CHR 0x5C then [CHR 0x5C, c]
      else if c = CHR 0x08 then [CHR 0x5C, CHR ''b'']
      else if c = CHR 0x0C then [CHR 0x5C, CHR ''f'']
      else if c = CHR 0x0A then [CHR 0x5C, CHR ''n'']
      else if c = CHR 0x0D then [CHR 0x5C, CHR ''r'']
      else if c = CHR 0x09 then [CHR 0x5C, CHR ''t'']
      else if (of_char c :: nat) < 32 \<or> c \<in> set [CHR ''<'', CHR ''>'', CHR ''&'']
        then [CHR 0x5C, CHR ''u'', CHR ''0'', CHR ''0'',
              hex_char (of_char c div 16), hex_char (of_char c mod 16)]
      else [c])"

definition json_string :: "string \<Rightarrow> string" where
  "json_string s = CHR 0x22 # concat (map json_char s) @ [CHR 0x22]"

fun opt_list :: "'a option list \<Rightarrow> 'a list option" where
  "opt_list [] = Some []"
| "opt_list (x # xs) =
     (case x of None \<Rightarrow> None
      | Some y \<Rightarrow> (case opt_list xs of None \<Rightarrow> None | Some ys \<Rightarrow> Some (y # ys)))"

definition render_field :: "(string \<times> string option) list \<Rightarrow> string \<Rightarrow> string option" where
  "render_field fs k =
     (case map_of fs k of Some (Some r) \<Rightarrow> Some (json_string k @ '':'' @ r) | _ \<Rightarrow> None)"

fun marshalSorted :: "(rat \<Rightarrow> string option) \<Rightarrow> goval \<Rightarrow> string option" where
  "marshalSorted num (GMap kvs) =
     (let fs = map (\<lambda>(k, v). (k, marshalSorted num v)) kvs in
      (case opt_list (map (render_field fs) (sort (map fst kvs))) of
         None \<Rightarrow> None
       | Some rs \<Rightarrow> Some (''{'' @ join_with '','' rs @ ''}'')))"
| "marshalSorted num (GList vs) =
     (case opt_list (map (marshalSorted num) vs) of
        None \<Rightarrow> None
      | Some rs \<Rightarrow> Some (''['' @ join_with '','' rs @ '']''))"
| "marshalSorted num GNil = Some ''null''"
| "marshalSorted num (GBool b) = Some (if b then ''true'' else ''false'')"
| "marshalSorted num (GNum r) = num r"
| "marshalSorted num (GStr s) = Some (json_string s)"

text \<open>
  A JSON value decoded by Go has one entry per object key. The round trip through
  \<^verbatim>\<open>json.Marshal\<close> and \<^verbatim>\<open>json.Unmarshal\<close> at the start of \<^verbatim>\<open>canonicalJSONBytes\<close> maps such a
  value to itself and fails exactly when some number cannot be rendered, which
  \<^const>\<open>marshalSorted\<close> reports for the same values.
\<close>

definition canonicalJSONBytes :: "(rat \<Rightarrow> string option) \<Rightarrow> goval \<Rightarrow> string option" where
  "canonicalJSONBytes num v = marshalSorted num v"

fun wf_goval :: "goval \<Rightarrow> bool" where
  "wf_goval (GMap kvs) = (distinct (map fst kvs) \<and> list_all (\<lambda>(k, v). wf_goval v) kvs)"
| "wf_goval (GList vs) = list_all wf_goval vs"
| "wf_goval _ = True"

text \<open>Equality up to the order of the keys of objects, at every depth.\<close>

inductive same_json :: "goval \<Rightarrow> goval \<Rightarrow> bool" where
  nil: "same_json GNil GNil"
| bool: "same_json (GBool b) (GBool b)"
| num: "same_json (GNum r) (GNum r)"
| str: "same_json (GStr s) (GStr s)"
| list: "list_all2 same_json vs ws \<Longrightarrow> same_json (GList vs) (GList ws)"
| obj: "\<lbrakk>set (map fst xs) = set (map fst ys);
         \<And>k v w. map_of xs k = Some v \<Longrightarrow> map_of ys k = Some w \<Longrightarrow> same_json v w\<rbrakk>
        \<Longrightarrow> same_json (GMap xs) (GMap ys)"

inductive_simps same_json_simps:
  "same_json GNil w" "same_json (GBool b) w" "same_json (GNum r) w" "same_json (GStr s) w"
  "same_json (GList vs) w" "same_json (GMap xs) w"

section \<open>Renderings agree on values that are equal up to key order\<close>

lemma opt_list_map_Some [simp]: "opt_list (map Some ys) = Some ys"
  by (induction ys) auto

lemma opt_list_Some: "opt_list xs = Some ys \<longleftrightarrow> xs = map Some ys"
proof
  show "opt_list xs = Some ys \<Longrightarrow> xs = map Some ys"
    by (induction xs arbitrary: ys) (auto split: option.splits)
qed simp

lemma map_of_map_snd: "map_of (map (\<lambda>(k, v). (k, f v)) kvs) k = map_option f (map_of kvs k)"
  by (induction kvs) auto

lemma same_json_render: "same_json v w \<Longrightarrow> wf_goval v \<Longrightarrow> wf_goval w \<Longrightarrow>
    marshalSorted num v = marshalSorted num w"
proof (induction rule: same_json.induct)
  case (list vs ws)
  then have "map (marshalSorted num) vs = map (marshalSorted num) ws"
    by (induction vs ws rule: list_all2_induct) auto
  then show ?case by simp
next
  case (obj xs ys)
  let ?f = "\<lambda>zs. map (\<lambda>(k, v). (k, marshalSorted num v)) zs"
  have wf: "list_all (\<lambda>(k, v). wf_goval v) xs" "list_all (\<lambda>(k, v). wf_goval v) ys"
    and d: "distinct (map fst xs)" "distinct (map fst ys)" using obj.prems by auto
  have keys: "sort (map fst xs) = sort (map fst ys)"
    using obj.hyps(1) d by (intro sorted_distinct_set_unique) auto
  have "render_field (?f xs) k = render_field (?f ys) k" if k: "k \<in> set (map fst xs)" for k
  proof -
    from k obj.hyps(1) obtain v w where v: "map_of xs k = Some v" and w: "map_of ys k = Some w"
      by (metis domD dom_map_of_conv_image_fst set_map)
    have "wf_goval v" "wf_goval w"
      using v w wf by (auto simp: list_all_iff dest: map_of_SomeD)
    with obj.IH v w have "marshalSorted num v = marshalSorted num w" by blast
    with v w show ?thesis by (simp add: render_field_def map_of_map_snd)
  qed
  then have "map (render_field (?f xs)) (sort (map fst xs)) =
      map (render_field (?f ys)) (sort (map fst ys))"
    unfolding keys [symmetric] by (intro map_cong refl) simp
  then show ?case by (simp add: Let_def)
qed auto

section \<open>Equal renderings come from values that are equal up to key order\<close>

text \<open>The rendering of a value whose objects are already in the order to print.\<close>

definition opt_field :: "string \<Rightarrow> string option \<Rightarrow> string option" where
  "opt_field k x = (case x of None \<Rightarrow> None | Some r \<Rightarrow> Some (json_string k @ '':'' @ r))"

fun render :: "(rat \<Rightarrow> string option) \<Rightarrow> goval \<Rightarrow> string option" where
  "render num (GMap kvs) =
     (case opt_list (map (\<lambda>(k, v). opt_field k (render num v)) kvs) of
        None \<Rightarrow> None | Some rs \<Rightarrow> Some (''{'' @ join_with '','' rs @ ''}''))"
| "render num (GList vs) =
     (case opt_list (map (render num) vs) of
        None \<Rightarrow> None | Some rs \<Rightarrow> Some (''['' @ join_with '','' rs @ '']''))"
| "render num GNil = Some ''null''"
| "render num (GBool b) = Some (if b then ''true'' else ''false'')"
| "render num (GNum r) = num r"
| "render num (GStr s) = Some (json_string s)"

fun canon :: "goval \<Rightarrow> goval" where
  "canon (GMap kvs) =
     (let fs = map (\<lambda>(k, v). (k, canon v)) kvs
      in GMap (map (\<lambda>k. (k, the (map_of fs k))) (sort (map fst kvs))))"
| "canon (GList vs) = GList (map canon vs)"
| "canon v = v"

lemma marshalSorted_render: "marshalSorted num v = render num (canon v)"
proof (induction v)
  case (GMap kvs)
  let ?fs = "map (\<lambda>(k, v). (k, marshalSorted num v)) kvs"
  have "render_field ?fs k = opt_field k (render num (the (map_of (map (\<lambda>(k, v). (k, canon v)) kvs) k)))"
    if "k \<in> set (map fst kvs)" for k
  proof -
    from that obtain v where v: "map_of kvs k = Some v" by (metis map_of_eq_None_iff not_Some_eq set_map)
    then have "(k, v) \<in> set kvs" by (rule map_of_SomeD)
    with GMap have "marshalSorted num v = render num (canon v)" by (auto simp: prod_set_simps)
    with v show ?thesis
      by (auto simp: render_field_def map_of_map_snd opt_field_def split: option.splits)
  qed
  then have E: "map (render_field ?fs) (sort (map fst kvs)) =
      map (\<lambda>k. opt_field k (render num (the (map_of (map (\<lambda>(k, v). (k, canon v)) kvs) k))))
        (sort (map fst kvs))"
    by (intro map_cong refl) simp
  show ?case
    by (simp only: marshalSorted.simps canon.simps render.simps Let_def E map_map comp_def prod.case)
next
  case (GList vs)
  then have E: "map (marshalSorted num) vs = map (render num \<circ> canon) vs" by simp
  show ?case by (simp only: marshalSorted.simps canon.simps render.simps map_map E)
qed auto

lemma render_marshal_same: "wf_goval v \<Longrightarrow> same_json v (canon v)"
proof (induction v)
  case (GMap kvs)
  show ?case unfolding canon.simps Let_def
  proof (rule same_json.obj)
    fix k v w
    assume v: "map_of kvs k = Some v" and
      w: "map_of (map (\<lambda>k. (k, the (map_of (map (\<lambda>(k, v). (k, canon v)) kvs) k)))
            (sort (map fst kvs))) k = Some w"
    from w v have "w = canon v" by (simp add: map_of_map_snd map_of_map_restrict restrict_map_def split: if_splits)
    moreover have "(k, v) \<in> set kvs" using v by (rule map_of_SomeD)
    ultimately show "same_json v w" using GMap by (auto simp: prod_set_simps list_all_iff)
  qed (simp add: image_image)
next
  case (GList vs)
  then show ?case by (auto simp: same_json_simps list_all2_conv_all_nth list_all_iff)
qed (auto intro: same_json.intros)

lemma hex_char_ne: "d < 16 \<Longrightarrow> hex_char d = hex_char e \<Longrightarrow> e < 16 \<Longrightarrow> d = e"
  by (auto simp: hex_char_def split: if_splits dest!: arg_cong [where f = "of_char :: char \<Rightarrow> nat"])

lemma json_char_hd: "json_char c \<noteq> [] \<and> hd (json_char c) \<noteq> CHR 0x22"
  by (simp add: json_char_def)

definition unescape :: "char \<Rightarrow> char" where
  "unescape e =
     (if e = CHR ''b'' then CHR 0x08 else if e = CHR ''f'' then CHR 0x0C
      else if e = CHR ''n'' then CHR 0x0A else if e = CHR ''r'' then CHR 0x0D
      else if e = CHR ''t'' then CHR 0x09 else e)"

lemma json_char_cases:
  obtains (plain) "json_char c = [c]" "c \<noteq> CHR 0x5C"
  | (escape) e where "json_char c = [CHR 0x5C, e]" "e \<noteq> CHR ''u''" "c = unescape e"
  | (code) "json_char c = [CHR 0x5C, CHR ''u'', CHR ''0'', CHR ''0'',
              hex_char (of_char c div 16), hex_char (of_char c mod 16)]"
proof -
  consider "c \<in> {CHR 0x22, CHR 0x5C, CHR 0x08, CHR 0x0C, CHR 0x0A, CHR 0x0D, CHR 0x09}"
    | "c \<notin> {CHR 0x22, CHR 0x5C, CHR 0x08, CHR 0x0C, CHR 0x0A, CHR 0x0D, CHR 0x09}" by blast
  then show thesis
  proof cases
    case 1
    then have "\<exists>e. json_char c = [CHR 0x5C, e] \<and> e \<noteq> CHR ''u'' \<and> c = unescape e"
      by (elim insertE emptyE) (simp_all add: json_char_def unescape_def)
    then show thesis using escape by blast
  next
    case 2
    then have "json_char c = [c] \<and> c \<noteq> CHR 0x5C \<or>
        json_char c = [CHR 0x5C, CHR ''u'', CHR ''0'', CHR ''0'',
          hex_char (of_char c div 16), hex_char (of_char c mod 16)]"
      by (simp add: json_char_def)
    then show thesis using plain code by blast
  qed
qed

lemma json_char_inj:
  assumes "json_char c @ x = json_char d @ y"
  shows "c = d \<and> x = y"
proof -
  have lt: "of_char c div 16 < (16 :: nat)" "of_char d div 16 < (16 :: nat)"
    by (rule less_mult_imp_div_less, simp)+
  have eq: "c = d" if "(of_char c :: nat) div 16 = of_char d div 16" "(of_char c :: nat) mod 16 = of_char d mod 16"
    using that by (metis char_of_char div_mult_mod_eq)
  show ?thesis
  proof (cases c rule: json_char_cases)
    case plain
    with assms show ?thesis by (cases d rule: json_char_cases) auto
  next
    case (escape e)
    with assms show ?thesis by (cases d rule: json_char_cases) auto
  next
    case code
    show ?thesis
    proof (cases d rule: json_char_cases)
      case code': code
      from assms code code' have
        "hex_char (of_char c div 16) = hex_char (of_char d div 16)"
        "hex_char (of_char c mod 16) = hex_char (of_char d mod 16)" "x = y" by auto
      with hex_char_ne lt eq show ?thesis by (metis mod_less_divisor zero_less_numeral)
    qed (use assms code in auto)
  qed
qed

lemma json_chars_inj:
  "concat (map json_char s) @ CHR 0x22 # r = concat (map json_char t) @ CHR 0x22 # q \<Longrightarrow>
     s = t \<and> r = q"
proof (induction s arbitrary: t)
  case Nil
  then show ?case
    by (cases t) (use json_char_hd in \<open>auto simp: Cons_eq_append_conv, metis list.sel(1)\<close>)
next
  case (Cons c s)
  show ?case
  proof (cases t)
    case Nil
    with Cons.prems json_char_hd [of c] show ?thesis by (cases "json_char c") auto
  next
    case (Cons d t')
    with Cons.prems have "json_char c @ concat (map json_char s) @ CHR 0x22 # r =
        json_char d @ concat (map json_char t') @ CHR 0x22 # q" by simp
    from json_char_inj [OF this] Cons.IH [of t'] Cons show ?thesis by simp
  qed
qed

lemma json_string_inj: "json_string s @ r = json_string t @ q \<Longrightarrow> s = t \<and> r = q"
  using json_chars_inj [of s r t q] by (simp add: json_string_def)

text \<open>What the proof needs of the rendering of numbers: it is injective, and it consists of
  characters of the JSON number grammar.\<close>

definition num_char :: "char \<Rightarrow> bool" where
  "num_char c \<longleftrightarrow> is_digit c \<or> c \<in> set ''-+.eE''"

definition num_rendering :: "(rat \<Rightarrow> string option) \<Rightarrow> bool" where
  "num_rendering num \<longleftrightarrow>
     (\<forall>x a. num x = Some a \<longrightarrow> a \<noteq> [] \<and> (is_digit (hd a) \<or> hd a = CHR ''-'') \<and> (\<forall>c \<in> set a. num_char c)) \<and>
     (\<forall>x y a. num x = Some a \<longrightarrow> num y = Some a \<longrightarrow> x = y)"

definition stop :: "string \<Rightarrow> bool" where
  "stop r \<longleftrightarrow> r = [] \<or> hd r \<in> {CHR '','', CHR ''}'', CHR '']''}"

lemma stop_simps [simp]:
  "stop []" "stop (c # r) \<longleftrightarrow> c \<in> {CHR '','', CHR ''}'', CHR '']''}"
  by (simp_all add: stop_def)

lemma stop_not_num: "stop r \<Longrightarrow> r = [] \<or> \<not> num_char (hd r)"
  by (auto simp: stop_def num_char_def is_digit_def char_le_iff)

lemma run_split:
  assumes "a @ r = b @ q" "\<forall>c \<in> set a. P c" "\<forall>c \<in> set b. P c"
    "r = [] \<or> \<not> P (hd r)" "q = [] \<or> \<not> P (hd q)"
  shows "a = b \<and> r = q"
proof -
  have "takeWhile P (x @ y) = x" if "\<forall>c \<in> set x. P c" "y = [] \<or> \<not> P (hd y)" for x y
    using that by (cases y) (auto simp: takeWhile_append)
  from this [OF assms(2,4)] this [OF assms(3,5)] assms(1) show ?thesis by (metis same_append_eq)
qed

definition value_head :: "char \<Rightarrow> bool" where
  "value_head c \<longleftrightarrow> c \<notin> {CHR '','', CHR ''}'', CHR '']''}"

definition inj_at :: "('a \<Rightarrow> string option) \<Rightarrow> 'a \<Rightarrow> bool" where
  "inj_at f x \<longleftrightarrow> (\<forall>y a b r q. f x = Some a \<longrightarrow> f y = Some b \<longrightarrow> a @ r = b @ q \<longrightarrow>
      stop r \<longrightarrow> stop q \<longrightarrow> x = y \<and> r = q)"

definition tail_join :: "string list \<Rightarrow> string" where
  "tail_join rs = (if rs = [] then [] else CHR '','' # join_with '','' rs)"

lemma join_cons: "join_with '','' (r # rs) = r @ tail_join rs"
  by (cases rs) (auto simp: tail_join_def)

lemma joined_inj:
  assumes "\<forall>x \<in> set xs. inj_at f x"
    and hd: "\<And>y b. f y = Some b \<Longrightarrow> b \<noteq> [] \<and> value_head (hd b)"
    and z: "z \<in> {CHR ''}'', CHR '']''}"
    and "map f xs = map Some as" "map f ys = map Some bs"
    and "join_with '','' as @ z # r = join_with '','' bs @ z # q"
  shows "xs = ys \<and> r = q"
  using assms(1,4,5,6)
proof (induction xs arbitrary: ys as bs)
  case Nil
  show ?case
  proof (cases ys)
    case Nil
    with Nil.prems show ?thesis by simp
  next
    case (Cons y ys')
    with Nil.prems obtain b bs' where b: "bs = b # bs'" "f y = Some b" by auto
    from hd [OF b(2)] Nil.prems b z show ?thesis
      by (cases b) (auto simp: join_cons value_head_def)
  qed
next
  case (Cons x xs)
  from Cons.prems obtain a as' where a: "as = a # as'" "f x = Some a" "map f xs = map Some as'" by auto
  show ?case
  proof (cases ys)
    case Nil
    with hd [OF a(2)] Cons.prems a z show ?thesis
      by (cases a) (auto simp: join_cons value_head_def)
  next
    case (Cons y ys')
    with Cons.prems obtain b bs' where b: "bs = b # bs'" "f y = Some b" "map f ys' = map Some bs'" by auto
    have st: "stop (tail_join cs @ z # t)" for cs t
      using z by (auto simp: tail_join_def)
    have "a @ tail_join as' @ z # r = b @ tail_join bs' @ z # q"
      using Cons.prems(4) a b by (simp add: join_cons)
    with Cons.prems(1) a(2) b(2) st have xy: "x = y" and t: "tail_join as' @ z # r = tail_join bs' @ z # q"
      unfolding inj_at_def by (metis list.set_intros(1))+
    have "as' = [] \<longleftrightarrow> bs' = []" using t z by (auto simp: tail_join_def split: if_splits)
    then have "join_with '','' as' @ z # r = join_with '','' bs' @ z # q"
      using t by (auto simp: tail_join_def)
    with Cons.IH [OF _ a(3) b(3)] Cons.prems(1) xy Cons show ?thesis by simp
  qed
qed

lemma hd_num: "num_rendering num \<Longrightarrow> num x = Some a \<Longrightarrow>
    a \<noteq> [] \<and> hd a \<notin> set ''ntf,}]{['' \<and> hd a \<noteq> CHR 0x22"
  by (auto simp: num_rendering_def is_digit_def char_le_iff dest!: spec)

lemma num_cons: "num_rendering num \<Longrightarrow> num x = Some a \<Longrightarrow>
    \<exists>c cs. a = c # cs \<and> c \<notin> set ''ntf,}]{['' \<and> c \<noteq> CHR 0x22"
  using hd_num [of num x a] by (cases a) auto

lemma render_head:
  assumes "num_rendering num" "render num v = Some a"
  shows "a \<noteq> [] \<and> value_head (hd a)"
  using assms hd_num [OF assms(1)]
  by (cases v) (auto simp: value_head_def json_string_def split: option.splits if_splits)

lemma field_head: "opt_field k x = Some b \<Longrightarrow> b \<noteq> [] \<and> value_head (hd b)"
  by (auto simp: opt_field_def value_head_def json_string_def split: option.splits)

lemma field_inj:
  assumes "inj_at (render num) v"
  shows "inj_at (\<lambda>(k, v). opt_field k (render num v)) (k, v)"
  unfolding inj_at_def
proof (intro allI impI, goal_cases)
  case (1 y a b r q)
  obtain k' v' where y: "y = (k', v')" by (cases y)
  from 1 y obtain a' b' where ab: "render num v = Some a'" "render num v' = Some b'"
    "a = json_string k @ '':'' @ a'" "b = json_string k' @ '':'' @ b'"
    by (auto simp: opt_field_def split: option.splits)
  with 1 have "json_string k @ '':'' @ a' @ r = json_string k' @ '':'' @ b' @ q" by simp
  from json_string_inj [OF this] have "k = k'" "a' @ r = b' @ q" by auto
  with assms ab 1 y show ?case unfolding inj_at_def by blast
qed

lemma render_opt_map: "(case opt_list (map f xs) of None \<Rightarrow> None | Some rs \<Rightarrow> Some (g rs)) = Some a \<longleftrightarrow>
    (\<exists>rs. map f xs = map Some rs \<and> a = g rs)"
  by (auto simp: opt_list_Some split: option.splits)

lemma render_inj:
  assumes num: "num_rendering num"
  shows "inj_at (render num) v"
proof (induction v)
  case GNil
  then show ?case unfolding inj_at_def
  proof (intro allI impI, goal_cases)
    case (1 w a b r q)
    then show ?case
      by (cases w) (auto simp: render_opt_map json_string_def split: if_splits dest!: num_cons [OF num])
  qed
next
  case (GBool x)
  then show ?case unfolding inj_at_def
  proof (intro allI impI, goal_cases)
    case (1 w a b r q)
    then show ?case
      by (cases w) (auto simp: render_opt_map json_string_def split: if_splits dest!: num_cons [OF num])
  qed
next
  case (GNum x)
  then show ?case unfolding inj_at_def
  proof (intro allI impI, goal_cases)
    case (1 w a b r q)
    show ?case
    proof (cases w)
      case (GNum y)
      with 1 have n: "num x = Some a" "num y = Some b" by auto
      with num have "a = b \<and> r = q"
        using 1 by (intro run_split [where P = num_char]) (auto simp: num_rendering_def dest: stop_not_num)
      with n num GNum show ?thesis by (auto simp: num_rendering_def)
    qed (use 1 in \<open>auto simp: render_opt_map json_string_def split: if_splits dest!: num_cons [OF num]\<close>)
  qed
next
  case (GStr s)
  then show ?case unfolding inj_at_def
  proof (intro allI impI, goal_cases)
    case (1 w a b r q)
    show ?case
    proof (cases w)
      case (GStr t)
      with 1 json_string_inj [of s r t q] show ?thesis by auto
    qed (use 1 in \<open>auto simp: render_opt_map json_string_def split: if_splits dest!: num_cons [OF num]\<close>)
  qed
next
  case (GList vs)
  show ?case unfolding inj_at_def
  proof (intro allI impI, goal_cases)
    case (1 w a b r q)
    show ?case
    proof (cases w)
      case (GList ws)
      with 1 obtain as bs where m: "map (render num) vs = map Some as" "map (render num) ws = map Some bs"
        "a = ''['' @ join_with '','' as @ '']''" "b = ''['' @ join_with '','' bs @ '']''"
        by (auto simp: render_opt_map)
      have "vs = ws \<and> r = q"
        by (rule joined_inj [OF _ _ _ m(1,2)])
          (use GList.IH render_head [OF num] 1(3) m in auto)
      with GList show ?thesis by simp
    qed (use 1 in \<open>auto simp: render_opt_map json_string_def split: if_splits dest!: num_cons [OF num]\<close>)
  qed
next
  case (GMap kvs)
  show ?case unfolding inj_at_def
  proof (intro allI impI, goal_cases)
    case (1 w a b r q)
    let ?f = "\<lambda>(k, v). opt_field k (render num v)"
    show ?case
    proof (cases w)
      case (GMap ws)
      with 1 obtain as bs where m: "map ?f kvs = map Some as" "map ?f ws = map Some bs"
        "a = ''{'' @ join_with '','' as @ ''}''" "b = ''{'' @ join_with '','' bs @ ''}''"
        by (auto simp: render_opt_map)
      have "\<forall>x \<in> set kvs. inj_at ?f x"
      proof
        fix x assume x: "x \<in> set kvs"
        obtain k v where kv: "x = (k, v)" by (cases x)
        with x GMap.IH have "inj_at (render num) v" by (auto simp: prod_set_simps)
        then show "inj_at ?f x" unfolding kv by (rule field_inj)
      qed
      moreover have "b \<noteq> [] \<and> value_head (hd b)" if "?f y = Some b" for y b
        using that by (cases y) (auto dest: field_head)
      ultimately have "kvs = ws \<and> r = q"
        by (intro joined_inj [OF _ _ _ m(1,2), where z = "CHR ''}''"]) (use 1(3) m in auto)
      with GMap show ?thesis by simp
    qed (use 1 in \<open>auto simp: render_opt_map json_string_def split: if_splits dest!: num_cons [OF num]\<close>)
  qed
qed

lemma same_json_sym: "same_json v w \<Longrightarrow> same_json w v"
proof (induction rule: same_json.induct)
  case (list vs ws)
  then show ?case by (intro same_json.list) (auto simp: list_all2_conv_all_nth)
qed (auto intro: same_json.intros)

lemma canon_same_trans: "same_json v w \<Longrightarrow> same_json w u \<Longrightarrow> same_json v u"
proof (induction arbitrary: u rule: same_json.induct)
  case (list vs ws)
  then show ?case by (auto simp: same_json_simps list_all2_conv_all_nth)
next
  case (obj xs ys)
  from obj.prems obtain zs where u: "u = GMap zs" "set (map fst ys) = set (map fst zs)"
    "\<And>k v w. map_of ys k = Some v \<Longrightarrow> map_of zs k = Some w \<Longrightarrow> same_json v w"
    by (auto simp: same_json_simps)
  have "same_json v w" if "map_of xs k = Some v" "map_of zs k = Some w" for k v w
  proof -
    from that(1) obj.hyps(1) obtain y where "map_of ys k = Some y"
      by (metis domD domI dom_map_of_conv_image_fst set_map)
    with that obj.IH u(3) show ?thesis by blast
  qed
  with u obj.hyps(1) show ?case by (auto intro: same_json.obj)
qed auto

lemma marshalSorted_inj:
  assumes "num_rendering num" "wf_goval v" "wf_goval w"
    and "marshalSorted num v = Some a" "marshalSorted num w = Some a"
  shows "same_json v w"
proof -
  from assms(4,5) have "render num (canon v) = Some a" "render num (canon w) = Some a"
    by (simp_all add: marshalSorted_render)
  with render_inj [OF assms(1), of "canon v"] have "canon v = canon w"
    unfolding inj_at_def by (metis stop_simps(1))
  then show ?thesis
    using render_marshal_same [OF assms(2)] render_marshal_same [OF assms(3)]
    by (metis canon_same_trans same_json_sym)
qed

end
