(* ===== verification/Config.thy ===== *)
theory Config
  imports Json "HOL-Library.Word"
begin

text \<open>
  The configuration types of \<^verbatim>\<open>pkg/config/config.go\<close>, field by field, and the loader of
  \<^verbatim>\<open>pkg/config/loader.go\<close>: the defaults it applies to the elements of the upstream list,
  the initial load, the hot reload, and the debouncing file watcher. Reading and merging the YAML file and
  the environment is \<^verbatim>\<open>goga/config\<close>, a parameter of the model.

  A \<^verbatim>\<open>time.Duration\<close> and a \<^verbatim>\<open>time.Time\<close> are integers (nanoseconds). Configuration maps are
  association lists. The interface values the manager injects (pools, token store,
  callback registrar) are references: a pool is known by the name it is registered
  under, the other two by a number.
\<close>

section \<open>Configuration types\<close>

type_synonym Duration = int
type_synonym Time = int
type_synonym 'a gomap = "(string \<times> 'a) list"
type_synonym PoolAcquirer = string
type_synonym OAuthTokenStore = nat
type_synonym OAuthCallbackRegistrar = nat

record ServerTLSConfig =
  CertPath :: string
  KeyPath :: string
  MinVersion :: string
  ClientAuth :: string
  ClientCAPath :: string

record ServerConfig =
  Port :: int
  ReadTimeout :: Duration
  WriteTimeout :: Duration
  ShutdownTimeout :: Duration
  MaxRequestBody :: string
  StartupValidationTimeout :: Duration
  TLS :: ServerTLSConfig

record TelemetryConfig =
  ServiceName :: string
  ServiceVersion :: string
  OTLPEndpoint :: string
  Insecure :: bool

record SlugRulesConfig =
  ReplaceSlashes :: bool
  ReplaceBraces :: bool
  ExpandCamelCase :: bool
  Lowercase :: bool
  CollapseSeparators :: bool

record NamingConfig =
  Separator :: string
  MaxLength :: int
  ConflictResolution :: string
  DescriptionMaxLength :: int
  DescriptionTruncationSuffix :: string
  DefaultSlugRules :: SlugRulesConfig

record TLSConfig =
  InsecureSkipVerify :: bool
  MinVersion :: string
  MaxVersion :: string
  RootCAPath :: string
  ClientCertPath :: string
  ClientKeyPath :: string
  ServerName :: string
  SessionCacheSize :: int

record TransportConfig =
  MaxIdleConns :: int
  MaxIdleConnsPerHost :: int
  IdleConnTimeout :: Duration
  DialTimeout :: Duration
  DialKeepalive :: Duration
  ResponseHeaderTimeout :: Duration
  ForceHTTP2 :: bool
  ProxyURL :: string
  TLS :: TLSConfig

record OpenAPISourceConfig =
  Source :: string
  AuthHeader :: string
  RefreshInterval :: Duration
  MaxRefreshFailures :: int
  AllowExternalRefs :: bool
  Version :: string

record OverlayConfig =
  Source :: string
  AuthHeader :: string
  RefreshInterval :: Duration
  Inline :: string

record ValidationConfig =
  ValidateRequest :: bool
  ValidateResponse :: bool
  ResponseValidationFailure :: string
  SuccessStatus :: "int list"
  ErrorStatus :: "int list"

record JWTAuthConfig =
  Issuer :: string
  Audience :: string
  JWKSURL :: string

record IntrospectionConfig =
  Issuer :: string
  ClientID :: string
  ClientSecret :: string
  Audience :: string

record APIKeyAuthConfig =
  Header :: string
  KeysEnv :: string

record LuaAuthConfig =
  ScriptPath :: string
  Timeout :: Duration

record JSAuthConfig =
  ScriptPath :: string
  Timeout :: Duration
  Env :: "string gomap"

record InboundAuthConfig =
  Strategy :: string
  JWT :: JWTAuthConfig
  Introspection :: IntrospectionConfig
  APIKey :: APIKeyAuthConfig
  Lua :: LuaAuthConfig
  JS :: JSAuthConfig
  JSAuthPool :: "PoolAcquirer option"
  LuaAuthPool :: "PoolAcquirer option"

record BearerOutboundConfig =
  TokenEnv :: string

record APIKeyOutboundConfig =
  Header :: string
  ValueEnv :: string
  Prefix :: string

record OAuth2CCConfig =
  TokenURL :: string
  ClientID :: string
  ClientSecret :: string
  Scopes :: "string list"

record OAuth2UserSessionConfig =
  Provider :: string
  IssuerURL :: string
  AuthURL :: string
  TokenURL :: string
  ClientID :: string
  ClientSecret :: string
  Scopes :: "string list"
  CallbackURL :: string

record LuaOutboundConfig =
  ScriptPath :: string
  Timeout :: Duration

record JSOutboundConfig =
  ScriptPath :: string
  Timeout :: Duration
  Env :: "string gomap"

record OutboundAuthConfig =
  Strategy :: string
  Bearer :: BearerOutboundConfig
  APIKey :: APIKeyOutboundConfig
  OAuth2ClientCredentials :: OAuth2CCConfig
  OAuth2UserSession :: OAuth2UserSessionConfig
  Lua :: LuaOutboundConfig
  JS :: JSOutboundConfig
  Upstream :: string
  JSAuthPool :: "PoolAcquirer option"
  LuaAuthPool :: "PoolAcquirer option"
  OAuthTokenStore :: "OAuthTokenStore option"
  OAuthCallbackReg :: "OAuthCallbackRegistrar option"

record CommandSchemaProperty =
  Type :: string
  Description :: string

record CommandInputSchema =
  Type :: string
  Properties :: "CommandSchemaProperty gomap"
  Required :: "string list"

record CommandConfig =
  ToolName :: string
  Description :: string
  Command :: string
  InputSchema :: CommandInputSchema
  Timeout :: Duration
  Env :: "string gomap"
  WorkingDir :: string
  Shell :: bool
  MaxOutput :: int

record ScriptConfig =
  ToolName :: string
  Description :: string
  ScriptPath :: string
  InputSchema :: CommandInputSchema
  Timeout :: Duration
  Env :: "string gomap"

record AppUIConfig =
  Static :: string
  Script :: string

record UpstreamConfig =
  Name :: string
  Enabled :: bool
  ToolPrefix :: string
  Type :: string
  BaseURL :: string
  Cache :: string
  Timeout :: Duration
  TLSSkipVerify :: bool
  Headers :: "string gomap"
  Transport :: TransportConfig
  OpenAPI :: OpenAPISourceConfig
  Overlay :: "OverlayConfig option"
  StartupValidationTimeout :: Duration
  Validation :: ValidationConfig
  InboundAuthOverride :: "InboundAuthConfig option"
  OutboundAuth :: OutboundAuthConfig
  Commands :: "CommandConfig list"
  Scripts :: "ScriptConfig list"
  RateLimit :: string
  CircuitBreaker :: string
  AppUI :: "AppUIConfig option"
  JSScriptPool :: "PoolAcquirer option"

record GroupConfig =
  Name :: string
  Endpoint :: string
  Upstreams :: "string list"
  Filter :: string

record JSRuntimeConfig =
  MaxAuthVMs :: int
  MaxScriptVMs :: int

record LuaRuntimeConfig =
  MaxAuthVMs :: int

record RuntimeConfig =
  JS :: JSRuntimeConfig
  Lua :: LuaRuntimeConfig

record TokenCountingConfig =
  Enabled :: bool
  Encoding :: string

record RateLimitConfig =
  Average :: int
  Period :: Duration
  Burst :: int
  Source :: string

record RedisStoreConfig =
  Addr :: string
  Password :: string

record RateLimitStoreConfig =
  Redis :: "RedisStoreConfig option"

record OpenAIEmbedConfig =
  APIKey :: string
  Model :: string

record OpenAICompatEmbedConfig =
  BaseURL :: string
  APIKey :: string
  Model :: string

record OllamaEmbedConfig =
  BaseURL :: string
  Model :: string

record CohereEmbedConfig =
  APIKey :: string
  Model :: string

record MistralEmbedConfig =
  APIKey :: string

record JinaEmbedConfig =
  APIKey :: string
  Model :: string

record MixedbreadEmbedConfig =
  APIKey :: string
  Model :: string

record VertexEmbedConfig =
  APIKey :: string
  Project :: string
  Model :: string

record AzureOpenAIEmbedConfig =
  APIKey :: string
  DeploymentURL :: string
  APIVersion :: string
  Model :: string

record HugotEmbedConfig =
  ModelPath :: string
  OnnxFilename :: string

record EmbeddingConfig =
  Provider :: string
  OpenAI :: "OpenAIEmbedConfig option"
  OpenAICompat :: "OpenAICompatEmbedConfig option"
  Ollama :: "OllamaEmbedConfig option"
  Cohere :: "CohereEmbedConfig option"
  Mistral :: "MistralEmbedConfig option"
  Jina :: "JinaEmbedConfig option"
  Mixedbread :: "MixedbreadEmbedConfig option"
  Vertex :: "VertexEmbedConfig option"
  AzureOpenAI :: "AzureOpenAIEmbedConfig option"
  Hugot :: "HugotEmbedConfig option"

record ToolSearchConfig =
  Enabled :: bool
  Limit :: int
  Embedding :: EmbeddingConfig

record PostgresSessionConfig =
  DSN :: string
  EncryptionKey :: string

record RedisSessionConfig =
  Addr :: string
  Password :: string
  EncryptionKey :: string

record SessionStoreConfig =
  Provider :: string
  HMACKey :: string
  Postgres :: PostgresSessionConfig
  Redis :: RedisSessionConfig

record CacheConfig =
  TTL :: Duration
  PerUser :: bool

record RedisCacheConfig =
  Addr :: string
  Password :: string

record CacheStoreConfig =
  Provider :: string
  Redis :: "RedisCacheConfig option"

record CircuitBreakerConfig =
  Threshold :: rat
  MinRequests :: "32 word"
  FallbackDuration :: Duration
  RecoveryDuration :: Duration

record ProxyConfig =
  Server :: ServerConfig
  Telemetry :: TelemetryConfig
  Naming :: NamingConfig
  Upstreams :: "UpstreamConfig list"
  InboundAuth :: InboundAuthConfig
  Groups :: "GroupConfig list"
  Runtime :: RuntimeConfig
  TokenCounting :: TokenCountingConfig
  RateLimits :: "RateLimitConfig gomap"
  RateLimitStore :: RateLimitStoreConfig
  ToolSearch :: "ToolSearchConfig option"
  SessionStore :: SessionStoreConfig
  Caches :: "CacheConfig gomap"
  CacheStore :: CacheStoreConfig
  CircuitBreakers :: "CircuitBreakerConfig gomap"

record ToolUIConfig =
  Static :: string
  Script :: string

record OAuthToken =
  AccessToken :: string
  RefreshToken :: string
  Expiry :: Time
  TokenType :: string

section \<open>Zero values\<close>

text \<open>The value a declared but not assigned variable of each type has in Go.\<close>

definition zeroTLSConfig :: TLSConfig where
  "zeroTLSConfig =
    \<lparr>TLSConfig.InsecureSkipVerify = False, TLSConfig.MinVersion = [],
     TLSConfig.MaxVersion = [], TLSConfig.RootCAPath = [], TLSConfig.ClientCertPath = [],
     TLSConfig.ClientKeyPath = [], TLSConfig.ServerName = [], TLSConfig.SessionCacheSize = 0\<rparr>"

definition zeroTransportConfig :: TransportConfig where
  "zeroTransportConfig =
    \<lparr>TransportConfig.MaxIdleConns = 0, TransportConfig.MaxIdleConnsPerHost = 0,
     TransportConfig.IdleConnTimeout = 0, TransportConfig.DialTimeout = 0,
     TransportConfig.DialKeepalive = 0, TransportConfig.ResponseHeaderTimeout = 0,
     TransportConfig.ForceHTTP2 = False, TransportConfig.ProxyURL = [],
     TransportConfig.TLS = zeroTLSConfig\<rparr>"

definition zeroOpenAPISourceConfig :: OpenAPISourceConfig where
  "zeroOpenAPISourceConfig =
    \<lparr>OpenAPISourceConfig.Source = [], OpenAPISourceConfig.AuthHeader = [],
     OpenAPISourceConfig.RefreshInterval = 0, OpenAPISourceConfig.MaxRefreshFailures = 0,
     OpenAPISourceConfig.AllowExternalRefs = False, OpenAPISourceConfig.Version = []\<rparr>"

definition zeroValidationConfig :: ValidationConfig where
  "zeroValidationConfig =
    \<lparr>ValidationConfig.ValidateRequest = False, ValidationConfig.ValidateResponse = False,
     ValidationConfig.ResponseValidationFailure = [], ValidationConfig.SuccessStatus = [],
     ValidationConfig.ErrorStatus = []\<rparr>"

definition zeroBearerOutboundConfig :: BearerOutboundConfig where
  "zeroBearerOutboundConfig =
    \<lparr>BearerOutboundConfig.TokenEnv = []\<rparr>"

definition zeroAPIKeyOutboundConfig :: APIKeyOutboundConfig where
  "zeroAPIKeyOutboundConfig =
    \<lparr>APIKeyOutboundConfig.Header = [], APIKeyOutboundConfig.ValueEnv = [],
     APIKeyOutboundConfig.Prefix = []\<rparr>"

definition zeroOAuth2CCConfig :: OAuth2CCConfig where
  "zeroOAuth2CCConfig =
    \<lparr>OAuth2CCConfig.TokenURL = [], OAuth2CCConfig.ClientID = [],
     OAuth2CCConfig.ClientSecret = [], OAuth2CCConfig.Scopes = []\<rparr>"

definition zeroOAuth2UserSessionConfig :: OAuth2UserSessionConfig where
  "zeroOAuth2UserSessionConfig =
    \<lparr>OAuth2UserSessionConfig.Provider = [], OAuth2UserSessionConfig.IssuerURL = [],
     OAuth2UserSessionConfig.AuthURL = [], OAuth2UserSessionConfig.TokenURL = [],
     OAuth2UserSessionConfig.ClientID = [], OAuth2UserSessionConfig.ClientSecret = [],
     OAuth2UserSessionConfig.Scopes = [], OAuth2UserSessionConfig.CallbackURL = []\<rparr>"

definition zeroLuaOutboundConfig :: LuaOutboundConfig where
  "zeroLuaOutboundConfig =
    \<lparr>LuaOutboundConfig.ScriptPath = [], LuaOutboundConfig.Timeout = 0\<rparr>"

definition zeroJSOutboundConfig :: JSOutboundConfig where
  "zeroJSOutboundConfig =
    \<lparr>JSOutboundConfig.ScriptPath = [], JSOutboundConfig.Timeout = 0, JSOutboundConfig.Env = []\<rparr>"

definition zeroOutboundAuthConfig :: OutboundAuthConfig where
  "zeroOutboundAuthConfig =
    \<lparr>OutboundAuthConfig.Strategy = [], OutboundAuthConfig.Bearer = zeroBearerOutboundConfig,
     OutboundAuthConfig.APIKey = zeroAPIKeyOutboundConfig,
     OutboundAuthConfig.OAuth2ClientCredentials = zeroOAuth2CCConfig,
     OutboundAuthConfig.OAuth2UserSession = zeroOAuth2UserSessionConfig,
     OutboundAuthConfig.Lua = zeroLuaOutboundConfig,
     OutboundAuthConfig.JS = zeroJSOutboundConfig, OutboundAuthConfig.Upstream = [],
     OutboundAuthConfig.JSAuthPool = None, OutboundAuthConfig.LuaAuthPool = None,
     OutboundAuthConfig.OAuthTokenStore = None, OutboundAuthConfig.OAuthCallbackReg = None\<rparr>"

definition zeroUpstreamConfig :: UpstreamConfig where
  "zeroUpstreamConfig =
    \<lparr>UpstreamConfig.Name = [], UpstreamConfig.Enabled = False, UpstreamConfig.ToolPrefix = [],
     UpstreamConfig.Type = [], UpstreamConfig.BaseURL = [], UpstreamConfig.Cache = [],
     UpstreamConfig.Timeout = 0, UpstreamConfig.TLSSkipVerify = False,
     UpstreamConfig.Headers = [], UpstreamConfig.Transport = zeroTransportConfig,
     UpstreamConfig.OpenAPI = zeroOpenAPISourceConfig, UpstreamConfig.Overlay = None,
     UpstreamConfig.StartupValidationTimeout = 0,
     UpstreamConfig.Validation = zeroValidationConfig,
     UpstreamConfig.InboundAuthOverride = None,
     UpstreamConfig.OutboundAuth = zeroOutboundAuthConfig, UpstreamConfig.Commands = [],
     UpstreamConfig.Scripts = [], UpstreamConfig.RateLimit = [],
     UpstreamConfig.CircuitBreaker = [], UpstreamConfig.AppUI = None,
     UpstreamConfig.JSScriptPool = None\<rparr>"

definition zeroGroupConfig :: GroupConfig where
  "zeroGroupConfig =
    \<lparr>GroupConfig.Name = [], GroupConfig.Endpoint = [], GroupConfig.Upstreams = [],
     GroupConfig.Filter = []\<rparr>"

definition zeroServerTLSConfig :: ServerTLSConfig where
  "zeroServerTLSConfig =
    \<lparr>ServerTLSConfig.CertPath = [], ServerTLSConfig.KeyPath = [],
     ServerTLSConfig.MinVersion = [], ServerTLSConfig.ClientAuth = [],
     ServerTLSConfig.ClientCAPath = []\<rparr>"

definition zeroServerConfig :: ServerConfig where
  "zeroServerConfig =
    \<lparr>ServerConfig.Port = 0, ServerConfig.ReadTimeout = 0, ServerConfig.WriteTimeout = 0,
     ServerConfig.ShutdownTimeout = 0, ServerConfig.MaxRequestBody = [],
     ServerConfig.StartupValidationTimeout = 0, ServerConfig.TLS = zeroServerTLSConfig\<rparr>"

definition zeroTelemetryConfig :: TelemetryConfig where
  "zeroTelemetryConfig =
    \<lparr>TelemetryConfig.ServiceName = [], TelemetryConfig.ServiceVersion = [],
     TelemetryConfig.OTLPEndpoint = [], TelemetryConfig.Insecure = False\<rparr>"

definition zeroSlugRulesConfig :: SlugRulesConfig where
  "zeroSlugRulesConfig =
    \<lparr>SlugRulesConfig.ReplaceSlashes = False, SlugRulesConfig.ReplaceBraces = False,
     SlugRulesConfig.ExpandCamelCase = False, SlugRulesConfig.Lowercase = False,
     SlugRulesConfig.CollapseSeparators = False\<rparr>"

definition zeroNamingConfig :: NamingConfig where
  "zeroNamingConfig =
    \<lparr>NamingConfig.Separator = [], NamingConfig.MaxLength = 0,
     NamingConfig.ConflictResolution = [], NamingConfig.DescriptionMaxLength = 0,
     NamingConfig.DescriptionTruncationSuffix = [],
     NamingConfig.DefaultSlugRules = zeroSlugRulesConfig\<rparr>"

definition zeroJWTAuthConfig :: JWTAuthConfig where
  "zeroJWTAuthConfig =
    \<lparr>JWTAuthConfig.Issuer = [], JWTAuthConfig.Audience = [], JWTAuthConfig.JWKSURL = []\<rparr>"

definition zeroIntrospectionConfig :: IntrospectionConfig where
  "zeroIntrospectionConfig =
    \<lparr>IntrospectionConfig.Issuer = [], IntrospectionConfig.ClientID = [],
     IntrospectionConfig.ClientSecret = [], IntrospectionConfig.Audience = []\<rparr>"

definition zeroAPIKeyAuthConfig :: APIKeyAuthConfig where
  "zeroAPIKeyAuthConfig =
    \<lparr>APIKeyAuthConfig.Header = [], APIKeyAuthConfig.KeysEnv = []\<rparr>"

definition zeroLuaAuthConfig :: LuaAuthConfig where
  "zeroLuaAuthConfig =
    \<lparr>LuaAuthConfig.ScriptPath = [], LuaAuthConfig.Timeout = 0\<rparr>"

definition zeroJSAuthConfig :: JSAuthConfig where
  "zeroJSAuthConfig =
    \<lparr>JSAuthConfig.ScriptPath = [], JSAuthConfig.Timeout = 0, JSAuthConfig.Env = []\<rparr>"

definition zeroInboundAuthConfig :: InboundAuthConfig where
  "zeroInboundAuthConfig =
    \<lparr>InboundAuthConfig.Strategy = [], InboundAuthConfig.JWT = zeroJWTAuthConfig,
     InboundAuthConfig.Introspection = zeroIntrospectionConfig,
     InboundAuthConfig.APIKey = zeroAPIKeyAuthConfig,
     InboundAuthConfig.Lua = zeroLuaAuthConfig, InboundAuthConfig.JS = zeroJSAuthConfig,
     InboundAuthConfig.JSAuthPool = None, InboundAuthConfig.LuaAuthPool = None\<rparr>"

definition zeroJSRuntimeConfig :: JSRuntimeConfig where
  "zeroJSRuntimeConfig =
    \<lparr>JSRuntimeConfig.MaxAuthVMs = 0, JSRuntimeConfig.MaxScriptVMs = 0\<rparr>"

definition zeroLuaRuntimeConfig :: LuaRuntimeConfig where
  "zeroLuaRuntimeConfig =
    \<lparr>LuaRuntimeConfig.MaxAuthVMs = 0\<rparr>"

definition zeroRuntimeConfig :: RuntimeConfig where
  "zeroRuntimeConfig =
    \<lparr>RuntimeConfig.JS = zeroJSRuntimeConfig, RuntimeConfig.Lua = zeroLuaRuntimeConfig\<rparr>"

definition zeroTokenCountingConfig :: TokenCountingConfig where
  "zeroTokenCountingConfig =
    \<lparr>TokenCountingConfig.Enabled = False, TokenCountingConfig.Encoding = []\<rparr>"

definition zeroRateLimitStoreConfig :: RateLimitStoreConfig where
  "zeroRateLimitStoreConfig =
    \<lparr>RateLimitStoreConfig.Redis = None\<rparr>"

definition zeroPostgresSessionConfig :: PostgresSessionConfig where
  "zeroPostgresSessionConfig =
    \<lparr>PostgresSessionConfig.DSN = [], PostgresSessionConfig.EncryptionKey = []\<rparr>"

definition zeroRedisSessionConfig :: RedisSessionConfig where
  "zeroRedisSessionConfig =
    \<lparr>RedisSessionConfig.Addr = [], RedisSessionConfig.Password = [],
     RedisSessionConfig.EncryptionKey = []\<rparr>"

definition zeroSessionStoreConfig :: SessionStoreConfig where
  "zeroSessionStoreConfig =
    \<lparr>SessionStoreConfig.Provider = [], SessionStoreConfig.HMACKey = [],
     SessionStoreConfig.Postgres = zeroPostgresSessionConfig,
     SessionStoreConfig.Redis = zeroRedisSessionConfig\<rparr>"

definition zeroCacheStoreConfig :: CacheStoreConfig where
  "zeroCacheStoreConfig =
    \<lparr>CacheStoreConfig.Provider = [], CacheStoreConfig.Redis = None\<rparr>"

definition zeroProxyConfig :: ProxyConfig where
  "zeroProxyConfig =
    \<lparr>ProxyConfig.Server = zeroServerConfig, ProxyConfig.Telemetry = zeroTelemetryConfig,
     ProxyConfig.Naming = zeroNamingConfig, ProxyConfig.Upstreams = [],
     ProxyConfig.InboundAuth = zeroInboundAuthConfig, ProxyConfig.Groups = [],
     ProxyConfig.Runtime = zeroRuntimeConfig,
     ProxyConfig.TokenCounting = zeroTokenCountingConfig, ProxyConfig.RateLimits = [],
     ProxyConfig.RateLimitStore = zeroRateLimitStoreConfig, ProxyConfig.ToolSearch = None,
     ProxyConfig.SessionStore = zeroSessionStoreConfig, ProxyConfig.Caches = [],
     ProxyConfig.CacheStore = zeroCacheStoreConfig, ProxyConfig.CircuitBreakers = []\<rparr>"

definition zeroCommandInputSchema :: CommandInputSchema where
  "zeroCommandInputSchema =
    \<lparr>CommandInputSchema.Type = [], CommandInputSchema.Properties = [],
     CommandInputSchema.Required = []\<rparr>"

definition zeroCommandConfig :: CommandConfig where
  "zeroCommandConfig =
    \<lparr>CommandConfig.ToolName = [], CommandConfig.Description = [], CommandConfig.Command = [],
     CommandConfig.InputSchema = zeroCommandInputSchema, CommandConfig.Timeout = 0,
     CommandConfig.Env = [], CommandConfig.WorkingDir = [], CommandConfig.Shell = False,
     CommandConfig.MaxOutput = 0\<rparr>"

definition zeroScriptConfig :: ScriptConfig where
  "zeroScriptConfig =
    \<lparr>ScriptConfig.ToolName = [], ScriptConfig.Description = [], ScriptConfig.ScriptPath = [],
     ScriptConfig.InputSchema = zeroCommandInputSchema, ScriptConfig.Timeout = 0,
     ScriptConfig.Env = []\<rparr>"

lemmas zero_defs =
  zeroTLSConfig_def zeroTransportConfig_def zeroOpenAPISourceConfig_def
  zeroValidationConfig_def zeroBearerOutboundConfig_def zeroAPIKeyOutboundConfig_def
  zeroOAuth2CCConfig_def zeroOAuth2UserSessionConfig_def zeroLuaOutboundConfig_def
  zeroJSOutboundConfig_def zeroOutboundAuthConfig_def zeroUpstreamConfig_def
  zeroGroupConfig_def zeroServerTLSConfig_def zeroServerConfig_def zeroTelemetryConfig_def
  zeroSlugRulesConfig_def zeroNamingConfig_def zeroJWTAuthConfig_def
  zeroIntrospectionConfig_def zeroAPIKeyAuthConfig_def zeroLuaAuthConfig_def
  zeroJSAuthConfig_def zeroInboundAuthConfig_def zeroJSRuntimeConfig_def
  zeroLuaRuntimeConfig_def zeroRuntimeConfig_def zeroTokenCountingConfig_def
  zeroRateLimitStoreConfig_def zeroPostgresSessionConfig_def zeroRedisSessionConfig_def
  zeroSessionStoreConfig_def zeroCacheStoreConfig_def zeroProxyConfig_def
  zeroCommandInputSchema_def zeroCommandConfig_def zeroScriptConfig_def

section \<open>Defaults of the upstream entries\<close>

text \<open>
  The raw configuration is the merged tree the typed value was decoded from. Reading a key
  of a value that is not a map finds nothing, as a failed Go type assertion yields a nil map.
\<close>

definition raw_map :: "goval option \<Rightarrow> goval gomap" where
  "raw_map v = (case v of Some (GMap kvs) \<Rightarrow> kvs | _ \<Rightarrow> [])"

definition raw_list :: "goval option \<Rightarrow> goval list" where
  "raw_list v = (case v of Some (GList vs) \<Rightarrow> vs | _ \<Rightarrow> [])"

definition has_key :: "'a gomap \<Rightarrow> string \<Rightarrow> bool" where
  "has_key m k \<longleftrightarrow> map_of m k \<noteq> None"

definition applyValidationDefaults :: "goval gomap \<Rightarrow> ValidationConfig \<Rightarrow> ValidationConfig" where
  "applyValidationDefaults rawUp v =
     (let rawVal = raw_map (map_of rawUp ''validation'');
          v = (if \<not> has_key rawVal ''validate_request'' then v\<lparr>ValidateRequest := True\<rparr> else v);
          v = (if \<not> has_key rawVal ''validate_response'' then v\<lparr>ValidateResponse := True\<rparr> else v);
          v = (if ResponseValidationFailure v = [] then v\<lparr>ResponseValidationFailure := ''warn''\<rparr> else v);
          v = (if SuccessStatus v = [] then v\<lparr>SuccessStatus := [200, 201, 202, 204]\<rparr> else v);
          v = (if ErrorStatus v = []
               then v\<lparr>ErrorStatus := [400, 401, 403, 404, 422, 429, 500, 502, 503]\<rparr> else v)
      in v)"

definition second :: Duration where
  "second = 1000000000"

definition upstreamDefaults :: "ServerConfig \<Rightarrow> goval gomap \<Rightarrow> UpstreamConfig \<Rightarrow> UpstreamConfig" where
  "upstreamDefaults server rawUp up =
     (let up = (if UpstreamConfig.Timeout up = 0 then up\<lparr>UpstreamConfig.Timeout := 10 * second\<rparr> else up);
          up = (if \<not> has_key rawUp ''enabled'' then up\<lparr>UpstreamConfig.Enabled := True\<rparr> else up);
          up = (if UpstreamConfig.StartupValidationTimeout up = 0
                then up\<lparr>UpstreamConfig.StartupValidationTimeout := ServerConfig.StartupValidationTimeout server\<rparr>
                else up)
      in up\<lparr>Validation := applyValidationDefaults rawUp (Validation up)\<rparr>)"

definition rawUpstream :: "goval list \<Rightarrow> nat \<Rightarrow> goval gomap" where
  "rawUpstream rawUpstreams i =
     (if i < length rawUpstreams then raw_map (Some (rawUpstreams ! i)) else [])"

definition applyElementDefaults :: "goval option \<Rightarrow> ProxyConfig \<Rightarrow> ProxyConfig" where
  "applyElementDefaults rawUps cfg =
     cfg\<lparr>Upstreams := map (\<lambda>(i, up). upstreamDefaults (Server cfg) (rawUpstream (raw_list rawUps) i) up)
        (enumerate 0 (Upstreams cfg))\<rparr>"

section \<open>Loading, reloading and watching\<close>

datatype 'e load_error = LoadFailed 'e | ValidationFailed 'e

text \<open>\<^verbatim>\<open>gogaconfig.Load\<close> is the parameter \<^term>\<open>goga\<close>: it returns the decoded value and the raw
  value of the key \<^verbatim>\<open>upstreams\<close>. The world \<^typ>\<open>'w\<close> is what it reads and what the validation
  callback \<^term>\<open>onLoad\<close> changes (the MCP servers).\<close>

type_synonym ('w, 'e) goga_load = "string \<Rightarrow> 'w \<Rightarrow> 'e + (ProxyConfig \<times> goval option)"
type_synonym ('w, 'e) on_load = "ProxyConfig \<Rightarrow> 'w \<Rightarrow> 'e option \<times> 'w"

definition Load :: "('w, 'e) goga_load \<Rightarrow> string \<Rightarrow> 'w \<Rightarrow> 'e + ProxyConfig" where
  "Load goga path w =
     (case goga path w of Inl e \<Rightarrow> Inl e
      | Inr (cfg, raw) \<Rightarrow> Inr (applyElementDefaults raw cfg))"

record Loader =
  l_path :: string
  current :: "ProxyConfig option"
  reload_total :: nat
  reload_errors :: nat
  reload_success :: nat

definition NewLoader ::
    "('w, 'e) goga_load \<Rightarrow> ('w, 'e) on_load \<Rightarrow> string \<Rightarrow> 'w \<Rightarrow> ('e load_error + Loader) \<times> 'w" where
  "NewLoader goga onLoad p w =
     (case Load goga p w of Inl e \<Rightarrow> (Inl (LoadFailed e), w)
      | Inr cfg \<Rightarrow>
          (case onLoad cfg w of
             (Some e, w') \<Rightarrow> (Inl (ValidationFailed e), w')
           | (None, w') \<Rightarrow>
               (Inr \<lparr>l_path = p, current = Some cfg, reload_total = 0, reload_errors = 0, reload_success = 0\<rparr>, w')))"

definition tryReload :: "('w, 'e) goga_load \<Rightarrow> ('w, 'e) on_load \<Rightarrow> Loader \<Rightarrow> 'w \<Rightarrow> Loader \<times> 'w" where
  "tryReload goga onLoad l w =
     (let l = l\<lparr>reload_total := reload_total l + 1\<rparr> in
      case Load goga (l_path l) w of
        Inl e \<Rightarrow> (l\<lparr>reload_errors := reload_errors l + 1\<rparr>, w)
      | Inr cfg \<Rightarrow>
          (case onLoad cfg w of
             (Some e, w') \<Rightarrow> (l\<lparr>reload_errors := reload_errors l + 1\<rparr>, w')
           | (None, w') \<Rightarrow>
               (l\<lparr>current := Some cfg, reload_success := reload_success l + 1\<rparr>, w')))"

text \<open>
  The watcher's select loop, one event per iteration. A file-system event carries whether
  its operation mask has the create or the write bit. Between two events of the loop the
  debounce timer may fire, which runs \<^verbatim>\<open>tryReload\<close>; stopping a timer that has not fired
  prevents that.
\<close>

datatype watch_event =
    FsEvent bool
  | WatchError
  | TimerFires
  | ContextDone
  | ChannelClosed

record watch_state =
  armed :: bool
  stopped :: bool
  reloads :: nat

definition watch_init :: watch_state where
  "watch_init = \<lparr>armed = False, stopped = False, reloads = 0\<rparr>"

fun watch_step :: "watch_event \<Rightarrow> watch_state \<Rightarrow> watch_state" where
  "watch_step (FsEvent relevant) s =
     (if stopped s \<or> \<not> relevant then s else s\<lparr>armed := True\<rparr>)"
| "watch_step WatchError s = s"
| "watch_step TimerFires s =
     (if armed s then s\<lparr>armed := False, reloads := reloads s + 1\<rparr> else s)"
| "watch_step ContextDone s =
     (if stopped s then s else s\<lparr>armed := False, stopped := True\<rparr>)"
| "watch_step ChannelClosed s = (if stopped s then s else s\<lparr>stopped := True\<rparr>)"

definition Watch :: "watch_event list \<Rightarrow> watch_state" where
  "Watch evs = fold watch_step evs watch_init"

section \<open>Lemmas\<close>

lemma upstreamDefaults_fields:
  "UpstreamConfig.Timeout (upstreamDefaults sv raw up) =
     (if UpstreamConfig.Timeout up = 0 then 10 * second else UpstreamConfig.Timeout up)"
  "UpstreamConfig.Enabled (upstreamDefaults sv raw up) =
     (\<not> has_key raw ''enabled'' \<or> UpstreamConfig.Enabled up)"
  "UpstreamConfig.StartupValidationTimeout (upstreamDefaults sv raw up) =
     (if UpstreamConfig.StartupValidationTimeout up = 0
      then ServerConfig.StartupValidationTimeout sv else UpstreamConfig.StartupValidationTimeout up)"
  "Validation (upstreamDefaults sv raw up) = applyValidationDefaults raw (Validation up)"
  "UpstreamConfig.Name (upstreamDefaults sv raw up) = UpstreamConfig.Name up"
  "UpstreamConfig.ToolPrefix (upstreamDefaults sv raw up) = UpstreamConfig.ToolPrefix up"
  by (auto simp: upstreamDefaults_def Let_def)

lemma applyValidationDefaults_fields:
  "ValidateRequest (applyValidationDefaults raw v) =
     (\<not> has_key (raw_map (map_of raw ''validation'')) ''validate_request'' \<or> ValidateRequest v)"
  "ValidateResponse (applyValidationDefaults raw v) =
     (\<not> has_key (raw_map (map_of raw ''validation'')) ''validate_response'' \<or> ValidateResponse v)"
  "ResponseValidationFailure (applyValidationDefaults raw v) =
     (if ResponseValidationFailure v = [] then ''warn'' else ResponseValidationFailure v)"
  "SuccessStatus (applyValidationDefaults raw v) =
     (if SuccessStatus v = [] then [200, 201, 202, 204] else SuccessStatus v)"
  "ErrorStatus (applyValidationDefaults raw v) =
     (if ErrorStatus v = [] then [400, 401, 403, 404, 422, 429, 500, 502, 503] else ErrorStatus v)"
  by (simp_all add: applyValidationDefaults_def Let_def)

lemma applyValidationDefaults_idem:
  "applyValidationDefaults raw (applyValidationDefaults raw v) = applyValidationDefaults raw v"
  by (rule ValidationConfig.equality) (simp_all add: applyValidationDefaults_fields)

lemma upstreamDefaults_idem:
  "upstreamDefaults sv raw (upstreamDefaults sv raw up) = upstreamDefaults sv raw up"
  by (cases "UpstreamConfig.Timeout up = 0"; cases "has_key raw ''enabled''";
      cases "UpstreamConfig.StartupValidationTimeout up = 0";
      cases "ServerConfig.StartupValidationTimeout sv = 0")
    (simp_all add: upstreamDefaults_def Let_def applyValidationDefaults_idem second_def)

lemma applyElementDefaults_nth:
  assumes "i < length (Upstreams cfg)"
  shows "Upstreams (applyElementDefaults raw cfg) ! i =
    upstreamDefaults (Server cfg) (rawUpstream (raw_list raw) i) (Upstreams cfg ! i)"
  using assms by (simp add: applyElementDefaults_def nth_enumerate_eq)

lemma applyElementDefaults_length:
  "length (Upstreams (applyElementDefaults raw cfg)) = length (Upstreams cfg)"
  by (simp add: applyElementDefaults_def)

lemma applyElementDefaults_server: "Server (applyElementDefaults raw cfg) = Server cfg"
  by (simp add: applyElementDefaults_def)

lemma applyElementDefaults_idem:
  "applyElementDefaults raw (applyElementDefaults raw cfg) = applyElementDefaults raw cfg"
proof -
  have "Upstreams (applyElementDefaults raw (applyElementDefaults raw cfg)) =
      Upstreams (applyElementDefaults raw cfg)"
    by (rule nth_equalityI)
      (simp_all add: applyElementDefaults_length applyElementDefaults_nth applyElementDefaults_server
        upstreamDefaults_idem)
  then show ?thesis by (simp add: applyElementDefaults_def)
qed

lemma tryReload_counts:
  "tryReload goga onLoad l w = (l', w') \<Longrightarrow>
     reload_total l' = reload_total l + 1 \<and>
     reload_errors l' + reload_success l' = reload_errors l + reload_success l + 1"
  by (auto simp: tryReload_def Let_def split: sum.splits prod.splits option.splits)

lemma tryReload_current:
  assumes "tryReload goga onLoad l w = (l', w')"
  shows "current l' =
    (case Load goga (l_path l) w of Inl _ \<Rightarrow> current l
     | Inr cfg \<Rightarrow> if fst (onLoad cfg w) = None then Some cfg else current l)"
  using assms by (auto simp: tryReload_def Let_def split: sum.splits prod.splits option.splits)

lemma watch_burst_armed:
  "armed s \<or> (\<exists>e \<in> set evs. e = FsEvent True) \<Longrightarrow> \<forall>e \<in> set evs. \<exists>b. e = FsEvent b \<Longrightarrow> \<not> stopped s \<Longrightarrow>
     fold watch_step evs s = s\<lparr>armed := True\<rparr>"
  by (induction evs arbitrary: s) auto

end
