(* ===== verification/Naming.thy ===== *)
theory Naming
  imports Config
begin

text \<open>
  Tool naming, \<^verbatim>\<open>pkg/openapi/naming.go\<close>: slugs from method and path, sanitised operation
  ids, prefixing with truncation, description truncation and conflict detection.
  The lemmas show the shape of the produced names (alphabet, no doubled or outer
  underscore), that sanitising is idempotent, the length bounds of the truncations,
  and what each conflict resolution keeps.
\<close>

section \<open>Tool names\<close>

record PrefixedTool =
  pt_PrefixedName :: string
  pt_OriginalPath :: string
  pt_OriginalMethod :: string

section \<open>Slugs\<close>

text \<open>The character class of \<^verbatim>\<open>nonAlnumUnderscore\<close>, negated.\<close>

definition alnum_us :: "char \<Rightarrow> bool" where
  "alnum_us c \<longleftrightarrow> is_lower c \<or> is_upper c \<or> is_digit c \<or> c = CHR ''_''"

definition nonAlnumUnderscore :: "string \<Rightarrow> string" where
  "nonAlnumUnderscore s = replace_runs (\<lambda>c. \<not> alnum_us c) ''_'' s"

definition runOfUnderscores :: "string \<Rightarrow> string" where
  "runOfUnderscores s = replace_runs (\<lambda>c. c = CHR ''_'') ''_'' s"

text \<open>
  \<^verbatim>\<open>([A-Z]+)([A-Z][a-z])\<close> replaced by \<^verbatim>\<open>${1}_${2}\<close>. The leftmost greedy match inside a
  maximal upper-case run exists iff the run has two characters or more and a lower-case
  letter follows it; then group one is the run without its last character.
\<close>

fun camelUpperLower :: "string \<Rightarrow> string" where
  "camelUpperLower [] = []"
| "camelUpperLower (c # cs) =
     (if is_upper c
      then (let run = c # takeWhile is_upper cs; rest = dropWhile is_upper cs
            in if 2 \<le> length run \<and> rest \<noteq> [] \<and> is_lower (hd rest)
               then butlast run @ ''_'' @ [last run, hd rest] @ camelUpperLower (tl rest)
               else run @ camelUpperLower rest)
      else c # camelUpperLower cs)"

text \<open>\<^verbatim>\<open>([a-z0-9])([A-Z])\<close> replaced by \<^verbatim>\<open>${1}_${2}\<close>.\<close>

fun camelLowerUpper :: "string \<Rightarrow> string" where
  "camelLowerUpper [] = []"
| "camelLowerUpper [c] = [c]"
| "camelLowerUpper (c # d # cs) =
     (if (is_lower c \<or> is_digit c) \<and> is_upper d
      then c # CHR ''_'' # d # camelLowerUpper cs
      else c # camelLowerUpper (d # cs))"

definition slugVerb :: "string \<Rightarrow> bool \<Rightarrow> string" where
  "slugVerb method hasPathParams =
     (let m = to_upper method in
      if m = ''GET'' then (if \<not> hasPathParams then ''list'' else ''get'')
      else if m = ''POST'' then ''create''
      else if m = ''PUT'' then ''update''
      else if m = ''DELETE'' then ''delete''
      else if m = ''PATCH'' then ''patch''
      else to_lower method)"

definition Slugify :: "string \<Rightarrow> string \<Rightarrow> bool \<Rightarrow> SlugRulesConfig \<Rightarrow> string" where
  "Slugify method path hasPathParams rules =
     (let verb = slugVerb method hasPathParams;
          s0 = trim_prefix path ''/'';
          s1 = (if ReplaceBraces rules
                then replace_char (CHR ''}'') [] (replace_char (CHR ''{'') [] s0) else s0);
          s2 = (if ReplaceSlashes rules then replace_char (CHR ''/'') ''_'' s1 else s1);
          s3 = nonAlnumUnderscore s2;
          s4 = (if Lowercase rules then to_lower s3 else s3);
          s5 = (if CollapseSeparators rules then runOfUnderscores s4 else s4);
          s6 = trim_with (\<lambda>c. c = CHR ''_'') s5
      in verb @ ''_'' @ s6)"

definition sanitizeIdentifier :: "string \<Rightarrow> SlugRulesConfig \<Rightarrow> string" where
  "sanitizeIdentifier ident rules =
     (let s0 = (if ExpandCamelCase rules then camelLowerUpper (camelUpperLower ident) else ident);
          s1 = (if ReplaceBraces rules
                then replace_char (CHR ''}'') [] (replace_char (CHR ''{'') [] s0) else s0);
          s2 = (if ReplaceSlashes rules then replace_char (CHR ''/'') ''_'' s1 else s1);
          s3 = nonAlnumUnderscore s2;
          s4 = (if Lowercase rules then to_lower s3 else s3);
          s5 = (if CollapseSeparators rules then runOfUnderscores s4 else s4)
      in trim_with (\<lambda>c. c = CHR ''_'') s5)"

section \<open>Prefixing and truncation\<close>

text \<open>A \<^verbatim>\<open>maxLength\<close> is a Go \<^verbatim>\<open>int\<close>; slicing with \<^verbatim>\<open>[:n]\<close> happens only where the code has
  checked that \<^verbatim>\<open>n\<close> is positive and within the length.\<close>

definition PrefixedName :: "string \<Rightarrow> string \<Rightarrow> string \<Rightarrow> int \<Rightarrow> string" where
  "PrefixedName baseName pre separator maxLength =
     (if maxLength > 0 then
        let prefixPart = pre @ separator in
        if int (length prefixPart) \<ge> maxLength then take (nat maxLength) prefixPart
        else let allowedBase = maxLength - int (length prefixPart);
                 base = (if int (length baseName) > allowedBase
                         then take (nat allowedBase) baseName else baseName)
             in pre @ separator @ base
      else pre @ separator @ baseName)"

definition TruncateDescription :: "string \<Rightarrow> int \<Rightarrow> string \<Rightarrow> string" where
  "TruncateDescription desc maxLength suf =
     (if maxLength \<le> 0 \<or> int (length desc) \<le> maxLength then desc
      else if int (length suf) \<ge> maxLength then take (nat maxLength) suf
      else take (nat (maxLength - int (length suf))) desc @ suf)"

section \<open>Conflict detection\<close>

datatype naming_error =
    NameConflicts "string list"
  | UnknownConflictResolution string

text \<open>The map \<^verbatim>\<open>counts\<close> and the set \<^verbatim>\<open>conflicts\<close> of the names that occur more than once.\<close>

definition tool_counts :: "PrefixedTool list \<Rightarrow> string \<Rightarrow> nat" where
  "tool_counts tools = fold (\<lambda>t m. m(pt_PrefixedName t := m (pt_PrefixedName t) + 1)) tools (\<lambda>_. 0)"

definition conflict_names :: "PrefixedTool list \<Rightarrow> string list" where
  "conflict_names tools =
     filter (\<lambda>n. tool_counts tools n > 1) (remdups (map pt_PrefixedName tools))"

fun first_wins :: "(string \<Rightarrow> bool) \<Rightarrow> string set \<Rightarrow> PrefixedTool list \<Rightarrow> PrefixedTool list" where
  "first_wins conflicts seen [] = []"
| "first_wins conflicts seen (t # ts) =
     (if conflicts (pt_PrefixedName t) then
        (if pt_PrefixedName t \<in> seen then first_wins conflicts seen ts
         else t # first_wins conflicts (insert (pt_PrefixedName t) seen) ts)
      else t # first_wins conflicts seen ts)"

definition DetectConflicts ::
    "PrefixedTool list \<Rightarrow> string \<Rightarrow> naming_error + PrefixedTool list" where
  "DetectConflicts tools resolution =
     (let conflicts = conflict_names tools in
      if conflicts = [] then Inr tools
      else if resolution = ''error'' then Inl (NameConflicts conflicts)
      else if resolution = ''first_wins''
        then Inr (first_wins (\<lambda>n. n \<in> set conflicts) {} tools)
      else if resolution = ''skip''
        then Inr (filter (\<lambda>t. pt_PrefixedName t \<notin> set conflicts) tools)
      else Inl (UnknownConflictResolution resolution))"

section \<open>The shape of sanitised names\<close>

definition single_us :: "string \<Rightarrow> bool" where
  "single_us s \<longleftrightarrow> successively (\<lambda>x y. \<not> (x = CHR ''_'' \<and> y = CHR ''_'')) s"

definition slug_char :: "char \<Rightarrow> bool" where
  "slug_char c \<longleftrightarrow> is_lower c \<or> is_digit c \<or> c = CHR ''_''"

definition slug_ok :: "string \<Rightarrow> bool" where
  "slug_ok s \<longleftrightarrow> (\<forall>c \<in> set s. slug_char c) \<and> single_us s \<and>
     (s \<noteq> [] \<longrightarrow> hd s \<noteq> CHR ''_'' \<and> last s \<noteq> CHR ''_'')"

lemma us_not_letter: "\<not> is_upper (CHR ''_'')" "\<not> is_lower (CHR ''_'')" "\<not> is_digit (CHR ''_'')"
  by (simp_all add: is_upper_def is_lower_def is_digit_def char_le_iff)

lemma slug_char_not_upper: "slug_char c \<Longrightarrow> \<not> is_upper c"
  using us_not_letter
  by (auto simp: slug_char_def is_upper_def is_lower_def is_digit_def char_le_iff)

lemma slug_char_not_special: "slug_char c \<Longrightarrow> c \<noteq> CHR ''{'' \<and> c \<noteq> CHR ''}'' \<and> c \<noteq> CHR ''/''"
  by (auto simp: slug_char_def is_lower_def is_digit_def char_le_iff)

lemma lower_alnum: "alnum_us c \<Longrightarrow> slug_char (lower_char c)"
  by (auto simp: alnum_us_def slug_char_def lower_of_upper to_lower_no_upper
      dest: upper_not_lower split: if_splits) (metis lower_char_def lower_of_upper)+

lemma set_nonAlnum: "c \<in> set (nonAlnumUnderscore s) \<Longrightarrow> alnum_us c"
  using set_replace_runs [of "\<lambda>c. \<not> alnum_us c" "''_''" s]
  by (auto simp: nonAlnumUnderscore_def alnum_us_def)

abbreviation underscore :: "char \<Rightarrow> bool" where "underscore c \<equiv> c = CHR ''_''"

lemma hd_runs: "replace_runs underscore ''_'' t \<noteq> [] \<Longrightarrow> hd (replace_runs underscore ''_'' t) = hd t"
  by (cases t) auto

lemma single_us_runs: "single_us (runOfUnderscores s)"
proof (induction s rule: length_induct)
  case (1 s)
  show ?case
  proof (cases s)
    case (Cons c cs)
    have IH: "length t < length s \<Longrightarrow> single_us (replace_runs underscore ''_'' t)" for t
      using 1 by (auto simp: runOfUnderscores_def)
    show ?thesis
    proof (cases "underscore c")
      case True
      let ?t = "dropWhile underscore cs"
      have ok: "single_us (replace_runs underscore ''_'' ?t)"
        using IH Cons length_dropWhile_le [of underscore cs] by simp
      have "replace_runs underscore ''_'' ?t \<noteq> [] \<Longrightarrow> \<not> underscore (hd (replace_runs underscore ''_'' ?t))"
        using hd_runs [of ?t] hd_dropWhile [of underscore cs] by (metis replace_runs.simps(1))
      with ok True Cons show ?thesis
        by (cases "replace_runs underscore ''_'' ?t") (auto simp: single_us_def runOfUnderscores_def)
    next
      case False
      then show ?thesis using IH [of cs] Cons
        by (cases "replace_runs underscore ''_'' cs") (auto simp: single_us_def runOfUnderscores_def)
    qed
  qed (simp add: single_us_def runOfUnderscores_def)
qed

lemma single_us_trim: "single_us s \<Longrightarrow> single_us (trim_with P s)"
  unfolding single_us_def by (rule successively_sublist [OF sublist_trim_with])

lemma set_runs: "c \<in> set (runOfUnderscores s) \<Longrightarrow> c \<in> set s \<or> c = CHR ''_''"
  using set_replace_runs [of "\<lambda>c. c = CHR ''_''" "''_''" s] by (auto simp: runOfUnderscores_def)

lemma slug_tail_ok:
  "slug_ok (trim_with (\<lambda>c. c = CHR ''_'') (runOfUnderscores (to_lower (nonAlnumUnderscore s))))"
  (is "slug_ok (trim_with ?U ?t)")
proof -
  have t: "slug_char c" if "c \<in> set ?t" for c
    using that set_runs lower_alnum set_nonAlnum by (fastforce simp: to_lower_def slug_char_def)
  have "slug_char c" if "c \<in> set (trim_with ?U ?t)" for c
    using that t set_trim_with [of ?U ?t] by blast
  then show ?thesis
    using trim_with_hd [of ?U ?t] trim_with_last [of ?U ?t]
    by (auto simp: slug_ok_def single_us_trim single_us_runs)
qed

lemma sanitize_slug_ok:
  "Lowercase r \<Longrightarrow> CollapseSeparators r \<Longrightarrow> slug_ok (sanitizeIdentifier s r)"
  by (simp add: sanitizeIdentifier_def Let_def slug_tail_ok)

lemma camelUpperLower_id: "\<forall>c \<in> set s. \<not> is_upper c \<Longrightarrow> camelUpperLower s = s"
  by (induction s) auto

lemma camelLowerUpper_id: "\<forall>c \<in> set s. \<not> is_upper c \<Longrightarrow> camelLowerUpper s = s"
  by (induction s rule: camelLowerUpper.induct) auto

lemma replace_runs_absent: "\<forall>c \<in> set s. \<not> P c \<Longrightarrow> replace_runs P r s = s"
  by (induction s) auto

lemma runOfUnderscores_id: "single_us s \<Longrightarrow> runOfUnderscores s = s"
proof (induction s)
  case (Cons c cs)
  then have cs: "runOfUnderscores cs = cs" and "single_us (c # cs)"
    by (auto simp: single_us_def successively_Cons)
  then have "c = CHR ''_'' \<Longrightarrow> dropWhile (\<lambda>c. c = CHR ''_'') cs = cs"
    by (cases cs) (auto simp: single_us_def)
  with cs show ?case by (auto simp: runOfUnderscores_def)
qed (simp add: runOfUnderscores_def)

lemma to_lower_id: "\<forall>c \<in> set s. \<not> is_upper c \<Longrightarrow> to_lower s = s"
  by (induction s) (auto simp: to_lower_def to_lower_no_upper)

lemma sanitize_fixed:
  assumes "slug_ok s"
  shows "sanitizeIdentifier s r = s"
proof -
  from assms have U: "\<forall>c \<in> set s. \<not> is_upper c"
    by (auto simp: slug_ok_def slug_char_not_upper)
  from assms have A: "CHR ''{'' \<notin> set s" "CHR ''}'' \<notin> set s" "CHR ''/'' \<notin> set s"
    using slug_char_not_special by (auto simp: slug_ok_def)
  from assms have N: "nonAlnumUnderscore s = s"
    unfolding nonAlnumUnderscore_def
    by (intro replace_runs_absent) (auto simp: slug_ok_def slug_char_def alnum_us_def)
  from assms have T: "trim_with (\<lambda>c. c = CHR ''_'') s = s"
    by (intro trim_with_id) (auto simp: slug_ok_def)
  from assms have R: "runOfUnderscores s = s"
    by (intro runOfUnderscores_id) (simp add: slug_ok_def)
  show ?thesis
    using U A N T R
    by (simp add: sanitizeIdentifier_def Let_def camelUpperLower_id camelLowerUpper_id
        replace_char_absent to_lower_id)
qed

lemma single_us_no_double: "single_us s \<Longrightarrow> \<not> contains_str s ''__''"
proof (induction s)
  case (Cons c cs)
  then have "\<not> contains_str cs ''__''"
    by (cases cs) (auto simp: single_us_def successively_Cons has_prefix_def)
  with Cons.prems show ?case by (cases cs) (auto simp: single_us_def has_prefix_def)
qed (simp add: has_prefix_def)

section \<open>Length bounds\<close>

lemma PrefixedName_length:
  "0 < m \<Longrightarrow> int (length (PrefixedName b p sep m)) \<le> m"
  by (auto simp: PrefixedName_def Let_def)

lemma PrefixedName_untruncated:
  assumes "m \<le> 0 \<or> int (length (p @ sep @ b)) \<le> m"
  shows "PrefixedName b p sep m = p @ sep @ b"
proof -
  have "b = []" if "0 < m" "int (length (p @ sep)) \<ge> m"
  proof -
    from that assms have "int (length b) \<le> 0" by (simp only: length_append of_nat_add) linarith
    then show ?thesis by simp
  qed
  then show ?thesis using assms by (auto simp: PrefixedName_def Let_def)
qed

lemma PrefixedName_split:
  assumes "m \<le> 0 \<or> int (length (p @ sep)) < m"
  shows "PrefixedName b p sep m = p @ sep @ (if m \<le> 0 then b else take (nat m - length (p @ sep)) b)"
proof -
  have "nat (m - (int (length p) + int (length sep))) = nat m - (length p + length sep)"
    by (simp add: nat_diff_distrib')
  then show ?thesis using assms by (auto simp: PrefixedName_def Let_def)
qed

lemma TruncateDescription_length:
  "0 < m \<Longrightarrow> int (length (TruncateDescription d m s)) \<le> m"
  by (auto simp: TruncateDescription_def)

section \<open>Conflict resolution\<close>

lemma tool_counts_fold:
  "fold (\<lambda>t m. m(pt_PrefixedName t := m (pt_PrefixedName t) + 1)) tools m0 n =
     m0 n + count_list (map pt_PrefixedName tools) n" for m0 :: "string \<Rightarrow> nat"
  by (induction tools arbitrary: m0) (auto simp: fun_upd_def)

lemma tool_counts_count: "tool_counts tools n = count_list (map pt_PrefixedName tools) n"
  unfolding tool_counts_def tool_counts_fold by simp

lemma count_list_gt_one: "distinct xs \<longleftrightarrow> (\<forall>x. count_list xs x \<le> 1)"
proof (induction xs)
  case (Cons a xs)
  have "(\<forall>x. count_list (a # xs) x \<le> 1) \<longleftrightarrow> count_list xs a = 0 \<and> (\<forall>x. count_list xs x \<le> 1)"
  proof
    assume h: "\<forall>x. count_list (a # xs) x \<le> 1"
    from h [rule_format, of a] have "count_list xs a = 0" by simp
    moreover have "count_list xs x \<le> 1" for x using h [rule_format, of x] by (simp split: if_splits)
    ultimately show "count_list xs a = 0 \<and> (\<forall>x. count_list xs x \<le> 1)" by blast
  qed auto
  with Cons.IH show ?case by (simp add: count_list_0_iff)
qed simp

lemma conflict_names_iff:
  "n \<in> set (conflict_names tools) \<longleftrightarrow> count_list (map pt_PrefixedName tools) n > 1"
  by (auto simp: conflict_names_def tool_counts_count) (metis count_notin not_less_zero set_map)

lemma no_conflicts_iff: "conflict_names tools = [] \<longleftrightarrow> distinct (map pt_PrefixedName tools)"
proof -
  have "conflict_names tools = [] \<longleftrightarrow> (\<forall>n. n \<notin> set (conflict_names tools))"
    by (metis empty_iff empty_set last_in_set)
  then show ?thesis by (auto simp: conflict_names_iff count_list_gt_one not_less)
qed

text \<open>The specification of \<^verbatim>\<open>first_wins\<close>: keep a tool iff no earlier tool has its name.\<close>

fun keep_first :: "string set \<Rightarrow> PrefixedTool list \<Rightarrow> PrefixedTool list" where
  "keep_first seen [] = []"
| "keep_first seen (t # ts) =
     (if pt_PrefixedName t \<in> seen then keep_first seen ts
      else t # keep_first (insert (pt_PrefixedName t) seen) ts)"

lemma keep_first_names: "set (map pt_PrefixedName (keep_first S ts)) = pt_PrefixedName ` set ts - S"
  by (induction S ts rule: keep_first.induct) auto

lemma keep_first_distinct: "distinct (map pt_PrefixedName (keep_first S ts))"
proof (induction S ts rule: keep_first.induct)
  case (2 S t ts)
  then show ?case
    using keep_first_names [of "insert (pt_PrefixedName t) S" ts] by (auto simp del: set_map)
qed simp

lemma keep_first_subseq: "subseq (keep_first S ts) ts"
  by (induction S ts rule: keep_first.induct) auto

lemma first_wins_keep_first:
  assumes "\<And>n. n \<in> S \<longleftrightarrow> n \<in> S' \<and> C n"
    and "\<And>n. \<not> C n \<Longrightarrow> count_list (map pt_PrefixedName ts) n + (if n \<in> S' then 1 else 0) \<le> 1"
  shows "first_wins C S ts = keep_first S' ts"
  using assms
proof (induction ts arbitrary: S S')
  case (Cons t ts)
  let ?n = "pt_PrefixedName t"
  have c: "count_list (map pt_PrefixedName ts) n + (if n \<in> S' then 1 else 0) \<le> 1" if "\<not> C n" for n
    using Cons.prems(2) [OF that] by (auto split: if_splits)
  have c': "count_list (map pt_PrefixedName ts) n + (if n \<in> insert ?n S' then 1 else 0) \<le> 1"
    if "\<not> C n" for n
    using Cons.prems(2) [OF that] by (auto split: if_splits)
  have A: "first_wins C S ts = keep_first S' ts"
    by (rule Cons.IH) (use Cons.prems(1) c in auto)
  show ?case
  proof (cases "C ?n")
    case True
    have "first_wins C (insert ?n S) ts = keep_first (insert ?n S') ts"
      by (rule Cons.IH) (use True Cons.prems(1) c' in auto)
    with True A Cons.prems(1) show ?thesis by simp
  next
    case False
    have "first_wins C S ts = keep_first (insert ?n S') ts"
      by (rule Cons.IH) (use False Cons.prems(1) c' in auto)
    moreover have "?n \<notin> S'" using Cons.prems(2) [OF False] by (auto split: if_splits)
    ultimately show ?thesis using False by simp
  qed
qed simp

lemma DetectConflicts_first_wins:
  "DetectConflicts tools ''first_wins'' = Inr (keep_first {} tools)"
proof (cases "conflict_names tools = []")
  case True
  then have d: "distinct (map pt_PrefixedName tools)" by (simp add: no_conflicts_iff)
  have "distinct (map pt_PrefixedName ts) \<Longrightarrow> S \<inter> pt_PrefixedName ` set ts = {} \<Longrightarrow> keep_first S ts = ts"
    for S :: "string set" and ts by (induction S ts rule: keep_first.induct) auto
  from this [OF d, of "{}"] True show ?thesis by (simp add: DetectConflicts_def)
next
  case False
  have "first_wins (\<lambda>n. n \<in> set (conflict_names tools)) {} tools = keep_first {} tools"
    by (rule first_wins_keep_first) (auto simp: conflict_names_iff)
  with False show ?thesis by (simp add: DetectConflicts_def Let_def)
qed

lemma DetectConflicts_skip:
  "DetectConflicts tools ''skip'' =
     Inr (filter (\<lambda>t. count_list (map pt_PrefixedName tools) (pt_PrefixedName t) = 1) tools)"
proof -
  have "count_list (map pt_PrefixedName tools) (pt_PrefixedName t) \<noteq> 0" if "t \<in> set tools" for t
    using that by (metis count_list_0_iff imageI set_map)
  then have "filter (\<lambda>t. pt_PrefixedName t \<notin> set (conflict_names tools)) tools =
      filter (\<lambda>t. count_list (map pt_PrefixedName tools) (pt_PrefixedName t) = 1) tools"
    by (intro filter_cong refl) (fastforce simp: conflict_names_iff not_less le_Suc_eq)
  then show ?thesis by (auto simp: DetectConflicts_def Let_def)
qed

lemma unique_filter_distinct:
  "distinct (map f (filter (\<lambda>t. count_list (map f ts) (f t) = 1) ts))"
proof -
  have "count_list (map f (filter P ts)) x \<le> count_list (map f ts) x" for P x
    by (induction ts) auto
  moreover have "count_list (map f (filter (\<lambda>t. count_list (map f ts) (f t) = 1) ts)) x = 0"
    if "count_list (map f ts) x \<noteq> 1" for x
    using that by (subst count_list_0_iff) auto
  ultimately show ?thesis unfolding count_list_gt_one by (metis le_refl zero_le_one)
qed

section \<open>Properties\<close>

text \<open>With lower-casing and collapsing on, a sanitised name consists of lower-case letters,
  digits and single inner underscores, never contains a double underscore, and sanitising it
  again, under whatever rules, changes nothing.\<close>

theorem sanitized_names_are_slugs:
  assumes "Lowercase r" and "CollapseSeparators r"
  shows "slug_ok (sanitizeIdentifier s r) \<and> \<not> contains_str (sanitizeIdentifier s r) ''__'' \<and>
    sanitizeIdentifier (sanitizeIdentifier s r) r' = sanitizeIdentifier s r"
  using sanitize_slug_ok [OF assms, of s] sanitize_fixed single_us_no_double by (simp add: slug_ok_def)

lemma sanitized_names_are_slugs_witness:
  "let r = \<lparr>ReplaceSlashes = True, ReplaceBraces = True, ExpandCamelCase = True, Lowercase = True,
            CollapseSeparators = True\<rparr>
   in sanitizeIdentifier ''/getHTTPStatus//{id}_'' r = ''get_http_status_id'' \<and>
      slug_ok (sanitizeIdentifier ''/getHTTPStatus//{id}_'' r)"
proof -
  let ?r = "\<lparr>ReplaceSlashes = True, ReplaceBraces = True, ExpandCamelCase = True, Lowercase = True,
            CollapseSeparators = True\<rparr>"
  have "sanitizeIdentifier ''/getHTTPStatus//{id}_'' ?r = ''get_http_status_id''" by code_simp
  with sanitized_names_are_slugs [of ?r "''/getHTTPStatus//{id}_''" ?r] show ?thesis by simp
qed

text \<open>A prefixed name never exceeds a positive maximum length; a name that fits is the plain
  concatenation of prefix, separator and base; a name that does not fit keeps the whole prefix
  and separator and an initial part of the base whenever those leave room for it.\<close>

theorem prefixed_name_bounded:
  assumes "0 < m"
  shows "int (length (PrefixedName b p sep m)) \<le> m \<and>
    (int (length (p @ sep @ b)) \<le> m \<longrightarrow> PrefixedName b p sep m = p @ sep @ b) \<and>
    (int (length (p @ sep)) < m \<longrightarrow>
       PrefixedName b p sep m = p @ sep @ take (nat m - length (p @ sep)) b)"
  using PrefixedName_length [OF assms, of b p sep] PrefixedName_untruncated [of m p sep b]
    PrefixedName_split [of m p sep b] assms by auto

lemma prefixed_name_bounded_witness:
  "PrefixedName ''list_things'' ''api'' ''__'' 10 = ''api__list_''"
  using prefixed_name_bounded [of 10 "''list_things''" "''api''" "''__''"] by simp

lemma DetectConflicts_distinct:
  assumes "DetectConflicts tools res = Inr out"
  shows "distinct (map pt_PrefixedName out) \<and> subseq out tools"
proof -
  consider "conflict_names tools = []" "out = tools" | "res = ''first_wins''" | "res = ''skip''"
    using assms by (auto simp: DetectConflicts_def Let_def split: if_splits)
  then show ?thesis
  proof cases
    case 1
    then show ?thesis by (simp add: no_conflicts_iff)
  next
    case 2
    with assms have "out = keep_first {} tools" by (simp add: DetectConflicts_first_wins)
    then show ?thesis by (simp add: keep_first_distinct keep_first_subseq)
  next
    case 3
    with assms have "out = filter (\<lambda>t. count_list (map pt_PrefixedName tools) (pt_PrefixedName t) = 1) tools"
      by (simp add: DetectConflicts_skip)
    then show ?thesis by (simp only: unique_filter_distinct subseq_filter_left simp_thms)
  qed
qed

text \<open>Whatever strategy succeeds, the surviving tools have pairwise distinct names and keep
  their order; \<^verbatim>\<open>error\<close> succeeds only when there is nothing to resolve, \<^verbatim>\<open>first_wins\<close>
  keeps every name once, with its first tool, and \<^verbatim>\<open>skip\<close> drops exactly the tools whose name
  occurs more than once.\<close>

theorem conflicts_resolved:
  assumes "DetectConflicts tools res = Inr out"
  shows "distinct (map pt_PrefixedName out) \<and> subseq out tools \<and>
    (res = ''error'' \<longrightarrow> out = tools) \<and>
    (res = ''first_wins'' \<longrightarrow> out = keep_first {} tools \<and>
       pt_PrefixedName ` set out = pt_PrefixedName ` set tools) \<and>
    (res = ''skip'' \<longrightarrow>
       out = filter (\<lambda>t. count_list (map pt_PrefixedName tools) (pt_PrefixedName t) = 1) tools)"
proof -
  have c: "conflict_names tools = [] \<Longrightarrow> out = tools" using assms by (simp add: DetectConflicts_def Let_def)
  have f: "res = ''first_wins'' \<Longrightarrow> out = keep_first {} tools" using assms DetectConflicts_first_wins by simp
  have s: "res = ''skip'' \<Longrightarrow>
      out = filter (\<lambda>t. count_list (map pt_PrefixedName tools) (pt_PrefixedName t) = 1) tools"
    using assms DetectConflicts_skip by simp
  have e: "res = ''error'' \<Longrightarrow> conflict_names tools = []"
    using assms by (auto simp: DetectConflicts_def Let_def split: if_splits)
  note DetectConflicts_distinct [OF assms]
  with c e f s show ?thesis using keep_first_names [of "{}" tools] by auto
qed

lemma conflicts_resolved_witness:
  "let mk = (\<lambda>n p. \<lparr>pt_PrefixedName = n, pt_OriginalPath = p, pt_OriginalMethod = ''GET''\<rparr>) in
   \<exists>out. DetectConflicts [mk ''a'' ''/x'', mk ''b'' ''/y'', mk ''a'' ''/z''] ''first_wins'' = Inr out \<and>
     distinct (map pt_PrefixedName out) \<and> pt_PrefixedName ` set out = {''a'', ''b''}"
proof -
  let ?mk = "\<lambda>n p. \<lparr>pt_PrefixedName = n, pt_OriginalPath = p, pt_OriginalMethod = ''GET''\<rparr>"
  let ?ts = "[?mk ''a'' ''/x'', ?mk ''b'' ''/y'', ?mk ''a'' ''/z'']"
  from conflicts_resolved [OF DetectConflicts_first_wins, of ?ts] DetectConflicts_first_wins [of ?ts]
  show ?thesis by (auto simp: Let_def)
qed

end
