(* ===== verification/Mcp.thy ===== *)
theory Mcp
  imports Naming
begin

text \<open>
  The values the components exchange: Go errors, the MCP tool and result types of the
  go-sdk as far as the source uses them, the request context, and the generic registry of
  \<^verbatim>\<open>pkg/registry/registry.go\<close>.
\<close>

section \<open>Errors\<close>

text \<open>
  An error value is a text, one of the error values the code tests for with
  \<^verbatim>\<open>errors.Is\<close> or \<^verbatim>\<open>errors.As\<close>, or an error wrapped with \<^verbatim>\<open>%w\<close> behind a text.
\<close>

datatype goerr =
    ErrText string
  | ErrUpstreamFailure
  | ErrOpenState
  | ErrTooManyRequests
  | AuthRequiredError string
  | DeniedError int string
  | ErrWrap string goerr

fun err_text :: "goerr \<Rightarrow> string" where
  "err_text (ErrText s) = s"
| "err_text ErrUpstreamFailure = ''upstream 5xx failure''"
| "err_text ErrOpenState = ''circuit breaker is open''"
| "err_text ErrTooManyRequests = ''too many requests''"
| "err_text (AuthRequiredError u) = ''authorization required: visit '' @ u"
| "err_text (DeniedError s m) = ''auth denied (status '' @ show_int s @ ''): '' @ m"
| "err_text (ErrWrap s e) = s @ '': '' @ err_text e"

fun err_root :: "goerr \<Rightarrow> goerr" where
  "err_root (ErrWrap s e) = err_root e"
| "err_root e = e"

definition errors_is :: "goerr option \<Rightarrow> goerr \<Rightarrow> bool" where
  "errors_is e target \<longleftrightarrow> (case e of None \<Rightarrow> False | Some e \<Rightarrow> err_root e = target)"

definition as_denied :: "goerr \<Rightarrow> (int \<times> string) option" where
  "as_denied e = (case err_root e of DeniedError s m \<Rightarrow> Some (s, m) | _ \<Rightarrow> None)"

definition as_auth_required :: "goerr \<Rightarrow> string option" where
  "as_auth_required e = (case err_root e of AuthRequiredError u \<Rightarrow> Some u | _ \<Rightarrow> None)"

section \<open>Tools, results, requests\<close>

datatype Content =
    TextContent string
  | ImageContent string string
  | AudioContent string string
  | EmbeddedResource string string

record CallToolResult =
  IsError :: bool
  Content :: "Content list"

text \<open>The pair \<^verbatim>\<open>(*CallToolResult, error)\<close> of a Go tool call; both may be nil.\<close>

type_synonym call_return = "CallToolResult option \<times> goerr option"

record Tool =
  Name :: string
  Description :: string
  InputSchema :: goval
  Meta :: "goval gomap"

record TokenInfo =
  Subject :: string
  Scopes :: "string list"
  Audience :: "string list"
  Extra :: "goval gomap"

definition emptyTokenInfo :: TokenInfo where
  "emptyTokenInfo = \<lparr>Subject = [], Scopes = [], Audience = [], Extra = []\<rparr>"

text \<open>\<^verbatim>\<open>transform.RequestEnvelope\<close>: the request a tool call is turned into.\<close>

record RequestEnvelope =
  Query :: "string gomap"
  Headers :: "string gomap"
  Path :: "string gomap"
  Body :: goval

text \<open>
  The request context. Each field is the value stored under one unexported context key:
  the inbound token, the client address, the tool arguments, the request envelope or the
  error of the request transform, and the headers or the early result of the outbound
  authentication.
\<close>

record Ctx =
  ctx_token :: "TokenInfo option"
  ctx_ip :: string
  ctx_args :: "args option"
  ctx_envelope :: "RequestEnvelope option"
  ctx_transform_err :: "goerr option"
  ctx_headers :: "(string gomap) option"
  ctx_auth_result :: "CallToolResult option"

definition background :: Ctx where
  "background = \<lparr>ctx_token = None, ctx_ip = [], ctx_args = None, ctx_envelope = None,
     ctx_transform_err = None, ctx_headers = None, ctx_auth_result = None\<rparr>"

definition error_result :: "string \<Rightarrow> CallToolResult" where
  "error_result msg = \<lparr>IsError = True, Content = [TextContent msg]\<rparr>"

definition ok_result :: "Content list \<Rightarrow> CallToolResult" where
  "ok_result cs = \<lparr>IsError = False, Content = cs\<rparr>"

lemma result_sel [simp]:
  "IsError (error_result m)" "\<not> IsError (ok_result cs)"
  "Content (error_result m) = [TextContent m]" "Content (ok_result cs) = cs"
  by (simp_all add: error_result_def ok_result_def)

section \<open>The generic registry\<close>

text \<open>\<^verbatim>\<open>registry.Registry[T]\<close>: the map behind the lock. Each operation holds the lock for
  its whole body, so operations are atomic steps.\<close>

type_synonym 'a registry = "string \<rightharpoonup> 'a"

definition Register :: "string \<Rightarrow> 'a \<Rightarrow> 'a registry \<Rightarrow> 'a registry" where
  "Register key v r = r(key \<mapsto> v)"

definition RegisterIfAbsent :: "string \<Rightarrow> 'a \<Rightarrow> 'a registry \<Rightarrow> bool \<times> 'a registry" where
  "RegisterIfAbsent key v r =
     (case r key of Some _ \<Rightarrow> (False, r) | None \<Rightarrow> (True, r(key \<mapsto> v)))"

definition Get :: "'a registry \<Rightarrow> string \<Rightarrow> 'a option" where
  "Get r key = r key"

definition Snapshot :: "'a registry \<Rightarrow> 'a registry" where
  "Snapshot r = r"

text \<open>The contract its users (builders, stores, middlewares, runtimes) rely on.\<close>

locale plugin_registry =
  fixes reg :: "string \<Rightarrow> 'a \<Rightarrow> 'r \<Rightarrow> 'r"
    and reg_absent :: "string \<Rightarrow> 'a \<Rightarrow> 'r \<Rightarrow> bool \<times> 'r"
    and get :: "'r \<Rightarrow> string \<Rightarrow> 'a option"
  assumes get_reg: "get (reg k v r) k' = (if k' = k then Some v else get r k')"
    and absent_new: "get r k = None \<Longrightarrow> reg_absent k v r = (True, reg k v r)"
    and absent_old: "get r k \<noteq> None \<Longrightarrow> reg_absent k v r = (False, r)"
begin

lemma get_absent: "get (snd (reg_absent k v r)) k' =
    (if k' = k \<and> get r k = None then Some v else get r k')"
  by (cases "get r k = None") (auto simp: absent_new absent_old get_reg)

lemma absent_keeps: "get r k' = Some u \<Longrightarrow> get (snd (reg_absent k v r)) k' = Some u"
  by (auto simp: get_absent)

lemma absent_flag: "fst (reg_absent k v r) \<longleftrightarrow> get r k = None"
  by (cases "get r k = None") (auto simp: absent_new absent_old)

text \<open>After any sequence of registrations the first one of a name stays.\<close>

fun register_all :: "(string \<times> 'a) list \<Rightarrow> 'r \<Rightarrow> 'r" where
  "register_all [] r = r"
| "register_all ((k, v) # kvs) r = register_all kvs (snd (reg_absent k v r))"

lemma get_register_all:
  "get (register_all kvs r) k = (case get r k of Some v \<Rightarrow> Some v | None \<Rightarrow> map_of kvs k)"
  by (induction kvs arbitrary: r) (auto simp: get_absent split: option.splits if_splits)

end

interpretation go_registry: plugin_registry Register RegisterIfAbsent Get
  by unfold_locales (auto simp: Register_def RegisterIfAbsent_def Get_def split: option.splits)

end
