(* ===== verification/ToolRegistry.thy ===== *)
theory ToolRegistry
  imports Mcp "HOL-Library.Multiset"
begin

text \<open>
  The immutable tool registry of \<^verbatim>\<open>pkg/upstream/registry.go\<close> and the builder dispatch of
  \<^verbatim>\<open>pkg/upstream/upstream.go\<close>.

  The world \<^typ>\<open>'w\<close> is whatever an executor reads and changes. A \<^verbatim>\<open>*yaml.Node\<close> is known by
  its address, a number, because the group filters compare nodes by pointer. The JSONPath
  library is the parameter \<^term>\<open>jsonpath\<close>: it compiles an expression, or fails, to the
  function that selects nodes below a root. An \<^verbatim>\<open>*Upstream\<close> carries its address
  \<^verbatim>\<open>up_addr\<close>; its one field that changes after construction, \<^verbatim>\<open>CircuitBreaker\<close>, lives in
  the state of the manager under that address.
\<close>

section \<open>Types\<close>

type_synonym node = nat
type_synonym jsonpath_lib = "string \<Rightarrow> goerr + (node \<Rightarrow> node list)"
type_synonym 'w executor = "Ctx \<Rightarrow> args \<Rightarrow> 'w \<Rightarrow> call_return \<times> 'w"

record Upstream =
  up_addr :: nat
  Name :: string
  ToolPrefix :: string
  BaseURL :: string

record 'w RegistryEntry =
  PrefixedName :: string
  OriginalName :: string
  Upstream :: "Upstream option"
  MCPTool :: "Tool option"
  ResponseFormat :: string
  AuthRequired :: bool
  Method :: string
  PathTemplate :: string
  ValidationCfg :: ValidationConfig
  OperationNode :: "node option"
  Executor :: "'w executor"
  RateLimit :: string
  UIHandler :: "ToolUIConfig option"
  CacheName :: string

record 'w ValidatedUpstream =
  VConfig :: UpstreamConfig
  Entries :: "'w RegistryEntry list"
  SpecYAMLRoot :: "node option"

record groupData =
  gd_toolList :: "Tool list"
  gd_toolSet :: "string list"

record 'w Registry =
  byPrefixedName :: "string \<rightharpoonup> 'w RegistryEntry"
  byPrefix :: "string \<rightharpoonup> Upstream"
  byUpstreamName :: "string \<rightharpoonup> 'w RegistryEntry list"
  specRootByName :: "string \<rightharpoonup> node option"
  toolList :: "Tool option list"
  separator :: string
  groups :: "string \<rightharpoonup> groupData"

datatype registry_error =
    SharedPrefix string string string
  | NameConflict string string string
  | InvalidFilter string string goerr
  | NilPointer

abbreviation vu_name :: "'w ValidatedUpstream \<Rightarrow> string" where
  "vu_name vu \<equiv> UpstreamConfig.Name (VConfig vu)"

section \<open>Building the registry\<close>

definition empty_registry :: "NamingConfig \<Rightarrow> 'w Registry" where
  "empty_registry naming =
     \<lparr>byPrefixedName = Map.empty, byPrefix = Map.empty, byUpstreamName = Map.empty,
      specRootByName = Map.empty, toolList = [], separator = NamingConfig.Separator naming,
      groups = Map.empty\<rparr>"

fun checkPrefixes :: "(string \<rightharpoonup> string) \<Rightarrow> 'w ValidatedUpstream list \<Rightarrow> registry_error option" where
  "checkPrefixes seen [] = None"
| "checkPrefixes seen (vu # vus) =
     (let prefix = UpstreamConfig.ToolPrefix (VConfig vu) in
      case seen prefix of
        Some prev \<Rightarrow> Some (SharedPrefix prev (vu_name vu) prefix)
      | None \<Rightarrow> checkPrefixes (seen(prefix \<mapsto> vu_name vu)) vus)"

definition put_prefix :: "'w RegistryEntry \<Rightarrow> 'w Registry \<Rightarrow> 'w Registry" where
  "put_prefix e r =
     (case Upstream e of None \<Rightarrow> r
      | Some u \<Rightarrow> r\<lparr>byPrefix := (byPrefix r)(Upstream.ToolPrefix u \<mapsto> u)\<rparr>)"

fun newEntries :: "string \<Rightarrow> 'w RegistryEntry list \<Rightarrow> 'w Registry \<Rightarrow> registry_error + 'w Registry" where
  "newEntries up [] r = Inr r"
| "newEntries up (e # es) r =
     (case byPrefixedName r (RegistryEntry.PrefixedName e) of
        Some existing \<Rightarrow>
          (case Upstream existing of None \<Rightarrow> Inl NilPointer
           | Some u \<Rightarrow> Inl (NameConflict (RegistryEntry.PrefixedName e) (Upstream.Name u) up))
      | None \<Rightarrow>
          (let r = r\<lparr>byPrefixedName := (byPrefixedName r)(RegistryEntry.PrefixedName e \<mapsto> e)\<rparr>;
               r = r\<lparr>byUpstreamName := (byUpstreamName r)(up \<mapsto>
                      (case byUpstreamName r up of None \<Rightarrow> [] | Some es \<Rightarrow> es) @ [e])\<rparr>;
               r = put_prefix e r;
               r = r\<lparr>toolList := toolList r @ [MCPTool e]\<rparr>
           in newEntries up es r))"

fun newUpstreams :: "'w ValidatedUpstream list \<Rightarrow> 'w Registry \<Rightarrow> registry_error + 'w Registry" where
  "newUpstreams [] r = Inr r"
| "newUpstreams (vu # vus) r =
     (let r = r\<lparr>specRootByName := (specRootByName r)(vu_name vu \<mapsto> SpecYAMLRoot vu)\<rparr> in
      case newEntries (vu_name vu) (Entries vu) r of
        Inl e \<Rightarrow> Inl e
      | Inr r \<Rightarrow> newUpstreams vus r)"

fun compileFilters ::
    "jsonpath_lib \<Rightarrow> GroupConfig list \<Rightarrow> (string \<rightharpoonup> (node \<Rightarrow> node list)) \<Rightarrow>
     registry_error + (string \<rightharpoonup> (node \<Rightarrow> node list))" where
  "compileFilters jsonpath [] m = Inr m"
| "compileFilters jsonpath (g # gs) m =
     (if Filter g = [] then compileFilters jsonpath gs m
      else (case jsonpath (Filter g) of
              Inl e \<Rightarrow> Inl (InvalidFilter (GroupConfig.Name g) (Filter g) e)
            | Inr q \<Rightarrow> compileFilters jsonpath gs (m(GroupConfig.Name g \<mapsto> q))))"

text \<open>The nodes the filter selects in one upstream's document; the nil map, which contains
  nothing, without a filter or a document.\<close>

definition matchedNodes :: "(node \<Rightarrow> node list) option \<Rightarrow> node option \<Rightarrow> node list" where
  "matchedNodes jp rt =
     (case (jp, rt) of (Some q, Some n) \<Rightarrow> q n | _ \<Rightarrow> [])"

definition entryIncluded :: "(node \<Rightarrow> node list) option \<Rightarrow> node list \<Rightarrow> 'w RegistryEntry \<Rightarrow> bool" where
  "entryIncluded jp matched e \<longleftrightarrow>
     \<not> (jp \<noteq> None \<and> OperationNode e \<noteq> None \<and> the (OperationNode e) \<notin> set matched)"

definition groupToolSet ::
    "(string \<rightharpoonup> (node \<Rightarrow> node list)) \<Rightarrow> GroupConfig \<Rightarrow>
     (string \<times> 'w RegistryEntry list \<times> node option) list \<Rightarrow> string list" where
  "groupToolSet filters g ups =
     (let jp = filters (GroupConfig.Name g) in
      concat (map (\<lambda>(name, es, rt).
        if name \<notin> set (GroupConfig.Upstreams g) then []
        else map RegistryEntry.PrefixedName
               (filter (entryIncluded jp (matchedNodes jp rt)) es)) ups))"

text \<open>The ordered tool list of a group; reading the name of a nil tool is a nil dereference.\<close>

definition groupToolList :: "string list \<Rightarrow> Tool option list \<Rightarrow> registry_error + Tool list" where
  "groupToolList ts tools =
     (if None \<in> set tools then Inl NilPointer
      else Inr (filter (\<lambda>t. Tool.Name t \<in> set ts) (map the tools)))"

fun buildGroups ::
    "(string \<rightharpoonup> (node \<Rightarrow> node list)) \<Rightarrow> (string \<times> 'w RegistryEntry list \<times> node option) list \<Rightarrow>
     GroupConfig list \<Rightarrow> 'w Registry \<Rightarrow> registry_error + 'w Registry" where
  "buildGroups filters ups [] r = Inr r"
| "buildGroups filters ups (g # gs) r =
     (let ts = groupToolSet filters g ups in
      case groupToolList ts (toolList r) of
        Inl e \<Rightarrow> Inl e
      | Inr tools \<Rightarrow>
          buildGroups filters ups gs
            (r\<lparr>groups := (groups r)(GroupConfig.Name g \<mapsto> \<lparr>gd_toolList = tools, gd_toolSet = ts\<rparr>)\<rparr>))"

definition vu_triple :: "'w ValidatedUpstream \<Rightarrow> string \<times> 'w RegistryEntry list \<times> node option" where
  "vu_triple vu = (vu_name vu, Entries vu, SpecYAMLRoot vu)"

definition New ::
    "jsonpath_lib \<Rightarrow> 'w ValidatedUpstream list \<Rightarrow> NamingConfig \<Rightarrow> GroupConfig list \<Rightarrow>
     registry_error + 'w Registry" where
  "New jsonpath ups naming gs =
     (case checkPrefixes Map.empty ups of
        Some e \<Rightarrow> Inl e
      | None \<Rightarrow>
          (case newUpstreams ups (empty_registry naming) of
             Inl e \<Rightarrow> Inl e
           | Inr r \<Rightarrow>
               (case compileFilters jsonpath gs Map.empty of
                  Inl e \<Rightarrow> Inl e
                | Inr filters \<Rightarrow> buildGroups filters (map vu_triple ups) gs r)))"

section \<open>Rebuilding from compiled entries\<close>

text \<open>
  The two maps are given by the list of upstream names, in the order in which this run's
  range statements visit them, with the entries and the document root of each.
\<close>

definition name_or_empty :: "Upstream option \<Rightarrow> string" where
  "name_or_empty u = (case u of None \<Rightarrow> [] | Some u \<Rightarrow> Upstream.Name u)"

fun fromEntries :: "'w RegistryEntry list \<Rightarrow> 'w Registry \<Rightarrow> registry_error + 'w Registry" where
  "fromEntries [] r = Inr r"
| "fromEntries (e # es) r =
     (case byPrefixedName r (RegistryEntry.PrefixedName e) of
        Some existing \<Rightarrow>
          Inl (NameConflict (RegistryEntry.PrefixedName e)
            (name_or_empty (Upstream existing)) (name_or_empty (Upstream e)))
      | None \<Rightarrow>
          (let r = r\<lparr>byPrefixedName := (byPrefixedName r)(RegistryEntry.PrefixedName e \<mapsto> e)\<rparr>;
               r = put_prefix e r;
               r = (if MCPTool e \<noteq> None then r\<lparr>toolList := toolList r @ [MCPTool e]\<rparr> else r)
           in fromEntries es r))"

fun fromUpstreams ::
    "(string \<times> 'w RegistryEntry list \<times> node option) list \<Rightarrow> 'w Registry \<Rightarrow> registry_error + 'w Registry" where
  "fromUpstreams [] r = Inr r"
| "fromUpstreams ((up, es, rt) # ups) r =
     (case fromEntries es (r\<lparr>byUpstreamName := (byUpstreamName r)(up \<mapsto> es)\<rparr>) of
        Inl e \<Rightarrow> Inl e
      | Inr r \<Rightarrow> fromUpstreams ups r)"

definition NewFromEntries ::
    "jsonpath_lib \<Rightarrow> (string \<times> 'w RegistryEntry list \<times> node option) list \<Rightarrow> NamingConfig \<Rightarrow>
     GroupConfig list \<Rightarrow> registry_error + 'w Registry" where
  "NewFromEntries jsonpath ups naming gs =
     (let r = (empty_registry naming)\<lparr>specRootByName := map_of (map (\<lambda>(up, es, rt). (up, rt)) ups)\<rparr> in
      case fromUpstreams ups r of
        Inl e \<Rightarrow> Inl e
      | Inr r \<Rightarrow>
          (case compileFilters jsonpath gs Map.empty of
             Inl e \<Rightarrow> Inl e
           | Inr filters \<Rightarrow> buildGroups filters ups gs r))"

section \<open>Reading the registry and dispatching\<close>

definition EntryForTool :: "'w Registry \<Rightarrow> string \<Rightarrow> 'w RegistryEntry option" where
  "EntryForTool r name = byPrefixedName r name"

definition EntriesForUpstream :: "'w Registry \<Rightarrow> string \<Rightarrow> 'w RegistryEntry list" where
  "EntriesForUpstream r up = (case byUpstreamName r up of None \<Rightarrow> [] | Some es \<Rightarrow> es)"

definition SpecRootForUpstream :: "'w Registry \<Rightarrow> string \<Rightarrow> node option" where
  "SpecRootForUpstream r up = (case specRootByName r up of None \<Rightarrow> None | Some n \<Rightarrow> n)"

definition ToolsForGroup :: "'w Registry \<Rightarrow> string \<Rightarrow> Tool list" where
  "ToolsForGroup r g = (case groups r g of None \<Rightarrow> [] | Some gd \<Rightarrow> gd_toolList gd)"

definition handleToolCall :: "'w RegistryEntry \<Rightarrow> 'w executor" where
  "handleToolCall e ctx args w = Executor e ctx args w"

definition registryDispatchForGroup :: "'w Registry \<Rightarrow> string \<Rightarrow> string \<Rightarrow> 'w executor" where
  "registryDispatchForGroup r g name ctx args w =
     (case groups r g of
        None \<Rightarrow> ((Some (error_result (''unknown group: '' @ g)), None), w)
      | Some gd \<Rightarrow>
          if name \<notin> set (gd_toolSet gd)
          then ((Some (error_result (''tool not available in this group: '' @ name)), None), w)
          else (case byPrefixedName r name of
                  None \<Rightarrow> ((Some (error_result (''unknown tool: '' @ name)), None), w)
                | Some e \<Rightarrow> handleToolCall e ctx args w))"

definition registryAuthRequired :: "'w Registry \<Rightarrow> string \<Rightarrow> bool" where
  "registryAuthRequired r name =
     (case byPrefixedName r name of None \<Rightarrow> True | Some e \<Rightarrow> AuthRequired e)"

text \<open>\<^term>\<open>None\<close> is the nil dereference on an entry without upstream.\<close>

definition registryToolUpstreamName :: "'w Registry \<Rightarrow> string \<Rightarrow> string option" where
  "registryToolUpstreamName r name =
     (case byPrefixedName r name of None \<Rightarrow> Some []
      | Some e \<Rightarrow> map_option Upstream.Name (Upstream e))"

definition UIHandlerForTool :: "'w Registry \<Rightarrow> string \<Rightarrow> ToolUIConfig option" where
  "UIHandlerForTool r name =
     (case byPrefixedName r name of None \<Rightarrow> None | Some e \<Rightarrow> UIHandler e)"

definition registryDispatch :: "'w Registry \<Rightarrow> string \<Rightarrow> 'w executor" where
  "registryDispatch r name ctx args w =
     (if \<not> contains_str name (separator r)
      then ((Some (error_result (''tool name missing prefix separator: '' @ name)), None), w)
      else (case byPrefixedName r name of
              None \<Rightarrow> ((Some (error_result (''unknown tool: '' @ name)), None), w)
            | Some e \<Rightarrow> handleToolCall e ctx args w))"

section \<open>Builders\<close>

type_synonym 'w builder =
  "UpstreamConfig \<Rightarrow> NamingConfig \<Rightarrow> 'w \<Rightarrow> (goerr + 'w ValidatedUpstream) \<times> 'w"

definition Build :: "'w builder registry \<Rightarrow> 'w builder" where
  "Build builders cfg naming w =
     (case Get builders (Type cfg) of
        None \<Rightarrow> (Inl (ErrText (''unknown upstream type '' @ go_quote (Type cfg) @ '' '' @ em_dash @ '' did you forget to import _ '' @
          go_quote (''github.com/lega4e/mcp-auto/pkg/upstream/'' @ Type cfg) @ ''?'')), w)
      | Some b \<Rightarrow> b cfg naming w)"

section \<open>What the construction loops compute\<close>

abbreviation entry_index :: "'w RegistryEntry list \<Rightarrow> (string \<times> 'w RegistryEntry) list" where
  "entry_index es \<equiv> map (\<lambda>e. (RegistryEntry.PrefixedName e, e)) es"

abbreviation entry_names :: "'w RegistryEntry list \<Rightarrow> string list" where
  "entry_names es \<equiv> map RegistryEntry.PrefixedName es"

abbreviation all_entries :: "'w ValidatedUpstream list \<Rightarrow> 'w RegistryEntry list" where
  "all_entries ups \<equiv> concat (map Entries ups)"

lemma put_prefix_sel [simp]:
  "byPrefixedName (put_prefix e r) = byPrefixedName r"
  "byUpstreamName (put_prefix e r) = byUpstreamName r"
  "specRootByName (put_prefix e r) = specRootByName r"
  "toolList (put_prefix e r) = toolList r"
  "separator (put_prefix e r) = separator r"
  "groups (put_prefix e r) = groups r"
  by (simp_all add: put_prefix_def split: option.splits)

lemma map_of_entry_index_dom: "dom (map_of (entry_index es)) = RegistryEntry.PrefixedName ` set es"
  by (simp add: dom_map_of_conv_image_fst image_image)

lemma checkPrefixes_None:
  "checkPrefixes seen ups = None \<longleftrightarrow>
     distinct (map (\<lambda>vu. UpstreamConfig.ToolPrefix (VConfig vu)) ups) \<and>
     (\<forall>vu \<in> set ups. seen (UpstreamConfig.ToolPrefix (VConfig vu)) = None)"
  by (induction ups arbitrary: seen) (auto simp: Let_def image_iff split: option.splits)

lemma newEntries_ok_iff:
  "(\<exists>r'. newEntries up es r = Inr r') \<longleftrightarrow>
     distinct (entry_names es) \<and> (\<forall>e \<in> set es. byPrefixedName r (RegistryEntry.PrefixedName e) = None)"
  by (induction es arbitrary: r) (auto simp: Let_def image_iff split: option.splits)

lemma newEntries_effect:
  assumes "newEntries up es r = Inr r'"
  shows "byPrefixedName r' = byPrefixedName r ++ map_of (entry_index es)"
    "toolList r' = toolList r @ map MCPTool es"
    "groups r' = groups r" "separator r' = separator r" "specRootByName r' = specRootByName r"
    "byUpstreamName r' =
       (if es = [] then byUpstreamName r
        else (byUpstreamName r)(up \<mapsto> (case byUpstreamName r up of None \<Rightarrow> [] | Some xs \<Rightarrow> xs) @ es))"
proof -
  have "byPrefixedName r' = byPrefixedName r ++ map_of (entry_index es) \<and>
    toolList r' = toolList r @ map MCPTool es \<and>
    groups r' = groups r \<and> separator r' = separator r \<and> specRootByName r' = specRootByName r \<and>
    byUpstreamName r' =
       (if es = [] then byUpstreamName r
        else (byUpstreamName r)(up \<mapsto> (case byUpstreamName r up of None \<Rightarrow> [] | Some xs \<Rightarrow> xs) @ es))"
    using assms
  proof (induction es arbitrary: r)
    case (Cons e es)
    from Cons.prems have n: "byPrefixedName r (RegistryEntry.PrefixedName e) = None"
      by (auto split: option.splits)
    define q where "q = put_prefix e (r\<lparr>byPrefixedName := (byPrefixedName r)(RegistryEntry.PrefixedName e \<mapsto> e),
      byUpstreamName := (byUpstreamName r)(up \<mapsto> (case byUpstreamName r up of None \<Rightarrow> [] | Some es \<Rightarrow> es) @ [e])\<rparr>)"
    from Cons.prems n have s: "newEntries up es (q\<lparr>toolList := toolList q @ [MCPTool e]\<rparr>) = Inr r'"
      by (simp add: Let_def q_def)
    then have "\<forall>e' \<in> set es. RegistryEntry.PrefixedName e' \<noteq> RegistryEntry.PrefixedName e"
      using newEntries_ok_iff [of up es "q\<lparr>toolList := toolList q @ [MCPTool e]\<rparr>"] by (auto simp: q_def)
    then have d: "RegistryEntry.PrefixedName e \<notin> dom (map_of (entry_index es))"
      by (auto simp: map_of_entry_index_dom)
    from d have d': "map_of (entry_index es) (RegistryEntry.PrefixedName e) = None" by blast
    have "byPrefixedName r' = byPrefixedName r ++ map_of (entry_index (e # es))"
      using Cons.IH [OF s] d' by (auto simp: q_def fun_eq_iff map_add_def split: option.splits)
    moreover have "byUpstreamName r' = (byUpstreamName r)(up \<mapsto>
        (case byUpstreamName r up of None \<Rightarrow> [] | Some xs \<Rightarrow> xs) @ e # es)"
      using Cons.IH [OF s] by (cases "es = []") (auto simp: q_def fun_eq_iff)
    ultimately show ?case using Cons.IH [OF s] by (simp add: q_def del: map_of.simps)
  qed simp
  then show "byPrefixedName r' = byPrefixedName r ++ map_of (entry_index es)"
    "toolList r' = toolList r @ map MCPTool es"
    "groups r' = groups r" "separator r' = separator r" "specRootByName r' = specRootByName r"
    "byUpstreamName r' =
       (if es = [] then byUpstreamName r
        else (byUpstreamName r)(up \<mapsto> (case byUpstreamName r up of None \<Rightarrow> [] | Some xs \<Rightarrow> xs) @ es))"
    by blast+
qed

lemma entry_index_append:
  assumes "distinct (entry_names xs @ entry_names ys)"
  shows "m ++ map_of (entry_index xs) ++ map_of (entry_index ys) = m ++ map_of (entry_index (xs @ ys))"
proof -
  from assms have "dom (map_of (entry_index xs)) \<inter> dom (map_of (entry_index ys)) = {}"
    by (simp add: map_of_entry_index_dom)
  then have "map_of (entry_index xs) ++ map_of (entry_index ys) = map_of (entry_index (xs @ ys))"
    unfolding map_append map_of_append by (rule map_add_comm)
  then show ?thesis by (metis map_add_assoc)
qed

lemma newUpstreams_effect:
  assumes "newUpstreams ups r = Inr r'"
  shows "byPrefixedName r' = byPrefixedName r ++ map_of (entry_index (all_entries ups)) \<and>
    distinct (entry_names (all_entries ups)) \<and>
    (\<forall>e \<in> set (all_entries ups). byPrefixedName r (RegistryEntry.PrefixedName e) = None) \<and>
    toolList r' = toolList r @ map MCPTool (all_entries ups) \<and>
    groups r' = groups r \<and> separator r' = separator r"
  using assms
proof (induction ups arbitrary: r)
  case (Cons vu ups)
  let ?r = "r\<lparr>specRootByName := (specRootByName r)(vu_name vu \<mapsto> SpecYAMLRoot vu)\<rparr>"
  from Cons.prems obtain q where q: "newEntries (vu_name vu) (Entries vu) ?r = Inr q"
    and s: "newUpstreams ups q = Inr r'" by (auto simp: Let_def split: sum.splits)
  note e = newEntries_effect [OF q]
  have ok: "distinct (entry_names (Entries vu))"
    "\<forall>e \<in> set (Entries vu). byPrefixedName r (RegistryEntry.PrefixedName e) = None"
    using newEntries_ok_iff [of "vu_name vu" "Entries vu" ?r] q by auto
  from Cons.IH [OF s] have IH: "byPrefixedName r' = byPrefixedName q ++ map_of (entry_index (all_entries ups))"
    "distinct (entry_names (all_entries ups))"
    "\<forall>e \<in> set (all_entries ups). byPrefixedName q (RegistryEntry.PrefixedName e) = None"
    "toolList r' = toolList q @ map MCPTool (all_entries ups)"
    "groups r' = groups q" "separator r' = separator q" by blast+
  have sep: "\<forall>e \<in> set (all_entries ups). RegistryEntry.PrefixedName e \<notin> RegistryEntry.PrefixedName ` set (Entries vu) \<and>
      byPrefixedName r (RegistryEntry.PrefixedName e) = None"
  proof
    fix x assume "x \<in> set (all_entries ups)"
    with IH(3) have "byPrefixedName q (RegistryEntry.PrefixedName x) = None" by blast
    with e(1) show "RegistryEntry.PrefixedName x \<notin> RegistryEntry.PrefixedName ` set (Entries vu) \<and>
        byPrefixedName r (RegistryEntry.PrefixedName x) = None"
      by (simp add: map_add_None map_of_eq_None_iff image_image)
  qed
  have "x \<notin> set (entry_names (all_entries ups))" if x: "x \<in> set (entry_names (Entries vu))" for x
  proof
    assume "x \<in> set (entry_names (all_entries ups))"
    then obtain y where y: "y \<in> set (all_entries ups)" "x = RegistryEntry.PrefixedName y"
      unfolding set_map by (elim imageE)
    from sep [rule_format, OF y(1)] x y(2) show False by (simp only: set_map)
  qed
  then have "set (entry_names (Entries vu)) \<inter> set (entry_names (all_entries ups)) = {}"
    by (meson disjoint_iff)
  with ok(1) IH(2) have d: "distinct (entry_names (Entries vu) @ entry_names (all_entries ups))"
    by (simp only: distinct_append)
  have "byPrefixedName r' = byPrefixedName r ++ map_of (entry_index (all_entries (vu # ups)))"
    unfolding IH(1) e(1) using entry_index_append [OF d, of "byPrefixedName r"] by simp
  moreover have "distinct (entry_names (all_entries (vu # ups)))"
    using d by (simp only: list.map concat.simps map_append)
  moreover have "\<forall>x \<in> set (all_entries (vu # ups)). byPrefixedName r (RegistryEntry.PrefixedName x) = None"
    using ok(2) sep by (simp only: list.map concat.simps set_append ball_Un) blast
  moreover have "toolList r' = toolList r @ map MCPTool (all_entries (vu # ups))"
    "groups r' = groups r" "separator r' = separator r"
    using e(2-4) IH(4-6) by simp_all
  ultimately show ?case by blast
qed simp

text \<open>The list of triples as one list of entries.\<close>

abbreviation triple_entries :: "(string \<times> 'w RegistryEntry list \<times> node option) list \<Rightarrow> 'w RegistryEntry list" where
  "triple_entries ups \<equiv> concat (map (\<lambda>(up, es, rt). es) ups)"

abbreviation set_tools :: "'w RegistryEntry list \<Rightarrow> Tool option list" where
  "set_tools es \<equiv> filter (\<lambda>t. t \<noteq> None) (map MCPTool es)"

lemma fromEntries_ok_iff:
  "(\<exists>r'. fromEntries es r = Inr r') \<longleftrightarrow>
     distinct (entry_names es) \<and> (\<forall>e \<in> set es. byPrefixedName r (RegistryEntry.PrefixedName e) = None)"
proof (induction es arbitrary: r)
  case (Cons e es)
  then show ?case by (auto simp: Let_def image_iff split: option.splits if_splits)
qed simp

lemma fromEntries_effect:
  assumes "fromEntries es r = Inr r'"
  shows "byPrefixedName r' = byPrefixedName r ++ map_of (entry_index es) \<and>
    toolList r' = toolList r @ set_tools es \<and> groups r' = groups r \<and>
    separator r' = separator r \<and> specRootByName r' = specRootByName r \<and>
    byUpstreamName r' = byUpstreamName r"
  using assms
proof (induction es arbitrary: r)
  case (Cons e es)
  from Cons.prems have n: "byPrefixedName r (RegistryEntry.PrefixedName e) = None"
    by (auto split: option.splits)
  define q where "q = put_prefix e (r\<lparr>byPrefixedName := (byPrefixedName r)(RegistryEntry.PrefixedName e \<mapsto> e)\<rparr>)"
  define q' where "q' = (if MCPTool e \<noteq> None then q\<lparr>toolList := toolList q @ [MCPTool e]\<rparr> else q)"
  have sel: "byPrefixedName q' = (byPrefixedName r)(RegistryEntry.PrefixedName e \<mapsto> e)"
    "toolList q' = toolList r @ set_tools [e]" "groups q' = groups r" "separator q' = separator r"
    "specRootByName q' = specRootByName r" "byUpstreamName q' = byUpstreamName r"
    by (simp_all add: q'_def q_def)
  from Cons.prems n have s: "fromEntries es q' = Inr r'"
    unfolding q_def q'_def by (cases "MCPTool e") (simp_all add: Let_def)
  then have "\<forall>e' \<in> set es. RegistryEntry.PrefixedName e' \<noteq> RegistryEntry.PrefixedName e"
    using fromEntries_ok_iff [of es q'] by (auto simp: sel)
  then have d: "map_of (entry_index es) (RegistryEntry.PrefixedName e) = None"
    by (auto simp: map_of_eq_None_iff)
  note IH = Cons.IH [OF s]
  have "byPrefixedName r' = byPrefixedName r ++ map_of (entry_index (e # es))"
    using IH d by (auto simp: sel fun_eq_iff map_add_def split: option.splits)
  moreover have "toolList r' = toolList r @ set_tools (e # es)" using IH by (simp add: sel)
  ultimately show ?case using IH sel by metis
qed simp

lemma fromUpstreams_effect:
  assumes "fromUpstreams ups r = Inr r'"
  shows "byPrefixedName r' = byPrefixedName r ++ map_of (entry_index (triple_entries ups)) \<and>
    distinct (entry_names (triple_entries ups)) \<and>
    (\<forall>e \<in> set (triple_entries ups). byPrefixedName r (RegistryEntry.PrefixedName e) = None) \<and>
    toolList r' = toolList r @ set_tools (triple_entries ups) \<and>
    groups r' = groups r \<and> separator r' = separator r \<and> specRootByName r' = specRootByName r \<and>
    byUpstreamName r' = byUpstreamName r ++ map_of (rev (map (\<lambda>(up, es, rt). (up, es)) ups))"
  using assms
proof (induction ups arbitrary: r)
  case (Cons u ups)
  obtain up es rt where u: "u = (up, es, rt)" by (cases u)
  let ?r = "r\<lparr>byUpstreamName := (byUpstreamName r)(up \<mapsto> es)\<rparr>"
  from Cons.prems obtain q where q: "fromEntries es ?r = Inr q" and s: "fromUpstreams ups q = Inr r'"
    by (auto simp: u split: sum.splits)
  note e = fromEntries_effect [OF q]
  have ok: "distinct (entry_names es)"
    "\<forall>x \<in> set es. byPrefixedName r (RegistryEntry.PrefixedName x) = None"
    using fromEntries_ok_iff [of es ?r] q by auto
  note IH = Cons.IH [OF s]
  have sep: "RegistryEntry.PrefixedName x \<notin> RegistryEntry.PrefixedName ` set es \<and>
      byPrefixedName r (RegistryEntry.PrefixedName x) = None" if "x \<in> set (triple_entries ups)" for x
  proof -
    from IH that have "byPrefixedName q (RegistryEntry.PrefixedName x) = None" by blast
    with e show ?thesis by (simp add: map_add_None map_of_eq_None_iff image_image)
  qed
  have "x \<notin> set (entry_names (triple_entries ups))" if x: "x \<in> set (entry_names es)" for x
  proof
    assume "x \<in> set (entry_names (triple_entries ups))"
    then obtain y where y: "y \<in> set (triple_entries ups)" "x = RegistryEntry.PrefixedName y"
      unfolding set_map by (elim imageE)
    from sep [OF y(1)] x y(2) show False by (simp only: set_map)
  qed
  then have "set (entry_names es) \<inter> set (entry_names (triple_entries ups)) = {}"
    by (meson disjoint_iff)
  with ok(1) IH have d: "distinct (entry_names es @ entry_names (triple_entries ups))"
    by (simp only: distinct_append)
  have te: "triple_entries (u # ups) = es @ triple_entries ups" by (simp add: u)
  have "byPrefixedName r' = byPrefixedName r ++ map_of (entry_index (triple_entries (u # ups)))"
    using IH e entry_index_append [OF d, of "byPrefixedName r"] unfolding te by simp
  moreover have "distinct (entry_names (triple_entries (u # ups)))"
    using d unfolding te by (simp only: map_append)
  moreover have "\<forall>x \<in> set (triple_entries (u # ups)). byPrefixedName r (RegistryEntry.PrefixedName x) = None"
    unfolding te set_append ball_Un using ok(2) sep by blast
  moreover have "toolList r' = toolList r @ set_tools (triple_entries (u # ups))"
    using IH e unfolding te by simp
  moreover have "byUpstreamName r' = byUpstreamName r ++ map_of (rev (map (\<lambda>(up, es, rt). (up, es)) (u # ups)))"
    using IH e by (auto simp: u map_add_assoc fun_eq_iff map_add_def split: option.splits)
  ultimately show ?case using IH e by simp
qed simp

lemma compileFilters_effect:
  assumes "compileFilters jp gs m = Inr fs"
  shows "fs n = (case find (\<lambda>g. GroupConfig.Name g = n \<and> Filter g \<noteq> []) (rev gs) of
      None \<Rightarrow> m n | Some g \<Rightarrow> (case jp (Filter g) of Inr q \<Rightarrow> Some q | Inl _ \<Rightarrow> None))"
  using assms
proof (induction gs arbitrary: m)
  case (Cons g gs)
  have f: "find P (xs @ [x]) = (case find P xs of None \<Rightarrow> (if P x then Some x else None) | Some y \<Rightarrow> Some y)"
    for P :: "GroupConfig \<Rightarrow> bool" and xs x by (induction xs) auto
  show ?case
  proof (cases "Filter g = []")
    case True
    with Cons show ?thesis by (simp add: f split: option.splits)
  next
    case False
    with Cons.prems obtain q where q: "jp (Filter g) = Inr q"
      "compileFilters jp gs (m(GroupConfig.Name g \<mapsto> q)) = Inr fs" by (auto split: sum.splits)
    from Cons.IH [OF q(2)] False q(1) show ?thesis by (auto simp: f split: option.splits)
  qed
qed simp

lemma compileFilters_ok_iff:
  "(\<exists>fs. compileFilters jp gs m = Inr fs) \<longleftrightarrow>
     (\<forall>g \<in> set gs. Filter g \<noteq> [] \<longrightarrow> (\<exists>q. jp (Filter g) = Inr q))"
  by (induction gs arbitrary: m) (auto split: sum.splits)

lemma compileFilters_distinct:
  assumes "compileFilters jp gs Map.empty = Inr fs" "distinct (map GroupConfig.Name gs)" "g \<in> set gs"
  shows "if Filter g = [] then fs (GroupConfig.Name g) = None
    else \<exists>q. jp (Filter g) = Inr q \<and> fs (GroupConfig.Name g) = Some q"
proof -
  have u: "g' = g" if "g' \<in> set gs" "GroupConfig.Name g' = GroupConfig.Name g" for g'
    using assms(2,3) that by (metis distinct_map inj_onD)
  let ?f = "find (\<lambda>x. GroupConfig.Name x = GroupConfig.Name g \<and> Filter x \<noteq> []) (rev gs)"
  show ?thesis
  proof (cases ?f)
    case None
    with assms(3) have "Filter g = []" by (auto simp: find_None_iff)
    with compileFilters_effect [OF assms(1), of "GroupConfig.Name g"] None show ?thesis by simp
  next
    case (Some g')
    then have "g' \<in> set gs \<and> GroupConfig.Name g' = GroupConfig.Name g \<and> Filter g' \<noteq> []"
      by (auto simp: find_Some_iff in_set_conv_nth rev_nth)
         (metis (no_types, lifting) diff_less gr_implies_not0 length_greater_0_conv list.size(3) zero_less_Suc)+
    with u have "g' = g" "Filter g \<noteq> []" by auto
    moreover obtain q where "jp (Filter g) = Inr q"
      using compileFilters_ok_iff assms(1,3) calculation(2) by metis
    ultimately show ?thesis
      using compileFilters_effect [OF assms(1), of "GroupConfig.Name g"] Some by simp
  qed
qed

lemma buildGroups_ok_iff:
  "(\<exists>r'. buildGroups fs ups gs r = Inr r') \<longleftrightarrow> gs = [] \<or> None \<notin> set (toolList r)"
  by (induction gs arbitrary: r) (auto simp: Let_def groupToolList_def)

abbreviation group_data ::
    "(string \<rightharpoonup> (node \<Rightarrow> node list)) \<Rightarrow> (string \<times> 'w RegistryEntry list \<times> node option) list \<Rightarrow>
     Tool option list \<Rightarrow> GroupConfig \<Rightarrow> groupData" where
  "group_data fs ups tools g \<equiv>
     \<lparr>gd_toolList = filter (\<lambda>t. Tool.Name t \<in> set (groupToolSet fs g ups)) (map the tools),
      gd_toolSet = groupToolSet fs g ups\<rparr>"

lemma find_snoc:
  "find P (xs @ [x]) = (case find P xs of None \<Rightarrow> (if P x then Some x else None) | Some y \<Rightarrow> Some y)"
  by (induction xs) auto

lemma find_SomeD: "find P xs = Some x \<Longrightarrow> P x \<and> x \<in> set xs"
  by (induction xs) (auto split: if_splits)

lemma buildGroups_effect:
  assumes "buildGroups fs ups gs r = Inr r'"
  shows "byPrefixedName r' = byPrefixedName r \<and> byUpstreamName r' = byUpstreamName r \<and>
    specRootByName r' = specRootByName r \<and> toolList r' = toolList r \<and> separator r' = separator r \<and>
    (\<forall>n. groups r' n = (case find (\<lambda>g. GroupConfig.Name g = n) (rev gs) of
        None \<Rightarrow> groups r n | Some g \<Rightarrow> Some (group_data fs ups (toolList r) g)))"
  using assms
proof (induction gs arbitrary: r)
  case (Cons g gs)
  let ?r = "r\<lparr>groups := (groups r)(GroupConfig.Name g \<mapsto> group_data fs ups (toolList r) g)\<rparr>"
  from Cons.prems have s: "buildGroups fs ups gs ?r = Inr r'"
    by (auto simp: Let_def groupToolList_def split: if_splits sum.splits)
  from Cons.IH [OF s] show ?case by (auto simp: find_snoc split: option.splits)
qed simp

lemma buildGroups_groups:
  assumes "buildGroups fs ups gs r = Inr r'" "groups r = Map.empty"
  shows "groups r' n = map_option (group_data fs ups (toolList r)) (find (\<lambda>g. GroupConfig.Name g = n) (rev gs))"
  using buildGroups_effect [OF assms(1)] assms(2) by (auto split: option.splits)

lemma groups_of_distinct:
  assumes "buildGroups fs ups gs r = Inr r'" "distinct (map GroupConfig.Name gs)" "g \<in> set gs"
  shows "groups r' (GroupConfig.Name g) = Some (group_data fs ups (toolList r) g)"
proof (cases "find (\<lambda>x. GroupConfig.Name x = GroupConfig.Name g) (rev gs)")
  case None
  with assms(3) show ?thesis by (auto simp: find_None_iff)
next
  case (Some g')
  with find_SomeD [OF Some] assms(2,3) have "g' = g" by (metis distinct_map inj_onD set_rev)
  with Some buildGroups_effect [OF assms(1)] show ?thesis by simp
qed

lemma groupToolSet_mem:
  "t \<in> set (groupToolSet fs g ups) \<longleftrightarrow>
     (\<exists>(up, es, rt) \<in> set ups. up \<in> set (GroupConfig.Upstreams g) \<and>
       (\<exists>e \<in> set es. entryIncluded (fs (GroupConfig.Name g)) (matchedNodes (fs (GroupConfig.Name g)) rt) e \<and>
          t = RegistryEntry.PrefixedName e))"
  by (fastforce simp: groupToolSet_def Let_def image_iff split: if_splits prod.splits)

section \<open>Specification of group membership\<close>

text \<open>A tool belongs to a group when its upstream is listed and, if the group has a filter
  and the tool comes from an OpenAPI operation, the filter selects that operation in the
  upstream's document.\<close>

definition group_selects ::
    "jsonpath_lib \<Rightarrow> GroupConfig \<Rightarrow> string \<Rightarrow> node option \<Rightarrow> 'w RegistryEntry \<Rightarrow> bool" where
  "group_selects jp g up rt e \<longleftrightarrow>
     up \<in> set (GroupConfig.Upstreams g) \<and>
     (Filter g = [] \<or> OperationNode e = None \<or>
      (case (jp (Filter g), rt) of
         (Inr q, Some n) \<Rightarrow> the (OperationNode e) \<in> set (q n) | _ \<Rightarrow> False))"

lemma groupToolSet_selects:
  assumes "compileFilters jp gs Map.empty = Inr fs" "distinct (map GroupConfig.Name gs)" "g \<in> set gs"
  shows "set (groupToolSet fs g ups) =
    {RegistryEntry.PrefixedName e | up es rt e. (up, es, rt) \<in> set ups \<and> e \<in> set es \<and> group_selects jp g up rt e}"
proof -
  have "entryIncluded (fs (GroupConfig.Name g)) (matchedNodes (fs (GroupConfig.Name g)) rt) e \<and>
      up \<in> set (GroupConfig.Upstreams g) \<longleftrightarrow> group_selects jp g up rt e"
    for up rt and e :: "'a RegistryEntry"
    using compileFilters_distinct [OF assms]
    by (auto simp: entryIncluded_def matchedNodes_def group_selects_def split: if_splits option.splits)
  then show ?thesis by (fastforce simp: groupToolSet_mem)
qed

text \<open>Every advertised tool can be dispatched: the invariant of a built registry.\<close>

definition registry_wf :: "'w Registry \<Rightarrow> bool" where
  "registry_wf r \<longleftrightarrow>
     (\<forall>n gd. groups r n = Some gd \<longrightarrow>
        (\<forall>t \<in> set (gd_toolSet gd). byPrefixedName r t \<noteq> None) \<and>
        (\<forall>t \<in> set (gd_toolList gd). Tool.Name t \<in> set (gd_toolSet gd)))"

lemma buildGroups_wf:
  assumes "buildGroups fs ups gs r = Inr r'" "groups r = Map.empty"
    and "\<forall>e \<in> set (triple_entries ups). byPrefixedName r (RegistryEntry.PrefixedName e) \<noteq> None"
  shows "registry_wf r'"
  unfolding registry_wf_def
proof (intro allI impI)
  fix n gd assume "groups r' n = Some gd"
  with buildGroups_effect [OF assms(1)] assms(2) obtain g where
    gd: "gd = group_data fs ups (toolList r) g" by (auto split: option.splits)
  have "byPrefixedName r t \<noteq> None" if "t \<in> set (groupToolSet fs g ups)" for t
    using that assms(3) by (fastforce simp: groupToolSet_mem)
  with gd buildGroups_effect [OF assms(1)]
  show "(\<forall>t \<in> set (gd_toolSet gd). byPrefixedName r' t \<noteq> None) \<and>
      (\<forall>t \<in> set (gd_toolList gd). Tool.Name t \<in> set (gd_toolSet gd))" by simp
qed

lemma entry_index_lookup:
  "e \<in> set es \<Longrightarrow> map_of (entry_index es) (RegistryEntry.PrefixedName e) \<noteq> None"
  by (auto simp: map_of_eq_None_iff image_iff)

lemma NewE:
  assumes "New jp ups naming gs = Inr r"
  obtains r0 fs where "checkPrefixes Map.empty ups = None"
    "newUpstreams ups (empty_registry naming) = Inr r0"
    "compileFilters jp gs Map.empty = Inr fs" "buildGroups fs (map vu_triple ups) gs r0 = Inr r"
  using assms by (auto simp: New_def split: option.splits sum.splits)

lemma NewFromEntriesE:
  assumes "NewFromEntries jp ups naming gs = Inr r"
  obtains r0 fs where
    "fromUpstreams ups ((empty_registry naming)
       \<lparr>specRootByName := map_of (map (\<lambda>(up, es, rt). (up, rt)) ups)\<rparr>) = Inr r0"
    "compileFilters jp gs Map.empty = Inr fs" "buildGroups fs ups gs r0 = Inr r"
  using assms by (auto simp: NewFromEntries_def Let_def split: sum.splits)

lemma triple_entries_vu [simp]: "triple_entries (map vu_triple ups) = all_entries ups"
  by (induction ups) (auto simp: vu_triple_def)

lemma empty_registry_sel [simp]:
  "byPrefixedName (empty_registry n) = Map.empty" "toolList (empty_registry n) = []"
  "groups (empty_registry n) = Map.empty" "byUpstreamName (empty_registry n) = Map.empty"
  "specRootByName (empty_registry n) = Map.empty" "separator (empty_registry n) = NamingConfig.Separator n"
  by (simp_all add: empty_registry_def)

lemma New_index:
  assumes "New jp ups naming gs = Inr r"
  shows "byPrefixedName r = map_of (entry_index (all_entries ups))"
    "distinct (entry_names (all_entries ups))" "toolList r = map MCPTool (all_entries ups)"
    "separator r = NamingConfig.Separator naming"
  by (rule NewE [OF assms], use newUpstreams_effect buildGroups_effect in fastforce)+

lemma NewFromEntries_index:
  assumes "NewFromEntries jp ups naming gs = Inr r"
  shows "byPrefixedName r = map_of (entry_index (triple_entries ups))"
    "distinct (entry_names (triple_entries ups))" "toolList r = set_tools (triple_entries ups)"
    "separator r = NamingConfig.Separator naming"
  by (rule NewFromEntriesE [OF assms], use fromUpstreams_effect buildGroups_effect in fastforce)+

lemma New_wf:
  assumes "New jp ups naming gs = Inr r"
  shows "registry_wf r"
proof -
  from assms obtain r0 fs where r0: "newUpstreams ups (empty_registry naming) = Inr r0"
    and b: "buildGroups fs (map vu_triple ups) gs r0 = Inr r" by (rule NewE)
  from newUpstreams_effect [OF r0] have "groups r0 = Map.empty"
    and i: "byPrefixedName r0 = map_of (entry_index (all_entries ups))" by simp_all
  then show ?thesis
    by (intro buildGroups_wf [OF b]) (use entry_index_lookup in \<open>simp_all only: i triple_entries_vu, blast\<close>)
qed

lemma NewFromEntries_wf:
  assumes "NewFromEntries jp ups naming gs = Inr r"
  shows "registry_wf r"
proof -
  from assms obtain r0 fs where r0:
    "fromUpstreams ups ((empty_registry naming)
       \<lparr>specRootByName := map_of (map (\<lambda>(up, es, rt). (up, rt)) ups)\<rparr>) = Inr r0"
    and b: "buildGroups fs ups gs r0 = Inr r" by (rule NewFromEntriesE)
  from fromUpstreams_effect [OF r0] have "groups r0 = Map.empty"
    and i: "byPrefixedName r0 = map_of (entry_index (triple_entries ups))" by simp_all
  then show ?thesis
    by (intro buildGroups_wf [OF b]) (use entry_index_lookup in \<open>simp_all only: i, blast\<close>)
qed

text \<open>The executor runs only for a tool of the group; every other call is answered with an
  error result and leaves the world as it is.\<close>

lemma dispatch_in_group:
  assumes "registry_wf r" "groups r g = Some gd" "name \<in> set (gd_toolSet gd)"
  obtains e where "byPrefixedName r name = Some e"
    "registryDispatchForGroup r g name ctx args w = Executor e ctx args w"
proof -
  from assms have "byPrefixedName r name \<noteq> None" unfolding registry_wf_def by blast
  then obtain e where "byPrefixedName r name = Some e" by blast
  with assms that show thesis by (simp add: registryDispatchForGroup_def handleToolCall_def)
qed

lemma dispatch_outside_group:
  assumes "\<forall>gd. groups r g = Some gd \<longrightarrow> name \<notin> set (gd_toolSet gd)"
  shows "\<exists>msg. registryDispatchForGroup r g name ctx args w = ((Some (error_result msg), None), w)"
  using assms by (cases "groups r g") (auto simp: registryDispatchForGroup_def)

section \<open>The contract of the authentication middleware\<close>

text \<open>\<^verbatim>\<open>inbound.RegistryReader\<close>: what the inbound middleware may rely on.\<close>

locale registry_reader =
  fixes auth_required :: "'r \<Rightarrow> string \<Rightarrow> bool"
    and public_tool :: "'r \<Rightarrow> string \<Rightarrow> bool"
  assumes conservative: "\<not> auth_required r t \<Longrightarrow> public_tool r t"
    and exact: "public_tool r t \<Longrightarrow> \<not> auth_required r t"
begin

lemma required_iff: "auth_required r t \<longleftrightarrow> \<not> public_tool r t"
  using conservative exact by blast

end

definition registryPublic :: "'w Registry \<Rightarrow> string \<Rightarrow> bool" where
  "registryPublic r t \<longleftrightarrow> (case byPrefixedName r t of None \<Rightarrow> False | Some e \<Rightarrow> \<not> AuthRequired e)"

interpretation reg_reader: registry_reader registryAuthRequired registryPublic
  by unfold_locales (auto simp: registryAuthRequired_def registryPublic_def split: option.splits)

section \<open>Incremental and full construction agree\<close>

text \<open>
  The full construction indexes every upstream's entries under its name, so the entries
  the manager keeps per upstream are those of the upstream.
\<close>

lemma newUpstreams_byName:
  assumes "newUpstreams ups r = Inr r'" "distinct (map vu_name ups)"
  shows "byUpstreamName r' n = (case find (\<lambda>vu. vu_name vu = n) ups of
      None \<Rightarrow> byUpstreamName r n
    | Some vu \<Rightarrow> (if Entries vu = [] then byUpstreamName r n
        else Some ((case byUpstreamName r n of None \<Rightarrow> [] | Some xs \<Rightarrow> xs) @ Entries vu))) \<and>
    specRootByName r' n = (case find (\<lambda>vu. vu_name vu = n) ups of
      None \<Rightarrow> specRootByName r n | Some vu \<Rightarrow> Some (SpecYAMLRoot vu))"
  using assms
proof (induction ups arbitrary: r)
  case (Cons vu ups)
  let ?r = "r\<lparr>specRootByName := (specRootByName r)(vu_name vu \<mapsto> SpecYAMLRoot vu)\<rparr>"
  from Cons.prems obtain q where q: "newEntries (vu_name vu) (Entries vu) ?r = Inr q"
    and s: "newUpstreams ups q = Inr r'" by (auto simp: Let_def split: sum.splits)
  note e = newEntries_effect [OF q]
  from Cons.prems(2) have nd: "find (\<lambda>v. vu_name v = vu_name vu) ups = None"
    by (auto simp: find_None_iff image_iff)
  have "distinct (map vu_name ups)" using Cons.prems(2) by simp
  note IH = Cons.IH [OF s this]
  show ?case
  proof (cases "vu_name vu = n")
    case True
    with IH e nd show ?thesis by (auto split: if_splits)
  next
    case False
    with IH e show ?thesis by (auto split: option.splits if_splits)
  qed
qed simp

lemma New_upstream_state:
  assumes "New jp ups naming gs = Inr r" "distinct (map vu_name ups)" "vu \<in> set ups"
  shows "EntriesForUpstream r (vu_name vu) = Entries vu \<and> SpecRootForUpstream r (vu_name vu) = SpecYAMLRoot vu"
proof -
  from assms(1) obtain r0 fs where r0: "newUpstreams ups (empty_registry naming) = Inr r0"
    and b: "buildGroups fs (map vu_triple ups) gs r0 = Inr r" by (rule NewE)
  have f: "find (\<lambda>v. vu_name v = vu_name vu) ups = Some vu"
  proof (cases "find (\<lambda>v. vu_name v = vu_name vu) ups")
    case None
    with assms(3) show ?thesis by (auto simp: find_None_iff)
  next
    case (Some v)
    with find_SomeD [OF Some] assms(2,3) show ?thesis by (metis distinct_map inj_onD)
  qed
  from newUpstreams_byName [OF r0 assms(2), of "vu_name vu"] buildGroups_effect [OF b] f
  show ?thesis by (auto simp: EntriesForUpstream_def SpecRootForUpstream_def)
qed

lemma map_of_index_mset:
  assumes "mset es = mset es'" "distinct (entry_names es)"
  shows "map_of (entry_index es) = map_of (entry_index es')"
proof (rule map_of_eqI)
  from assms have s: "set es = set es'" by (metis set_mset_mset)
  from assms have d: "distinct (entry_names es')" by (metis mset_eq_imp_distinct_iff mset_map)
  from s show "set (map fst (entry_index es)) = set (map fst (entry_index es'))" by (simp add: image_image)
  have m: "map_of (entry_index xs) (RegistryEntry.PrefixedName e) = Some e"
    if "distinct (entry_names xs)" "e \<in> set xs" for xs and e :: "'a RegistryEntry"
    using that by (auto intro!: map_of_is_SomeI simp: comp_def)
  show "\<forall>k \<in> set (map fst (entry_index es)). map_of (entry_index es) k = map_of (entry_index es') k"
    using m [OF assms(2)] m [OF d] s by auto
qed

lemma newUpstreams_ok:
  assumes "distinct (entry_names (all_entries ups))"
    and "\<forall>e \<in> set (all_entries ups). byPrefixedName r (RegistryEntry.PrefixedName e) = None"
  shows "\<exists>r'. newUpstreams ups r = Inr r'"
  using assms
proof (induction ups arbitrary: r)
  case (Cons vu ups)
  let ?r = "r\<lparr>specRootByName := (specRootByName r)(vu_name vu \<mapsto> SpecYAMLRoot vu)\<rparr>"
  have d: "distinct (entry_names (Entries vu))" "distinct (entry_names (all_entries ups))"
    and sep: "set (entry_names (Entries vu)) \<inter> set (entry_names (all_entries ups)) = {}"
    using Cons.prems(1) by (simp_all only: list.map concat.simps map_append distinct_append)
  obtain q where q: "newEntries (vu_name vu) (Entries vu) ?r = Inr q"
    using newEntries_ok_iff [of "vu_name vu" "Entries vu" ?r] d(1) Cons.prems(2) by auto
  have "byPrefixedName q (RegistryEntry.PrefixedName x) = None" if x: "x \<in> set (all_entries ups)" for x
  proof -
    from x have "RegistryEntry.PrefixedName x \<in> set (entry_names (all_entries ups))" by (simp only: set_map imageI)
    with sep have "RegistryEntry.PrefixedName x \<notin> set (entry_names (Entries vu))" by (meson disjoint_iff)
    moreover have "byPrefixedName r (RegistryEntry.PrefixedName x) = None" using Cons.prems(2) x by simp
    ultimately show ?thesis
      using newEntries_effect(1) [OF q] by (simp add: map_add_None map_of_eq_None_iff image_image)
  qed
  then obtain r' where "newUpstreams ups q = Inr r'" using Cons.IH [OF d(2), of q] by blast
  with q show ?case by (simp add: Let_def)
qed simp

lemma fromUpstreams_ok:
  assumes "distinct (entry_names (triple_entries ups))"
    and "\<forall>e \<in> set (triple_entries ups). byPrefixedName r (RegistryEntry.PrefixedName e) = None"
  shows "\<exists>r'. fromUpstreams ups r = Inr r'"
  using assms
proof (induction ups arbitrary: r)
  case (Cons u ups)
  obtain up es rt where u: "u = (up, es, rt)" by (cases u)
  let ?r = "r\<lparr>byUpstreamName := (byUpstreamName r)(up \<mapsto> es)\<rparr>"
  have te: "triple_entries (u # ups) = es @ triple_entries ups" by (simp add: u)
  have d: "distinct (entry_names es)" "distinct (entry_names (triple_entries ups))"
    and sep: "set (entry_names es) \<inter> set (entry_names (triple_entries ups)) = {}"
    using Cons.prems(1) unfolding te by (simp_all only: map_append distinct_append)
  obtain q where q: "fromEntries es ?r = Inr q"
    using fromEntries_ok_iff [of es ?r] d(1) Cons.prems(2) unfolding te by auto
  have "byPrefixedName q (RegistryEntry.PrefixedName x) = None" if x: "x \<in> set (triple_entries ups)" for x
  proof -
    from x have "RegistryEntry.PrefixedName x \<in> set (entry_names (triple_entries ups))" by (simp only: set_map imageI)
    with sep have "RegistryEntry.PrefixedName x \<notin> set (entry_names es)" by (meson disjoint_iff)
    moreover have "byPrefixedName r (RegistryEntry.PrefixedName x) = None"
      using Cons.prems(2) x unfolding te by simp
    ultimately show ?thesis
      using fromEntries_effect [OF q] by (simp add: map_add_None map_of_eq_None_iff image_image)
  qed
  then obtain r' where "fromUpstreams ups q = Inr r'" using Cons.IH [OF d(2), of q] by blast
  with q show ?case by (simp add: u)
qed simp

section \<open>Properties\<close>

text \<open>C18: the full construction succeeds exactly when no two upstreams share a tool prefix, all
  tool names are distinct, every group filter compiles, and (when there are groups) every
  entry carries its MCP tool.\<close>

theorem registry_new_succeeds_iff:
  "(\<exists>r. New jp ups naming gs = Inr r) \<longleftrightarrow>
     distinct (map (\<lambda>vu. UpstreamConfig.ToolPrefix (VConfig vu)) ups) \<and>
     distinct (entry_names (all_entries ups)) \<and>
     list_all (\<lambda>g. Filter g = [] \<or> (case jp (Filter g) of Inr q \<Rightarrow> True | Inl e \<Rightarrow> False)) gs \<and>
     (gs = [] \<or> None \<notin> set (map MCPTool (all_entries ups)))" (is "?L = ?R")
proof
  assume ?L
  then obtain r where r: "New jp ups naming gs = Inr r" ..
  then obtain r0 fs where c: "checkPrefixes Map.empty ups = None"
    and n: "newUpstreams ups (empty_registry naming) = Inr r0"
    and f: "compileFilters jp gs Map.empty = Inr fs"
    and b: "buildGroups fs (map vu_triple ups) gs r0 = Inr r" by (rule NewE)
  from b have g: "gs = [] \<or> None \<notin> set (toolList r0)" using buildGroups_ok_iff by metis
  from f have v: "\<forall>g \<in> set gs. Filter g \<noteq> [] \<longrightarrow> (\<exists>q. jp (Filter g) = Inr q)"
    using compileFilters_ok_iff by metis
  show ?R using c v g newUpstreams_effect [OF n] New_index(2) [OF r]
    by (auto simp: checkPrefixes_None list_all_iff split: sum.splits)
next
  assume R: ?R
  then obtain r0 where n: "newUpstreams ups (empty_registry naming) = Inr r0"
    using newUpstreams_ok [of ups "empty_registry naming"] by auto
  have "\<exists>q. jp (Filter g) = Inr q" if "g \<in> set gs" "Filter g \<noteq> []" for g
    using R that by (cases "jp (Filter g)") (auto simp: list_all_iff)
  then obtain fs where f: "compileFilters jp gs Map.empty = Inr fs" using compileFilters_ok_iff by metis
  have "toolList r0 = map MCPTool (all_entries ups)" using newUpstreams_effect [OF n] by simp
  with R obtain r where "buildGroups fs (map vu_triple ups) gs r0 = Inr r"
    using buildGroups_ok_iff [of fs "map vu_triple ups" gs r0] by auto
  moreover have "checkPrefixes Map.empty ups = None" using R by (simp add: checkPrefixes_None)
  ultimately have "New jp ups naming gs = Inr r" using n f by (simp add: New_def)
  then show ?L ..
qed

text \<open>C2: in a built registry a call for a group reaches an executor exactly when the tool
  is an entry of an upstream the group lists and the group's filter selects its operation;
  every other call gets an error result and changes nothing.\<close>

theorem registry_dispatch_respects_groups:
  assumes "New jp ups naming gs = Inr r" and "distinct (map GroupConfig.Name gs)" and "g \<in> set gs"
  shows "if \<exists>vu \<in> set ups. \<exists>e \<in> set (Entries vu).
             RegistryEntry.PrefixedName e = name \<and> group_selects jp g (vu_name vu) (SpecYAMLRoot vu) e
    then \<exists>e. EntryForTool r name = Some e \<and>
           registryDispatchForGroup r (GroupConfig.Name g) name ctx args w = Executor e ctx args w
    else \<exists>msg. registryDispatchForGroup r (GroupConfig.Name g) name ctx args w =
           ((Some (error_result msg), None), w)"
proof -
  from assms(1) obtain r0 fs where f: "compileFilters jp gs Map.empty = Inr fs"
    and b: "buildGroups fs (map vu_triple ups) gs r0 = Inr r" by (rule NewE)
  note gd = groups_of_distinct [OF b assms(2,3)]
  have mem: "name \<in> set (groupToolSet fs g (map vu_triple ups)) \<longleftrightarrow>
      (\<exists>vu \<in> set ups. \<exists>e \<in> set (Entries vu).
         RegistryEntry.PrefixedName e = name \<and> group_selects jp g (vu_name vu) (SpecYAMLRoot vu) e)"
    unfolding groupToolSet_selects [OF f assms(2,3)] by (fastforce simp: vu_triple_def)
  show ?thesis
  proof (cases "name \<in> set (groupToolSet fs g (map vu_triple ups))")
    case True
    then have "name \<in> set (gd_toolSet (group_data fs (map vu_triple ups) (toolList r0) g))" by simp
    then obtain e where "byPrefixedName r name = Some e"
      "registryDispatchForGroup r (GroupConfig.Name g) name ctx args w = Executor e ctx args w"
      by (rule dispatch_in_group [OF New_wf [OF assms(1)] gd])
    with True mem show ?thesis by (simp add: EntryForTool_def)
  next
    case False
    with gd dispatch_outside_group [of r "GroupConfig.Name g" name ctx args w]
    have "\<exists>msg. registryDispatchForGroup r (GroupConfig.Name g) name ctx args w =
        ((Some (error_result msg), None), w)" by simp
    with False mem show ?thesis by (simp only: if_False)
  qed
qed

text \<open>The order in which upstreams are visited does not change the entries as a multiset.\<close>

lemma triple_entries_mset: "mset ups = mset ups' \<Longrightarrow> mset (triple_entries ups) = mset (triple_entries ups')"
proof -
  have "mset (triple_entries us) = \<Sum>\<^sub># (image_mset (\<lambda>(up, es, rt). mset es) (mset us))"
    for us :: "(string \<times> 'a RegistryEntry list \<times> node option) list"
    by (induction us) (auto split: prod.splits)
  then show "mset ups = mset ups' \<Longrightarrow> ?thesis" by metis
qed

lemma set_tools_all_set:
  assumes "mset es' = mset es" and "list_all (\<lambda>e. MCPTool e \<noteq> None) es"
  shows "set_tools es' = map MCPTool es'"
proof (rule filter_True, rule ballI)
  fix t assume "t \<in> set (map MCPTool es')"
  then obtain e where "e \<in> set es'" "t = MCPTool e" unfolding set_map by (elim imageE)
  moreover have "set es' = set es" using assms(1) by (metis set_mset_mset)
  ultimately show "t \<noteq> None" using assms(2) unfolding list_all_iff by metis
qed

text \<open>C14: rebuilding the registry from the per-upstream entries of a full construction, in
  whatever order the map is visited, gives the same routing: the same entry for every tool
  name and the same members for every group.\<close>

theorem registry_incremental_agrees:
  assumes "New jp ups naming gs = Inr r" and "distinct (map vu_name ups)"
    and "list_all (\<lambda>e. MCPTool e \<noteq> None) (all_entries ups)"
    and "mset ups' = mset (map (\<lambda>n. (n, EntriesForUpstream r n, SpecRootForUpstream r n)) (map vu_name ups))"
  shows "\<exists>r'. NewFromEntries jp ups' naming gs = Inr r' \<and>
    EntryForTool r' = EntryForTool r \<and>
    (\<forall>g. map_option (set \<circ> gd_toolSet) (groups r' g) = map_option (set \<circ> gd_toolSet) (groups r g)) \<and>
    (\<forall>g. mset (ToolsForGroup r' g) = mset (ToolsForGroup r g))"
proof -
  from assms(1) obtain r0 fs where n: "newUpstreams ups (empty_registry naming) = Inr r0"
    and f: "compileFilters jp gs Map.empty = Inr fs"
    and b: "buildGroups fs (map vu_triple ups) gs r0 = Inr r" by (rule NewE)
  have "map (\<lambda>n. (n, EntriesForUpstream r n, SpecRootForUpstream r n)) (map vu_name ups) = map vu_triple ups"
    using New_upstream_state [OF assms(1,2)] by (auto simp: vu_triple_def)
  with assms(4) have m: "mset ups' = mset (map vu_triple ups)" by metis
  then have s: "set ups' = set (map vu_triple ups)" by (metis set_mset_mset)
  have em: "mset (triple_entries ups') = mset (all_entries ups)"
    using triple_entries_mset [OF m] by (simp only: triple_entries_vu)
  note ni = New_index [OF assms(1)]
  have d: "distinct (entry_names (triple_entries ups'))"
    using ni(2) em by (metis mset_eq_imp_distinct_iff mset_map)
  let ?e = "(empty_registry naming)\<lparr>specRootByName := map_of (map (\<lambda>(up, es, rt). (up, rt)) ups')\<rparr>"
  obtain q where q: "fromUpstreams ups' ?e = Inr q" using fromUpstreams_ok [OF d, of ?e] by auto
  have tq: "toolList q = set_tools (triple_entries ups')" using fromUpstreams_effect [OF q] by simp
  then obtain r' where b': "buildGroups fs ups' gs q = Inr r'"
    using buildGroups_ok_iff [of fs ups' gs q] by auto
  have N: "NewFromEntries jp ups' naming gs = Inr r'"
    using q f b' by (simp add: NewFromEntries_def Let_def)
  have idx: "byPrefixedName r' = byPrefixedName r"
    using NewFromEntries_index(1) [OF N] ni(1) map_of_index_mset [OF em d] by simp
  have ts: "set (groupToolSet fs g ups') = set (groupToolSet fs g (map vu_triple ups))" for g
    using s by (auto simp: groupToolSet_mem)
  have t0: "toolList r0 = map MCPTool (all_entries ups)" using newUpstreams_effect [OF n] by simp
  note st = set_tools_all_set [OF em assms(3)]
  have tm: "mset (toolList q) = mset (toolList r0)" by (simp only: tq t0 st mset_map em)
  have "groups q = Map.empty" "groups r0 = Map.empty"
    using fromUpstreams_effect [OF q] newUpstreams_effect [OF n] by simp_all
  note gq = buildGroups_groups [OF b' this(1)] and gr = buildGroups_groups [OF b this(2)]
  have "mset (filter P (map the (toolList q))) = mset (filter P (map the (toolList r0)))" for P
    using tm by (simp only: mset_filter mset_map)
  then have "mset (ToolsForGroup r' g) = mset (ToolsForGroup r g)" for g
    unfolding ToolsForGroup_def gq gr using ts
    by (cases "find (\<lambda>x. GroupConfig.Name x = g) (rev gs)") simp_all
  moreover have "map_option (set \<circ> gd_toolSet) (groups r' g) = map_option (set \<circ> gd_toolSet) (groups r g)" for g
    unfolding gq gr using ts
    by (cases "find (\<lambda>x. GroupConfig.Name x = g) (rev gs)") simp_all
  ultimately show ?thesis using N idx by (auto simp: EntryForTool_def fun_eq_iff)
qed

section \<open>A concrete registry\<close>

definition sample_entry :: "nat \<Rightarrow> string \<Rightarrow> string \<Rightarrow> node option \<Rightarrow> 'w RegistryEntry" where
  "sample_entry addr up name op =
     \<lparr>PrefixedName = name, OriginalName = name,
      Upstream = Some \<lparr>up_addr = addr, Name = up, ToolPrefix = up, BaseURL = []\<rparr>,
      MCPTool = Some \<lparr>Tool.Name = name, Tool.Description = [], Tool.InputSchema = GMap [], Meta = []\<rparr>,
      ResponseFormat = ''json'', AuthRequired = True, Method = ''GET'', PathTemplate = [],
      ValidationCfg = zeroValidationConfig, OperationNode = op,
      Executor = (\<lambda>ctx args w. ((Some (ok_result [TextContent name]), None), w)),
      RateLimit = [], UIHandler = None, CacheName = []\<rparr>"

definition sample_upstream :: "string \<Rightarrow> 'w RegistryEntry list \<Rightarrow> node option \<Rightarrow> 'w ValidatedUpstream" where
  "sample_upstream up es rt =
     \<lparr>VConfig = zeroUpstreamConfig\<lparr>UpstreamConfig.Name := up, UpstreamConfig.ToolPrefix := up\<rparr>,
      Entries = es, SpecYAMLRoot = rt\<rparr>"

definition sample_upstreams :: "unit ValidatedUpstream list" where
  "sample_upstreams =
     [sample_upstream ''a'' [sample_entry 1 ''a'' ''a__x'' (Some 10), sample_entry 1 ''a'' ''a__y'' (Some 11)] (Some 1),
      sample_upstream ''b'' [sample_entry 2 ''b'' ''b__z'' None] None]"

definition sample_group :: GroupConfig where
  "sample_group = \<lparr>GroupConfig.Name = ''g'', Endpoint = ''/mcp'', GroupConfig.Upstreams = [''a'', ''b''], Filter = ''$.x''\<rparr>"

definition sample_jsonpath :: jsonpath_lib where
  "sample_jsonpath f = Inr (\<lambda>n. [10])"

lemmas sample_defs = sample_entry_def sample_upstream_def sample_upstreams_def sample_group_def
  sample_jsonpath_def

lemma sample_New:
  "\<exists>r. New sample_jsonpath sample_upstreams zeroNamingConfig [sample_group] = Inr r"
proof -
  have "case New sample_jsonpath sample_upstreams zeroNamingConfig [sample_group] of Inr r \<Rightarrow> True | Inl e \<Rightarrow> False"
    by code_simp
  then show ?thesis by (auto split: sum.splits)
qed

lemma registry_new_succeeds_iff_witness:
  "(\<exists>r. New sample_jsonpath sample_upstreams zeroNamingConfig [sample_group] = Inr r) \<and>
   \<not> (\<exists>r. New sample_jsonpath (sample_upstreams @ sample_upstreams) zeroNamingConfig [sample_group] = Inr r)"
  unfolding registry_new_succeeds_iff by (simp add: sample_defs)

lemma registry_dispatch_respects_groups_witness: "\<exists>r msg. New sample_jsonpath sample_upstreams zeroNamingConfig [sample_group] = Inr r \<and>
   registryDispatchForGroup r ''g'' ''a__x'' background [] () =
     ((Some (ok_result [TextContent ''a__x'']), None), ()) \<and>
   registryDispatchForGroup r ''g'' ''a__y'' background [] () = ((Some (error_result msg), None), ())"
proof -
  obtain r where r: "New sample_jsonpath sample_upstreams zeroNamingConfig [sample_group] = Inr r"
    using sample_New ..
  have g: "GroupConfig.Name sample_group = ''g''" by (simp add: sample_defs)
  have x: "\<exists>e. EntryForTool r ''a__x'' = Some e \<and>
      registryDispatchForGroup r ''g'' ''a__x'' background [] () = Executor e background [] ()"
    using registry_dispatch_respects_groups [OF r, of sample_group "''a__x''" background "[]" "()"]
    by (simp add: g, simp add: sample_defs group_selects_def)
  have y: "\<exists>msg. registryDispatchForGroup r ''g'' ''a__y'' background [] () = ((Some (error_result msg), None), ())"
    using registry_dispatch_respects_groups [OF r, of sample_group "''a__y''" background "[]" "()"]
    by (simp add: g, simp add: sample_defs group_selects_def)
  have "EntryForTool r ''a__x'' = Some (sample_entry 1 ''a'' ''a__x'' (Some 10))"
    using New_index(1) [OF r] by (simp add: EntryForTool_def sample_defs)
  with x y r show ?thesis by (auto simp: sample_entry_def)
qed

lemma registry_incremental_agrees_witness: "\<exists>r r'. New sample_jsonpath sample_upstreams zeroNamingConfig [sample_group] = Inr r \<and>
   NewFromEntries sample_jsonpath
     [(''b'', EntriesForUpstream r ''b'', SpecRootForUpstream r ''b''),
      (''a'', EntriesForUpstream r ''a'', SpecRootForUpstream r ''a'')] zeroNamingConfig [sample_group] = Inr r' \<and>
   EntryForTool r' = EntryForTool r"
proof -
  obtain r where r: "New sample_jsonpath sample_upstreams zeroNamingConfig [sample_group] = Inr r"
    using sample_New ..
  have "map vu_name sample_upstreams = [''a'', ''b'']" by (simp add: sample_defs)
  then have "\<exists>r'. NewFromEntries sample_jsonpath
     [(''b'', EntriesForUpstream r ''b'', SpecRootForUpstream r ''b''),
      (''a'', EntriesForUpstream r ''a'', SpecRootForUpstream r ''a'')] zeroNamingConfig [sample_group] = Inr r' \<and>
   EntryForTool r' = EntryForTool r"
    using registry_incremental_agrees [OF r, of "[(''b'', EntriesForUpstream r ''b'', SpecRootForUpstream r ''b''),
      (''a'', EntriesForUpstream r ''a'', SpecRootForUpstream r ''a'')]"]
    by (auto simp: sample_defs)
  with r show ?thesis by blast
qed
end
