(* ===== verification/Cache.thy ===== *)
theory Cache
  imports ToolRegistry
begin

text \<open>
  Tool result caching, \<^verbatim>\<open>pkg/cache/cache.go\<close> and the memory provider: the cache key, the
  store interface and the provider registry. SHA-256 with hexadecimal output is the
  parameter \<^term>\<open>sha\<close>; where a property needs that distinct texts have distinct digests,
  that is a hypothesis on it.
\<close>

section \<open>Store interface and providers\<close>

record 'w Store =
  st_get :: "string \<Rightarrow> 'w \<Rightarrow> CallToolResult option \<times> 'w"
  st_set :: "string \<Rightarrow> CallToolResult \<Rightarrow> Duration \<Rightarrow> 'w \<Rightarrow> goerr option \<times> 'w"

type_synonym 'w store_factory = "CacheStoreConfig \<Rightarrow> 'w \<Rightarrow> (goerr + 'w Store) \<times> 'w"

definition newStoreByProvider :: "'w store_factory registry \<Rightarrow> 'w store_factory" where
  "newStoreByProvider reg cfg w =
     (let provider = (if CacheStoreConfig.Provider cfg = [] then ''memory'' else CacheStoreConfig.Provider cfg) in
      case Get reg provider of
        None \<Rightarrow> (Inl (ErrText (''unknown cache store provider '' @ go_quote provider @ '' '' @ em_dash @ '' did you forget to import _ '' @
          go_quote (''github.com/lega4e/mcp-auto/pkg/cache/'' @ provider) @ ''?'')), w)
      | Some f \<Rightarrow> f cfg w)"

section \<open>The cache key\<close>

text \<open>The text that is hashed: the parts joined with a colon.\<close>

definition keyParts ::
    "(rat \<Rightarrow> string option) \<Rightarrow> string \<Rightarrow> args \<Rightarrow> bool \<Rightarrow> string \<Rightarrow> goerr + string list" where
  "keyParts num toolName args perUser subject =
     (let parts = [toolName];
          parts = (if perUser \<and> subject \<noteq> [] then parts @ [subject] else parts) in
      case canonicalJSONBytes num (GMap args) of
        None \<Rightarrow> Inl (ErrText ''canonical JSON for cache key'')
      | Some canonical \<Rightarrow> Inr (parts @ [canonical]))"

definition ComputeKey ::
    "(rat \<Rightarrow> string option) \<Rightarrow> (string \<Rightarrow> string) \<Rightarrow> string \<Rightarrow> args \<Rightarrow> bool \<Rightarrow> string \<Rightarrow> goerr + string" where
  "ComputeKey num sha toolName args perUser subject =
     (case keyParts num toolName args perUser subject of
        Inl e \<Rightarrow> Inl e | Inr parts \<Rightarrow> Inr (sha (join_with '':'' parts)))"

lemma ComputeKey_cases:
  "ComputeKey num sha t a pu s =
     (case marshalSorted num (GMap a) of
        None \<Rightarrow> Inl (ErrText ''canonical JSON for cache key'')
      | Some c \<Rightarrow> Inr (sha (t @ '':'' @ (if pu \<and> s \<noteq> [] then s @ '':'' else []) @ c)))"
  by (auto simp: ComputeKey_def keyParts_def canonicalJSONBytes_def Let_def split: option.splits)

section \<open>Properties\<close>

text \<open>C16: for one tool and one subject, two argument objects get the same cache key exactly
  when they are the same JSON value up to the order of object keys.\<close>

theorem cache_key_identifies_arguments:
  assumes "inj sha" and "num_rendering num" and "wf_goval (GMap a)" and "wf_goval (GMap b)"
    and "ComputeKey num sha t a pu s = Inr k"
  shows "ComputeKey num sha t b pu s = Inr k \<longleftrightarrow> same_json (GMap a) (GMap b)"
proof
  assume "ComputeKey num sha t b pu s = Inr k"
  with assms(5) obtain c d where c: "marshalSorted num (GMap a) = Some c"
    and d: "marshalSorted num (GMap b) = Some d"
    and e: "sha (t @ '':'' @ (if pu \<and> s \<noteq> [] then s @ '':'' else []) @ c) =
            sha (t @ '':'' @ (if pu \<and> s \<noteq> [] then s @ '':'' else []) @ d)"
    by (auto simp only: ComputeKey_cases split: option.splits)
  from injD [OF assms(1) e] have "c = d" by simp
  with marshalSorted_inj [OF assms(2,3,4)] c d show "same_json (GMap a) (GMap b)" by blast
next
  assume "same_json (GMap a) (GMap b)"
  from same_json_render [OF this assms(3,4)] assms(5)
  show "ComputeKey num sha t b pu s = Inr k" by (simp only: ComputeKey_cases)
qed

text \<open>With per-user caching, identical calls of two authenticated users get different
  keys, and a user's key also differs from the key of the anonymous call.\<close>

theorem cache_key_separates_users:
  assumes "inj sha" and "s \<noteq> s'"
    and "ComputeKey num sha t a True s = Inr k" and "ComputeKey num sha t a True s' = Inr k'"
  shows "k \<noteq> k'"
proof
  assume "k = k'"
  from assms(3,4) obtain c where
    "k = sha (t @ '':'' @ (if s \<noteq> [] then s @ '':'' else []) @ c)"
    "k' = sha (t @ '':'' @ (if s' \<noteq> [] then s' @ '':'' else []) @ c)"
    by (auto simp only: ComputeKey_cases simp_thms split: option.splits)
  with \<open>k = k'\<close> have "sha (t @ '':'' @ (if s \<noteq> [] then s @ '':'' else []) @ c) =
    sha (t @ '':'' @ (if s' \<noteq> [] then s' @ '':'' else []) @ c)" by (simp only:)
  from injD [OF assms(1) this] assms(2) show False by (auto split: if_splits)
qed

text \<open>A concrete instance: the only number that is rendered is one.\<close>

definition one_num :: "rat \<Rightarrow> string option" where
  "one_num r = (if r = 1 then Some ''1'' else None)"

lemma one_num_rendering: "num_rendering one_num"
  by (auto simp: num_rendering_def one_num_def num_char_def is_digit_def char_le_iff split: if_splits)

lemma cache_key_identifies_arguments_witness:
  "\<exists>k. ComputeKey one_num id ''t'' [(''a'', GNum 1), (''b'', GBool True)] True ''u'' = Inr k \<and>
     ComputeKey one_num id ''t'' [(''b'', GBool True), (''a'', GNum 1)] True ''u'' = Inr k"
proof -
  have s: "same_json (GMap [(''a'', GNum 1), (''b'', GBool True)]) (GMap [(''b'', GBool True), (''a'', GNum 1)])"
    by (rule same_json.obj) (auto split: if_splits intro: same_json.intros)
  have k: "ComputeKey one_num id ''t'' [(''a'', GNum 1), (''b'', GBool True)] True ''u'' =
      Inr ''t:u:{\"a\":1,\"b\":true}''"
    by (simp add: ComputeKey_cases render_field_def json_string_def json_char_def one_num_def)
  from cache_key_identifies_arguments [OF inj_on_id one_num_rendering _ _ k,
      of "[(''b'', GBool True), (''a'', GNum 1)]"] s k
  show ?thesis by simp
qed

lemma cache_key_separates_users_witness:
  "\<exists>k k'. ComputeKey one_num id ''t'' [] True ''u'' = Inr k \<and>
     ComputeKey one_num id ''t'' [] True ''v'' = Inr k' \<and> k \<noteq> k'"
proof -
  have k: "ComputeKey one_num id ''t'' [] True ''u'' = Inr ''t:u:{}''"
    and k': "ComputeKey one_num id ''t'' [] True ''v'' = Inr ''t:v:{}''"
    by (simp_all add: ComputeKey_cases)
  from cache_key_separates_users [OF inj_on_id _ k k'] k k' show ?thesis by simp
qed

end
