(* ===== verification/Http.thy ===== *)
theory Http
  imports Mcp
begin

text \<open>
  The parts of \<^verbatim>\<open>net/http\<close> and \<^verbatim>\<open>net/url\<close> the source uses: header maps with canonical
  keys, incoming requests and written responses, outgoing requests and received
  responses, and handlers as functions on the world.
\<close>

section \<open>Headers\<close>

definition token_char :: "char \<Rightarrow> bool" where
  "token_char c \<longleftrightarrow> is_lower c \<or> is_upper c \<or> is_digit c \<or>
     c \<in> set [CHR ''!'', CHR ''#'', CHR ''$'', CHR ''%'', CHR ''&'', CHR 0x27, CHR ''*'', CHR ''+'',
              CHR ''-'', CHR ''.'', CHR ''^'', CHR ''_'', CHR 0x60, CHR ''|'', CHR ''~'']"

fun canon_key :: "bool \<Rightarrow> string \<Rightarrow> string" where
  "canon_key up [] = []"
| "canon_key up (c # cs) = (if up then upper_char c else lower_char c) # canon_key (c = CHR ''-'') cs"

definition CanonicalHeaderKey :: "string \<Rightarrow> string" where
  "CanonicalHeaderKey s = (if list_all token_char s then canon_key True s else s)"

type_synonym header = "string \<rightharpoonup> string"

definition header_get :: "header \<Rightarrow> string \<Rightarrow> string" where
  "header_get h k = (case h (CanonicalHeaderKey k) of None \<Rightarrow> [] | Some v \<Rightarrow> v)"

definition header_set :: "string \<Rightarrow> string \<Rightarrow> header \<Rightarrow> header" where
  "header_set k v h = h(CanonicalHeaderKey k \<mapsto> v)"

definition set_headers :: "string gomap \<Rightarrow> header \<Rightarrow> header" where
  "set_headers kvs h = fold (\<lambda>(k, v). header_set k v) kvs h"

lemma header_get_set: "header_get (header_set k v h) k' =
    (if CanonicalHeaderKey k' = CanonicalHeaderKey k then v else header_get h k')"
  by (simp add: header_get_def header_set_def)

lemma set_headers_absent:
  "\<forall>k \<in> set (map fst kvs). CanonicalHeaderKey k \<noteq> CanonicalHeaderKey k' \<Longrightarrow>
     header_get (set_headers kvs h) k' = header_get h k'"
  by (induction kvs arbitrary: h) (auto simp: set_headers_def header_get_set)

section \<open>Requests and responses\<close>

text \<open>A request as a server handler sees it; \<^verbatim>\<open>r.TLS == nil\<close> is \<^term>\<open>\<not> req_tls r\<close>.\<close>

record Request =
  req_method :: string
  req_path :: string
  req_header :: header
  req_remote :: string
  req_host :: string
  req_url_host :: string
  req_tls :: bool
  req_body :: "string option"
  req_query :: "string gomap"
  req_ctx :: Ctx

record Response =
  rsp_status :: int
  rsp_header :: header
  rsp_body :: string

type_synonym 'w handler = "Request \<Rightarrow> 'w \<Rightarrow> Response \<times> 'w"
type_synonym 'w middleware = "'w handler \<Rightarrow> 'w handler"

definition empty_response :: Response where
  "empty_response = \<lparr>rsp_status = 200, rsp_header = Map.empty, rsp_body = []\<rparr>"

text \<open>A request to an upstream and its response. Reading the body can fail on its own.\<close>

record ClientRequest =
  cr_method :: string
  cr_url :: string
  cr_header :: header
  cr_body :: "string option"
  cr_ctx :: Ctx

record ClientResponse =
  cp_status :: int
  cp_header :: header
  cp_body :: "goerr + string"

type_synonym 'w round_tripper = "ClientRequest \<Rightarrow> 'w \<Rightarrow> (goerr + ClientResponse) \<times> 'w"

section \<open>Strings from requests\<close>

text \<open>\<^verbatim>\<open>strings.LastIndex(s, ":")\<close> and the text before it.\<close>

definition before_last :: "char \<Rightarrow> string \<Rightarrow> string option" where
  "before_last c s =
     (if c \<in> set s then Some (rev (tl (dropWhile (\<lambda>x. x \<noteq> c) (rev s)))) else None)"

lemma before_last_append: "c \<notin> set t \<Longrightarrow> before_last c (s @ c # t) = Some s"
proof -
  assume "c \<notin> set t"
  then have "\<forall>x \<in> set (rev t). x \<noteq> c" by auto
  then have "dropWhile (\<lambda>x. x \<noteq> c) (rev t @ c # rev s) = c # rev s"
    by (subst dropWhile_append2) auto
  then show ?thesis by (simp add: before_last_def)
qed

text \<open>\<^verbatim>\<open>url.PathEscape\<close>: every byte that is not allowed in a path segment is escaped.\<close>

definition upper_hex :: "nat \<Rightarrow> char" where
  "upper_hex d = (if d < 10 then char_of (48 + d) else char_of (55 + d))"

definition path_safe :: "char \<Rightarrow> bool" where
  "path_safe c \<longleftrightarrow> is_lower c \<or> is_upper c \<or> is_digit c \<or>
     c \<in> set [CHR ''-'', CHR ''_'', CHR ''.'', CHR ''~'', CHR ''$'', CHR ''&'', CHR ''+'', CHR ''='', CHR '':'', CHR ''@'']"

definition escape_byte :: "char \<Rightarrow> string" where
  "escape_byte c = (if path_safe c then [c]
     else [CHR ''%'', upper_hex (of_char c div 16), upper_hex (of_char c mod 16)])"

definition PathEscape :: "string \<Rightarrow> string" where
  "PathEscape s = concat (map escape_byte s)"

lemma escape_byte_chars: "x \<in> set (escape_byte c) \<Longrightarrow> x = CHR ''%'' \<or> path_safe x"
proof -
  assume x: "x \<in> set (escape_byte c)"
  have u: "is_digit (upper_hex d) \<or> is_upper (upper_hex d)" if "d < 16" for d
    using that by (auto simp: upper_hex_def is_digit_def is_upper_def char_le_iff)
  have "of_char c div 16 < (16 :: nat)" "of_char c mod 16 < (16 :: nat)"
    by (rule less_mult_imp_div_less, simp) simp
  with x u [of "of_char c div 16"] u [of "of_char c mod 16"] show ?thesis
    by (auto simp: escape_byte_def path_safe_def split: if_splits)
qed

lemma PathEscape_chars: "x \<in> set (PathEscape s) \<Longrightarrow> x = CHR ''%'' \<or> path_safe x"
  unfolding PathEscape_def set_concat set_map using escape_byte_chars by blast

lemma PathEscape_no_slash: "c \<in> {CHR ''/'', CHR ''?'', CHR ''#'', CHR ''{''} \<Longrightarrow> c \<notin> set (PathEscape s)"
  using PathEscape_chars [of c s]
  by (auto simp: path_safe_def is_lower_def is_upper_def is_digit_def char_le_iff)

end
