(* ===== verification/RateLimit.thy ===== *)
theory RateLimit
  imports Http
begin

text \<open>
  Rate limiting, \<^verbatim>\<open>pkg/ratelimit/ratelimit.go\<close>: the client address, the enforcer with one
  limiter per named limit, and the counter key of \<^verbatim>\<open>pkg/mcp/manager.go\<close>. The counting
  itself is the library \<^verbatim>\<open>ulule/limiter\<close>: a store is the function that, for a rate and a
  key, records a hit and answers with the remaining count, the reset time and whether the
  limit is reached.
\<close>

section \<open>The client address\<close>

definition extractClientIP :: "Request \<Rightarrow> string" where
  "extractClientIP r =
     (let xff = header_get (req_header r) ''X-Forwarded-For'' in
      if xff \<noteq> [] then
        (if CHR '','' \<in> set xff then trim_space (before_char (CHR '','') xff) else trim_space xff)
      else
        (let xri = header_get (req_header r) ''X-Real-IP'' in
         if xri \<noteq> [] then trim_space xri
         else (case before_last (CHR '':'') (req_remote r) of
                 Some host \<Rightarrow> host
               | None \<Rightarrow> req_remote r)))"

definition WithClientIP :: "string \<Rightarrow> Ctx \<Rightarrow> Ctx" where
  "WithClientIP ip ctx = ctx\<lparr>ctx_ip := ip\<rparr>"

definition ClientIPFromContext :: "Ctx \<Rightarrow> string" where
  "ClientIPFromContext ctx = ctx_ip ctx"

definition ClientIPMiddleware :: "'w middleware" where
  "ClientIPMiddleware nxt r w =
     nxt (r\<lparr>req_ctx := WithClientIP (extractClientIP r) (req_ctx r)\<rparr>) w"

section \<open>The enforcer\<close>

record Rate =
  Limit :: int
  rate_Period :: Duration

record limit_answer =
  Remaining :: int
  Reset :: Time
  Reached :: bool

type_synonym 'w limiter = "string \<Rightarrow> 'w \<Rightarrow> (goerr + limit_answer) \<times> 'w"
type_synonym 'w limiter_store = "Rate \<Rightarrow> 'w limiter"
type_synonym 'w limit_factory = "ProxyConfig \<Rightarrow> 'w \<Rightarrow> (goerr + 'w limiter_store) \<times> 'w"

record 'w Enforcer =
  limiters :: "string \<rightharpoonup> 'w limiter"
  configs :: "string \<rightharpoonup> RateLimitConfig"

text \<open>Go's \<^verbatim>\<open>int64\<close> addition of the two configured counts.\<close>

definition int64 :: "int \<Rightarrow> int" where
  "int64 i = (i + 2 ^ 63) mod 2 ^ 64 - 2 ^ 63"

definition limitRate :: "RateLimitConfig \<Rightarrow> Rate" where
  "limitRate c = \<lparr>Limit = int64 (Average c + Burst c), rate_Period = Period c\<rparr>"

definition newEnforcer ::
    "'w limit_factory registry \<Rightarrow> ProxyConfig \<Rightarrow> 'w \<Rightarrow> (goerr + 'w Enforcer option) \<times> 'w" where
  "newEnforcer factories cfg w =
     (if RateLimits cfg = [] then (Inr None, w)
      else
        (let storeName = (if RateLimitStoreConfig.Redis (RateLimitStore cfg) \<noteq> None then ''redis'' else ''memory'') in
         case Get factories storeName of
           None \<Rightarrow> (Inl (ErrText (''unknown rate limit store '' @ go_quote storeName @ '' '' @ em_dash @ '' import the store package or pkg/ratelimit/all'')), w)
         | Some factory \<Rightarrow>
             (case factory cfg w of
                (Inl e, w') \<Rightarrow> (Inl (ErrWrap (''building rate limit store '' @ go_quote storeName) e), w')
              | (Inr store, w') \<Rightarrow>
                  (Inr (Some \<lparr>limiters = (\<lambda>n. map_option (\<lambda>c. store (limitRate c)) (map_of (RateLimits cfg) n)),
                              configs = map_of (RateLimits cfg)\<rparr>), w'))))"

definition Source :: "'w Enforcer option \<Rightarrow> string \<Rightarrow> string" where
  "Source e limitName =
     (case e of None \<Rightarrow> []
      | Some e \<Rightarrow> (case configs e limitName of None \<Rightarrow> [] | Some c \<Rightarrow> RateLimitConfig.Source c))"

definition Allow ::
    "'w Enforcer option \<Rightarrow> string \<Rightarrow> string \<Rightarrow> 'w \<Rightarrow> (goerr + limit_answer) \<times> 'w" where
  "Allow e limitName key w =
     (case e of
        None \<Rightarrow> (Inr \<lparr>Remaining = 0, Reset = 0, Reached = False\<rparr>, w)
      | Some e \<Rightarrow>
          (case limiters e limitName of
             None \<Rightarrow> (Inl (ErrText (''unknown rate limit '' @ go_quote limitName)), w)
           | Some limiter \<Rightarrow>
               (case limiter key w of
                  (Inl err, w') \<Rightarrow> (Inl (ErrWrap ''rate limit check'' err), w')
                | (Inr a, w') \<Rightarrow> (Inr a, w'))))"

section \<open>The counter key\<close>

definition rateLimitKey :: "Ctx \<Rightarrow> string \<Rightarrow> string \<Rightarrow> string \<Rightarrow> string" where
  "rateLimitKey ctx source limitName sessionID =
     (let part =
        (if source = ''user'' then
           (case ctx_token ctx of
              Some info \<Rightarrow>
                if Subject info \<noteq> [] then Subject info
                else (if ClientIPFromContext ctx = [] then ''anonymous'' else ClientIPFromContext ctx)
            | None \<Rightarrow> (if ClientIPFromContext ctx = [] then ''anonymous'' else ClientIPFromContext ctx))
         else if source = ''ip'' then
           (if ClientIPFromContext ctx = [] then ''unknown'' else ClientIPFromContext ctx)
         else if source = ''session'' then (if sessionID = [] then ''unknown'' else sessionID)
         else ''unknown'')
      in limitName @ '':'' @ source @ '':'' @ part)"

section \<open>Lemmas and properties\<close>

lemma int64_id: "- (2 ^ 63) \<le> i \<Longrightarrow> i < 2 ^ 63 \<Longrightarrow> int64 i = i"
  by (simp add: int64_def)

lemma int64_range: "- (2 ^ 63) \<le> int64 i \<and> int64 i < 2 ^ 63"
  by (simp add: int64_def)

text \<open>The enforcer of a configuration has exactly the configured limits.\<close>

lemma newEnforcer_limits:
  assumes "newEnforcer fs cfg w = (Inr (Some e), w')"
  shows "limiters e n = None \<longleftrightarrow> map_of (RateLimits cfg) n = None"
  using assms by (auto simp: newEnforcer_def Let_def split: if_splits option.splits sum.splits prod.splits)

text \<open>Two authenticated users never share a counter of a user limit, and the counters of
  one limit name are separate for any two subjects.\<close>

theorem rate_limit_key_separates_subjects:
  assumes "ctx_token ctx = Some i" and "ctx_token ctx' = Some i'"
    and "Subject i \<noteq> []" and "Subject i' \<noteq> []"
  shows "rateLimitKey ctx ''user'' n s = rateLimitKey ctx' ''user'' n s' \<longleftrightarrow> Subject i = Subject i'"
  using assms by (simp add: rateLimitKey_def)

lemma rate_limit_key_separates_subjects_witness:
  "rateLimitKey (background\<lparr>ctx_token := Some (emptyTokenInfo\<lparr>Subject := ''alice''\<rparr>)\<rparr>) ''user'' ''rl'' [] \<noteq>
   rateLimitKey (background\<lparr>ctx_token := Some (emptyTokenInfo\<lparr>Subject := ''bob''\<rparr>)\<rparr>) ''user'' ''rl'' []"
  using rate_limit_key_separates_subjects
    [of "background\<lparr>ctx_token := Some (emptyTokenInfo\<lparr>Subject := ''alice''\<rparr>)\<rparr>" "emptyTokenInfo\<lparr>Subject := ''alice''\<rparr>"
        "background\<lparr>ctx_token := Some (emptyTokenInfo\<lparr>Subject := ''bob''\<rparr>)\<rparr>" "emptyTokenInfo\<lparr>Subject := ''bob''\<rparr>"]
  by simp

end
