(* ===== verification/Breaker.thy ===== *)
theory Breaker
  imports ToolRegistry
begin

text \<open>
  Circuit breaking, \<^verbatim>\<open>pkg/upstream/circuitbreaker\<close>: the settings a breaker hands to
  \<^verbatim>\<open>gobreaker\<close>, the recovery estimate, and the set of breakers behind the readiness probe.
  The state machine itself is the library's: \<^verbatim>\<open>gobreaker\<close> is the record of its two
  operations on a breaker.
\<close>

section \<open>Breakers\<close>

text \<open>The counters \<^verbatim>\<open>gobreaker.Counts\<close> passes to \<^verbatim>\<open>ReadyToTrip\<close> are \<^verbatim>\<open>uint32\<close>.\<close>

record Counts =
  Requests :: "32 word"
  TotalFailures :: "32 word"

text \<open>\<^verbatim>\<open>b_openedAt\<close> is the time stored by \<^verbatim>\<open>OnStateChange\<close>; \<^term>\<open>None\<close> before the first store.\<close>

record Breaker =
  b_upstreamName :: string
  b_fallbackDuration :: Duration
  b_openedAt :: "Time option"

datatype breaker_state = Closed | HalfOpen | Open

record Settings =
  set_Name :: string
  set_Timeout :: Duration
  set_MaxRequests :: "32 word"
  set_ReadyToTrip :: "Counts \<Rightarrow> bool"

text \<open>The ratio of two \<^verbatim>\<open>float64\<close> values; the zero of \<^verbatim>\<open>time.Time\<close> is \<^term>\<open>0\<close>. With no
  requests the ratio is not a number and compares false.\<close>

definition ReadyToTrip :: "CircuitBreakerConfig \<Rightarrow> Counts \<Rightarrow> bool" where
  "ReadyToTrip cfg counts =
     (if Requests counts < MinRequests cfg then False
      else if Requests counts = 0 then False
      else Threshold cfg \<le> of_nat (unat (TotalFailures counts)) / of_nat (unat (Requests counts)))"

definition newBreaker :: "string \<Rightarrow> CircuitBreakerConfig \<Rightarrow> Breaker \<times> Settings" where
  "newBreaker upstreamName cfg =
     (\<lparr>b_upstreamName = upstreamName, b_fallbackDuration = FallbackDuration cfg, b_openedAt = None\<rparr>,
      \<lparr>set_Name = upstreamName, set_Timeout = FallbackDuration cfg, set_MaxRequests = 1,
       set_ReadyToTrip = ReadyToTrip cfg\<rparr>)"

definition OnStateChange :: "Time \<Rightarrow> breaker_state \<Rightarrow> Breaker \<Rightarrow> Breaker" where
  "OnStateChange now to b = (if to = Open then b\<lparr>b_openedAt := Some now\<rparr> else b)"

definition EstimatedRecovery :: "Breaker \<Rightarrow> Time" where
  "EstimatedRecovery b =
     (case b_openedAt b of None \<Rightarrow> 0 | Some t \<Rightarrow> if t = 0 then 0 else t + b_fallbackDuration b)"

section \<open>Readiness\<close>

text \<open>The set holds its breakers with the state \<^verbatim>\<open>gobreaker\<close> reports for each now.\<close>

definition setIsReady :: "(Breaker \<times> breaker_state) list \<Rightarrow> bool \<times> string" where
  "setIsReady bs =
     (let open_names = map (b_upstreamName \<circ> fst) (filter (\<lambda>(b, s). s = Open) bs) in
      if open_names \<noteq> []
      then (False, ''circuit open for upstream(s): '' @ join_with '', '' (sort open_names))
      else (True, []))"

section \<open>Lemmas and properties\<close>

text \<open>The circuit trips exactly when enough requests were seen and the failure ratio
  reaches the threshold, so raising the number of failures never closes it.\<close>

theorem breaker_trips_monotone:
  assumes "ReadyToTrip cfg c" and "Requests c' = Requests c" and "TotalFailures c \<le> TotalFailures c'"
  shows "ReadyToTrip cfg c' \<and> MinRequests cfg \<le> Requests c \<and>
    Threshold cfg * of_nat (unat (Requests c)) \<le> of_nat (unat (TotalFailures c'))"
proof -
  from assms(1) have r: "\<not> Requests c < MinRequests cfg" "Requests c \<noteq> 0"
    and t: "Threshold cfg \<le> of_nat (unat (TotalFailures c)) / of_nat (unat (Requests c))"
    by (auto simp: ReadyToTrip_def split: if_splits)
  have "0 < unat (Requests c)" using r(2) by (simp add: unat_gt_0)
  then have p: "(0 :: rat) < of_nat (unat (Requests c))" by (simp only: of_nat_0_less_iff)
  have le: "(of_nat (unat (TotalFailures c)) :: rat) \<le> of_nat (unat (TotalFailures c'))"
    using assms(3) by (simp only: word_le_nat_alt of_nat_le_iff)
  have "Threshold cfg \<le> of_nat (unat (TotalFailures c')) / of_nat (unat (Requests c))"
    using t le p by (meson divide_right_mono less_imp_le order_trans)
  then show ?thesis using r p assms(2)
    by (simp add: ReadyToTrip_def pos_le_divide_eq not_less)
qed

lemma breaker_trips_monotone_witness:
  "ReadyToTrip \<lparr>Threshold = 1 / 2, MinRequests = 2, FallbackDuration = 0, RecoveryDuration = 0\<rparr>
     \<lparr>Requests = 4, TotalFailures = 3\<rparr>"
  using breaker_trips_monotone [of "\<lparr>Threshold = 1 / 2, MinRequests = 2, FallbackDuration = 0, RecoveryDuration = 0\<rparr>"
      "\<lparr>Requests = 4, TotalFailures = 2\<rparr>" "\<lparr>Requests = 4, TotalFailures = 3\<rparr>"]
  by (simp add: ReadyToTrip_def)

lemma setIsReady_iff: "fst (setIsReady bs) \<longleftrightarrow> (\<forall>(b, s) \<in> set bs. s \<noteq> Open)"
  by (auto simp: setIsReady_def Let_def filter_empty_conv)

end
