(* ===== verification/Search.thy ===== *)
theory Search
  imports ToolRegistry
begin

text \<open>
  The semantic tool search of \<^verbatim>\<open>pkg/search/search.go\<close> and the provider dispatch of
  \<^verbatim>\<open>pkg/embedding/embedding.go\<close>. The vector store is \<^verbatim>\<open>chromem\<close>: adding documents may
  fail, counting them and querying it for the identifiers nearest to a text are functions
  of the documents it holds.
\<close>

record Document =
  ID :: string
  DocContent :: string

record 'w vector_store =
  vs_add :: "Document list \<Rightarrow> 'w \<Rightarrow> (goerr + Document list) \<times> 'w"
  vs_query :: "Document list \<Rightarrow> string \<Rightarrow> nat \<Rightarrow> 'w \<Rightarrow> (goerr + string list) \<times> 'w"

record Index =
  collection :: "Document list"
  toolsByName :: "string \<rightharpoonup> Tool"

record ToolDef =
  td_Name :: string
  td_Description :: string
  td_InputSchema :: goval

definition toolDocument :: "Tool \<Rightarrow> Document" where
  "toolDocument t =
     \<lparr>ID = Tool.Name t,
      DocContent = (if Tool.Description t \<noteq> [] then Tool.Name t @ '': '' @ Tool.Description t
                    else Tool.Name t)\<rparr>"

definition buildIndex :: "'w vector_store \<Rightarrow> Tool list \<Rightarrow> 'w \<Rightarrow> (goerr + Index) \<times> 'w" where
  "buildIndex vs tools w =
     (let byName = fold (\<lambda>t m. m(Tool.Name t \<mapsto> t)) tools Map.empty in
      if tools = [] then (Inr \<lparr>collection = [], toolsByName = byName\<rparr>, w)
      else (case vs_add vs (map toolDocument tools) w of
              (Inl e, w') \<Rightarrow> (Inl (ErrWrap ''indexing tools'' e), w')
            | (Inr docs, w') \<Rightarrow> (Inr \<lparr>collection = docs, toolsByName = byName\<rparr>, w')))"

definition toolDef :: "Tool \<Rightarrow> ToolDef" where
  "toolDef t = \<lparr>td_Name = Tool.Name t, td_Description = Tool.Description t,
     td_InputSchema = Tool.InputSchema t\<rparr>"

definition searchIndex ::
    "'w vector_store \<Rightarrow> Index \<Rightarrow> string \<Rightarrow> int \<Rightarrow> 'w \<Rightarrow> (goerr + ToolDef list) \<times> 'w" where
  "searchIndex vs idx query limit w =
     (let limit = (if limit \<le> 0 then 5 else limit);
          count = int (length (collection idx)) in
      if count = 0 then (Inr [], w)
      else
        (let limit = (if limit > count then count else limit) in
         case vs_query vs (collection idx) query (nat limit) w of
           (Inl e, w') \<Rightarrow> (Inl (ErrWrap ''querying search index'' e), w')
         | (Inr ids, w') \<Rightarrow>
             (Inr (map toolDef (List.map_filter (toolsByName idx) ids)), w')))"

section \<open>Lemmas\<close>

lemma fold_upd_map_of:
  "fold (\<lambda>t m. m(f t \<mapsto> t)) ts m = m ++ map_of (rev (map (\<lambda>t. (f t, t)) ts))"
  by (induction ts arbitrary: m) (auto simp: fun_eq_iff map_add_def split: option.splits)

lemma buildIndex_tools:
  assumes "buildIndex vs tools w = (Inr idx, w')" "toolsByName idx n = Some t"
  shows "t \<in> set tools \<and> Tool.Name t = n"
  using assms
  by (auto simp: buildIndex_def Let_def fold_upd_map_of dest!: map_of_SomeD
      split: if_splits sum.splits prod.splits)

text \<open>What the library promises: a query returns at most as many identifiers as asked for.\<close>

definition query_bounded :: "'w vector_store \<Rightarrow> bool" where
  "query_bounded vs \<longleftrightarrow>
     (\<forall>docs q n w ids w'. vs_query vs docs q n w = (Inr ids, w') \<longrightarrow> length ids \<le> n)"

lemma map_filter_length: "length (List.map_filter f xs) \<le> length xs"
  by (simp add: List.map_filter_def)

lemma map_filter_set: "set (List.map_filter f xs) = {y. \<exists>x \<in> set xs. f x = Some y}"
  by (auto simp: List.map_filter_def) force

text \<open>A search returns only definitions of the tools the index was built from, and no
  more than the limit (five when the caller gives none).\<close>

theorem search_returns_indexed_tools:
  assumes "query_bounded vs" and "buildIndex vs tools w = (Inr idx, w')"
    and "searchIndex vs idx q limit w'' = (Inr defs, w''')"
  shows "set defs \<subseteq> toolDef ` set tools \<and> int (length defs) \<le> (if limit \<le> 0 then 5 else limit)"
proof (cases "collection idx = []")
  case True
  with assms(3) show ?thesis by (auto simp: searchIndex_def Let_def)
next
  case False
  define l where "l = (if (if limit \<le> 0 then 5 else limit) > int (length (collection idx))
    then int (length (collection idx)) else (if limit \<le> 0 then 5 else limit))"
  from assms(3) False obtain ids where
    q: "vs_query vs (collection idx) q (nat l) w'' = (Inr ids, w''')"
    and d: "defs = map toolDef (List.map_filter (toolsByName idx) ids)"
    by (auto simp: searchIndex_def Let_def l_def split: sum.splits prod.splits)
  from assms(1) q have "length ids \<le> nat l" unfolding query_bounded_def by blast
  then have "int (length defs) \<le> l"
    using map_filter_length [of "toolsByName idx" ids] d by (simp add: l_def split: if_splits)
  then have "int (length defs) \<le> (if limit \<le> 0 then 5 else limit)" by (simp add: l_def split: if_splits)
  moreover have "set defs \<subseteq> toolDef ` set tools"
    using d buildIndex_tools [OF assms(2)] by (auto simp: map_filter_set)
  ultimately show ?thesis by blast
qed

definition listing_store :: "unit vector_store" where
  "listing_store = \<lparr>vs_add = (\<lambda>d w. (Inr d, w)), vs_query = (\<lambda>d q n w. (Inr (take n (map ID d)), w))\<rparr>"

lemma search_returns_indexed_tools_witness:
  "let t = (\<lambda>n. \<lparr>Tool.Name = n, Tool.Description = [], Tool.InputSchema = GMap [], Tool.Meta = []\<rparr>) in
   \<exists>idx. buildIndex listing_store [t ''a'', t ''b''] () = (Inr idx, ()) \<and>
     searchIndex listing_store idx ''q'' 1 () = (Inr [toolDef (t ''a'')], ())"
proof -
  define t where "t = (\<lambda>n. \<lparr>Tool.Name = n, Tool.Description = [], Tool.InputSchema = GMap [], Tool.Meta = []\<rparr>)"
  obtain idx where b: "buildIndex listing_store [t ''a'', t ''b''] () = (Inr idx, ())"
    and i: "idx = \<lparr>collection = [toolDocument (t ''a''), toolDocument (t ''b'')],
        toolsByName = Map.empty(''a'' \<mapsto> t ''a'', ''b'' \<mapsto> t ''b'')\<rparr>"
    by (auto simp: buildIndex_def listing_store_def t_def)
  have s: "searchIndex listing_store idx ''q'' 1 () = (Inr [toolDef (t ''a'')], ())"
    by (simp add: i searchIndex_def listing_store_def toolDocument_def t_def List.map_filter_def)
  have "query_bounded listing_store" by (auto simp: query_bounded_def listing_store_def)
  from search_returns_indexed_tools [OF this b s] b s show ?thesis by (auto simp: t_def Let_def)
qed

end
