(* ===== verification/Manager.thy ===== *)
theory Manager
  imports Cache RateLimit Breaker Search
begin

text \<open>
  The MCP manager, \<^verbatim>\<open>pkg/mcp/manager.go\<close>: the state behind its lock, the full rebuild from a
  configuration, the incremental updates by the background refresh, the application of a
  registry to the MCP servers, and the dispatch of tool calls through rate limiting and
  caching.

  Every operation that changes the state takes the lock for writing, so it is one step of
  this model. The MCP server of the go-sdk is the pair of its tool and resource tables:
  \<^verbatim>\<open>AddTool\<close> replaces an entry, \<^verbatim>\<open>RemoveTools\<close> deletes entries. Telemetry is left out.
\<close>

section \<open>State\<close>

record 'w upstreamState =
  us_entries :: "'w RegistryEntry list"
  us_specYAMLRoot :: "node option"

text \<open>A registered tool handler is the closure over the group and rate limit name of a tool,
  or the search handler of an endpoint.\<close>

datatype tool_handler = CallHandler string string | SearchHandler string

record server =
  srv_tools :: "string \<rightharpoonup> Tool \<times> tool_handler"
  srv_resources :: "string \<rightharpoonup> string \<times> ToolUIConfig"

definition NewServer :: server where
  "NewServer = \<lparr>srv_tools = Map.empty, srv_resources = Map.empty\<rparr>"

definition AddTool :: "Tool \<Rightarrow> tool_handler \<Rightarrow> server \<Rightarrow> server" where
  "AddTool t h s = s\<lparr>srv_tools := (srv_tools s)(Tool.Name t \<mapsto> (t, h))\<rparr>"

definition RemoveTools :: "string list \<Rightarrow> server \<Rightarrow> server" where
  "RemoveTools names s = s\<lparr>srv_tools := (\<lambda>n. if n \<in> set names then None else srv_tools s n)\<rparr>"

definition AddResource :: "string \<Rightarrow> string \<Rightarrow> ToolUIConfig \<Rightarrow> server \<Rightarrow> server" where
  "AddResource uri name h s = s\<lparr>srv_resources := (srv_resources s)(uri \<mapsto> (name, h))\<rparr>"

definition RemoveResources :: "string list \<Rightarrow> server \<Rightarrow> server" where
  "RemoveResources uris s =
     s\<lparr>srv_resources := (\<lambda>u. if u \<in> set uris then None else srv_resources s u)\<rparr>"

text \<open>The upstream states are an association list with distinct keys. The list the range
  statement of one call visits is a permutation of it, given to the operation as \<^term>\<open>\<sigma>\<close>.\<close>

record 'w Manager =
  m_servers :: "string \<rightharpoonup> server"
  m_registry :: "'w Registry option"
  m_impl :: "string option"
  m_pools :: "(string \<rightharpoonup> PoolAcquirer) option"
  m_counter :: "string option"
  m_enforcer :: "'w Enforcer option"
  m_rateLimitCfgs :: "RateLimitConfig gomap"
  m_circuitBreakerSet :: "Breaker list option"
  m_oauthStore :: "OAuthTokenStore option"
  m_oauthCallbackReg :: "OAuthCallbackRegistrar option"
  m_groups :: "GroupConfig list"
  m_namingCfg :: "NamingConfig option"
  m_upstreamByName :: "(string \<times> 'w upstreamState) list"
  m_searchIndexes :: "string \<rightharpoonup> 'w vector_store \<times> Index"
  m_searchTools :: "string \<rightharpoonup> Tool"
  m_searchLimit :: int
  m_store :: "'w Store option"
  m_cacheConfigs :: "CacheConfig gomap"

text \<open>The code the manager calls outside this package: the registered builders, store and
  limiter factories, the JSONPath library, the vector store an embedding configuration
  gives, the tokenizer, the number rendering and digest of the cache keys, and the write
  to the \<^verbatim>\<open>CircuitBreaker\<close> field of the upstream at an address.\<close>

record 'w Env =
  env_jsonpath :: jsonpath_lib
  env_builders :: "'w builder registry"
  env_setBreaker :: "nat \<Rightarrow> Breaker \<Rightarrow> 'w \<Rightarrow> 'w"
  env_limiters :: "'w limit_factory registry"
  env_stores :: "'w store_factory registry"
  env_embedding :: "EmbeddingConfig \<Rightarrow> 'w \<Rightarrow> (goerr + 'w vector_store) \<times> 'w"
  env_tokenizer :: "string \<Rightarrow> goerr + string"
  env_num :: "rat \<Rightarrow> string option"
  env_sha :: "string \<Rightarrow> string"

definition NewManager :: "(string \<rightharpoonup> PoolAcquirer) option \<Rightarrow> 'w Manager" where
  "NewManager pools =
     \<lparr>m_servers = Map.empty, m_registry = None, m_impl = None, m_pools = pools, m_counter = None,
      m_enforcer = None, m_rateLimitCfgs = [], m_circuitBreakerSet = None, m_oauthStore = None,
      m_oauthCallbackReg = None, m_groups = [], m_namingCfg = None, m_upstreamByName = [],
      m_searchIndexes = Map.empty, m_searchTools = Map.empty, m_searchLimit = 0, m_store = None,
      m_cacheConfigs = []\<rparr>"

definition SetOAuthConfig ::
    "OAuthTokenStore option \<Rightarrow> OAuthCallbackRegistrar option \<Rightarrow> 'w Manager \<Rightarrow> 'w Manager" where
  "SetOAuthConfig store reg m = m\<lparr>m_oauthStore := store, m_oauthCallbackReg := reg\<rparr>"

section \<open>Applying a registry to the servers\<close>

definition searchToolName :: string where
  "searchToolName = ''search_tools''"

definition groupToolNames :: "'w Registry option \<Rightarrow> string \<Rightarrow> string list" where
  "groupToolNames r g = (case r of None \<Rightarrow> [] | Some r \<Rightarrow> map Tool.Name (ToolsForGroup r g))"

definition resourceURI :: "string \<Rightarrow> string" where
  "resourceURI tool = ''ui://'' @ tool @ ''/app''"

definition uiTools :: "'w Registry option \<Rightarrow> string \<Rightarrow> (string \<times> ToolUIConfig) list" where
  "uiTools r g =
     (case r of None \<Rightarrow> []
      | Some r \<Rightarrow> List.map_filter (\<lambda>t. map_option (Pair (Tool.Name t)) (UIHandlerForTool r (Tool.Name t)))
          (ToolsForGroup r g))"

definition applyResourcesLocked ::
    "'w Registry option \<Rightarrow> string \<Rightarrow> 'w Registry \<Rightarrow> server \<Rightarrow> server" where
  "applyResourcesLocked old g newRegistry srv =
     (let newResources = uiTools (Some newRegistry) g;
          newURIs = map (resourceURI \<circ> fst) newResources;
          oldURIs = map (resourceURI \<circ> fst) (uiTools old g);
          removed = filter (\<lambda>u. u \<notin> set newURIs) oldURIs
      in fold (\<lambda>(name, h). AddResource (resourceURI name) name h) newResources
           (RemoveResources removed srv))"

definition toolRateLimit :: "'w Registry \<Rightarrow> string \<Rightarrow> string" where
  "toolRateLimit r name = (case EntryForTool r name of None \<Rightarrow> [] | Some e \<Rightarrow> RegistryEntry.RateLimit e)"

definition applyGroup ::
    "'w Registry option \<Rightarrow> (string \<rightharpoonup> Tool) \<Rightarrow> 'w Registry \<Rightarrow> (string \<rightharpoonup> Tool) option \<Rightarrow> GroupConfig \<Rightarrow>
     (string \<rightharpoonup> server) \<Rightarrow> (string \<rightharpoonup> server)" where
  "applyGroup old oldSearch newRegistry newSearchTools g servers =
     (let endpoint = Endpoint g;
          srv = (case servers endpoint of None \<Rightarrow> NewServer | Some s \<Rightarrow> s);
          newTools = ToolsForGroup newRegistry (GroupConfig.Name g);
          newNames = map Tool.Name newTools;
          removed = filter (\<lambda>n. n \<notin> set newNames) (groupToolNames old (GroupConfig.Name g));
          srv = RemoveTools removed srv;
          srv = applyResourcesLocked old (GroupConfig.Name g) newRegistry srv;
          srv = fold (\<lambda>t. AddTool t (CallHandler (GroupConfig.Name g) (toolRateLimit newRegistry (Tool.Name t))))
                  newTools srv;
          srv = (case newSearchTools of
                   None \<Rightarrow> srv
                 | Some st \<Rightarrow>
                     (case st endpoint of
                        Some tool \<Rightarrow> AddTool tool (SearchHandler endpoint) srv
                      | None \<Rightarrow> (if oldSearch endpoint \<noteq> None then RemoveTools [searchToolName] srv else srv)))
      in servers(endpoint \<mapsto> srv))"

definition applyRegistryLocked ::
    "'w Registry \<Rightarrow> GroupConfig list \<Rightarrow> (string \<rightharpoonup> Tool) option \<Rightarrow> 'w Manager \<Rightarrow> 'w Manager" where
  "applyRegistryLocked newRegistry gs newSearchTools m =
     m\<lparr>m_servers := fold (applyGroup (m_registry m) (m_searchTools m) newRegistry newSearchTools) gs (m_servers m),
       m_registry := Some newRegistry\<rparr>"

section \<open>Incremental updates\<close>

definition stateTriples ::
    "('w upstreamState gomap \<Rightarrow> 'w upstreamState gomap) \<Rightarrow> 'w upstreamState gomap \<Rightarrow>
     (string \<times> 'w RegistryEntry list \<times> node option) list" where
  "stateTriples \<sigma> ups = map (\<lambda>(n, st). (n, us_entries st, us_specYAMLRoot st)) (\<sigma> ups)"

datatype manager_error = NotInitialised | RegistryFailed registry_error

definition rebuildFromStateLocked ::
    "'w Env \<Rightarrow> ('w upstreamState gomap \<Rightarrow> 'w upstreamState gomap) \<Rightarrow> NamingConfig \<Rightarrow> 'w Manager \<Rightarrow>
     manager_error option \<times> 'w Manager" where
  "rebuildFromStateLocked env \<sigma> naming m =
     (case NewFromEntries (env_jsonpath env) (stateTriples \<sigma> (m_upstreamByName m)) naming (m_groups m) of
        Inl e \<Rightarrow> (Some (RegistryFailed e), m)
      | Inr r \<Rightarrow> (None, applyRegistryLocked r (m_groups m) None m))"

definition UpdateUpstream ::
    "'w Env \<Rightarrow> ('w upstreamState gomap \<Rightarrow> 'w upstreamState gomap) \<Rightarrow> string \<Rightarrow> 'w RegistryEntry list \<Rightarrow>
     node option \<Rightarrow> 'w Manager \<Rightarrow> manager_error option \<times> 'w Manager" where
  "UpdateUpstream env \<sigma> upstreamName es rt m =
     (case m_namingCfg m of
        None \<Rightarrow> (Some NotInitialised, m)
      | Some naming \<Rightarrow>
          rebuildFromStateLocked env \<sigma> naming
            (m\<lparr>m_upstreamByName :=
                 AList.update upstreamName \<lparr>us_entries = es, us_specYAMLRoot = rt\<rparr> (m_upstreamByName m)\<rparr>))"

definition RemoveUpstream ::
    "'w Env \<Rightarrow> ('w upstreamState gomap \<Rightarrow> 'w upstreamState gomap) \<Rightarrow> string \<Rightarrow> 'w Manager \<Rightarrow> 'w Manager" where
  "RemoveUpstream env \<sigma> upstreamName m =
     (case m_namingCfg m of
        None \<Rightarrow> m
      | Some naming \<Rightarrow>
          (let old = map_of (m_upstreamByName m) upstreamName;
               m1 = m\<lparr>m_upstreamByName := AList.delete upstreamName (m_upstreamByName m)\<rparr>
           in case rebuildFromStateLocked env \<sigma> naming m1 of
                (None, m2) \<Rightarrow> m2
              | (Some e, m2) \<Rightarrow>
                  (case old of
                     None \<Rightarrow> m2
                   | Some st \<Rightarrow> m2\<lparr>m_upstreamByName := AList.update upstreamName st (m_upstreamByName m2)\<rparr>)))"

section \<open>Dispatch\<close>

definition managerAuthRequired :: "'w Manager \<Rightarrow> string \<Rightarrow> bool" where
  "managerAuthRequired m t = (case m_registry m of None \<Rightarrow> True | Some r \<Rightarrow> registryAuthRequired r t)"

definition managerToolUpstreamName :: "'w Manager \<Rightarrow> string \<Rightarrow> string option" where
  "managerToolUpstreamName m t =
     (case m_registry m of None \<Rightarrow> Some [] | Some r \<Rightarrow> registryToolUpstreamName r t)"

text \<open>The cache configuration that applies to a tool.\<close>

definition toolCache :: "'w Manager \<Rightarrow> 'w Registry \<Rightarrow> string \<Rightarrow> CacheConfig option" where
  "toolCache m r t =
     (case EntryForTool r t of
        None \<Rightarrow> None
      | Some e \<Rightarrow> if CacheName e = [] then None else map_of (m_cacheConfigs m) (CacheName e))"

definition cacheSubject :: "CacheConfig \<Rightarrow> Ctx \<Rightarrow> string" where
  "cacheSubject c ctx =
     (if PerUser c then (case ctx_token ctx of None \<Rightarrow> [] | Some ti \<Rightarrow> Subject ti) else [])"

definition DispatchForGroup :: "'w Env \<Rightarrow> 'w Manager \<Rightarrow> string \<Rightarrow> string \<Rightarrow> 'w executor" where
  "DispatchForGroup env m groupName toolName ctx args w =
     (case m_registry m of
        None \<Rightarrow> ((Some (error_result ''no config loaded''), None), w)
      | Some r \<Rightarrow>
          (case (m_store m, toolCache m r toolName) of
             (Some store, Some c) \<Rightarrow>
               (case ComputeKey (env_num env) (env_sha env) toolName args (PerUser c) (cacheSubject c ctx) of
                  Inl e \<Rightarrow> registryDispatchForGroup r groupName toolName ctx args w
                | Inr key \<Rightarrow>
                    (case st_get store key w of
                       (Some cached, w1) \<Rightarrow> ((Some cached, None), w1)
                     | (None, w1) \<Rightarrow>
                         (case registryDispatchForGroup r groupName toolName ctx args w1 of
                            ((Some result, None), w2) \<Rightarrow>
                              if IsError result then ((Some result, None), w2)
                              else ((Some result, None), snd (st_set store key result (TTL c) w2))
                          | (ret, w2) \<Rightarrow> (ret, w2))))
           | _ \<Rightarrow> registryDispatchForGroup r groupName toolName ctx args w))"

text \<open>The rendering of the reset time is the parameter \<^term>\<open>fmt_time\<close>.\<close>

definition checkRateLimit ::
    "(Time \<Rightarrow> string) \<Rightarrow> 'w Manager \<Rightarrow> Ctx \<Rightarrow> string \<Rightarrow> string \<Rightarrow> 'w \<Rightarrow> CallToolResult option \<times> 'w" where
  "checkRateLimit fmt_time m ctx limitName sessionID w =
     (case m_enforcer m of
        None \<Rightarrow> (None, w)
      | Some enf \<Rightarrow>
          (case map_of (m_rateLimitCfgs m) limitName of
             None \<Rightarrow> (None, w)
           | Some cfg \<Rightarrow>
               (case Allow (Some enf) limitName
                       (rateLimitKey ctx (RateLimitConfig.Source cfg) limitName sessionID) w of
                  (Inl e, w1) \<Rightarrow> (None, w1)
                | (Inr a, w1) \<Rightarrow>
                    if \<not> Reached a then (None, w1)
                    else (Some (error_result (''rate limit exceeded: limit='' @ limitName @
                            '' remaining='' @ show_int (Remaining a) @ '' reset='' @ fmt_time (Reset a))), w1))))"

text \<open>The handler registered for a tool. The decoded arguments come from the SDK's request;
  \<^term>\<open>Inl e\<close> is a failure of \<^verbatim>\<open>managerParseArguments\<close>.\<close>

definition callTool ::
    "'w Env \<Rightarrow> (Time \<Rightarrow> string) \<Rightarrow> 'w Manager \<Rightarrow> string \<Rightarrow> string \<Rightarrow> string \<Rightarrow> string \<Rightarrow> Ctx \<Rightarrow> goerr + args \<Rightarrow>
     'w \<Rightarrow> call_return \<times> 'w" where
  "callTool env fmt_time m groupName rlName toolName sessionID ctx parsed w =
     (case (if rlName \<noteq> [] then checkRateLimit fmt_time m ctx rlName sessionID w else (None, w)) of
        (Some limited, w1) \<Rightarrow> ((Some limited, None), w1)
      | (None, w1) \<Rightarrow>
          (case parsed of
             Inl e \<Rightarrow> ((None, Some (ErrWrap ''parsing tool arguments'' e)), w1)
           | Inr args \<Rightarrow> DispatchForGroup env m groupName toolName ctx args w1))"

text \<open>\<^verbatim>\<open>managerParseArguments\<close> on a raw JSON value: \<^term>\<open>None\<close> is an absent value.\<close>

definition managerParseArguments :: "goval option \<Rightarrow> goerr + args" where
  "managerParseArguments raw =
     (case raw of
        None \<Rightarrow> Inr []
      | Some GNil \<Rightarrow> Inr []
      | Some (GMap kvs) \<Rightarrow> Inr kvs
      | Some _ \<Rightarrow> Inl (ErrText ''unmarshalling arguments''))"

definition listTools :: "'w Manager \<Rightarrow> string \<Rightarrow> Tool list \<Rightarrow> Tool list" where
  "listTools m endpoint full =
     (case m_searchTools m endpoint of None \<Rightarrow> full | Some t \<Rightarrow> [t])"

definition buildSearchTool :: "int \<Rightarrow> Tool" where
  "buildSearchTool defaultLimit =
     \<lparr>Tool.Name = searchToolName,
      Tool.Description = ''Search available tools by natural language query. Returns up to '' @
        show_int defaultLimit @ '' matching tool definitions including their input schemas.'',
      Tool.InputSchema = GMap
        [(''type'', GStr ''object''),
         (''properties'', GMap
           [(''query'', GMap [(''type'', GStr ''string''),
              (''description'', GStr ''Natural language description of what you want to do'')]),
            (''limit'', GMap [(''type'', GStr ''integer''),
              (''description'', GStr (''Maximum number of tools to return (default: '' @
                 show_int defaultLimit @ '')''))])]),
         (''required'', GList [GStr ''query''])],
      Tool.Meta = []\<rparr>"

text \<open>The search handler; \<^term>\<open>to_json\<close> is the JSON encoding of the results.\<close>

definition searchHandler ::
    "(ToolDef list \<Rightarrow> string) \<Rightarrow> 'w Manager \<Rightarrow> string \<Rightarrow> goerr + args \<Rightarrow> 'w \<Rightarrow> call_return \<times> 'w" where
  "searchHandler to_json m endpoint parsed w =
     (case parsed of
        Inl e \<Rightarrow> ((None, Some (ErrWrap ''parsing search_tools arguments'' e)), w)
      | Inr args \<Rightarrow>
          (let query = (case map_of args ''query'' of Some (GStr q) \<Rightarrow> q | _ \<Rightarrow> []) in
           if query = [] then ((Some (error_result ''query is required''), None), w)
           else
             (let limit = (case map_of args ''limit'' of
                             Some (GNum r) \<Rightarrow> if r > 0 then floor r else m_searchLimit m
                           | _ \<Rightarrow> m_searchLimit m);
                  limit = (if limit \<le> 0 then 5 else limit)
              in case m_searchIndexes m endpoint of
                   None \<Rightarrow> ((Some (error_result ''search index not available''), None), w)
                 | Some (vs, idx) \<Rightarrow>
                     (case searchIndex vs idx query limit w of
                        (Inl e, w1) \<Rightarrow> ((Some (error_result (''search failed: '' @ err_text e)), None), w1)
                      | (Inr defs, w1) \<Rightarrow> ((Some (ok_result [TextContent (to_json defs)]), None), w1)))))"

section \<open>The full rebuild\<close>

datatype rebuild_error =
    DuplicatePrefix string string string
  | UnknownRateLimit string string
  | UnknownBreaker string string
  | UpstreamFailed string goerr
  | RegistryError registry_error
  | ToolUnknownRateLimit string string
  | ToolUnknownCache string string string
  | EnforcerFailed goerr
  | StoreFailed goerr

fun validateUpstreamPrefixes :: "(string \<rightharpoonup> string) \<Rightarrow> UpstreamConfig list \<Rightarrow> rebuild_error option" where
  "validateUpstreamPrefixes seen [] = None"
| "validateUpstreamPrefixes seen (up # ups) =
     (if \<not> UpstreamConfig.Enabled up then validateUpstreamPrefixes seen ups
      else (case seen (UpstreamConfig.ToolPrefix up) of
              Some prev \<Rightarrow> Some (DuplicatePrefix prev (UpstreamConfig.Name up) (UpstreamConfig.ToolPrefix up))
            | None \<Rightarrow> validateUpstreamPrefixes
                (seen(UpstreamConfig.ToolPrefix up \<mapsto> UpstreamConfig.Name up)) ups))"

definition checkUpstreamRefs ::
    "(UpstreamConfig \<Rightarrow> string) \<Rightarrow> 'a gomap \<Rightarrow> (string \<Rightarrow> string \<Rightarrow> rebuild_error) \<Rightarrow> UpstreamConfig list \<Rightarrow>
     rebuild_error option" where
  "checkUpstreamRefs ref defined err ups =
     map_option (\<lambda>up. err (UpstreamConfig.Name up) (ref up))
       (find (\<lambda>up. UpstreamConfig.Enabled up \<and> ref up \<noteq> [] \<and> \<not> has_key defined (ref up)) ups)"

definition pool_get :: "'w Manager \<Rightarrow> string \<Rightarrow> PoolAcquirer option" where
  "pool_get m name = (case m_pools m of None \<Rightarrow> None | Some p \<Rightarrow> p name)"

text \<open>The copy of an upstream's configuration that its builder receives.\<close>

definition injectRuntime :: "'w Manager \<Rightarrow> UpstreamConfig \<Rightarrow> UpstreamConfig" where
  "injectRuntime m cfg =
     (let oa = OutboundAuth cfg;
          oa = (if m_pools m \<noteq> None
                then oa\<lparr>OutboundAuthConfig.JSAuthPool := pool_get m ''js/auth'',
                        OutboundAuthConfig.LuaAuthPool := pool_get m ''lua/auth''\<rparr> else oa);
          oa = oa\<lparr>OutboundAuthConfig.OAuthTokenStore := m_oauthStore m,
                  OutboundAuthConfig.OAuthCallbackReg := m_oauthCallbackReg m\<rparr>;
          cfg = cfg\<lparr>OutboundAuth := oa\<rparr>
      in if m_pools m \<noteq> None then cfg\<lparr>JSScriptPool := pool_get m ''js/script''\<rparr> else cfg)"

fun buildUpstreams ::
    "'w Env \<Rightarrow> 'w Manager \<Rightarrow> NamingConfig \<Rightarrow> UpstreamConfig list \<Rightarrow> 'w \<Rightarrow>
     (rebuild_error + 'w ValidatedUpstream list) \<times> 'w" where
  "buildUpstreams env m naming [] w = (Inr [], w)"
| "buildUpstreams env m naming (up # ups) w =
     (if \<not> UpstreamConfig.Enabled up then buildUpstreams env m naming ups w
      else
        (case Build (env_builders env) (injectRuntime m up) naming w of
           (Inl e, w1) \<Rightarrow> (Inl (UpstreamFailed (UpstreamConfig.Name up) e), w1)
         | (Inr vu, w1) \<Rightarrow>
             (case buildUpstreams env m naming ups w1 of
                (Inl e, w2) \<Rightarrow> (Inl e, w2)
              | (Inr vus, w2) \<Rightarrow> (Inr (vu # vus), w2))))"

text \<open>The breaker of an upstream is stored in the first upstream object its entries carry.\<close>

definition zeroCircuitBreakerConfig :: CircuitBreakerConfig where
  "zeroCircuitBreakerConfig = \<lparr>Threshold = 0, MinRequests = 0, FallbackDuration = 0, RecoveryDuration = 0\<rparr>"

definition upstreamBreaker :: "ProxyConfig \<Rightarrow> 'w ValidatedUpstream \<Rightarrow> Breaker" where
  "upstreamBreaker cfg vu =
     fst (newBreaker (vu_name vu)
       (case map_of (CircuitBreakers cfg) (UpstreamConfig.CircuitBreaker (VConfig vu)) of
          None \<Rightarrow> zeroCircuitBreakerConfig | Some c \<Rightarrow> c))"

definition firstUpstream :: "'w RegistryEntry list \<Rightarrow> Upstream option" where
  "firstUpstream es = (case List.map_filter RegistryEntry.Upstream es of [] \<Rightarrow> None | u # rest \<Rightarrow> Some u)"

fun attachBreakers ::
    "'w Env \<Rightarrow> ProxyConfig \<Rightarrow> 'w ValidatedUpstream list \<Rightarrow> 'w \<Rightarrow> Breaker list \<times> 'w" where
  "attachBreakers env cfg [] w = ([], w)"
| "attachBreakers env cfg (vu # vus) w =
     (if UpstreamConfig.CircuitBreaker (VConfig vu) = [] then attachBreakers env cfg vus w
      else
        (let b = upstreamBreaker cfg vu;
             w1 = (case firstUpstream (Entries vu) of
                     None \<Rightarrow> w | Some u \<Rightarrow> env_setBreaker env (up_addr u) b w);
             (bs, w2) = attachBreakers env cfg vus w1
         in (b # bs, w2)))"

definition effectiveGroups :: "ProxyConfig \<Rightarrow> 'w ValidatedUpstream list \<Rightarrow> GroupConfig list" where
  "effectiveGroups cfg vus =
     (if Groups cfg = []
      then [\<lparr>GroupConfig.Name = ''default'', Endpoint = ''/mcp'',
             GroupConfig.Upstreams = map vu_name vus, Filter = []\<rparr>]
      else Groups cfg)"

definition checkEntryRefs :: "ProxyConfig \<Rightarrow> 'w ValidatedUpstream list \<Rightarrow> rebuild_error option" where
  "checkEntryRefs cfg vus =
     (case find (\<lambda>e. RegistryEntry.RateLimit e \<noteq> [] \<and> \<not> has_key (RateLimits cfg) (RegistryEntry.RateLimit e))
             (all_entries vus) of
        Some e \<Rightarrow> Some (ToolUnknownRateLimit (RegistryEntry.PrefixedName e) (RegistryEntry.RateLimit e))
      | None \<Rightarrow>
          (case find (\<lambda>(n, e). CacheName e \<noteq> [] \<and> \<not> has_key (Caches cfg) (CacheName e))
                  (concat (map (\<lambda>vu. map (Pair (vu_name vu)) (Entries vu)) vus)) of
             Some (n, e) \<Rightarrow> Some (ToolUnknownCache n (RegistryEntry.PrefixedName e) (CacheName e))
           | None \<Rightarrow> None))"

fun buildGroupIndexes ::
    "'w vector_store \<Rightarrow> 'w Registry \<Rightarrow> Tool \<Rightarrow> GroupConfig list \<Rightarrow>
     (string \<rightharpoonup> 'w vector_store \<times> Index) \<Rightarrow> (string \<rightharpoonup> Tool) \<Rightarrow> 'w \<Rightarrow>
     (goerr + (string \<rightharpoonup> 'w vector_store \<times> Index) \<times> (string \<rightharpoonup> Tool)) \<times> 'w" where
  "buildGroupIndexes vs r tool [] idxs tools w = (Inr (idxs, tools), w)"
| "buildGroupIndexes vs r tool (g # gs) idxs tools w =
     (case buildIndex vs (ToolsForGroup r (GroupConfig.Name g)) w of
        (Inl e, w1) \<Rightarrow> (Inl e, w1)
      | (Inr idx, w1) \<Rightarrow>
          buildGroupIndexes vs r tool gs (idxs(Endpoint g \<mapsto> (vs, idx))) (tools(Endpoint g \<mapsto> tool)) w1)"

text \<open>The search state; an error of the index construction degrades to no search.\<close>

definition buildSearchState ::
    "'w Env \<Rightarrow> ToolSearchConfig option \<Rightarrow> 'w Registry \<Rightarrow> GroupConfig list \<Rightarrow> 'w \<Rightarrow>
     (goerr + (string \<rightharpoonup> 'w vector_store \<times> Index) \<times> (string \<rightharpoonup> Tool) \<times> int) \<times> 'w" where
  "buildSearchState env cfg r gs w =
     (case cfg of
        None \<Rightarrow> (Inr (Map.empty, Map.empty, 0), w)
      | Some c \<Rightarrow>
          if \<not> ToolSearchConfig.Enabled c then (Inr (Map.empty, Map.empty, 0), w)
          else
            (case env_embedding env (ToolSearchConfig.Embedding c) w of
               (Inl e, w1) \<Rightarrow> (Inl (ErrWrap ''building embedding func'' e), w1)
             | (Inr vs, w1) \<Rightarrow>
                 (let limit = (if ToolSearchConfig.Limit c \<le> 0 then 5 else ToolSearchConfig.Limit c) in
                  case buildGroupIndexes vs r (buildSearchTool limit) gs Map.empty Map.empty w1 of
                    (Inl e, w2) \<Rightarrow> (Inl (ErrWrap ''building search index'' e), w2)
                  | (Inr (idxs, tools), w2) \<Rightarrow> (Inr (idxs, tools, limit), w2))))"

definition newTokenCounter :: "'w Env \<Rightarrow> ProxyConfig \<Rightarrow> string option" where
  "newTokenCounter env cfg =
     (if \<not> TokenCountingConfig.Enabled (TokenCounting cfg) then None
      else (case env_tokenizer env (if Encoding (TokenCounting cfg) = [] then ''cl100k_base''
                                    else Encoding (TokenCounting cfg)) of
              Inl e \<Rightarrow> None | Inr enc \<Rightarrow> Some enc))"

definition newCacheStore ::
    "'w Env \<Rightarrow> ProxyConfig \<Rightarrow> 'w \<Rightarrow> (goerr + 'w Store option) \<times> 'w" where
  "newCacheStore env cfg w =
     (if Caches cfg = [] then (Inr None, w)
      else
        (let sc = CacheStore cfg;
             sc = (if CacheStoreConfig.Provider sc = [] then sc\<lparr>CacheStoreConfig.Provider := ''memory''\<rparr> else sc)
         in case newStoreByProvider (env_stores env) sc w of
              (Inl e, w1) \<Rightarrow> (Inl e, w1)
            | (Inr s, w1) \<Rightarrow> (Inr (Some s), w1)))"

definition validateConfig :: "ProxyConfig \<Rightarrow> rebuild_error option" where
  "validateConfig cfg =
     (case validateUpstreamPrefixes Map.empty (ProxyConfig.Upstreams cfg) of
        Some e \<Rightarrow> Some e
      | None \<Rightarrow>
          (case checkUpstreamRefs UpstreamConfig.RateLimit (RateLimits cfg) UnknownRateLimit (ProxyConfig.Upstreams cfg) of
             Some e \<Rightarrow> Some e
           | None \<Rightarrow> checkUpstreamRefs UpstreamConfig.CircuitBreaker (CircuitBreakers cfg) UnknownBreaker
               (ProxyConfig.Upstreams cfg)))"

definition newUpstreamStates :: "'w Registry \<Rightarrow> 'w ValidatedUpstream list \<Rightarrow> 'w upstreamState gomap" where
  "newUpstreamStates r vus =
     fold (\<lambda>vu. AList.update (vu_name vu)
         \<lparr>us_entries = EntriesForUpstream r (vu_name vu), us_specYAMLRoot = SpecRootForUpstream r (vu_name vu)\<rparr>)
       vus []"

definition commitRebuild ::
    "ProxyConfig \<Rightarrow> 'w ValidatedUpstream list \<Rightarrow> 'w Registry \<Rightarrow> Breaker list \<Rightarrow> 'w Enforcer option \<Rightarrow>
     string option \<Rightarrow> 'w Store option \<Rightarrow>
     (string \<rightharpoonup> 'w vector_store \<times> Index) \<times> (string \<rightharpoonup> Tool) \<times> int \<Rightarrow> 'w Manager \<Rightarrow> 'w Manager" where
  "commitRebuild cfg vus r bs enf ctr store search m =
     (let gs = effectiveGroups cfg vus;
          (idxs, tools, limit) = search;
          m = m\<lparr>m_counter := ctr, m_enforcer := enf, m_rateLimitCfgs := RateLimits cfg,
                m_circuitBreakerSet := (if bs = [] then None else Some bs)\<rparr>;
          m = applyRegistryLocked r gs (Some tools) m
      in m\<lparr>m_groups := gs, m_namingCfg := Some (Naming cfg), m_upstreamByName := newUpstreamStates r vus,
           m_searchIndexes := idxs, m_searchTools := tools, m_searchLimit := limit,
           m_store := store, m_cacheConfigs := Caches cfg\<rparr>)"

definition Rebuild ::
    "'w Env \<Rightarrow> ProxyConfig \<Rightarrow> 'w Manager \<Rightarrow> 'w \<Rightarrow> rebuild_error option \<times> 'w Manager \<times> 'w" where
  "Rebuild env cfg m w =
     (let m = (if m_impl m = None then m\<lparr>m_impl := Some (ServiceVersion (Telemetry cfg))\<rparr> else m) in
      case validateConfig cfg of Some e \<Rightarrow> (Some e, m, w) | None \<Rightarrow>
      (case buildUpstreams env m (Naming cfg) (ProxyConfig.Upstreams cfg) w of
         (Inl e, w1) \<Rightarrow> (Some e, m, w1)
       | (Inr vus, w1) \<Rightarrow>
      (let (bs, w2) = attachBreakers env cfg vus w1; gs = effectiveGroups cfg vus in
       case New (env_jsonpath env) vus (Naming cfg) gs of
         Inl e \<Rightarrow> (Some (RegistryError e), m, w2)
       | Inr r \<Rightarrow>
      (case checkEntryRefs cfg vus of Some e \<Rightarrow> (Some e, m, w2) | None \<Rightarrow>
      (case newEnforcer (env_limiters env) cfg w2 of
         (Inl e, w3) \<Rightarrow> (Some (EnforcerFailed e), m, w3)
       | (Inr enf, w3) \<Rightarrow>
      (case newCacheStore env cfg w3 of
         (Inl e, w4) \<Rightarrow> (Some (StoreFailed e), m, w4)
       | (Inr store, w4) \<Rightarrow>
      (case buildSearchState env (ToolSearch cfg) r gs w4 of
         (search, w5) \<Rightarrow>
           (None,
            commitRebuild cfg vus r bs enf (newTokenCounter env cfg) store
              (case search of Inl e \<Rightarrow> (Map.empty, Map.empty, 0) | Inr s \<Rightarrow> s) m,
            w5))))))))"

end
