(* ===== verification/ManagerProps.thy ===== *)
theory ManagerProps
  imports Manager
begin

text \<open>
  What the manager guarantees: a failed rebuild changes nothing, the servers serve exactly
  the tools of the current registry after any sequence of reloads and refreshes, the
  refresh contract (an interface the background refresher relies on), the dispatch through
  rate limits and the cache, and where the code falls short of its comments.
\<close>

section \<open>A failed rebuild changes nothing\<close>

lemma rebuild_fail_state:
  assumes "Rebuild env cfg m w = (Some e, m', w')"
  shows "m' = (if m_impl m = None then m\<lparr>m_impl := Some (ServiceVersion (Telemetry cfg))\<rparr> else m)"
  using assms by (auto simp: Rebuild_def Let_def split: option.splits sum.splits prod.splits)

section \<open>The tool tables of the servers\<close>

lemma srv_sel [simp]:
  "srv_tools (AddTool t h s) = (srv_tools s)(Tool.Name t \<mapsto> (t, h))"
  "srv_tools (RemoveTools ns s) n = (if n \<in> set ns then None else srv_tools s n)"
  "srv_tools (AddResource u nm r s) = srv_tools s" "srv_tools (RemoveResources us s) = srv_tools s"
  "srv_resources (AddTool t h s) = srv_resources s" "srv_resources (RemoveTools ns s) = srv_resources s"
  "srv_resources (AddResource u nm r s) = (srv_resources s)(u \<mapsto> (nm, r))"
  "srv_resources (RemoveResources us s) u = (if u \<in> set us then None else srv_resources s u)"
  by (simp_all add: AddTool_def RemoveTools_def AddResource_def RemoveResources_def)

definition group_table :: "'w Registry \<Rightarrow> string \<Rightarrow> (string \<rightharpoonup> Tool \<times> tool_handler)" where
  "group_table r g =
     map_of (rev (map (\<lambda>t. (Tool.Name t, (t, CallHandler g (toolRateLimit r (Tool.Name t))))) (ToolsForGroup r g)))"

lemma fold_AddTool:
  "srv_tools (fold (\<lambda>t. AddTool t (h t)) ts s) = srv_tools s ++ map_of (rev (map (\<lambda>t. (Tool.Name t, (t, h t))) ts))"
  "srv_resources (fold (\<lambda>t. AddTool t (h t)) ts s) = srv_resources s"
  by (induction ts arbitrary: s) (auto simp: fun_eq_iff map_add_def split: option.splits)

lemma fold_AddResource_tools:
  "srv_tools (fold (\<lambda>(name, h). AddResource (f name) name h) rs s) = srv_tools s"
  by (induction rs arbitrary: s) auto

lemma applyResources_tools [simp]: "srv_tools (applyResourcesLocked old g r s) = srv_tools s"
  by (simp add: applyResourcesLocked_def Let_def fold_AddResource_tools)

definition search_named :: "(string \<rightharpoonup> Tool) \<Rightarrow> bool" where
  "search_named st \<longleftrightarrow> (\<forall>e t. st e = Some t \<longrightarrow> Tool.Name t = searchToolName)"

definition old_server :: "(string \<rightharpoonup> server) \<Rightarrow> string \<Rightarrow> server" where
  "old_server servers e = (case servers e of None \<Rightarrow> NewServer | Some s \<Rightarrow> s)"

lemma applyGroup_other: "e \<noteq> Endpoint g \<Longrightarrow> applyGroup old os r ns g servers e = servers e"
  by (simp add: applyGroup_def Let_def)

definition served ::
    "'w Registry option \<Rightarrow> 'w Registry \<Rightarrow> GroupConfig \<Rightarrow> server \<Rightarrow> (string \<rightharpoonup> Tool \<times> tool_handler)" where
  "served old r g s n =
     (case group_table r (GroupConfig.Name g) n of
        Some x \<Rightarrow> Some x
      | None \<Rightarrow> if n \<in> set (groupToolNames old (GroupConfig.Name g)) then None else srv_tools s n)"

lemma group_table_None:
  "group_table r g n = None \<longleftrightarrow> n \<notin> set (map Tool.Name (ToolsForGroup r g))"
  by (simp add: group_table_def map_of_eq_None_iff image_image)

text \<open>The server of a group before the search tool is handled.\<close>

definition group_server :: "'w Registry option \<Rightarrow> 'w Registry \<Rightarrow> GroupConfig \<Rightarrow> server \<Rightarrow> server" where
  "group_server old r g s =
     fold (\<lambda>t. AddTool t (CallHandler (GroupConfig.Name g) (toolRateLimit r (Tool.Name t))))
       (ToolsForGroup r (GroupConfig.Name g))
       (applyResourcesLocked old (GroupConfig.Name g) r
         (RemoveTools
           (filter (\<lambda>n. n \<notin> set (map Tool.Name (ToolsForGroup r (GroupConfig.Name g))))
             (groupToolNames old (GroupConfig.Name g))) s))"

lemma group_server_tools: "srv_tools (group_server old r g s) n = served old r g s n"
  unfolding group_server_def fold_AddTool group_table_def [symmetric] served_def map_add_def
  using group_table_None [of r "GroupConfig.Name g" n]
  by (cases "group_table r (GroupConfig.Name g) n") auto

lemma applyGroup_server:
  "applyGroup old os r ns g servers (Endpoint g) =
     (let s = group_server old r g (old_server servers (Endpoint g)) in
      Some (case ns of None \<Rightarrow> s
        | Some st \<Rightarrow> (case st (Endpoint g) of
            Some tool \<Rightarrow> AddTool tool (SearchHandler (Endpoint g)) s
          | None \<Rightarrow> if os (Endpoint g) \<noteq> None then RemoveTools [searchToolName] s else s)))"
  unfolding applyGroup_def Let_def group_server_def old_server_def by (simp only: fun_upd_same)

lemma applyGroup_tools:
  assumes "case ns of None \<Rightarrow> True | Some st \<Rightarrow> search_named st" and "n \<noteq> searchToolName"
  shows "\<exists>s. applyGroup old os r ns g servers (Endpoint g) = Some s \<and>
    srv_tools s n = served old r g (old_server servers (Endpoint g)) n"
proof -
  let ?s = "group_server old r g (old_server servers (Endpoint g))"
  note g = group_server_tools [of old r g "old_server servers (Endpoint g)" n]
  show ?thesis
  proof (cases ns)
    case None
    then show ?thesis using g by (simp add: applyGroup_server Let_def)
  next
    case (Some st)
    show ?thesis
    proof (cases "st (Endpoint g)")
      case None
      then show ?thesis using g assms(2) Some by (simp add: applyGroup_server Let_def)
    next
      case tool: (Some tool)
      with assms(1) Some have "Tool.Name tool = searchToolName" by (auto simp: search_named_def)
      then show ?thesis using g assms(2) Some tool by (simp add: applyGroup_server Let_def)
    qed
  qed
qed

lemma fold_applyGroup_other:
  "e \<notin> Endpoint ` set gs \<Longrightarrow> fold (applyGroup old os r ns) gs servers e = servers e"
  by (induction gs arbitrary: servers) (auto simp: applyGroup_other)

lemma old_server_cong: "servers e = servers' e \<Longrightarrow> old_server servers e = old_server servers' e"
  by (simp add: old_server_def)

lemma fold_applyGroup_tools:
  assumes "distinct (map Endpoint gs)" "g \<in> set gs"
    and "case ns of None \<Rightarrow> True | Some st \<Rightarrow> search_named st" and "n \<noteq> searchToolName"
  shows "\<exists>s. fold (applyGroup old os r ns) gs servers (Endpoint g) = Some s \<and>
    srv_tools s n = served old r g (old_server servers (Endpoint g)) n"
  using assms(1,2)
proof (induction gs arbitrary: servers)
  case (Cons h gs)
  show ?case
  proof (cases "g = h")
    case True
    with Cons.prems have "Endpoint g \<notin> Endpoint ` set gs" by auto
    then have "fold (applyGroup old os r ns) (h # gs) servers (Endpoint g) =
        applyGroup old os r ns g servers (Endpoint g)"
      unfolding True by (simp add: fold_applyGroup_other)
    with applyGroup_tools [OF assms(3,4), of old os r g servers] show ?thesis by (simp only:)
  next
    case False
    with Cons.prems have g: "g \<in> set gs" and "Endpoint g \<noteq> Endpoint h"
      by (auto simp: image_iff)
    then have o: "old_server (applyGroup old os r ns h servers) (Endpoint g) = old_server servers (Endpoint g)"
      by (intro old_server_cong) (simp add: applyGroup_other)
    have "distinct (map Endpoint gs)" using Cons.prems(1) by simp
    from Cons.IH [OF this g, of "applyGroup old os r ns h servers"] show ?thesis
      unfolding o by simp
  qed
qed simp

text \<open>The invariant: every group's endpoint serves exactly the tools the registry has for the
  group (beside the search tool), each bound to the group and its rate limit.\<close>

definition serves_registry :: "'w Manager \<Rightarrow> bool" where
  "serves_registry m \<longleftrightarrow>
     (\<forall>g \<in> set (m_groups m). \<exists>r s. m_registry m = Some r \<and> m_servers m (Endpoint g) = Some s \<and>
        (\<forall>n. n \<noteq> searchToolName \<longrightarrow> srv_tools s n = group_table r (GroupConfig.Name g) n))"

lemma group_table_names: "n \<in> set (groupToolNames (Some r) g) \<longleftrightarrow> group_table r g n \<noteq> None"
  by (auto simp: groupToolNames_def group_table_def map_of_eq_None_iff image_image)

lemma apply_serves:
  assumes "serves_registry m" and "distinct (map Endpoint gs)"
    and "case ns of None \<Rightarrow> True | Some st \<Rightarrow> search_named st"
    and "\<forall>g \<in> set gs. m_servers m (Endpoint g) = None \<or>
        (\<exists>g' \<in> set (m_groups m). GroupConfig.Name g' = GroupConfig.Name g \<and> Endpoint g' = Endpoint g)"
    and "g \<in> set gs" and "n \<noteq> searchToolName"
  shows "\<exists>s. m_servers (applyRegistryLocked r gs ns m) (Endpoint g) = Some s \<and>
    srv_tools s n = group_table r (GroupConfig.Name g) n"
proof -
  have "srv_tools (old_server (m_servers m) (Endpoint g)) n = None
      \<or> n \<in> set (groupToolNames (m_registry m) (GroupConfig.Name g))"
  proof (cases "m_servers m (Endpoint g)")
    case None
    then show ?thesis by (simp add: old_server_def NewServer_def)
  next
    case (Some s)
    with assms(4,5) obtain g' where g': "g' \<in> set (m_groups m)" "GroupConfig.Name g' = GroupConfig.Name g"
      "Endpoint g' = Endpoint g" by auto
    with assms(1) obtain r' s' where "m_registry m = Some r'" "m_servers m (Endpoint g') = Some s'"
      "srv_tools s' n = group_table r' (GroupConfig.Name g') n"
      using assms(6) unfolding serves_registry_def by blast
    with Some g' show ?thesis
      by (cases "group_table r' (GroupConfig.Name g) n") (auto simp: old_server_def group_table_names)
  qed
  with fold_applyGroup_tools [OF assms(2,5,3,6), of "m_registry m" "m_searchTools m" r "m_servers m"]
  show ?thesis by (auto simp: applyRegistryLocked_def served_def split: option.splits)
qed

section \<open>Reachable managers\<close>

text \<open>A reload that keeps every endpoint with its group: the endpoints are distinct, and an
  endpoint that already has a server belongs to a group of the same name in the current
  configuration.\<close>

definition endpoints_stable :: "'w Manager \<Rightarrow> 'w Manager \<Rightarrow> bool" where
  "endpoints_stable m m' \<longleftrightarrow>
     distinct (map Endpoint (m_groups m')) \<and>
     (\<forall>g \<in> set (m_groups m'). m_servers m (Endpoint g) = None \<or>
        (\<exists>g' \<in> set (m_groups m). GroupConfig.Name g' = GroupConfig.Name g \<and> Endpoint g' = Endpoint g))"

inductive manager_reach :: "'w Env \<Rightarrow> 'w Manager \<Rightarrow> bool" for env where
  init: "manager_reach env (NewManager pools)"
| oauth: "manager_reach env m \<Longrightarrow> manager_reach env (SetOAuthConfig st reg m)"
| rebuild: "manager_reach env m \<Longrightarrow> Rebuild env cfg m w = (err, m', w') \<Longrightarrow>
    err = None \<longrightarrow> endpoints_stable m m' \<Longrightarrow> manager_reach env m'"
| update: "manager_reach env m \<Longrightarrow> UpdateUpstream env \<sigma> u es rt m = (err, m') \<Longrightarrow> manager_reach env m'"
| remove: "manager_reach env m \<Longrightarrow> manager_reach env (RemoveUpstream env \<sigma> u m)"

lemma serves_cong:
  "m_groups m' = m_groups m \<Longrightarrow> m_registry m' = m_registry m \<Longrightarrow> m_servers m' = m_servers m \<Longrightarrow>
     serves_registry m' = serves_registry m"
  by (simp add: serves_registry_def)

lemma applyRegistry_sel [simp]:
  "m_groups (applyRegistryLocked r gs ns m) = m_groups m"
  "m_registry (applyRegistryLocked r gs ns m) = Some r"
  "m_namingCfg (applyRegistryLocked r gs ns m) = m_namingCfg m"
  "m_upstreamByName (applyRegistryLocked r gs ns m) = m_upstreamByName m"
  by (simp_all add: applyRegistryLocked_def)

lemma apply_same_groups_serves:
  assumes "serves_registry m" "distinct (map Endpoint (m_groups m))"
  shows "serves_registry (applyRegistryLocked r (m_groups m) None m)"
  unfolding serves_registry_def
proof (intro ballI)
  fix g assume "g \<in> set (m_groups (applyRegistryLocked r (m_groups m) None m))"
  then have g: "g \<in> set (m_groups m)" by simp
  from assms(1) g obtain s0 where "m_servers m (Endpoint g) = Some s0" by (auto simp: serves_registry_def)
  have A: "\<exists>s. m_servers (applyRegistryLocked r (m_groups m) None m) (Endpoint g) = Some s \<and>
      srv_tools s n = group_table r (GroupConfig.Name g) n" if "n \<noteq> searchToolName" for n
    by (rule apply_serves [OF assms]) (use g that in auto)
  obtain s where s: "m_servers (applyRegistryLocked r (m_groups m) None m) (Endpoint g) = Some s"
    using A [of "[]"] by (auto simp: searchToolName_def)
  have "\<forall>n. n \<noteq> searchToolName \<longrightarrow> srv_tools s n = group_table r (GroupConfig.Name g) n"
    using A s by fastforce
  with s show "\<exists>r' s. m_registry (applyRegistryLocked r (m_groups m) None m) = Some r' \<and>
      m_servers (applyRegistryLocked r (m_groups m) None m) (Endpoint g) = Some s \<and>
      (\<forall>n. n \<noteq> searchToolName \<longrightarrow> srv_tools s n = group_table r' (GroupConfig.Name g) n)" by simp
qed

lemma rebuildFromState_cases:
  assumes "rebuildFromStateLocked env \<sigma> naming m = (err, m')"
  obtains (fail) e where "err = Some e" "m' = m"
  | (applied) r where "err = None" "m' = applyRegistryLocked r (m_groups m) None m"
      "NewFromEntries (env_jsonpath env) (stateTriples \<sigma> (m_upstreamByName m)) naming (m_groups m) = Inr r"
  using assms by (auto simp: rebuildFromStateLocked_def split: sum.splits)

definition served_inv :: "'w Manager \<Rightarrow> bool" where
  "served_inv m \<longleftrightarrow> serves_registry m \<and> distinct (map Endpoint (m_groups m))"

lemma served_inv_update: "served_inv (m\<lparr>m_upstreamByName := x\<rparr>) = served_inv m"
  by (simp add: served_inv_def serves_registry_def)

lemma rebuildFromState_served:
  assumes "served_inv m" "rebuildFromStateLocked env \<sigma> naming m = (err, m')"
  shows "served_inv m'"
  using assms(2)
proof (cases rule: rebuildFromState_cases)
  case fail
  with assms(1) show ?thesis by simp
next
  case applied
  with assms(1) show ?thesis by (simp add: served_inv_def apply_same_groups_serves)
qed

lemma update_served:
  assumes "served_inv m" "UpdateUpstream env \<sigma> u es rt m = (err, m')"
  shows "served_inv m'"
proof (cases "m_namingCfg m")
  case None
  with assms show ?thesis by (simp add: UpdateUpstream_def)
next
  case (Some naming)
  with assms(2) have "rebuildFromStateLocked env \<sigma> naming (m\<lparr>m_upstreamByName :=
      AList.update u \<lparr>us_entries = es, us_specYAMLRoot = rt\<rparr> (m_upstreamByName m)\<rparr>) = (err, m')"
    by (simp add: UpdateUpstream_def)
  from rebuildFromState_served [OF _ this] assms(1) show ?thesis by (simp add: served_inv_update)
qed

lemma remove_served:
  assumes "served_inv m"
  shows "served_inv (RemoveUpstream env \<sigma> u m)"
proof (cases "m_namingCfg m")
  case None
  with assms show ?thesis by (simp add: RemoveUpstream_def)
next
  case (Some naming)
  obtain err m2 where r: "rebuildFromStateLocked env \<sigma> naming
      (m\<lparr>m_upstreamByName := AList.delete u (m_upstreamByName m)\<rparr>) = (err, m2)" by fastforce
  from rebuildFromState_served [OF _ r] assms have "served_inv m2" by (simp add: served_inv_update)
  with Some r show ?thesis
    by (auto simp: RemoveUpstream_def Let_def served_inv_update split: option.splits)
qed

text \<open>A successful rebuild ends by applying its registry with the search tools it built.\<close>

lemma buildGroupIndexes_named:
  assumes "buildGroupIndexes vs r tool gs idxs tools w = (Inr (idxs', tools'), w')"
    and "search_named tools" "Tool.Name tool = searchToolName"
  shows "search_named tools'"
  using assms(1,2)
proof (induction gs arbitrary: idxs tools w)
  case (Cons g gs)
  have "search_named (tools(Endpoint g \<mapsto> tool))" using Cons.prems(2) assms(3) by (auto simp: search_named_def)
  with Cons show ?case by (auto split: sum.splits prod.splits)
qed simp

lemma buildSearchState_named:
  assumes "buildSearchState env cfg r gs w = (Inr (idxs, tools, limit), w')"
  shows "search_named tools"
proof (cases cfg)
  case None
  with assms show ?thesis by (auto simp: buildSearchState_def search_named_def)
next
  case (Some c)
  show ?thesis
  proof (cases "ToolSearchConfig.Enabled c")
    case False
    with assms Some show ?thesis by (auto simp: buildSearchState_def search_named_def)
  next
    case True
    with assms Some obtain vs w1 l idxs0 w2 where
      "buildGroupIndexes vs r (buildSearchTool l) gs Map.empty Map.empty w1 = (Inr (idxs0, tools), w2)"
      by (auto simp: buildSearchState_def Let_def split: sum.splits prod.splits)
    from buildGroupIndexes_named [OF this] show ?thesis by (simp add: search_named_def buildSearchTool_def)
  qed
qed

lemma Rebuild_success:
  assumes "Rebuild env cfg m w = (None, m', w')"
  obtains vus r bs enf ctr store idxs tools limit m0 where
    "m' = commitRebuild cfg vus r bs enf ctr store (idxs, tools, limit) m0"
    "m0 = (if m_impl m = None then m\<lparr>m_impl := Some (ServiceVersion (Telemetry cfg))\<rparr> else m)"
    "New (env_jsonpath env) vus (Naming cfg) (effectiveGroups cfg vus) = Inr r"
    "search_named tools"
proof -
  define m0 where "m0 = (if m_impl m = None then m\<lparr>m_impl := Some (ServiceVersion (Telemetry cfg))\<rparr> else m)"
  from assms obtain vus w1 bs w2 r enf w3 store w4 search w5 where *:
    "New (env_jsonpath env) vus (Naming cfg) (effectiveGroups cfg vus) = Inr r"
    "buildSearchState env (ToolSearch cfg) r (effectiveGroups cfg vus) w4 = (search, w5)"
    "m' = commitRebuild cfg vus r bs enf (newTokenCounter env cfg) store
            (case search of Inl e \<Rightarrow> (Map.empty, Map.empty, 0) | Inr s \<Rightarrow> s) m0"
    by (auto simp: Rebuild_def m0_def [symmetric] Let_def split: option.splits sum.splits prod.splits)
  obtain idxs tools limit where s: "(case search of Inl e \<Rightarrow> (Map.empty, Map.empty, 0) | Inr s \<Rightarrow> s) = (idxs, tools, limit)"
    by (metis prod_cases3)
  have "search_named tools"
  proof (cases search)
    case (Inl e)
    with s show ?thesis by (auto simp: search_named_def)
  next
    case (Inr t)
    with s *(2) show ?thesis using buildSearchState_named by simp
  qed
  with * s that [OF _ m0_def] show thesis by metis
qed

lemma commit_sel:
  "m_groups (commitRebuild cfg vus r bs enf ctr store (idxs, tools, limit) m) = effectiveGroups cfg vus"
  "m_registry (commitRebuild cfg vus r bs enf ctr store (idxs, tools, limit) m) = Some r"
  "m_servers (commitRebuild cfg vus r bs enf ctr store (idxs, tools, limit) m) =
     m_servers (applyRegistryLocked r (effectiveGroups cfg vus) (Some tools) m)"
  "m_namingCfg (commitRebuild cfg vus r bs enf ctr store (idxs, tools, limit) m) = Some (Naming cfg)"
  "m_upstreamByName (commitRebuild cfg vus r bs enf ctr store (idxs, tools, limit) m) = newUpstreamStates r vus"
  by (simp_all add: commitRebuild_def Let_def applyRegistryLocked_def)

lemma serves_impl:
  "serves_registry (if m_impl m = None then m\<lparr>m_impl := x\<rparr> else m) = serves_registry m"
  "m_servers (if m_impl m = None then m\<lparr>m_impl := x\<rparr> else m) = m_servers m"
  "m_groups (if m_impl m = None then m\<lparr>m_impl := x\<rparr> else m) = m_groups m"
  by (simp_all add: serves_registry_def)

lemma rebuild_served:
  assumes "served_inv m" "Rebuild env cfg m w = (None, m', w')" "endpoints_stable m m'"
  shows "served_inv m'"
  using assms(2)
proof (rule Rebuild_success)
  fix vus r bs enf ctr store idxs tools limit m0
  assume c: "m' = commitRebuild cfg vus r bs enf ctr store (idxs, tools, limit) m0"
    and m0: "m0 = (if m_impl m = None then m\<lparr>m_impl := Some (ServiceVersion (Telemetry cfg))\<rparr> else m)"
    and st: "search_named tools"
  let ?gs = "effectiveGroups cfg vus"
  note sel = commit_sel [of cfg vus r bs enf ctr store idxs tools limit m0, folded c]
  have s0: "serves_registry m0" using assms(1) by (simp add: m0 serves_impl served_inv_def)
  have d: "distinct (map Endpoint ?gs)" using assms(3) sel(1) by (simp add: endpoints_stable_def)
  have stab: "\<forall>g \<in> set ?gs. m_servers m0 (Endpoint g) = None \<or>
      (\<exists>g' \<in> set (m_groups m0). GroupConfig.Name g' = GroupConfig.Name g \<and> Endpoint g' = Endpoint g)"
    using assms(3) sel(1) by (simp add: endpoints_stable_def m0 serves_impl)
  have A: "\<exists>s. m_servers m' (Endpoint g) = Some s \<and> srv_tools s n = group_table r (GroupConfig.Name g) n"
    if "g \<in> set ?gs" "n \<noteq> searchToolName" for g n
    unfolding sel(3) by (rule apply_serves [OF s0 d _ stab that]) (simp add: st)
  have "serves_registry m'"
    unfolding serves_registry_def sel(1,2)
  proof (intro ballI)
    fix g assume g: "g \<in> set ?gs"
    obtain s where s: "m_servers m' (Endpoint g) = Some s"
      using A [OF g, of "[]"] by (auto simp: searchToolName_def)
    have "\<forall>n. n \<noteq> searchToolName \<longrightarrow> srv_tools s n = group_table r (GroupConfig.Name g) n"
      using A [OF g] s by fastforce
    with s show "\<exists>r' s. Some r = Some r' \<and> m_servers m' (Endpoint g) = Some s \<and>
        (\<forall>n. n \<noteq> searchToolName \<longrightarrow> srv_tools s n = group_table r' (GroupConfig.Name g) n)" by simp
  qed
  with d sel(1) show ?thesis by (simp add: served_inv_def)
qed

lemma reach_served: "manager_reach env m \<Longrightarrow> served_inv m"
proof (induction rule: manager_reach.induct)
  case (init pools)
  then show ?case by (simp add: served_inv_def serves_registry_def NewManager_def)
next
  case (oauth m st reg)
  then show ?case by (simp add: served_inv_def serves_registry_def SetOAuthConfig_def)
next
  case (rebuild m cfg w err m' w')
  show ?case
  proof (cases err)
    case None
    then show ?thesis
      using rebuild.hyps(2,3) rebuild_served [OF rebuild.IH, of env cfg w m' w'] by simp
  next
    case (Some e)
    from rebuild_fail_state [OF rebuild.hyps(2) [unfolded Some]] rebuild.IH
    show ?thesis by (auto simp: served_inv_def serves_registry_def)
  qed
next
  case (update m \<sigma> u es rt err m')
  then show ?case using update_served by blast
next
  case (remove m \<sigma> u)
  then show ?case using remove_served by blast
qed

section \<open>The refresh contract\<close>

text \<open>\<^verbatim>\<open>upstream.RegistryManager\<close>: what the background refresher relies on. \<^term>\<open>entries m u\<close> is what
  the registry in force serves for an upstream; the visiting order of one call is \<^term>\<open>\<sigma>\<close>.
  The laws hold while the manager is in step with its registry (\<^term>\<open>ok\<close>); a failed update ends that,
  which is why only a successful one promises to keep it.\<close>

locale registry_manager =
  fixes ok :: "'m \<Rightarrow> bool"
    and fair :: "'s \<Rightarrow> bool"
    and update :: "'s \<Rightarrow> string \<Rightarrow> 'e list \<times> 'n \<Rightarrow> 'm \<Rightarrow> bool \<times> 'm"
    and remove :: "'s \<Rightarrow> string \<Rightarrow> 'm \<Rightarrow> 'm"
    and entries :: "'m \<Rightarrow> string \<Rightarrow> 'e list"
  assumes update_done: "\<lbrakk>ok m; fair \<sigma>; update \<sigma> u (es, n) m = (True, m')\<rbrakk> \<Longrightarrow>
      ok m' \<and> entries m' = (entries m)(u := es)"
    and update_failed: "\<lbrakk>ok m; update \<sigma> u (es, n) m = (False, m')\<rbrakk> \<Longrightarrow> entries m' = entries m"
    and remove_done: "\<lbrakk>ok m; fair \<sigma>\<rbrakk> \<Longrightarrow>
      ok (remove \<sigma> u m) \<and> entries (remove \<sigma> u m) = (entries m)(u := [])"
begin

text \<open>A run of refresh results: new entries for an upstream, or its removal. The run stops at
  the first update that fails.\<close>

fun refresh_run :: "('s \<times> string \<times> ('e list \<times> 'n) option) list \<Rightarrow> 'm \<Rightarrow> 'm option" where
  "refresh_run [] m = Some m"
| "refresh_run ((\<sigma>, u, None) # ops) m = refresh_run ops (remove \<sigma> u m)"
| "refresh_run ((\<sigma>, u, Some en) # ops) m =
     (case update \<sigma> u en m of (True, m') \<Rightarrow> refresh_run ops m' | (False, m') \<Rightarrow> None)"

fun last_write :: "('s \<times> string \<times> ('e list \<times> 'n) option) list \<Rightarrow> (string \<Rightarrow> 'e list) \<Rightarrow> string \<Rightarrow> 'e list" where
  "last_write [] f = f"
| "last_write ((\<sigma>, u, None) # ops) f = last_write ops (f(u := []))"
| "last_write ((\<sigma>, u, Some (es, n)) # ops) f = last_write ops (f(u := es))"

lemma refresh_run_entries:
  "ok m \<Longrightarrow> \<forall>(\<sigma>, _, _) \<in> set ops. fair \<sigma> \<Longrightarrow> refresh_run ops m = Some m' \<Longrightarrow>
     ok m' \<and> entries m' = last_write ops (entries m)"
proof (induction ops m rule: refresh_run.induct)
  case (2 \<sigma> u ops m)
  then have "ok (remove \<sigma> u m)" and e: "entries (remove \<sigma> u m) = (entries m)(u := [])"
    using remove_done [of m \<sigma> u] by auto
  have "\<forall>(\<sigma>, _, _) \<in> set ops. fair \<sigma>" "refresh_run ops (remove \<sigma> u m) = Some m'"
    using "2.prems" by auto
  from "2.IH" [OF \<open>ok (remove \<sigma> u m)\<close> this] show ?case unfolding e by (simp only: last_write.simps)
next
  case (3 \<sigma> u en ops m)
  obtain es n where en: "en = (es, n)" by (cases en)
  from "3.prems"(3) obtain m1 where m1: "update \<sigma> u en m = (True, m1)" "refresh_run ops m1 = Some m'"
    by (auto split: prod.splits bool.splits)
  with update_done [of m \<sigma> u es n m1] "3.prems" en have "ok m1" and e: "entries m1 = (entries m)(u := es)" by auto
  have "\<forall>(\<sigma>, _, _) \<in> set ops. fair \<sigma>" using "3.prems" by auto
  from "3.IH" [OF m1(1) [symmetric] refl \<open>ok m1\<close> this m1(2)]
  show ?case unfolding e en by (simp only: last_write.simps)
qed simp

lemma refresh_other_upstream:
  assumes "ok m" "\<forall>(\<sigma>, _, _) \<in> set ops. fair \<sigma>" "refresh_run ops m = Some m'"
    and "\<forall>(_, u, _) \<in> set ops. u \<noteq> v"
  shows "entries m' v = entries m v"
proof -
  have "\<forall>(_, u, _) \<in> set os. u \<noteq> v \<Longrightarrow> last_write os f v = f v" for os f
    by (induction os f rule: last_write.induct) auto
  with refresh_run_entries [OF assms(1-3)] assms(4) show ?thesis by simp
qed

end

section \<open>The manager provides the refresh contract\<close>

definition state_entries :: "'w upstreamState gomap \<Rightarrow> string \<Rightarrow> 'w RegistryEntry list" where
  "state_entries ups u = (case map_of ups u of None \<Rightarrow> [] | Some st \<Rightarrow> us_entries st)"

definition visible_entries :: "'w Manager \<Rightarrow> string \<Rightarrow> 'w RegistryEntry list" where
  "visible_entries m u = (case m_registry m of None \<Rightarrow> [] | Some r \<Rightarrow> EntriesForUpstream r u)"

definition filters_compile :: "jsonpath_lib \<Rightarrow> GroupConfig list \<Rightarrow> bool" where
  "filters_compile jp gs \<longleftrightarrow> (\<exists>fs. compileFilters jp gs Map.empty = Inr fs)"

text \<open>The manager is in step with its registry: what it would rebuild from is consistent and is
  what the registry serves.\<close>

definition in_step :: "'w Env \<Rightarrow> 'w Manager \<Rightarrow> bool" where
  "in_step env m \<longleftrightarrow>
     m_namingCfg m \<noteq> None \<and> m_registry m \<noteq> None \<and> distinct (map fst (m_upstreamByName m)) \<and>
     distinct (entry_names (triple_entries (stateTriples id (m_upstreamByName m)))) \<and>
     filters_compile (env_jsonpath env) (m_groups m) \<and>
     visible_entries m = state_entries (m_upstreamByName m)"

lemma NewFromEntries_ok_iff:
  "(\<exists>r. NewFromEntries jp ups naming gs = Inr r) \<longleftrightarrow>
     distinct (entry_names (triple_entries ups)) \<and> filters_compile jp gs"
proof
  assume "\<exists>r. NewFromEntries jp ups naming gs = Inr r"
  then obtain r where r: "NewFromEntries jp ups naming gs = Inr r" ..
  from NewFromEntries_index(2) [OF r] r show "distinct (entry_names (triple_entries ups)) \<and> filters_compile jp gs"
    by (auto elim!: NewFromEntriesE simp: filters_compile_def)
next
  assume R: "distinct (entry_names (triple_entries ups)) \<and> filters_compile jp gs"
  let ?e = "(empty_registry naming)\<lparr>specRootByName := map_of (map (\<lambda>(up, es, rt). (up, rt)) ups)\<rparr>"
  from R obtain q where q: "fromUpstreams ups ?e = Inr q" using fromUpstreams_ok [of ups ?e] by auto
  from R obtain fs where f: "compileFilters jp gs Map.empty = Inr fs" by (auto simp: filters_compile_def)
  have "None \<notin> set (toolList q)" using fromUpstreams_effect [OF q] by auto
  then obtain r where "buildGroups fs ups gs q = Inr r" using buildGroups_ok_iff by metis
  with q f show "\<exists>r. NewFromEntries jp ups naming gs = Inr r" by (auto simp: NewFromEntries_def Let_def)
qed

lemma map_of_rev: "distinct (map fst xs) \<Longrightarrow> map_of (rev xs) = map_of xs"
proof
  fix k assume d: "distinct (map fst xs)"
  show "map_of (rev xs) k = map_of xs k"
  proof (cases "map_of xs k")
    case None
    then have "map_of (rev xs) k = None" by (simp add: map_of_eq_None_iff)
    with None show ?thesis by simp
  next
    case (Some v)
    then have "(k, v) \<in> set (rev xs)" by (simp add: map_of_SomeD)
    moreover have "distinct (map fst (rev xs))" using d by (metis distinct_rev rev_map)
    ultimately show ?thesis using Some by (simp add: map_of_is_SomeI)
  qed
qed

lemma NewFromEntries_upstream:
  assumes "NewFromEntries jp ups naming gs = Inr r" "distinct (map fst ups)"
  shows "EntriesForUpstream r u = (case map_of ups u of None \<Rightarrow> [] | Some (es, rt) \<Rightarrow> es)"
proof -
  from assms(1) obtain r0 fs where r0: "fromUpstreams ups ((empty_registry naming)
       \<lparr>specRootByName := map_of (map (\<lambda>(up, es, rt). (up, rt)) ups)\<rparr>) = Inr r0"
    and b: "buildGroups fs ups gs r0 = Inr r" by (rule NewFromEntriesE)
  let ?ps = "map (\<lambda>(up, es, rt). (up, es)) ups"
  have "distinct (map fst ?ps)" using assms(2) by (simp add: comp_def case_prod_unfold)
  then have "map_of (rev ?ps) = map_of ?ps" by (rule map_of_rev)
  then have "byUpstreamName r u = map_of ?ps u"
    using fromUpstreams_effect [OF r0] buildGroups_effect [OF b] by simp
  also have "\<dots> = map_option fst (map_of ups u)" by (induction ups) auto
  finally show ?thesis by (auto simp: EntriesForUpstream_def split: option.splits)
qed

lemma stateTriples_fst: "map fst (stateTriples \<sigma> ups) = map fst (\<sigma> ups)"
  by (simp add: stateTriples_def comp_def case_prod_unfold)

lemma stateTriples_mset: "permutes_range \<sigma> \<Longrightarrow> mset (stateTriples \<sigma> ups) = mset (stateTriples id ups)"
  by (simp add: stateTriples_def permutes_range_def)

lemma stateTriples_distinct:
  assumes "permutes_range \<sigma>"
  shows "distinct (entry_names (triple_entries (stateTriples \<sigma> ups))) =
    distinct (entry_names (triple_entries (stateTriples id ups)))"
  using triple_entries_mset [OF stateTriples_mset [OF assms, of ups]]
  by (metis mset_eq_imp_distinct_iff mset_map)

lemma permuted_map_of:
  assumes "permutes_range \<sigma>" "distinct (map fst ups)"
  shows "map_of (\<sigma> ups) = map_of ups" "distinct (map fst (\<sigma> ups))"
proof -
  have m: "mset (\<sigma> ups) = mset ups" using assms(1) by (simp add: permutes_range_def)
  then show d: "distinct (map fst (\<sigma> ups))" using assms(2) by (metis mset_eq_imp_distinct_iff mset_map)
  from m have s: "set (\<sigma> ups) = set ups" by (metis set_mset_mset)
  show "map_of (\<sigma> ups) = map_of ups"
  proof (rule ext)
    fix k show "map_of (\<sigma> ups) k = map_of ups k"
    proof (cases "map_of ups k")
      case None
      then have "map_of (\<sigma> ups) k = None" using s by (simp add: map_of_eq_None_iff)
      with None show ?thesis by simp
    next
      case (Some v)
      then have "(k, v) \<in> set (\<sigma> ups)" using s by (simp add: map_of_SomeD)
      with d Some show ?thesis by (simp add: map_of_is_SomeI)
    qed
  qed
qed

lemma visible_after:
  assumes "NewFromEntries jp (stateTriples \<sigma> ups) naming gs = Inr r"
    and "permutes_range \<sigma>" "distinct (map fst ups)"
  shows "EntriesForUpstream r = state_entries ups"
proof (rule ext)
  fix u
  have "distinct (map fst (stateTriples \<sigma> ups))"
    using permuted_map_of(2) [OF assms(2,3)] by (simp only: stateTriples_fst)
  from NewFromEntries_upstream [OF assms(1) this, of u]
  have "EntriesForUpstream r u = (case map_of (stateTriples \<sigma> ups) u of None \<Rightarrow> [] | Some (es, rt) \<Rightarrow> es)" .
  also have "map_of (stateTriples \<sigma> ups) u =
      map_option (\<lambda>st. (us_entries st, us_specYAMLRoot st)) (map_of (\<sigma> ups) u)"
    by (simp add: stateTriples_def map_of_map_snd)
  finally show "EntriesForUpstream r u = state_entries ups u"
    by (simp add: permuted_map_of(1) [OF assms(2,3)] state_entries_def split: option.splits)
qed

text \<open>A rebuild from consistent states succeeds and leaves the manager in step.\<close>

lemma rebuildFromState_in_step:
  assumes "rebuildFromStateLocked env \<sigma> naming m = (None, m')" "permutes_range \<sigma>"
    and "m_namingCfg m = Some naming" "distinct (map fst (m_upstreamByName m))"
  shows "in_step env m' \<and> visible_entries m' = state_entries (m_upstreamByName m) \<and>
    m_upstreamByName m' = m_upstreamByName m"
  using assms(1)
proof (cases rule: rebuildFromState_cases)
  case (applied r)
  from applied(3) NewFromEntries_ok_iff
  have ok: "distinct (entry_names (triple_entries (stateTriples \<sigma> (m_upstreamByName m))))"
    "filters_compile (env_jsonpath env) (m_groups m)" by blast+
  have "EntriesForUpstream r = state_entries (m_upstreamByName m)"
    by (rule visible_after [OF applied(3) assms(2,4)])
  then show ?thesis
    using applied(2) ok assms stateTriples_distinct [OF assms(2), of "m_upstreamByName m"]
    by (simp add: in_step_def visible_entries_def fun_eq_iff)
qed simp

lemma rebuildFromState_succeeds:
  assumes "permutes_range \<sigma>" "distinct (entry_names (triple_entries (stateTriples id (m_upstreamByName m))))"
    and "filters_compile (env_jsonpath env) (m_groups m)"
  shows "fst (rebuildFromStateLocked env \<sigma> naming m) = None"
proof -
  from assms NewFromEntries_ok_iff [of "env_jsonpath env" "stateTriples \<sigma> (m_upstreamByName m)" naming "m_groups m"]
  obtain r where "NewFromEntries (env_jsonpath env) (stateTriples \<sigma> (m_upstreamByName m)) naming (m_groups m) = Inr r"
    using stateTriples_distinct [OF assms(1), of "m_upstreamByName m"] by blast
  then show ?thesis by (simp add: rebuildFromStateLocked_def)
qed

definition update_step ::
    "'w Env \<Rightarrow> ('w upstreamState gomap \<Rightarrow> 'w upstreamState gomap) \<Rightarrow> string \<Rightarrow>
     'w RegistryEntry list \<times> node option \<Rightarrow> 'w Manager \<Rightarrow> bool \<times> 'w Manager" where
  "update_step env \<sigma> u en m =
     (let (err, m') = UpdateUpstream env \<sigma> u (fst en) (snd en) m in (err = None, m'))"

lemma state_entries_update:
  "state_entries (AList.update u st ups) = (state_entries ups)(u := us_entries st)"
  by (simp add: state_entries_def fun_eq_iff update_conv)

lemma state_entries_delete: "state_entries (AList.delete u ups) = (state_entries ups)(u := [])"
  by (simp add: state_entries_def fun_eq_iff delete_conv)

lemma update_step_done:
  assumes "in_step env m" "permutes_range \<sigma>" "update_step env \<sigma> u (es, n) m = (True, m')"
  shows "in_step env m' \<and> visible_entries m' = (visible_entries m)(u := es)"
proof -
  from assms(1) obtain naming where nm: "m_namingCfg m = Some naming"
    and d: "distinct (map fst (m_upstreamByName m))" and v: "visible_entries m = state_entries (m_upstreamByName m)"
    by (auto simp: in_step_def)
  let ?m = "m\<lparr>m_upstreamByName := AList.update u \<lparr>us_entries = es, us_specYAMLRoot = n\<rparr> (m_upstreamByName m)\<rparr>"
  from assms(3) nm have r: "rebuildFromStateLocked env \<sigma> naming ?m = (None, m')"
    by (auto simp: update_step_def UpdateUpstream_def split: prod.splits)
  from rebuildFromState_in_step [OF r assms(2)] nm d
  show ?thesis unfolding v by (simp add: distinct_update state_entries_update)
qed

lemma update_step_failed:
  assumes "update_step env \<sigma> u en m = (False, m')"
  shows "m_registry m' = m_registry m \<and> m_servers m' = m_servers m \<and> visible_entries m' = visible_entries m"
proof (cases "m_namingCfg m")
  case None
  with assms show ?thesis by (auto simp: update_step_def UpdateUpstream_def)
next
  case (Some naming)
  obtain err m1 where r: "rebuildFromStateLocked env \<sigma> naming (m\<lparr>m_upstreamByName :=
      AList.update u \<lparr>us_entries = fst en, us_specYAMLRoot = snd en\<rparr> (m_upstreamByName m)\<rparr>) = (err, m1)" by fastforce
  with Some assms have e: "err \<noteq> None" "m' = m1" by (auto simp: update_step_def UpdateUpstream_def)
  from r e(1) have "m1 = m\<lparr>m_upstreamByName :=
      AList.update u \<lparr>us_entries = fst en, us_specYAMLRoot = snd en\<rparr> (m_upstreamByName m)\<rparr>"
    by (auto elim: rebuildFromState_cases)
  with e(2) show ?thesis by (simp add: visible_entries_def fun_eq_iff)
qed

lemma delete_triples:
  "subseq (triple_entries (stateTriples id (AList.delete u ups))) (triple_entries (stateTriples id ups))"
proof (induction ups)
  case (Cons p ups)
  obtain k st where "p = (k, st)" by (cases p)
  with Cons show ?case
    by (auto simp: stateTriples_def intro: list_emb_append_mono list_emb_append2)
qed (simp add: stateTriples_def)

lemma subseq_keeps_distinct: "subseq xs ys \<Longrightarrow> distinct ys \<Longrightarrow> distinct xs"
  by (induction rule: list_emb.induct) (auto dest: list_emb_set)

lemma remove_step_done:
  assumes "in_step env m" "permutes_range \<sigma>"
  shows "in_step env (RemoveUpstream env \<sigma> u m) \<and>
    visible_entries (RemoveUpstream env \<sigma> u m) = (visible_entries m)(u := []) \<and>
    map_of (m_upstreamByName (RemoveUpstream env \<sigma> u m)) u = None"
proof -
  from assms(1) obtain naming where nm: "m_namingCfg m = Some naming"
    and d: "distinct (map fst (m_upstreamByName m))" and v: "visible_entries m = state_entries (m_upstreamByName m)"
    and dn: "distinct (entry_names (triple_entries (stateTriples id (m_upstreamByName m))))"
    and f: "filters_compile (env_jsonpath env) (m_groups m)"
    by (auto simp: in_step_def)
  let ?m = "m\<lparr>m_upstreamByName := AList.delete u (m_upstreamByName m)\<rparr>"
  have "subseq (entry_names (triple_entries (stateTriples id (AList.delete u (m_upstreamByName m)))))
      (entry_names (triple_entries (stateTriples id (m_upstreamByName m))))"
    by (rule subseq_map [OF delete_triples])
  then have "distinct (entry_names (triple_entries (stateTriples id (AList.delete u (m_upstreamByName m)))))"
    using dn by (rule subseq_keeps_distinct)
  then have "fst (rebuildFromStateLocked env \<sigma> naming ?m) = None"
    using f by (intro rebuildFromState_succeeds [OF assms(2)]) simp_all
  then obtain m' where r: "rebuildFromStateLocked env \<sigma> naming ?m = (None, m')" by (metis prod.collapse)
  with nm have e: "RemoveUpstream env \<sigma> u m = m'" by (simp add: RemoveUpstream_def Let_def)
  from rebuildFromState_in_step [OF r assms(2)] nm d
  show ?thesis unfolding v e by (simp add: distinct_delete state_entries_delete delete_conv)
qed

interpretation refresh: registry_manager "in_step env" permutes_range "update_step env"
  "RemoveUpstream env" visible_entries for env :: "'w Env"
proof (unfold_locales, goal_cases)
  case (1 m \<sigma> u es n m')
  then show ?case by (rule update_step_done)
next
  case (2 m \<sigma> u es n m')
  then show ?case using update_step_failed by blast
next
  case (3 m \<sigma> u)
  then show ?case using remove_step_done by blast
qed

section \<open>A successful rebuild puts the manager in step\<close>

lemma newEntries_EFU:
  assumes "newEntries up es r = Inr r'"
  shows "EntriesForUpstream r' n = EntriesForUpstream r n @ (if n = up then es else [])"
  using newEntries_effect(6) [OF assms] by (auto simp: EntriesForUpstream_def split: option.splits)

lemma newUpstreams_EFU:
  "newUpstreams ups r = Inr r' \<Longrightarrow> EntriesForUpstream r' n =
     EntriesForUpstream r n @ concat (map Entries (filter (\<lambda>vu. vu_name vu = n) ups))"
proof (induction ups arbitrary: r)
  case (Cons vu ups)
  let ?r = "r\<lparr>specRootByName := (specRootByName r)(vu_name vu \<mapsto> SpecYAMLRoot vu)\<rparr>"
  from Cons.prems obtain q where q: "newEntries (vu_name vu) (Entries vu) ?r = Inr q"
    and s: "newUpstreams ups q = Inr r'" by (auto simp: Let_def split: sum.splits)
  have "EntriesForUpstream ?r n = EntriesForUpstream r n" by (simp add: EntriesForUpstream_def)
  with Cons.IH [OF s] newEntries_EFU [OF q, of n] show ?case by simp
qed simp

lemma New_EFU:
  assumes "New jp ups naming gs = Inr r"
  shows "EntriesForUpstream r n = concat (map Entries (filter (\<lambda>vu. vu_name vu = n) ups))"
proof -
  from assms obtain r0 fs where r0: "newUpstreams ups (empty_registry naming) = Inr r0"
    and b: "buildGroups fs (map vu_triple ups) gs r0 = Inr r" by (rule NewE)
  from newUpstreams_EFU [OF r0, of n] buildGroups_effect [OF b] show ?thesis
    by (simp add: EntriesForUpstream_def)
qed

lemma filter_partition_mset:
  "distinct ns \<Longrightarrow> mset (concat (map (\<lambda>n. concat (map f (filter (\<lambda>x. g x = n) xs))) ns)) =
     mset (concat (map f (filter (\<lambda>x. g x \<in> set ns) xs)))"
proof (induction ns)
  case (Cons n ns)
  have "mset (concat (map f (filter (\<lambda>x. g x \<in> set (n # ns)) xs))) =
      mset (concat (map f (filter (\<lambda>x. g x = n) xs))) + mset (concat (map f (filter (\<lambda>x. g x \<in> set ns) xs)))"
    using Cons.prems by (induction xs) auto
  with Cons show ?case by simp
qed simp

lemma newUpstreamStates_fold:
  "map_of (fold (\<lambda>vu. AList.update (vu_name vu) (f vu)) vus ups) n =
     (case find (\<lambda>vu. vu_name vu = n) (rev vus) of None \<Rightarrow> map_of ups n | Some vu \<Rightarrow> Some (f vu))"
  by (induction vus arbitrary: ups) (auto simp: find_snoc update_conv split: option.splits)

lemma fold_update_keys:
  "distinct (map fst ups) \<Longrightarrow> distinct (map fst (fold (\<lambda>vu. AList.update (vu_name vu) (f vu)) vus ups)) \<and>
     fst ` set (fold (\<lambda>vu. AList.update (vu_name vu) (f vu)) vus ups) = fst ` set ups \<union> vu_name ` set vus"
proof (induction vus arbitrary: ups)
  case (Cons vu vus)
  have "distinct (map fst (AList.update (vu_name vu) (f vu) ups))" using Cons.prems by (rule distinct_update)
  from Cons.IH [OF this] show ?case by (auto simp: dom_update)
qed simp

lemma newUpstreamStates_lookup:
  "map_of (newUpstreamStates r vus) n =
     (if n \<in> vu_name ` set vus
      then Some \<lparr>us_entries = EntriesForUpstream r n, us_specYAMLRoot = SpecRootForUpstream r n\<rparr> else None)"
proof (cases "find (\<lambda>vu. vu_name vu = n) (rev vus)")
  case None
  then have "n \<notin> vu_name ` set vus" by (auto simp: find_None_iff)
  then show ?thesis by (simp add: newUpstreamStates_def newUpstreamStates_fold None)
next
  case (Some vu)
  with find_SomeD [OF Some] show ?thesis
    by (auto simp: newUpstreamStates_def newUpstreamStates_fold)
qed

lemma newUpstreamStates_keys:
  "distinct (map fst (newUpstreamStates r vus))" "fst ` set (newUpstreamStates r vus) = vu_name ` set vus"
  using fold_update_keys [of "[]" "\<lambda>vu. \<lparr>us_entries = EntriesForUpstream r (vu_name vu),
      us_specYAMLRoot = SpecRootForUpstream r (vu_name vu)\<rparr>" vus]
  unfolding newUpstreamStates_def by simp_all

lemma newUpstreamStates_entries:
  assumes "New jp vus naming gs = Inr r"
  shows "mset (triple_entries (stateTriples id (newUpstreamStates r vus))) = mset (all_entries vus)"
    "state_entries (newUpstreamStates r vus) = EntriesForUpstream r"
proof -
  let ?s = "newUpstreamStates r vus"
  have e: "us_entries st = EntriesForUpstream r n" if "(n, st) \<in> set ?s" for n st
    using map_of_is_SomeI [OF newUpstreamStates_keys(1) that] newUpstreamStates_lookup [of r vus n]
    by (auto split: if_splits)
  have "triple_entries (stateTriples id ?s) = concat (map (\<lambda>(n, st). us_entries st) ?s)"
    by (simp add: stateTriples_def comp_def case_prod_unfold)
  also have "map (\<lambda>(n, st). us_entries st) ?s = map (\<lambda>n. EntriesForUpstream r n) (map fst ?s)"
    using e by auto
  also have "\<dots> = map (\<lambda>n. concat (map Entries (filter (\<lambda>vu. vu_name vu = n) vus))) (map fst ?s)"
    using New_EFU [OF assms] by simp
  finally have "mset (triple_entries (stateTriples id ?s)) =
      mset (concat (map Entries (filter (\<lambda>vu. vu_name vu \<in> set (map fst ?s)) vus)))"
    using filter_partition_mset [OF newUpstreamStates_keys(1), of Entries vu_name vus r vus] by metis
  moreover have "filter (\<lambda>vu. vu_name vu \<in> set (map fst ?s)) vus = vus"
    by (rule filter_True) (simp add: newUpstreamStates_keys(2))
  ultimately show "mset (triple_entries (stateTriples id ?s)) = mset (all_entries vus)" by simp
  have "EntriesForUpstream r n = []" if "n \<notin> vu_name ` set vus" for n
  proof -
    have "filter (\<lambda>vu. vu_name vu = n) vus = []" using that by (auto simp: filter_empty_conv)
    then show ?thesis by (simp add: New_EFU [OF assms])
  qed
  then show "state_entries ?s = EntriesForUpstream r"
    by (auto simp: fun_eq_iff state_entries_def newUpstreamStates_lookup)
qed

lemma rebuild_in_step_lemma:
  assumes "Rebuild env cfg m w = (None, m', w')"
  shows "in_step env m'"
  using assms
proof (rule Rebuild_success)
  fix vus r bs enf ctr store idxs tools limit m0
  assume c: "m' = commitRebuild cfg vus r bs enf ctr store (idxs, tools, limit) m0"
    and N: "New (env_jsonpath env) vus (Naming cfg) (effectiveGroups cfg vus) = Inr r"
  note sel = commit_sel [of cfg vus r bs enf ctr store idxs tools limit m0, folded c]
  have "distinct (entry_names (triple_entries (stateTriples id (newUpstreamStates r vus))))"
    using newUpstreamStates_entries(1) [OF N] New_index(2) [OF N] by (metis mset_eq_imp_distinct_iff mset_map)
  moreover have "filters_compile (env_jsonpath env) (effectiveGroups cfg vus)"
    using N by (auto elim: NewE simp: filters_compile_def)
  moreover have "visible_entries m' = EntriesForUpstream r"
    by (simp add: fun_eq_iff visible_entries_def sel)
  ultimately show "in_step env m'"
    using newUpstreamStates_keys(1) newUpstreamStates_entries(2) [OF N] by (simp add: in_step_def sel)
qed

end
