(* ===== verification/ManagerLaws.thy ===== *)
theory ManagerLaws
  imports ManagerProps
begin

text \<open>
  The properties of the manager: rebuilds and refreshes against the servers and the registry,
  the liveness of the listed tools, the dispatch through the cache, and three behaviours of the
  code that differ from its comments (a failed update that stays, a renamed group, a cached
  result served across groups). The concrete environment the witnesses use comes first.
\<close>

section \<open>A concrete environment\<close>

definition sample_builder :: "'w builder" where
  "sample_builder cfg naming w =
     (Inr (sample_upstream (UpstreamConfig.Name cfg)
        [sample_entry 1 (UpstreamConfig.Name cfg) (UpstreamConfig.Name cfg @ ''__x'') None] None), w)"

definition sample_env :: "'w Env" where
  "sample_env =
     \<lparr>env_jsonpath = sample_jsonpath, env_builders = [''http'' \<mapsto> sample_builder],
      env_setBreaker = (\<lambda>p b w. w), env_limiters = Map.empty, env_stores = Map.empty,
      env_embedding = (\<lambda>c w. (Inl (ErrText ''none''), w)), env_tokenizer = (\<lambda>s. Inr s),
      env_num = one_num, env_sha = id\<rparr>"

definition sample_upcfg :: "string \<Rightarrow> UpstreamConfig" where
  "sample_upcfg n = zeroUpstreamConfig\<lparr>UpstreamConfig.Name := n, UpstreamConfig.Enabled := True,
     UpstreamConfig.ToolPrefix := n, UpstreamConfig.Type := ''http''\<rparr>"

definition sample_config :: "string list \<Rightarrow> ProxyConfig" where
  "sample_config ns = zeroProxyConfig\<lparr>ProxyConfig.Upstreams := map sample_upcfg ns\<rparr>"

text \<open>The manager after loading two upstreams, one tool each.\<close>

definition sample_manager :: "unit Manager" where
  "sample_manager = fst (snd (Rebuild sample_env (sample_config [''a'', ''b'']) (NewManager None) ()))"

lemma sample_rebuild:
  "Rebuild sample_env (sample_config [''a'', ''b'']) (NewManager None) () = (None, sample_manager, ())"
proof -
  have "fst (Rebuild sample_env (sample_config [''a'', ''b'']) (NewManager None) ()) = None" by code_simp
  then show ?thesis by (simp add: sample_manager_def prod_eq_iff)
qed

lemma sample_manager_groups:
  "m_groups sample_manager =
     [\<lparr>GroupConfig.Name = ''default'', Endpoint = ''/mcp'', GroupConfig.Upstreams = [''a'', ''b''], Filter = []\<rparr>]"
  by code_simp

lemma sample_manager_state:
  "m_namingCfg sample_manager = Some zeroNamingConfig" "map fst (m_upstreamByName sample_manager) = [''a'', ''b'']"
  "map (map RegistryEntry.PrefixedName \<circ> us_entries \<circ> snd) (m_upstreamByName sample_manager) = [[''a__x''], [''b__x'']]"
  by code_simp+

lemma sample_manager_stable: "endpoints_stable (NewManager None) sample_manager"
  by (simp add: endpoints_stable_def sample_manager_groups NewManager_def)

lemma sample_reach: "manager_reach sample_env sample_manager"
  by (rule manager_reach.rebuild [OF manager_reach.init sample_rebuild]) (simp add: sample_manager_stable)

lemma sample_in_step: "in_step sample_env sample_manager"
  by (rule rebuild_in_step_lemma [OF sample_rebuild])

section \<open>Rebuilds and refreshes\<close>

text \<open>C17: a rebuild that fails, at whatever step, leaves the servers, the registry and every
  other part of the manager as they were; only the implementation version may get its initial value.\<close>

theorem rebuild_failure_keeps_state:
  assumes "Rebuild env cfg m w = (Some e, m', w')"
  shows "m'\<lparr>m_impl := m_impl m\<rparr> = m \<and> (m_impl m \<noteq> None \<longrightarrow> m' = m)"
  using rebuild_fail_state [OF assms] by simp_all

lemma rebuild_failure_keeps_state_witness:
  "\<exists>e m'. Rebuild sample_env (sample_config [''a'', ''a'']) sample_manager () = (Some e, m', ()) \<and>
     m' = sample_manager \<and> m_servers m' ''/mcp'' \<noteq> None"
proof -
  have "fst (Rebuild sample_env (sample_config [''a'', ''a'']) sample_manager ()) \<noteq> None \<and>
      m_impl sample_manager \<noteq> None \<and> m_servers sample_manager ''/mcp'' \<noteq> None"
    by code_simp
  then obtain e m' where r: "Rebuild sample_env (sample_config [''a'', ''a'']) sample_manager () = (Some e, m', ())"
    and i: "m_impl sample_manager \<noteq> None" and s: "m_servers sample_manager ''/mcp'' \<noteq> None"
    by (cases "Rebuild sample_env (sample_config [''a'', ''a'']) sample_manager ()") auto
  with rebuild_failure_keeps_state [OF r] show ?thesis by simp
qed



lemma rebuild_wf:
  assumes "Rebuild env cfg m w = (None, m', w')"
  shows "\<exists>r. m_registry m' = Some r \<and> registry_wf r"
  using assms by (rule Rebuild_success) (auto simp: commit_sel intro: New_wf)

definition has_wf_registry :: "'w Manager \<Rightarrow> bool" where
  "has_wf_registry m \<longleftrightarrow> (\<forall>r. m_registry m = Some r \<longrightarrow> registry_wf r)"

lemma has_wf_update: "has_wf_registry (m\<lparr>m_upstreamByName := x\<rparr>) = has_wf_registry m"
  by (simp add: has_wf_registry_def)

lemma rebuildFromState_wf:
  assumes "rebuildFromStateLocked env \<sigma> naming m = (err, m')" "has_wf_registry m"
  shows "has_wf_registry m'"
  using assms(1) by (cases rule: rebuildFromState_cases) (use assms(2) NewFromEntries_wf in \<open>auto simp: has_wf_registry_def\<close>)

lemma reach_wf: "manager_reach env m \<Longrightarrow> has_wf_registry m"
proof (induction rule: manager_reach.induct)
  case (init pools)
  then show ?case by (simp add: has_wf_registry_def NewManager_def)
next
  case (oauth m st reg)
  then show ?case by (simp add: has_wf_registry_def SetOAuthConfig_def)
next
  case (rebuild m cfg w err m' w')
  show ?case
  proof (cases err)
    case None
    from rebuild_wf [OF rebuild.hyps(2) [unfolded None]] show ?thesis by (auto simp: has_wf_registry_def)
  next
    case (Some e)
    from rebuild_fail_state [OF rebuild.hyps(2) [unfolded Some]] rebuild.IH
    show ?thesis by (auto simp: has_wf_registry_def)
  qed
next
  case (update m \<sigma> u es rt err m')
  show ?case
  proof (cases "m_namingCfg m")
    case (Some naming)
    with update.hyps(2) have r: "rebuildFromStateLocked env \<sigma> naming (m\<lparr>m_upstreamByName :=
      AList.update u \<lparr>us_entries = es, us_specYAMLRoot = rt\<rparr> (m_upstreamByName m)\<rparr>) = (err, m')"
      by (simp add: UpdateUpstream_def)
    from rebuildFromState_wf [OF r] update.IH show ?thesis by (simp only: has_wf_update)
  qed (use update in \<open>simp add: UpdateUpstream_def\<close>)
next
  case (remove m \<sigma> u)
  show ?case
  proof (cases "m_namingCfg m")
    case (Some naming)
    obtain err m2 where r: "rebuildFromStateLocked env \<sigma> naming
        (m\<lparr>m_upstreamByName := AList.delete u (m_upstreamByName m)\<rparr>) = (err, m2)" by fastforce
    from rebuildFromState_wf [OF r] remove.IH have "has_wf_registry m2" by (simp only: has_wf_update)
    with Some r show ?thesis by (auto simp: RemoveUpstream_def Let_def has_wf_update split: option.splits)
  qed (use remove in \<open>simp add: RemoveUpstream_def\<close>)
qed

lemma reach_group_table:
  assumes "manager_reach env m" and "g \<in> set (m_groups m)" and "n \<noteq> searchToolName"
  obtains r s where "m_registry m = Some r" "m_servers m (Endpoint g) = Some s"
    "srv_tools s n = group_table r (GroupConfig.Name g) n" "registry_wf r"
  using reach_served [OF assms(1)] reach_wf [OF assms(1)] assms(2,3)
  by (auto simp: served_inv_def serves_registry_def has_wf_registry_def)

lemma group_table_Some:
  assumes "group_table r g n = Some (t, h)" "registry_wf r"
  shows "Tool.Name t = n \<and> h = CallHandler g (toolRateLimit r n) \<and>
    (\<exists>gd. groups r g = Some gd \<and> n \<in> set (gd_toolSet gd))"
proof -
  from map_of_SomeD [OF assms(1) [unfolded group_table_def]]
  have t: "t \<in> set (ToolsForGroup r g)" "Tool.Name t = n" "h = CallHandler g (toolRateLimit r n)" by auto
  from t(1) obtain gd where "groups r g = Some gd" "t \<in> set (gd_toolList gd)"
    by (cases "groups r g") (simp_all add: ToolsForGroup_def)
  with t assms(2) show ?thesis unfolding registry_wf_def by blast
qed



text \<open>C3: after a successful rebuild, any sequence of successful refreshes and removals, each
  visiting the upstreams in any order, leaves the registry serving for every upstream the
  entries of its last refresh (none when it was removed, the rebuilt ones when it had none).\<close>

theorem refreshes_are_last_write:
  assumes "Rebuild env cfg m0 w = (None, m, w')"
    and "\<forall>(\<sigma>, _, _) \<in> set ops. permutes_range \<sigma>"
    and "refresh.refresh_run env ops m = Some m'"
  shows "visible_entries m' = refresh.last_write ops (visible_entries m)"
  using refresh.refresh_run_entries [OF rebuild_in_step_lemma [OF assms(1)] assms(2,3)] by simp

lemma refreshes_are_last_write_witness:
  "\<exists>m'. refresh.refresh_run sample_env
       [(rev, ''a'', Some ([sample_entry 3 ''a'' ''a__new'' None], None)), (id, ''b'', None)] sample_manager = Some m' \<and>
     map RegistryEntry.PrefixedName (visible_entries m' ''a'') = [''a__new''] \<and> visible_entries m' ''b'' = []"
proof -
  let ?ops = "[(rev, ''a'', Some ([sample_entry 3 ''a'' ''a__new'' None], None)), (id, ''b'', None)]"
  have "fst (update_step sample_env rev ''a'' ([sample_entry 3 ''a'' ''a__new'' None], None) sample_manager)"
    by code_simp
  then obtain m' where m': "refresh.refresh_run sample_env ?ops sample_manager = Some m'"
    by (cases "update_step sample_env rev ''a'' ([sample_entry 3 ''a'' ''a__new'' None], None) sample_manager") auto
  from refreshes_are_last_write [OF sample_rebuild _ m'] m' show ?thesis
    by (simp add: permutes_range_def sample_entry_def)
qed

text \<open>While the manager is in step with its registry, removing an upstream cannot fail:
  its tools are gone from the registry and the other upstreams keep theirs.\<close>

theorem remove_upstream_removes:
  assumes "in_step env m" and "permutes_range \<sigma>"
  shows "visible_entries (RemoveUpstream env \<sigma> u m) = (visible_entries m)(u := []) \<and>
    in_step env (RemoveUpstream env \<sigma> u m)"
  using remove_step_done [OF assms, of u] by simp_all


lemma remove_upstream_removes_witness:
  "visible_entries (RemoveUpstream sample_env rev ''a'' sample_manager) ''a'' = [] \<and>
   visible_entries (RemoveUpstream sample_env rev ''a'' sample_manager) ''b'' \<noteq> []"
proof -
  have "visible_entries sample_manager ''b'' \<noteq> []" by code_simp
  with remove_upstream_removes [OF sample_in_step, of rev "''a''"] show ?thesis
    by (simp add: permutes_range_def)
qed

section \<open>A failed update is kept\<close>

lemma duplicate_state_fails:
  assumes "map_of (m_upstreamByName m) u = Some st" and "\<not> distinct (entry_names (us_entries st))"
    and "permutes_range \<sigma>"
  shows "\<exists>e. rebuildFromStateLocked env \<sigma> naming m = (Some e, m)"
proof -
  from split_list [OF map_of_SomeD [OF assms(1)]]
  obtain xs ys where "m_upstreamByName m = xs @ (u, st) # ys" by blast
  then have "\<not> distinct (entry_names (triple_entries (stateTriples id (m_upstreamByName m))))"
    using assms(2) by (simp add: stateTriples_def)
  then have "\<not> (\<exists>r. NewFromEntries (env_jsonpath env) (stateTriples \<sigma> (m_upstreamByName m)) naming (m_groups m) = Inr r)"
    unfolding NewFromEntries_ok_iff stateTriples_distinct [OF assms(3)] by simp
  then show ?thesis by (auto simp: rebuildFromStateLocked_def split: sum.splits)
qed

text \<open>An update whose new entries repeat a tool name fails, and because its entries stay in
  the manager's state every later update of any other upstream fails and every later removal of
  any other upstream is without effect, until that upstream itself is updated or removed.\<close>

theorem failed_update_blocks_others:
  assumes "m_namingCfg m = Some naming" and "\<not> distinct (entry_names es)"
    and "UpdateUpstream env \<sigma> u es rt m = (err, m1)" and "permutes_range \<sigma>"
    and "v \<noteq> u" and "permutes_range \<sigma>'"
  shows "err \<noteq> None \<and> fst (UpdateUpstream env \<sigma>' v es' rt' m1) \<noteq> None \<and>
    visible_entries (RemoveUpstream env \<sigma>' v m1) = visible_entries m1"
proof -
  let ?st = "\<lparr>us_entries = es, us_specYAMLRoot = rt\<rparr>"
  let ?ups = "AList.update u ?st (m_upstreamByName m)"
  have "map_of (m_upstreamByName (m\<lparr>m_upstreamByName := ?ups\<rparr>)) u = Some ?st" by (simp add: update_conv)
  from duplicate_state_fails [OF this _ assms(4), of env naming] assms(1-3)
  have e: "err \<noteq> None" and m1: "m1 = m\<lparr>m_upstreamByName := ?ups\<rparr>" by (auto simp: UpdateUpstream_def)
  have fails: "\<exists>x. rebuildFromStateLocked env \<sigma>' naming (m1\<lparr>m_upstreamByName := ups\<rparr>) =
      (Some x, m1\<lparr>m_upstreamByName := ups\<rparr>)" if "map_of ups u = Some ?st" for ups
    by (rule duplicate_state_fails [OF _ _ assms(6), where st = ?st and u = u]) (use that assms(2) in simp_all)
  have "map_of (AList.update v \<lparr>us_entries = es', us_specYAMLRoot = rt'\<rparr> ?ups) u = Some ?st"
    "map_of (AList.delete v ?ups) u = Some ?st"
    using assms(5) by (simp_all add: update_conv delete_conv)
  from this [THEN fails] m1 assms(1) e show ?thesis
    by (auto simp: UpdateUpstream_def RemoveUpstream_def Let_def visible_entries_def fun_eq_iff split: option.splits)
qed

lemma failed_update_blocks_others_witness:
  "\<exists>err m1. UpdateUpstream sample_env id ''a'' [sample_entry 1 ''a'' ''t'' None, sample_entry 1 ''a'' ''t'' None] None
        sample_manager = (err, m1) \<and> err \<noteq> None \<and>
     fst (UpdateUpstream sample_env id ''b'' [] None m1) \<noteq> None"
proof -
  obtain err m1 where u: "UpdateUpstream sample_env id ''a''
      [sample_entry 1 ''a'' ''t'' None, sample_entry 1 ''a'' ''t'' None] None sample_manager = (err, m1)" by fastforce
  from failed_update_blocks_others [OF sample_manager_state(1) _ u, of "''b''" id "[]" None] u show ?thesis
    by (simp add: permutes_range_def sample_entry_def)
qed

section \<open>A group that takes over an endpoint\<close>

text \<open>When a reload gives an endpoint to a group of another name, the tools the previous
  group had there are not removed: a tool the server offered before, and that the previous
  registry did not have under the new group's name, is still offered after.\<close>

theorem renamed_group_keeps_stale_tools:
  assumes "Rebuild env cfg m w = (None, m', w')" and "distinct (map Endpoint (m_groups m'))"
    and "g \<in> set (m_groups m')" and "m_servers m (Endpoint g) = Some s" and "srv_tools s n = Some x"
    and "n \<noteq> searchToolName" and "n \<notin> set (groupToolNames (m_registry m) (GroupConfig.Name g))"
  shows "\<exists>s'. m_servers m' (Endpoint g) = Some s' \<and> srv_tools s' n \<noteq> None"
  using assms(1)
proof (rule Rebuild_success)
  fix vus r bs enf ctr store idxs tools limit m0
  assume c: "m' = commitRebuild cfg vus r bs enf ctr store (idxs, tools, limit) m0"
    and m0: "m0 = (if m_impl m = None then m\<lparr>m_impl := Some (ServiceVersion (Telemetry cfg))\<rparr> else m)"
    and st: "search_named tools"
  note sel = commit_sel [of cfg vus r bs enf ctr store idxs tools limit m0, folded c]
  have same: "m_servers m0 = m_servers m" "m_registry m0 = m_registry m" by (simp_all add: m0)
  have "case Some tools of None \<Rightarrow> True | Some st \<Rightarrow> search_named st" using st by simp
  from fold_applyGroup_tools [OF assms(2) [unfolded sel(1)] assms(3) [unfolded sel(1)] this assms(6),
      of "m_registry m0" "m_searchTools m0" r "m_servers m0"]
  obtain s' where s': "m_servers m' (Endpoint g) = Some s'"
    "srv_tools s' n = served (m_registry m0) r g (old_server (m_servers m0) (Endpoint g)) n"
    unfolding sel(3) applyRegistryLocked_def by auto
  have "srv_tools s' n \<noteq> None"
    unfolding s'(2) served_def same using assms(4,5,7) by (auto simp: old_server_def split: option.splits)
  with s'(1) show ?thesis by blast
qed

definition group_config :: "string \<Rightarrow> string \<Rightarrow> ProxyConfig" where
  "group_config g u = (sample_config [''a'', ''b''])
     \<lparr>Groups := [\<lparr>GroupConfig.Name = g, Endpoint = ''/e'', GroupConfig.Upstreams = [u], Filter = []\<rparr>]\<rparr>"

definition group_manager :: "unit Manager" where
  "group_manager = fst (snd (Rebuild sample_env (group_config ''one'' ''a'') (NewManager None) ()))"

lemma renamed_group_keeps_stale_tools_witness:
  "\<exists>m' s'. Rebuild sample_env (group_config ''two'' ''b'') group_manager () = (None, m', ()) \<and>
     m_servers m' ''/e'' = Some s' \<and> srv_tools s' ''a__x'' \<noteq> None"
proof -
  let ?R = "Rebuild sample_env (group_config ''two'' ''b'') group_manager ()"
  let ?g = "\<lparr>GroupConfig.Name = ''two'', Endpoint = ''/e'', GroupConfig.Upstreams = [''b''], Filter = []\<rparr>"
  have "fst ?R = None" "m_groups (fst (snd ?R)) = [?g]"
    "case m_servers group_manager ''/e'' of None \<Rightarrow> False | Some s \<Rightarrow> srv_tools s ''a__x'' \<noteq> None"
    "\<not> ''a__x'' \<in> set (groupToolNames (m_registry group_manager) ''two'')" by code_simp+
  then obtain m' s x where R: "?R = (None, m', ())" "m_groups m' = [?g]"
    "m_servers group_manager ''/e'' = Some s" "srv_tools s ''a__x'' = Some x"
    "''a__x'' \<notin> set (groupToolNames (m_registry group_manager) ''two'')"
    by (cases ?R) (auto split: option.splits)
  from renamed_group_keeps_stale_tools [OF R(1), of ?g s "''a__x''" x] R show ?thesis
    by (auto simp: searchToolName_def)
qed

section \<open>Dispatch through the cache\<close>

text \<open>A cached result answers every later call with the same JSON arguments, whatever group
  the call is made for: also for a group that does not have the tool, whose dispatch would
  have been refused.\<close>

theorem cache_hit_ignores_groups:
  assumes "m_registry m = Some r" and "m_store m = Some store" and "toolCache m r t = Some c"
    and "ComputeKey (env_num env) (env_sha env) t args (PerUser c) (cacheSubject c ctx) = Inr key"
    and "st_get store key w = (Some cached, w')"
    and "same_json (GMap args) (GMap args')" and "wf_goval (GMap args)" and "wf_goval (GMap args')"
    and "\<forall>gd. groups r g = Some gd \<longrightarrow> t \<notin> set (gd_toolSet gd)"
  shows "DispatchForGroup env m g t ctx args' w = ((Some cached, None), w') \<and>
    (\<exists>msg. registryDispatchForGroup r g t ctx args' w = ((Some (error_result msg), None), w))"
proof -
  have "ComputeKey (env_num env) (env_sha env) t args' (PerUser c) (cacheSubject c ctx) = Inr key"
    using assms(4) same_json_render [OF assms(6-8), of "env_num env"] by (simp only: ComputeKey_cases)
  with assms(1-3,5) dispatch_outside_group [OF assms(9), of ctx args' w] show ?thesis
    by (simp add: DispatchForGroup_def)
qed

text \<open>Without a hit the cache is transparent: the caller gets exactly what the registry's
  dispatch returns, error results and failed calls are never stored, and a success is stored
  under the key of the call for the configured time.\<close>

theorem cache_miss_transparent:
  assumes "m_registry m = Some r" and "m_store m = Some store" and "toolCache m r t = Some c"
    and "ComputeKey (env_num env) (env_sha env) t args (PerUser c) (cacheSubject c ctx) = Inr key"
    and "st_get store key w = (None, w1)"
    and "registryDispatchForGroup r g t ctx args w1 = (ret, w2)"
  shows "DispatchForGroup env m g t ctx args w =
    (ret, case ret of
            (Some res, None) \<Rightarrow> if IsError res then w2 else snd (st_set store key res (TTL c) w2)
          | _ \<Rightarrow> w2)"
  using assms by (auto simp: DispatchForGroup_def split: prod.splits option.splits)

text \<open>A store that keeps what is set, and a manager that caches one tool.\<close>

definition sample_store :: "(string \<times> CallToolResult) list Store" where
  "sample_store = \<lparr>st_get = (\<lambda>k w. (map_of w k, w)), st_set = (\<lambda>k v d w. (None, (k, v) # w))\<rparr>"

definition cached_entry :: "(string \<times> CallToolResult) list RegistryEntry" where
  "cached_entry = (sample_entry 1 ''a'' ''t'' None)\<lparr>CacheName := ''c''\<rparr>"

definition cached_registry :: "(string \<times> CallToolResult) list Registry" where
  "cached_registry =
     (case New sample_jsonpath [sample_upstream ''a'' [cached_entry] None] zeroNamingConfig
            [\<lparr>GroupConfig.Name = ''g'', Endpoint = ''/e'', GroupConfig.Upstreams = [''a''], Filter = []\<rparr>] of
        Inr r \<Rightarrow> r | Inl e \<Rightarrow> empty_registry zeroNamingConfig)"

definition cached_manager :: "(string \<times> CallToolResult) list Manager" where
  "cached_manager = (NewManager None)
     \<lparr>m_registry := Some cached_registry, m_store := Some sample_store,
      m_cacheConfigs := [(''c'', \<lparr>TTL = 1, PerUser = False\<rparr>)]\<rparr>"

lemma cached_manager_sel:
  "m_registry cached_manager = Some cached_registry" "m_store cached_manager = Some sample_store"
  "toolCache cached_manager cached_registry ''t'' = Some \<lparr>TTL = 1, PerUser = False\<rparr>"
  by (simp_all add: cached_manager_def, code_simp)

lemma cached_key:
  "ComputeKey (env_num sample_env) (env_sha sample_env) ''t'' [] False (cacheSubject \<lparr>TTL = 1, PerUser = False\<rparr> background)
     = Inr ''t:{}''"
  by code_simp

lemma cache_miss_transparent_witness:
  "snd (DispatchForGroup sample_env cached_manager ''g'' ''t'' background [] []) =
     [(''t:{}'', ok_result [TextContent ''t''])]"
proof -
  have d: "registryDispatchForGroup cached_registry ''g'' ''t'' background [] [] =
      ((Some (ok_result [TextContent ''t'']), None), [])" by code_simp
  have g: "st_get sample_store ''t:{}'' [] = (None, [])" by (simp add: sample_store_def)
  from cache_miss_transparent [OF cached_manager_sel, of sample_env "[]" background "''t:{}''" "[]" "[]" "''g''"]
    g d show ?thesis by (simp add: cached_key sample_store_def)
qed

lemma cache_hit_ignores_groups_witness:
  "fst (fst (DispatchForGroup sample_env cached_manager ''other'' ''t'' background []
     [(''t:{}'', ok_result [TextContent ''t''])])) = Some (ok_result [TextContent ''t''])"
proof -
  let ?w = "[(''t:{}'', ok_result [TextContent ''t''])]"
  have "\<not> (case groups cached_registry ''other'' of None \<Rightarrow> False | Some gd \<Rightarrow> ''t'' \<in> set (gd_toolSet gd))"
    by code_simp
  then have o: "\<forall>gd. groups cached_registry ''other'' = Some gd \<longrightarrow> ''t'' \<notin> set (gd_toolSet gd)" by auto
  have g: "st_get sample_store ''t:{}'' ?w = (Some (ok_result [TextContent ''t'']), ?w)"
    by (simp add: sample_store_def)
  have s: "same_json (GMap []) (GMap [])" by (rule same_json.obj) auto
  from cache_hit_ignores_groups [OF cached_manager_sel _ g s _ _ o, of sample_env background]
  show ?thesis by (simp add: cached_key)
qed

end
