(* ===== verification/Reload.thy ===== *)
theory Reload
  imports ManagerLaws
begin

text \<open>
  The life of a configuration: the defaults every loaded upstream has, reloads that keep the
  last good configuration, the debounce of the file watcher, and the reload of a running
  proxy, where the validation callback of the loader is the rebuild of the manager
  (\<^verbatim>\<open>pkg/mcpanything/proxy.go\<close>).
\<close>

section \<open>Defaults\<close>

text \<open>Every upstream of a loaded configuration has a timeout, success and error status lists
  and a response failure mode; its enabled flag is the decoded one exactly when the file spells the
  key out, and true otherwise, so an explicit \<^verbatim>\<open>enabled: false\<close> is kept.\<close>

theorem loaded_upstreams_have_defaults:
  assumes "Load goga p w = Inr cfg" and "goga p w = Inr (decoded, raw)" and "i < length (Upstreams decoded)"
  shows "let up = Upstreams cfg ! i; up0 = Upstreams decoded ! i; rawUp = rawUpstream (raw_list raw) i in
    length (Upstreams cfg) = length (Upstreams decoded) \<and>
    UpstreamConfig.Timeout up \<noteq> 0 \<and> SuccessStatus (Validation up) \<noteq> [] \<and>
    ErrorStatus (Validation up) \<noteq> [] \<and> ResponseValidationFailure (Validation up) \<noteq> [] \<and>
    UpstreamConfig.Enabled up = (has_key rawUp ''enabled'' \<longrightarrow> UpstreamConfig.Enabled up0)"
proof -
  have c: "cfg = applyElementDefaults raw decoded" using assms(1,2) by (simp add: Load_def)
  show ?thesis unfolding c Let_def applyElementDefaults_nth [OF assms(3)]
    by (auto simp: applyElementDefaults_length upstreamDefaults_fields applyValidationDefaults_fields second_def)
qed

definition sample_goga :: "(unit, string) goga_load" where
  "sample_goga p w =
     (if p = ''bad'' then Inl ''cannot read''
      else Inr (sample_config [p], Some (GList [GMap [(''enabled'', GBool True)]])))"

lemma loaded_upstreams_have_defaults_witness:
  "\<exists>cfg. Load sample_goga ''a'' () = Inr cfg \<and> UpstreamConfig.Timeout (Upstreams cfg ! 0) \<noteq> 0 \<and>
     UpstreamConfig.Enabled (Upstreams cfg ! 0)"
proof -
  let ?raw = "Some (GList [GMap [(''enabled'', GBool True)]])"
  have g: "sample_goga ''a'' () = Inr (sample_config [''a''], ?raw)" by (simp add: sample_goga_def)
  then have l: "Load sample_goga ''a'' () = Inr (applyElementDefaults ?raw (sample_config [''a'']))"
    by (simp add: Load_def)
  have "0 < length (Upstreams (sample_config [''a'']))" "UpstreamConfig.Enabled (Upstreams (sample_config [''a'']) ! 0)"
    by (simp_all add: sample_config_def sample_upcfg_def zeroProxyConfig_def)
  with loaded_upstreams_have_defaults [OF l g this(1)] l show ?thesis by (auto simp: Let_def)
qed

text \<open>The defaults are a fixed point: applying them to a configuration that has them
  changes nothing.\<close>

theorem defaults_idempotent:
  "applyElementDefaults raw (applyElementDefaults raw cfg) = applyElementDefaults raw cfg"
  by (rule applyElementDefaults_idem)

section \<open>Debounce\<close>

lemma watch_errors: "\<forall>e \<in> set evs. e = WatchError \<Longrightarrow> fold watch_step evs s = s"
  by (induction evs arbitrary: s) auto

text \<open>A burst of file events of any length, irrelevant events among them, followed by one
  firing of the debounce timer, causes exactly one reload when the burst has a create or write
  event and no pending timer was armed, and a second firing causes none.\<close>

theorem burst_reloads_once:
  assumes "\<forall>e \<in> set evs. \<exists>b. e = FsEvent b" and "\<not> armed s" and "\<not> stopped s"
  shows "reloads (fold watch_step (evs @ [TimerFires, TimerFires]) s) =
    reloads s + (if FsEvent True \<in> set evs then 1 else 0)"
proof (cases "FsEvent True \<in> set evs")
  case True
  then have "fold watch_step evs s = s\<lparr>armed := True\<rparr>"
    using watch_burst_armed [of s evs] assms(1,3) by blast
  with True show ?thesis by simp
next
  case False
  then have "\<forall>e \<in> set evs. e = FsEvent False" using assms(1) by (metis (full_types))
  then have "fold watch_step evs s = s" by (induction evs) auto
  with False assms(2) show ?thesis by simp
qed

lemma burst_reloads_once_witness:
  "reloads (fold watch_step ([FsEvent True, FsEvent False, FsEvent True] @ [TimerFires, TimerFires]) watch_init) = 1"
proof -
  have "reloads watch_init = 0" "\<not> armed watch_init" "\<not> stopped watch_init" by (simp_all add: watch_init_def)
  with burst_reloads_once [of "[FsEvent True, FsEvent False, FsEvent True]" watch_init] show ?thesis by auto
qed

section \<open>Reloading a running proxy\<close>

text \<open>The world of the loader's callback is the manager and what its environment keeps.\<close>

definition rebuild_on_load :: "'w Env \<Rightarrow> ('w Manager \<times> 'w, rebuild_error) on_load" where
  "rebuild_on_load env cfg mw =
     (let (err, m', w') = Rebuild env cfg (fst mw) (snd mw) in (err, (m', w')))"

definition runs_config :: "'w Manager \<Rightarrow> ProxyConfig \<Rightarrow> bool" where
  "runs_config m cfg \<longleftrightarrow>
     m_namingCfg m = Some (Naming cfg) \<and> m_rateLimitCfgs m = RateLimits cfg \<and> m_cacheConfigs m = Caches cfg \<and>
     (Groups cfg \<noteq> [] \<longrightarrow> m_groups m = Groups cfg)"

lemma rebuild_runs_config:
  assumes "Rebuild env cfg m w = (None, m', w')"
  shows "runs_config m' cfg"
  using assms by (rule Rebuild_success)
    (auto simp: runs_config_def commitRebuild_def Let_def applyRegistryLocked_def effectiveGroups_def)

lemma runs_config_impl:
  "runs_config (if m_impl m = None then m\<lparr>m_impl := x\<rparr> else m) cfg = runs_config m cfg"
  by (simp add: runs_config_def)

text \<open>The reloads of a running proxy: the loader's state with the manager's.\<close>

inductive proxy_reach ::
    "'w Env \<Rightarrow> ('w Manager \<times> 'w, rebuild_error) goga_load \<Rightarrow> Loader \<Rightarrow> 'w Manager \<times> 'w \<Rightarrow> bool"
  for env goga where
  start: "NewLoader goga (rebuild_on_load env) p mw = (Inr l, mw') \<Longrightarrow> proxy_reach env goga l mw'"
| reload: "proxy_reach env goga l mw \<Longrightarrow> tryReload goga (rebuild_on_load env) l mw = (l', mw') \<Longrightarrow>
    proxy_reach env goga l' mw'"
| refresh: "proxy_reach env goga l (m, w) \<Longrightarrow> UpdateUpstream env \<sigma> u es rt m = (err, m') \<Longrightarrow>
    proxy_reach env goga l (m', w')"
| remove: "proxy_reach env goga l (m, w) \<Longrightarrow> proxy_reach env goga l (RemoveUpstream env \<sigma> u m, w')"

lemma rebuildFromState_runs:
  assumes "rebuildFromStateLocked env \<sigma> naming m = (err, m')" shows "runs_config m' cfg = runs_config m cfg"
  using assms by (cases rule: rebuildFromState_cases) (auto simp: runs_config_def applyRegistryLocked_def)

lemma UpdateUpstream_runs:
  assumes "UpdateUpstream env \<sigma> u es rt m = (err, m')" shows "runs_config m' cfg = runs_config m cfg"
proof (cases "m_namingCfg m")
  case (Some naming)
  with assms have "rebuildFromStateLocked env \<sigma> naming (m\<lparr>m_upstreamByName :=
      AList.update u \<lparr>us_entries = es, us_specYAMLRoot = rt\<rparr> (m_upstreamByName m)\<rparr>) = (err, m')"
    by (simp add: UpdateUpstream_def)
  from rebuildFromState_runs [OF this] show ?thesis by (simp add: runs_config_def)
qed (use assms in \<open>simp add: UpdateUpstream_def\<close>)

lemma RemoveUpstream_runs: "runs_config (RemoveUpstream env \<sigma> u m) cfg = runs_config m cfg"
proof (cases "m_namingCfg m")
  case (Some naming)
  obtain err m2 where r: "rebuildFromStateLocked env \<sigma> naming
      (m\<lparr>m_upstreamByName := AList.delete u (m_upstreamByName m)\<rparr>) = (err, m2)" by fastforce
  from rebuildFromState_runs [OF r] have "runs_config m2 cfg = runs_config m cfg" by (simp add: runs_config_def)
  with Some r show ?thesis
    by (auto simp: RemoveUpstream_def Let_def runs_config_def split: option.splits)
qed (simp add: RemoveUpstream_def)

lemma on_load_cases:
  assumes "rebuild_on_load env cfg mw = (err, mw')"
  shows "(err = None \<longrightarrow> runs_config (fst mw') cfg) \<and>
    (err \<noteq> None \<longrightarrow> (\<forall>c. runs_config (fst mw') c = runs_config (fst mw) c))"
proof -
  obtain m' w' where r: "Rebuild env cfg (fst mw) (snd mw) = (err, m', w')" "mw' = (m', w')"
    using assms by (cases mw') (auto simp: rebuild_on_load_def split: prod.splits)
  show ?thesis
  proof (cases err)
    case None
    with r rebuild_runs_config show ?thesis by fastforce
  next
    case (Some e)
    from rebuild_fail_state [OF r(1) [unfolded Some]] r(2) Some show ?thesis by (simp add: runs_config_impl)
  qed
qed


definition proxy_goga :: "(unit Manager \<times> unit, rebuild_error) goga_load" where
  "proxy_goga p mw = Inr (sample_config [''a'', ''b''], None)"


end
