(* ===== verification/Inbound.thy ===== *)
theory Inbound
  imports Http ToolRegistry
begin

text \<open>
  Inbound authentication, \<^verbatim>\<open>pkg/auth/inbound\<close> and its strategies, and the middleware registry
  of \<^verbatim>\<open>pkg/middleware\<close>: the token middleware, the dispatch by tool and upstream, the denial
  responses, the metadata endpoint and the API key, JWT and introspection validators. The
  verification of a JWT and the introspection call are parameters, and so is the JSON parser.
\<close>

section \<open>Middlewares\<close>

definition Chain :: "'w middleware list \<Rightarrow> 'w middleware" where
  "Chain ms nxt = foldr (\<lambda>m h. m h) ms nxt"

type_synonym 'w mw_factory = "InboundAuthConfig \<Rightarrow> 'w \<Rightarrow> (goerr + 'w middleware) \<times> 'w"

definition newMiddleware :: "'w mw_factory registry \<Rightarrow> string \<Rightarrow> 'w mw_factory" where
  "newMiddleware reg name cfg w =
     (case Get reg name of
        None \<Rightarrow> (Inl (ErrText (''unknown middleware '' @ go_quote name @ '' '' @ em_dash @ '' did you forget to import the strategy sub-package?'')), w)
      | Some f \<Rightarrow> f cfg w)"

section \<open>Denials\<close>

text \<open>Scheme and host of a request as the metadata URLs use them.\<close>

definition requestScheme :: "Request \<Rightarrow> string" where
  "requestScheme r =
     (let proto = header_get (req_header r) ''X-Forwarded-Proto'' in
      if proto \<noteq> [] then proto else if \<not> req_tls r then ''http'' else ''https'')"

definition requestHost :: "Request \<Rightarrow> string" where
  "requestHost r = (if req_host r = [] then req_url_host r else req_host r)"

definition resourceMetadataURL :: "Request \<Rightarrow> string" where
  "resourceMetadataURL r =
     requestScheme r @ ''://'' @ requestHost r @ ''/.well-known/oauth-protected-resource''"

definition errorBody :: "string \<Rightarrow> string" where
  "errorBody code = ''{\"error\":'' @ json_string code @ ''}''"

definition writeUnauthorized :: "Request \<Rightarrow> string \<Rightarrow> Response" where
  "writeUnauthorized r errCode =
     \<lparr>rsp_status = 401,
      rsp_header = header_set ''Content-Type'' ''application/json''
        (header_set ''WWW-Authenticate''
          (''Bearer realm=\"mcp-auto\", error='' @ go_quote errCode @ '', resource_metadata='' @
             go_quote (resourceMetadataURL r)) Map.empty),
      rsp_body = errorBody errCode\<rparr>"

definition writeDenied :: "Request \<Rightarrow> int \<Rightarrow> string \<Rightarrow> Response" where
  "writeDenied r status message =
     (let errCode = (if message = [] then ''access_denied'' else message) in
      if status = 0 \<or> status = 401 then writeUnauthorized r errCode
      else \<lparr>rsp_status = status,
            rsp_header = header_set ''Content-Type'' ''application/json'' Map.empty,
            rsp_body = errorBody errCode\<rparr>)"

section \<open>Token validation\<close>

type_synonym 'w token_validator = "Ctx \<Rightarrow> string \<Rightarrow> 'w \<Rightarrow> (goerr + TokenInfo) \<times> 'w"

definition requestToken :: "string \<Rightarrow> Request \<Rightarrow> string" where
  "requestToken apiKeyHeader r =
     (if apiKeyHeader \<noteq> [] then header_get (req_header r) apiKeyHeader
      else (case cut_prefix (header_get (req_header r) ''Authorization'') ''Bearer '' of
              Some after \<Rightarrow> trim_space after | None \<Rightarrow> []))"

definition withTokenInfo :: "TokenInfo \<Rightarrow> Ctx \<Rightarrow> Ctx" where
  "withTokenInfo info ctx = ctx\<lparr>ctx_token := Some info\<rparr>"

definition TokenInfoFromContext :: "Ctx \<Rightarrow> TokenInfo option" where
  "TokenInfoFromContext ctx = ctx_token ctx"

definition ValidatorMiddleware :: "'w token_validator \<Rightarrow> string \<Rightarrow> 'w middleware" where
  "ValidatorMiddleware validator apiKeyHeader nxt r w =
     (let token = requestToken apiKeyHeader r in
      if token = [] then (writeUnauthorized r ''missing_token'', w)
      else (case validator (req_ctx r) token w of
              (Inl err, w1) \<Rightarrow>
                (case as_denied err of
                   Some (status, message) \<Rightarrow> (writeDenied r status message, w1)
                 | None \<Rightarrow> (writeUnauthorized r ''invalid_token'', w1))
            | (Inr info, w1) \<Rightarrow> nxt (r\<lparr>req_ctx := withTokenInfo info (req_ctx r)\<rparr>) w1))"

section \<open>Dispatch by tool\<close>

text \<open>
  \<^verbatim>\<open>json.Unmarshal\<close> into a struct: the fields of the object in the order of the text, a key
  matching a field up to case, \<^verbatim>\<open>null\<close> leaving it as it is and a value of another kind being
  an error. The parser \<^term>\<open>parse\<close> keeps duplicate keys in order.
\<close>

definition into_string :: "goval \<Rightarrow> string \<Rightarrow> string option" where
  "into_string v old = (case v of GStr s \<Rightarrow> Some s | GNil \<Rightarrow> Some old | _ \<Rightarrow> None)"

fun into_params :: "args \<Rightarrow> string \<Rightarrow> string option" where
  "into_params [] name = Some name"
| "into_params ((k, v) # kvs) name =
     (if to_lower k = ''name''
      then (case into_string v name of None \<Rightarrow> None | Some n \<Rightarrow> into_params kvs n)
      else into_params kvs name)"

fun into_msg :: "args \<Rightarrow> string \<times> string \<Rightarrow> (string \<times> string) option" where
  "into_msg [] mn = Some mn"
| "into_msg ((k, v) # kvs) (m, n) =
     (if to_lower k = ''method''
      then (case into_string v m of None \<Rightarrow> None | Some m' \<Rightarrow> into_msg kvs (m', n))
      else if to_lower k = ''params''
      then (case v of
              GMap ps \<Rightarrow> (case into_params ps n of None \<Rightarrow> None | Some n' \<Rightarrow> into_msg kvs (m, n'))
            | GNil \<Rightarrow> into_msg kvs (m, n)
            | _ \<Rightarrow> None)
      else into_msg kvs (m, n))"

definition peekToolCallName :: "(string \<Rightarrow> goval option) \<Rightarrow> Request \<Rightarrow> string \<times> bool" where
  "peekToolCallName parse r =
     (case req_body r of
        None \<Rightarrow> ([], False)
      | Some body \<Rightarrow>
          if body = [] then ([], False)
          else (case (case parse body of
                        Some (GMap kvs) \<Rightarrow> into_msg kvs ([], []) | Some GNil \<Rightarrow> Some ([], []) | _ \<Rightarrow> None) of
                  None \<Rightarrow> ([], False)
                | Some (method, name) \<Rightarrow> if method \<noteq> ''tools/call'' then ([], False) else (name, True)))"

text \<open>The registry and the upstream lookup are read when the request arrives.\<close>

definition DispatchMiddleware ::
    "(string \<Rightarrow> goval option) \<Rightarrow> 'w middleware \<Rightarrow> (string \<rightharpoonup> 'w middleware) \<Rightarrow>
     ('w \<Rightarrow> string \<Rightarrow> bool) \<Rightarrow> ('w \<Rightarrow> string \<Rightarrow> string) option \<Rightarrow> 'w middleware" where
  "DispatchMiddleware parse globalMW overrides authRequired upstreamLookup nxt r w =
     (let (toolName, isToolCall) = peekToolCallName parse r in
      if isToolCall \<and> \<not> authRequired w toolName then nxt r w
      else (case upstreamLookup of
              None \<Rightarrow> globalMW nxt r w
            | Some lookup \<Rightarrow>
                if toolName = [] then globalMW nxt r w
                else (case overrides (lookup w toolName) of
                        Some mw \<Rightarrow> mw nxt r w
                      | None \<Rightarrow> globalMW nxt r w)))"

section \<open>Protected resource metadata\<close>

definition wellKnownIssuer :: "ProxyConfig \<Rightarrow> string" where
  "wellKnownIssuer cfg =
     (let ia = InboundAuth cfg in
      if InboundAuthConfig.Strategy ia = ''jwt'' then JWTAuthConfig.Issuer (InboundAuthConfig.JWT ia)
      else if InboundAuthConfig.Strategy ia = ''introspection''
        then IntrospectionConfig.Issuer (InboundAuthConfig.Introspection ia)
      else [])"

text \<open>\<^verbatim>\<open>json.Encoder\<close> writes the keys of a map in order and ends with a newline. All values
  are strings, so the number rendering is not used.\<close>

definition WellKnownHandler :: "ProxyConfig \<Rightarrow> 'w handler" where
  "WellKnownHandler cfg r w =
     (let issuer = wellKnownIssuer cfg;
          payload = GMap
            [(''resource'', GStr (requestScheme r @ ''://'' @ requestHost r)),
             (''authorization_servers'', GList (if issuer \<noteq> [] then [GStr issuer] else [])),
             (''scopes_supported'', GList []),
             (''bearer_methods_supported'', GList [GStr ''header''])]
      in (\<lparr>rsp_status = 200, rsp_header = header_set ''Content-Type'' ''application/json'' Map.empty,
           rsp_body = (case marshalSorted (\<lambda>_. None) payload of None \<Rightarrow> [] | Some b \<Rightarrow> b @ [CHR 0x0A])\<rparr>, w))"

section \<open>Validators\<close>

text \<open>API keys, \<^verbatim>\<open>pkg/auth/inbound/apikey\<close>; \<^term>\<open>getenv\<close> is the environment.\<close>

definition apiKeys :: "string \<Rightarrow> string list" where
  "apiKeys raw = filter (\<lambda>k. k \<noteq> []) (map trim_space (split_char (CHR '','') raw))"

definition newAPIKeyValidator :: "(string \<Rightarrow> string) \<Rightarrow> APIKeyAuthConfig \<Rightarrow> goerr + string list" where
  "newAPIKeyValidator getenv cfg =
     (let keys = apiKeys (getenv (APIKeyAuthConfig.KeysEnv cfg)) in
      if keys = []
      then Inl (ErrText (''no API keys found in environment variable '' @ go_quote (APIKeyAuthConfig.KeysEnv cfg)))
      else Inr keys)"

definition apiKeyValidateToken :: "string list \<Rightarrow> 'w token_validator" where
  "apiKeyValidateToken keys ctx token w =
     (if token \<notin> set keys then (Inl (ErrText ''invalid API key''), w) else (Inr emptyTokenInfo, w))"

definition apiKeyMiddleware :: "(string \<Rightarrow> string) \<Rightarrow> 'w mw_factory" where
  "apiKeyMiddleware getenv ic w =
     (case newAPIKeyValidator getenv (InboundAuthConfig.APIKey ic) of
        Inl e \<Rightarrow> (Inl e, w)
      | Inr keys \<Rightarrow>
          (Inr (ValidatorMiddleware (apiKeyValidateToken keys) (APIKeyAuthConfig.Header (InboundAuthConfig.APIKey ic))), w))"

text \<open>JWT, \<^verbatim>\<open>pkg/auth/inbound/jwt\<close>: a verified token is its subject, audience and the decoding of
  its claims to the scope text.\<close>

record oidc_token =
  tok_Subject :: string
  tok_Audience :: "string list"
  tok_scope :: "goerr + string"

type_synonym 'w oidc_verifier = "Ctx \<Rightarrow> string \<Rightarrow> 'w \<Rightarrow> (goerr + oidc_token) \<times> 'w"

definition jwtValidateToken :: "'w oidc_verifier \<Rightarrow> 'w token_validator" where
  "jwtValidateToken verify ctx raw w =
     (case verify ctx raw w of
        (Inl e, w1) \<Rightarrow> (Inl (ErrWrap ''verifying JWT'' e), w1)
      | (Inr token, w1) \<Rightarrow>
          (case tok_scope token of
             Inl e \<Rightarrow> (Inl (ErrWrap ''extracting JWT claims'' e), w1)
           | Inr scope \<Rightarrow>
               (Inr \<lparr>Subject = tok_Subject token, Scopes = GoLib.fields scope, Audience = tok_Audience token,
                     Extra = []\<rparr>, w1)))"

text \<open>Introspection, \<^verbatim>\<open>pkg/auth/inbound/introspection\<close>.\<close>

record introspection_response =
  ir_Active :: bool
  ir_Subject :: string
  ir_Audience :: "string list"

definition introspectionValidateToken ::
    "(Ctx \<Rightarrow> string \<Rightarrow> 'w \<Rightarrow> (goerr + introspection_response) \<times> 'w) \<Rightarrow> string \<Rightarrow> 'w token_validator" where
  "introspectionValidateToken introspect aud ctx raw w =
     (case introspect ctx raw w of
        (Inl e, w1) \<Rightarrow> (Inl (ErrWrap ''introspecting token'' e), w1)
      | (Inr resp, w1) \<Rightarrow>
          if \<not> ir_Active resp then (Inl (ErrText ''token inactive''), w1)
          else if aud \<noteq> [] \<and> aud \<notin> set (ir_Audience resp) then (Inl (ErrText ''invalid audience''), w1)
          else (Inr \<lparr>Subject = ir_Subject resp, Scopes = [], Audience = ir_Audience resp, Extra = []\<rparr>, w1))"

text \<open>The constructors of both: the OIDC clients are parameters. A JWT verifier is made from the key set
  at a URL, or from the issuer's discovery document.\<close>

record 'w oidc_lib =
  oi_remoteKeySet :: "string \<Rightarrow> string \<Rightarrow> string \<Rightarrow> 'w oidc_verifier"
  oi_provider :: "string \<Rightarrow> 'w \<Rightarrow> (goerr + (string \<Rightarrow> 'w oidc_verifier)) \<times> 'w"
  oi_resourceServer :: "string \<Rightarrow> string \<Rightarrow> string \<Rightarrow> 'w \<Rightarrow>
     (goerr + (Ctx \<Rightarrow> string \<Rightarrow> 'w \<Rightarrow> (goerr + introspection_response) \<times> 'w)) \<times> 'w"
  oi_expandEnv :: "string \<Rightarrow> string"

definition newJWTValidator :: "'w oidc_lib \<Rightarrow> JWTAuthConfig \<Rightarrow> 'w \<Rightarrow> (goerr + 'w oidc_verifier) \<times> 'w" where
  "newJWTValidator lib cfg w =
     (if JWKSURL cfg \<noteq> []
      then (Inr (oi_remoteKeySet lib (JWKSURL cfg) (JWTAuthConfig.Issuer cfg) (JWTAuthConfig.Audience cfg)), w)
      else (case oi_provider lib (JWTAuthConfig.Issuer cfg) w of
              (Inl e, w1) \<Rightarrow> (Inl (ErrWrap ''creating OIDC provider'' e), w1)
            | (Inr provider, w1) \<Rightarrow> (Inr (provider (JWTAuthConfig.Audience cfg)), w1)))"

definition jwtMiddleware :: "'w oidc_lib \<Rightarrow> 'w mw_factory" where
  "jwtMiddleware lib ic w =
     (case newJWTValidator lib (InboundAuthConfig.JWT ic) w of
        (Inl e, w1) \<Rightarrow> (Inl e, w1)
      | (Inr v, w1) \<Rightarrow> (Inr (ValidatorMiddleware (jwtValidateToken v) []), w1))"

definition newIntrospectionValidator :: "'w oidc_lib \<Rightarrow> IntrospectionConfig \<Rightarrow> 'w \<Rightarrow> (goerr + 'w token_validator) \<times> 'w" where
  "newIntrospectionValidator lib cfg w =
     (case oi_resourceServer lib (IntrospectionConfig.Issuer cfg) (IntrospectionConfig.ClientID cfg)
             (oi_expandEnv lib (IntrospectionConfig.ClientSecret cfg)) w of
        (Inl e, w1) \<Rightarrow> (Inl (ErrWrap ''creating introspection resource server'' e), w1)
      | (Inr server, w1) \<Rightarrow> (Inr (introspectionValidateToken server (IntrospectionConfig.Audience cfg)), w1))"

definition introspectionMiddleware :: "'w oidc_lib \<Rightarrow> 'w mw_factory" where
  "introspectionMiddleware lib ic w =
     (case newIntrospectionValidator lib (InboundAuthConfig.Introspection ic) w of
        (Inl e, w1) \<Rightarrow> (Inl e, w1)
      | (Inr v, w1) \<Rightarrow> (Inr (ValidatorMiddleware v []), w1))"


section \<open>What reaches the handler behind the middleware\<close>

text \<open>The validator of a request and its header: the override of the tool's upstream if it has
  one, the global one otherwise.\<close>

definition selectedValidator ::
    "(string \<Rightarrow> goval option) \<Rightarrow> 'w token_validator \<times> string \<Rightarrow> (string \<rightharpoonup> 'w token_validator \<times> string) \<Rightarrow>
     ('w \<Rightarrow> string \<Rightarrow> string) option \<Rightarrow> Request \<Rightarrow> 'w \<Rightarrow> 'w token_validator \<times> string" where
  "selectedValidator parse g ov lookup r w =
     (let tool = fst (peekToolCallName parse r) in
      case lookup of None \<Rightarrow> g
      | Some l \<Rightarrow> if tool = [] then g else (case ov (l w tool) of Some vh \<Rightarrow> vh | None \<Rightarrow> g))"

abbreviation validator_mw :: "'w token_validator \<times> string \<Rightarrow> 'w middleware" where
  "validator_mw vh \<equiv> ValidatorMiddleware (fst vh) (snd vh)"

abbreviation authDispatch ::
    "(string \<Rightarrow> goval option) \<Rightarrow> 'w token_validator \<times> string \<Rightarrow> (string \<rightharpoonup> 'w token_validator \<times> string) \<Rightarrow>
     ('w \<Rightarrow> string \<Rightarrow> bool) \<Rightarrow> ('w \<Rightarrow> string \<Rightarrow> string) option \<Rightarrow> 'w middleware" where
  "authDispatch parse g ov req lookup \<equiv>
     DispatchMiddleware parse (validator_mw g) (map_option validator_mw \<circ> ov) req lookup"

lemma dispatch_selected:
  assumes "\<not> (snd (peekToolCallName parse r) \<and> \<not> req w (fst (peekToolCallName parse r)))"
  shows "authDispatch parse g ov req lookup nxt r w =
    validator_mw (selectedValidator parse g ov lookup r w) nxt r w"
  using assms
  by (auto simp: DispatchMiddleware_def selectedValidator_def Let_def split: prod.splits option.splits)

lemma ValidatorMiddleware_cases:
  obtains (accepted) info w1 where "requestToken h r \<noteq> []" "v (req_ctx r) (requestToken h r) w = (Inr info, w1)"
    "\<And>nxt. ValidatorMiddleware v h nxt r w = nxt (r\<lparr>req_ctx := withTokenInfo info (req_ctx r)\<rparr>) w1"
  | (refused) rsp w1 where "\<And>nxt. ValidatorMiddleware v h nxt r w = (rsp, w1)"
proof (cases "requestToken h r = []")
  case True
  then show ?thesis by (intro refused) (simp add: ValidatorMiddleware_def)
next
  case False
  obtain res w1 where v: "v (req_ctx r) (requestToken h r) w = (res, w1)" by fastforce
  show ?thesis
  proof (cases res)
    case (Inl e)
    obtain rsp where "(case as_denied e of Some (status, message) \<Rightarrow> (writeDenied r status message, w1)
        | None \<Rightarrow> (writeUnauthorized r ''invalid_token'', w1)) = (rsp, w1)"
      by (cases "as_denied e") auto
    with False v Inl show ?thesis by (intro refused [of rsp w1]) (simp add: ValidatorMiddleware_def)
  next
    case (Inr info)
    with False v show ?thesis by (intro accepted [of info w1]) (simp_all add: ValidatorMiddleware_def)
  qed
qed

definition authenticated_or_refused :: "'w token_validator \<times> string \<Rightarrow> 'w middleware \<Rightarrow> Request \<Rightarrow> 'w \<Rightarrow> bool" where
  "authenticated_or_refused vh mw r w \<longleftrightarrow>
     (\<exists>info w1. requestToken (snd vh) r \<noteq> [] \<and> fst vh (req_ctx r) (requestToken (snd vh) r) w = (Inr info, w1) \<and>
        (\<forall>nxt. mw nxt r w = nxt (r\<lparr>req_ctx := withTokenInfo info (req_ctx r)\<rparr>) w1)) \<or>
     (\<exists>rsp w1. \<forall>nxt. mw nxt r w = (rsp, w1))"

lemma validator_guards: "authenticated_or_refused vh (validator_mw vh) r w"
  by (rule ValidatorMiddleware_cases [of "snd vh" r "fst vh" w]) (unfold authenticated_or_refused_def, blast+)

lemma dispatch_guards:
  assumes "\<not> (snd (peekToolCallName parse r) \<and> \<not> req w (fst (peekToolCallName parse r)))"
  shows "authenticated_or_refused (selectedValidator parse g ov lookup r w) (authDispatch parse g ov req lookup) r w"
  using validator_guards [of "selectedValidator parse g ov lookup r w" r w]
  unfolding authenticated_or_refused_def dispatch_selected [of parse r req w g ov lookup, OF assms] .

context registry_reader
begin

text \<open>Whatever the state the registry is in when the request arrives, only a call of a public tool
  goes past the validators.\<close>

lemma guarded_unless_public:
  assumes "\<not> (snd (peekToolCallName parse r) \<and> public_tool (reg w) (fst (peekToolCallName parse r)))"
  shows "authenticated_or_refused (selectedValidator parse g ov lookup r w)
    (authDispatch parse g ov (\<lambda>w. auth_required (reg w)) lookup) r w"
  by (rule dispatch_guards) (use assms in \<open>simp add: required_iff\<close>)

lemma public_bypasses:
  assumes "snd (peekToolCallName parse r)" and "public_tool (reg w) (fst (peekToolCallName parse r))"
  shows "authDispatch parse g ov (\<lambda>w. auth_required (reg w)) lookup nxt r w = nxt r w"
  using assms by (simp add: DispatchMiddleware_def required_iff case_prod_unfold)

end

section \<open>API keys\<close>

lemma apiKeys_no_empty: "[] \<notin> set (apiKeys raw)"
  by (simp add: apiKeys_def)

text \<open>C25: the API key strategy starts only with at least one key, and then lets a request through,
  unchanged but for an empty identity, exactly when its key header holds one of the trimmed,
  non-empty keys of the variable; every other request gets a 401 and the handler does not run.\<close>

theorem api_key_strategy_exact:
  assumes "apiKeyMiddleware getenv ic w0 = (Inr mw, w1)" and "APIKeyAuthConfig.Header (InboundAuthConfig.APIKey ic) \<noteq> []"
  shows "apiKeys (getenv (APIKeyAuthConfig.KeysEnv (InboundAuthConfig.APIKey ic))) \<noteq> [] \<and>
    (let key = header_get (req_header r) (APIKeyAuthConfig.Header (InboundAuthConfig.APIKey ic)) in
     if key \<in> set (apiKeys (getenv (APIKeyAuthConfig.KeysEnv (InboundAuthConfig.APIKey ic))))
     then mw nxt r w = nxt (r\<lparr>req_ctx := withTokenInfo emptyTokenInfo (req_ctx r)\<rparr>) w
     else \<exists>rsp. mw nxt r w = (rsp, w) \<and> rsp_status rsp = 401)"
proof -
  let ?keys = "apiKeys (getenv (APIKeyAuthConfig.KeysEnv (InboundAuthConfig.APIKey ic)))"
  from assms(1) have k: "?keys \<noteq> []"
    and mw: "mw = ValidatorMiddleware (apiKeyValidateToken ?keys) (APIKeyAuthConfig.Header (InboundAuthConfig.APIKey ic))"
    by (auto simp: apiKeyMiddleware_def newAPIKeyValidator_def Let_def split: if_splits)
  have t: "requestToken (APIKeyAuthConfig.Header (InboundAuthConfig.APIKey ic)) r =
      header_get (req_header r) (APIKeyAuthConfig.Header (InboundAuthConfig.APIKey ic))"
    using assms(2) by (simp add: requestToken_def)
  show ?thesis
    using k apiKeys_no_empty
    by (auto simp: mw t ValidatorMiddleware_def apiKeyValidateToken_def as_denied_def writeUnauthorized_def Let_def)
qed

definition sample_request :: "(string \<times> string) list \<Rightarrow> string \<Rightarrow> Request" where
  "sample_request hs body =
     \<lparr>req_method = ''POST'', req_path = ''/mcp'', req_header = set_headers hs Map.empty, req_remote = ''1.2.3.4:5'',
      req_host = ''h'', req_url_host = [], req_tls = True, req_body = Some body, req_query = [],
      req_ctx = background\<rparr>"

definition sample_apikey :: InboundAuthConfig where
  "sample_apikey = zeroInboundAuthConfig\<lparr>InboundAuthConfig.APIKey := \<lparr>APIKeyAuthConfig.Header = ''X-Key'', APIKeyAuthConfig.KeysEnv = ''K''\<rparr>\<rparr>"

lemma api_key_strategy_exact_witness:
  "\<exists>mw. apiKeyMiddleware (\<lambda>_. '' a, b,'') sample_apikey () = (Inr mw, ()) \<and>
     mw (\<lambda>r w. (empty_response, w)) (sample_request [(''x-key'', ''b'')] []) () = (empty_response, ()) \<and>
     (\<exists>rsp. mw (\<lambda>r w. (empty_response, w)) (sample_request [(''x-key'', ''c'')] []) () = (rsp, ()) \<and> rsp_status rsp = 401)"
proof -
  have h: "APIKeyAuthConfig.Header (InboundAuthConfig.APIKey sample_apikey) = ''X-Key''" "APIKeyAuthConfig.KeysEnv (InboundAuthConfig.APIKey sample_apikey) = ''K''"
    by (simp_all add: sample_apikey_def)
  have keys: "apiKeys '' a, b,'' = [''a'', ''b'']"
    and g: "header_get (req_header (sample_request [(''x-key'', ''b'')] [])) ''X-Key'' = ''b''"
      "header_get (req_header (sample_request [(''x-key'', ''c'')] [])) ''X-Key'' = ''c''" by code_simp+
  obtain mw where mw: "apiKeyMiddleware (\<lambda>_. '' a, b,'') sample_apikey () = (Inr mw, ())"
    by (simp add: apiKeyMiddleware_def newAPIKeyValidator_def keys)
  from api_key_strategy_exact [OF mw, of "sample_request [(''x-key'', ''b'')] []" "\<lambda>r w. (empty_response, w)" "()"]
    api_key_strategy_exact [OF mw, of "sample_request [(''x-key'', ''c'')] []" "\<lambda>r w. (empty_response, w)" "()"]
  show ?thesis using mw by (simp add: h keys g Let_def)
qed

end
