(* ===== verification/Proxy.thy ===== *)
theory Proxy
  imports Reload Inbound
begin

text \<open>
  The assembly of the HTTP side, \<^verbatim>\<open>pkg/mcpanything/proxy.go\<close> and \<^verbatim>\<open>pkg/upstream/readiness.go\<close>:
  the inbound authentication of a configuration, the handlers mounted per endpoint, the
  readiness probe, and what a request must have to reach an MCP server. The world of the
  handlers is the manager with the rest of the world.
\<close>

type_synonym 'w served_world = "'w Manager \<times> 'w"

section \<open>Authentication\<close>

text \<open>\<^verbatim>\<open>ToolUpstreamName\<close> as the middleware calls it. All builders set the upstream of their entries,
  so the nil dereference of an entry without upstream does not happen; the model answers the
  empty name there.\<close>

definition upstreamLookup :: "'w served_world \<Rightarrow> string \<Rightarrow> string" where
  "upstreamLookup mw t = (case managerToolUpstreamName (fst mw) t of None \<Rightarrow> [] | Some u \<Rightarrow> u)"

definition injectAuthPools :: "(string \<rightharpoonup> PoolAcquirer) \<Rightarrow> InboundAuthConfig \<Rightarrow> InboundAuthConfig" where
  "injectAuthPools pools ic =
     ic\<lparr>InboundAuthConfig.JSAuthPool := pools ''js/auth'', InboundAuthConfig.LuaAuthPool := pools ''lua/auth''\<rparr>"

fun buildOverrides ::
    "'s mw_factory registry \<Rightarrow> (string \<rightharpoonup> PoolAcquirer) \<Rightarrow> UpstreamConfig list \<Rightarrow> (string \<rightharpoonup> 's middleware) \<Rightarrow>
     's \<Rightarrow> (goerr + (string \<rightharpoonup> 's middleware)) \<times> 's" where
  "buildOverrides reg pools [] ov w = (Inr ov, w)"
| "buildOverrides reg pools (up # ups) ov w =
     (if \<not> UpstreamConfig.Enabled up then buildOverrides reg pools ups ov w
      else (case InboundAuthOverride up of
              None \<Rightarrow> buildOverrides reg pools ups ov w
            | Some ic \<Rightarrow>
                (case newMiddleware reg (''inbound/'' @ InboundAuthConfig.Strategy ic) (injectAuthPools pools ic) w of
                   (Inl e, w1) \<Rightarrow>
                     (Inl (ErrWrap (''build inbound auth override for '' @ go_quote (UpstreamConfig.Name up)) e), w1)
                 | (Inr mw, w1) \<Rightarrow> buildOverrides reg pools ups (ov(UpstreamConfig.Name up \<mapsto> mw)) w1)))"

definition buildAuth ::
    "'w served_world mw_factory registry \<Rightarrow> (string \<Rightarrow> goval option) \<Rightarrow> (string \<rightharpoonup> PoolAcquirer) \<Rightarrow> ProxyConfig \<Rightarrow>
     'w served_world \<Rightarrow>
     (goerr + 'w served_world middleware option \<times> 'w served_world handler option) \<times> 'w served_world" where
  "buildAuth reg parse pools cfg w =
     (let strategy = InboundAuthConfig.Strategy (InboundAuth cfg) in
      if strategy = [] \<or> strategy = ''none'' then (Inr (None, None), w)
      else
        (case newMiddleware reg (''inbound/'' @ strategy) (injectAuthPools pools (InboundAuth cfg)) w of
           (Inl e, w1) \<Rightarrow> (Inl (ErrWrap ''build inbound auth middleware'' e), w1)
         | (Inr globalMW, w1) \<Rightarrow>
             (case buildOverrides reg pools (ProxyConfig.Upstreams cfg) Map.empty w1 of
                (Inl e, w2) \<Rightarrow> (Inl e, w2)
              | (Inr overrides, w2) \<Rightarrow>
                  (Inr (Some (DispatchMiddleware parse globalMW overrides
                                (\<lambda>mw t. managerAuthRequired (fst mw) t) (Some upstreamLookup)),
                        if strategy = ''jwt'' \<or> strategy = ''introspection''
                        then Some (WellKnownHandler cfg) else None), w2))))"

section \<open>Mounting\<close>

text \<open>\<^verbatim>\<open>HTTPHandlers\<close>: one streamable handler per endpoint that has a server now; the handler of the
  go-sdk for the server at an endpoint is the parameter \<^term>\<open>sdk\<close>.\<close>

definition HTTPHandlers :: "(string \<Rightarrow> 's handler) \<Rightarrow> 'w Manager \<Rightarrow> (string \<rightharpoonup> 's handler)" where
  "HTTPHandlers sdk m e = map_option (\<lambda>_. sdk e) (m_servers m e)"

definition mountHandlers :: "'s middleware option \<Rightarrow> (string \<rightharpoonup> 's handler) \<Rightarrow> (string \<rightharpoonup> 's handler)" where
  "mountHandlers auth raw e =
     (case raw e of None \<Rightarrow> None
      | Some h \<Rightarrow> Some (ClientIPMiddleware (case auth of None \<Rightarrow> h | Some mw \<Rightarrow> mw h)))"

section \<open>Readiness\<close>

type_synonym 's readiness = "'s \<Rightarrow> bool \<times> string"

definition RefresherSetIsReady :: "(string \<times> bool) list \<Rightarrow> bool \<times> string" where
  "RefresherSetIsReady hcs =
     (case find (\<lambda>(name, healthy). \<not> healthy) hcs of
        Some (name, _) \<Rightarrow> (False, ''upstream '' @ go_quote name @ '' has exceeded max_refresh_failures'')
      | None \<Rightarrow> (True, []))"

fun CompositeIsReady :: "'s readiness list \<Rightarrow> 's readiness" where
  "CompositeIsReady [] w = (True, [])"
| "CompositeIsReady (c # cs) w =
     (let (ready, reason) = c w in if \<not> ready then (False, reason) else CompositeIsReady cs w)"

definition readyz :: "'s readiness option \<Rightarrow> 's handler" where
  "readyz readiness r w =
     (case readiness of
        None \<Rightarrow> (\<lparr>rsp_status = 200, rsp_header = Map.empty, rsp_body = ''ok'' @ [CHR 0x0A]\<rparr>, w)
      | Some c \<Rightarrow>
          (let (ready, reason) = c w in
           if \<not> ready then (\<lparr>rsp_status = 503, rsp_header = Map.empty, rsp_body = reason @ [CHR 0x0A]\<rparr>, w)
           else (\<lparr>rsp_status = 200, rsp_header = Map.empty, rsp_body = ''ok'' @ [CHR 0x0A]\<rparr>, w)))"

section \<open>The manager as the registry reader\<close>

definition managerPublic :: "'w Manager \<Rightarrow> string \<Rightarrow> bool" where
  "managerPublic m t \<longleftrightarrow> (\<exists>r. m_registry m = Some r \<and> registryPublic r t)"

interpretation manager_reader: registry_reader managerAuthRequired managerPublic
  by unfold_locales
    (auto simp: managerAuthRequired_def managerPublic_def registryPublic_def registryAuthRequired_def split: option.splits)

text \<open>Whatever the overrides and whatever reload or refresh happened before, a request that is
  not a tool call of a tool whose current entry is marked public either carries a token the
  selected validator accepts, and then runs with that identity, or gets a response that
  does not depend on the handler at all.\<close>

theorem only_public_tools_bypass_auth:
  assumes "\<not> (snd (peekToolCallName parse req) \<and>
      (\<exists>r e. m_registry (fst mw) = Some r \<and> EntryForTool r (fst (peekToolCallName parse req)) = Some e \<and>
         \<not> AuthRequired e))"
  shows "let mid = authDispatch parse g ov (\<lambda>mw t. managerAuthRequired (fst mw) t) (Some upstreamLookup);
             (v, h) = selectedValidator parse g ov (Some upstreamLookup) req mw in
    (\<exists>info mw1. requestToken h req \<noteq> [] \<and> v (req_ctx req) (requestToken h req) mw = (Inr info, mw1) \<and>
       (\<forall>nxt. mid nxt req mw = nxt (req\<lparr>req_ctx := withTokenInfo info (req_ctx req)\<rparr>) mw1)) \<or>
    (\<exists>rsp mw1. \<forall>nxt. mid nxt req mw = (rsp, mw1))"
proof -
  have "\<not> (snd (peekToolCallName parse req) \<and> managerPublic (fst mw) (fst (peekToolCallName parse req)))"
    using assms by (auto simp: managerPublic_def registryPublic_def EntryForTool_def split: option.splits)
  from manager_reader.guarded_unless_public [of parse req fst mw, OF this, of g ov "Some upstreamLookup"]
  show ?thesis by (simp add: authenticated_or_refused_def Let_def case_prod_unfold)
qed

text \<open>A validator that knows one token, before an empty registry.\<close>

definition one_token :: "string \<Rightarrow> 's token_validator" where
  "one_token t ctx token w =
     (if token = t then (Inr (emptyTokenInfo\<lparr>Subject := ''u''\<rparr>), w) else (Inl (ErrText ''unknown''), w))"

lemma only_public_tools_bypass_auth_witness:
  "\<exists>rsp mw1. \<forall>nxt. authDispatch (\<lambda>_. None) (one_token ''t'', []) Map.empty (\<lambda>mw t. managerAuthRequired (fst mw) t)
     (Some upstreamLookup) nxt (sample_request [(''Authorization'', ''Bearer x'')] ''{}'') (sample_manager, ()) = (rsp, mw1)"
proof -
  let ?r = "sample_request [(''Authorization'', ''Bearer x'')] ''{}''"
  have t: "requestToken [] ?r = ''x''" by code_simp
  have p: "peekToolCallName (\<lambda>_. None) ?r = ([], False)" by (simp add: peekToolCallName_def sample_request_def)
  have s: "selectedValidator (\<lambda>_. None) (one_token ''t'', []) Map.empty (Some upstreamLookup) ?r (sample_manager, ()) =
      (one_token ''t'', [])" by (simp add: selectedValidator_def p)
  from only_public_tools_bypass_auth [of "\<lambda>_. None" ?r "(sample_manager, ())" "(one_token ''t'', [])" Map.empty]
  show ?thesis by (simp add: p s t Let_def one_token_def)
qed

section \<open>Endpoints added by a reload\<close>

text \<open>The handlers are mounted once, from the servers of the initial rebuild: a group endpoint that
  a later reload adds has a server in the manager but no route, whatever authentication is used.\<close>

theorem reloaded_endpoint_not_routed:
  assumes "m_servers m0 e = None" and "Rebuild env cfg m0 w = (None, m, w')"
    and "g \<in> set (m_groups m)" and "Endpoint g = e" and "distinct (map Endpoint (m_groups m))"
  shows "m_servers m e \<noteq> None \<and> mountHandlers auth (HTTPHandlers sdk m0) e = None"
proof -
  from assms(2) have "m_servers m e \<noteq> None"
  proof (rule Rebuild_success)
    fix vus r bs enf ctr store idxs tools limit m1
    assume c: "m = commitRebuild cfg vus r bs enf ctr store (idxs, tools, limit) m1" and st: "search_named tools"
    note sel = commit_sel [of cfg vus r bs enf ctr store idxs tools limit m1, folded c]
    have "case Some tools of None \<Rightarrow> True | Some st \<Rightarrow> search_named st" using st by simp
    from fold_applyGroup_tools [OF assms(5) [unfolded sel(1)] assms(3) [unfolded sel(1)] this, of "[]"
        "m_registry m1" "m_searchTools m1" r "m_servers m1"]
    show "m_servers m e \<noteq> None"
      using assms(4) unfolding sel(3) applyRegistryLocked_def by (auto simp: searchToolName_def)
  qed
  with assms(1) show ?thesis by (simp add: mountHandlers_def HTTPHandlers_def)
qed

lemma reloaded_endpoint_not_routed_witness:
  "\<exists>m. Rebuild sample_env (group_config ''one'' ''a'') sample_manager () = (None, m, ()) \<and>
     m_servers m ''/e'' \<noteq> None \<and> mountHandlers (None :: unit middleware option) (HTTPHandlers (\<lambda>e r w. (empty_response, w)) sample_manager) ''/e'' = None"
proof -
  let ?R = "Rebuild sample_env (group_config ''one'' ''a'') sample_manager ()"
  let ?g = "\<lparr>GroupConfig.Name = ''one'', Endpoint = ''/e'', GroupConfig.Upstreams = [''a''], Filter = []\<rparr>"
  have "fst ?R = None" "m_groups (fst (snd ?R)) = [?g]" "\<not> m_servers sample_manager ''/e'' \<noteq> None" by code_simp+
  then obtain m where R: "?R = (None, m, ())" "m_groups m = [?g]" "m_servers sample_manager ''/e'' = None"
    by (cases ?R) auto
  from reloaded_endpoint_not_routed [OF R(3,1), of ?g] R show ?thesis by simp
qed

end
