(* ===== verification/OpenApi.thy ===== *)
theory OpenApi
  imports ToolRegistry
begin

text \<open>
  OpenAPI documents as far as the tool generation reads them, and the derivation of a tool's
  arguments: \<^verbatim>\<open>pkg/openapi/inputschema.go\<close>, \<^verbatim>\<open>pkg/openapi/request_jq.go\<close> and the base name of
  \<^verbatim>\<open>pkg/openapi/naming.go\<close>. Schemas are shared and may be cyclic, so a document has a list of
  schemas and a reference is an index into it; \<^term>\<open>None\<close> stands for a nil reference or a reference
  with a nil value.
\<close>

section \<open>Documents\<close>

type_synonym schema_ref = "nat option"

record Schema =
  sch_Type :: "string list option"
  sch_Description :: string
  sch_Format :: string
  sch_Min :: "rat option"
  sch_Max :: "rat option"
  sch_MinLength :: nat
  sch_MaxLength :: "nat option"
  sch_Pattern :: string
  sch_Enum :: "goval list"
  sch_Example :: "goval option"
  sch_Extensions :: "goval gomap"
  sch_Default :: "goval option"
  sch_OneOf :: "schema_ref list"
  sch_AnyOf :: "schema_ref list"
  sch_AllOf :: "schema_ref list"
  sch_Properties :: "schema_ref gomap"
  sch_Required :: "string list"
  sch_Items :: schema_ref
  sch_MinItems :: nat

text \<open>The first \<^verbatim>\<open>None\<close> of a parameter's schema is a nil reference, the second a nil value. A
  parameter list has \<^term>\<open>None\<close> for a nil parameter. The body and the responses keep the schema of
  their \<^verbatim>\<open>application/json\<close> content.\<close>

record Parameter =
  par_Name :: string
  par_In :: string
  par_Description :: string
  par_Required :: bool
  par_Schema :: "schema_ref option"

record Operation =
  op_OperationID :: string
  op_Summary :: string
  op_Description :: string
  op_Extensions :: "goval gomap"
  op_Parameters :: "Parameter option list"
  op_JsonBody :: schema_ref
  op_Responses :: "(schema_ref gomap) option"

record PathItem =
  pi_Parameters :: "Parameter option list"
  pi_Operations :: "(Operation option) gomap"

record Document =
  doc_Paths :: "PathItem gomap"
  doc_Schemas :: "Schema list"

definition schema_at :: "Schema list \<Rightarrow> schema_ref \<Rightarrow> Schema option" where
  "schema_at H ref = (case ref of None \<Rightarrow> None | Some a \<Rightarrow> if a < length H then Some (H ! a) else None)"

definition zeroSchema :: Schema where
  "zeroSchema = \<lparr>sch_Type = None, sch_Description = [], sch_Format = [], sch_Min = None, sch_Max = None,
     sch_MinLength = 0, sch_MaxLength = None, sch_Pattern = [], sch_Enum = [], sch_Example = None,
     sch_Extensions = [], sch_Default = None, sch_OneOf = [], sch_AnyOf = [], sch_AllOf = [],
     sch_Properties = [], sch_Required = [], sch_Items = None, sch_MinItems = 0\<rparr>"

definition first_type :: "Schema \<Rightarrow> string" where
  "first_type s = (case sch_Type s of Some (t # ts) \<Rightarrow> t | _ \<Rightarrow> [])"

definition ext_string :: "goval gomap \<Rightarrow> string \<Rightarrow> string" where
  "ext_string exts k = (case map_of exts k of Some (GStr s) \<Rightarrow> s | _ \<Rightarrow> [])"

text \<open>Writing pairs into a Go map one after the other.\<close>

definition put_all :: "('k \<times> 'v) list \<Rightarrow> ('k \<rightharpoonup> 'v)" where
  "put_all kvs = fold (\<lambda>(k, v) m. m(k \<mapsto> v)) kvs Map.empty"

lemma put_all_map_of: "put_all kvs = map_of (rev kvs)"
  unfolding put_all_def by (induction kvs rule: rev_induct) (auto split: prod.splits)

text \<open>The JSON schema of a tool's arguments.\<close>

record JSchema =
  js_Type :: string
  js_Description :: string
  js_Format :: string
  js_Minimum :: "rat option"
  js_Maximum :: "rat option"
  js_MinLength :: "nat option"
  js_MaxLength :: "nat option"
  js_Pattern :: string
  js_Enum :: "goval list"

record InputObject =
  io_Properties :: "string \<rightharpoonup> JSchema"
  io_Required :: "string list"

section \<open>The base name of a tool\<close>

definition extractExtensionString :: "goval \<Rightarrow> string" where
  "extractExtensionString v = (case v of GStr s \<Rightarrow> s | _ \<Rightarrow> [])"

definition ToolBaseName :: "Operation \<Rightarrow> string \<Rightarrow> string \<Rightarrow> bool \<Rightarrow> SlugRulesConfig \<Rightarrow> string" where
  "ToolBaseName op method path hasPathParams rules =
     (let name = (case map_of (op_Extensions op) ''x-mcp-tool-name'' of
                    None \<Rightarrow> [] | Some v \<Rightarrow> extractExtensionString v)
      in if name \<noteq> [] then name
         else if op_OperationID op \<noteq> [] then sanitizeIdentifier (op_OperationID op) rules
         else Slugify method path hasPathParams rules)"

section \<open>Input schemas\<close>

definition openAPISchemaToJSONSchema :: "Schema option \<Rightarrow> JSchema" where
  "openAPISchemaToJSONSchema sv =
     (case sv of
        None \<Rightarrow> \<lparr>js_Type = [], js_Description = [], js_Format = [], js_Minimum = None, js_Maximum = None,
                 js_MinLength = None, js_MaxLength = None, js_Pattern = [], js_Enum = []\<rparr>
      | Some v \<Rightarrow>
          \<lparr>js_Type = first_type v, js_Description = sch_Description v, js_Format = sch_Format v,
           js_Minimum = sch_Min v, js_Maximum = sch_Max v,
           js_MinLength = (if sch_MinLength v \<noteq> 0 then Some (sch_MinLength v) else None),
           js_MaxLength = sch_MaxLength v, js_Pattern = sch_Pattern v, js_Enum = sch_Enum v\<rparr>)"

definition param_schema :: "Parameter \<Rightarrow> schema_ref" where
  "param_schema p = (case par_Schema p of None \<Rightarrow> None | Some ref \<Rightarrow> ref)"

definition paramSchemaFull :: "Schema list \<Rightarrow> Parameter \<Rightarrow> JSchema" where
  "paramSchemaFull H p =
     (let s = openAPISchemaToJSONSchema (schema_at H (param_schema p));
          s = (if js_Type s = [] then s\<lparr>js_Type := ''string''\<rparr> else s)
      in if par_Description p \<noteq> [] then s\<lparr>js_Description := par_Description p\<rparr> else s)"

definition arg_location :: "string \<Rightarrow> bool" where
  "arg_location loc \<longleftrightarrow> loc = ''path'' \<or> loc = ''query'' \<or> loc = ''header''"

definition op_params :: "Operation \<Rightarrow> Parameter list" where
  "op_params op = List.map_filter id (op_Parameters op)"

definition body_schema :: "Schema list \<Rightarrow> Operation \<Rightarrow> Schema option" where
  "body_schema H op = schema_at H (op_JsonBody op)"

text \<open>The map \<^verbatim>\<open>collected\<close> from a name to the occurrences appended under it, as an association list.\<close>

definition append_to :: "string \<Rightarrow> 'a \<Rightarrow> ('a list) gomap \<Rightarrow> ('a list) gomap" where
  "append_to k x m = AList.update k ((case map_of m k of None \<Rightarrow> [] | Some xs \<Rightarrow> xs) @ [x]) m"

definition collect :: "(string \<times> 'a) list \<Rightarrow> ('a list) gomap" where
  "collect kxs = fold (\<lambda>(k, x). append_to k x) kxs []"

record input_entry =
  ie_source :: string
  ie_schema :: JSchema
  ie_required :: bool

definition schemaEntries :: "Schema list \<Rightarrow> Operation \<Rightarrow> (string \<times> input_entry) list" where
  "schemaEntries H op =
     map (\<lambda>p. (par_Name p, \<lparr>ie_source = par_In p, ie_schema = paramSchemaFull H p,
                            ie_required = (par_Required p \<or> par_In p = ''path'')\<rparr>))
       (filter (\<lambda>p. arg_location (par_In p)) (op_params op)) @
     (case body_schema H op of
        None \<Rightarrow> []
      | Some b \<Rightarrow>
          List.map_filter (\<lambda>(n, ref).
              map_option (\<lambda>s. (n, \<lparr>ie_source = ''body'', ie_schema = openAPISchemaToJSONSchema (Some s),
                                 ie_required = (n \<in> set (sch_Required b))\<rparr>))
                (schema_at H ref))
            (sch_Properties b))"

definition inputKeys :: "string \<times> input_entry list \<Rightarrow> (string \<times> input_entry) list" where
  "inputKeys ne =
     (case ne of (name, [e]) \<Rightarrow> [(name, e)]
      | (name, es) \<Rightarrow> map (\<lambda>e. (name @ ''_'' @ ie_source e, e)) es)"

text \<open>The range over \<^verbatim>\<open>collected\<close> visits it in some order \<^term>\<open>\<sigma>\<close>.\<close>

definition DeriveInputSchema ::
    "((input_entry list) gomap \<Rightarrow> (input_entry list) gomap) \<Rightarrow> Schema list \<Rightarrow> Operation \<Rightarrow> InputObject" where
  "DeriveInputSchema \<sigma> H op =
     (let keyed = concat (map inputKeys (\<sigma> (collect (schemaEntries H op))))
      in \<lparr>io_Properties = put_all (map (\<lambda>(k, e). (k, ie_schema e)) keyed),
          io_Required = map fst (filter (\<lambda>(k, e). ie_required e) keyed)\<rparr>)"

section \<open>Argument names\<close>

definition argOccurrences :: "Schema list \<Rightarrow> Operation \<Rightarrow> (string \<times> string) list" where
  "argOccurrences H op =
     map (\<lambda>p. (par_Name p, par_In p)) (filter (\<lambda>p. arg_location (par_In p)) (op_params op)) @
     (case body_schema H op of None \<Rightarrow> [] | Some b \<Rightarrow> map (\<lambda>(n, ref). (n, ''body'')) (sch_Properties b))"

definition mapKey :: "string \<Rightarrow> string \<Rightarrow> string" where
  "mapKey location name = location @ '':'' @ name"

definition argKeys :: "string \<times> string list \<Rightarrow> (string \<times> string) list" where
  "argKeys nl =
     (case nl of (name, [l]) \<Rightarrow> [(mapKey l name, name)]
      | (name, ls) \<Rightarrow> map (\<lambda>l. (mapKey l name, name @ ''_'' @ l)) ls)"

definition DeriveArgMapping ::
    "((string list) gomap \<Rightarrow> (string list) gomap) \<Rightarrow> Schema list \<Rightarrow> Operation \<Rightarrow> (string \<rightharpoonup> string)" where
  "DeriveArgMapping \<sigma> H op =
     put_all (concat (map argKeys (\<sigma> (collect (argOccurrences H op)))))"

definition ArgName :: "(string \<rightharpoonup> string) \<Rightarrow> string \<Rightarrow> string \<Rightarrow> string" where
  "ArgName m location name = (case m (mapKey location name) of Some n \<Rightarrow> n | None \<Rightarrow> name)"

section \<open>The generated request expression\<close>

definition isJqIdentifier :: "string \<Rightarrow> bool" where
  "isJqIdentifier s =
     (case s of [] \<Rightarrow> False
      | c # cs \<Rightarrow> (is_lower c \<or> is_upper c \<or> c = CHR ''_'') \<and> list_all alnum_us cs)"

definition jqKey :: "string \<Rightarrow> string" where
  "jqKey name = (if isJqIdentifier name then name else go_quote name)"

definition jqAccess :: "string \<Rightarrow> string" where
  "jqAccess name = (if isJqIdentifier name then ''.'' @ name else ''.[\"'' @ name @ ''\"]'')"

definition paramSchemaType :: "Schema list \<Rightarrow> Parameter \<Rightarrow> string" where
  "paramSchemaType H p = (case schema_at H (param_schema p) of None \<Rightarrow> [] | Some s \<Rightarrow> first_type s)"

definition jqSection :: "string \<Rightarrow> string list \<Rightarrow> string list" where
  "jqSection label es = (if es = [] then [] else [label @ '': {'' @ join_with '', '' es @ ''}''])"

definition jqQueryEntry :: "Schema list \<Rightarrow> (string \<rightharpoonup> string) \<Rightarrow> Parameter \<Rightarrow> string" where
  "jqQueryEntry H m p =
     (let acc = jqAccess (ArgName m ''query'' (par_Name p));
          numeric = (paramSchemaType H p = ''integer'' \<or> paramSchemaType H p = ''number'')
      in jqKey (par_Name p) @ '': '' @
         (if \<not> numeric then acc
          else if par_Required p then ''('' @ acc @ '' | tostring)''
          else ''(if '' @ acc @ '' != null then ('' @ acc @ '' | tostring) else null end)''))"

definition GenerateRequestJq :: "Schema list \<Rightarrow> Operation \<Rightarrow> (string \<rightharpoonup> string) \<Rightarrow> string" where
  "GenerateRequestJq H op m =
     (let override = ext_string (op_Extensions op) ''x-mcp-request-transform'';
          located = (\<lambda>loc. filter (\<lambda>p. par_In p = loc) (op_params op));
          sections =
            jqSection ''path''
              (map (\<lambda>p. jqKey (par_Name p) @ '': ('' @ jqAccess (ArgName m ''path'' (par_Name p)) @ '' | tostring)'')
                 (located ''path'')) @
            jqSection ''query'' (map (jqQueryEntry H m) (located ''query'')) @
            jqSection ''body''
              (case body_schema H op of None \<Rightarrow> []
               | Some b \<Rightarrow> map (\<lambda>(n, ref). jqKey n @ '': '' @ jqAccess (ArgName m ''body'' n)) (sch_Properties b)) @
            jqSection ''headers''
              (map (\<lambda>p. jqKey (par_Name p) @ '': '' @ jqAccess (ArgName m ''header'' (par_Name p))) (located ''header''))
      in if override \<noteq> [] then override
         else if sections = [] then ''{}'' else ''{'' @ join_with '', '' sections @ ''}'')"


section \<open>Collecting occurrences\<close>

lemma append_to_keys: "distinct (map fst m) \<Longrightarrow> distinct (map fst (append_to k x m))"
  by (simp add: append_to_def distinct_update)

lemma map_of_append_to:
  "map_of (append_to k x m) n =
     (if n = k then Some ((case map_of m k of None \<Rightarrow> [] | Some xs \<Rightarrow> xs) @ [x]) else map_of m n)"
  by (simp add: append_to_def update_conv)

definition occs :: "'a list option \<Rightarrow> 'a list" where "occs m = (case m of None \<Rightarrow> [] | Some xs \<Rightarrow> xs)"

lemma collect_fold:
  assumes "distinct (map fst m)"
  shows "distinct (map fst (fold (\<lambda>(k, x). append_to k x) kxs m)) \<and>
    (\<forall>n. occs (map_of (fold (\<lambda>(k, x). append_to k x) kxs m) n) =
       occs (map_of m n) @ map snd (filter (\<lambda>(k, x). k = n) kxs)) \<and>
    (\<forall>n. map_of (fold (\<lambda>(k, x). append_to k x) kxs m) n = None \<longleftrightarrow> map_of m n = None \<and> n \<notin> fst ` set kxs)"
  using assms
proof (induction kxs arbitrary: m)
  case (Cons kx kxs)
  obtain k x where "kx = (k, x)" by (cases kx)
  with Cons.IH [OF append_to_keys [OF Cons.prems, of k x]] show ?case
    by (auto simp: map_of_append_to occs_def split: option.splits)
qed simp

lemma collect_distinct: "distinct (map fst (collect kxs))"
  using collect_fold [of "[]" kxs] by (simp add: collect_def)

lemma collect_lookup:
  "map_of (collect kxs) n = (if n \<in> fst ` set kxs then Some (map snd (filter (\<lambda>(k, x). k = n) kxs)) else None)"
  using collect_fold [of "[]" kxs] unfolding collect_def by (force simp: occs_def split: option.splits)

lemma collect_member:
  "(n, xs) \<in> set (collect kxs) \<longleftrightarrow> n \<in> fst ` set kxs \<and> xs = map snd (filter (\<lambda>(k, x). k = n) kxs)"
proof -
  have "(n, xs) \<in> set (collect kxs) \<longleftrightarrow> map_of (collect kxs) n = Some xs"
    using collect_distinct [of kxs] by (simp add: map_of_eq_Some_iff)
  then show ?thesis unfolding collect_lookup by (auto simp only: option.inject split: if_splits)
qed

section \<open>Keys of the argument map\<close>

definition locations :: "string set" where
  "locations = {''path'', ''query'', ''header'', ''body''}"

lemma argOccurrences_locations: "(n, l) \<in> set (argOccurrences H op) \<Longrightarrow> l \<in> locations"
  by (auto simp: argOccurrences_def locations_def arg_location_def split: option.splits)

lemma mapKey_inj:
  assumes "l \<in> locations" "l' \<in> locations" "mapKey l n = mapKey l' n'"
  shows "l = l' \<and> n = n'"
  using assms by (auto simp: locations_def mapKey_def)

text \<open>The name of an argument: its own name unless the name occurs more than once.\<close>

definition arg_spec :: "Schema list \<Rightarrow> Operation \<Rightarrow> string \<Rightarrow> string \<Rightarrow> string" where
  "arg_spec H op location name =
     (if length (filter (\<lambda>(n, l). n = name) (argOccurrences H op)) = 1 then name else name @ ''_'' @ location)"

lemma length_one: "length xs = 1 \<longleftrightarrow> (\<exists>x. xs = [x])"
  by (cases xs) auto

lemma argKeys_members:
  assumes "ls \<noteq> []"
  shows "set (argKeys (n, ls)) = {(mapKey l n, if length ls = 1 then n else n @ ''_'' @ l) | l. l \<in> set ls}"
proof (cases ls)
  case (Cons l ls')
  then show ?thesis by (cases ls') (auto simp: argKeys_def)
qed (use assms in simp)

lemma argKeys_all:
  assumes "set cs = set (collect (argOccurrences H op))"
  shows "set (concat (map argKeys cs)) =
    {(mapKey l n, arg_spec H op l n) | n l. (n, l) \<in> set (argOccurrences H op)}"
proof -
  have "set (argKeys (n, ls)) = {(mapKey l n, arg_spec H op l n) | l. (n, l) \<in> set (argOccurrences H op)}"
    if "(n, ls) \<in> set cs" for n ls
  proof -
    from that assms have m: "n \<in> fst ` set (argOccurrences H op)"
      and ls: "ls = map snd (filter (\<lambda>(k, x). k = n) (argOccurrences H op))" by (auto simp: collect_member)
    then have "ls \<noteq> []" by (auto simp: filter_empty_conv)
    have "set ls = {l. (n, l) \<in> set (argOccurrences H op)}" unfolding ls by force
    with argKeys_members [OF \<open>ls \<noteq> []\<close>, of n] show ?thesis by (simp add: arg_spec_def ls)
  qed
  then have k: "x \<in> set (argKeys (n, ls)) \<longleftrightarrow>
      (\<exists>l. x = (mapKey l n, arg_spec H op l n) \<and> (n, l) \<in> set (argOccurrences H op))"
    if "(n, ls) \<in> set cs" for x n ls using that by blast
  have "x \<in> set (concat (map argKeys cs)) \<longleftrightarrow> (\<exists>n ls. (n, ls) \<in> set cs \<and> x \<in> set (argKeys (n, ls)))" for x
    by auto
  then have "set (concat (map argKeys cs)) =
      {x. \<exists>n ls. (n, ls) \<in> set cs \<and> (\<exists>l. x = (mapKey l n, arg_spec H op l n) \<and> (n, l) \<in> set (argOccurrences H op))}"
    using k by blast
  moreover have "\<exists>ls. (n, ls) \<in> set cs" if "(n, l) \<in> set (argOccurrences H op)" for n l
    using that unfolding assms collect_member by force
  ultimately show ?thesis by blast
qed

lemma put_all_functional:
  assumes "\<And>v v'. (k, v) \<in> set kvs \<Longrightarrow> (k, v') \<in> set kvs \<Longrightarrow> v = v'"
  shows "put_all kvs k = Some v \<longleftrightarrow> (k, v) \<in> set kvs"
proof
  assume "put_all kvs k = Some v"
  then show "(k, v) \<in> set kvs" unfolding put_all_map_of by (auto dest: map_of_SomeD)
next
  assume "(k, v) \<in> set kvs"
  moreover obtain v' where "map_of (rev kvs) k = Some v'"
    using calculation by (cases "map_of (rev kvs) k") (auto simp: map_of_eq_None_iff image_iff)
  moreover from this have "(k, v') \<in> set kvs" by (auto dest: map_of_SomeD)
  ultimately show "put_all kvs k = Some v" unfolding put_all_map_of using assms by blast
qed

lemma put_all_dom: "put_all kvs k \<noteq> None \<longleftrightarrow> k \<in> fst ` set kvs"
  unfolding put_all_map_of by (simp add: map_of_eq_None_iff)

text \<open>The mapping does not depend on the order the map is visited in.\<close>

lemma ArgMapping_spec:
  assumes "permutes_range \<sigma>" and "(n, l) \<in> set (argOccurrences H op)"
  shows "ArgName (DeriveArgMapping \<sigma> H op) l n = arg_spec H op l n"
proof -
  let ?kvs = "concat (map argKeys (\<sigma> (collect (argOccurrences H op))))"
  note all = argKeys_all [OF permutes_range_set [OF assms(1)], of H op]
  have f: "v = v'" if "(k, v) \<in> set ?kvs" "(k, v') \<in> set ?kvs" for k v v'
    using that unfolding all using argOccurrences_locations mapKey_inj by blast
  have "(mapKey l n, arg_spec H op l n) \<in> set ?kvs" using assms(2) unfolding all by blast
  then have "DeriveArgMapping \<sigma> H op (mapKey l n) = Some (arg_spec H op l n)"
    unfolding DeriveArgMapping_def by (subst put_all_functional) (use f in blast)+
  then show ?thesis by (simp add: ArgName_def)
qed

section \<open>Keys of the input schema\<close>

definition entry_occ :: "string \<times> input_entry \<Rightarrow> string \<times> string" where
  "entry_occ ne = (fst ne, ie_source (snd ne))"

definition body_resolved :: "Schema list \<Rightarrow> Operation \<Rightarrow> bool" where
  "body_resolved H op \<longleftrightarrow>
     (case body_schema H op of None \<Rightarrow> True | Some b \<Rightarrow> list_all (\<lambda>(n, ref). schema_at H ref \<noteq> None) (sch_Properties b))"

lemma map_filter_total: "list_all (\<lambda>x. f x \<noteq> None) xs \<Longrightarrow> List.map_filter f xs = map (the \<circ> f) xs"
  by (induction xs) (auto simp: map_filter_simps)

lemma schemaEntries_occ:
  assumes "body_resolved H op"
  shows "map entry_occ (schemaEntries H op) = argOccurrences H op"
proof (cases "body_schema H op")
  case None
  then show ?thesis by (simp add: schemaEntries_def argOccurrences_def entry_occ_def comp_def)
next
  case (Some b)
  with assms have r: "list_all (\<lambda>(n, ref). schema_at H ref \<noteq> None) (sch_Properties b)" by (simp add: body_resolved_def)
  let ?f = "\<lambda>(n, ref). map_option (\<lambda>s. (n, \<lparr>ie_source = ''body'', ie_schema = openAPISchemaToJSONSchema (Some s),
      ie_required = (n \<in> set (sch_Required b))\<rparr>)) (schema_at H ref)"
  have "List.map_filter ?f (sch_Properties b) = map (the \<circ> ?f) (sch_Properties b)"
    by (rule map_filter_total) (use r in \<open>auto simp: list_all_iff\<close>)
  moreover have "map (entry_occ \<circ> (the \<circ> ?f)) (sch_Properties b) = map (\<lambda>(n, ref). (n, ''body'')) (sch_Properties b)"
    using r by (auto simp: list_all_iff entry_occ_def)
  ultimately show ?thesis
    using Some by (simp add: schemaEntries_def argOccurrences_def entry_occ_def [abs_def] comp_def)
qed

definition input_key :: "(string \<times> input_entry) list \<Rightarrow> string \<Rightarrow> input_entry \<Rightarrow> string" where
  "input_key nes name e =
     (if length (filter (\<lambda>(n, x). n = name) nes) = 1 then name else name @ ''_'' @ ie_source e)"

lemma inputKeys_members:
  "es \<noteq> [] \<Longrightarrow> set (inputKeys (n, es)) = {(if length es = 1 then n else n @ ''_'' @ ie_source e, e) | e. e \<in> set es}"
  by (cases es; cases "tl es") (auto simp: inputKeys_def)

lemma inputKeys_all:
  assumes "set cs = set (collect nes)"
  shows "set (concat (map inputKeys cs)) = {(input_key nes n e, e) | n e. (n, e) \<in> set nes}"
proof -
  have k: "x \<in> set (inputKeys (n, es)) \<longleftrightarrow> (\<exists>e. x = (input_key nes n e, e) \<and> (n, e) \<in> set nes)"
    if "(n, es) \<in> set cs" for x n es
  proof -
    from that assms have m: "n \<in> fst ` set nes" and es: "es = map snd (filter (\<lambda>(k, x). k = n) nes)"
      by (auto simp: collect_member)
    then have ne: "es \<noteq> []" by (auto simp: filter_empty_conv)
    have "set es = {e. (n, e) \<in> set nes}" unfolding es by force
    with inputKeys_members [OF ne, of n] show ?thesis by (auto simp: input_key_def es)
  qed
  have "x \<in> set (concat (map inputKeys cs)) \<longleftrightarrow> (\<exists>n es. (n, es) \<in> set cs \<and> x \<in> set (inputKeys (n, es)))" for x
    by auto
  then have "set (concat (map inputKeys cs)) =
      {x. \<exists>n es. (n, es) \<in> set cs \<and> (\<exists>e. x = (input_key nes n e, e) \<and> (n, e) \<in> set nes)}"
    using k by blast
  moreover have "\<exists>es. (n, es) \<in> set cs" if "(n, e) \<in> set nes" for n e
    using that unfolding assms collect_member by force
  ultimately show ?thesis by blast
qed

lemma input_key_arg_spec:
  assumes "body_resolved H op"
  shows "input_key (schemaEntries H op) n e = arg_spec H op (ie_source e) n"
proof -
  have "filter (\<lambda>(m, l). m = n) (argOccurrences H op) = map entry_occ (filter (\<lambda>(m, x). m = n) (schemaEntries H op))"
    unfolding schemaEntries_occ [OF assms, symmetric] filter_map
    by (simp add: comp_def entry_occ_def case_prod_unfold)
  then show ?thesis by (simp add: input_key_def arg_spec_def)
qed

section \<open>Properties\<close>


text \<open>Two different arguments of an operation get different names, unless an unrenamed name
  happens to be another name with a location suffix.\<close>

theorem arg_names_distinct:
  assumes "permutes_range \<sigma>" and "(n, l) \<in> set (argOccurrences H op)" and "(n', l') \<in> set (argOccurrences H op)"
    and "\<forall>m k. (m, k) \<in> set (argOccurrences H op) \<longrightarrow> m \<noteq> n @ ''_'' @ l \<and> m \<noteq> n' @ ''_'' @ l'"
    and "ArgName (DeriveArgMapping \<sigma> H op) l n = ArgName (DeriveArgMapping \<sigma> H op) l' n'"
  shows "n = n' \<and> l = l'"
proof -
  have e: "arg_spec H op l n = arg_spec H op l' n'"
    using assms(5) unfolding ArgMapping_spec [OF assms(1,2)] ArgMapping_spec [OF assms(1,3)] .
  have ls: "l \<in> locations" "l' \<in> locations" using assms(2,3) by (auto dest: argOccurrences_locations)
  have suffix_inj: "n = n' \<and> l = l'" if "n @ ''_'' @ l = n' @ ''_'' @ l'"
  proof -
    from that have "rev l @ ''_'' @ rev n = rev l' @ ''_'' @ rev n'"
      by (metis append.assoc rev_append rev_singleton_conv)
    with ls have "l = l'" by (auto simp: locations_def)
    with that show ?thesis by simp
  qed
  have single: "l = l'" if "n = n'" "length (filter (\<lambda>(m, k). m = n) (argOccurrences H op)) = 1"
  proof -
    from that(2) obtain x where "filter (\<lambda>(m, k). m = n) (argOccurrences H op) = [x]" unfolding length_one by blast
    moreover have "(n, l) \<in> set (filter (\<lambda>(m, k). m = n) (argOccurrences H op))"
      "(n, l') \<in> set (filter (\<lambda>(m, k). m = n) (argOccurrences H op))" using assms(2,3) that(1) by auto
    ultimately show ?thesis by auto
  qed
  let ?one = "\<lambda>n. length (filter (\<lambda>(m, k). m = n) (argOccurrences H op)) = 1"
  have a: "n \<noteq> n' @ ''_'' @ l'" "n' \<noteq> n @ ''_'' @ l" using assms(2-4) by blast+
  consider "?one n" "?one n'" | "\<not> ?one n" "\<not> ?one n'"
    using e a unfolding arg_spec_def by (cases "?one n"; cases "?one n'") simp_all
  then show ?thesis
  proof cases
    case 1
    with e have "n = n'" by (simp add: arg_spec_def)
    with single [OF this] 1 show ?thesis by blast
  next
    case 2
    with e have "n @ ''_'' @ l = n' @ ''_'' @ l'" by (simp only: arg_spec_def if_False)
    then show ?thesis by (rule suffix_inj)
  qed
qed

text \<open>An operation with a name in three places.\<close>

definition sample_param :: "string \<Rightarrow> string \<Rightarrow> Parameter" where
  "sample_param n l = \<lparr>par_Name = n, par_In = l, par_Description = [], par_Required = False, par_Schema = None\<rparr>"

definition sample_op :: Operation where
  "sample_op = \<lparr>op_OperationID = ''getIt'', op_Summary = [], op_Description = [], op_Extensions = [],
     op_Parameters = [Some (sample_param ''id'' ''path''), None, Some (sample_param ''id'' ''query''),
       Some (sample_param ''limit'' ''query'')],
     op_JsonBody = Some 0, op_Responses = None\<rparr>"

definition sample_schemas :: "Schema list" where
  "sample_schemas = [zeroSchema\<lparr>sch_Properties := [(''id'', Some 1)]\<rparr>, zeroSchema]"

lemma sample_occurrences:
  "argOccurrences sample_schemas sample_op = [(''id'', ''path''), (''id'', ''query''), (''limit'', ''query''), (''id'', ''body'')]"
  by code_simp

lemma id_permutes: "permutes_range id" "permutes_range rev"
  by (simp_all add: permutes_range_def)


lemma arg_names_distinct_witness:
  "ArgName (DeriveArgMapping id sample_schemas sample_op) ''path'' ''id'' \<noteq>
   ArgName (DeriveArgMapping id sample_schemas sample_op) ''body'' ''id''"
proof
  assume "ArgName (DeriveArgMapping id sample_schemas sample_op) ''path'' ''id'' =
    ArgName (DeriveArgMapping id sample_schemas sample_op) ''body'' ''id''"
  from arg_names_distinct [OF id_permutes(1) _ _ _ this] show False by (auto simp: sample_occurrences)
qed

end
