(* ===== verification/Generator.thy ===== *)
theory Generator
  imports OpenApi
begin

text \<open>
  Tool generation, \<^verbatim>\<open>pkg/openapi/generator.go\<close>: the walk over the operations of a document, the
  merge of path-level and operation-level parameters, the per-tool UI configuration, the
  lookup of an operation's YAML node, and the conflict filter at the end.
\<close>

section \<open>Generated tools\<close>

record ParamInfo =
  pin_Name :: string
  pin_Required :: bool
  pin_In :: string
  pin_SchemaType :: string

record GeneratedTool =
  gt_MCPTool :: Tool
  gt_Input :: InputObject
  gt_PrefixedName :: string
  gt_OriginalName :: string
  gt_Method :: string
  gt_PathTemplate :: string
  gt_PathParams :: "string list"
  gt_QueryParams :: "ParamInfo list"
  gt_HeaderParams :: "ParamInfo list"
  gt_Operation :: Operation
  gt_OperationNode :: "node option"
  gt_UIConfig :: "ToolUIConfig option"

section \<open>Parameters\<close>

definition same_param :: "Parameter \<Rightarrow> Parameter option \<Rightarrow> bool" where
  "same_param p q = (case q of None \<Rightarrow> False | Some q \<Rightarrow> par_Name q = par_Name p \<and> par_In q = par_In p)"

fun replace_first :: "('a \<Rightarrow> bool) \<Rightarrow> 'a \<Rightarrow> 'a list \<Rightarrow> 'a list" where
  "replace_first P y [] = []"
| "replace_first P y (x # xs) = (if P x then y # xs else x # replace_first P y xs)"

definition mergeParam :: "Parameter option \<Rightarrow> Parameter option list \<Rightarrow> Parameter option list" where
  "mergeParam ref merged =
     (case ref of None \<Rightarrow> merged
      | Some p \<Rightarrow> if list_ex (same_param p) merged then replace_first (same_param p) ref merged
                  else merged @ [ref])"

definition mergeParams :: "Parameter option list \<Rightarrow> Parameter option list \<Rightarrow> Parameter option list" where
  "mergeParams pathParams opParams = fold mergeParam opParams pathParams"

definition paramInfo :: "Schema list \<Rightarrow> Parameter \<Rightarrow> ParamInfo" where
  "paramInfo H p =
     \<lparr>pin_Name = par_Name p, pin_Required = par_Required p, pin_In = par_In p, pin_SchemaType = paramSchemaType H p\<rparr>"

definition classifyParams ::
    "Schema list \<Rightarrow> Parameter option list \<Rightarrow> string list \<times> ParamInfo list \<times> ParamInfo list" where
  "classifyParams H params =
     (let ps = List.map_filter id params
      in (map par_Name (filter (\<lambda>p. par_In p = ''path'') ps),
          map (paramInfo H) (filter (\<lambda>p. par_In p = ''query'') ps),
          map (paramInfo H) (filter (\<lambda>p. par_In p = ''header'') ps)))"

section \<open>YAML nodes\<close>

datatype yaml_kind = DocumentNode | SequenceNode | MappingNode | ScalarNode | AliasNode

record YamlNode =
  y_Kind :: yaml_kind
  y_Value :: string
  y_Content :: "node list"

fun mapping_lookup :: "(node \<Rightarrow> YamlNode) \<Rightarrow> string \<Rightarrow> node list \<Rightarrow> node option" where
  "mapping_lookup Y key (k # v # rest) = (if y_Value (Y k) = key then Some v else mapping_lookup Y key rest)"
| "mapping_lookup Y key _ = None"

definition yamlMappingGet :: "(node \<Rightarrow> YamlNode) \<Rightarrow> node option \<Rightarrow> string \<Rightarrow> node option" where
  "yamlMappingGet Y n key =
     (case n of None \<Rightarrow> None
      | Some a \<Rightarrow> if y_Kind (Y a) \<noteq> MappingNode then None else mapping_lookup Y key (y_Content (Y a)))"

definition FindOperationYAMLNode :: "(node \<Rightarrow> YamlNode) \<Rightarrow> node \<Rightarrow> string \<Rightarrow> string \<Rightarrow> node option" where
  "FindOperationYAMLNode Y rt path method =
     (let start = (if y_Kind (Y rt) = DocumentNode \<and> y_Content (Y rt) \<noteq> [] then hd (y_Content (Y rt)) else rt)
      in case yamlMappingGet Y (Some start) ''paths'' of
           None \<Rightarrow> None
         | Some ps \<Rightarrow>
             (case yamlMappingGet Y (Some ps) path of
                None \<Rightarrow> None
              | Some p \<Rightarrow> yamlMappingGet Y (Some p) (to_lower method)))"

section \<open>UI configuration\<close>

definition resolveToolUIConfig :: "Operation \<Rightarrow> AppUIConfig option \<Rightarrow> ToolUIConfig option" where
  "resolveToolUIConfig op upstreamDefault =
     (let opScript = ext_string (op_Extensions op) ''x-mcp-ui-script'';
          opStatic = ext_string (op_Extensions op) ''x-mcp-ui-static''
      in if opScript \<noteq> [] \<or> opStatic \<noteq> []
         then Some \<lparr>ToolUIConfig.Static = opStatic, ToolUIConfig.Script = opScript\<rparr>
         else (case upstreamDefault of
                 None \<Rightarrow> None
               | Some d \<Rightarrow>
                   if AppUIConfig.Script d \<noteq> [] \<or> AppUIConfig.Static d \<noteq> []
                   then Some \<lparr>ToolUIConfig.Static = AppUIConfig.Static d, ToolUIConfig.Script = AppUIConfig.Script d\<rparr>
                   else None))"

section \<open>The walk\<close>

definition op_disabled :: "Operation \<Rightarrow> bool" where
  "op_disabled op \<longleftrightarrow> map_of (op_Extensions op) ''x-mcp-enabled'' = Some (GBool False)"

text \<open>The JSON value of the derived schema object is the parameter \<^term>\<open>schema_json\<close>.\<close>

record gen_env =
  ge_order :: "(input_entry list) gomap \<Rightarrow> (input_entry list) gomap"
  ge_schema_json :: "InputObject \<Rightarrow> goval"

definition generateTool ::
    "gen_env \<Rightarrow> Schema list \<Rightarrow> UpstreamConfig \<Rightarrow> NamingConfig \<Rightarrow> string \<Rightarrow> PathItem \<Rightarrow> string \<Rightarrow> Operation \<Rightarrow>
     GeneratedTool" where
  "generateTool env H upstream naming path item method op =
     (let allParams = mergeParams (pi_Parameters item) (op_Parameters op);
          (pathParamNames, queryParams, headerParams) = classifyParams H allParams;
          baseName = ToolBaseName op method path (pathParamNames \<noteq> []) (DefaultSlugRules naming);
          prefixedName = Naming.PrefixedName baseName (UpstreamConfig.ToolPrefix upstream)
            (NamingConfig.Separator naming) (MaxLength naming);
          inputSchema = DeriveInputSchema (ge_order env) H op;
          description = (if op_Summary op = [] then op_Description op else op_Summary op);
          description = TruncateDescription description (DescriptionMaxLength naming) (DescriptionTruncationSuffix naming);
          uiCfg = resolveToolUIConfig op (AppUI upstream)
      in \<lparr>gt_MCPTool =
            \<lparr>Tool.Name = prefixedName, Tool.Description = description,
             Tool.InputSchema = ge_schema_json env inputSchema,
             Tool.Meta = (if uiCfg = None then []
               else [(''ui'', GMap [(''resourceUri'', GStr (''ui://'' @ prefixedName @ ''/app''))])])\<rparr>,
          gt_Input = inputSchema, gt_PrefixedName = prefixedName, gt_OriginalName = baseName,
          gt_Method = method, gt_PathTemplate = path, gt_PathParams = pathParamNames,
          gt_QueryParams = queryParams, gt_HeaderParams = headerParams,
          gt_Operation = op\<lparr>op_Parameters := allParams\<rparr>, gt_OperationNode = None, gt_UIConfig = uiCfg\<rparr>)"

definition itemOperations :: "string \<Rightarrow> PathItem \<Rightarrow> (string \<times> PathItem \<times> string \<times> Operation) list" where
  "itemOperations path item =
     List.map_filter (\<lambda>(method, op).
         case op of None \<Rightarrow> None
         | Some op \<Rightarrow> if op_disabled op then None else Some (path, item, method, op))
       (pi_Operations item)"

definition pathOperations :: "Document \<Rightarrow> (string \<times> PathItem \<times> string \<times> Operation) list" where
  "pathOperations doc = concat (map (\<lambda>(path, item). itemOperations path item) (doc_Paths doc))"

definition prefixedTool :: "GeneratedTool \<Rightarrow> PrefixedTool" where
  "prefixedTool gt = \<lparr>pt_PrefixedName = gt_PrefixedName gt, pt_OriginalPath = gt_PathTemplate gt,
     pt_OriginalMethod = gt_Method gt\<rparr>"

definition GenerateTools ::
    "gen_env \<Rightarrow> Document \<Rightarrow> UpstreamConfig \<Rightarrow> NamingConfig \<Rightarrow> naming_error + GeneratedTool list" where
  "GenerateTools env doc upstream naming =
     (let tools = map (\<lambda>(path, item, method, op).
              generateTool env (doc_Schemas doc) upstream naming path item method op) (pathOperations doc);
          prefixedList = map prefixedTool tools
      in case DetectConflicts prefixedList (ConflictResolution naming) of
           Inl e \<Rightarrow> Inl e
         | Inr surviving \<Rightarrow>
             Inr (if length surviving \<noteq> length prefixedList
                  then filter (\<lambda>gt. prefixedTool gt \<in> set surviving) tools
                  else tools))"

section \<open>The names of the generated tools\<close>

lemma generateTool_sel [simp]:
  "gt_PathTemplate (generateTool env H up nm path item method op) = path"
  "gt_Method (generateTool env H up nm path item method op) = method"
  "Tool.Name (gt_MCPTool (generateTool env H up nm path item method op)) =
     gt_PrefixedName (generateTool env H up nm path item method op)"
  "gt_Input (generateTool env H up nm path item method op) = DeriveInputSchema (ge_order env) H op"
  "op_Parameters (gt_Operation (generateTool env H up nm path item method op)) =
     mergeParams (pi_Parameters item) (op_Parameters op)"
  "gt_PathParams (generateTool env H up nm path item method op) =
     map par_Name (filter (\<lambda>p. par_In p = ''path'') (List.map_filter id (mergeParams (pi_Parameters item) (op_Parameters op))))"
  by (simp_all add: generateTool_def classifyParams_def Let_def)

lemma generateTool_name_length:
  "0 < MaxLength nm \<Longrightarrow> int (length (gt_PrefixedName (generateTool env H up nm path item method op))) \<le> MaxLength nm"
  by (simp add: generateTool_def classifyParams_def Let_def PrefixedName_length)

text \<open>The paths of a document and the methods of a path are the keys of Go maps.\<close>

definition doc_maps :: "Document \<Rightarrow> bool" where
  "doc_maps doc \<longleftrightarrow> distinct (map fst (doc_Paths doc)) \<and>
     list_all (\<lambda>(path, item). distinct (map fst (pi_Operations item))) (doc_Paths doc)"

definition op_key :: "string \<times> PathItem \<times> string \<times> Operation \<Rightarrow> string \<times> string" where
  "op_key x = (fst x, fst (snd (snd x)))"

lemma itemOperations_keys:
  assumes "distinct (map fst (pi_Operations item))"
  shows "distinct (map op_key (itemOperations path item))"
    "x \<in> set (itemOperations path item) \<Longrightarrow> fst (op_key x) = path"
proof -
  have "distinct (map fst ops) \<Longrightarrow>
      distinct (map op_key (List.map_filter (\<lambda>(method, op). case op of None \<Rightarrow> None
         | Some op \<Rightarrow> if op_disabled op then None else Some (path, item, method, op)) ops)) \<and>
      (\<forall>x \<in> set (List.map_filter (\<lambda>(method, op). case op of None \<Rightarrow> None
         | Some op \<Rightarrow> if op_disabled op then None else Some (path, item, method, op)) ops).
         fst (op_key x) = path \<and> snd (op_key x) \<in> fst ` set ops)" for ops :: "(string \<times> Operation option) list"
  proof (induction ops)
    case (Cons mq ops)
    obtain m q where "mq = (m, q)" by (cases mq)
    with Cons show ?case
      by (cases q) (auto simp: map_filter_simps op_key_def image_iff)
  qed (simp add: map_filter_simps)
  with assms show "distinct (map op_key (itemOperations path item))"
    "x \<in> set (itemOperations path item) \<Longrightarrow> fst (op_key x) = path"
    unfolding itemOperations_def by blast+
qed

lemma distinct_map_append_keys:
  assumes "distinct (map f xs)" "distinct (map f ys)"
    and "\<forall>x \<in> set xs. fst (f x) = a" "\<forall>y \<in> set ys. fst (f y) \<noteq> a"
  shows "distinct (map f (xs @ ys))"
  using assms
proof (induction xs)
  case (Cons x xs)
  have "f x \<notin> set (map f ys)"
  proof
    assume "f x \<in> set (map f ys)"
    then obtain y where "y \<in> set ys" "f x = f y" by auto
    with Cons.prems(3,4) show False by auto
  qed
  with Cons show ?case by auto
qed simp

lemma pathOperations_distinct:
  assumes "doc_maps doc"
  shows "distinct (map op_key (pathOperations doc))"
proof -
  have "distinct (map op_key (concat (map (\<lambda>(path, item). itemOperations path item) ps))) \<and>
      (\<forall>x \<in> set (concat (map (\<lambda>(path, item). itemOperations path item) ps)). fst (op_key x) \<in> fst ` set ps)"
    if "distinct (map fst ps)" "list_all (\<lambda>(path, item). distinct (map fst (pi_Operations item))) ps" for ps
    using that
  proof (induction ps)
    case (Cons pi ps)
    obtain path item where pi: "pi = (path, item)" by (cases pi)
    from Cons.prems pi have d: "distinct (map fst (pi_Operations item))" and np: "path \<notin> fst ` set ps" by simp_all
    note k = itemOperations_keys [OF d, where path = path]
    let ?rest = "concat (map (\<lambda>(path, item). itemOperations path item) ps)"
    from Cons have IH: "distinct (map op_key ?rest)" "\<forall>x \<in> set ?rest. fst (op_key x) \<in> fst ` set ps" by simp_all
    have c: "concat (map (\<lambda>(path, item). itemOperations path item) (pi # ps)) = itemOperations path item @ ?rest"
      by (simp add: pi)
    have e: "\<forall>x \<in> set (itemOperations path item). fst (op_key x) = path" using k(2) by blast
    have "\<forall>x \<in> set ?rest. fst (op_key x) \<noteq> path"
    proof
      fix x assume "x \<in> set ?rest"
      with IH(2) have "fst (op_key x) \<in> fst ` set ps" ..
      with np show "fst (op_key x) \<noteq> path" by metis
    qed
    with k(1) IH(1) e have "distinct (map op_key (itemOperations path item @ ?rest))" by (rule distinct_map_append_keys)
    moreover have "\<forall>x \<in> set (itemOperations path item @ ?rest). fst (op_key x) \<in> fst ` set (pi # ps)"
    proof
      fix x assume "x \<in> set (itemOperations path item @ ?rest)"
      then consider "x \<in> set (itemOperations path item)" | "x \<in> set ?rest" unfolding set_append by (elim UnE)
      then show "fst (op_key x) \<in> fst ` set (pi # ps)"
      proof cases
        case 1
        with e have "fst (op_key x) = path" ..
        then show ?thesis by (simp add: pi)
      next
        case 2
        with IH(2) have "fst (op_key x) \<in> fst ` set ps" ..
        then show ?thesis by (simp only: list.simps(15) image_insert insert_iff simp_thms)
      qed
    qed
    ultimately show ?case unfolding c by (rule conjI)
  qed simp
  with assms show ?thesis unfolding doc_maps_def pathOperations_def by blast
qed

definition gen_tools :: "gen_env \<Rightarrow> Document \<Rightarrow> UpstreamConfig \<Rightarrow> NamingConfig \<Rightarrow> GeneratedTool list" where
  "gen_tools env doc upstream naming =
     map (\<lambda>(path, item, method, op). generateTool env (doc_Schemas doc) upstream naming path item method op)
       (pathOperations doc)"

lemma GenerateTools_gen:
  "GenerateTools env doc upstream naming =
     (case DetectConflicts (map prefixedTool (gen_tools env doc upstream naming)) (ConflictResolution naming) of
        Inl e \<Rightarrow> Inl e
      | Inr surviving \<Rightarrow>
          Inr (if length surviving \<noteq> length (gen_tools env doc upstream naming)
               then filter (\<lambda>gt. prefixedTool gt \<in> set surviving) (gen_tools env doc upstream naming)
               else gen_tools env doc upstream naming))"
  unfolding GenerateTools_def Let_def gen_tools_def [symmetric] by (simp only: length_map)

lemma prefixed_distinct:
  assumes "doc_maps doc"
  shows "distinct (map prefixedTool (gen_tools env doc upstream naming))"
proof -
  have "map (\<lambda>t. (pt_OriginalPath t, pt_OriginalMethod t)) (map prefixedTool (gen_tools env doc upstream naming)) =
      map op_key (pathOperations doc)"
    unfolding gen_tools_def map_map by (rule map_cong [OF refl]) (simp add: prefixedTool_def op_key_def case_prod_unfold)
  then show ?thesis using pathOperations_distinct [OF assms] by (metis distinct_map)
qed

text \<open>C27: the tools generated from a document have pairwise distinct names, whatever the conflict
  strategy that succeeds, and come from enabled operations in document order; with a positive
  maximum no name is longer than it.\<close>

theorem generated_names_distinct:
  assumes "GenerateTools env doc upstream naming = Inr tools" and "doc_maps doc"
  shows "distinct (map gt_PrefixedName tools) \<and> subseq tools (gen_tools env doc upstream naming) \<and>
    (\<forall>gt \<in> set tools. \<exists>path item method op. (path, item, method, op) \<in> set (pathOperations doc) \<and> \<not> op_disabled op \<and>
       gt = generateTool env (doc_Schemas doc) upstream naming path item method op \<and>
       (0 < MaxLength naming \<longrightarrow> int (length (gt_PrefixedName gt)) \<le> MaxLength naming))"
proof -
  let ?all = "gen_tools env doc upstream naming"
  from assms(1) obtain surviving where
    s: "DetectConflicts (map prefixedTool ?all) (ConflictResolution naming) = Inr surviving"
    and t: "tools = (if length surviving \<noteq> length ?all then filter (\<lambda>gt. prefixedTool gt \<in> set surviving) ?all else ?all)"
    by (auto simp: GenerateTools_gen split: sum.splits)
  note d = DetectConflicts_distinct [OF s]
  have names: "map gt_PrefixedName ts = map pt_PrefixedName (map prefixedTool ts)" for ts
    by (simp add: prefixedTool_def)
  have sub: "subseq tools ?all" unfolding t by simp
  have "distinct (map gt_PrefixedName tools)"
  proof (cases "length surviving = length ?all")
    case True
    with d have "surviving = map prefixedTool ?all" by (metis length_map subseq_same_length)
    with d True t show ?thesis unfolding names by simp
  next
    case False
    then have f: "map prefixedTool tools = filter (\<lambda>p. p \<in> set surviving) (map prefixedTool ?all)"
      unfolding t by (simp add: filter_map comp_def)
    have "inj_on pt_PrefixedName (set surviving)" using d by (simp add: distinct_map)
    then have "inj_on pt_PrefixedName (set (map prefixedTool tools))" by (rule inj_on_subset) (simp only: f, auto)
    moreover have "distinct (map prefixedTool tools)"
      unfolding f using prefixed_distinct [OF assms(2)] by (rule distinct_filter)
    ultimately show ?thesis unfolding names distinct_map by simp
  qed
  moreover have "\<exists>path item verb opn. (path, item, verb, opn) \<in> set (pathOperations doc) \<and> \<not> op_disabled opn \<and>
      gt = generateTool env (doc_Schemas doc) upstream naming path item verb opn \<and>
      (0 < MaxLength naming \<longrightarrow> int (length (gt_PrefixedName gt)) \<le> MaxLength naming)" if "gt \<in> set tools" for gt
  proof -
    from that sub have "gt \<in> set ?all" by (metis subseq_conv_nths notin_set_nthsI)
    then obtain path item verb opn where o: "(path, item, verb, opn) \<in> set (pathOperations doc)"
      "gt = generateTool env (doc_Schemas doc) upstream naming path item verb opn" by (auto simp: gen_tools_def)
    then have "\<not> op_disabled opn" 
      by (auto simp: pathOperations_def itemOperations_def map_filter_def split: option.splits if_splits)
    with o generateTool_name_length show ?thesis by blast
  qed
  ultimately show ?thesis using sub by blast
qed

section \<open>Path-level parameters\<close>

text \<open>A parameter is kept by the merge, in its own version or the operation's.\<close>

lemma mergeParam_keeps:
  "Some p \<in> set ps \<Longrightarrow> \<exists>q. Some q \<in> set (mergeParam r ps) \<and> par_Name q = par_Name p \<and> par_In q = par_In p"
proof -
  have "\<exists>q. Some q \<in> set (replace_first (same_param r') (Some r') ps) \<and> par_Name q = par_Name p \<and> par_In q = par_In p"
    if "Some p \<in> set ps" for r'
    using that by (induction ps) (auto simp: same_param_def)
  then show "Some p \<in> set ps \<Longrightarrow> ?thesis" by (auto simp: mergeParam_def split: option.splits)
qed

lemma mergeParams_keeps:
  "Some p \<in> set ps \<Longrightarrow> \<exists>q. Some q \<in> set (mergeParams ps rs) \<and> par_Name q = par_Name p \<and> par_In q = par_In p"
  unfolding mergeParams_def
proof (induction rs arbitrary: p ps)
  case (Cons r rs)
  from mergeParam_keeps [OF Cons.prems, of r] obtain q
    where "Some q \<in> set (mergeParam r ps)" "par_Name q = par_Name p" "par_In q = par_In p" by blast
  with Cons.IH [of q "mergeParam r ps"] show ?case by simp
qed auto

lemma input_names:
  assumes "permutes_range \<sigma>" and "k \<in> dom (io_Properties (DeriveInputSchema \<sigma> H op))"
  shows "\<exists>n e. (n, e) \<in> set (schemaEntries H op) \<and> (k = n \<or> k = n @ ''_'' @ ie_source e)"
proof -
  note all = inputKeys_all [OF permutes_range_set [OF assms(1)], of "schemaEntries H op"]
  let ?kes = "concat (map inputKeys (\<sigma> (collect (schemaEntries H op))))"
  from assms(2) have "put_all (map (\<lambda>(k, e). (k, ie_schema e)) ?kes) k \<noteq> None"
    by (simp add: DeriveInputSchema_def Let_def dom_def del: map_map map_concat)
  then have "k \<in> fst ` set (map (\<lambda>(k, e). (k, ie_schema e)) ?kes)" by (simp only: put_all_dom)
  then obtain x where "x \<in> set ?kes" "fst x = k" by (auto simp del: set_concat)
  then obtain n e where "(n, e) \<in> set (schemaEntries H op)" "k = input_key (schemaEntries H op) n e" unfolding all by auto
  then show ?thesis unfolding input_key_def by metis
qed

text \<open>The request of a generated tool reads a path-level parameter that its input schema does
  not advertise: the schema is derived from the operation alone, the parameters of the path
  from the merged list. A client that follows the schema cannot fill the parameter.\<close>

theorem path_level_parameter_not_advertised:
  assumes "permutes_range (ge_order env)" "permutes_range \<sigma>"
    and "Some p \<in> set (pi_Parameters item)" "par_In p = ''path''" "n = par_Name p"
    and "\<forall>k \<in> {n, n @ ''_path''}. \<forall>(n', e) \<in> set (schemaEntries H op). k \<noteq> n' \<and> k \<noteq> n' @ ''_'' @ ie_source e"
  shows "let gt = generateTool env H upstream naming path item method op;
             arg = ArgName (DeriveArgMapping \<sigma> H (gt_Operation gt)) ''path'' n
    in n \<in> set (gt_PathParams gt) \<and> arg \<notin> dom (io_Properties (gt_Input gt))"
proof -
  let ?ps = "mergeParams (pi_Parameters item) (op_Parameters op)"
  let ?op = "gt_Operation (generateTool env H upstream naming path item method op)"
  from mergeParams_keeps [OF assms(3)] obtain q
    where q: "Some q \<in> set ?ps" "par_Name q = n" "par_In q = ''path''" using assms(4,5) by fastforce
  then have mem: "q \<in> set (List.map_filter id ?ps)" by (force simp: map_filter_def)
  with q have "n \<in> set (gt_PathParams (generateTool env H upstream naming path item method op))" by auto
  moreover have "(n, ''path'') \<in> set (argOccurrences H ?op)"
    using mem q by (force simp: argOccurrences_def op_params_def arg_location_def)
  from ArgMapping_spec [OF assms(2) this]
  have "ArgName (DeriveArgMapping \<sigma> H ?op) ''path'' n \<in> {n, n @ ''_path''}" by (simp add: arg_spec_def)
  with assms(6) have "ArgName (DeriveArgMapping \<sigma> H ?op) ''path'' n \<notin> dom (io_Properties (DeriveInputSchema (ge_order env) H op))"
    using input_names [OF assms(1)] by fastforce
  ultimately show ?thesis by (simp add: Let_def)
qed

section \<open>Witnesses\<close>

definition sample_gen :: gen_env where
  "sample_gen = \<lparr>ge_order = id, ge_schema_json = (\<lambda>io. GMap [])\<rparr>"

definition list_op :: Operation where
  "list_op = \<lparr>op_OperationID = [], op_Summary = [], op_Description = [], op_Extensions = [],
     op_Parameters = [Some (sample_param ''limit'' ''query'')], op_JsonBody = None, op_Responses = None\<rparr>"

definition sample_item :: PathItem where
  "sample_item = \<lparr>pi_Parameters = [Some (sample_param ''id'' ''path'')],
     pi_Operations = [(''GET'', Some list_op), (''POST'', Some (list_op\<lparr>op_Extensions := [(''x-mcp-enabled'', GBool False)]\<rparr>)),
       (''PUT'', Some (list_op\<lparr>op_OperationID := ''getIt''\<rparr>))]\<rparr>"

definition sample_doc :: Document where
  "sample_doc = \<lparr>doc_Paths = [(''/pets/{id}'', sample_item),
      (''/toys'', sample_item\<lparr>pi_Operations := [(''GET'', Some (list_op\<lparr>op_OperationID := ''getIt''\<rparr>))]\<rparr>)],
     doc_Schemas = []\<rparr>"

definition first_wins_naming :: NamingConfig where
  "first_wins_naming = zeroNamingConfig\<lparr>ConflictResolution := ''first_wins''\<rparr>"

lemma generated_names_distinct_witness:
  "\<exists>tools. GenerateTools sample_gen sample_doc zeroUpstreamConfig first_wins_naming = Inr tools \<and>
     length tools = 2 \<and> distinct (map gt_PrefixedName tools)"
proof -
  have "(case GenerateTools sample_gen sample_doc zeroUpstreamConfig first_wins_naming of
      Inl e \<Rightarrow> False | Inr tools \<Rightarrow> length tools = 2)" by code_simp
  then obtain tools where t: "GenerateTools sample_gen sample_doc zeroUpstreamConfig first_wins_naming = Inr tools"
    "length tools = 2" by (auto split: sum.splits)
  have "doc_maps sample_doc" by code_simp
  from generated_names_distinct [OF t(1) this] t show ?thesis by blast
qed

lemma path_level_parameter_not_advertised_witness:
  "let gt = generateTool sample_gen [] zeroUpstreamConfig first_wins_naming ''/pets/{id}'' sample_item ''GET'' list_op
   in ''id'' \<in> set (gt_PathParams gt) \<and>
      ArgName (DeriveArgMapping id [] (gt_Operation gt)) ''path'' ''id'' \<notin> dom (io_Properties (gt_Input gt))"
proof -
  have o: "permutes_range (ge_order sample_gen)" by (simp add: sample_gen_def id_permutes)
  have m: "Some (sample_param ''id'' ''path'') \<in> set (pi_Parameters sample_item)" by (simp add: sample_item_def)
  have l: "par_In (sample_param ''id'' ''path'') = ''path''" "''id'' = par_Name (sample_param ''id'' ''path'')" by code_simp+
  have "list_all (\<lambda>k. list_all (\<lambda>(n', e). k \<noteq> n' \<and> k \<noteq> n' @ ''_'' @ ie_source e) (schemaEntries [] list_op))
      [''id'', ''id'' @ ''_path'']" by code_simp
  then have a: "\<forall>k \<in> {''id'', ''id'' @ ''_path''}. \<forall>(n', e) \<in> set (schemaEntries [] list_op).
      k \<noteq> n' \<and> k \<noteq> n' @ ''_'' @ ie_source e" by (simp add: list_all_iff)
  show ?thesis
    using path_level_parameter_not_advertised [OF o id_permutes(1) m l a,
      of zeroUpstreamConfig first_wins_naming "''/pets/{id}''" "''GET''"] by (simp only: Let_def) simp
qed

end
