(* ===== verification/Synthetic.thy ===== *)
theory Synthetic
  imports OpenApi
begin

text \<open>
  Synthetic values for the dry run of compiled tools, \<^verbatim>\<open>pkg/openapi/synthetic.go\<close>. A schema
  graph may be cyclic, so \<^verbatim>\<open>Generate\<close> carries the set of schema addresses on the current path;
  the addresses are the indices of the document's schema list. The recursion is bounded by a
  number of nested calls, and one more than the number of schemas is enough for every graph.

  The faker and the regex generator are parameters that thread a world of type \<^typ>\<open>'w\<close>, so
  that two calls may differ. A float64 is its exact value; the rounding of one addition is
  left out.
\<close>

section \<open>Parameters\<close>

record 'w faker =
  fk_email :: "'w \<Rightarrow> string \<times> 'w"
  fk_uuid :: "'w \<Rightarrow> string \<times> 'w"
  fk_now :: "'w \<Rightarrow> string \<times> 'w"
  fk_regex :: "string \<Rightarrow> 'w \<Rightarrow> string option \<times> 'w"

text \<open>A call of the generator: \<^term>\<open>None\<close> when the bound on nested calls is exceeded.\<close>

type_synonym 'w generator = "nat set \<Rightarrow> nat \<Rightarrow> 'w \<Rightarrow> (goval \<times> 'w) option"

definition gen_ref :: "Schema list \<Rightarrow> 'w generator \<Rightarrow> nat set \<Rightarrow> schema_ref \<Rightarrow> 'w \<Rightarrow> (goval \<times> 'w) option" where
  "gen_ref H gen V ref w =
     (case ref of None \<Rightarrow> Some (GNil, w)
      | Some a \<Rightarrow> if a < length H then gen V a w else Some (GNil, w))"

section \<open>Scalars\<close>

definition go_trunc :: "rat \<Rightarrow> int" where
  "go_trunc r = (if 0 \<le> r then \<lfloor>r\<rfloor> else \<lceil>r\<rceil>)"

definition map_fst :: "('a \<Rightarrow> 'b) \<Rightarrow> 'a \<times> 'w \<Rightarrow> 'b \<times> 'w" where
  "map_fst f p = (f (fst p), snd p)"

definition example_string :: string where
  "example_string = ''example_string''"

definition generateString :: "'w faker \<Rightarrow> Schema \<Rightarrow> 'w \<Rightarrow> string \<times> 'w" where
  "generateString fk s w =
     (if sch_Format s = ''email'' then fk_email fk w
      else if sch_Format s = ''uuid'' then fk_uuid fk w
      else if sch_Format s = ''date-time'' then fk_now fk w
      else if sch_Format s = ''uri'' then (''https://example.com/resource'', w)
      else if sch_Pattern s \<noteq> [] then
        map_fst (\<lambda>r. case r of None \<Rightarrow> example_string | Some v \<Rightarrow> v) (fk_regex fk (sch_Pattern s) w)
      else (if 0 < sch_MinLength s \<and> length example_string < sch_MinLength s
            then example_string @ replicate (sch_MinLength s - length example_string) CHR ''a''
            else example_string, w))"

definition generateInteger :: "Schema \<Rightarrow> goval" where
  "generateInteger s =
     (case sch_Min s of Some m \<Rightarrow> GNum (of_int (go_trunc m + 1)) | None \<Rightarrow> GNum 1)"

definition generateNumber :: "Schema \<Rightarrow> goval" where
  "generateNumber s =
     (case sch_Min s of
        Some m \<Rightarrow> (let v = m + 1 / 10 in GNum (if v < 1 then 1 else v))
      | None \<Rightarrow> GNum 1)"

section \<open>Objects and arrays\<close>

fun gen_fields ::
    "Schema list \<Rightarrow> 'w generator \<Rightarrow> nat set \<Rightarrow> schema_ref gomap \<Rightarrow> goval gomap \<Rightarrow> 'w \<Rightarrow>
     (goval gomap \<times> 'w) option" where
  "gen_fields H gen V [] result w = Some (result, w)"
| "gen_fields H gen V ((name, ref) # fs) result w =
     (case gen_ref H gen V ref w of
        None \<Rightarrow> None
      | Some (v, w) \<Rightarrow> gen_fields H gen V fs (AList.update name v result) w)"

definition inject_required :: "string list \<Rightarrow> goval gomap \<Rightarrow> goval gomap" where
  "inject_required req result =
     fold (\<lambda>r m. if map_of m r = None then AList.update r GNil m else m) req result"

definition generateObject :: "Schema list \<Rightarrow> 'w generator \<Rightarrow> nat set \<Rightarrow> Schema \<Rightarrow> 'w \<Rightarrow> (goval \<times> 'w) option" where
  "generateObject H gen V s w =
     (case gen_fields H gen V (sch_Properties s) [] w of
        None \<Rightarrow> None
      | Some (result, w) \<Rightarrow> Some (GMap (inject_required (sch_Required s) result), w))"

fun gen_items :: "Schema list \<Rightarrow> 'w generator \<Rightarrow> nat set \<Rightarrow> schema_ref \<Rightarrow> nat \<Rightarrow> 'w \<Rightarrow> (goval list \<times> 'w) option" where
  "gen_items H gen V ref 0 w = Some ([], w)"
| "gen_items H gen V ref (Suc n) w =
     (case gen_ref H gen V ref w of
        None \<Rightarrow> None
      | Some (v, w) \<Rightarrow>
          (case gen_items H gen V ref n w of
             None \<Rightarrow> None
           | Some (vs, w) \<Rightarrow> Some (v # vs, w)))"

definition generateArray :: "Schema list \<Rightarrow> 'w generator \<Rightarrow> nat set \<Rightarrow> Schema \<Rightarrow> 'w \<Rightarrow> (goval \<times> 'w) option" where
  "generateArray H gen V s w =
     map_option (map_fst GList) (gen_items H gen V (sch_Items s) (max 1 (sch_MinItems s)) w)"

definition generateByType ::
    "'w faker \<Rightarrow> Schema list \<Rightarrow> 'w generator \<Rightarrow> nat set \<Rightarrow> Schema \<Rightarrow> 'w \<Rightarrow> (goval \<times> 'w) option" where
  "generateByType fk H gen V s w =
     (let t = first_type s
      in if t = ''string'' then Some (map_fst GStr (generateString fk s w))
         else if t = ''integer'' then Some (generateInteger s, w)
         else if t = ''number'' then Some (generateNumber s, w)
         else if t = ''boolean'' then Some (GBool False, w)
         else if t = ''object'' then generateObject H gen V s w
         else if t = ''array'' then generateArray H gen V s w
         else Some (GNil, w))"

section \<open>The generator\<close>

definition cycle_marker :: goval where
  "cycle_marker = GMap [(''$cycle'', GBool True)]"

text \<open>Priorities 1 to 4: a value the author of the document wrote down; a nil interface counts as
  absent, except as the first element of an enum.\<close>

fun first_present :: "goval option list \<Rightarrow> goval option" where
  "first_present [] = None"
| "first_present (x # xs) = (case x of Some v \<Rightarrow> if v = GNil then first_present xs else Some v | None \<Rightarrow> first_present xs)"

definition given_value :: "Schema \<Rightarrow> goval option" where
  "given_value s =
     (case first_present [sch_Example s, map_of (sch_Extensions s) ''x-example'', sch_Default s] of
        Some v \<Rightarrow> Some v
      | None \<Rightarrow> (case sch_Enum s of e # es \<Rightarrow> Some e | [] \<Rightarrow> None))"

definition usable :: "Schema list \<Rightarrow> schema_ref \<Rightarrow> nat option" where
  "usable H ref = (case ref of None \<Rightarrow> None | Some a \<Rightarrow> if a < length H then Some a else None)"

definition first_branch :: "Schema list \<Rightarrow> schema_ref list \<Rightarrow> nat option" where
  "first_branch H refs = (case refs of [] \<Rightarrow> None | r # rs \<Rightarrow> usable H r)"

fun merge_all ::
    "Schema list \<Rightarrow> 'w generator \<Rightarrow> nat set \<Rightarrow> schema_ref list \<Rightarrow> goval gomap \<Rightarrow> 'w \<Rightarrow>
     (goval gomap \<times> 'w) option" where
  "merge_all H gen V [] merged w = Some (merged, w)"
| "merge_all H gen V (ref # refs) merged w =
     (case usable H ref of
        None \<Rightarrow> merge_all H gen V refs merged w
      | Some a \<Rightarrow>
          (case gen V a w of
             None \<Rightarrow> None
           | Some (v, w) \<Rightarrow>
               merge_all H gen V refs
                 (case v of GMap m \<Rightarrow> fold (\<lambda>(k, x). AList.update k x) m merged | _ \<Rightarrow> merged) w))"

definition generateBody ::
    "'w faker \<Rightarrow> Schema list \<Rightarrow> 'w generator \<Rightarrow> nat set \<Rightarrow> Schema \<Rightarrow> 'w \<Rightarrow> (goval \<times> 'w) option" where
  "generateBody fk H gen V s w =
     (case given_value s of
        Some v \<Rightarrow> Some (v, w)
      | None \<Rightarrow>
          (case first_branch H (sch_OneOf s) of
             Some a \<Rightarrow> gen V a w
           | None \<Rightarrow>
               (case first_branch H (sch_AnyOf s) of
                  Some a \<Rightarrow> gen V a w
                | None \<Rightarrow>
                    (if sch_AllOf s \<noteq> []
                     then map_option (map_fst GMap) (merge_all H gen V (sch_AllOf s) [] w)
                     else generateByType fk H gen V s w))))"

fun Generate :: "nat \<Rightarrow> 'w faker \<Rightarrow> Schema list \<Rightarrow> 'w generator" where
  "Generate 0 fk H visited a w = None"
| "Generate (Suc n) fk H visited a w =
     (if a \<in> visited then Some (cycle_marker, w)
      else generateBody fk H (Generate n fk H) (insert a visited) (H ! a) w)"

section \<open>Instances for the dry run\<close>

text \<open>The nesting of calls that every schema graph stays below.\<close>

definition gen_bound :: "Schema list \<Rightarrow> nat" where
  "gen_bound H = Suc (length H)"

definition generate_fresh :: "'w faker \<Rightarrow> Schema list \<Rightarrow> schema_ref \<Rightarrow> 'w \<Rightarrow> (goval \<times> 'w) option" where
  "generate_fresh fk H ref w = gen_ref H (Generate (gen_bound H) fk H) {} ref w"

definition generateRequiredOnly :: "'w faker \<Rightarrow> Schema list \<Rightarrow> nat \<Rightarrow> 'w \<Rightarrow> (goval \<times> 'w) option" where
  "generateRequiredOnly fk H a w =
     (let s = H ! a
      in if first_type s \<noteq> ''object'' \<and> sch_Properties s = [] then generate_fresh fk H (Some a) w
         else map_option (map_fst GMap)
           (gen_fields H (Generate (gen_bound H) fk H) {}
              (filter (\<lambda>(name, ref). name \<in> set (sch_Required s)) (sch_Properties s)) [] w))"

fun generate_variants :: "'w faker \<Rightarrow> Schema list \<Rightarrow> schema_ref list \<Rightarrow> 'w \<Rightarrow> (goval list \<times> 'w) option" where
  "generate_variants fk H [] w = Some ([], w)"
| "generate_variants fk H (ref # refs) w =
     (case usable H ref of
        None \<Rightarrow> generate_variants fk H refs w
      | Some a \<Rightarrow>
          (case generate_fresh fk H (Some a) w of
             None \<Rightarrow> None
           | Some (v, w) \<Rightarrow> map_option (map_fst (Cons v)) (generate_variants fk H refs w)))"

definition GenerateThreeInstances :: "'w faker \<Rightarrow> Schema list \<Rightarrow> schema_ref \<Rightarrow> 'w \<Rightarrow> (goval list \<times> 'w) option" where
  "GenerateThreeInstances fk H ref w =
     (case usable H ref of
        None \<Rightarrow> Some ([GNil, GNil], w)
      | Some a \<Rightarrow>
          (case generate_fresh fk H (Some a) w of
             None \<Rightarrow> None
           | Some (v1, w) \<Rightarrow>
               (case generateRequiredOnly fk H a w of
                  None \<Rightarrow> None
                | Some (v2, w) \<Rightarrow>
                    (let s = H ! a; variants = (if sch_OneOf s = [] then sch_AnyOf s else sch_OneOf s)
                     in map_option (map_fst (\<lambda>vs. v1 # v2 # vs)) (generate_variants fk H variants w)))))"

section \<open>The generator returns on every schema graph\<close>

text \<open>What the walk over a schema's parts needs of the recursive call: below the current path it
  returns for every schema.\<close>

definition returns :: "Schema list \<Rightarrow> 'w generator \<Rightarrow> nat set \<Rightarrow> bool" where
  "returns H gen V \<longleftrightarrow> (\<forall>a w. a < length H \<longrightarrow> gen V a w \<noteq> None)"

lemma usable_Some [simp]: "usable H ref = Some a \<longleftrightarrow> ref = Some a \<and> a < length H"
  by (auto simp: usable_def split: option.splits if_splits)

lemma first_branch_Some: "first_branch H refs = Some a \<Longrightarrow> a < length H"
  by (auto simp: first_branch_def split: list.splits)

lemma map_option_returns [simp]: "map_option f x = None \<longleftrightarrow> x = None"
  by (cases x) auto

declare not_None_eq [iff del]

locale returning_generator =
  fixes H :: "Schema list" and gen :: "'w generator" and V :: "nat set"
  assumes gen_returns: "a < length H \<Longrightarrow> gen V a w \<noteq> None"
begin

lemma gen_ref_returns: "gen_ref H gen V ref w \<noteq> None"
  using gen_returns by (auto simp: gen_ref_def split: option.splits)

lemma gen_fields_returns: "gen_fields H gen V fs result w \<noteq> None"
proof (induction fs arbitrary: result w)
  case (Cons f fs)
  obtain name ref where "f = (name, ref)" by (cases f)
  with Cons gen_ref_returns [of ref w] show ?case by (auto split: option.splits)
qed simp

lemma gen_items_returns: "gen_items H gen V ref n w \<noteq> None"
  using gen_ref_returns by (induction n arbitrary: w) (auto split: option.splits)

lemma merge_all_returns: "merge_all H gen V refs merged w \<noteq> None"
  using gen_returns by (induction refs arbitrary: merged w) (auto split: option.splits)

lemma generateByType_returns: "generateByType fk H gen V s w \<noteq> None"
  using gen_fields_returns gen_items_returns
  by (auto simp: generateByType_def Let_def generateObject_def generateArray_def split: option.splits)

lemma generateBody_returns: "generateBody fk H gen V s w \<noteq> None"
  using merge_all_returns generateByType_returns gen_returns
  by (auto simp: generateBody_def dest: first_branch_Some split: option.splits)

end

text \<open>Every nested call has one schema less to visit.\<close>

lemma Generate_returns:
  "card ({..<length H} - V) < n \<Longrightarrow> a < length H \<Longrightarrow> Generate n fk H V a w \<noteq> None"
proof (induction n arbitrary: V a w)
  case (Suc n)
  show ?case
  proof (cases "a \<in> V")
    case False
    with Suc.prems have "{..<length H} - V = insert a ({..<length H} - insert a V)" by auto
    then have "card ({..<length H} - V) = Suc (card ({..<length H} - insert a V))"
      by (metis Diff_iff card_insert_disjoint finite_Diff finite_lessThan insertI1)
    with Suc have "returning_generator H (Generate n fk H) (insert a V)" by unfold_locales simp
    with False show ?thesis by (simp add: returning_generator.generateBody_returns)
  qed simp
qed simp

interpretation fresh: returning_generator H "Generate (gen_bound H) fk H" "{}" for H fk
  by unfold_locales (rule Generate_returns, simp_all add: gen_bound_def)

lemma generate_fresh_returns: "generate_fresh fk H ref w \<noteq> None"
  unfolding generate_fresh_def by (rule fresh.gen_ref_returns)

lemma generateRequiredOnly_returns: "generateRequiredOnly fk H a w \<noteq> None"
  by (simp add: generateRequiredOnly_def Let_def generate_fresh_returns fresh.gen_fields_returns)

lemma generate_variants_returns: "generate_variants fk H refs w \<noteq> None"
proof (induction refs arbitrary: w)
  case (Cons r rs)
  then show ?case
    by (auto simp: generate_fresh_returns split: option.splits prod.splits)
qed simp

lemma generation_returns: "GenerateThreeInstances fk H ref w \<noteq> None"
  by (simp add: GenerateThreeInstances_def Let_def generate_fresh_returns generateRequiredOnly_returns
      generate_variants_returns del: usable_Some split: option.splits prod.splits)

text \<open>C28: the instances for the dry run are generated for every schema graph, cyclic or not: no
  recursion goes deeper than one call per schema and one that meets a schema already on the path.\<close>

theorem generation_terminates:
  "GenerateThreeInstances fk H ref w \<noteq> None"
  by (rule generation_returns)

declare not_None_eq [iff]

section \<open>The shape of generated values\<close>

text \<open>Values that fit a schema, as far as the generator promises it: below a path \<^term>\<open>V\<close> of schemas,
  the cycle marker fits a schema on the path.\<close>

definition scalar_fits :: "Schema \<Rightarrow> goval \<Rightarrow> bool" where
  "scalar_fits s v =
     (let t = first_type s
      in if t = ''string'' then
           (case v of GStr x \<Rightarrow> (sch_Format s = [] \<and> sch_Pattern s = [] \<longrightarrow> sch_MinLength s \<le> length x) | _ \<Rightarrow> False)
         else if t = ''integer'' then
           (case v of GNum r \<Rightarrow> r \<in> \<int> \<and> (case sch_Min s of None \<Rightarrow> True | Some m \<Rightarrow> m < r) | _ \<Rightarrow> False)
         else if t = ''number'' then
           (case v of GNum r \<Rightarrow> (case sch_Min s of None \<Rightarrow> True | Some m \<Rightarrow> m < r) | _ \<Rightarrow> False)
         else if t = ''boolean'' then (case v of GBool b \<Rightarrow> True | _ \<Rightarrow> False)
         else t \<noteq> ''object'' \<and> t \<noteq> ''array'' \<and> v = GNil)"

inductive fits :: "Schema list \<Rightarrow> nat set \<Rightarrow> schema_ref \<Rightarrow> goval \<Rightarrow> bool" for H :: "Schema list" where
  absent: "usable H ref = None \<Longrightarrow> fits H V ref GNil"
| cycle: "a \<in> V \<Longrightarrow> fits H V (Some a) cycle_marker"
| given: "given_value (H ! a) = Some v \<Longrightarrow> fits H V (Some a) v"
| branch: "\<lbrakk>Some b \<in> set (sch_OneOf (H ! a) @ sch_AnyOf (H ! a)); fits H (insert a V) (Some b) v\<rbrakk>
           \<Longrightarrow> fits H V (Some a) v"
| merged: "\<lbrakk>sch_AllOf (H ! a) \<noteq> [];
            \<And>k x. map_of m k = Some x \<Longrightarrow>
              \<exists>ref m'. ref \<in> set (sch_AllOf (H ! a)) \<and> fits H (insert a V) ref (GMap m') \<and> (k, x) \<in> set m'\<rbrakk>
           \<Longrightarrow> fits H V (Some a) (GMap m)"
| scalar: "scalar_fits (H ! a) v \<Longrightarrow> fits H V (Some a) v"
| object: "\<lbrakk>first_type (H ! a) = ''object''; distinct (map fst m);
            fst ` set m = fst ` set (sch_Properties (H ! a)) \<union> set (sch_Required (H ! a));
            \<And>n ref. map_of (sch_Properties (H ! a)) n = Some ref \<Longrightarrow>
              \<exists>x. map_of m n = Some x \<and> fits H (insert a V) ref x\<rbrakk>
           \<Longrightarrow> fits H V (Some a) (GMap m)"
| array: "\<lbrakk>first_type (H ! a) = ''array''; length vs = max 1 (sch_MinItems (H ! a));
           \<And>x. x \<in> set vs \<Longrightarrow> fits H (insert a V) (sch_Items (H ! a)) x\<rbrakk>
          \<Longrightarrow> fits H V (Some a) (GList vs)"

lemma go_trunc_less: "m < of_int (go_trunc m + 1)"
  unfolding go_trunc_def by (simp split: if_split) linarith

lemma generateString_fits:
  "first_type s = ''string'' \<Longrightarrow> scalar_fits s (GStr (fst (generateString fk s w)))"
  by (auto simp: scalar_fits_def Let_def generateString_def)

lemma generateInteger_fits: "first_type s = ''integer'' \<Longrightarrow> scalar_fits s (generateInteger s)"
  using go_trunc_less by (auto simp: scalar_fits_def Let_def generateInteger_def split: option.splits)

lemma generateNumber_fits: "first_type s = ''number'' \<Longrightarrow> scalar_fits s (generateNumber s)"
  by (auto simp: scalar_fits_def Let_def generateNumber_def split: option.splits)

lemma inject_required_spec:
  assumes "distinct (map fst m)"
  shows "distinct (map fst (inject_required req m)) \<and> fst ` set (inject_required req m) = fst ` set m \<union> set req \<and>
    (\<forall>n x. map_of m n = Some x \<longrightarrow> map_of (inject_required req m) n = Some x)"
  using assms unfolding inject_required_def
proof (induction req arbitrary: m)
  case (Cons r req)
  show ?case
  proof (cases "map_of m r")
    case None
    have "map_of (AList.update r GNil m) n = Some x" if "map_of m n = Some x" for n x
      using that None by (auto simp: update_conv simp del: map_of_eq_Some_iff)
    with Cons.IH [of "AList.update r GNil m"] Cons.prems None show ?thesis
      by (simp add: distinct_update dom_update del: map_of_eq_Some_iff)
  next
    case (Some x)
    then have "r \<in> fst ` set m" by (metis domI dom_map_of_conv_image_fst)
    with Cons.IH [of m] Cons.prems Some show ?thesis by auto
  qed
qed simp

text \<open>A value merged from the branches of an \<^verbatim>\<open>allOf\<close> has every entry from one of them.\<close>

lemma fold_put_entries:
  "map_of (fold (\<lambda>(k, x). AList.update k x) m merged) k = Some x \<Longrightarrow> map_of merged k = Some x \<or> (k, x) \<in> set m"
proof (induction m arbitrary: merged)
  case (Cons e m)
  obtain k' x' where "e = (k', x')" by (cases e)
  with Cons.IH [of "AList.update k' x' merged"] Cons.prems show ?case by (auto simp: update_conv split: if_splits)
qed simp

text \<open>The properties of a schema are a map.\<close>

definition schema_maps :: "Schema list \<Rightarrow> bool" where
  "schema_maps H \<longleftrightarrow> list_all (\<lambda>s. distinct (map fst (sch_Properties s))) H"

text \<open>What the parts of a value inherit from the recursive call.\<close>

locale fitting_generator =
  fixes H :: "Schema list" and gen :: "'w generator" and V :: "nat set"
  assumes gen_fits: "schema_maps H \<Longrightarrow> a < length H \<Longrightarrow> gen V a w = Some (v, w') \<Longrightarrow> fits H V (Some a) v"
begin

lemma gen_ref_fits: "schema_maps H \<Longrightarrow> gen_ref H gen V ref w = Some (v, w') \<Longrightarrow> fits H V ref v"
  using gen_fits by (auto simp: gen_ref_def intro: fits.absent simp: usable_def split: option.splits if_splits)

lemma gen_fields_fits:
  assumes "schema_maps H" "gen_fields H gen V fs result w = Some (m, w')" "distinct (map fst fs)" "distinct (map fst result)"
  shows "distinct (map fst m) \<and> fst ` set m = fst ` set result \<union> fst ` set fs \<and>
    (\<forall>n. n \<notin> fst ` set fs \<longrightarrow> map_of m n = map_of result n) \<and>
    (\<forall>n ref. map_of fs n = Some ref \<longrightarrow> (\<exists>x. map_of m n = Some x \<and> fits H V ref x))"
  using assms
proof (induction fs arbitrary: result w)
  case (Cons f fs)
  obtain name ref where f: "f = (name, ref)" by (cases f)
  with Cons.prems obtain v w1 where g: "gen_ref H gen V ref w = Some (v, w1)"
    and r: "gen_fields H gen V fs (AList.update name v result) w1 = Some (m, w')"
    by (auto split: option.splits)
  from Cons.IH [OF Cons.prems(1) r] Cons.prems
  have IH: "distinct (map fst m)" "fst ` set m = fst ` set (AList.update name v result) \<union> fst ` set fs"
    "\<forall>n. n \<notin> fst ` set fs \<longrightarrow> map_of m n = map_of (AList.update name v result) n"
    "\<forall>n ref. map_of fs n = Some ref \<longrightarrow> (\<exists>x. map_of m n = Some x \<and> fits H V ref x)"
    by (simp_all add: distinct_update del: map_of_eq_Some_iff)
  have "name \<notin> fst ` set fs" using Cons.prems(3) f by simp
  with IH(3) have n: "map_of m name = Some v" by (simp add: update_conv)
  have d: "fst ` set m = fst ` set result \<union> fst ` set (f # fs)" unfolding IH(2) dom_update f by auto
  show ?case using IH(1,3,4) n d gen_ref_fits [OF Cons.prems(1) g] by (auto simp: f update_conv simp del: map_of_eq_Some_iff)
qed simp

lemma gen_items_fits:
  "schema_maps H \<Longrightarrow> gen_items H gen V ref n w = Some (vs, w') \<Longrightarrow> length vs = n \<and> (\<forall>x \<in> set vs. fits H V ref x)"
proof (induction n arbitrary: w vs)
  case (Suc n)
  then obtain v us w1 where g: "gen_ref H gen V ref w = Some (v, w1)" and r: "gen_items H gen V ref n w1 = Some (us, w')"
    and vs: "vs = v # us" by (auto split: option.splits)
  from Suc.IH [OF Suc.prems(1) r] gen_ref_fits [OF Suc.prems(1) g] vs show ?case by simp
qed simp

lemma merge_all_fits:
  assumes "schema_maps H" "merge_all H gen V refs merged w = Some (m, w')" "map_of m k = Some x"
  shows "map_of merged k = Some x \<or> (\<exists>ref m'. ref \<in> set refs \<and> fits H V ref (GMap m') \<and> (k, x) \<in> set m')"
  using assms
proof (induction refs arbitrary: merged w)
  case (Cons r refs)
  show ?case
  proof (cases "usable H r")
    case None
    with Cons show ?thesis by auto
  next
    case (Some a)
    with Cons.prems(2) obtain v w1 where g: "gen V a w = Some (v, w1)"
      and rest: "merge_all H gen V refs
        (case v of GMap m \<Rightarrow> fold (\<lambda>(k, x). AList.update k x) m merged | _ \<Rightarrow> merged) w1 = Some (m, w')"
      by (auto split: option.splits)
    have f: "fits H V r v" using gen_fits [OF Cons.prems(1) _ g] Some by auto
    from Cons.IH [OF Cons.prems(1) rest Cons.prems(3)] f show ?thesis
      by (cases v) (auto dest: fold_put_entries)
  qed
qed simp

lemma generateObject_fits:
  assumes "schema_maps H" "generateObject H gen V s w = Some (v, w')" "distinct (map fst (sch_Properties s))"
  shows "\<exists>m. v = GMap m \<and> distinct (map fst m) \<and> fst ` set m = fst ` set (sch_Properties s) \<union> set (sch_Required s) \<and>
    (\<forall>n ref. map_of (sch_Properties s) n = Some ref \<longrightarrow> (\<exists>x. map_of m n = Some x \<and> fits H V ref x))"
proof -
  from assms(2) obtain m1 where m1: "gen_fields H gen V (sch_Properties s) [] w = Some (m1, w')"
    and v: "v = GMap (inject_required (sch_Required s) m1)" by (auto simp: generateObject_def split: option.splits)
  from gen_fields_fits [OF assms(1) m1 assms(3)] have
    p: "distinct (map fst m1)" "fst ` set m1 = fst ` set (sch_Properties s)"
    "\<forall>n ref. map_of (sch_Properties s) n = Some ref \<longrightarrow> (\<exists>x. map_of m1 n = Some x \<and> fits H V ref x)"
    by (simp_all del: map_of_eq_Some_iff)
  show ?thesis
  proof (intro exI conjI)
    show "v = GMap (inject_required (sch_Required s) m1)" by (fact v)
    note i = inject_required_spec [OF p(1), of "sch_Required s"]
    show "distinct (map fst (inject_required (sch_Required s) m1))" using i by blast
    show "fst ` set (inject_required (sch_Required s) m1) = fst ` set (sch_Properties s) \<union> set (sch_Required s)"
      using i p(2) by simp
    show "\<forall>n ref. map_of (sch_Properties s) n = Some ref \<longrightarrow>
        (\<exists>x. map_of (inject_required (sch_Required s) m1) n = Some x \<and> fits H V ref x)"
      using i p(3) by metis
  qed
qed

end

lemma distinct_properties: "schema_maps H \<Longrightarrow> a < length H \<Longrightarrow> distinct (map fst (sch_Properties (H ! a)))"
  by (simp add: schema_maps_def list_all_length)

lemma generateByType_fits:
  assumes "fitting_generator H gen (insert a V)" "generateByType fk H gen (insert a V) (H ! a) w = Some (v, w')"
    and "a < length H" "schema_maps H"
  shows "fits H V (Some a) v"
proof -
  consider "first_type (H ! a) = ''object''" | "first_type (H ! a) = ''array''"
    | "first_type (H ! a) \<notin> {''object'', ''array''}" by auto
  then show ?thesis
  proof cases
    case 1
    with assms(2) have "generateObject H gen (insert a V) (H ! a) w = Some (v, w')" by (simp add: generateByType_def)
    from fitting_generator.generateObject_fits [OF assms(1,4) this distinct_properties [OF assms(4,3)]] obtain m where m: "v = GMap m"
      "distinct (map fst m)" "fst ` set m = fst ` set (sch_Properties (H ! a)) \<union> set (sch_Required (H ! a))"
      "\<forall>n ref. map_of (sch_Properties (H ! a)) n = Some ref \<longrightarrow> (\<exists>x. map_of m n = Some x \<and> fits H (insert a V) ref x)"
      by auto
    show ?thesis unfolding m(1) by (rule fits.object [OF 1 m(2,3)]) (use m(4) in blast)
  next
    case 2
    with assms(2) obtain vs where v: "v = GList vs"
      and i: "gen_items H gen (insert a V) (sch_Items (H ! a)) (max 1 (sch_MinItems (H ! a))) w = Some (vs, w')"
      by (auto simp: generateByType_def generateArray_def map_fst_def)
    from fitting_generator.gen_items_fits [OF assms(1,4) i] 2 show ?thesis unfolding v by (blast intro: fits.array)
  next
    case 3
    with assms(2) have "scalar_fits (H ! a) v"
      by (auto simp: generateByType_def Let_def map_fst_def generateString_fits generateInteger_fits
          generateNumber_fits split: if_splits) (auto simp: scalar_fits_def Let_def)
    then show ?thesis by (rule fits.scalar)
  qed
qed

lemma generateBody_fits:
  assumes "fitting_generator H gen (insert a V)" "generateBody fk H gen (insert a V) (H ! a) w = Some (v, w')"
    and "a < length H" "schema_maps H"
  shows "fits H V (Some a) v"
proof -
  have br: "Some b \<in> set refs" if "first_branch H refs = Some b" for b refs
    using that by (auto simp: first_branch_def split: list.splits)
  have b: "fits H V (Some a) v" if "gen (insert a V) b w = Some (v, w')" "b < length H"
    "Some b \<in> set (sch_OneOf (H ! a) @ sch_AnyOf (H ! a))" for b
    using fits.branch [OF that(3)] fitting_generator.gen_fits [OF assms(1,4) that(2,1)] by blast
  have m: "fits H V (Some a) (GMap m)"
    if "merge_all H gen (insert a V) (sch_AllOf (H ! a)) [] w = Some (m, w')" "sch_AllOf (H ! a) \<noteq> []" for m
    using fitting_generator.merge_all_fits [OF assms(1,4) that(1)] that(2) by (intro fits.merged) auto
  show ?thesis
    using assms(2) b m br generateByType_fits [OF assms(1) _ assms(3,4)] first_branch_Some
    by (auto simp: generateBody_def map_fst_def split: option.splits if_splits intro: fits.given)
qed

lemma Generate_fits:
  "schema_maps H \<Longrightarrow> a < length H \<Longrightarrow> Generate n fk H V a w = Some (v, w') \<Longrightarrow> fits H V (Some a) v"
proof (induction n arbitrary: V a w v w')
  case (Suc n)
  have g: "fitting_generator H (Generate n fk H) (insert a V)" by unfold_locales (rule Suc.IH)
  show ?case
  proof (cases "a \<in> V")
    case True
    with Suc.prems show ?thesis by (auto intro: fits.cycle)
  next
    case False
    with Suc.prems have "generateBody fk H (Generate n fk H) (insert a V) (H ! a) w = Some (v, w')" by simp
    from generateBody_fits [OF g this Suc.prems(2,1)] show ?thesis .
  qed
qed simp

interpretation generator: fitting_generator H "Generate n fk H" V for H n fk V
  by unfold_locales (rule Generate_fits)


section \<open>Witnesses\<close>

definition no_faker :: "unit faker" where
  "no_faker = \<lparr>fk_email = Pair ''a@b.c'', fk_uuid = Pair ''0'', fk_now = Pair ''2024-01-01T00:00:00Z'',
     fk_regex = (\<lambda>p. Pair None)\<rparr>"

text \<open>A list node: an object with an integer and a reference to the next node.\<close>

definition list_schemas :: "Schema list" where
  "list_schemas =
     [zeroSchema\<lparr>sch_Type := Some [''object''], sch_Properties := [(''next'', Some 0), (''n'', Some 1)], sch_Required := [''id'']\<rparr>,
      zeroSchema\<lparr>sch_Type := Some [''integer''], sch_Min := Some (3 / 2)\<rparr>]"

lemma list_value:
  "generate_fresh no_faker list_schemas (Some 0) () =
     Some (GMap [(''next'', cycle_marker), (''n'', GNum 2), (''id'', GNil)], ())"
  by code_simp


end
