(* ===== verification/Transform.thy ===== *)
theory Transform
  imports Http
begin

text \<open>
  The jq transforms of a tool, \<^verbatim>\<open>pkg/transform\<close>, and the conversion of upstream responses to MCP
  content, \<^verbatim>\<open>pkg/content\<close>. A compiled jq expression (gojq) is a function from the input to the
  values its iterator yields, an error value among them where the run fails; an iterator
  whose context is cancelled yields an error and ends. Parsing and compilation are
  parameters. The digits \<^verbatim>\<open>strconv\<close> chooses for a float64 are parameters as well.
\<close>

section \<open>Expressions\<close>

type_synonym jq_code = "goval \<Rightarrow> (goerr + goval) list"

record gojq =
  jq_Parse :: "string \<Rightarrow> goerr + string"
  jq_Compile :: "string \<Rightarrow> goerr + jq_code"

record CompiledTransforms =
  ct_Request :: jq_code
  ct_Response :: jq_code
  ct_Error :: jq_code

definition compileExpr :: "gojq \<Rightarrow> string \<Rightarrow> goerr + jq_code" where
  "compileExpr jq expr =
     (case jq_Parse jq expr of
        Inl e \<Rightarrow> Inl (ErrWrap ''parsing jq expression'' e)
      | Inr q \<Rightarrow>
          (case jq_Compile jq q of
             Inl e \<Rightarrow> Inl (ErrWrap ''compiling jq query'' e)
           | Inr code \<Rightarrow> Inr code))"

definition Compile :: "gojq \<Rightarrow> string \<Rightarrow> string \<Rightarrow> string \<Rightarrow> goerr + CompiledTransforms" where
  "Compile jq reqExpr respExpr errExpr =
     (case compileExpr jq reqExpr of
        Inl e \<Rightarrow> Inl (ErrWrap (''compiling request expression '' @ go_quote reqExpr) e)
      | Inr reqCode \<Rightarrow>
          (case compileExpr jq respExpr of
             Inl e \<Rightarrow> Inl (ErrWrap (''compiling response expression '' @ go_quote respExpr) e)
           | Inr respCode \<Rightarrow>
               (case compileExpr jq errExpr of
                  Inl e \<Rightarrow> Inl (ErrWrap (''compiling error expression '' @ go_quote errExpr) e)
                | Inr errCode \<Rightarrow> Inr \<lparr>ct_Request = reqCode, ct_Response = respCode, ct_Error = errCode\<rparr>)))"

text \<open>The iterator is drained: an error after the first value fails the run as well.\<close>

fun drain :: "(goerr + goval) list \<Rightarrow> goval option \<Rightarrow> goerr + goval" where
  "drain [] first = (case first of None \<Rightarrow> Inl (ErrText ''jq expression produced no output'') | Some v \<Rightarrow> Inr v)"
| "drain (Inl e # vs) first = Inl (ErrWrap ''jq runtime error'' e)"
| "drain (Inr v # vs) first = drain vs (case first of None \<Rightarrow> Some v | Some u \<Rightarrow> Some u)"

definition runOnce :: "jq_code \<Rightarrow> goval \<Rightarrow> goerr + goval" where
  "runOnce code input = drain (code input) None"

lemma drain_Inr: "drain vs first = Inr v \<longleftrightarrow>
    (\<forall>x \<in> set vs. \<exists>u. x = Inr u) \<and>
    (case first of Some u \<Rightarrow> v = u | None \<Rightarrow> vs \<noteq> [] \<and> hd vs = Inr v)"
  by (induction vs first rule: drain.induct) (auto split: option.splits)

lemma runOnce_Inr: "runOnce code input = Inr v \<longleftrightarrow>
    (\<forall>x \<in> set (code input). \<exists>u. x = Inr u) \<and> code input \<noteq> [] \<and> hd (code input) = Inr v"
  by (auto simp: runOnce_def drain_Inr)

section \<open>Request envelopes\<close>

text \<open>\<^verbatim>\<open>fmt.Sprintf\<close> with \<^verbatim>\<open>%v\<close>; the keys of a map are printed in order.\<close>

fun sprint_v :: "(rat \<Rightarrow> string) \<Rightarrow> goval \<Rightarrow> string" where
  "sprint_v num GNil = ''<nil>''"
| "sprint_v num (GBool b) = (if b then ''true'' else ''false'')"
| "sprint_v num (GNum r) = num r"
| "sprint_v num (GStr s) = s"
| "sprint_v num (GList vs) = ''['' @ join_with '' '' (map (sprint_v num) vs) @ '']''"
| "sprint_v num (GMap kvs) =
     (let shown = map (\<lambda>(k, v). (k, k @ '':'' @ sprint_v num v)) kvs
      in ''map['' @ join_with '' '' (map (\<lambda>k. the (map_of shown k)) (sort (map fst kvs))) @ '']'')"

record go_numbers =
  num_json :: "rat \<Rightarrow> string option"
  num_sprint :: "rat \<Rightarrow> string"

text \<open>
  \<^verbatim>\<open>json.Unmarshal\<close> of an object into \<^verbatim>\<open>rawEnvelope\<close>: the marshalled keys come in order, a key
  matches a field up to case, a map field accumulates the entries of its objects, a null
  empties it and another kind is an error.
\<close>

definition matching :: "string \<Rightarrow> args \<Rightarrow> goval list" where
  "matching field kvs = List.map_filter (\<lambda>k. if to_lower k = field then map_of kvs k else None) (sort (map fst kvs))"

fun raw_map :: "goval list \<Rightarrow> goval gomap \<Rightarrow> goval gomap option" where
  "raw_map [] m = Some m"
| "raw_map (GNil # vs) m = raw_map vs []"
| "raw_map (GMap kvs # vs) m = raw_map vs (fold (\<lambda>(k, v). AList.update k v) kvs m)"
| "raw_map (v # vs) m = None"

record rawEnvelope =
  raw_Query :: "goval gomap"
  raw_Headers :: "goval gomap"
  raw_Path :: "goval gomap"
  raw_Body :: goval

definition unmarshalEnvelope :: "goval \<Rightarrow> rawEnvelope option" where
  "unmarshalEnvelope v =
     (case v of
        GNil \<Rightarrow> Some \<lparr>raw_Query = [], raw_Headers = [], raw_Path = [], raw_Body = GNil\<rparr>
      | GMap kvs \<Rightarrow>
          (case (raw_map (matching ''query'' kvs) [], raw_map (matching ''headers'' kvs) [], raw_map (matching ''path'' kvs) []) of
             (Some q, Some h, Some p) \<Rightarrow>
               Some \<lparr>raw_Query = q, raw_Headers = h, raw_Path = p,
                     raw_Body = last (GNil # matching ''body'' kvs)\<rparr>
           | _ \<Rightarrow> None)
      | _ \<Rightarrow> None)"

definition stringMap :: "(rat \<Rightarrow> string) \<Rightarrow> goval gomap \<Rightarrow> string gomap" where
  "stringMap num m = List.map_filter (\<lambda>(k, v). if v = GNil then None else Some (k, sprint_v num v)) m"

definition RunRequest :: "go_numbers \<Rightarrow> CompiledTransforms \<Rightarrow> args \<Rightarrow> goerr + RequestEnvelope" where
  "RunRequest nums c args =
     (case runOnce (ct_Request c) (GMap args) of
        Inl e \<Rightarrow> Inl (ErrWrap ''request transform'' e)
      | Inr v \<Rightarrow>
          (case marshalSorted (num_json nums) v of
             None \<Rightarrow> Inl (ErrText ''marshalling request transform output'')
           | Some data \<Rightarrow>
               (case unmarshalEnvelope v of
                  None \<Rightarrow> Inl (ErrText ''unmarshalling request transform output'')
                | Some raw \<Rightarrow>
                    Inr \<lparr>Query = stringMap (num_sprint nums) (raw_Query raw),
                         Headers = stringMap (num_sprint nums) (raw_Headers raw),
                         Path = stringMap (num_sprint nums) (raw_Path raw),
                         Body = raw_Body raw\<rparr>)))"

definition RunResponse :: "CompiledTransforms \<Rightarrow> goval \<Rightarrow> goerr + goval" where
  "RunResponse c body =
     (case runOnce (ct_Response c) body of Inl e \<Rightarrow> Inl (ErrWrap ''response transform'' e) | Inr v \<Rightarrow> Inr v)"

definition RunError :: "CompiledTransforms \<Rightarrow> goval \<Rightarrow> goerr + goval" where
  "RunError c body =
     (case runOnce (ct_Error c) body of Inl e \<Rightarrow> Inl (ErrWrap ''error transform'' e) | Inr v \<Rightarrow> Inr v)"

section \<open>Context values and the request stage\<close>

definition WithMCPArgs :: "args \<Rightarrow> Ctx \<Rightarrow> Ctx" where
  "WithMCPArgs args ctx = ctx\<lparr>ctx_args := Some args\<rparr>"

definition MCPArgsFromContext :: "Ctx \<Rightarrow> args" where
  "MCPArgsFromContext ctx = (case ctx_args ctx of None \<Rightarrow> [] | Some a \<Rightarrow> a)"

definition RequestEnvelopeFromContext :: "Ctx \<Rightarrow> RequestEnvelope option" where
  "RequestEnvelopeFromContext ctx = ctx_envelope ctx"

definition withEnvelope :: "RequestEnvelope \<Rightarrow> Ctx \<Rightarrow> Ctx" where
  "withEnvelope env ctx = ctx\<lparr>ctx_envelope := Some env\<rparr>"

definition ErrorFromContext :: "Ctx \<Rightarrow> goerr option" where
  "ErrorFromContext ctx = ctx_transform_err ctx"

definition withTransformError :: "goerr \<Rightarrow> Ctx \<Rightarrow> Ctx" where
  "withTransformError e ctx = ctx\<lparr>ctx_transform_err := Some e\<rparr>"

text \<open>
  The handlers of a tool's chain write the result of the call into the \<^verbatim>\<open>callState\<close> of the
  context and discard what they write to the response writer. A stage is such a handler:
  from the context of its request to the result and error it leaves in the state.
\<close>

type_synonym 'w stage = "Ctx \<Rightarrow> 'w \<Rightarrow> call_return \<times> 'w"

definition RequestMiddleware :: "go_numbers \<Rightarrow> CompiledTransforms \<Rightarrow> 'w stage \<Rightarrow> 'w stage" where
  "RequestMiddleware nums c nxt ctx w =
     (case RunRequest nums c (MCPArgsFromContext ctx) of
        Inl e \<Rightarrow> nxt (withTransformError e ctx) w
      | Inr envelope \<Rightarrow> nxt (withEnvelope envelope ctx) w)"

section \<open>Response content\<close>

text \<open>The configured format is a string; an unknown one behaves like \<^verbatim>\<open>json\<close>.\<close>

definition mediaType :: "string \<Rightarrow> string" where
  "mediaType contentType = trim_space (before_char CHR '';'' contentType)"

definition Detect :: "string \<Rightarrow> string \<Rightarrow> string" where
  "Detect configured contentType =
     (if configured \<noteq> ''auto'' then configured
      else (let ct = to_lower (mediaType contentType) in
        if ct = ''application/json'' \<or> has_suffix ct ''+json'' then ''json''
        else if has_prefix ct ''text/'' then ''text''
        else if has_prefix ct ''image/'' then ''image''
        else if has_prefix ct ''audio/'' then ''audio''
        else ''binary''))"

text \<open>The JSON decoder and the encoder without HTML escaping, both of the standard library.\<close>

record go_json =
  js_decode :: "string \<Rightarrow> goerr + goval"
  js_encode :: "goval \<Rightarrow> string option"
  js_nums :: go_numbers

definition marshalToString :: "go_json \<Rightarrow> goval \<Rightarrow> string" where
  "marshalToString js v =
     (case v of GStr s \<Rightarrow> s
      | _ \<Rightarrow> (case js_encode js v of None \<Rightarrow> sprint_v (num_sprint (js_nums js)) v | Some s \<Rightarrow> s))"

definition jsonContent :: "go_json \<Rightarrow> string \<Rightarrow> jq_code option \<Rightarrow> goerr + Content list" where
  "jsonContent js body responseTransform =
     (case js_decode js body of
        Inl e \<Rightarrow> Inl (ErrWrap ''unmarshal JSON body'' e)
      | Inr parsed \<Rightarrow>
          (case (case responseTransform of None \<Rightarrow> Inr parsed | Some code \<Rightarrow> runOnce code parsed) of
             Inl e \<Rightarrow> Inl (ErrWrap ''response transform'' e)
           | Inr v \<Rightarrow> Inr [TextContent (marshalToString js v)]))"

definition ToMCPContent :: "go_json \<Rightarrow> string \<Rightarrow> string \<Rightarrow> string \<Rightarrow> jq_code option \<Rightarrow> goerr + Content list" where
  "ToMCPContent js format body contentType responseTransform =
     (if format = ''text'' then
        (case responseTransform of
           None \<Rightarrow> Inr [TextContent body]
         | Some code \<Rightarrow>
             (case runOnce code (GStr body) of
                Inl e \<Rightarrow> Inl (ErrWrap ''response transform'' e)
              | Inr v \<Rightarrow> Inr [TextContent (marshalToString js v)]))
      else if format = ''image'' then Inr [ImageContent body (mediaType contentType)]
      else if format = ''audio'' then Inr [AudioContent body (mediaType contentType)]
      else if format = ''binary'' then Inr [EmbeddedResource body (mediaType contentType)]
      else jsonContent js body responseTransform)"

section \<open>Error content\<close>

text \<open>\<^verbatim>\<open>json.Unmarshal\<close> into \<^verbatim>\<open>ProblemDetail\<close>: strings, and an integer status.\<close>

definition problem_string :: "string \<Rightarrow> args \<Rightarrow> string option" where
  "problem_string field kvs =
     fold (\<lambda>v old. case old of None \<Rightarrow> None
                   | Some s \<Rightarrow> (case v of GStr t \<Rightarrow> Some t | GNil \<Rightarrow> Some s | _ \<Rightarrow> None))
       (map snd (filter (\<lambda>(k, v). to_lower k = field) kvs)) (Some [])"

definition problem_status :: "args \<Rightarrow> rat option" where
  "problem_status kvs =
     fold (\<lambda>v old. case old of None \<Rightarrow> None
                   | Some n \<Rightarrow> (case v of GNum r \<Rightarrow> if of_int \<lfloor>r\<rfloor> = r then Some r else None | GNil \<Rightarrow> Some n | _ \<Rightarrow> None))
       (map snd (filter (\<lambda>(k, v). to_lower k = ''status'') kvs)) (Some 0)"

definition parseProblem :: "goval \<Rightarrow> goval option" where
  "parseProblem v =
     (case (case v of GMap kvs \<Rightarrow> Some kvs | GNil \<Rightarrow> Some [] | _ \<Rightarrow> None) of
        None \<Rightarrow> None
      | Some kvs \<Rightarrow>
          (case (problem_string ''type'' kvs, problem_string ''title'' kvs, problem_status kvs,
                 problem_string ''detail'' kvs, problem_string ''instance'' kvs) of
             (Some ty, Some title, Some status, Some detail, Some inst) \<Rightarrow>
               Some (GMap [(''type'', GStr ty), (''title'', GStr title), (''status'', GNum status),
                           (''detail'', GStr detail), (''instance'', GStr inst)])
           | _ \<Rightarrow> None))"

definition ParseErrorBody :: "go_json \<Rightarrow> string \<Rightarrow> string \<Rightarrow> goval" where
  "ParseErrorBody js body contentType =
     (let decoded = js_decode js body;
          fallback = (case decoded of Inr v \<Rightarrow> v | Inl e \<Rightarrow> GStr body)
      in if to_lower (mediaType contentType) = ''application/problem+json''
         then (case decoded of
                 Inr v \<Rightarrow> (case parseProblem v of Some p \<Rightarrow> p | None \<Rightarrow> fallback)
               | Inl e \<Rightarrow> fallback)
         else fallback)"

definition with_status :: "int \<Rightarrow> goval \<Rightarrow> goval" where
  "with_status statusCode parsed =
     (case parsed of
        GMap m \<Rightarrow>
          (case map_of m ''status'' of
             Some v \<Rightarrow> if v = GNil then GMap (AList.update ''status'' (GNum (of_int statusCode)) m) else parsed
           | None \<Rightarrow> GMap (AList.update ''status'' (GNum (of_int statusCode)) m))
      | _ \<Rightarrow> parsed)"

definition ToErrorResult :: "go_json \<Rightarrow> string \<Rightarrow> string \<Rightarrow> int \<Rightarrow> jq_code \<Rightarrow> CallToolResult" where
  "ToErrorResult js body contentType statusCode errorTransform =
     (let parsed = with_status statusCode (ParseErrorBody js body contentType);
          transformed = (case runOnce errorTransform parsed of
             Inr v \<Rightarrow> v
           | Inl e \<Rightarrow> GMap [(''error'', GStr (''upstream returned '' @ show_int statusCode)), (''body'', GStr body)])
      in error_result (marshalToString js transformed))"

end
