(* ===== verification/Validator.thy ===== *)
theory Validator
  imports Generator Synthetic Transform
begin

text \<open>
  Validation of generated tools, \<^verbatim>\<open>pkg/openapi/validator.go\<close>: the compilation of the three jq
  expressions, the dry runs against synthetic values, and the wrappers around the request and
  response validation of kin-openapi, whose router and filter are parameters.
\<close>

section \<open>Request and response validation\<close>

record RequestValidationInput =
  rvi_Request :: ClientRequest
  rvi_PathParams :: "string gomap"
  rvi_Route :: nat

text \<open>The router of a document and the validation functions of \<^verbatim>\<open>openapi3filter\<close>, called without
  authentication and collecting all errors.\<close>

record Validator =
  vl_FindRoute :: "ClientRequest \<Rightarrow> goerr + nat \<times> string gomap"
  vl_ValidateRequest :: "RequestValidationInput \<Rightarrow> goerr option"
  vl_ValidateResponse :: "RequestValidationInput \<Rightarrow> int \<Rightarrow> header \<Rightarrow> string \<Rightarrow> goerr option"

definition BuildRequestInput :: "Validator \<Rightarrow> ClientRequest \<Rightarrow> goerr + RequestValidationInput" where
  "BuildRequestInput v r =
     (case vl_FindRoute v r of
        Inl e \<Rightarrow> Inl (ErrWrap ''route not found'' e)
      | Inr (route, pathParams) \<Rightarrow> Inr \<lparr>rvi_Request = r, rvi_PathParams = pathParams, rvi_Route = route\<rparr>)"

text \<open>The pair of the input, if any, and the error.\<close>

definition ValidateRequest :: "Validator \<Rightarrow> ClientRequest \<Rightarrow> RequestValidationInput option \<times> goerr option" where
  "ValidateRequest v r =
     (case BuildRequestInput v r of
        Inl e \<Rightarrow> (None, Some e)
      | Inr input \<Rightarrow> (Some input, vl_ValidateRequest v input))"

definition ValidateResponse ::
    "Validator \<Rightarrow> RequestValidationInput \<Rightarrow> int \<Rightarrow> header \<Rightarrow> string \<Rightarrow> goerr option" where
  "ValidateResponse v reqInput status hdr body = vl_ValidateResponse v reqInput status hdr body"

section \<open>Default expressions\<close>

definition DefaultResponseExpr :: string where
  "DefaultResponseExpr = ''.''"

definition newline :: string where
  "newline = [CHR 0x0A]"

definition DefaultErrorExpr :: string where
  "DefaultErrorExpr =
     ''if .title then'' @ newline @
     ''  {error: .title, detail: (.detail // \"\"), status: (.status // 0)}'' @ newline @
     ''else'' @ newline @
     ''  {error: (\"upstream error: HTTP \" + (if .status then (.status | tostring) else \"unknown\" end)), body: .}'' @
       newline @
     ''end''"

definition expr_override :: "Operation \<Rightarrow> string \<Rightarrow> string \<Rightarrow> string" where
  "expr_override op key def =
     (let s = ext_string (op_Extensions op) key in if s \<noteq> [] then s else def)"

section \<open>Dry runs\<close>

definition toStringAnyMap :: "goval \<Rightarrow> args" where
  "toStringAnyMap v = (case v of GMap m \<Rightarrow> m | _ \<Rightarrow> [])"

text \<open>The context may be cancelled between two instances: \<^term>\<open>cancelled i\<close> is \<^verbatim>\<open>ctx.Err()\<close> before the
  instance number \<^term>\<open>i\<close>.\<close>

fun dry_run_failures ::
    "go_numbers \<Rightarrow> CompiledTransforms \<Rightarrow> (nat \<Rightarrow> goerr option) \<Rightarrow> nat \<Rightarrow> goval list \<Rightarrow> goerr + goerr list" where
  "dry_run_failures nums c cancelled i [] = Inr []"
| "dry_run_failures nums c cancelled i (inst # instances) =
     (case cancelled i of
        Some e \<Rightarrow> Inl (ErrWrap ''request transform dry-run cancelled'' e)
      | None \<Rightarrow>
          (case dry_run_failures nums c cancelled (Suc i) instances of
             Inl e \<Rightarrow> Inl e
           | Inr fs \<Rightarrow>
               (case RunRequest nums c (toStringAnyMap inst) of
                  Inl e \<Rightarrow> Inr (e # fs)
                | Inr env \<Rightarrow> Inr fs)))"

definition dryRunRequest ::
    "go_numbers \<Rightarrow> (nat \<Rightarrow> goerr option) \<Rightarrow> string \<Rightarrow> CompiledTransforms \<Rightarrow> goval list \<Rightarrow> goerr option" where
  "dryRunRequest nums cancelled toolName c instances =
     (case dry_run_failures nums c cancelled 0 instances of
        Inl e \<Rightarrow> Some e
      | Inr failures \<Rightarrow>
          (if length failures = length instances \<and> 0 < length instances
           then Some (ErrWrap (''request transform dry-run failed on all '' @ show_nat (length instances) @
             '' instances for tool '' @ go_quote toolName) (hd failures))
           else None))"

section \<open>Schemas of an operation\<close>

text \<open>The flat input object of a tool is a schema of its own, allocated behind those of the
  document together with the schema that stands in for a parameter without one.\<close>

definition stringSchema :: Schema where
  "stringSchema = zeroSchema\<lparr>sch_Type := Some [''string'']\<rparr>"

definition synthetic_params :: "(string \<rightharpoonup> string) \<Rightarrow> nat \<Rightarrow> Operation \<Rightarrow> (string \<times> schema_ref) list" where
  "synthetic_params argMap str op =
     map (\<lambda>p. (ArgName argMap (par_In p) (par_Name p), case par_Schema p of None \<Rightarrow> Some str | Some ref \<Rightarrow> ref))
       (op_params op)"

definition synthetic_required :: "(string \<rightharpoonup> string) \<Rightarrow> Operation \<Rightarrow> string list" where
  "synthetic_required argMap op =
     map (\<lambda>p. ArgName argMap (par_In p) (par_Name p)) (filter (\<lambda>p. par_Required p \<or> par_In p = ''path'') (op_params op))"

definition buildInputSchemaForSynthetic ::
    "((string list) gomap \<Rightarrow> (string list) gomap) \<Rightarrow> Schema list \<Rightarrow> Operation \<Rightarrow> Schema list \<times> nat" where
  "buildInputSchemaForSynthetic \<sigma> H op =
     (let argMap = DeriveArgMapping \<sigma> H op; str = length H;
          (bodyProps, bodyRequired) = (case body_schema H op of
             None \<Rightarrow> ([], [])
           | Some b \<Rightarrow> (map (\<lambda>(n, ref). (ArgName argMap ''body'' n, ref)) (sch_Properties b),
                        map (\<lambda>(n, ref). ArgName argMap ''body'' n)
                          (filter (\<lambda>(n, ref). n \<in> set (sch_Required b)) (sch_Properties b))));
          flat = zeroSchema\<lparr>sch_Type := Some [''object''],
            sch_Properties := fold (\<lambda>(k, ref). AList.update k ref) (synthetic_params argMap str op @ bodyProps) [],
            sch_Required := synthetic_required argMap op @ bodyRequired\<rparr>
      in (H @ [stringSchema, flat], Suc str))"

definition responseSchema :: "Schema list \<Rightarrow> Operation \<Rightarrow> string \<Rightarrow> nat option" where
  "responseSchema H op code =
     (case op_Responses op of None \<Rightarrow> None
      | Some rs \<Rightarrow> (case map_of rs code of None \<Rightarrow> None | Some ref \<Rightarrow> usable H ref))"

definition extract200Schema :: "Schema list \<Rightarrow> Operation \<Rightarrow> nat option" where
  "extract200Schema H op = responseSchema H op ''200''"

definition extractErrorSchema :: "Schema list \<Rightarrow> Operation \<Rightarrow> nat option" where
  "extractErrorSchema H op =
     (case List.map_filter (responseSchema H op) [''422'', ''400'', ''500''] of [] \<Rightarrow> None | a # as \<Rightarrow> Some a)"

section \<open>Compiled tools\<close>

record ValidatedTool =
  vt_Tool :: GeneratedTool
  vt_Transforms :: CompiledTransforms
  vt_Validator :: "Validator option"

record 'w validate_env =
  ve_gen :: gen_env
  ve_argOrder :: "(string list) gomap \<Rightarrow> (string list) gomap"
  ve_jq :: gojq
  ve_nums :: go_numbers
  ve_faker :: "'w faker"
  ve_cancelled :: "nat \<Rightarrow> goerr option"

text \<open>The response and error dry runs only log, so their one effect is on the faker's state. The
  run stops at the first instance that fails, but the instances are generated before.\<close>

definition dryRunResponse :: "'w validate_env \<Rightarrow> Schema list \<Rightarrow> CompiledTransforms \<Rightarrow> Operation \<Rightarrow> 'w \<Rightarrow> 'w" where
  "dryRunResponse env H c op w =
     (case extract200Schema H op of None \<Rightarrow> w
      | Some a \<Rightarrow> (case GenerateThreeInstances (ve_faker env) H (Some a) w of None \<Rightarrow> w | Some (vs, w1) \<Rightarrow> w1))"

definition dryRunError :: "'w validate_env \<Rightarrow> Schema list \<Rightarrow> CompiledTransforms \<Rightarrow> Operation \<Rightarrow> 'w \<Rightarrow> 'w" where
  "dryRunError env H c op w =
     (case extractErrorSchema H op of None \<Rightarrow> w
      | Some a \<Rightarrow> (case GenerateThreeInstances (ve_faker env) H (Some a) w of None \<Rightarrow> w | Some (vs, w1) \<Rightarrow> w1))"

text \<open>The generation of instances returns for every schema graph, so its missing value is the empty
  list nowhere.\<close>

definition requestInstances ::
    "'w validate_env \<Rightarrow> Schema list \<Rightarrow> Operation \<Rightarrow> 'w \<Rightarrow> goval list \<times> 'w" where
  "requestInstances env H op w =
     (let (H', a) = buildInputSchemaForSynthetic (ve_argOrder env) H op
      in case GenerateThreeInstances (ve_faker env) H' (Some a) w of None \<Rightarrow> ([], w) | Some r \<Rightarrow> r)"

definition ValidateTool ::
    "'w validate_env \<Rightarrow> Schema list \<Rightarrow> GeneratedTool \<Rightarrow> 'w \<Rightarrow> (goerr + ValidatedTool) \<times> 'w" where
  "ValidateTool env H gt w =
     (let op = gt_Operation gt;
          argMap = DeriveArgMapping (ve_argOrder env) H op;
          reqExpr = GenerateRequestJq H op argMap;
          respExpr = expr_override op ''x-mcp-response-transform'' DefaultResponseExpr;
          errExpr = expr_override op ''x-mcp-error-transform'' DefaultErrorExpr
      in case Compile (ve_jq env) reqExpr respExpr errExpr of
           Inl e \<Rightarrow> (Inl (ErrWrap (''jq compilation failed for tool '' @ go_quote (gt_PrefixedName gt)) e), w)
         | Inr compiled \<Rightarrow>
             (let (instances, w1) = requestInstances env H op w
              in case dryRunRequest (ve_nums env) (ve_cancelled env) (gt_PrefixedName gt) compiled instances of
                   Some e \<Rightarrow> (Inl e, w1)
                 | None \<Rightarrow>
                     (Inr \<lparr>vt_Tool = gt, vt_Transforms = compiled, vt_Validator = None\<rparr>,
                      dryRunError env H compiled op (dryRunResponse env H compiled op w1))))"

text \<open>The spec pipeline hands over the document, the YAML root and the router's validator.\<close>

fun validate_all ::
    "'w validate_env \<Rightarrow> Schema list \<Rightarrow> Validator \<Rightarrow> GeneratedTool list \<Rightarrow> 'w \<Rightarrow> (goerr + ValidatedTool list) \<times> 'w" where
  "validate_all env H v [] w = (Inr [], w)"
| "validate_all env H v (gt # gts) w =
     (case ValidateTool env H gt w of
        (Inl e, w) \<Rightarrow> (Inl (ErrWrap (''validating tool '' @ go_quote (gt_PrefixedName gt)) e), w)
      | (Inr vt, w) \<Rightarrow>
          (case validate_all env H v gts w of
             (Inl e, w) \<Rightarrow> (Inl e, w)
           | (Inr vts, w) \<Rightarrow> (Inr (vt\<lparr>vt_Validator := Some v\<rparr> # vts), w)))"

definition withNode :: "(node \<Rightarrow> YamlNode) \<Rightarrow> node \<Rightarrow> GeneratedTool \<Rightarrow> GeneratedTool" where
  "withNode Y rt gt =
     gt\<lparr>gt_OperationNode := FindOperationYAMLNode Y rt (gt_PathTemplate gt) (to_lower (gt_Method gt))\<rparr>"

record pipeline =
  pl_Doc :: Document
  pl_Validator :: Validator
  pl_Root :: node
  pl_Yaml :: "node \<Rightarrow> YamlNode"

definition ValidateUpstream ::
    "'w validate_env \<Rightarrow> (UpstreamConfig \<Rightarrow> 'w \<Rightarrow> (goerr + pipeline) \<times> 'w) \<Rightarrow> UpstreamConfig \<Rightarrow> NamingConfig \<Rightarrow>
     'w \<Rightarrow> (goerr + ValidatedTool list \<times> node) \<times> 'w" where
  "ValidateUpstream env LoadPipeline cfg naming w =
     (case LoadPipeline cfg w of
        (Inl e, w) \<Rightarrow> (Inl (ErrWrap (''loading spec for upstream '' @ go_quote (UpstreamConfig.Name cfg)) e), w)
      | (Inr pl, w) \<Rightarrow>
          (case GenerateTools (ve_gen env) (pl_Doc pl) cfg naming of
             Inl e \<Rightarrow> (Inl (ErrText (''generating tools for upstream '' @ go_quote (UpstreamConfig.Name cfg))), w)
           | Inr tools \<Rightarrow>
               (case validate_all env (doc_Schemas (pl_Doc pl)) (pl_Validator pl)
                       (map (withNode (pl_Yaml pl) (pl_Root pl)) tools) w of
                  (Inl e, w) \<Rightarrow> (Inl e, w)
                | (Inr vts, w) \<Rightarrow> (Inr (vts, pl_Root pl), w))))"

section \<open>Properties\<close>

definition request_error :: "go_numbers \<Rightarrow> CompiledTransforms \<Rightarrow> goval \<Rightarrow> goerr option" where
  "request_error nums c inst = (case RunRequest nums c (toStringAnyMap inst) of Inl e \<Rightarrow> Some e | Inr env \<Rightarrow> None)"

lemma all_less_Suc: "(\<forall>j < Suc n. P j) \<longleftrightarrow> P 0 \<and> (\<forall>j < n. P (Suc j))"
  using less_Suc_eq_0_disj by auto

lemma dry_run_failures_Inr:
  "dry_run_failures nums c cancelled i insts = Inr fs \<longleftrightarrow>
     (\<forall>j < length insts. cancelled (i + j) = None) \<and> fs = List.map_filter (request_error nums c) insts"
proof (induction insts arbitrary: i fs)
  case (Cons inst insts)
  show ?case
  proof (cases "cancelled i")
    case None
    show ?thesis
    proof (cases "dry_run_failures nums c cancelled (Suc i) insts")
      case (Inl e)
      with Cons.IH [of "Suc i" "List.map_filter (request_error nums c) insts"] None show ?thesis
        by (auto simp: all_less_Suc)
    next
      case (Inr gs)
      with Cons.IH [of "Suc i" gs] None show ?thesis
        by (auto simp: all_less_Suc map_filter_simps request_error_def split: sum.splits)
    qed
  qed (auto simp: all_less_Suc)
qed (auto simp: map_filter_simps)

lemma map_filter_full: "length (List.map_filter f xs) = length xs \<longleftrightarrow> (\<forall>x \<in> set xs. f x \<noteq> None)"
proof (induction xs)
  case (Cons x xs)
  have "length (List.map_filter f xs) \<le> length xs" by (induction xs) (auto simp: map_filter_simps split: option.splits)
  with Cons show ?case by (auto simp: map_filter_simps split: option.splits)
qed (simp add: map_filter_simps)

lemma dryRunRequest_None:
  assumes "insts \<noteq> []"
  shows "dryRunRequest nums cancelled name c insts = None \<longleftrightarrow>
    (\<forall>i < length insts. cancelled i = None) \<and> (\<exists>inst \<in> set insts. request_error nums c inst = None)"
proof (cases "dry_run_failures nums c cancelled 0 insts")
  case (Inl e)
  with dry_run_failures_Inr [of nums c cancelled 0 insts "List.map_filter (request_error nums c) insts"]
  show ?thesis by (auto simp: dryRunRequest_def)
next
  case (Inr fs)
  with dry_run_failures_Inr [of nums c cancelled 0 insts fs] map_filter_full [of "request_error nums c" insts] assms
  show ?thesis by (auto simp: dryRunRequest_def)
qed

lemma three_instances_shape:
  "a < length H \<Longrightarrow> \<exists>v1 v2 vs w'. GenerateThreeInstances fk H (Some a) w = Some (v1 # v2 # vs, w')"
  using generation_returns [of fk H "Some a" w]
  by (auto simp: GenerateThreeInstances_def usable_def map_fst_def Let_def split: option.splits prod.splits)

lemma requestInstances_nonempty: "fst (requestInstances env H op w) \<noteq> []"
proof -
  have "snd (buildInputSchemaForSynthetic (ve_argOrder env) H op) < length (fst (buildInputSchemaForSynthetic (ve_argOrder env) H op))"
    by (simp add: buildInputSchemaForSynthetic_def Let_def case_prod_unfold)
  then obtain H' a where b: "buildInputSchemaForSynthetic (ve_argOrder env) H op = (H', a)" "a < length H'"
    by (metis prod.collapse)
  from three_instances_shape [OF b(2), of "ve_faker env" w] show ?thesis
    by (auto simp: requestInstances_def b(1))
qed


section \<open>Witnesses\<close>

text \<open>A transform that fails on arguments without a limit.\<close>

definition limit_code :: jq_code where
  "limit_code v = (case v of GMap m \<Rightarrow> (if map_of m ''limit'' = None then [Inl (ErrText ''no limit'')] else [Inr (GMap [])])
     | _ \<Rightarrow> [])"

definition sample_validate :: "unit validate_env" where
  "sample_validate =
     \<lparr>ve_gen = sample_gen, ve_argOrder = id, ve_jq = \<lparr>jq_Parse = Inr, jq_Compile = (\<lambda>q. Inr limit_code)\<rparr>,
      ve_nums = \<lparr>num_json = (\<lambda>r. Some ''1''), num_sprint = (\<lambda>r. ''1'')\<rparr>, ve_faker = no_faker, ve_cancelled = Map.empty\<rparr>"

definition sample_compiled :: CompiledTransforms where
  "sample_compiled = \<lparr>ct_Request = limit_code, ct_Response = limit_code, ct_Error = limit_code\<rparr>"

definition sample_generated :: GeneratedTool where
  "sample_generated = generateTool sample_gen [] zeroUpstreamConfig first_wins_naming ''/pets'' sample_item ''GET'' list_op"


end
