(* ===== verification/Executor.thy ===== *)
theory Executor
  imports Validator Breaker Inbound
begin

text \<open>
  Outbound authentication (\<^verbatim>\<open>pkg/auth/outbound\<close>) and the execution of an HTTP tool
  (\<^verbatim>\<open>pkg/upstream/http/executor.go\<close>, \<^verbatim>\<open>client.go\<close>): from the arguments of a call through request
  transform, credentials, URL, headers, validation, circuit breaker and upstream response to
  the result. Telemetry is left out.
\<close>

section \<open>Outbound credentials\<close>

text \<open>A provider reads the world, for instance a token cache or the environment.\<close>

record 'w TokenProvider =
  tp_Token :: "Ctx \<Rightarrow> 'w \<Rightarrow> (goerr + string) \<times> 'w"
  tp_RawHeaders :: "Ctx \<Rightarrow> 'w \<Rightarrow> (goerr + string gomap) \<times> 'w"

definition HeadersFromContext :: "Ctx \<Rightarrow> string gomap" where
  "HeadersFromContext ctx = (case ctx_headers ctx of None \<Rightarrow> [] | Some h \<Rightarrow> h)"

definition withHeaders :: "string gomap \<Rightarrow> Ctx \<Rightarrow> Ctx" where
  "withHeaders h ctx = ctx\<lparr>ctx_headers := Some h\<rparr>"

definition AuthResultFromContext :: "Ctx \<Rightarrow> CallToolResult option" where
  "AuthResultFromContext ctx = ctx_auth_result ctx"

definition withAuthResult :: "CallToolResult \<Rightarrow> Ctx \<Rightarrow> Ctx" where
  "withAuthResult r ctx = ctx\<lparr>ctx_auth_result := Some r\<rparr>"

definition authErrResult :: "goerr \<Rightarrow> CallToolResult" where
  "authErrResult err =
     (case as_auth_required err of
        Some url \<Rightarrow> error_result (''Authorization required. Please visit the following URL to grant access:'' @
                      newline @ url)
      | None \<Rightarrow> error_result (''outbound auth error: '' @ err_text err))"

definition outboundMiddleware :: "'w TokenProvider \<Rightarrow> 'w stage \<Rightarrow> 'w stage" where
  "outboundMiddleware p nxt ctx w =
     (case tp_RawHeaders p ctx w of
        (Inl err, w) \<Rightarrow> nxt (withAuthResult (authErrResult err) ctx) w
      | (Inr rawHeaders, w) \<Rightarrow>
          (if rawHeaders \<noteq> [] then nxt (withHeaders rawHeaders ctx) w
           else (case tp_Token p ctx w of
                   (Inl err, w) \<Rightarrow> nxt (withAuthResult (authErrResult err) ctx) w
                 | (Inr token, w) \<Rightarrow>
                     nxt (if token \<noteq> [] then withHeaders [(''Authorization'', ''Bearer '' @ token)] ctx else ctx) w)))"

definition AuthTransport :: "'w TokenProvider \<Rightarrow> 'w round_tripper \<Rightarrow> 'w round_tripper" where
  "AuthTransport p base req w =
     (case tp_RawHeaders p (cr_ctx req) w of
        (Inl err, w) \<Rightarrow> (Inl (ErrWrap ''get raw headers'' err), w)
      | (Inr hs, w) \<Rightarrow>
          (if hs \<noteq> [] then base (req\<lparr>cr_header := set_headers hs (cr_header req)\<rparr>) w
           else (case tp_Token p (cr_ctx req) w of
                   (Inl err, w) \<Rightarrow> (Inl (ErrWrap ''get outbound token'' err), w)
                 | (Inr token, w) \<Rightarrow>
                     base (if token \<noteq> [] then req\<lparr>cr_header := header_set ''Authorization'' (''Bearer '' @ token) (cr_header req)\<rparr>
                           else req) w)))"

text \<open>The strategies that read the environment, given as a function of the world.\<close>

definition noneProvider :: "'w TokenProvider" where
  "noneProvider = \<lparr>tp_Token = (\<lambda>ctx. Pair (Inr [])), tp_RawHeaders = (\<lambda>ctx. Pair (Inr []))\<rparr>"

definition bearerProvider :: "('w \<Rightarrow> string \<Rightarrow> string) \<Rightarrow> BearerOutboundConfig \<Rightarrow> 'w TokenProvider" where
  "bearerProvider getenv cfg =
     \<lparr>tp_Token = (\<lambda>ctx w. (let val = getenv w (TokenEnv cfg) in
         if val = [] then Inl (ErrText (''outbound bearer token env var '' @ go_quote (TokenEnv cfg) @ '' is empty or unset''))
         else Inr val, w)),
      tp_RawHeaders = (\<lambda>ctx. Pair (Inr []))\<rparr>"

definition apiKeyProvider :: "('w \<Rightarrow> string \<Rightarrow> string) \<Rightarrow> APIKeyOutboundConfig \<Rightarrow> 'w TokenProvider" where
  "apiKeyProvider getenv cfg =
     \<lparr>tp_Token = (\<lambda>ctx. Pair (Inr [])),
      tp_RawHeaders = (\<lambda>ctx w. (let val = getenv w (ValueEnv cfg) in
         if val = [] then Inl (ErrText (''outbound API key env var '' @ go_quote (ValueEnv cfg) @ '' is empty or unset''))
         else Inr [(APIKeyOutboundConfig.Header cfg, APIKeyOutboundConfig.Prefix cfg @ val)], w))\<rparr>"

text \<open>The client credentials flow of \<^verbatim>\<open>golang.org/x/oauth2\<close> is the token source.\<close>

definition oauth2Provider :: "('w \<Rightarrow> (goerr + string) \<times> 'w) \<Rightarrow> 'w TokenProvider" where
  "oauth2Provider src =
     \<lparr>tp_Token = (\<lambda>ctx w. case src w of
         (Inl e, w) \<Rightarrow> (Inl (ErrWrap ''fetching oauth2 client credentials token'' e), w)
       | (Inr tok, w) \<Rightarrow> (Inr tok, w)),
      tp_RawHeaders = (\<lambda>ctx. Pair (Inr []))\<rparr>"

type_synonym 'w outbound_factory = "OutboundAuthConfig \<Rightarrow> 'w \<Rightarrow> (goerr + ('w stage \<Rightarrow> 'w stage)) \<times> 'w"

text \<open>The registrations of the built-in strategies. The token source of a client credentials
  configuration is the parameter \<^term>\<open>source\<close>.\<close>

definition builtinStrategies ::
    "('w \<Rightarrow> string \<Rightarrow> string) \<Rightarrow> (OAuth2CCConfig \<Rightarrow> 'w \<Rightarrow> (goerr + string) \<times> 'w) \<Rightarrow>
     'w outbound_factory registry \<Rightarrow> 'w outbound_factory registry" where
  "builtinStrategies getenv source reg =
     Register ''outbound/none'' (\<lambda>oc. Pair (Inr (outboundMiddleware noneProvider)))
    (Register ''outbound/bearer'' (\<lambda>oc. Pair (Inr (outboundMiddleware (bearerProvider getenv (OutboundAuthConfig.Bearer oc)))))
    (Register ''outbound/api_key'' (\<lambda>oc. Pair (Inr (outboundMiddleware (apiKeyProvider getenv (OutboundAuthConfig.APIKey oc)))))
    (Register ''outbound/oauth2_client_credentials''
       (\<lambda>oc. Pair (Inr (outboundMiddleware (oauth2Provider (source (OAuth2ClientCredentials oc)))))) reg)))"

definition newOutbound :: "'w outbound_factory registry \<Rightarrow> OutboundAuthConfig \<Rightarrow> 'w \<Rightarrow> (goerr + ('w stage \<Rightarrow> 'w stage)) \<times> 'w" where
  "newOutbound reg oc w =
     (let strategy = OutboundAuthConfig.Strategy oc;
          name = ''outbound/'' @ (if strategy = [] then ''none'' else strategy)
      in case Get reg name of
           None \<Rightarrow> (Inl (ErrText (''unknown middleware '' @ go_quote name @ '' '' @ em_dash @ '' did you forget to import the strategy sub-package?'')), w)
         | Some f \<Rightarrow> f oc w)"

section \<open>The HTTP client of an upstream\<close>

definition headerRoundTripper :: "string gomap \<Rightarrow> 'w round_tripper \<Rightarrow> 'w round_tripper" where
  "headerRoundTripper headers wrapped req w =
     wrapped (req\<lparr>cr_header :=
       fold (\<lambda>(k, v) h. if header_get h k = [] then header_set k v h else h) headers (cr_header req)\<rparr>) w"

definition extraHeaders :: "goval gomap \<Rightarrow> string gomap" where
  "extraHeaders extra =
     List.map_filter (\<lambda>(k, v). case (cut_prefix k ''header:'', v) of
         (Some hdr, GStr s) \<Rightarrow> Some (hdr, s) | _ \<Rightarrow> None) extra"

definition tokenInfoHeaderTransport :: "'w round_tripper \<Rightarrow> 'w round_tripper" where
  "tokenInfoHeaderTransport wrapped req w =
     (case TokenInfoFromContext (cr_ctx req) of
        None \<Rightarrow> wrapped req w
      | Some info \<Rightarrow> wrapped (req\<lparr>cr_header := set_headers (extraHeaders (Extra info)) (cr_header req)\<rparr>) w)"

record 'w http_client =
  hc_Timeout :: Duration
  hc_Transport :: "'w round_tripper"

text \<open>The builder of the base transport is a parameter.\<close>

definition NewHTTPClient ::
    "(TransportConfig \<Rightarrow> goerr + 'w round_tripper) \<Rightarrow> UpstreamConfig \<Rightarrow> goerr + 'w http_client" where
  "NewHTTPClient build cfg =
     (let tc = UpstreamConfig.Transport cfg;
          tc = (if UpstreamConfig.TLSSkipVerify cfg
                then tc\<lparr>TransportConfig.TLS := (TransportConfig.TLS tc)\<lparr>InsecureSkipVerify := True\<rparr>\<rparr> else tc)
      in case build tc of
           Inl e \<Rightarrow> Inl (ErrWrap ''building transport'' e)
         | Inr t \<Rightarrow>
             Inr \<lparr>hc_Timeout = UpstreamConfig.Timeout cfg,
                  hc_Transport = tokenInfoHeaderTransport
                    (if UpstreamConfig.Headers cfg \<noteq> [] then headerRoundTripper (UpstreamConfig.Headers cfg) t else t)\<rparr>)"

section \<open>The upstream URL\<close>

text \<open>\<^verbatim>\<open>strings.ReplaceAll\<close> for a text that is not empty.\<close>

function replace_all :: "string \<Rightarrow> string \<Rightarrow> string \<Rightarrow> string" where
  "replace_all old new [] = []"
| "replace_all old new (c # s) =
     (if old \<noteq> [] \<and> has_prefix (c # s) old then new @ replace_all old new (drop (length old) (c # s))
      else c # replace_all old new s)"
  by pat_completeness auto
termination
  by (relation "measure (\<lambda>(old, new, s). length s)") (auto simp: neq_Nil_conv)

definition substitute :: "string gomap \<Rightarrow> string \<Rightarrow> string" where
  "substitute params template =
     fold (\<lambda>(name, val) path. replace_all (''{'' @ name @ ''}'') (PathEscape val) path) params template"

text \<open>\<^verbatim>\<open>net/url\<close>: a parsed URL as the text before its query, the raw query and the fragment. The
  parser, which also normalises the text before the query, is a parameter.\<close>

record url =
  url_Location :: string
  url_RawQuery :: string
  url_Fragment :: string

definition url_string :: "url \<Rightarrow> string" where
  "url_string u = url_Location u @ (if url_RawQuery u \<noteq> [] then ''?'' @ url_RawQuery u else []) @
     (if url_Fragment u \<noteq> [] then ''#'' @ url_Fragment u else [])"

definition query_safe :: "char \<Rightarrow> bool" where
  "query_safe c \<longleftrightarrow> is_lower c \<or> is_upper c \<or> is_digit c \<or> c \<in> set [CHR ''-'', CHR ''_'', CHR ''.'', CHR ''~'']"

definition QueryEscape :: "string \<Rightarrow> string" where
  "QueryEscape s = concat (map (\<lambda>c. if query_safe c then [c] else if c = CHR '' '' then ''+''
     else [CHR ''%'', upper_hex (of_char c div 16), upper_hex (of_char c mod 16)]) s)"

definition hex_value :: "char \<Rightarrow> nat option" where
  "hex_value c =
     (if is_digit c then Some (of_char c - 48)
      else if CHR ''A'' \<le> c \<and> c \<le> CHR ''F'' then Some (of_char c - 55)
      else if CHR ''a'' \<le> c \<and> c \<le> CHR ''f'' then Some (of_char c - 87) else None)"

fun QueryUnescape :: "string \<Rightarrow> string option" where
  "QueryUnescape [] = Some []"
| "QueryUnescape (c # s) =
     (if c = CHR ''%'' then
        (case s of
           a # b # t \<Rightarrow>
             (case (hex_value a, hex_value b) of
                (Some x, Some y) \<Rightarrow> map_option (Cons (char_of (16 * x + y))) (QueryUnescape t)
              | _ \<Rightarrow> None)
         | _ \<Rightarrow> None)
      else map_option (Cons (if c = CHR ''+'' then CHR '' '' else c)) (QueryUnescape s))"

text \<open>\<^verbatim>\<open>u.Query()\<close> drops the pairs it cannot parse; a key has its values in order.\<close>

definition parsePair :: "string \<Rightarrow> (string \<times> string) option" where
  "parsePair s =
     (if s = [] \<or> CHR '';'' \<in> set s then None
      else (let (k, v) = (case cut_char CHR ''='' s of None \<Rightarrow> (s, []) | Some kv \<Rightarrow> kv)
            in case (QueryUnescape k, QueryUnescape v) of (Some k, Some v) \<Rightarrow> Some (k, v) | _ \<Rightarrow> None))"

definition parseQuery :: "string \<Rightarrow> (string \<times> string) list" where
  "parseQuery raw = List.map_filter parsePair (split_char CHR ''&'' raw)"

definition query_set :: "string \<Rightarrow> string \<Rightarrow> (string \<times> string) list \<Rightarrow> (string \<times> string) list" where
  "query_set k v q = filter (\<lambda>(k', v'). k' \<noteq> k) q @ [(k, v)]"

definition encodeQuery :: "(string \<times> string) list \<Rightarrow> string" where
  "encodeQuery q =
     join_with ''&'' (map (\<lambda>(k, v). QueryEscape k @ ''='' @ QueryEscape v)
       (concat (map (\<lambda>k. filter (\<lambda>(k', v). k' = k) q) (sort (remdups (map fst q))))))"

definition buildUpstreamURL ::
    "(string \<Rightarrow> goerr + url) \<Rightarrow> string \<Rightarrow> string \<Rightarrow> RequestEnvelope \<Rightarrow> goerr + string" where
  "buildUpstreamURL parse baseURL pathTemplate envelope =
     (case parse (baseURL @ substitute (Path envelope) pathTemplate) of
        Inl e \<Rightarrow> Inl (ErrWrap ''parsing URL'' e)
      | Inr u \<Rightarrow>
          Inr (url_string
            (if Query envelope \<noteq> []
             then u\<lparr>url_RawQuery := encodeQuery
               (fold (\<lambda>(k, v) q. if v \<noteq> [] then query_set k v q else q) (Query envelope) (parseQuery (url_RawQuery u)))\<rparr>
             else u)))"

definition statusIn :: "int list \<Rightarrow> int \<Rightarrow> bool" where
  "statusIn codes status = list_ex (\<lambda>s. s = status) codes"

section \<open>The pipeline of a call\<close>

text \<open>
  A circuit breaker of an upstream: \<^verbatim>\<open>gobreaker\<close>'s \<^verbatim>\<open>Execute\<close> runs the call, or refuses it with one
  of its two errors; \<^verbatim>\<open>cb_recovery\<close> is the estimate of \<^theory_text>\<open>EstimatedRecovery\<close> at the time of the call.
\<close>

record 'w tool_breaker =
  cb_UpstreamName :: string
  cb_Execute :: "('w \<Rightarrow> call_return \<times> 'w) \<Rightarrow> 'w \<Rightarrow> call_return \<times> 'w"
  cb_EstimatedRecovery :: "'w \<Rightarrow> Time"

record 'w exec_env =
  ee_json :: go_json
  ee_url :: "string \<Rightarrow> goerr + url"
  ee_newRequest :: "string \<Rightarrow> string \<Rightarrow> goerr option"
  ee_do :: "'w http_client \<Rightarrow> 'w round_tripper"
  ee_now :: "'w \<Rightarrow> Time"
  ee_rfc3339 :: "Time \<Rightarrow> string"
  ee_breaker :: "nat \<Rightarrow> 'w \<Rightarrow> 'w tool_breaker option"

text \<open>What an executor of the source reaches through its entry, beside the entry itself.\<close>

record 'w http_tool =
  ht_entry :: "'w RegistryEntry"
  ht_upstream :: Upstream
  ht_client :: "'w http_client"
  ht_transforms :: "CompiledTransforms option"
  ht_validator :: "Validator option"

definition openCircuitResult :: "'w exec_env \<Rightarrow> 'w tool_breaker \<Rightarrow> 'w \<Rightarrow> CallToolResult" where
  "openCircuitResult env cb w =
     (let msg = ''upstream '' @ go_quote (cb_UpstreamName cb) @ '' is unavailable: circuit breaker is open'';
          recovery = cb_EstimatedRecovery cb w
      in error_result (if recovery \<noteq> 0 \<and> ee_now env w < recovery
           then msg @ '', estimated recovery at '' @ ee_rfc3339 env recovery else msg))"

definition buildSuccessResult :: "go_json \<Rightarrow> CompiledTransforms \<Rightarrow> string \<Rightarrow> string \<Rightarrow> string \<Rightarrow> CallToolResult" where
  "buildSuccessResult js ts responseFormat contentType body =
     (case ToMCPContent js (Detect responseFormat contentType) body contentType (Some (ct_Response ts)) of
        Inl e \<Rightarrow> ok_result [TextContent body]
      | Inr cs \<Rightarrow> ok_result cs)"

definition buildErrorResult :: "go_json \<Rightarrow> CompiledTransforms \<Rightarrow> int \<Rightarrow> string \<Rightarrow> string \<Rightarrow> CallToolResult" where
  "buildErrorResult js ts statusCode contentType body = ToErrorResult js body contentType statusCode (ct_Error ts)"

text \<open>The result for a response whose body has been read.\<close>

definition responseResult ::
    "go_json \<Rightarrow> 'w RegistryEntry \<Rightarrow> CompiledTransforms \<Rightarrow> Validator option \<Rightarrow> RequestValidationInput option \<Rightarrow>
     int \<Rightarrow> header \<Rightarrow> string \<Rightarrow> CallToolResult" where
  "responseResult js entry ts validator reqInput status hdr body =
     (let vcfg = ValidationCfg entry;
          inSuccess = statusIn (SuccessStatus vcfg) status;
          inError = statusIn (ErrorStatus vcfg) status;
          contentType = header_get hdr ''Content-Type''
      in if \<not> inSuccess \<and> \<not> inError then error_result (''unexpected HTTP '' @ show_int status)
         else if inError then buildErrorResult js ts status contentType body
         else (case (if ValidationConfig.ValidateResponse vcfg
                     then (case (reqInput, validator) of
                             (Some ri, Some v) \<Rightarrow> Validator.ValidateResponse v ri status hdr body | _ \<Rightarrow> None)
                     else None) of
                 Some valErr \<Rightarrow>
                   if ResponseValidationFailure vcfg = ''fail''
                   then error_result (''response validation failed: '' @ err_text valErr)
                   else buildSuccessResult js ts (RegistryEntry.ResponseFormat entry) contentType body
               | None \<Rightarrow> buildSuccessResult js ts (RegistryEntry.ResponseFormat entry) contentType body))"

definition httpDispatchWithStatus ::
    "'w exec_env \<Rightarrow> 'w http_tool \<Rightarrow> ClientRequest \<Rightarrow> RequestValidationInput option \<Rightarrow> CompiledTransforms \<Rightarrow>
     'w \<Rightarrow> (CallToolResult option \<times> int \<times> goerr option) \<times> 'w" where
  "httpDispatchWithStatus env t httpReq reqInput ts w =
     (case ee_do env (ht_client t) httpReq w of
        (Inl e, w) \<Rightarrow> ((None, 0, Some (ErrWrap ''executing HTTP request'' e)), w)
      | (Inr resp, w) \<Rightarrow>
          (case cp_body resp of
             Inl e \<Rightarrow> ((None, 0, Some (ErrWrap ''reading response body'' e)), w)
           | Inr body \<Rightarrow>
               ((Some (responseResult (ee_json env) (ht_entry t) ts (ht_validator t) reqInput
                   (cp_status resp) (cp_header resp) body), cp_status resp, None), w)))"

definition guarded_call ::
    "('w \<Rightarrow> (CallToolResult option \<times> int \<times> goerr option) \<times> 'w) \<Rightarrow> 'w \<Rightarrow> call_return \<times> 'w" where
  "guarded_call dispatch w =
     (case dispatch w of
        ((res, statusCode, Some e), w) \<Rightarrow> ((None, Some e), w)
      | ((res, statusCode, None), w) \<Rightarrow> ((res, if statusCode \<ge> 500 then Some ErrUpstreamFailure else None), w))"

definition dispatchCall ::
    "'w exec_env \<Rightarrow> 'w tool_breaker option \<Rightarrow> ('w \<Rightarrow> (CallToolResult option \<times> int \<times> goerr option) \<times> 'w) \<Rightarrow> 'w stage" where
  "dispatchCall env cb dispatch ctx w =
     (case cb of
        None \<Rightarrow> (case dispatch w of ((res, statusCode, e), w) \<Rightarrow> ((res, e), w))
      | Some b \<Rightarrow>
          (case cb_Execute b (guarded_call dispatch) w of
             ((res, cbErr), w) \<Rightarrow>
               (if errors_is cbErr ErrOpenState \<or> errors_is cbErr ErrTooManyRequests
                then ((Some (openCircuitResult env b w), None), w)
                else if errors_is cbErr ErrUpstreamFailure then ((res, None), w)
                else ((res, cbErr), w))))"

text \<open>The request for an envelope: URL, body and headers, in the order the code adds them.\<close>

definition prepareRequest :: "'w exec_env \<Rightarrow> 'w http_tool \<Rightarrow> Ctx \<Rightarrow> RequestEnvelope \<Rightarrow> goerr + ClientRequest" where
  "prepareRequest env t ctx envelope =
     (case buildUpstreamURL (ee_url env) (Upstream.BaseURL (ht_upstream t)) (RegistryEntry.PathTemplate (ht_entry t)) envelope of
        Inl e \<Rightarrow> Inl (ErrWrap ''building upstream URL'' e)
      | Inr upstreamURL \<Rightarrow>
          (case (if Body envelope = GNil then Inr None
                 else (case marshalSorted (num_json (js_nums (ee_json env))) (Body envelope) of
                         None \<Rightarrow> Inl (ErrText ''marshalling request body'') | Some b \<Rightarrow> Inr (Some b))) of
             Inl e \<Rightarrow> Inl e
           | Inr body \<Rightarrow>
               (case ee_newRequest env (RegistryEntry.Method (ht_entry t)) upstreamURL of
                  Some e \<Rightarrow> Inl (ErrWrap ''creating HTTP request'' e)
                | None \<Rightarrow>
                    (let h = set_headers (HeadersFromContext ctx) (set_headers (RequestEnvelope.Headers envelope) Map.empty)
                     in Inr \<lparr>cr_method = RegistryEntry.Method (ht_entry t), cr_url = upstreamURL,
                          cr_header = (if body \<noteq> None then header_set ''Content-Type'' ''application/json'' h else h),
                          cr_body = body, cr_ctx = ctx\<rparr>))))"

text \<open>The validation of the request, or the route alone when only responses are validated; a
  refusal is the result of the call.\<close>

definition checkRequest ::
    "ValidationConfig \<Rightarrow> Validator option \<Rightarrow> ClientRequest \<Rightarrow> CallToolResult + RequestValidationInput option" where
  "checkRequest vcfg validator req =
     (case validator of
        None \<Rightarrow> Inr None
      | Some v \<Rightarrow>
          (if ValidationConfig.ValidateRequest vcfg then
             (case Validator.ValidateRequest v req of
                (ri, Some valErr) \<Rightarrow> Inl (error_result (''request validation failed: '' @ err_text valErr))
              | (ri, None) \<Rightarrow> Inr ri)
           else if ValidationConfig.ValidateResponse vcfg then
             (case BuildRequestInput v req of Inl e \<Rightarrow> Inr None | Inr ri \<Rightarrow> Inr (Some ri))
           else Inr None))"

definition ServeHTTP :: "'w exec_env \<Rightarrow> 'w http_tool \<Rightarrow> 'w stage" where
  "ServeHTTP env t ctx w =
     (case ErrorFromContext ctx of
        Some tErr \<Rightarrow> ((Some (error_result (''request transform: '' @ err_text tErr)), None), w)
      | None \<Rightarrow>
          (case AuthResultFromContext ctx of
             Some r \<Rightarrow> ((Some r, None), w)
           | None \<Rightarrow>
               (case ht_transforms t of
                  None \<Rightarrow> ((None, Some (ErrText (''invalid transforms for tool '' @
                    go_quote (RegistryEntry.PrefixedName (ht_entry t)) @ '': expected *transform.CompiledTransforms''))), w)
                | Some ts \<Rightarrow>
                    (case RequestEnvelopeFromContext ctx of
                       None \<Rightarrow> ((None, Some (ErrText (''no request envelope in context for tool '' @
                         go_quote (RegistryEntry.PrefixedName (ht_entry t))))), w)
                     | Some envelope \<Rightarrow>
                         (case prepareRequest env t ctx envelope of
                            Inl e \<Rightarrow> ((None, Some e), w)
                          | Inr req \<Rightarrow>
                              (case checkRequest (ValidationCfg (ht_entry t)) (ht_validator t) req of
                                 Inl refusal \<Rightarrow> ((Some refusal, None), w)
                               | Inr reqInput \<Rightarrow>
                                   dispatchCall env (ee_breaker env (up_addr (ht_upstream t)) w)
                                     (httpDispatchWithStatus env t req reqInput ts) ctx w))))))"

text \<open>The chain the builder composes for a tool, and the executor that starts it.\<close>

definition toolChain :: "'w exec_env \<Rightarrow> ('w stage \<Rightarrow> 'w stage) \<Rightarrow> 'w http_tool \<Rightarrow> 'w stage" where
  "toolChain env outboundMW t =
     (let h = outboundMW (ServeHTTP env t)
      in case ht_transforms t of None \<Rightarrow> h | Some ts \<Rightarrow> RequestMiddleware (js_nums (ee_json env)) ts h)"

definition Execute :: "'w exec_env \<Rightarrow> ('w stage \<Rightarrow> 'w stage) \<Rightarrow> 'w http_tool \<Rightarrow> 'w executor" where
  "Execute env outboundMW t ctx args w = toolChain env outboundMW t (WithMCPArgs args ctx) w"

section \<open>Paths cannot be extended by arguments\<close>

lemma replace_all_count:
  "c \<notin> set new \<Longrightarrow> count_list (replace_all old new s) c \<le> count_list s c"
proof (induction old new s rule: replace_all.induct)
  case (2 old new x s)
  show ?case
  proof (cases "old \<noteq> [] \<and> has_prefix (x # s) old")
    case True
    then obtain t where t: "x # s = old @ t" by (auto simp: has_prefix_iff)
    from True 2 have "count_list (replace_all old new (drop (length old) (x # s))) c \<le> count_list (drop (length old) (x # s)) c"
      by blast
    moreover have "replace_all old new (x # s) = new @ replace_all old new (drop (length old) (x # s))"
      using True by simp
    ultimately show ?thesis using 2(3) unfolding t by (simp add: count_list_0_iff)
  next
    case False
    then have "replace_all old new (x # s) = x # replace_all old new s" by auto
    with 2(2) [OF False 2(3)] show ?thesis by simp
  qed
qed simp

lemma substitute_count:
  assumes "c \<in> {CHR ''/'', CHR ''?'', CHR ''#'', CHR ''{''}"
  shows "count_list (substitute params template) c \<le> count_list template c"
  unfolding substitute_def
proof (induction params arbitrary: template)
  case (Cons p params)
  obtain name val where p: "p = (name, val)" by (cases p)
  from Cons.IH [of "replace_all (''{'' @ name @ ''}'') (PathEscape val) template"]
    replace_all_count [OF PathEscape_no_slash [OF assms], of "''{'' @ name @ ''}''" val template]
  show ?case by (simp add: p)
qed simp

text \<open>C40: whatever values a request envelope has for the path, and in whatever order they are put in,
  the path handed to the URL parser has no segment, query or fragment separator that its
  template does not have.\<close>

theorem path_arguments_stay_in_their_segment:
  "count_list (substitute params template) CHR ''/'' \<le> count_list template CHR ''/'' \<and>
   count_list (substitute params template) CHR ''?'' \<le> count_list template CHR ''?'' \<and>
   count_list (substitute params template) CHR ''#'' \<le> count_list template CHR ''#''"
  by (simp add: substitute_count)

text \<open>A dot segment is not escaped, so an argument can still be one.\<close>

lemma dot_segment_survives:
  "substitute [(''id'', ''..'')] ''/users/{id}/keys'' = ''/users/../keys''"
  by code_simp

section \<open>Results by status\<close>

lemma statusIn_iff [simp]: "statusIn codes s \<longleftrightarrow> s \<in> set codes"
  by (induction codes) (auto simp: statusIn_def)

lemma ToErrorResult_error [simp]: "IsError (ToErrorResult js body ct s code)"
  by (simp add: ToErrorResult_def Let_def)

lemma buildSuccessResult_ok [simp]: "\<not> IsError (buildSuccessResult js ts fmt ct body)"
  by (simp add: buildSuccessResult_def split: sum.splits)

text \<open>C39: a response gives an error result exactly when its status is configured as an error, is not
  configured as a success, or the response validation is on, set to fail and refuses it; an
  error status wins over a success status.\<close>

theorem response_is_error_iff:
  "IsError (responseResult js entry ts validator reqInput status hdr body) \<longleftrightarrow>
     status \<in> set (ErrorStatus (ValidationCfg entry)) \<or> status \<notin> set (SuccessStatus (ValidationCfg entry)) \<or>
     (ValidationConfig.ValidateResponse (ValidationCfg entry) \<and>
      ResponseValidationFailure (ValidationCfg entry) = ''fail'' \<and>
      (\<exists>v ri e. validator = Some v \<and> reqInput = Some ri \<and> Validator.ValidateResponse v ri status hdr body = Some e))"
  by (auto simp: responseResult_def Let_def buildErrorResult_def split: option.splits)

section \<open>Refused calls\<close>

text \<open>The result of the credential stage before the terminal handler runs.\<close>

definition credential_error :: "'w TokenProvider \<Rightarrow> Ctx \<Rightarrow> 'w \<Rightarrow> goerr option" where
  "credential_error p ctx w =
     (case tp_RawHeaders p ctx w of
        (Inl e, w1) \<Rightarrow> Some e
      | (Inr hs, w1) \<Rightarrow> (if hs \<noteq> [] then None
          else (case fst (tp_Token p ctx w1) of Inl e \<Rightarrow> Some e | Inr token \<Rightarrow> None)))"

text \<open>The context after the request transform.\<close>

definition transformed_ctx :: "go_numbers \<Rightarrow> CompiledTransforms \<Rightarrow> args \<Rightarrow> Ctx \<Rightarrow> Ctx" where
  "transformed_ctx nums ts args ctx =
     (case RunRequest nums ts args of
        Inl e \<Rightarrow> withTransformError e (WithMCPArgs args ctx)
      | Inr envelope \<Rightarrow> withEnvelope envelope (WithMCPArgs args ctx))"

lemma Execute_unfold:
  "ht_transforms t = Some ts \<Longrightarrow>
   Execute env mw t ctx args w = mw (ServeHTTP env t) (transformed_ctx (js_nums (ee_json env)) ts args ctx) w"
  by (simp add: Execute_def toolChain_def RequestMiddleware_def transformed_ctx_def MCPArgsFromContext_def
      WithMCPArgs_def split: sum.splits)

lemma ctx_after_credentials [simp]:
  "ErrorFromContext (withHeaders h ctx) = ErrorFromContext ctx"
  "ErrorFromContext (withAuthResult r ctx) = ErrorFromContext ctx"
  "AuthResultFromContext (withAuthResult r ctx) = Some r"
  by (simp_all add: ErrorFromContext_def AuthResultFromContext_def withHeaders_def withAuthResult_def)

lemma transform_failed:
  assumes "ErrorFromContext ctx = Some e"
  shows "ServeHTTP env t ctx w = ((Some (error_result (''request transform: '' @ err_text e)), None), w)"
  by (simp add: ServeHTTP_def assms)

lemma credentials_refused:
  assumes "ErrorFromContext ctx = None" "AuthResultFromContext ctx = Some r"
  shows "ServeHTTP env t ctx w = ((Some r, None), w)"
  by (simp add: ServeHTTP_def assms)

text \<open>C31: a call whose request transform fails, or whose credentials cannot be obtained, ends in an
  error result that says so, the transform error first, and the upstream is not called: the
  outcome is the same whatever the HTTP client would do.\<close>

theorem refused_calls_do_not_reach_upstream:
  assumes "ht_transforms t = Some ts"
    and "(\<exists>e. RunRequest (js_nums (ee_json env)) ts args = Inl e) \<or>
      (\<exists>e. credential_error p (transformed_ctx (js_nums (ee_json env)) ts args ctx) w = Some e)"
    and "ctx_transform_err ctx = None"
  shows "\<exists>r. fst (Execute env (outboundMiddleware p) t ctx args w) = (Some r, None) \<and> IsError r \<and>
    (\<forall>d. Execute (env\<lparr>ee_do := d\<rparr>) (outboundMiddleware p) t ctx args w = Execute env (outboundMiddleware p) t ctx args w) \<and>
    (\<forall>e. RunRequest (js_nums (ee_json env)) ts args = Inl e \<longrightarrow> r = error_result (''request transform: '' @ err_text e))"
proof (cases "RunRequest (js_nums (ee_json env)) ts args")
  case (Inl e)
  have c: "ErrorFromContext (transformed_ctx (js_nums (ee_json env)) ts args ctx) = Some e"
    by (simp add: transformed_ctx_def Inl ErrorFromContext_def withTransformError_def)
  show ?thesis
    unfolding Execute_unfold [OF assms(1)] outboundMiddleware_def
    by (auto simp: transform_failed [where e = e] c Inl split: sum.splits prod.splits)
next
  case (Inr envelope)
  let ?ctx = "transformed_ctx (js_nums (ee_json env)) ts args ctx"
  have c: "ErrorFromContext ?ctx = None"
    using assms(3) by (simp add: transformed_ctx_def Inr ErrorFromContext_def withEnvelope_def WithMCPArgs_def)
  from assms(2) Inr obtain e where e: "credential_error p ?ctx w = Some e" by auto
  have a: "IsError (authErrResult err)" for err by (simp add: authErrResult_def split: option.splits)
  show ?thesis
    unfolding Execute_unfold [OF assms(1)] outboundMiddleware_def
    using e by (auto simp: credentials_refused c a Inr credential_error_def split: sum.splits prod.splits if_splits)
qed

section \<open>Circuit breaking\<close>

definition breaker_errors :: "goerr set" where
  "breaker_errors = {ErrOpenState, ErrTooManyRequests, ErrUpstreamFailure}"

text \<open>A breaker that admits the call changes nothing about the outcome the client sees, though it
  counts every status from 500 up and every transport error as a failure; a breaker that
  refuses turns the call into an error result without running it.\<close>

theorem circuit_breaker_outcomes:
  assumes "\<forall>res st e. fst (dispatch w) = (res, st, Some e) \<longrightarrow> res = None \<and> err_root e \<notin> breaker_errors"
  shows "((\<forall>f. \<exists>w'. cb_Execute b f w = (fst (f w), w')) \<longrightarrow>
       fst (dispatchCall env (Some b) dispatch ctx w) = fst (dispatchCall env None dispatch ctx w)) \<and>
    (\<forall>e \<in> {ErrOpenState, ErrTooManyRequests}. (\<forall>f. cb_Execute b f w = ((None, Some e), w)) \<longrightarrow>
       dispatchCall env (Some b) dispatch ctx w = ((Some (openCircuitResult env b w), None), w)) \<and>
    (snd (fst (guarded_call dispatch w)) \<noteq> None \<longleftrightarrow>
       snd (snd (fst (dispatch w))) \<noteq> None \<or> 500 \<le> fst (snd (fst (dispatch w))))"
proof -
  obtain res st e w1 where d: "dispatch w = ((res, st, e), w1)" by (metis prod.collapse)
  have admitted: "fst (dispatchCall env (Some b) dispatch ctx w) = fst (dispatchCall env None dispatch ctx w)"
    if a: "\<forall>f. \<exists>w'. cb_Execute b f w = (fst (f w), w')"
  proof -
    from a obtain w2 where x: "cb_Execute b (guarded_call dispatch) w = (fst (guarded_call dispatch w), w2)" by blast
    from assms d have "\<forall>e'. e = Some e' \<longrightarrow> res = None \<and> err_root e' \<notin> breaker_errors" by simp
    then show ?thesis using d
      by (cases e) (auto simp: dispatchCall_def x guarded_call_def breaker_errors_def errors_is_def)
  qed
  have refused: "dispatchCall env (Some b) dispatch ctx w = ((Some (openCircuitResult env b w), None), w)"
    if "e' \<in> {ErrOpenState, ErrTooManyRequests}" "\<forall>f. cb_Execute b f w = ((None, Some e'), w)" for e'
    using that by (auto simp: dispatchCall_def errors_is_def)
  show ?thesis using admitted refused by (auto simp: guarded_call_def d split: option.splits)
qed

section \<open>Which header is sent\<close>

definition layer :: "string gomap \<Rightarrow> string \<Rightarrow> string option" where
  "layer kvs k = set_headers kvs Map.empty (CanonicalHeaderKey k)"

lemma set_headers_layer:
  "set_headers kvs h (CanonicalHeaderKey k) = (case layer kvs k of Some v \<Rightarrow> Some v | None \<Rightarrow> h (CanonicalHeaderKey k))"
proof (induction kvs rule: rev_induct)
  case (snoc kv kvs)
  obtain k' v where "kv = (k', v)" by (cases kv)
  with snoc show ?case by (simp add: layer_def set_headers_def header_set_def)
qed (simp add: layer_def set_headers_def)

definition put_static :: "string gomap \<Rightarrow> header \<Rightarrow> header" where
  "put_static headers h = fold (\<lambda>(k, v) h. if header_get h k = [] then header_set k v h else h) headers h"

lemma put_static_keeps: "header_get h k \<noteq> [] \<Longrightarrow> put_static headers h (CanonicalHeaderKey k) = h (CanonicalHeaderKey k)"
proof (induction headers arbitrary: h)
  case (Cons kv headers)
  obtain k' v where kv: "kv = (k', v)" by (cases kv)
  let ?h = "if header_get h k' = [] then header_set k' v h else h"
  have "?h (CanonicalHeaderKey k) = h (CanonicalHeaderKey k)"
    using Cons.prems by (auto simp: header_set_def header_get_def)
  with Cons.IH [of ?h] Cons.prems show ?case by (simp add: put_static_def kv header_get_def)
qed (simp add: put_static_def)

lemma put_static_absent:
  "CanonicalHeaderKey k \<notin> CanonicalHeaderKey ` fst ` set headers \<Longrightarrow>
     put_static headers h (CanonicalHeaderKey k) = h (CanonicalHeaderKey k)"
  by (induction headers arbitrary: h) (auto simp: put_static_def header_set_def)

text \<open>The value a request carries before the static headers: the inbound token's extra headers, the
  content type of a body, the outbound credentials, the transformed arguments, in this order.\<close>

definition sent_value :: "TokenInfo option \<Rightarrow> bool \<Rightarrow> string gomap \<Rightarrow> string gomap \<Rightarrow> string \<Rightarrow> string option" where
  "sent_value info hasBody outbound envelope k =
     (case (case info of None \<Rightarrow> None | Some i \<Rightarrow> layer (extraHeaders (Extra i)) k) of
        Some v \<Rightarrow> Some v
      | None \<Rightarrow>
          (if hasBody \<and> CanonicalHeaderKey k = CanonicalHeaderKey ''Content-Type'' then Some ''application/json''
           else (case layer outbound k of Some v \<Rightarrow> Some v | None \<Rightarrow> layer envelope k)))"

text \<open>C37: the header a tool call sends is decided in a fixed order: extra headers of the inbound token,
  the content type, the outbound credentials, the arguments of the call, and only where
  all of these leave it empty the upstream's static headers. In particular an argument cannot
  override a credential, and a static header overrides nothing.\<close>

theorem header_precedence:
  assumes "prepareRequest env t ctx envelope = Inr req"
    and "NewHTTPClient (\<lambda>tc. Inr base) cfg = Inr c"
  shows "\<exists>H. hc_Transport c req w = base (req\<lparr>cr_header := H\<rparr>) w \<and>
    (let sent = sent_value (ctx_token ctx) (cr_body req \<noteq> None) (HeadersFromContext ctx) (RequestEnvelope.Headers envelope) k in
     (\<forall>v. sent = Some v \<and> v \<noteq> [] \<longrightarrow> H (CanonicalHeaderKey k) = Some v) \<and>
     (CanonicalHeaderKey k \<notin> CanonicalHeaderKey ` fst ` set (UpstreamConfig.Headers cfg) \<longrightarrow> H (CanonicalHeaderKey k) = sent))"
proof -
  let ?sent = "sent_value (ctx_token ctx) (cr_body req \<noteq> None) (HeadersFromContext ctx) (RequestEnvelope.Headers envelope) k"
  let ?H1 = "case ctx_token ctx of None \<Rightarrow> cr_header req | Some info \<Rightarrow> set_headers (extraHeaders (Extra info)) (cr_header req)"
  let ?H = "if UpstreamConfig.Headers cfg \<noteq> [] then put_static (UpstreamConfig.Headers cfg) ?H1 else ?H1"
  from assms(1) have r: "cr_ctx req = ctx" "cr_header req =
      (let h = set_headers (HeadersFromContext ctx) (set_headers (RequestEnvelope.Headers envelope) Map.empty)
       in if cr_body req \<noteq> None then header_set ''Content-Type'' ''application/json'' h else h)"
    by (auto simp: prepareRequest_def Let_def split: sum.splits option.splits if_splits)
  have h0: "cr_header req (CanonicalHeaderKey k) =
      (if cr_body req \<noteq> None \<and> CanonicalHeaderKey k = CanonicalHeaderKey ''Content-Type'' then Some ''application/json''
       else (case layer (HeadersFromContext ctx) k of Some v \<Rightarrow> Some v | None \<Rightarrow> layer (RequestEnvelope.Headers envelope) k))"
    unfolding r(2) Let_def by (simp add: set_headers_layer header_set_def layer_def [symmetric] split: option.split)
  have h: "?H1 (CanonicalHeaderKey k) = ?sent"
    unfolding sent_value_def h0 [symmetric] by (simp add: set_headers_layer split: option.split)
  have t: "hc_Transport c req w = base (req\<lparr>cr_header := ?H\<rparr>) w"
    using assms(2) by (auto simp: NewHTTPClient_def Let_def tokenInfoHeaderTransport_def headerRoundTripper_def
        put_static_def [symmetric] TokenInfoFromContext_def r(1) split: option.splits)
  have "?H (CanonicalHeaderKey k) = Some v" if "?sent = Some v" "v \<noteq> []" for v
    using that h by (simp add: put_static_keeps header_get_def)
  moreover have "?H (CanonicalHeaderKey k) = ?sent"
    if "CanonicalHeaderKey k \<notin> CanonicalHeaderKey ` fst ` set (UpstreamConfig.Headers cfg)"
    using h put_static_absent [OF that] by simp
  ultimately show ?thesis using t unfolding Let_def by blast
qed

section \<open>Witnesses\<close>

text \<open>An upstream that answers 200 and counts its calls.\<close>

definition counting_client :: "nat http_client" where
  "counting_client = \<lparr>hc_Timeout = 0, hc_Transport =
     (\<lambda>req w. (Inr \<lparr>cp_status = 200, cp_header = Map.empty, cp_body = Inr ''ok''\<rparr>, Suc w))\<rparr>"

definition sample_json :: go_json where
  "sample_json = \<lparr>js_decode = (\<lambda>s. Inr (GStr s)), js_encode = (\<lambda>v. None), js_nums = ve_nums sample_validate\<rparr>"

definition sample_exec :: "nat exec_env" where
  "sample_exec =
     \<lparr>ee_json = sample_json, ee_url = (\<lambda>s. Inr \<lparr>url_Location = s, url_RawQuery = [], url_Fragment = []\<rparr>),
      ee_newRequest = (\<lambda>m u. None), ee_do = hc_Transport, ee_now = (\<lambda>w. 0), ee_rfc3339 = (\<lambda>t. []),
      ee_breaker = (\<lambda>a w. None)\<rparr>"

definition sample_tool :: "nat http_tool" where
  "sample_tool =
     \<lparr>ht_entry = (sample_entry 1 ''a'' ''a__x'' None)
        \<lparr>RegistryEntry.ValidationCfg := zeroValidationConfig\<lparr>SuccessStatus := [200]\<rparr>\<rparr>,
      ht_upstream = \<lparr>up_addr = 1, Upstream.Name = ''a'', Upstream.ToolPrefix = ''a'', Upstream.BaseURL = ''http://a''\<rparr>,
      ht_client = counting_client, ht_transforms = Some sample_compiled, ht_validator = None\<rparr>"

lemma response_is_error_iff_witness:
  "\<not> IsError (responseResult sample_json (ht_entry sample_tool) sample_compiled None None 200 Map.empty ''ok'') \<and>
   IsError (responseResult sample_json (ht_entry sample_tool) sample_compiled None None 404 Map.empty ''ok'')"
  unfolding response_is_error_iff by (simp add: sample_tool_def sample_entry_def zeroValidationConfig_def)

lemma refused_calls_do_not_reach_upstream_witness:
  "fst (Execute sample_exec (outboundMiddleware noneProvider) sample_tool background [] 0) =
     (Some (error_result (''request transform: '' @
        err_text (ErrWrap ''request transform'' (ErrWrap ''jq runtime error'' (ErrText ''no limit''))))), None) \<and>
   snd (Execute sample_exec (outboundMiddleware noneProvider) sample_tool background [(''limit'', GNil)] 0) = 1"
proof -
  have t: "ht_transforms sample_tool = Some sample_compiled" "ctx_transform_err background = None"
    by (simp_all add: sample_tool_def background_def)
  have e: "RunRequest (js_nums (ee_json sample_exec)) sample_compiled [] =
      Inl (ErrWrap ''request transform'' (ErrWrap ''jq runtime error'' (ErrText ''no limit'')))"
    by (simp add: RunRequest_def sample_compiled_def limit_code_def runOnce_def)
  then have "(\<exists>e. RunRequest (js_nums (ee_json sample_exec)) sample_compiled [] = Inl e) \<or>
      (\<exists>e. credential_error noneProvider (transformed_ctx (js_nums (ee_json sample_exec)) sample_compiled [] background) 0 = Some e)"
    by blast
  from refused_calls_do_not_reach_upstream [OF t(1) this t(2)] e
  have "fst (Execute sample_exec (outboundMiddleware noneProvider) sample_tool background [] 0) =
     (Some (error_result (''request transform: '' @
        err_text (ErrWrap ''request transform'' (ErrWrap ''jq runtime error'' (ErrText ''no limit''))))), None)" by auto
  moreover have "snd (Execute sample_exec (outboundMiddleware noneProvider) sample_tool background [(''limit'', GNil)] 0) = 1"
    by code_simp
  ultimately show ?thesis ..
qed

definition open_breaker :: "nat tool_breaker" where
  "open_breaker = \<lparr>cb_UpstreamName = ''a'', cb_Execute = (\<lambda>f w. ((None, Some ErrOpenState), w)), cb_EstimatedRecovery = (\<lambda>w. 0)\<rparr>"

definition closed_breaker :: "nat tool_breaker" where
  "closed_breaker = \<lparr>cb_UpstreamName = ''a'', cb_Execute = (\<lambda>f w. f w), cb_EstimatedRecovery = (\<lambda>w. 0)\<rparr>"

definition failing_dispatch :: "nat \<Rightarrow> (CallToolResult option \<times> int \<times> goerr option) \<times> nat" where
  "failing_dispatch w = ((Some (error_result ''unexpected HTTP 503''), 503, None), Suc w)"

lemma circuit_breaker_outcomes_witness:
  "fst (dispatchCall sample_exec (Some closed_breaker) failing_dispatch background 0) =
     fst (dispatchCall sample_exec None failing_dispatch background 0) \<and>
   dispatchCall sample_exec (Some open_breaker) failing_dispatch background 0 =
     ((Some (openCircuitResult sample_exec open_breaker 0), None), 0) \<and>
   snd (fst (guarded_call failing_dispatch 0)) \<noteq> None"
proof -
  have h: "\<forall>res st e. fst (failing_dispatch 0) = (res, st, Some e) \<longrightarrow> res = None \<and> err_root e \<notin> breaker_errors"
    by (simp add: failing_dispatch_def)
  have a: "\<forall>f. \<exists>w'. cb_Execute closed_breaker f 0 = (fst (f 0), w')" by (simp add: closed_breaker_def prod_eq_iff)
  have r: "\<forall>f. cb_Execute open_breaker f 0 = ((None, Some ErrOpenState), 0)" by (simp add: open_breaker_def)
  have f: "500 \<le> fst (snd (fst (failing_dispatch 0)))" by (simp add: failing_dispatch_def)
  from circuit_breaker_outcomes [of failing_dispatch 0 closed_breaker sample_exec background, OF h] a f
    circuit_breaker_outcomes [of failing_dispatch 0 open_breaker sample_exec background, OF h] r
  show ?thesis by blast
qed

definition static_upstream :: UpstreamConfig where
  "static_upstream = zeroUpstreamConfig\<lparr>UpstreamConfig.Headers := [(''authorization'', ''static'')]\<rparr>"

definition auth_ctx :: Ctx where
  "auth_ctx = withHeaders [(''Authorization'', ''Bearer t'')] background"

definition auth_envelope :: RequestEnvelope where
  "auth_envelope = \<lparr>Query = [], Headers = [(''AUTHORIZATION'', ''mine'')], Path = [], Body = GNil\<rparr>"

text \<open>The argument named like the credential's header loses, and so does the static header.\<close>

lemma header_precedence_witness:
  "\<exists>req c H. prepareRequest sample_exec sample_tool auth_ctx auth_envelope = Inr req \<and>
     NewHTTPClient (\<lambda>tc. Inr (hc_Transport counting_client)) static_upstream = Inr c \<and>
     hc_Transport c req 0 = hc_Transport counting_client (req\<lparr>cr_header := H\<rparr>) 0 \<and>
     H (CanonicalHeaderKey ''Authorization'') = Some ''Bearer t''"
proof -
  have "case prepareRequest sample_exec sample_tool auth_ctx auth_envelope of Inl _ \<Rightarrow> False | Inr req \<Rightarrow> cr_body req = None"
    by code_simp
  then obtain req where r: "prepareRequest sample_exec sample_tool auth_ctx auth_envelope = Inr req"
    "cr_body req = None" by (auto split: sum.splits)
  obtain c where c: "NewHTTPClient (\<lambda>tc. Inr (hc_Transport counting_client)) static_upstream = Inr c"
    by (simp add: NewHTTPClient_def Let_def)
  have "sent_value (ctx_token auth_ctx) False (HeadersFromContext auth_ctx) (RequestEnvelope.Headers auth_envelope) ''Authorization''
      = Some ''Bearer t''"
    by code_simp
  with header_precedence [OF r(1) c, of 0 "''Authorization''"] r c show ?thesis by (auto simp: Let_def)
qed

end
