(* ===== verification/Fetch.thy ===== *)
theory Fetch
  imports Validator
begin

text \<open>
  Loading a specification: \<^verbatim>\<open>pkg/openapi/loader.go\<close> and \<^verbatim>\<open>pkg/openapi/overlay.go\<close>. The file
  system, the HTTP client, the clock, the environment, the YAML and overlay libraries and the
  parser, validator and router of kin-openapi are parameters; the attempts, the conditional
  requests, the authorisation header and the order of the steps are the code's.
\<close>

section \<open>Parameters\<close>

text \<open>The overlay and YAML values the libraries pass around are known by a handle.\<close>

record overlay_lib =
  ol_Decode :: "string \<Rightarrow> goerr + nat"
  ol_Validate :: "nat \<Rightarrow> goerr option"
  ol_Unmarshal :: "string \<Rightarrow> goerr + nat"
  ol_ApplyToStrict :: "nat \<Rightarrow> nat \<Rightarrow> goerr option \<times> string list \<times> nat"
  ol_Marshal :: "nat \<Rightarrow> goerr + string"

record 'w openapi_lib =
  oa_yaml :: "string \<Rightarrow> goerr + node \<times> (node \<Rightarrow> YamlNode)"
  oa_baseURI :: "string \<Rightarrow> goerr + string"
  oa_absPath :: "string \<Rightarrow> 'w \<Rightarrow> goerr + string"
  oa_Load :: "bool \<Rightarrow> (string \<Rightarrow> 'w \<Rightarrow> (goerr + string) \<times> 'w) \<Rightarrow> string \<Rightarrow> string \<Rightarrow> 'w \<Rightarrow> (goerr + Document) \<times> 'w"
  oa_Validate :: "Document \<Rightarrow> goerr option"
  oa_NewRouter :: "Document \<Rightarrow> goerr + Validator"

record 'w fetch_env =
  fe_readFile :: "string \<Rightarrow> 'w \<Rightarrow> goerr + string"
  fe_expandEnv :: "'w \<Rightarrow> string \<Rightarrow> string"
  fe_newRequest :: "string \<Rightarrow> goerr option"
  fe_do :: "'w round_tripper"
  fe_wait :: "'w \<Rightarrow> goerr option \<times> 'w"
  fe_overlay :: overlay_lib
  fe_openapi :: "'w openapi_lib"

section \<open>Conditional requests\<close>

record Fetched =
  f_data :: string
  f_etag :: string
  f_notModified :: bool

definition getRequest :: "string \<Rightarrow> string \<Rightarrow> string \<Rightarrow> ClientRequest" where
  "getRequest source authHeader ifNoneMatch =
     (let h = (if authHeader \<noteq> [] then header_set ''Authorization'' authHeader Map.empty else Map.empty)
      in \<lparr>cr_method = ''GET'', cr_url = source,
          cr_header = (if ifNoneMatch \<noteq> [] then header_set ''If-None-Match'' ifNoneMatch h else h),
          cr_body = None, cr_ctx = background\<rparr>)"

definition unexpectedStatus :: "string \<Rightarrow> string \<Rightarrow> int \<Rightarrow> goerr" where
  "unexpectedStatus what source status =
     ErrText (''fetching '' @ what @ '' from '' @ go_quote source @ '': unexpected status '' @ show_int status)"

text \<open>One attempt: a final answer, or an error after which the next attempt is made.\<close>

datatype attempt = Done "goerr + Fetched" | Retry goerr

definition specAttempt :: "'w fetch_env \<Rightarrow> string \<Rightarrow> string \<Rightarrow> string \<Rightarrow> 'w \<Rightarrow> attempt \<times> 'w" where
  "specAttempt env source authHeader ifNoneMatch w =
     (case fe_newRequest env source of
        Some e \<Rightarrow> (Done (Inl (ErrWrap (''creating request for '' @ go_quote source) e)), w)
      | None \<Rightarrow>
          (case fe_do env (getRequest source authHeader ifNoneMatch) w of
             (Inl e, w) \<Rightarrow> (Retry (ErrWrap (''fetching spec from '' @ go_quote source) e), w)
           | (Inr resp, w) \<Rightarrow>
               (let etag = header_get (cp_header resp) ''ETag'' in
                if cp_status resp = 304
                then (Done (Inr \<lparr>f_data = [], f_etag = etag, f_notModified = True\<rparr>), w)
                else if cp_status resp \<ge> 500 then (Retry (unexpectedStatus ''spec'' source (cp_status resp)), w)
                else if cp_status resp \<noteq> 200 then (Done (Inl (unexpectedStatus ''spec'' source (cp_status resp))), w)
                else (case cp_body resp of
                        Inl e \<Rightarrow> (Done (Inl (ErrWrap (''reading spec response from '' @ go_quote source) e)), w)
                      | Inr d \<Rightarrow> (Done (Inr \<lparr>f_data = d, f_etag = etag, f_notModified = False\<rparr>), w)))))"

text \<open>\<^verbatim>\<open>lastErr\<close> starts as nil; after a positive number of attempts it is set.\<close>

fun specAttempts ::
    "'w fetch_env \<Rightarrow> string \<Rightarrow> string \<Rightarrow> string \<Rightarrow> nat \<Rightarrow> goerr option \<Rightarrow> 'w \<Rightarrow> (goerr option + Fetched) \<times> 'w" where
  "specAttempts env source authHeader inm 0 lastErr w = (Inl lastErr, w)"
| "specAttempts env source authHeader inm (Suc n) lastErr w =
     (case (if lastErr = None then (None, w) else fe_wait env w) of
        (Some e, w) \<Rightarrow> (Inl (Some (ErrWrap (''processing spec '' @ source) e)), w)
      | (None, w) \<Rightarrow>
          (case specAttempt env source authHeader inm w of
             (Done (Inl e), w) \<Rightarrow> (Inl (Some e), w)
           | (Done (Inr f), w) \<Rightarrow> (Inr f, w)
           | (Retry e, w) \<Rightarrow> specAttempts env source authHeader inm n (Some e) w))"

definition isRemote :: "string \<Rightarrow> bool" where
  "isRemote source = has_prefix source ''http''"

definition FetchSpecConditional ::
    "'w fetch_env \<Rightarrow> OpenAPISourceConfig \<Rightarrow> string \<Rightarrow> int \<Rightarrow> 'w \<Rightarrow> (goerr option + Fetched) \<times> 'w" where
  "FetchSpecConditional env cfg ifNoneMatch maxAttempts w =
     (let source = OpenAPISourceConfig.Source cfg in
      if \<not> isRemote source then
        (case fe_readFile env source w of
           Inl e \<Rightarrow> (Inl (Some (ErrWrap (''reading spec file '' @ go_quote source) e)), w)
         | Inr d \<Rightarrow> (Inr \<lparr>f_data = d, f_etag = [], f_notModified = False\<rparr>, w))
      else specAttempts env source (fe_expandEnv env w (OpenAPISourceConfig.AuthHeader cfg)) ifNoneMatch
             (if maxAttempts \<le> 0 then 1 else nat maxAttempts) None w)"

definition loadSpecBytes :: "'w fetch_env \<Rightarrow> OpenAPISourceConfig \<Rightarrow> 'w \<Rightarrow> (goerr option + Fetched) \<times> 'w" where
  "loadSpecBytes env cfg w = FetchSpecConditional env cfg [] 5 w"

section \<open>Overlays\<close>

definition FetchOverlayConditional ::
    "'w fetch_env \<Rightarrow> OverlayConfig \<Rightarrow> string \<Rightarrow> 'w \<Rightarrow> (goerr + Fetched) \<times> 'w" where
  "FetchOverlayConditional env cfg ifNoneMatch w =
     (let source = OverlayConfig.Source cfg in
      if OverlayConfig.Inline cfg \<noteq> []
      then (Inr \<lparr>f_data = OverlayConfig.Inline cfg, f_etag = [], f_notModified = False\<rparr>, w)
      else if \<not> isRemote source then
        (case fe_readFile env source w of
           Inl e \<Rightarrow> (Inl (ErrWrap (''reading overlay file '' @ go_quote source) e), w)
         | Inr d \<Rightarrow> (Inr \<lparr>f_data = d, f_etag = [], f_notModified = False\<rparr>, w))
      else
        (case fe_newRequest env source of
           Some e \<Rightarrow> (Inl (ErrWrap (''creating overlay request for '' @ go_quote source) e), w)
         | None \<Rightarrow>
             (case fe_do env (getRequest source (fe_expandEnv env w (OverlayConfig.AuthHeader cfg)) ifNoneMatch) w of
                (Inl e, w) \<Rightarrow> (Inl (ErrWrap (''fetching overlay from '' @ go_quote source) e), w)
              | (Inr resp, w) \<Rightarrow>
                  (let etag = header_get (cp_header resp) ''ETag'' in
                   if cp_status resp = 304
                   then (Inr \<lparr>f_data = [], f_etag = etag, f_notModified = True\<rparr>, w)
                   else if cp_status resp \<noteq> 200 then (Inl (unexpectedStatus ''overlay'' source (cp_status resp)), w)
                   else (case cp_body resp of
                           Inl e \<Rightarrow> (Inl (ErrWrap (''reading overlay response from '' @ go_quote source) e), w)
                         | Inr d \<Rightarrow> (Inr \<lparr>f_data = d, f_etag = etag, f_notModified = False\<rparr>, w))))))"

text \<open>The unconditional load at start-up treats a 304 like any other status.\<close>

definition loadOverlayBytes :: "'w fetch_env \<Rightarrow> OverlayConfig \<Rightarrow> 'w \<Rightarrow> (goerr + string) \<times> 'w" where
  "loadOverlayBytes env cfg w =
     (let source = OverlayConfig.Source cfg in
      if OverlayConfig.Inline cfg \<noteq> [] then (Inr (OverlayConfig.Inline cfg), w)
      else if isRemote source then
        (case fe_newRequest env source of
           Some e \<Rightarrow> (Inl (ErrWrap (''creating overlay request for '' @ go_quote source) e), w)
         | None \<Rightarrow>
             (case fe_do env (getRequest source (fe_expandEnv env w (OverlayConfig.AuthHeader cfg)) []) w of
                (Inl e, w) \<Rightarrow> (Inl (ErrWrap (''fetching overlay from '' @ go_quote source) e), w)
              | (Inr resp, w) \<Rightarrow>
                  (if cp_status resp \<noteq> 200 then (Inl (unexpectedStatus ''overlay'' source (cp_status resp)), w)
                   else (case cp_body resp of
                           Inl e \<Rightarrow> (Inl (ErrWrap (''reading overlay response from '' @ go_quote source) e), w)
                         | Inr d \<Rightarrow> (Inr d, w)))))
      else (case fe_readFile env source w of
              Inl e \<Rightarrow> (Inl (ErrWrap (''reading overlay file '' @ go_quote source) e), w)
            | Inr d \<Rightarrow> (Inr d, w)))"

definition ApplyOverlayBytes :: "overlay_lib \<Rightarrow> string \<Rightarrow> string \<Rightarrow> goerr + string \<times> string list" where
  "ApplyOverlayBytes lib specBytes overlayBytes =
     (case ol_Decode lib overlayBytes of
        Inl e \<Rightarrow> Inl (ErrWrap ''parsing overlay'' e)
      | Inr ol \<Rightarrow>
          (case ol_Validate lib ol of
             Some e \<Rightarrow> Inl (ErrWrap ''validating overlay'' e)
           | None \<Rightarrow>
               (case ol_Unmarshal lib specBytes of
                  Inl e \<Rightarrow> Inl (ErrWrap ''unmarshalling spec for overlay'' e)
                | Inr tree \<Rightarrow>
                    (case ol_ApplyToStrict lib ol tree of
                       (Some e, warnings, tree) \<Rightarrow> Inl (ErrWrap ''applying overlay to spec'' e)
                     | (None, warnings, tree) \<Rightarrow>
                         (case ol_Marshal lib tree of
                            Inl e \<Rightarrow> Inl (ErrWrap ''marshalling spec after overlay'' e)
                          | Inr modified \<Rightarrow> Inr (modified, warnings))))))"

definition ApplyOverlay ::
    "'w fetch_env \<Rightarrow> string \<Rightarrow> OverlayConfig option \<Rightarrow> 'w \<Rightarrow> (goerr + string \<times> string list) \<times> 'w" where
  "ApplyOverlay env specBytes cfg w =
     (case cfg of
        None \<Rightarrow> (Inr (specBytes, []), w)
      | Some c \<Rightarrow>
          (case loadOverlayBytes env c w of
             (Inl e, w) \<Rightarrow> (Inl (ErrWrap ''loading overlay'' e), w)
           | (Inr overlayBytes, w) \<Rightarrow> (ApplyOverlayBytes (fe_overlay env) specBytes overlayBytes, w)))"

section \<open>The pipeline\<close>

text \<open>A reader for external references: only HTTP locations, always with the authorisation header.\<close>

definition buildAuthHTTPReader :: "'w fetch_env \<Rightarrow> string \<Rightarrow> string \<Rightarrow> 'w \<Rightarrow> (goerr + string) \<times> 'w" where
  "buildAuthHTTPReader env authHeader location w =
     (if \<not> (has_prefix location ''http://'' \<or> has_prefix location ''https://'')
      then (Inl (ErrText ''unsupported URI''), w)
      else (case fe_newRequest env location of
              Some e \<Rightarrow> (Inl (ErrWrap (''processing spec '' @ location) e), w)
            | None \<Rightarrow>
                (case fe_do env (getRequest location authHeader []) w of
                   (Inl e, w) \<Rightarrow> (Inl (ErrWrap (''processing spec '' @ location) e), w)
                 | (Inr resp, w) \<Rightarrow>
                     (if cp_status resp \<noteq> 200
                      then (Inl (ErrText (''error loading '' @ go_quote location @ '': request returned status code '' @
                             show_int (cp_status resp))), w)
                      else (case cp_body resp of
                              Inl e \<Rightarrow> (Inl (ErrWrap (''processing spec '' @ location) e), w)
                            | Inr d \<Rightarrow> (Inr d, w))))))"

definition specBaseURI :: "'w openapi_lib \<Rightarrow> string \<Rightarrow> 'w \<Rightarrow> goerr + string" where
  "specBaseURI lib source w =
     (if isRemote source then
        (case oa_baseURI lib source of
           Inl e \<Rightarrow> Inl (ErrWrap (''parsing spec URL '' @ go_quote source) e) | Inr u \<Rightarrow> Inr u)
      else
        (case oa_absPath lib source w of
           Inl e \<Rightarrow> Inl (ErrWrap (''resolving absolute path for '' @ go_quote source) e)
         | Inr p \<Rightarrow>
             (case oa_baseURI lib (''file://'' @ p) of
                Inl e \<Rightarrow> Inl (ErrWrap (''parsing file URI for '' @ go_quote source) e) | Inr u \<Rightarrow> Inr u)))"

definition LoadPipelineFromBytes ::
    "'w fetch_env \<Rightarrow> string \<Rightarrow> OpenAPISourceConfig \<Rightarrow> 'w \<Rightarrow> (goerr + pipeline) \<times> 'w" where
  "LoadPipelineFromBytes env specBytes cfg w =
     (let lib = fe_openapi env in
      case oa_yaml lib specBytes of
        Inl e \<Rightarrow> (Inl (ErrWrap ''parsing spec YAML root'' e), w)
      | Inr (rt, Y) \<Rightarrow>
          (case specBaseURI lib (OpenAPISourceConfig.Source cfg) w of
             Inl e \<Rightarrow> (Inl (ErrWrap ''resolving spec base URI'' e), w)
           | Inr base \<Rightarrow>
               (case oa_Load lib (AllowExternalRefs cfg)
                       (buildAuthHTTPReader env (fe_expandEnv env w (OpenAPISourceConfig.AuthHeader cfg)))
                       base specBytes w of
                  (Inl e, w) \<Rightarrow> (Inl (ErrWrap ''parsing OpenAPI spec'' e), w)
                | (Inr doc, w) \<Rightarrow>
                    (case oa_Validate lib doc of
                       Some e \<Rightarrow> (Inl (ErrWrap ''validating OpenAPI spec'' e), w)
                     | None \<Rightarrow>
                         (case oa_NewRouter lib doc of
                            Inl e \<Rightarrow> (Inl (ErrWrap ''building router from OpenAPI spec'' e), w)
                          | Inr v \<Rightarrow> (Inr \<lparr>pl_Doc = doc, pl_Validator = v, pl_Root = rt, pl_Yaml = Y\<rparr>, w))))))"

definition LoadPipeline ::
    "'w fetch_env \<Rightarrow> OpenAPISourceConfig \<Rightarrow> OverlayConfig option \<Rightarrow> 'w \<Rightarrow> (goerr + pipeline) \<times> 'w" where
  "LoadPipeline env cfg overlayCfg w =
     (case loadSpecBytes env cfg w of
        (Inl e, w) \<Rightarrow> (Inl (ErrWrap ''loading spec bytes'' (case e of None \<Rightarrow> ErrText [] | Some e \<Rightarrow> e)), w)
      | (Inr f, w) \<Rightarrow>
          (case ApplyOverlay env (f_data f) overlayCfg w of
             (Inl e, w) \<Rightarrow> (Inl (ErrWrap ''applying overlay'' e), w)
           | (Inr (modified, warnings), w) \<Rightarrow> LoadPipelineFromBytes env modified cfg w))"

section \<open>Attempts\<close>

text \<open>A fetch that fails has an error, because at least one attempt is made.\<close>

lemma specAttempts_error: "specAttempts env src a inm n lastErr w = (Inl None, w') \<Longrightarrow> n = 0 \<and> lastErr = None"
proof (induction n arbitrary: lastErr w)
  case (Suc n)
  then show ?case by (fastforce split: prod.splits attempt.splits sum.splits option.splits if_splits)
qed simp

lemma FetchSpec_error: "FetchSpecConditional env cfg inm k w \<noteq> (Inl None, w')"
  using specAttempts_error [of env _ _ inm "if k \<le> 0 then 1 else nat k" None w w']
  by (auto simp: FetchSpecConditional_def Let_def split: sum.splits if_splits)

end
