(* ===== verification/Refresh.thy ===== *)
theory Refresh
  imports Executor Fetch ManagerLaws
begin

text \<open>
  The builder of HTTP upstreams (\<^verbatim>\<open>pkg/upstream/http/builder.go\<close>) and the background refresh of
  one upstream (\<^verbatim>\<open>pkg/upstream/http/refresh.go\<close>). The refresher is the client of a registry
  manager, whose contract is the locale below; the manager of \<^theory_text>\<open>Manager\<close> provides it.
\<close>

section \<open>Building entries\<close>

definition extractResponseFormat :: "Operation \<Rightarrow> string" where
  "extractResponseFormat op =
     (let s = ext_string (op_Extensions op) ''x-mcp-response-format'' in if s \<noteq> [] then s else ''json'')"

definition extractRateLimit :: "Operation \<Rightarrow> string" where
  "extractRateLimit op = trim_space (ext_string (op_Extensions op) ''x-mcp-rate-limit'')"

definition resolveCacheName :: "Operation \<Rightarrow> string \<Rightarrow> string" where
  "resolveCacheName op upstreamDefault =
     (case map_of (op_Extensions op) ''x-mcp-cache'' of Some (GStr s) \<Rightarrow> s | _ \<Rightarrow> upstreamDefault)"

definition extractAuthRequired :: "Operation \<Rightarrow> bool" where
  "extractAuthRequired op =
     (case map_of (op_Extensions op) ''x-mcp-auth-required'' of
        Some (GBool b) \<Rightarrow> b
      | Some (GStr s) \<Rightarrow> to_lower s \<noteq> ''false''
      | _ \<Rightarrow> True)"

text \<open>A handler of the user interface is known by its configuration. The registered factory, if any,
  may fail.\<close>

record 'w http_env =
  he_fetch :: "'w fetch_env"
  he_validate :: "'w validate_env"
  he_exec :: "'w exec_env"
  he_outbound :: "'w outbound_factory registry"
  he_transport :: "TransportConfig \<Rightarrow> goerr + 'w round_tripper"
  he_alloc :: "'w \<Rightarrow> nat \<times> 'w"
  he_uiBuilder :: "(ToolUIConfig \<Rightarrow> string \<Rightarrow> goerr option) option"

definition buildUIHandler :: "'w http_env \<Rightarrow> ToolUIConfig \<Rightarrow> string \<Rightarrow> goerr + ToolUIConfig option" where
  "buildUIHandler env cfg uri =
     (case he_uiBuilder env of
        None \<Rightarrow> Inr None
      | Some f \<Rightarrow> (case f cfg uri of Some e \<Rightarrow> Inl e | None \<Rightarrow> Inr (Some cfg)))"

text \<open>The fields both paths give an entry. The executor holds the entry it belongs to, so the entry
  is built first and its executor added.\<close>

definition baseEntry :: "Upstream \<Rightarrow> ValidationConfig \<Rightarrow> GeneratedTool \<Rightarrow> 'w RegistryEntry" where
  "baseEntry up vcfg gt =
     \<lparr>PrefixedName = gt_PrefixedName gt, OriginalName = gt_OriginalName gt, Upstream = Some up,
      MCPTool = Some (gt_MCPTool gt), ResponseFormat = extractResponseFormat (gt_Operation gt),
      AuthRequired = extractAuthRequired (gt_Operation gt), Method = gt_Method gt,
      PathTemplate = gt_PathTemplate gt, ValidationCfg = vcfg, OperationNode = gt_OperationNode gt,
      Executor = (\<lambda>ctx args w. ((None, None), w)), RateLimit = [], UIHandler = None, CacheName = []\<rparr>"

definition withExecutor ::
    "'w exec_env \<Rightarrow> ('w stage \<Rightarrow> 'w stage) \<Rightarrow> 'w http_client \<Rightarrow> Upstream \<Rightarrow> ValidatedTool \<Rightarrow> 'w RegistryEntry \<Rightarrow>
     'w RegistryEntry" where
  "withExecutor env mw client up vt entry =
     entry\<lparr>Executor := Execute env mw
       \<lparr>ht_entry = entry, ht_upstream = up, ht_client = client, ht_transforms = Some (vt_Transforms vt),
        ht_validator = vt_Validator vt\<rparr>\<rparr>"

definition builderEntry ::
    "'w http_env \<Rightarrow> UpstreamConfig \<Rightarrow> ('w stage \<Rightarrow> 'w stage) \<Rightarrow> 'w http_client \<Rightarrow> Upstream \<Rightarrow> ValidatedTool \<Rightarrow>
     goerr + 'w RegistryEntry" where
  "builderEntry env cfg mw client up vt =
     (let gt = vt_Tool vt; op = gt_Operation gt;
          rateLimit = extractRateLimit op;
          entry = withExecutor (he_exec env) mw client up vt ((baseEntry up (UpstreamConfig.Validation cfg) gt)
            \<lparr>RegistryEntry.RateLimit := (if rateLimit = [] then UpstreamConfig.RateLimit cfg else rateLimit),
             RegistryEntry.CacheName := resolveCacheName op (UpstreamConfig.Cache cfg)\<rparr>)
      in case gt_UIConfig gt of
           None \<Rightarrow> Inr entry
         | Some ui \<Rightarrow>
             (case buildUIHandler env ui (''ui://'' @ gt_PrefixedName gt @ ''/app'') of
                Inl e \<Rightarrow> Inl (ErrWrap (''loading UI for tool '' @ go_quote (gt_PrefixedName gt)) e)
              | Inr h \<Rightarrow> Inr (entry\<lparr>RegistryEntry.UIHandler := h\<rparr>)))"

definition newUpstream :: "UpstreamConfig \<Rightarrow> nat \<Rightarrow> Upstream" where
  "newUpstream cfg addr =
     \<lparr>up_addr = addr, Upstream.Name = UpstreamConfig.Name cfg, Upstream.ToolPrefix = UpstreamConfig.ToolPrefix cfg,
      Upstream.BaseURL = UpstreamConfig.BaseURL cfg\<rparr>"

text \<open>\<^verbatim>\<open>Builder.Build\<close>, one of the builders the manager's environment has.\<close>

definition httpBuild :: "'w http_env \<Rightarrow> 'w builder" where
  "httpBuild env cfg naming w =
     (let name = UpstreamConfig.Name cfg in
      case ValidateUpstream (he_validate env)
             (\<lambda>cfg. LoadPipeline (he_fetch env) (UpstreamConfig.OpenAPI cfg) (UpstreamConfig.Overlay cfg)) cfg naming w of
        (Inl e, w) \<Rightarrow> (Inl (ErrWrap (''upstream '' @ go_quote name @ '' validation failed'') e), w)
      | (Inr (tools, rt), w) \<Rightarrow>
          (case newOutbound (he_outbound env) ((UpstreamConfig.OutboundAuth cfg)\<lparr>OutboundAuthConfig.Upstream := name\<rparr>) w of
             (Inl e, w) \<Rightarrow> (Inl (ErrWrap (''build outbound auth for upstream '' @ go_quote name) e), w)
           | (Inr mw, w) \<Rightarrow>
               (case NewHTTPClient (he_transport env) cfg of
                  Inl e \<Rightarrow> (Inl (ErrWrap (''building HTTP client for upstream '' @ go_quote name) e), w)
                | Inr client \<Rightarrow>
                    (let (addr, w) = he_alloc env w; up = newUpstream cfg addr in
                     case sum_map (builderEntry env cfg mw client up) tools of
                       Inl e \<Rightarrow> (Inl e, w)
                     | Inr es \<Rightarrow> (Inr \<lparr>VConfig = cfg, Entries = es, SpecYAMLRoot = Some rt\<rparr>, w)))))"

section \<open>The refresher\<close>

text \<open>Overlay bytes may be nil. The document and the router of a snapshot are not read again.\<close>

record 'w Snapshot =
  sn_Tools :: "'w RegistryEntry list"
  sn_Root :: "node option"
  sn_SpecETag :: string
  sn_OverlayETag :: string
  sn_FetchedAt :: Time
  sn_specBytes :: string
  sn_overlayBytes :: "string option"

definition emptySnapshot :: "'w Snapshot" where
  "emptySnapshot = \<lparr>sn_Tools = [], sn_Root = None, sn_SpecETag = [], sn_OverlayETag = [], sn_FetchedAt = 0,
     sn_specBytes = [], sn_overlayBytes = None\<rparr>"

text \<open>The failure counter is an \<^verbatim>\<open>int32\<close>.\<close>

record 'w Refresher =
  rf_cfg :: UpstreamConfig
  rf_naming :: NamingConfig
  rf_pools :: "string \<rightharpoonup> PoolAcquirer"
  rf_current :: "'w Snapshot"
  rf_failures :: "32 word"
  rf_degraded :: bool
  rf_lastOverlayFetch :: Time

record ('m, 'w) RegistryManager =
  mo_UpdateUpstream :: "string \<Rightarrow> 'w RegistryEntry list \<Rightarrow> node option \<Rightarrow> 'm \<Rightarrow> goerr option \<times> 'm"
  mo_RemoveUpstream :: "string \<Rightarrow> 'm \<Rightarrow> 'm"

definition shouldRefreshOverlay :: "'w http_env \<Rightarrow> 'w Refresher \<Rightarrow> 'w \<Rightarrow> bool" where
  "shouldRefreshOverlay env r w =
     (case UpstreamConfig.Overlay (rf_cfg r) of
        None \<Rightarrow> False
      | Some ov \<Rightarrow>
          (let interval = OverlayConfig.RefreshInterval ov in
           interval \<le> 0 \<or> interval \<le> ee_now (he_exec env) w - rf_lastOverlayFetch r))"

definition fetchOverlay ::
    "'w http_env \<Rightarrow> 'w Refresher \<Rightarrow> 'w Snapshot \<Rightarrow> 'w \<Rightarrow> (goerr + string option \<times> string \<times> bool) \<times> 'w" where
  "fetchOverlay env r prev w =
     (case UpstreamConfig.Overlay (rf_cfg r) of
        None \<Rightarrow> (Inr (None, [], False), w)
      | Some ov \<Rightarrow>
          (if \<not> shouldRefreshOverlay env r w then (Inr (sn_overlayBytes prev, sn_OverlayETag prev, False), w)
           else (case FetchOverlayConditional (he_fetch env) ov (sn_OverlayETag prev) w of
                   (Inl e, w) \<Rightarrow> (Inl e, w)
                 | (Inr f, w) \<Rightarrow>
                     (if f_notModified f then (Inr (sn_overlayBytes prev, sn_OverlayETag prev, True), w)
                      else (Inr (Some (f_data f), f_etag f, True), w)))))"

definition applyOverlay :: "'w http_env \<Rightarrow> string \<Rightarrow> string option \<Rightarrow> goerr + string" where
  "applyOverlay env specData overlayBytes =
     (case overlayBytes of
        None \<Rightarrow> Inr specData
      | Some ob \<Rightarrow>
          (case ApplyOverlayBytes (fe_overlay (he_fetch env)) specData ob of
             Inl e \<Rightarrow> Inl (ErrWrap ''applying overlay'' e)
           | Inr (merged, warnings) \<Rightarrow> Inr merged))"

definition refreshEntry ::
    "'w http_env \<Rightarrow> UpstreamConfig \<Rightarrow> ('w stage \<Rightarrow> 'w stage) \<Rightarrow> 'w http_client \<Rightarrow> Upstream \<Rightarrow> ValidatedTool \<Rightarrow>
     'w RegistryEntry" where
  "refreshEntry env cfg mw client up vt =
     withExecutor (he_exec env) mw client up vt (baseEntry up (UpstreamConfig.Validation cfg) (vt_Tool vt))"

definition refreshOutbound :: "'w Refresher \<Rightarrow> OutboundAuthConfig" where
  "refreshOutbound r =
     (UpstreamConfig.OutboundAuth (rf_cfg r))\<lparr>OutboundAuthConfig.Upstream := UpstreamConfig.Name (rf_cfg r),
        OutboundAuthConfig.JSAuthPool := rf_pools r ''js/auth'', OutboundAuthConfig.LuaAuthPool := rf_pools r ''lua/auth''\<rparr>"

text \<open>The tools are validated one by one while their entries are built; an entry has no effect, so
  they are validated first here.\<close>

definition buildEntriesFromBytes ::
    "'w http_env \<Rightarrow> 'w Refresher \<Rightarrow> string \<Rightarrow> 'w \<Rightarrow> (goerr + 'w RegistryEntry list \<times> node) \<times> 'w" where
  "buildEntriesFromBytes env r mergedBytes w =
     (let cfg = rf_cfg r in
      case LoadPipelineFromBytes (he_fetch env) mergedBytes (UpstreamConfig.OpenAPI cfg) w of
        (Inl e, w) \<Rightarrow> (Inl (ErrWrap ''loading pipeline'' e), w)
      | (Inr pl, w) \<Rightarrow>
          (case GenerateTools (ve_gen (he_validate env)) (pl_Doc pl) cfg (rf_naming r) of
             Inl e \<Rightarrow> (Inl (ErrText ''generating tools''), w)
           | Inr tools \<Rightarrow>
               (case newOutbound (he_outbound env) (refreshOutbound r) w of
                  (Inl e, w) \<Rightarrow> (Inl (ErrWrap ''building outbound auth'' e), w)
                | (Inr mw, w) \<Rightarrow>
                    (case NewHTTPClient (he_transport env) cfg of
                       Inl e \<Rightarrow> (Inl (ErrWrap ''building HTTP client'' e), w)
                     | Inr client \<Rightarrow>
                         (let (addr, w) = he_alloc env w; up = newUpstream cfg addr in
                          case validate_all (he_validate env) (doc_Schemas (pl_Doc pl)) (pl_Validator pl)
                                 (map (withNode (pl_Yaml pl) (pl_Root pl)) tools) w of
                            (Inl e, w) \<Rightarrow> (Inl e, w)
                          | (Inr vts, w) \<Rightarrow> (Inr (map (refreshEntry env cfg mw client up) vts, pl_Root pl), w))))))"

definition fetchSpec :: "'w http_env \<Rightarrow> 'w Refresher \<Rightarrow> string \<Rightarrow> int \<Rightarrow> 'w \<Rightarrow> (goerr option + Fetched) \<times> 'w" where
  "fetchSpec env r inm attempts w = FetchSpecConditional (he_fetch env) (UpstreamConfig.OpenAPI (rf_cfg r)) inm attempts w"

definition the_err :: "goerr option \<Rightarrow> goerr" where
  "the_err e = (case e of None \<Rightarrow> ErrText [] | Some e \<Rightarrow> e)"

definition newSnapshot ::
    "'w http_env \<Rightarrow> 'w RegistryEntry list \<Rightarrow> node \<Rightarrow> string \<Rightarrow> string \<Rightarrow> string \<Rightarrow> string option \<Rightarrow> 'w \<Rightarrow> 'w Snapshot" where
  "newSnapshot env es rt specETag overlayETag specData overlayBytes w =
     \<lparr>sn_Tools = es, sn_Root = Some rt, sn_SpecETag = specETag, sn_OverlayETag = overlayETag,
      sn_FetchedAt = ee_now (he_exec env) w, sn_specBytes = specData, sn_overlayBytes = overlayBytes\<rparr>"

text \<open>The initial load gives the refresher its first snapshot and the time of its overlay fetch; the
  manager is not told.\<close>

definition buildSnapshot :: "'w http_env \<Rightarrow> 'w Refresher \<Rightarrow> 'w \<Rightarrow> (goerr + 'w Snapshot \<times> Time) \<times> 'w" where
  "buildSnapshot env r w =
     (case fetchSpec env r [] 5 w of
        (Inl e, w) \<Rightarrow> (Inl (ErrWrap ''fetching spec'' (the_err e)), w)
      | (Inr f, w) \<Rightarrow>
          (case fetchOverlay env r emptySnapshot w of
             (Inl e, w) \<Rightarrow> (Inl (ErrWrap ''fetching overlay'' e), w)
           | (Inr (overlayBytes, overlayETag, fetched), w) \<Rightarrow>
               (case applyOverlay env (f_data f) overlayBytes of
                  Inl e \<Rightarrow> (Inl e, w)
                | Inr merged \<Rightarrow>
                    (case buildEntriesFromBytes env r merged w of
                       (Inl e, w) \<Rightarrow> (Inl e, w)
                     | (Inr (es, rt), w) \<Rightarrow>
                         (Inr (newSnapshot env es rt (f_etag f) overlayETag (f_data f) overlayBytes w,
                               if fetched then ee_now (he_exec env) w else rf_lastOverlayFetch r), w)))))"

definition NewRefresher ::
    "'w http_env \<Rightarrow> UpstreamConfig \<Rightarrow> NamingConfig \<Rightarrow> (string \<rightharpoonup> PoolAcquirer) \<Rightarrow> 'w \<Rightarrow> (goerr + 'w Refresher) \<times> 'w" where
  "NewRefresher env cfg naming pools w =
     (let r = \<lparr>rf_cfg = cfg, rf_naming = naming, rf_pools = pools, rf_current = emptySnapshot, rf_failures = 0,
               rf_degraded = False, rf_lastOverlayFetch = 0\<rparr>
      in case buildSnapshot env r w of
           (Inl e, w) \<Rightarrow> (Inl (ErrWrap (''initial snapshot for upstream '' @ go_quote (UpstreamConfig.Name cfg)) e), w)
         | (Inr (snap, t), w) \<Rightarrow> (Inr (r\<lparr>rf_current := snap, rf_lastOverlayFetch := t\<rparr>), w))"

text \<open>One refresh cycle over the refresher, the manager behind \<^term>\<open>mgr\<close> and the world.\<close>

definition refresh ::
    "'w http_env \<Rightarrow> ('m, 'w) RegistryManager \<Rightarrow> 'w Refresher \<times> 'm \<times> 'w \<Rightarrow> goerr option \<times> 'w Refresher \<times> 'm \<times> 'w" where
  "refresh env mgr s =
     (case s of (r, m, w) \<Rightarrow>
       let prev = rf_current r in
       case fetchSpec env r (sn_SpecETag prev) 1 w of
         (Inl e, w) \<Rightarrow> (Some (ErrWrap ''fetching spec'' (the_err e)), r, m, w)
       | (Inr f, w) \<Rightarrow>
           (if f_notModified f \<and> \<not> shouldRefreshOverlay env r w then (None, r, m, w)
            else
              (let specData = (if f_notModified f then sn_specBytes prev else f_data f);
                   etag = (if f_notModified f then sn_SpecETag prev else f_etag f);
                   etag = (if etag = [] then sn_SpecETag prev else etag)
               in case fetchOverlay env r prev w of
                    (Inl e, w) \<Rightarrow> (Some (ErrWrap ''fetching overlay'' e), r, m, w)
                  | (Inr (overlayBytes, overlayETag, fetched), w) \<Rightarrow>
                      (case applyOverlay env specData overlayBytes of
                         Inl e \<Rightarrow> (Some e, r, m, w)
                       | Inr merged \<Rightarrow>
                           (case buildEntriesFromBytes env r merged w of
                              (Inl e, w) \<Rightarrow> (Some e, r, m, w)
                            | (Inr (es, rt), w) \<Rightarrow>
                                (let snap = newSnapshot env es rt etag overlayETag specData overlayBytes w
                                 in case mo_UpdateUpstream mgr (UpstreamConfig.Name (rf_cfg r)) es (Some rt) m of
                                      (Some e, m) \<Rightarrow> (Some (ErrWrap ''updating upstream registry'' e), r, m, w)
                                    | (None, m) \<Rightarrow>
                                        (None,
                                         r\<lparr>rf_degraded := False, rf_current := snap,
                                           rf_lastOverlayFetch :=
                                             (if fetched then ee_now (he_exec env) w else rf_lastOverlayFetch r)\<rparr>,
                                         m, w)))))))"

text \<open>What one tick of the background loop does. Without a positive interval there is no loop.\<close>

definition tick ::
    "'w http_env \<Rightarrow> ('m, 'w) RegistryManager \<Rightarrow> 'w Refresher \<times> 'm \<times> 'w \<Rightarrow> 'w Refresher \<times> 'm \<times> 'w" where
  "tick env mgr s =
     (case refresh env mgr s of
        (None, r, m, w) \<Rightarrow> (r\<lparr>rf_failures := 0\<rparr>, m, w)
      | (Some e, r, m, w) \<Rightarrow>
          (let count = rf_failures r + 1;
               maxFailures = MaxRefreshFailures (UpstreamConfig.OpenAPI (rf_cfg r))
           in if 0 < maxFailures \<and> maxFailures \<le> sint count
              then (r\<lparr>rf_degraded := True, rf_failures := 0\<rparr>, mo_RemoveUpstream mgr (UpstreamConfig.Name (rf_cfg r)) m, w)
              else (r\<lparr>rf_failures := count\<rparr>, m, w)))"

definition IsHealthy :: "'w Refresher \<Rightarrow> bool" where
  "IsHealthy r =
     (let maxFail = MaxRefreshFailures (UpstreamConfig.OpenAPI (rf_cfg r)) in
      if rf_degraded r then False else if maxFail \<le> 0 then True else sint (rf_failures r) < maxFail)"

text \<open>The states a refresher can be in: after the initial load, any number of ticks, with any changes
  to the manager and the world in between.\<close>

inductive refresher_reach :: "'w http_env \<Rightarrow> ('m, 'w) RegistryManager \<Rightarrow> 'w Refresher \<Rightarrow> bool"
  for env :: "'w http_env" and mgr :: "('m, 'w) RegistryManager" where
  start: "NewRefresher env cfg naming pools w = (Inr r, w') \<Longrightarrow> refresher_reach env mgr r"
| step: "\<lbrakk>refresher_reach env mgr r; 0 < OpenAPISourceConfig.RefreshInterval (UpstreamConfig.OpenAPI (rf_cfg r));
          tick env mgr (r, m, w) = (r', m', w')\<rbrakk> \<Longrightarrow> refresher_reach env mgr r'"

section \<open>Steps of a refresh\<close>

lemma refresh_failed:
  "refresh env mgr (r, m, w) = (Some e, r', m', w') \<Longrightarrow> r' = r"
  by (auto simp: refresh_def Let_def split: prod.splits sum.splits option.splits if_splits)

lemma refresh_done:
  "refresh env mgr (r, m, w) = (None, r', m', w') \<Longrightarrow>
     r' = r \<and> m' = m \<or>
     rf_degraded r' = False \<and> rf_cfg r' = rf_cfg r \<and> rf_failures r' = rf_failures r \<and>
       mo_UpdateUpstream mgr (UpstreamConfig.Name (rf_cfg r)) (sn_Tools (rf_current r')) (sn_Root (rf_current r')) m = (None, m')"
  by (auto simp: refresh_def Let_def newSnapshot_def split: prod.splits sum.splits option.splits if_splits)

lemma NewRefresher_sel:
  "NewRefresher env cfg naming pools w = (Inr r, w') \<Longrightarrow>
     rf_cfg r = cfg \<and> rf_failures r = 0 \<and> \<not> rf_degraded r"
  by (auto simp: NewRefresher_def Let_def split: prod.splits sum.splits)

lemma tick_cfg: "tick env mgr (r, m, w) = (r', m', w') \<Longrightarrow> rf_cfg r' = rf_cfg r"
  by (auto simp: tick_def Let_def split: prod.splits option.splits if_splits dest!: refresh_failed refresh_done)


section \<open>Outages\<close>

text \<open>The world after a number of fetches that all have the same kind of outcome.\<close>

lemma tick_fetch_failed:
  assumes "fetchSpec env r (sn_SpecETag (rf_current r)) 1 w = (Inl e, w')"
  shows "tick env mgr (r, m, w) =
    (let count = rf_failures r + 1; maxFailures = MaxRefreshFailures (UpstreamConfig.OpenAPI (rf_cfg r))
     in if 0 < maxFailures \<and> maxFailures \<le> sint count
        then (r\<lparr>rf_degraded := True, rf_failures := 0\<rparr>, mo_RemoveUpstream mgr (UpstreamConfig.Name (rf_cfg r)) m, w')
        else (r\<lparr>rf_failures := count\<rparr>, m, w'))"
  by (simp add: tick_def refresh_def assms)

lemma tick_not_modified:
  assumes "fetchSpec env r (sn_SpecETag (rf_current r)) 1 w = (Inr f, w')" "f_notModified f"
    and "\<not> shouldRefreshOverlay env r w'"
  shows "tick env mgr (r, m, w) = (r\<lparr>rf_failures := 0\<rparr>, m, w')"
  by (simp add: tick_def refresh_def assms)

lemma fetchSpec_failures [simp]: "fetchSpec env (r\<lparr>rf_failures := k\<rparr>) = fetchSpec env r"
  by (simp add: fetchSpec_def fun_eq_iff)

lemma sint_of_nat_32: "n < 2 ^ 31 \<Longrightarrow> sint (of_nat n :: 32 word) = int n"
  by (simp add: signed_of_nat signed_take_bit_int_eq_self)

text \<open>No fetch succeeds, whatever the world.\<close>

definition unreachable :: "'w http_env \<Rightarrow> 'w Refresher \<Rightarrow> bool" where
  "unreachable env r \<longleftrightarrow> (\<forall>w. \<exists>e w'. fetchSpec env r (sn_SpecETag (rf_current r)) 1 w = (Inl e, w'))"

lemma tick_outage:
  assumes "unreachable env r" "MaxRefreshFailures (UpstreamConfig.OpenAPI (rf_cfg r)) = int k" "n < k" "k < 2 ^ 31"
  shows "\<exists>w'. tick env mgr (r\<lparr>rf_failures := of_nat n\<rparr>, m, w) =
    (if Suc n < k then (r\<lparr>rf_failures := of_nat (Suc n)\<rparr>, m, w')
     else (r\<lparr>rf_degraded := True, rf_failures := 0\<rparr>, mo_RemoveUpstream mgr (UpstreamConfig.Name (rf_cfg r)) m, w'))"
proof -
  let ?r = "r\<lparr>rf_failures := of_nat n\<rparr>"
  from assms(1) obtain e w' where "fetchSpec env r (sn_SpecETag (rf_current r)) 1 w = (Inl e, w')"
    unfolding unreachable_def by blast
  then have f: "fetchSpec env ?r (sn_SpecETag (rf_current ?r)) 1 w = (Inl e, w')" by simp
  have "sint (of_nat (Suc n) :: 32 word) = int (Suc n)" using assms(3,4) by (intro sint_of_nat_32) simp
  then have c: "sint (rf_failures ?r + 1) = int (Suc n)" by (simp add: add.commute)
  have "rf_failures ?r + 1 = of_nat (Suc n)" by simp
  then show ?thesis
    unfolding tick_fetch_failed [OF f] Let_def c using assms(2,3) by auto
qed

text \<open>C23: while the specification cannot be fetched, each tick counts one failure and leaves the manager
  alone, until the configured number of consecutive failures takes the upstream out of it,
  once, marks the refresher degraded and restarts the count.\<close>

theorem outage_removes_upstream_once:
  assumes "unreachable env r" "MaxRefreshFailures (UpstreamConfig.OpenAPI (rf_cfg r)) = int k" "0 < k" "k < 2 ^ 31"
    and "rf_failures r = 0"
  shows "(\<forall>n < k. \<exists>w'. (tick env mgr ^^ n) (r, m, w) = (r\<lparr>rf_failures := of_nat n\<rparr>, m, w')) \<and>
    (\<exists>w'. (tick env mgr ^^ k) (r, m, w) =
      (r\<lparr>rf_degraded := True, rf_failures := 0\<rparr>, mo_RemoveUpstream mgr (UpstreamConfig.Name (rf_cfg r)) m, w'))"
proof -
  have below: "\<exists>w'. (tick env mgr ^^ n) (r, m, w) = (r\<lparr>rf_failures := of_nat n\<rparr>, m, w')" if "n < k" for n
    using that
  proof (induction n)
    case 0
    with assms(5) show ?case by (cases r) auto
  next
    case (Suc n)
    then obtain w1 where "(tick env mgr ^^ n) (r, m, w) = (r\<lparr>rf_failures := of_nat n\<rparr>, m, w1)" by auto
    with tick_outage [OF assms(1,2) _ assms(4), of n mgr m w1] Suc.prems show ?case by auto
  qed
  from assms(3) obtain j where j: "k = Suc j" by (cases k) auto
  with below [of j] obtain w1 where "(tick env mgr ^^ j) (r, m, w) = (r\<lparr>rf_failures := of_nat j\<rparr>, m, w1)" by auto
  with tick_outage [OF assms(1,2) _ assms(4), of j mgr m w1]
  have "\<exists>w'. (tick env mgr ^^ k) (r, m, w) =
      (r\<lparr>rf_degraded := True, rf_failures := 0\<rparr>, mo_RemoveUpstream mgr (UpstreamConfig.Name (rf_cfg r)) m, w')"
    by (auto simp: j)
  with below show ?thesis by blast
qed

text \<open>The server answers every conditional request with 304 Not Modified.\<close>

definition unchanged :: "'w http_env \<Rightarrow> 'w Refresher \<Rightarrow> bool" where
  "unchanged env r \<longleftrightarrow>
     (\<forall>w. \<exists>f w'. fetchSpec env r (sn_SpecETag (rf_current r)) 1 w = (Inr f, w') \<and> f_notModified f)"

text \<open>An upstream that was taken out of the manager during an outage stays out when the server
  returns with the specification unchanged: every later tick succeeds without telling the
  manager, and the refresher stays degraded for ever.\<close>

theorem unchanged_spec_keeps_upstream_out:
  assumes "unchanged env r" "rf_degraded r" "UpstreamConfig.Overlay (rf_cfg r) = None" "0 < n"
  shows "\<exists>w'. (tick env mgr ^^ n) (r, m, w) = (r\<lparr>rf_failures := 0\<rparr>, m, w') \<and> \<not> IsHealthy (r\<lparr>rf_failures := 0\<rparr>)"
proof -
  have ov: "\<not> shouldRefreshOverlay env r' w" if "rf_cfg r' = rf_cfg r" for r' w
    using that assms(3) by (simp add: shouldRefreshOverlay_def)
  have one: "\<exists>w'. tick env mgr (r\<lparr>rf_failures := k\<rparr>, m, w) = (r\<lparr>rf_failures := 0\<rparr>, m, w')" for k w
  proof -
    from assms(1) obtain f w' where "fetchSpec env r (sn_SpecETag (rf_current r)) 1 w = (Inr f, w')" "f_notModified f"
      unfolding unchanged_def by blast
    with tick_not_modified [of env "r\<lparr>rf_failures := k\<rparr>" w f w' mgr m] ov show ?thesis by simp
  qed
  have "\<exists>w'. (tick env mgr ^^ Suc i) (r, m, w) = (r\<lparr>rf_failures := 0\<rparr>, m, w')" for i
  proof (induction i)
    case 0
    from one [of "rf_failures r" w] show ?case by simp
  next
    case (Suc i)
    then obtain w1 where "(tick env mgr ^^ Suc i) (r, m, w) = (r\<lparr>rf_failures := 0\<rparr>, m, w1)" by blast
    with one [of 0 w1] show ?case by simp
  qed
  moreover obtain i where "n = Suc i" using assms(4) by (cases n) auto
  ultimately show ?thesis using assms(2) by (simp add: IsHealthy_def)
qed

section \<open>The manager as seen by refreshers\<close>

text \<open>What a refresher relies on: an update that succeeds is visible, and neither an update nor a
  removal touches another upstream.\<close>

locale registry_manager =
  fixes mgr :: "('m, 'w) RegistryManager"
    and entries_of :: "'m \<Rightarrow> string \<Rightarrow> 'w RegistryEntry list option"
  assumes update_visible: "mo_UpdateUpstream mgr n es rt m = (None, m') \<Longrightarrow> entries_of m' n = Some es"
    and update_local: "mo_UpdateUpstream mgr n es rt m = (e, m') \<Longrightarrow> n' \<noteq> n \<Longrightarrow> entries_of m' n' = entries_of m n'"
    and remove_local: "n' \<noteq> n \<Longrightarrow> entries_of (mo_RemoveUpstream mgr n m) n' = entries_of m n'"
begin

lemma refresh_manager:
  assumes "refresh env mgr (r, m, w) = (e, r', m', w')"
  shows "m' = m \<or> (\<exists>es rt err. mo_UpdateUpstream mgr (UpstreamConfig.Name (rf_cfg r)) es rt m = (err, m'))"
  using assms by (fastforce simp: refresh_def Let_def split: prod.splits sum.splits option.splits if_splits)

lemma tick_local:
  assumes "tick env mgr (r, m, w) = (r', m', w')" "n' \<noteq> UpstreamConfig.Name (rf_cfg r)"
  shows "entries_of m' n' = entries_of m n'"
proof -
  obtain e r1 m1 w1 where re: "refresh env mgr (r, m, w) = (e, r1, m1, w1)" by (metis prod.collapse)
  from refresh_manager [OF re] assms(2) update_local have m1: "entries_of m1 n' = entries_of m n'" by auto
  show ?thesis
  proof (cases e)
    case None
    with assms(1) re m1 show ?thesis by (auto simp: tick_def)
  next
    case (Some x)
    with re have "r1 = r" by (auto dest: refresh_failed)
    with assms re Some m1 remove_local show ?thesis by (auto simp: tick_def Let_def split: if_splits)
  qed
qed

lemma refresh_published:
  assumes "refresh env mgr (r, m, w) = (None, r', m', w')" "r' \<noteq> r"
  shows "entries_of m' (UpstreamConfig.Name (rf_cfg r)) = Some (sn_Tools (rf_current r'))"
  using refresh_done [OF assms(1)] assms(2) update_visible by blast

end

definition manager_ops :: "'w Env \<Rightarrow> ('w upstreamState gomap \<Rightarrow> 'w upstreamState gomap) \<Rightarrow> ('w Manager, 'w) RegistryManager" where
  "manager_ops env \<sigma> =
     \<lparr>mo_UpdateUpstream = (\<lambda>n es rt m. case UpdateUpstream env \<sigma> n es rt m of
         (None, m) \<Rightarrow> (None, m)
       | (Some e, m) \<Rightarrow> (Some (ErrText ''rebuild registry''), m)),
      mo_RemoveUpstream = (\<lambda>n m. RemoveUpstream env \<sigma> n m)\<rparr>"

definition upstream_entries :: "'w Manager \<Rightarrow> string \<Rightarrow> 'w RegistryEntry list option" where
  "upstream_entries m n = map_option us_entries (map_of (m_upstreamByName m) n)"

lemma rebuildFromState_upstreams:
  "rebuildFromStateLocked env \<sigma> naming m = (e, m') \<Longrightarrow> m_upstreamByName m' = m_upstreamByName m"
  by (auto simp: rebuildFromStateLocked_def applyRegistryLocked_def split: sum.splits)

interpretation mcp_manager: registry_manager "manager_ops env \<sigma>" upstream_entries for env \<sigma>
proof
  show "mo_UpdateUpstream (manager_ops env \<sigma>) n es rt m = (None, m') \<Longrightarrow> upstream_entries m' n = Some es" for n es rt m m'
    by (auto simp: manager_ops_def UpdateUpstream_def upstream_entries_def update_conv
        split: option.splits prod.splits dest!: rebuildFromState_upstreams)
  show "mo_UpdateUpstream (manager_ops env \<sigma>) n es rt m = (e, m') \<Longrightarrow> n' \<noteq> n \<Longrightarrow>
      upstream_entries m' n' = upstream_entries m n'" for n es rt m e m' n'
    by (auto simp: manager_ops_def UpdateUpstream_def upstream_entries_def update_conv
        split: option.splits prod.splits dest!: rebuildFromState_upstreams)
  show "n' \<noteq> n \<Longrightarrow> upstream_entries (mo_RemoveUpstream (manager_ops env \<sigma>) n m) n' = upstream_entries m n'" for n' n m
    by (auto simp: manager_ops_def RemoveUpstream_def upstream_entries_def update_conv delete_conv Let_def
        split: option.splits prod.splits dest!: rebuildFromState_upstreams)
qed

text \<open>A tick of an upstream's refresher, whatever it fetches and however it fails, leaves the entries
  the manager has for every other upstream as they are, and a refresh that takes a new
  snapshot has published exactly its tools.\<close>

theorem ticks_touch_only_their_upstream:
  assumes "tick henv (manager_ops env \<sigma>) (r, m, w) = (r', m', w')"
  shows "(n \<noteq> UpstreamConfig.Name (rf_cfg r) \<longrightarrow> upstream_entries m' n = upstream_entries m n) \<and>
    (rf_current r' \<noteq> rf_current r \<longrightarrow>
       upstream_entries m' (UpstreamConfig.Name (rf_cfg r)) = Some (sn_Tools (rf_current r')) \<and> \<not> rf_degraded r')"
proof -
  obtain e r1 m1 w1 where re: "refresh henv (manager_ops env \<sigma>) (r, m, w) = (e, r1, m1, w1)" by (metis prod.collapse)
  have "upstream_entries m' (UpstreamConfig.Name (rf_cfg r)) = Some (sn_Tools (rf_current r')) \<and> \<not> rf_degraded r'"
    if new: "rf_current r' \<noteq> rf_current r"
  proof (cases e)
    case None
    with re assms have s: "r' = r1\<lparr>rf_failures := 0\<rparr>" "m' = m1" by (auto simp: tick_def)
    with new have "r1 \<noteq> r" by auto
    with mcp_manager.refresh_published re None refresh_done s show ?thesis by fastforce
  next
    case (Some x)
    with re have "r1 = r" by (auto dest: refresh_failed)
    with re assms Some new show ?thesis by (auto simp: tick_def Let_def split: if_splits)
  qed
  with mcp_manager.tick_local [OF assms] show ?thesis by blast
qed

section \<open>What a refresh loses\<close>

lemma withExecutor_sel [simp]:
  "RegistryEntry.RateLimit (withExecutor env mw client up vt e) = RegistryEntry.RateLimit e"
  "RegistryEntry.CacheName (withExecutor env mw client up vt e) = RegistryEntry.CacheName e"
  "RegistryEntry.UIHandler (withExecutor env mw client up vt e) = RegistryEntry.UIHandler e"
  by (simp_all add: withExecutor_def)

lemma builderEntry_RateLimit:
  "builderEntry env cfg mw client up vt = Inr e \<Longrightarrow>
     RegistryEntry.RateLimit e =
       (let rl = extractRateLimit (gt_Operation (vt_Tool vt)) in if rl = [] then UpstreamConfig.RateLimit cfg else rl)"
  by (auto simp: builderEntry_def Let_def split: option.splits sum.splits)

text \<open>With a default rate limit every entry the builder makes is limited, but a refresh of the same
  upstream publishes entries without a rate limit, a cache or a user interface.\<close>

theorem refresh_drops_limits:
  assumes "httpBuild env cfg naming w = (Inr vu, w1)" "UpstreamConfig.RateLimit cfg \<noteq> []"
    and "buildEntriesFromBytes env r bytes w2 = (Inr (es, rt), w3)"
  shows "(\<forall>e \<in> set (Entries vu). RegistryEntry.RateLimit e \<noteq> []) \<and>
    (\<forall>e \<in> set es. RegistryEntry.RateLimit e = [] \<and> RegistryEntry.CacheName e = [] \<and> RegistryEntry.UIHandler e = None)"
proof -
  from assms(1) obtain mw client up tools where
    "sum_map (builderEntry env cfg mw client up) tools = Inr (Entries vu)"
    by (auto simp: httpBuild_def Let_def split: prod.splits sum.splits)
  then have b: "list_all2 (\<lambda>vt e. builderEntry env cfg mw client up vt = Inr e) tools (Entries vu)"
    by (simp add: sum_map_Inr_iff)
  have "RegistryEntry.RateLimit e \<noteq> []" if e: "e \<in> set (Entries vu)" for e
  proof -
    from e obtain i where i: "i < length (Entries vu)" "Entries vu ! i = e" by (auto simp: in_set_conv_nth)
    from list_all2_nthD2 [OF b i(1)] i(2) have "builderEntry env cfg mw client up (tools ! i) = Inr e" by simp
    from builderEntry_RateLimit [OF this] assms(2) show ?thesis by (simp add: Let_def)
  qed
  moreover from assms(3) obtain mw client up vts where "es = map (refreshEntry env (rf_cfg r) mw client up) vts"
    by (auto simp: buildEntriesFromBytes_def Let_def split: prod.splits sum.splits)
  then have "\<forall>e \<in> set es. RegistryEntry.RateLimit e = [] \<and> RegistryEntry.CacheName e = [] \<and> RegistryEntry.UIHandler e = None"
    by (auto simp: refreshEntry_def baseEntry_def)
  ultimately show ?thesis by blast
qed

section \<open>Witnesses\<close>

definition null_validator :: Validator where
  "null_validator = \<lparr>vl_FindRoute = (\<lambda>r. Inr (0, [])), vl_ValidateRequest = (\<lambda>i. None), vl_ValidateResponse = (\<lambda>i s h b. None)\<rparr>"

definition sample_lib :: "unit openapi_lib" where
  "sample_lib = \<lparr>oa_yaml = (\<lambda>s. Inr (0, \<lambda>n. \<lparr>y_Kind = ScalarNode, y_Value = [], y_Content = []\<rparr>)), oa_baseURI = Inr,
     oa_absPath = (\<lambda>s w. Inr s), oa_Load = (\<lambda>ext rd base bytes w. (Inr sample_doc, w)), oa_Validate = (\<lambda>d. None),
     oa_NewRouter = (\<lambda>d. Inr null_validator)\<rparr>"

definition sample_overlay :: overlay_lib where
  "sample_overlay = \<lparr>ol_Decode = (\<lambda>s. Inr 0), ol_Validate = (\<lambda>n. None), ol_Unmarshal = (\<lambda>s. Inr 0),
     ol_ApplyToStrict = (\<lambda>a b. (None, [], b)), ol_Marshal = (\<lambda>n. Inr [])\<rparr>"

text \<open>A server that always gives the same answer.\<close>

definition answering :: "goerr + ClientResponse \<Rightarrow> unit http_env" where
  "answering reply =
     \<lparr>he_fetch = \<lparr>fe_readFile = (\<lambda>s w. Inr ''spec''), fe_expandEnv = (\<lambda>w s. s), fe_newRequest = (\<lambda>u. None),
        fe_do = (\<lambda>r w. (reply, w)), fe_wait = Pair None, fe_overlay = sample_overlay, fe_openapi = sample_lib\<rparr>,
      he_validate = sample_validate,
      he_exec = \<lparr>ee_json = sample_json, ee_url = (\<lambda>s. Inl (ErrText [])), ee_newRequest = (\<lambda>m u. None),
        ee_do = hc_Transport, ee_now = (\<lambda>w. 0), ee_rfc3339 = (\<lambda>t. []), ee_breaker = (\<lambda>a w. None)\<rparr>,
      he_outbound = builtinStrategies (\<lambda>w s. []) (\<lambda>c w. (Inr [], w)) Map.empty,
      he_transport = (\<lambda>tc. Inr (\<lambda>req w. (Inl (ErrText []), w))), he_alloc = Pair 7, he_uiBuilder = None\<rparr>"

definition refresh_cfg :: "string \<Rightarrow> UpstreamConfig" where
  "refresh_cfg src = zeroUpstreamConfig\<lparr>UpstreamConfig.Name := ''a'', UpstreamConfig.RateLimit := ''slow'',
     UpstreamConfig.OpenAPI := zeroOpenAPISourceConfig\<lparr>OpenAPISourceConfig.Source := src,
       OpenAPISourceConfig.RefreshInterval := 1, MaxRefreshFailures := 2\<rparr>\<rparr>"

definition sample_refresher :: "string \<Rightarrow> unit Refresher" where
  "sample_refresher src = \<lparr>rf_cfg = refresh_cfg src, rf_naming = first_wins_naming, rf_pools = Map.empty,
     rf_current = emptySnapshot, rf_failures = 0, rf_degraded = False, rf_lastOverlayFetch = 0\<rparr>"

definition down :: "goerr + ClientResponse" where
  "down = Inl (ErrText ''down'')"

definition not_modified :: "goerr + ClientResponse" where
  "not_modified = Inr \<lparr>cp_status = 304, cp_header = Map.empty, cp_body = Inr []\<rparr>"

lemma sample_build:
  "case httpBuild (answering down) (refresh_cfg ''spec.yaml'') first_wins_naming () of
     (Inl e, w) \<Rightarrow> False | (Inr vu, w) \<Rightarrow> map RegistryEntry.RateLimit (Entries vu) = [''slow'', ''slow'']"
  "case buildEntriesFromBytes (answering down) (sample_refresher ''spec.yaml'') ''spec'' () of
     (Inl e, w) \<Rightarrow> False | (Inr (es, rt), w) \<Rightarrow> length es = 2"
  by code_simp+

lemma refresh_drops_limits_witness:
  "\<exists>vu es rt. httpBuild (answering down) (refresh_cfg ''spec.yaml'') first_wins_naming () = (Inr vu, ()) \<and>
     buildEntriesFromBytes (answering down) (sample_refresher ''spec.yaml'') ''spec'' () = (Inr (es, rt), ()) \<and>
     (\<forall>e \<in> set (Entries vu). RegistryEntry.RateLimit e \<noteq> []) \<and> (\<forall>e \<in> set es. RegistryEntry.RateLimit e = []) \<and>
     length es = 2"
proof -
  from sample_build obtain vu es rt where
    b: "httpBuild (answering down) (refresh_cfg ''spec.yaml'') first_wins_naming () = (Inr vu, ())" and
    e: "buildEntriesFromBytes (answering down) (sample_refresher ''spec.yaml'') ''spec'' () = (Inr (es, rt), ())" and
    l: "length es = 2"
    by (auto split: prod.splits sum.splits)
  have "UpstreamConfig.RateLimit (refresh_cfg ''spec.yaml'') \<noteq> []" by (simp add: refresh_cfg_def)
  from refresh_drops_limits [OF b this e] b e l show ?thesis by blast
qed


lemma outage_removes_upstream_once_witness:
  "(tick (answering down) (manager_ops sample_env id) ^^ 2) (sample_refresher ''http://a'', sample_manager, ()) =
     ((sample_refresher ''http://a'')\<lparr>rf_degraded := True, rf_failures := 0\<rparr>, RemoveUpstream sample_env id ''a'' sample_manager, ())"
proof -
  have "unreachable (answering down) (sample_refresher ''http://a'')"
    unfolding unreachable_def
    by (auto simp: fetchSpec_def FetchSpecConditional_def sample_refresher_def refresh_cfg_def isRemote_def has_prefix_def
        answering_def specAttempt_def down_def Let_def)
  from outage_removes_upstream_once [OF this, of 2 "manager_ops sample_env id" sample_manager "()"]
  show ?thesis by (simp add: sample_refresher_def refresh_cfg_def manager_ops_def)
qed

lemma unchanged_spec_keeps_upstream_out_witness:
  "\<exists>w'. (tick (answering not_modified) (manager_ops sample_env id) ^^ 100)
      ((sample_refresher ''http://a'')\<lparr>rf_degraded := True\<rparr>, sample_manager, ()) =
      ((sample_refresher ''http://a'')\<lparr>rf_degraded := True, rf_failures := 0\<rparr>, sample_manager, w')"
proof -
  have "unchanged (answering not_modified) ((sample_refresher ''http://a'')\<lparr>rf_degraded := True\<rparr>)"
    unfolding unchanged_def
    by (auto simp: fetchSpec_def FetchSpecConditional_def sample_refresher_def refresh_cfg_def isRemote_def has_prefix_def
        answering_def specAttempt_def not_modified_def Let_def)
  from unchanged_spec_keeps_upstream_out [OF this, of 100 "manager_ops sample_env id" sample_manager "()"]
  show ?thesis by (simp add: sample_refresher_def refresh_cfg_def zeroUpstreamConfig_def)
qed

lemma ticks_touch_only_their_upstream_witness:
  "\<exists>r' m' w'. tick (answering down) (manager_ops sample_env id) (sample_refresher ''spec.yaml'', sample_manager, ()) = (r', m', w') \<and>
     rf_current r' \<noteq> emptySnapshot \<and>
     upstream_entries m' ''b'' = upstream_entries sample_manager ''b'' \<and>
     upstream_entries m' ''a'' = Some (sn_Tools (rf_current r'))"
proof -
  obtain r' m' w' where
    t: "tick (answering down) (manager_ops sample_env id) (sample_refresher ''spec.yaml'', sample_manager, ()) = (r', m', w')"
    by (metis prod.collapse)
  have "case tick (answering down) (manager_ops sample_env id) (sample_refresher ''spec.yaml'', sample_manager, ()) of
      (r', m', w') \<Rightarrow> sn_specBytes (rf_current r') = ''spec''" by code_simp
  with t have new: "rf_current r' \<noteq> emptySnapshot" by (auto simp: emptySnapshot_def)
  from ticks_touch_only_their_upstream [OF t, of "''b''"] new t show ?thesis
    by (auto simp: sample_refresher_def refresh_cfg_def)
qed

end
