(* ===== verification/Crd.thy ===== *)
theory Crd
  imports Mcp Config
begin

text \<open>
  The custom resources of the Kubernetes operator, \<^verbatim>\<open>pkg/crd/v1alpha1/types.go\<close> and
  \<^verbatim>\<open>pkg/crd/v1alpha1/spec_gen.go\<close>, field by field: a pointer is an option, a map an association
  list, an \<^verbatim>\<open>int32\<close> that is only read an integer. Of the types of the Kubernetes libraries the
  label selector and the resource requirements are kept as the text the libraries understand;
  object metadata and conditions have the fields the operator reads or writes.
\<close>

section \<open>Types of the Kubernetes libraries\<close>

type_synonym LabelSelector = string

type_synonym ResourceRequirements = string

record ObjectMeta =
  om_Name :: string
  om_Namespace :: string
  om_Labels :: "string gomap"
  om_Annotations :: "string gomap"
  om_Generation :: int
  om_Owner :: "string option"

definition objectMeta :: "string \<Rightarrow> string \<Rightarrow> ObjectMeta" where
  "objectMeta namespace name =
    \<lparr>om_Name = name, om_Namespace = namespace, om_Labels = [], om_Annotations = [],
     om_Generation = 0, om_Owner = None\<rparr>"

text \<open>An object is known to the API server by its namespace and name.\<close>

type_synonym NamespacedName = "string \<times> string"

definition metaKey :: "ObjectMeta \<Rightarrow> NamespacedName" where
  "metaKey m = (om_Namespace m, om_Name m)"

record Condition =
  co_Type :: string
  co_Status :: string
  co_Reason :: string
  co_Message :: string
  co_ObservedGeneration :: int

section \<open>Specifications generated from the configuration types\<close>

record JWTAuthSpec =
  ja_Issuer :: string
  ja_Audience :: string
  ja_JWKSURL :: string

record ProxySlugRulesSpec =
  sl_ReplaceSlashes :: bool
  sl_ReplaceBraces :: bool
  sl_ExpandCamelCase :: bool
  sl_Lowercase :: bool
  sl_CollapseSeparators :: bool

record ProxyNamingSpec =
  na_Separator :: string
  na_MaxLength :: int
  na_ConflictResolution :: string
  na_DescriptionMaxLength :: int
  na_DescriptionTruncationSuffix :: string
  na_DefaultSlugRules :: ProxySlugRulesSpec

record ProxyTelemetrySpec =
  te_ServiceName :: string
  te_ServiceVersion :: string
  te_OTLPEndpoint :: string
  te_Insecure :: bool

record MCPUpstreamCommandSchemaProperty =
  cp_Type :: string
  cp_Description :: string

record MCPUpstreamCommandInputSchema =
  ci_Type :: string
  ci_Properties :: "MCPUpstreamCommandSchemaProperty gomap"
  ci_Required :: "string list"

record MCPUpstreamCommandSpec =
  cs_ToolName :: string
  cs_Description :: string
  cs_Command :: string
  cs_InputSchema :: MCPUpstreamCommandInputSchema
  cs_Timeout :: string
  cs_Env :: "string gomap"
  cs_WorkingDir :: string
  cs_Shell :: bool
  cs_MaxOutput :: int

record MCPUpstreamValidationSpec =
  va_ValidateRequest :: bool
  va_ValidateResponse :: bool
  va_ResponseValidationFailure :: string
  va_SuccessStatus :: "int list"
  va_ErrorStatus :: "int list"

section \<open>The proxy resource\<close>

record GatewayRefSpec =
  gw_Name :: string
  gw_Namespace :: string
  gw_Hostname :: string

record MCPProxyRateLimitPolicySpec =
  rp_Average :: int
  rp_Period :: string
  rp_Burst :: int
  rp_Source :: string

record MCPProxyRateLimitsSpec =
  rs_Policies :: "MCPProxyRateLimitPolicySpec gomap"

record NamespaceSelectorSpec =
  ns_MatchNames :: "string list"

record ServiceDiscoveryNamespaceSelector =
  sn_MatchNames :: "string list"
  sn_MatchLabels :: "string gomap"

record ServiceDiscoverySpec =
  sd_Enabled :: bool
  sd_NamespaceSelector :: "ServiceDiscoveryNamespaceSelector option"

record ProxyTLSSpec =
  pt_SecretName :: string

record ProxyServerSpec =
  pv_Port :: int
  pv_Transport :: "string list"
  pv_TLS :: "ProxyTLSSpec option"

record ProxyInboundAuthSpec =
  ia_Strategy :: string
  ia_JWT :: "JWTAuthSpec option"

record MCPProxySpec =
  ps_UpstreamSelector :: LabelSelector
  ps_NamespaceSelector :: NamespaceSelectorSpec
  ps_ServiceDiscovery :: "ServiceDiscoverySpec option"
  ps_Replicas :: "int option"
  ps_Image :: string
  ps_Resources :: ResourceRequirements
  ps_Server :: ProxyServerSpec
  ps_Naming :: ProxyNamingSpec
  ps_InboundAuth :: "ProxyInboundAuthSpec option"
  ps_Telemetry :: "ProxyTelemetrySpec option"
  ps_GatewayRef :: "GatewayRefSpec option"
  ps_RateLimits :: "MCPProxyRateLimitsSpec option"

record MCPProxyStatus =
  st_Conditions :: "Condition list"
  st_UpstreamCount :: int
  st_AnnotatedServiceCount :: int
  st_ToolCount :: int
  st_ObservedGeneration :: int

record MCPProxy =
  px_Meta :: ObjectMeta
  px_Spec :: MCPProxySpec
  px_Status :: MCPProxyStatus

section \<open>The upstream resource\<close>

record ServiceRefSpec =
  sr_Name :: string
  sr_Port :: int

record ConfigMapKeyRef =
  ck_Name :: string
  ck_Key :: string

record AutoDiscoverSpec =
  ad_Path :: string

record MCPUpstreamOpenAPISpec =
  uo_ConfigMapRef :: "ConfigMapKeyRef option"
  uo_URL :: string
  uo_AutoDiscover :: "AutoDiscoverSpec option"

record MCPUpstreamOverlaySpec =
  ov_ConfigMapRef :: "ConfigMapKeyRef option"

record UpstreamTLSSpec =
  ut_SecretName :: string

record MCPUpstreamTransportSpec =
  tr_MaxIdleConns :: int
  tr_MaxIdleConnsPerHost :: int
  tr_TLS :: "UpstreamTLSSpec option"

record SecretRef =
  se_Name :: string

record BearerSpec =
  bs_SecretRef :: "SecretRef option"

record OAuth2Spec =
  os_TokenURL :: string
  os_SecretRef :: "SecretRef option"

record MCPUpstreamOutboundAuthSpec =
  oa_Strategy :: string
  oa_Bearer :: "BearerSpec option"
  oa_OAuth2 :: "OAuth2Spec option"

record MCPUpstreamSpec =
  us_Type :: string
  us_ToolPrefix :: string
  us_ServiceRef :: "ServiceRefSpec option"
  us_BaseURL :: string
  us_OpenAPI :: MCPUpstreamOpenAPISpec
  us_Overlay :: "MCPUpstreamOverlaySpec option"
  us_OutboundAuth :: "MCPUpstreamOutboundAuthSpec option"
  us_Transport :: "MCPUpstreamTransportSpec option"
  us_Validation :: "MCPUpstreamValidationSpec option"
  us_Commands :: "MCPUpstreamCommandSpec list"
  us_RateLimit :: string

record MCPUpstreamStatus =
  ut_Conditions :: "Condition list"
  ut_AssignedProxy :: string
  ut_ToolCount :: int

record MCPUpstream =
  mu_Meta :: ObjectMeta
  mu_Spec :: MCPUpstreamSpec
  mu_Status :: MCPUpstreamStatus

text \<open>The zero values of the types the operator declares and then fills in.\<close>

definition zeroOpenAPISpec :: MCPUpstreamOpenAPISpec where
  "zeroOpenAPISpec = \<lparr>uo_ConfigMapRef = None, uo_URL = [], uo_AutoDiscover = None\<rparr>"

definition zeroUpstreamSpec :: MCPUpstreamSpec where
  "zeroUpstreamSpec =
    \<lparr>us_Type = [], us_ToolPrefix = [], us_ServiceRef = None, us_BaseURL = [], us_OpenAPI = zeroOpenAPISpec,
     us_Overlay = None, us_OutboundAuth = None, us_Transport = None, us_Validation = None, us_Commands = [],
     us_RateLimit = []\<rparr>"

section \<open>Admission, \<^verbatim>\<open>pkg/operator/webhook\<close>\<close>

definition validateMCPProxy :: "MCPProxy \<Rightarrow> goerr option" where
  "validateMCPProxy proxy =
     (case (case ps_Replicas (px_Spec proxy) of
              Some n \<Rightarrow> if n \<le> 0 then Some (ErrText (''spec.replicas must be greater than 0, got '' @ show_int n)) else None
            | None \<Rightarrow> None) of
        Some e \<Rightarrow> Some e
      | None \<Rightarrow>
          (let port = pv_Port (ps_Server (px_Spec proxy)) in
           if port \<noteq> 0 \<and> (port < 1 \<or> 65535 < port)
           then Some (ErrText (''spec.server.port must be between 1 and 65535, got '' @ show_int port))
           else None))"

definition validateMCPUpstream :: "MCPUpstream \<Rightarrow> goerr option" where
  "validateMCPUpstream up =
     (let hasServiceRef = us_ServiceRef (mu_Spec up) \<noteq> None;
          hasBaseURL = us_BaseURL (mu_Spec up) \<noteq> [];
          openAPI = us_OpenAPI (mu_Spec up);
          sourceCount = (if uo_ConfigMapRef openAPI \<noteq> None then 1 else 0) + (if uo_URL openAPI \<noteq> [] then 1 else 0) +
                        (if uo_AutoDiscover openAPI \<noteq> None then 1 else (0::nat))
      in if hasServiceRef \<and> hasBaseURL
         then Some (ErrText ''spec.serviceRef and spec.baseURL are mutually exclusive; set exactly one'')
         else if \<not> hasServiceRef \<and> \<not> hasBaseURL
         then Some (ErrText ''one of spec.serviceRef or spec.baseURL must be set'')
         else if sourceCount = 0
         then Some (ErrText ''spec.openapi: one of configMapRef, url, or autoDiscover must be set'')
         else if 1 < sourceCount
         then Some (ErrText ''spec.openapi: configMapRef, url, and autoDiscover are mutually exclusive; set exactly one'')
         else None)"

text \<open>The three admission operations of a validator: deleting is always permitted.\<close>

datatype 'o admission_request = ValidateCreate 'o | ValidateUpdate 'o 'o | ValidateDelete 'o

fun admit :: "('o \<Rightarrow> goerr option) \<Rightarrow> 'o admission_request \<Rightarrow> goerr option" where
  "admit validate (ValidateCreate x) = validate x"
| "admit validate (ValidateUpdate old new) = validate new"
| "admit validate (ValidateDelete x) = None"

end
