(* ===== verification/ConfigGen.thy ===== *)
theory ConfigGen
  imports Crd
begin

text \<open>
  From custom resources to the configuration of the proxy, \<^verbatim>\<open>pkg/operator/configgen/generator.go\<close>
  and \<^verbatim>\<open>pkg/operator/controller/annotations.go\<close>: the generated configuration types, the conversion
  of one upstream, of an annotated service and of a whole proxy. The YAML encoder is a parameter.
\<close>

section \<open>The generated configuration\<close>

record generatedServerConfig =
  gs_Port :: int

record generatedNamingConfig =
  gn_Separator :: string
  gn_MaxLength :: int
  gn_ConflictResolution :: string

record generatedRateLimitConfig =
  gr_Average :: int
  gr_Period :: string
  gr_Burst :: int
  gr_Source :: string

record generatedTelemetryConfig =
  gt_OTLPEndpoint :: string

record generatedJWTAuthConfig =
  gj_JWKSURL :: string

record generatedInboundAuthConfig =
  gi_Strategy :: string
  gi_JWT :: "generatedJWTAuthConfig option"

record generatedOpenAPIConfig =
  go_Source :: string

record generatedOverlayConfig =
  gv_Source :: string

record generatedOAuth2CCConfig =
  gc_TokenURL :: string
  gc_ClientID :: string
  gc_ClientSecret :: string
  gc_Scopes :: "string list"

record generatedOutboundAuth =
  ga_Strategy :: string
  ga_OAuth2ClientCredentials :: "generatedOAuth2CCConfig option"

record generatedTLSConfig =
  gl_RootCAPath :: string

record generatedTransportConfig =
  gp_MaxIdleConns :: int
  gp_TLS :: "generatedTLSConfig option"

record generatedValidationConfig =
  gd_ValidateRequest :: bool
  gd_ValidateResponse :: bool

record generatedCommandSchemaProperty =
  ge_Type :: string
  ge_Description :: string

record generatedCommandInputSchema =
  gm_Type :: string
  gm_Properties :: "generatedCommandSchemaProperty gomap"
  gm_Required :: "string list"

record generatedCommandConfig =
  gk_ToolName :: string
  gk_Description :: string
  gk_Command :: string
  gk_Shell :: bool
  gk_WorkingDir :: string
  gk_Timeout :: string
  gk_MaxOutput :: int
  gk_Env :: "string gomap"
  gk_InputSchema :: "generatedCommandInputSchema option"

record generatedUpstreamConfig =
  gu_Name :: string
  gu_Enabled :: bool
  gu_ToolPrefix :: string
  gu_Type :: string
  gu_BaseURL :: string
  gu_OpenAPI :: "generatedOpenAPIConfig option"
  gu_Overlay :: "generatedOverlayConfig option"
  gu_OutboundAuth :: "generatedOutboundAuth option"
  gu_Transport :: "generatedTransportConfig option"
  gu_Validation :: "generatedValidationConfig option"
  gu_Commands :: "generatedCommandConfig list"
  gu_RateLimit :: string

record generatedProxyConfig =
  gx_Server :: generatedServerConfig
  gx_Naming :: generatedNamingConfig
  gx_RateLimits :: "generatedRateLimitConfig gomap"
  gx_Telemetry :: "generatedTelemetryConfig option"
  gx_InboundAuth :: "generatedInboundAuthConfig option"
  gx_Upstreams :: "generatedUpstreamConfig list"

definition specsDir :: string where
  "specsDir = ''/etc/mcp-auto/specs''"

definition overlaysDir :: string where
  "overlaysDir = ''/etc/mcp-auto/overlays''"

section \<open>One upstream\<close>

abbreviation up_name :: "MCPUpstream \<Rightarrow> string" where
  "up_name up \<equiv> om_Name (mu_Meta up)"

abbreviation up_ns :: "MCPUpstream \<Rightarrow> string" where
  "up_ns up \<equiv> om_Namespace (mu_Meta up)"

text \<open>The key of an upstream's file in the mounted ConfigMaps.\<close>

definition fileKey :: "MCPUpstream \<Rightarrow> string" where
  "fileKey up = up_ns up @ ''_'' @ up_name up @ ''.yaml''"

definition buildGeneratedInputSchema :: "MCPUpstreamCommandInputSchema \<Rightarrow> generatedCommandInputSchema" where
  "buildGeneratedInputSchema s =
    \<lparr>gm_Type = ci_Type s,
     gm_Properties = map (\<lambda>(name, p). (name, \<lparr>ge_Type = cp_Type p, ge_Description = cp_Description p\<rparr>)) (ci_Properties s),
     gm_Required = ci_Required s\<rparr>"

definition generatedCommand :: "MCPUpstreamCommandSpec \<Rightarrow> generatedCommandConfig" where
  "generatedCommand cmd =
    \<lparr>gk_ToolName = cs_ToolName cmd, gk_Description = cs_Description cmd, gk_Command = cs_Command cmd,
     gk_Shell = cs_Shell cmd, gk_WorkingDir = cs_WorkingDir cmd, gk_Timeout = cs_Timeout cmd,
     gk_MaxOutput = cs_MaxOutput cmd, gk_Env = cs_Env cmd,
     gk_InputSchema =
       (let s = cs_InputSchema cmd in
        if ci_Type s \<noteq> [] \<or> ci_Properties s \<noteq> [] \<or> ci_Required s \<noteq> [] then Some (buildGeneratedInputSchema s) else None)\<rparr>"

definition buildCommandUpstreamConfig ::
    "MCPUpstream \<Rightarrow> generatedUpstreamConfig \<Rightarrow> goerr + generatedUpstreamConfig" where
  "buildCommandUpstreamConfig up uc =
     (if us_Commands (mu_Spec up) = []
      then Inl (ErrText (''upstream '' @ up_ns up @ ''/'' @ up_name up @ '': type command requires at least one command entry''))
      else Inr (uc\<lparr>gu_Type := ''command'', gu_Commands := map generatedCommand (us_Commands (mu_Spec up))\<rparr>))"

definition upstreamBaseURL :: "MCPUpstream \<Rightarrow> goerr + string" where
  "upstreamBaseURL up =
     (case us_ServiceRef (mu_Spec up) of
        Some ref \<Rightarrow> Inr (''http://'' @ sr_Name ref @ ''.'' @ up_ns up @ ''.svc.cluster.local:'' @ show_int (sr_Port ref))
      | None \<Rightarrow>
          if us_BaseURL (mu_Spec up) \<noteq> [] then Inr (us_BaseURL (mu_Spec up))
          else Inl (ErrText (''upstream '' @ up_ns up @ ''/'' @ up_name up @ '': neither serviceRef nor baseURL is set'')))"

definition openapiSource :: "MCPUpstream \<Rightarrow> string \<Rightarrow> goerr + string" where
  "openapiSource up baseURL =
     (let openAPI = us_OpenAPI (mu_Spec up) in
      if uo_ConfigMapRef openAPI \<noteq> None then Inr (specsDir @ ''/'' @ fileKey up)
      else if uo_URL openAPI \<noteq> [] then Inr (uo_URL openAPI)
      else (case uo_AutoDiscover openAPI of
              Some d \<Rightarrow> Inr (baseURL @ (if ad_Path d = [] then ''/openapi.json'' else ad_Path d))
            | None \<Rightarrow> Inl (ErrText (''upstream '' @ up_ns up @ ''/'' @ up_name up @ '': no openapi source configured''))))"

definition generatedAuth :: "MCPUpstream \<Rightarrow> MCPUpstreamOutboundAuthSpec \<Rightarrow> generatedOutboundAuth" where
  "generatedAuth up a =
     (let env = ''${UPSTREAM_'' @ up_ns up @ ''_'' @ up_name up in
      \<lparr>ga_Strategy = oa_Strategy a,
       ga_OAuth2ClientCredentials =
         map_option (\<lambda>o2.
           \<lparr>gc_TokenURL = os_TokenURL o2,
            gc_ClientID = (if os_SecretRef o2 \<noteq> None then env @ ''_OAUTH2_CLIENT_ID}'' else []),
            gc_ClientSecret = (if os_SecretRef o2 \<noteq> None then env @ ''_OAUTH2_CLIENT_SECRET}'' else []),
            gc_Scopes = []\<rparr>) (oa_OAuth2 a)\<rparr>)"

definition generatedTransport :: "MCPUpstream \<Rightarrow> MCPUpstreamTransportSpec \<Rightarrow> generatedTransportConfig" where
  "generatedTransport up t =
    \<lparr>gp_MaxIdleConns = tr_MaxIdleConns t,
     gp_TLS = map_option (\<lambda>_. \<lparr>gl_RootCAPath = ''/etc/mcp-auto/tls/'' @ up_ns up @ ''-'' @ up_name up @ ''/ca.crt''\<rparr>)
                (tr_TLS t)\<rparr>"

definition buildHTTPUpstreamConfig ::
    "MCPUpstream \<Rightarrow> generatedUpstreamConfig \<Rightarrow> goerr + generatedUpstreamConfig" where
  "buildHTTPUpstreamConfig up uc =
     (let spec = mu_Spec up in
      case upstreamBaseURL up of Inl e \<Rightarrow> Inl e | Inr baseURL \<Rightarrow>
      (case openapiSource up baseURL of Inl e \<Rightarrow> Inl e | Inr source \<Rightarrow>
        Inr (uc\<lparr>gu_BaseURL := baseURL,
               gu_OpenAPI := Some \<lparr>go_Source = source\<rparr>,
               gu_Overlay :=
                 (case us_Overlay spec of
                    Some ov \<Rightarrow> if ov_ConfigMapRef ov \<noteq> None then Some \<lparr>gv_Source = overlaysDir @ ''/'' @ fileKey up\<rparr> else None
                  | None \<Rightarrow> None),
               gu_OutboundAuth := map_option (generatedAuth up) (us_OutboundAuth spec),
               gu_Transport := map_option (generatedTransport up) (us_Transport spec),
               gu_Validation :=
                 map_option (\<lambda>v. \<lparr>gd_ValidateRequest = va_ValidateRequest v, gd_ValidateResponse = va_ValidateResponse v\<rparr>)
                   (us_Validation spec),
               gu_RateLimit := us_RateLimit spec\<rparr>)))"

definition buildUpstreamConfig :: "MCPUpstream \<Rightarrow> goerr + generatedUpstreamConfig" where
  "buildUpstreamConfig up =
     (let uc = \<lparr>gu_Name = up_ns up @ ''-'' @ up_name up, gu_Enabled = True, gu_ToolPrefix = us_ToolPrefix (mu_Spec up),
                gu_Type = [], gu_BaseURL = [], gu_OpenAPI = None, gu_Overlay = None, gu_OutboundAuth = None,
                gu_Transport = None, gu_Validation = None, gu_Commands = [], gu_RateLimit = []\<rparr>;
          upstreamType = (if us_Type (mu_Spec up) = [] then ''http'' else us_Type (mu_Spec up))
      in if upstreamType = ''command'' then buildCommandUpstreamConfig up uc else buildHTTPUpstreamConfig up uc)"

section \<open>A proxy\<close>

definition defaultPort :: int where
  "defaultPort = 8080"

definition proxyPort :: "MCPProxy \<Rightarrow> int" where
  "proxyPort proxy = (let port = pv_Port (ps_Server (px_Spec proxy)) in if port = 0 then defaultPort else port)"

definition generatedConfig ::
    "MCPProxy \<Rightarrow> MCPUpstream list \<Rightarrow> goerr + generatedProxyConfig" where
  "generatedConfig proxy upstreams =
     (let spec = px_Spec proxy in
      case sum_map (\<lambda>up. case buildUpstreamConfig up of
               Inl e \<Rightarrow> Inl (ErrWrap (''building upstream config for '' @ up_ns up @ ''/'' @ up_name up) e)
             | Inr uc \<Rightarrow> Inr uc) upstreams of
        Inl e \<Rightarrow> Inl e
      | Inr ucs \<Rightarrow> Inr
         \<lparr>gx_Server = \<lparr>gs_Port = proxyPort proxy\<rparr>,
          gx_Naming = \<lparr>gn_Separator = na_Separator (ps_Naming spec), gn_MaxLength = na_MaxLength (ps_Naming spec),
                       gn_ConflictResolution = na_ConflictResolution (ps_Naming spec)\<rparr>,
          gx_RateLimits =
            (case ps_RateLimits spec of None \<Rightarrow> []
             | Some rl \<Rightarrow> map (\<lambda>(name, p). (name, \<lparr>gr_Average = rp_Average p, gr_Period = rp_Period p, gr_Burst = rp_Burst p,
                                                     gr_Source = rp_Source p\<rparr>)) (rs_Policies rl)),
          gx_Telemetry =
            (case ps_Telemetry spec of None \<Rightarrow> None
             | Some t \<Rightarrow> if te_OTLPEndpoint t \<noteq> [] then Some \<lparr>gt_OTLPEndpoint = te_OTLPEndpoint t\<rparr> else None),
          gx_InboundAuth =
            map_option (\<lambda>a. \<lparr>gi_Strategy = ia_Strategy a,
                            gi_JWT = map_option (\<lambda>j. \<lparr>gj_JWKSURL = ja_JWKSURL j\<rparr>) (ia_JWT a)\<rparr>) (ps_InboundAuth spec),
          gx_Upstreams = ucs\<rparr>)"

text \<open>\<^verbatim>\<open>configgen.Generate\<close>; \<^term>\<open>marshal\<close> is the YAML encoder.\<close>

definition GenerateConfig ::
    "(generatedProxyConfig \<Rightarrow> goerr + string) \<Rightarrow> MCPProxy \<Rightarrow> MCPUpstream list \<Rightarrow> goerr + string" where
  "GenerateConfig marshal proxy upstreams =
     (case generatedConfig proxy upstreams of Inl e \<Rightarrow> Inl e | Inr cfg \<Rightarrow>
      (case marshal cfg of Inl e \<Rightarrow> Inl (ErrWrap ''marshalling proxy config'' e) | Inr data \<Rightarrow> Inr data))"

section \<open>Annotated services\<close>

record ServicePort =
  sp_Name :: string
  sp_Port :: int
  sp_TargetPort :: string
  sp_Protocol :: string

record KService =
  sv_Meta :: ObjectMeta
  sv_Selector :: "string gomap"
  sv_Ports :: "ServicePort list"

text \<open>An index expression on a Go map of strings.\<close>

definition annotation :: "ObjectMeta \<Rightarrow> string \<Rightarrow> string" where
  "annotation m k = (case map_of (om_Annotations m) k of None \<Rightarrow> [] | Some v \<Rightarrow> v)"

definition parseConfigMapRef :: "string \<Rightarrow> goerr + ConfigMapKeyRef" where
  "parseConfigMapRef value =
     (let bad = ErrText (''expected format \"name:key\", got '' @ go_quote value) in
      case cut_char (CHR '':'') value of
        None \<Rightarrow> Inl bad
      | Some (name, key) \<Rightarrow> if name = [] \<or> key = [] then Inl bad else Inr \<lparr>ck_Name = name, ck_Key = key\<rparr>)"

text \<open>\<^verbatim>\<open>strconv.ParseInt(s, 10, 32)\<close>.\<close>

definition digits_value :: "string \<Rightarrow> nat option" where
  "digits_value s =
     (if s \<noteq> [] \<and> list_all is_digit s then Some (foldl (\<lambda>n c. 10 * n + (of_char c - 48)) 0 s) else None)"

definition ParseInt32 :: "string \<Rightarrow> goerr + int" where
  "ParseInt32 s =
     (let err = (\<lambda>why. Inl (ErrText (''strconv.ParseInt: parsing '' @ go_quote s @ '': '' @ why)));
          (neg, ds) = (case s of c # cs \<Rightarrow> if c = CHR ''-'' then (True, cs) else if c = CHR ''+'' then (False, cs) else (False, s)
                       | [] \<Rightarrow> (False, [])) in
      case digits_value ds of
        None \<Rightarrow> err ''invalid syntax''
      | Some n \<Rightarrow> (let i = (if neg then - int n else int n) in
          if - (2 ^ 31) \<le> i \<and> i < 2 ^ 31 then Inr i else err ''value out of range''))"

definition resolveServicePort :: "KService \<Rightarrow> goerr + int" where
  "resolveServicePort svc =
     (let override = annotation (sv_Meta svc) ''mcp-auto.ai/port'' in
      if override \<noteq> [] then
        (case ParseInt32 override of
           Inl e \<Rightarrow> Inl (ErrWrap (''invalid mcp-auto.ai/port annotation value '' @ go_quote override) e)
         | Inr p \<Rightarrow> Inr p)
      else (case sv_Ports svc of
              [] \<Rightarrow> Inl (ErrText ''service has no ports and mcp-auto.ai/port annotation is not set'')
            | p # _ \<Rightarrow> Inr (sp_Port p)))"

definition annotatedOpenAPI :: "ObjectMeta \<Rightarrow> goerr + MCPUpstreamOpenAPISpec" where
  "annotatedOpenAPI m =
     (let url = annotation m ''mcp-auto.ai/openapi-url'';
          cm = annotation m ''mcp-auto.ai/openapi-configmap'';
          path = annotation m ''mcp-auto.ai/openapi-path'';
          n = length (filter (\<lambda>s. s \<noteq> []) [url, cm, path])
      in if n \<noteq> 1
         then Inl (ErrText (''expected exactly one OpenAPI source annotation (mcp-auto.ai/openapi-url, mcp-auto.ai/openapi-configmap, mcp-auto.ai/openapi-path), got '' @ show_nat n))
         else if url \<noteq> [] then Inr (zeroOpenAPISpec\<lparr>uo_URL := url\<rparr>)
         else if cm \<noteq> [] then
           (case parseConfigMapRef cm of
              Inl e \<Rightarrow> Inl (ErrWrap ''invalid mcp-auto.ai/openapi-configmap'' e)
            | Inr ref \<Rightarrow> Inr (zeroOpenAPISpec\<lparr>uo_ConfigMapRef := Some ref\<rparr>))
         else Inr (zeroOpenAPISpec\<lparr>uo_AutoDiscover := Some \<lparr>ad_Path = path\<rparr>\<rparr>))"

definition annotatedOverlay :: "ObjectMeta \<Rightarrow> goerr + MCPUpstreamOverlaySpec option" where
  "annotatedOverlay m =
     (let cmRef = annotation m ''mcp-auto.ai/overlay-configmap'' in
      if cmRef = [] then Inr None
      else (case parseConfigMapRef cmRef of
              Inl e \<Rightarrow> Inl (ErrWrap ''invalid mcp-auto.ai/overlay-configmap'' e)
            | Inr ref \<Rightarrow> Inr (Some \<lparr>ov_ConfigMapRef = Some ref\<rparr>)))"

definition annotatedAuth :: "ObjectMeta \<Rightarrow> MCPUpstreamOutboundAuthSpec option" where
  "annotatedAuth m =
     (let strategy = annotation m ''mcp-auto.ai/auth-strategy'';
          secretName = annotation m ''mcp-auto.ai/auth-secret'' in
      if strategy \<noteq> [] \<and> strategy \<noteq> ''none''
      then Some \<lparr>oa_Strategy = strategy,
                 oa_Bearer = (if secretName \<noteq> [] then Some \<lparr>bs_SecretRef = Some \<lparr>se_Name = secretName\<rparr>\<rparr> else None),
                 oa_OAuth2 = None\<rparr>
      else None)"

definition serviceToMCPUpstream :: "KService \<Rightarrow> goerr + MCPUpstream" where
  "serviceToMCPUpstream svc =
     (let m = sv_Meta svc; toolPrefix = annotation m ''mcp-auto.ai/tool-prefix'' in
      if toolPrefix = [] then Inl (ErrText ''missing required annotation mcp-auto.ai/tool-prefix'')
      else (case resolveServicePort svc of
        Inl e \<Rightarrow> Inl (ErrWrap (''resolving port for service '' @ om_Namespace m @ ''/'' @ om_Name m) e)
      | Inr port \<Rightarrow>
          (let baseURL = ''http://'' @ om_Name m @ ''.'' @ om_Namespace m @ ''.svc.cluster.local:'' @ show_int port @
                 annotation m ''mcp-auto.ai/base-path'' in
           case annotatedOpenAPI m of Inl e \<Rightarrow> Inl e | Inr openAPI \<Rightarrow>
           (case annotatedOverlay m of Inl e \<Rightarrow> Inl e | Inr overlay \<Rightarrow>
             Inr \<lparr>mu_Meta = objectMeta (om_Namespace m) (om_Name m),
                  mu_Spec = zeroUpstreamSpec\<lparr>us_ToolPrefix := toolPrefix, us_BaseURL := baseURL, us_OpenAPI := openAPI,
                    us_Overlay := overlay, us_OutboundAuth := annotatedAuth m\<rparr>,
                  mu_Status = \<lparr>ut_Conditions = [], ut_AssignedProxy = [], ut_ToolCount = 0\<rparr>\<rparr>))))"

end
