(* ===== verification/Operator.thy ===== *)
theory Operator
  imports ConfigGen
begin

text \<open>
  The reconcilers of the Kubernetes operator, \<^verbatim>\<open>pkg/operator/controller\<close>: the collection of the
  upstreams of a proxy, prefix conflicts, the ConfigMaps, Deployment, Service and HTTPRoute the
  proxy runs from, its status, and the requests a changed resource triggers. The API server and
  the Kubernetes libraries are the parameter \<^verbatim>\<open>kube\<close>; logging is left out.
\<close>

section \<open>The objects the operator writes\<close>

record ConfigMap =
  cm_Meta :: ObjectMeta
  cm_Data :: "string gomap option"

record Volume =
  vo_Name :: string
  vo_ConfigMap :: string

record VolumeMount =
  vm_Name :: string
  vm_MountPath :: string

record Container =
  cn_Name :: string
  cn_Image :: string
  cn_Ports :: "(string \<times> int \<times> string) list"
  cn_Env :: "(string \<times> string) list"
  cn_VolumeMounts :: "VolumeMount list"
  cn_Resources :: ResourceRequirements

record DeploymentSpec =
  ds_Replicas :: int
  ds_Selector :: "string gomap"
  ds_TemplateLabels :: "string gomap"
  ds_Containers :: "Container list"
  ds_Volumes :: "Volume list"

record Deployment =
  dp_Meta :: ObjectMeta
  dp_Spec :: DeploymentSpec

record HTTPRouteRule =
  hl_Matches :: "(string \<times> string) list"
  hl_BackendRefs :: "(string \<times> int) list"

record HTTPRouteSpec =
  hs_ParentRefs :: "(string \<times> string) list"
  hs_Hostnames :: "string list"
  hs_Rules :: "HTTPRouteRule list"

record HTTPRoute =
  hr_Meta :: ObjectMeta
  hr_Spec :: HTTPRouteSpec

section \<open>The API server\<close>

text \<open>\<^verbatim>\<open>apierrors.IsNotFound\<close> and \<^verbatim>\<open>apimeta.IsNoMatchError\<close> recognise the first two.\<close>

datatype kube_error = KNotFound string | KNoMatch string | KError string

fun kerr :: "kube_error \<Rightarrow> goerr" where
  "kerr (KNotFound s) = ErrText s"
| "kerr (KNoMatch s) = ErrText s"
| "kerr (KError s) = ErrText s"

record ('o, 'w) resource =
  r_Get :: "NamespacedName \<Rightarrow> 'w \<Rightarrow> (kube_error + 'o) \<times> 'w"
  r_Create :: "'o \<Rightarrow> 'w \<Rightarrow> kube_error option \<times> 'w"
  r_Update :: "'o \<Rightarrow> 'w \<Rightarrow> kube_error option \<times> 'w"
  r_Delete :: "'o \<Rightarrow> 'w \<Rightarrow> kube_error option \<times> 'w"

text \<open>
  The client, the label selectors, the owner reference the library computes for an object of
  the proxy's namespace, the condition helpers, the YAML encoder and the semantic equality.
\<close>

record 'w kube =
  k_ConfigMaps :: "(ConfigMap, 'w) resource"
  k_Deployments :: "(Deployment, 'w) resource"
  k_Services :: "(KService, 'w) resource"
  k_HTTPRoutes :: "(HTTPRoute, 'w) resource"
  k_GetProxy :: "NamespacedName \<Rightarrow> 'w \<Rightarrow> (kube_error + MCPProxy) \<times> 'w"
  k_UpdateProxyStatus :: "MCPProxy \<Rightarrow> 'w \<Rightarrow> kube_error option \<times> 'w"
  k_GetUpstream :: "NamespacedName \<Rightarrow> 'w \<Rightarrow> (kube_error + MCPUpstream) \<times> 'w"
  k_UpdateUpstreamStatus :: "MCPUpstream \<Rightarrow> 'w \<Rightarrow> kube_error option \<times> 'w"
  k_ListProxies :: "'w \<Rightarrow> (kube_error + MCPProxy list) \<times> 'w"
  k_ListUpstreams :: "string \<Rightarrow> (string gomap \<Rightarrow> bool) \<Rightarrow> 'w \<Rightarrow> (kube_error + MCPUpstream list) \<times> 'w"
  k_ListServices :: "string \<Rightarrow> 'w \<Rightarrow> (kube_error + KService list) \<times> 'w"
  k_ListNamespaces :: "string gomap \<Rightarrow> 'w \<Rightarrow> (kube_error + string list) \<times> 'w"
  k_selector :: "LabelSelector \<Rightarrow> goerr + (string gomap \<Rightarrow> bool)"
  k_owner :: "MCPProxy \<Rightarrow> goerr + string"
  k_findCondition :: "Condition list \<Rightarrow> string \<Rightarrow> Condition option"
  k_setCondition :: "Condition \<Rightarrow> Condition list \<Rightarrow> Condition list"
  k_marshal :: "generatedProxyConfig \<Rightarrow> goerr + string"
  k_sameDeployment :: "DeploymentSpec \<Rightarrow> DeploymentSpec \<Rightarrow> bool"
  k_sameRoute :: "HTTPRouteSpec \<Rightarrow> HTTPRouteSpec \<Rightarrow> bool"

abbreviation px_name :: "MCPProxy \<Rightarrow> string" where
  "px_name proxy \<equiv> om_Name (px_Meta proxy)"

abbreviation px_ns :: "MCPProxy \<Rightarrow> string" where
  "px_ns proxy \<equiv> om_Namespace (px_Meta proxy)"

text \<open>The outcome of a call whose error is wrapped.\<close>

definition wrapped :: "string \<Rightarrow> kube_error option \<times> 'w \<Rightarrow> goerr option \<times> 'w" where
  "wrapped what r = (case r of (Some e, w) \<Rightarrow> (Some (ErrWrap what (kerr e)), w) | (None, w) \<Rightarrow> (None, w))"

text \<open>One step after the other, up to the first error.\<close>

definition and_then :: "('w \<Rightarrow> goerr option \<times> 'w) \<Rightarrow> ('w \<Rightarrow> goerr option \<times> 'w) \<Rightarrow> 'w \<Rightarrow> goerr option \<times> 'w" where
  "and_then f g w = (case f w of (Some e, w1) \<Rightarrow> (Some e, w1) | (None, w1) \<Rightarrow> g w1)"

text \<open>\<^verbatim>\<open>SetControllerReference\<close> on a fresh object, which keeps the object when it fails.\<close>

definition ownedBy :: "'w kube \<Rightarrow> MCPProxy \<Rightarrow> ObjectMeta \<Rightarrow> ObjectMeta" where
  "ownedBy k proxy m = (case k_owner k proxy of Inl e \<Rightarrow> m | Inr owner \<Rightarrow> m\<lparr>om_Owner := Some owner\<rparr>)"

text \<open>
  The common shape of the reconcile functions: create the desired object when there is none, leave
  an existing one that is as desired alone, and otherwise update it.
\<close>

definition reconcileObject ::
    "('o, 'w) resource \<Rightarrow> string \<Rightarrow> NamespacedName \<Rightarrow> goerr + 'o \<Rightarrow> ('o \<Rightarrow> bool) \<Rightarrow> ('o \<Rightarrow> 'o) \<Rightarrow> 'w \<Rightarrow> goerr option \<times> 'w" where
  "reconcileObject R what key desired unchanged change w =
     (case r_Get R key w of
        (Inl (KNotFound s), w1) \<Rightarrow>
          (case desired of Inl e \<Rightarrow> (Some e, w1)
           | Inr x \<Rightarrow> wrapped (''creating '' @ what) (r_Create R x w1))
      | (Inl e, w1) \<Rightarrow> (Some (ErrWrap (''fetching '' @ what) (kerr e)), w1)
      | (Inr x, w1) \<Rightarrow>
          if unchanged x then (None, w1)
          else wrapped (''updating '' @ what) (r_Update R (change x) w1))"

section \<open>ConfigMaps\<close>

text \<open>\<^verbatim>\<open>reflect.DeepEqual\<close> of a map with a non-empty map, and an index expression on a map.\<close>

definition same_data :: "string gomap option \<Rightarrow> string gomap \<Rightarrow> bool" where
  "same_data d m =
     (case d of None \<Rightarrow> False
      | Some m' \<Rightarrow> list_all (\<lambda>x. map_of m' x = map_of m x) (map fst m' @ map fst m))"

definition data_at :: "string gomap option \<Rightarrow> string \<Rightarrow> string" where
  "data_at d key =
     (case d of None \<Rightarrow> [] | Some m \<Rightarrow> (case map_of m key of None \<Rightarrow> [] | Some v \<Rightarrow> v))"

definition newConfigMap :: "'w kube \<Rightarrow> MCPProxy \<Rightarrow> string \<Rightarrow> string \<Rightarrow> string gomap \<Rightarrow> goerr + ConfigMap" where
  "newConfigMap k proxy what name data =
     (case k_owner k proxy of
        Inl e \<Rightarrow> Inl (ErrWrap what e)
      | Inr owner \<Rightarrow> Inr \<lparr>cm_Meta = (objectMeta (px_ns proxy) name)\<lparr>om_Owner := Some owner\<rparr>, cm_Data = Some data\<rparr>)"

definition reconcileConfigMap :: "'w kube \<Rightarrow> MCPProxy \<Rightarrow> string \<Rightarrow> 'w \<Rightarrow> goerr option \<times> 'w" where
  "reconcileConfigMap k proxy configData =
     (let name = px_name proxy @ ''-config''; newData = [(''config.yaml'', configData)] in
      reconcileObject (k_ConfigMaps k) ''config configmap'' (px_ns proxy, name)
        (newConfigMap k proxy ''setting owner reference'' name newData)
        (\<lambda>cm. same_data (cm_Data cm) newData)
        (\<lambda>cm. cm\<lparr>cm_Data := Some newData\<rparr>))"

definition upsertConfigMap :: "'w kube \<Rightarrow> MCPProxy \<Rightarrow> string \<Rightarrow> string \<Rightarrow> string \<Rightarrow> 'w \<Rightarrow> goerr option \<times> 'w" where
  "upsertConfigMap k proxy name key value =
     reconcileObject (k_ConfigMaps k) (''configmap '' @ name) (px_ns proxy, name)
       (newConfigMap k proxy (''setting owner reference on configmap '' @ name) name [(key, value)])
       (\<lambda>cm. cm_Data cm \<noteq> None \<and> data_at (cm_Data cm) key = value)
       (\<lambda>cm. cm\<lparr>cm_Data := Some (AList.update key value (case cm_Data cm of None \<Rightarrow> [] | Some m \<Rightarrow> m))\<rparr>)"

text \<open>The common body of the two copy functions: the key of the source ConfigMap in the upstream's
  namespace, into the proxy's ConfigMap with this ending.\<close>

definition copyConfigMapKey ::
    "'w kube \<Rightarrow> MCPProxy \<Rightarrow> MCPUpstream \<Rightarrow> string \<Rightarrow> string \<Rightarrow> ConfigMapKeyRef \<Rightarrow> 'w \<Rightarrow> goerr option \<times> 'w" where
  "copyConfigMapKey k proxy up what sfx ref w =
     (case r_Get (k_ConfigMaps k) (up_ns up, ck_Name ref) w of
        (Inl e, w1) \<Rightarrow>
          (Some (ErrWrap (''fetching source '' @ what @ '' configmap '' @ up_ns up @ ''/'' @ ck_Name ref) (kerr e)), w1)
      | (Inr src, w1) \<Rightarrow>
          (case (case cm_Data src of None \<Rightarrow> None | Some m \<Rightarrow> map_of m (ck_Key ref)) of
             None \<Rightarrow> (Some (ErrText (''key '' @ go_quote (ck_Key ref) @ '' not found in configmap '' @ up_ns up @ ''/'' @
               ck_Name ref)), w1)
           | Some value \<Rightarrow> upsertConfigMap k proxy (px_name proxy @ sfx) (fileKey up) value w1))"

definition reconcileUpstreamSpecCM :: "'w kube \<Rightarrow> MCPProxy \<Rightarrow> MCPUpstream \<Rightarrow> 'w \<Rightarrow> goerr option \<times> 'w" where
  "reconcileUpstreamSpecCM k proxy up w =
     (case uo_ConfigMapRef (us_OpenAPI (mu_Spec up)) of
        None \<Rightarrow> (None, w)
      | Some ref \<Rightarrow> copyConfigMapKey k proxy up ''openapi'' ''-specs'' ref w)"

text \<open>The overlay's reference, if it has one.\<close>

definition overlayRef :: "MCPUpstream \<Rightarrow> ConfigMapKeyRef option" where
  "overlayRef up = (case us_Overlay (mu_Spec up) of None \<Rightarrow> None | Some ov \<Rightarrow> ov_ConfigMapRef ov)"

definition reconcileUpstreamOverlayCM :: "'w kube \<Rightarrow> MCPProxy \<Rightarrow> MCPUpstream \<Rightarrow> 'w \<Rightarrow> goerr option \<times> 'w" where
  "reconcileUpstreamOverlayCM k proxy up w =
     (case overlayRef up of
        None \<Rightarrow> (None, w)
      | Some ref \<Rightarrow> copyConfigMapKey k proxy up ''overlay'' ''-overlays'' ref w)"

fun reconcileUpstreamConfigMaps :: "'w kube \<Rightarrow> MCPProxy \<Rightarrow> MCPUpstream list \<Rightarrow> 'w \<Rightarrow> goerr option \<times> 'w" where
  "reconcileUpstreamConfigMaps k proxy [] w = (None, w)"
| "reconcileUpstreamConfigMaps k proxy (up # ups) w =
     (if us_Type (mu_Spec up) = ''command'' then reconcileUpstreamConfigMaps k proxy ups w
      else and_then (reconcileUpstreamSpecCM k proxy up)
             (and_then (reconcileUpstreamOverlayCM k proxy up) (reconcileUpstreamConfigMaps k proxy ups)) w)"

section \<open>Deployment, Service and HTTPRoute\<close>

definition podLabels :: "MCPProxy \<Rightarrow> string gomap" where
  "podLabels proxy =
    [(''app.kubernetes.io/name'', ''mcp-auto''), (''app.kubernetes.io/instance'', px_name proxy),
     (''app.kubernetes.io/component'', ''proxy'')]"

definition specsMountPath :: string where
  "specsMountPath = ''/etc/mcp-auto/specs''"

definition overlaysMountPath :: string where
  "overlaysMountPath = ''/etc/mcp-auto/overlays''"

definition buildDeployment :: "'w kube \<Rightarrow> MCPProxy \<Rightarrow> MCPUpstream list \<Rightarrow> Deployment" where
  "buildDeployment k proxy upstreams =
     (let spec = px_Spec proxy;
          image = (if ps_Image spec = [] then ''ghcr.io/lega4e/mcp-auto:latest'' else ps_Image spec);
          replicas = (case ps_Replicas spec of None \<Rightarrow> 1 | Some n \<Rightarrow> n);
          http = filter (\<lambda>up. us_Type (mu_Spec up) \<noteq> ''command'') upstreams;
          hasSpecs = list_ex (\<lambda>up. uo_ConfigMapRef (us_OpenAPI (mu_Spec up)) \<noteq> None) http;
          hasOverlays = list_ex (\<lambda>up. overlayRef up \<noteq> None) http;
          volumes = [\<lparr>vo_Name = ''proxy-config'', vo_ConfigMap = px_name proxy @ ''-config''\<rparr>] @
            (if hasSpecs then [\<lparr>vo_Name = ''upstream-specs'', vo_ConfigMap = px_name proxy @ ''-specs''\<rparr>] else []) @
            (if hasOverlays then [\<lparr>vo_Name = ''upstream-overlays'', vo_ConfigMap = px_name proxy @ ''-overlays''\<rparr>] else []);
          volumeMounts = [\<lparr>vm_Name = ''proxy-config'', vm_MountPath = ''/etc/mcp-auto''\<rparr>] @
            (if hasSpecs then [\<lparr>vm_Name = ''upstream-specs'', vm_MountPath = specsMountPath\<rparr>] else []) @
            (if hasOverlays then [\<lparr>vm_Name = ''upstream-overlays'', vm_MountPath = overlaysMountPath\<rparr>] else [])
      in \<lparr>dp_Meta = ownedBy k proxy (objectMeta (px_ns proxy) (px_name proxy)),
          dp_Spec =
           \<lparr>ds_Replicas = replicas, ds_Selector = podLabels proxy, ds_TemplateLabels = podLabels proxy,
            ds_Containers =
             [\<lparr>cn_Name = ''proxy'', cn_Image = image, cn_Ports = [(''http'', proxyPort proxy, ''TCP'')],
               cn_Env = [(''CONFIG_PATH'', ''/etc/mcp-auto/config.yaml'')], cn_VolumeMounts = volumeMounts,
               cn_Resources = ps_Resources spec\<rparr>],
            ds_Volumes = volumes\<rparr>\<rparr>)"

definition reconcileDeployment :: "'w kube \<Rightarrow> MCPProxy \<Rightarrow> MCPUpstream list \<Rightarrow> 'w \<Rightarrow> goerr option \<times> 'w" where
  "reconcileDeployment k proxy upstreams =
     (let desired = buildDeployment k proxy upstreams in
      reconcileObject (k_Deployments k) ''deployment'' (px_ns proxy, px_name proxy) (Inr desired)
        (\<lambda>existing. k_sameDeployment k (dp_Spec existing) (dp_Spec desired))
        (\<lambda>existing. existing\<lparr>dp_Spec := dp_Spec desired\<rparr>))"

definition buildService :: "'w kube \<Rightarrow> MCPProxy \<Rightarrow> KService" where
  "buildService k proxy =
    \<lparr>sv_Meta = ownedBy k proxy (objectMeta (px_ns proxy) (px_name proxy)),
     sv_Selector = podLabels proxy,
     sv_Ports = [\<lparr>sp_Name = ''http'', sp_Port = proxyPort proxy, sp_TargetPort = ''http'', sp_Protocol = ''TCP''\<rparr>]\<rparr>"

definition reconcileService :: "'w kube \<Rightarrow> MCPProxy \<Rightarrow> 'w \<Rightarrow> goerr option \<times> 'w" where
  "reconcileService k proxy =
     (let desired = buildService k proxy in
      reconcileObject (k_Services k) ''service'' (px_ns proxy, px_name proxy) (Inr desired)
        (\<lambda>existing. sv_Ports existing = sv_Ports desired \<and> same_data (Some (sv_Selector existing)) (sv_Selector desired))
        (\<lambda>existing. existing\<lparr>sv_Ports := sv_Ports desired, sv_Selector := sv_Selector desired\<rparr>))"

definition buildHTTPRoute :: "'w kube \<Rightarrow> MCPProxy \<Rightarrow> GatewayRefSpec \<Rightarrow> HTTPRoute" where
  "buildHTTPRoute k proxy gw =
    \<lparr>hr_Meta = ownedBy k proxy (objectMeta (px_ns proxy) (px_name proxy)),
     hr_Spec =
      \<lparr>hs_ParentRefs = [(gw_Name gw, if gw_Namespace gw = [] then px_ns proxy else gw_Namespace gw)],
       hs_Hostnames = (if gw_Hostname gw \<noteq> [] then [gw_Hostname gw] else []),
       hs_Rules = [\<lparr>hl_Matches = [(''PathPrefix'', ''/'')], hl_BackendRefs = [(px_name proxy, proxyPort proxy)]\<rparr>]\<rparr>\<rparr>"

definition reconcileHTTPRoute :: "'w kube \<Rightarrow> MCPProxy \<Rightarrow> 'w \<Rightarrow> goerr option \<times> 'w" where
  "reconcileHTTPRoute k proxy w =
     (let key = (px_ns proxy, px_name proxy) in
      case ps_GatewayRef (px_Spec proxy) of
        None \<Rightarrow>
          (case r_Get (k_HTTPRoutes k) key w of
             (Inl (KNotFound s), w1) \<Rightarrow> (None, w1)
           | (Inl (KNoMatch s), w1) \<Rightarrow> (None, w1)
           | (Inl e, w1) \<Rightarrow> (Some (ErrWrap ''fetching HTTPRoute'' (kerr e)), w1)
           | (Inr existing, w1) \<Rightarrow> wrapped ''deleting HTTPRoute'' (r_Delete (k_HTTPRoutes k) existing w1))
      | Some gw \<Rightarrow>
          (let desired = buildHTTPRoute k proxy gw in
           reconcileObject (k_HTTPRoutes k) ''HTTPRoute'' key (Inr desired)
             (\<lambda>existing. k_sameRoute k (hr_Spec existing) (hr_Spec desired))
             (\<lambda>existing. existing\<lparr>hr_Spec := hr_Spec desired\<rparr>) w))"

section \<open>The upstreams of a proxy\<close>

text \<open>A loop that appends the items of each list call, up to the first error.\<close>

fun list_each :: "('a \<Rightarrow> 'w \<Rightarrow> (goerr + 'b list) \<times> 'w) \<Rightarrow> 'a list \<Rightarrow> 'w \<Rightarrow> (goerr + 'b list) \<times> 'w" where
  "list_each f [] w = (Inr [], w)"
| "list_each f (x # xs) w =
     (case f x w of (Inl e, w1) \<Rightarrow> (Inl e, w1) | (Inr ys, w1) \<Rightarrow>
      (case list_each f xs w1 of (Inl e, w2) \<Rightarrow> (Inl e, w2) | (Inr zs, w2) \<Rightarrow> (Inr (ys @ zs), w2)))"

definition upstreamNamespaces :: "MCPProxy \<Rightarrow> string list" where
  "upstreamNamespaces proxy =
     (let names = ns_MatchNames (ps_NamespaceSelector (px_Spec proxy)) in if names = [] then [px_ns proxy] else names)"

definition listUpstreams :: "'w kube \<Rightarrow> MCPProxy \<Rightarrow> 'w \<Rightarrow> (goerr + MCPUpstream list) \<times> 'w" where
  "listUpstreams k proxy w =
     (case k_selector k (ps_UpstreamSelector (px_Spec proxy)) of
        Inl e \<Rightarrow> (Inl (ErrWrap ''parsing upstream selector'' e), w)
      | Inr selector \<Rightarrow>
          list_each (\<lambda>ns w. case k_ListUpstreams k ns selector w of
              (Inl e, w1) \<Rightarrow> (Inl (ErrWrap (''listing upstreams in namespace '' @ ns) (kerr e)), w1)
            | (Inr items, w1) \<Rightarrow> (Inr items, w1)) (upstreamNamespaces proxy) w)"

definition serviceMatchesProxy :: "KService \<Rightarrow> MCPProxy \<Rightarrow> bool" where
  "serviceMatchesProxy svc proxy =
     (case map_of (om_Annotations (sv_Meta svc)) ''mcp-auto.ai/proxy'' of
        None \<Rightarrow> True
      | Some a \<Rightarrow>
          (case cut_char (CHR ''/'') a of
             Some (ns, name) \<Rightarrow> ns = px_ns proxy \<and> name = px_name proxy
           | None \<Rightarrow> om_Namespace (sv_Meta svc) = px_ns proxy \<and> a = px_name proxy))"

definition add_new :: "string \<Rightarrow> string list \<Rightarrow> string list" where
  "add_new ns acc = (if ns \<in> set acc then acc else acc @ [ns])"

definition serviceDiscoveryNamespaces :: "'w kube \<Rightarrow> MCPProxy \<Rightarrow> 'w \<Rightarrow> (goerr + string list) \<times> 'w" where
  "serviceDiscoveryNamespaces k proxy w =
     (case (case ps_ServiceDiscovery (px_Spec proxy) of None \<Rightarrow> None | Some sd \<Rightarrow> sd_NamespaceSelector sd) of
        None \<Rightarrow> (Inr (upstreamNamespaces proxy), w)
      | Some sel \<Rightarrow>
          (let named = fold add_new (sn_MatchNames sel) [];
               finish = (\<lambda>namespaces. if namespaces = [] then [px_ns proxy] else namespaces)
           in if sn_MatchLabels sel = [] then (Inr (finish named), w)
              else (case k_ListNamespaces k (sn_MatchLabels sel) w of
                      (Inl e, w1) \<Rightarrow> (Inl (ErrWrap ''listing namespaces by label'' (kerr e)), w1)
                    | (Inr items, w1) \<Rightarrow> (Inr (finish (fold add_new items named)), w1))))"

definition discoveryEnabled :: "MCPProxy \<Rightarrow> bool" where
  "discoveryEnabled proxy =
     (case ps_ServiceDiscovery (px_Spec proxy) of None \<Rightarrow> False | Some sd \<Rightarrow> sd_Enabled sd)"

definition serviceUpstream :: "MCPProxy \<Rightarrow> KService \<Rightarrow> MCPUpstream option" where
  "serviceUpstream proxy svc =
     (if annotation (sv_Meta svc) ''mcp-auto.ai/enabled'' \<noteq> ''true'' then None
      else if \<not> serviceMatchesProxy svc proxy then None
      else (case serviceToMCPUpstream svc of Inl e \<Rightarrow> None | Inr up \<Rightarrow> Some up))"

definition listAnnotatedServices :: "'w kube \<Rightarrow> MCPProxy \<Rightarrow> 'w \<Rightarrow> (goerr + MCPUpstream list) \<times> 'w" where
  "listAnnotatedServices k proxy w =
     (if \<not> discoveryEnabled proxy then (Inr [], w)
      else (case serviceDiscoveryNamespaces k proxy w of
              (Inl e, w1) \<Rightarrow> (Inl (ErrWrap ''resolving service discovery namespaces'' e), w1)
            | (Inr namespaces, w1) \<Rightarrow>
                list_each (\<lambda>ns w. case k_ListServices k ns w of
                    (Inl e, w2) \<Rightarrow> (Inl (ErrWrap (''listing services in namespace '' @ ns) (kerr e)), w2)
                  | (Inr items, w2) \<Rightarrow> (Inr (List.map_filter (serviceUpstream proxy) items), w2)) namespaces w1))"

text \<open>\<^verbatim>\<open>record\<close>: the prefixes seen so far with the identity and kind of their first claimant.\<close>

definition recordPrefix ::
    "string \<Rightarrow> MCPUpstream \<Rightarrow> (string \<times> string \<times> string) list \<times> string list \<Rightarrow>
     (string \<times> string \<times> string) list \<times> string list" where
  "recordPrefix source up s =
     (let (seen, conflicts) = s; key = us_ToolPrefix (mu_Spec up); uid = up_ns up @ ''/'' @ up_name up in
      if key = [] then s
      else (case map_of seen key of
              Some (id0, source0) \<Rightarrow>
                (seen, conflicts @ [''prefix '' @ go_quote key @ '': '' @ id0 @ '' ('' @ source0 @ '') vs '' @ uid @
                  '' ('' @ source @ '')''])
            | None \<Rightarrow> (AList.update key (uid, source) seen, conflicts)))"

definition detectPrefixConflicts :: "MCPUpstream list \<Rightarrow> MCPUpstream list \<Rightarrow> string list" where
  "detectPrefixConflicts crdUpstreams svcUpstreams =
     snd (fold (recordPrefix ''service'') svcUpstreams (fold (recordPrefix ''crd'') crdUpstreams ([], [])))"

section \<open>Status\<close>

definition conditionOf :: "MCPProxy \<Rightarrow> string \<Rightarrow> bool \<Rightarrow> string \<Rightarrow> string \<Rightarrow> Condition" where
  "conditionOf proxy type status reason msg =
    \<lparr>co_Type = type, co_Status = (if status then ''True'' else ''False''), co_Reason = reason, co_Message = msg,
     co_ObservedGeneration = om_Generation (px_Meta proxy)\<rparr>"

definition conflictCondition :: "MCPProxy \<Rightarrow> string list \<Rightarrow> Condition" where
  "conflictCondition proxy conflicts =
     (if conflicts \<noteq> []
      then conditionOf proxy ''PrefixConflict'' True ''PrefixConflict'' (''prefix conflicts: '' @ join_with ''; '' conflicts)
      else conditionOf proxy ''PrefixConflict'' False ''NoPrefixConflict'' ''no prefix conflicts'')"

definition reconciledMsg :: "MCPUpstream list \<Rightarrow> MCPUpstream list \<Rightarrow> string" where
  "reconciledMsg crd svc =
     ''proxy configured with '' @ show_nat (length crd + length svc) @ '' upstream(s) ('' @ show_nat (length crd) @
     '' CRD, '' @ show_nat (length svc) @ '' annotated service)''"

definition statusUnchanged ::
    "'w kube \<Rightarrow> MCPProxy \<Rightarrow> MCPUpstream list \<Rightarrow> MCPUpstream list \<Rightarrow> Condition \<Rightarrow> bool" where
  "statusUnchanged k proxy crd svc conflictCond =
     (let st = px_Status proxy in
      st_UpstreamCount st = int (length crd) \<and> st_AnnotatedServiceCount st = int (length svc) \<and>
      st_ObservedGeneration st = om_Generation (px_Meta proxy) \<and>
      (case k_findCondition k (st_Conditions st) ''Reconciled'' of None \<Rightarrow> False
       | Some c \<Rightarrow> co_Status c = ''True'' \<and> co_Message c = reconciledMsg crd svc) \<and>
      (case k_findCondition k (st_Conditions st) ''PrefixConflict'' of None \<Rightarrow> False
       | Some c \<Rightarrow> co_Status c = co_Status conflictCond \<and> co_Message c = co_Message conflictCond))"

text \<open>The proxy object with the new status, before it is written.\<close>

definition withStatus ::
    "'w kube \<Rightarrow> MCPProxy \<Rightarrow> MCPUpstream list \<Rightarrow> MCPUpstream list \<Rightarrow> Condition \<Rightarrow> MCPProxy" where
  "withStatus k proxy crd svc conflictCond =
     proxy\<lparr>px_Status := (px_Status proxy)
       \<lparr>st_UpstreamCount := int (length crd), st_AnnotatedServiceCount := int (length svc),
        st_ObservedGeneration := om_Generation (px_Meta proxy),
        st_Conditions := k_setCondition k conflictCond
          (k_setCondition k (conditionOf proxy ''Reconciled'' True ''Reconciled'' (reconciledMsg crd svc))
            (st_Conditions (px_Status proxy)))\<rparr>\<rparr>"

definition updateStatus ::
    "'w kube \<Rightarrow> MCPProxy \<Rightarrow> MCPUpstream list \<Rightarrow> MCPUpstream list \<Rightarrow> string list \<Rightarrow> 'w \<Rightarrow> goerr option \<times> 'w" where
  "updateStatus k proxy crd svc conflicts w =
     (let cond = conflictCondition proxy conflicts in
      if statusUnchanged k proxy crd svc cond then (None, w)
      else wrapped ''updating MCPProxy status'' (k_UpdateProxyStatus k (withStatus k proxy crd svc cond) w))"

definition setCondition ::
    "'w kube \<Rightarrow> MCPProxy \<Rightarrow> string \<Rightarrow> bool \<Rightarrow> string \<Rightarrow> string \<Rightarrow> 'w \<Rightarrow> goerr option \<times> 'w" where
  "setCondition k proxy condType status reason msg w =
     wrapped ''updating status condition''
       (k_UpdateProxyStatus k
         (proxy\<lparr>px_Status := (px_Status proxy)
            \<lparr>st_Conditions := k_setCondition k (conditionOf proxy condType status reason msg)
                                (st_Conditions (px_Status proxy))\<rparr>\<rparr>) w)"

section \<open>Reconciling\<close>

text \<open>In nanoseconds.\<close>

definition periodicSyncInterval :: int where
  "periodicSyncInterval = 5 * 60 * 1000000000"

text \<open>The part of \<^verbatim>\<open>Reconcile\<close> after the configuration is generated.\<close>

definition applyProxy ::
    "'w kube \<Rightarrow> MCPProxy \<Rightarrow> MCPUpstream list \<Rightarrow> MCPUpstream list \<Rightarrow> string \<Rightarrow> 'w \<Rightarrow> goerr option \<times> 'w" where
  "applyProxy k proxy crd svc configData =
     (let step = (\<lambda>what f w. case f w of (Some e, w1) \<Rightarrow> (Some (ErrWrap what e), w1) | (None, w1) \<Rightarrow> (None, w1)) in
      and_then (step ''reconciling config configmap'' (reconcileConfigMap k proxy configData))
     (and_then (step ''reconciling upstream configmaps'' (reconcileUpstreamConfigMaps k proxy (crd @ svc)))
     (and_then (step ''reconciling deployment'' (reconcileDeployment k proxy (crd @ svc)))
     (and_then (step ''reconciling service'' (reconcileService k proxy))
     (and_then (step ''reconciling HTTPRoute'' (reconcileHTTPRoute k proxy))
       (step ''updating status'' (updateStatus k proxy crd svc (detectPrefixConflicts crd svc))))))))"

text \<open>\<^verbatim>\<open>MCPProxyReconciler.Reconcile\<close>: an error, or the time until the next run, zero for none.\<close>

definition ReconcileProxy :: "'w kube \<Rightarrow> NamespacedName \<Rightarrow> 'w \<Rightarrow> (goerr + int) \<times> 'w" where
  "ReconcileProxy k req w =
     (case k_GetProxy k req w of
        (Inl (KNotFound s), w) \<Rightarrow> (Inr 0, w)
      | (Inl e, w) \<Rightarrow> (Inl (ErrWrap ''fetching MCPProxy'' (kerr e)), w)
      | (Inr proxy, w) \<Rightarrow>
     (case listUpstreams k proxy w of
        (Inl e, w) \<Rightarrow> (Inl (ErrWrap ''listing upstreams'' e), w)
      | (Inr crd, w) \<Rightarrow>
     (case listAnnotatedServices k proxy w of
        (Inl e, w) \<Rightarrow> (Inl (ErrWrap ''listing annotated services'' e), w)
      | (Inr svc, w) \<Rightarrow>
     (case GenerateConfig (k_marshal k) proxy (crd @ svc) of
        Inl e \<Rightarrow> (Inl (ErrWrap ''generating config'' e),
                  snd (setCondition k proxy ''Reconciled'' False ''ConfigGenFailed'' (err_text e) w))
      | Inr configData \<Rightarrow>
     (case applyProxy k proxy crd svc configData w of
        (Some e, w) \<Rightarrow> (Inl e, w)
      | (None, w) \<Rightarrow> (Inr periodicSyncInterval, w))))))"

section \<open>Requests a changed resource triggers\<close>

text \<open>Whether a proxy selects an upstream, as the three loops over the proxies decide it.\<close>

definition selectsUpstream :: "'w kube \<Rightarrow> MCPUpstream \<Rightarrow> MCPProxy \<Rightarrow> bool" where
  "selectsUpstream k up proxy =
     (case k_selector k (ps_UpstreamSelector (px_Spec proxy)) of
        Inl e \<Rightarrow> False
      | Inr selector \<Rightarrow> list_ex (\<lambda>ns. ns = up_ns up \<and> selector (om_Labels (mu_Meta up))) (upstreamNamespaces proxy))"

definition proxiesForUpstream :: "'w kube \<Rightarrow> MCPUpstream \<Rightarrow> 'w \<Rightarrow> NamespacedName list \<times> 'w" where
  "proxiesForUpstream k up w =
     (case k_ListProxies k w of
        (Inl e, w1) \<Rightarrow> ([], w1)
      | (Inr items, w1) \<Rightarrow> (map (metaKey \<circ> px_Meta) (filter (selectsUpstream k up) items), w1))"

fun annotatedProxies :: "'w kube \<Rightarrow> KService \<Rightarrow> MCPProxy list \<Rightarrow> 'w \<Rightarrow> NamespacedName list \<times> 'w" where
  "annotatedProxies k svc [] w = ([], w)"
| "annotatedProxies k svc (proxy # proxies) w =
     (if \<not> discoveryEnabled proxy then annotatedProxies k svc proxies w
      else (case serviceDiscoveryNamespaces k proxy w of
              (Inl e, w1) \<Rightarrow> annotatedProxies k svc proxies w1
            | (Inr namespaces, w1) \<Rightarrow>
                (let (reqs, w2) = annotatedProxies k svc proxies w1 in
                 (if om_Namespace (sv_Meta svc) \<in> set namespaces \<and> serviceMatchesProxy svc proxy
                  then metaKey (px_Meta proxy) # reqs else reqs, w2))))"

definition proxiesForAnnotatedService :: "'w kube \<Rightarrow> KService \<Rightarrow> 'w \<Rightarrow> NamespacedName list \<times> 'w" where
  "proxiesForAnnotatedService k svc w =
     (case k_ListProxies k w of
        (Inl e, w1) \<Rightarrow> ([], w1)
      | (Inr items, w1) \<Rightarrow> annotatedProxies k svc items w1)"

text \<open>The map function of the service watch.\<close>

definition mapServiceToProxy :: "'w kube \<Rightarrow> KService \<Rightarrow> 'w \<Rightarrow> NamespacedName list \<times> 'w" where
  "mapServiceToProxy k svc w =
     (if annotation (sv_Meta svc) ''mcp-auto.ai/enabled'' \<noteq> ''true'' then ([], w) else proxiesForAnnotatedService k svc w)"

section \<open>The upstream resource\<close>

definition findAssignedProxy :: "'w kube \<Rightarrow> MCPUpstream \<Rightarrow> 'w \<Rightarrow> (goerr + string) \<times> 'w" where
  "findAssignedProxy k up w =
     (case k_ListProxies k w of
        (Inl e, w1) \<Rightarrow> (Inl (ErrWrap ''listing MCPProxy resources'' (kerr e)), w1)
      | (Inr items, w1) \<Rightarrow>
          (case find (selectsUpstream k up) items of
             None \<Rightarrow> (Inr [], w1)
           | Some proxy \<Rightarrow> (Inr (px_ns proxy @ ''/'' @ px_name proxy), w1)))"

definition ReconcileUpstream :: "'w kube \<Rightarrow> NamespacedName \<Rightarrow> 'w \<Rightarrow> (goerr + int) \<times> 'w" where
  "ReconcileUpstream k req w =
     (case k_GetUpstream k req w of
        (Inl (KNotFound s), w) \<Rightarrow> (Inr 0, w)
      | (Inl e, w) \<Rightarrow> (Inl (ErrWrap ''fetching MCPUpstream'' (kerr e)), w)
      | (Inr up, w) \<Rightarrow>
     (case findAssignedProxy k up w of
        (Inl e, w) \<Rightarrow> (Inl (ErrWrap ''finding assigned proxy'' e), w)
      | (Inr assigned, w) \<Rightarrow>
          (let msg = ''upstream assigned to proxy '' @ go_quote assigned;
               st = mu_Status up;
               current = k_findCondition k (ut_Conditions st) ''Reconciled''
           in if ut_AssignedProxy st = assigned \<and>
                 (case current of None \<Rightarrow> False | Some c \<Rightarrow> co_Status c = ''True'' \<and> co_Message c = msg)
              then (Inr periodicSyncInterval, w)
              else (case k_UpdateUpstreamStatus k
                      (up\<lparr>mu_Status := st\<lparr>ut_AssignedProxy := assigned,
                         ut_Conditions := k_setCondition k
                           \<lparr>co_Type = ''Reconciled'', co_Status = ''True'', co_Reason = ''Reconciled'', co_Message = msg,
                            co_ObservedGeneration = om_Generation (mu_Meta up)\<rparr> (ut_Conditions st)\<rparr>\<rparr>) w of
                      (Some e, w) \<Rightarrow> (Inl (ErrWrap ''updating MCPUpstream status'' (kerr e)), w)
                    | (None, w) \<Rightarrow> (Inr periodicSyncInterval, w)))))"

end
