(* ===== verification/OperatorLaws.thy ===== *)
theory OperatorLaws
  imports Operator
begin

text \<open>
  What the operator guarantees: every admitted upstream can be configured, the specification and
  overlay files that the generated configuration names are the ones mounted into the pod and
  hold the text of their sources, prefix conflicts are reported exactly, and a changed upstream
  wakes exactly the proxies that list it. One documented kind of upstream is never admitted.
\<close>

section \<open>Admission and generation\<close>

lemma validateMCPUpstream_None:
  "validateMCPUpstream up = None \<longleftrightarrow>
     (us_ServiceRef (mu_Spec up) \<noteq> None) \<noteq> (us_BaseURL (mu_Spec up) \<noteq> []) \<and>
     (let oa = us_OpenAPI (mu_Spec up) in
      (uo_ConfigMapRef oa \<noteq> None \<and> uo_URL oa = [] \<and> uo_AutoDiscover oa = None) \<or>
      (uo_ConfigMapRef oa = None \<and> uo_URL oa \<noteq> [] \<and> uo_AutoDiscover oa = None) \<or>
      (uo_ConfigMapRef oa = None \<and> uo_URL oa = [] \<and> uo_AutoDiscover oa \<noteq> None))"
  by (auto simp: validateMCPUpstream_def Let_def)

lemma admitted_upstream_generates:
  assumes "validateMCPUpstream up = None" "us_Type (mu_Spec up) = ''command'' \<Longrightarrow> us_Commands (mu_Spec up) \<noteq> []"
  shows "\<exists>uc. buildUpstreamConfig up = Inr uc"
  using assms unfolding validateMCPUpstream_None
  by (cases "us_ServiceRef (mu_Spec up)"; cases "uo_AutoDiscover (us_OpenAPI (mu_Spec up))")
     (auto simp: buildUpstreamConfig_def buildCommandUpstreamConfig_def buildHTTPUpstreamConfig_def
        upstreamBaseURL_def openapiSource_def Let_def)

lemma generated_name: "buildUpstreamConfig up = Inr uc \<Longrightarrow> gu_Name uc = up_ns up @ ''-'' @ up_name up"
  by (auto simp: buildUpstreamConfig_def buildCommandUpstreamConfig_def buildHTTPUpstreamConfig_def Let_def
      split: sum.splits if_splits)

lemma generated_names:
  "list_all2 (\<lambda>up uc. (case buildUpstreamConfig up of Inl e \<Rightarrow> Inl (f up e) | Inr uc \<Rightarrow> Inr uc) = Inr uc) ups ucs \<Longrightarrow>
     map gu_Name ucs = map (\<lambda>up. up_ns up @ ''-'' @ up_name up) ups"
  by (induction rule: list_all2_induct) (auto simp: generated_name split: sum.splits)

lemma annotatedOpenAPI_one_source:
  "annotatedOpenAPI m = Inr oa \<Longrightarrow>
      (uo_ConfigMapRef oa \<noteq> None \<and> uo_URL oa = [] \<and> uo_AutoDiscover oa = None) \<or>
      (uo_ConfigMapRef oa = None \<and> uo_URL oa \<noteq> [] \<and> uo_AutoDiscover oa = None) \<or>
      (uo_ConfigMapRef oa = None \<and> uo_URL oa = [] \<and> uo_AutoDiscover oa \<noteq> None)"
  by (auto simp: annotatedOpenAPI_def zeroOpenAPISpec_def Let_def split: if_splits sum.splits)

lemma service_upstream_admitted:
  assumes "serviceToMCPUpstream svc = Inr up"
  shows "validateMCPUpstream up = None \<and> us_Type (mu_Spec up) \<noteq> ''command''"
proof -
  from assms obtain oa where "annotatedOpenAPI (sv_Meta svc) = Inr oa" "us_OpenAPI (mu_Spec up) = oa"
    "us_ServiceRef (mu_Spec up) = None" "us_BaseURL (mu_Spec up) \<noteq> []" "us_Type (mu_Spec up) = []"
    by (auto simp: serviceToMCPUpstream_def zeroUpstreamSpec_def Let_def split: if_splits sum.splits)
  with annotatedOpenAPI_one_source show ?thesis unfolding validateMCPUpstream_None by (auto simp: Let_def)
qed


text \<open>An upstream of type \<^verbatim>\<open>command\<close> as the resource's documentation asks for it, with commands
  and without a base URL, service reference or specification, is refused by the webhook, although
  the generator would configure it.\<close>

theorem command_upstreams_not_admitted:
  assumes "us_Type (mu_Spec up) = ''command''" "us_Commands (mu_Spec up) \<noteq> []"
    and "us_ServiceRef (mu_Spec up) = None" "us_BaseURL (mu_Spec up) = []"
  shows "validateMCPUpstream up \<noteq> None \<and>
    (\<exists>uc. buildUpstreamConfig up = Inr uc \<and> gu_Type uc = ''command'' \<and> length (gu_Commands uc) = length (us_Commands (mu_Spec up)))"
  using assms by (simp add: validateMCPUpstream_def buildUpstreamConfig_def buildCommandUpstreamConfig_def Let_def)

text \<open>Two upstreams of different namespaces can get the same name in the configuration.\<close>

lemma config_names_collide:
  "up_ns u @ ''-'' @ up_name u = up_ns v @ ''-'' @ up_name v"
  if "up_ns u = ''team''" "up_name u = ''a-api''" "up_ns v = ''team-a''" "up_name v = ''api''"
  using that by simp

section \<open>Prefix conflicts\<close>

definition prefixes :: "MCPUpstream list \<Rightarrow> string list" where
  "prefixes ups = filter (\<lambda>p. p \<noteq> []) (map (us_ToolPrefix \<circ> mu_Spec) ups)"

lemma record_prefixes:
  assumes "fold (recordPrefix source) ups (seen, cs) = (seen', cs')"
  shows "fst ` set seen' = fst ` set seen \<union> set (prefixes ups) \<and>
    length cs' + card (fst ` set seen') = length cs + card (fst ` set seen) + length (prefixes ups)"
  using assms
proof (induction ups arbitrary: seen cs)
  case (Cons up ups)
  let ?p = "us_ToolPrefix (mu_Spec up)"
  show ?case
  proof (cases "?p = [] \<or> ?p \<in> fst ` set seen")
    case True
    obtain cs1 where r: "recordPrefix source up (seen, cs) = (seen, cs1)"
      and l: "length cs1 = length cs + (if ?p = [] then 0 else 1)"
    proof (cases "?p = []")
      case False
      with True obtain x where "map_of seen ?p = Some x" by (metis not_Some_eq map_of_eq_None_iff)
      with False show thesis
        by (intro that [of "snd (recordPrefix source up (seen, cs))"]) (simp_all add: recordPrefix_def Let_def split: prod.split)
    qed (simp add: recordPrefix_def that)
    from Cons.prems r have "fold (recordPrefix source) ups (seen, cs1) = (seen', cs')" by simp
    from Cons.IH [OF this] l True show ?thesis by (auto simp: prefixes_def)
  next
    case False
    then have "map_of seen ?p = None" by (simp add: map_of_eq_None_iff)
    with False obtain x where r: "recordPrefix source up (seen, cs) = (AList.update ?p x seen, cs)"
      by (auto simp: recordPrefix_def Let_def)
    from Cons.prems r have "fold (recordPrefix source) ups (AList.update ?p x seen, cs) = (seen', cs')" by simp
    from Cons.IH [OF this] False show ?thesis by (auto simp: prefixes_def dom_update)
  qed
qed (simp add: prefixes_def)

text \<open>The number of reported conflicts is the number of upstreams, from resources and services
  together, whose non-empty tool prefix an earlier upstream already has; so a conflict is
  reported exactly when two upstreams share one.\<close>

theorem prefix_conflicts_exact:
  "length (detectPrefixConflicts crd svc) + card (set (prefixes (crd @ svc))) = length (prefixes (crd @ svc)) \<and>
   (detectPrefixConflicts crd svc = [] \<longleftrightarrow> distinct (prefixes (crd @ svc)))"
proof -
  obtain s1 c1 where 1: "fold (recordPrefix ''crd'') crd ([], []) = (s1, c1)" by fastforce
  obtain s2 c2 where 2: "fold (recordPrefix ''service'') svc (s1, c1) = (s2, c2)" by fastforce
  have d: "detectPrefixConflicts crd svc = c2" by (simp add: detectPrefixConflicts_def 1 2)
  have p: "prefixes (crd @ svc) = prefixes crd @ prefixes svc" by (simp add: prefixes_def)
  from record_prefixes [OF 1] have a: "fst ` set s1 = set (prefixes crd)"
    "length c1 + card (set (prefixes crd)) = length (prefixes crd)" by auto
  have b: "fst ` set s2 = set (prefixes (crd @ svc))" using record_prefixes [OF 2] a(1) by (simp add: p)
  have "length c2 + card (fst ` set s2) = length c1 + card (fst ` set s1) + length (prefixes svc)"
    using record_prefixes [OF 2] by blast
  with a(2) have n: "length c2 + card (set (prefixes (crd @ svc))) = length (prefixes (crd @ svc))"
    unfolding a(1) b p length_append by linarith
  then have "c2 = [] \<longleftrightarrow> card (set (prefixes (crd @ svc))) = length (prefixes (crd @ svc))" by auto
  with n d show ?thesis by (metis card_distinct distinct_card)
qed

section \<open>The API server\<close>

text \<open>
  What the API server promises while nobody else writes: \<^term>\<open>view w\<close> are the stored objects. A read
  returns the stored object or says that there is none, a successful write stores the object under
  its key, and nothing else changes; every call may also fail without effect.
\<close>

definition stores :: "('o \<Rightarrow> NamespacedName) \<Rightarrow> ('w \<Rightarrow> NamespacedName \<rightharpoonup> 'o) \<Rightarrow> ('o, 'w) resource \<Rightarrow> bool" where
  "stores key view R \<longleftrightarrow>
     (\<forall>x w. case r_Get R x w of
        (Inr obj, w') \<Rightarrow> view w x = Some obj \<and> key obj = x \<and> view w' = view w
      | (Inl (KNotFound s), w') \<Rightarrow> view w x = None \<and> view w' = view w
      | (Inl e, w') \<Rightarrow> view w' = view w) \<and>
     (\<forall>obj w. case r_Create R obj w of
        (None, w') \<Rightarrow> view w' = (view w)(key obj \<mapsto> obj)
      | (Some e, w') \<Rightarrow> view w' = view w) \<and>
     (\<forall>obj w. case r_Update R obj w of
        (None, w') \<Rightarrow> view w' = (view w)(key obj \<mapsto> obj)
      | (Some e, w') \<Rightarrow> view w' = view w)"

lemma stores_Get: "stores key view R \<Longrightarrow> r_Get R x w = (Inr obj, w') \<Longrightarrow> view w x = Some obj \<and> key obj = x \<and> view w' = view w"
  unfolding stores_def by (metis (mono_tags, lifting) case_prod_conv sum.simps(6))

lemma stores_absent: "stores key view R \<Longrightarrow> r_Get R x w = (Inl (KNotFound s), w') \<Longrightarrow> view w x = None \<and> view w' = view w"
  unfolding stores_def by (metis (mono_tags, lifting) case_prod_conv sum.simps(5) kube_error.simps(10))

lemma stores_Create: "stores key view R \<Longrightarrow> r_Create R obj w = (None, w') \<Longrightarrow> view w' = (view w)(key obj \<mapsto> obj)"
  unfolding stores_def by (metis (mono_tags, lifting) case_prod_conv option.simps(4))

lemma stores_Update: "stores key view R \<Longrightarrow> r_Update R obj w = (None, w') \<Longrightarrow> view w' = (view w)(key obj \<mapsto> obj)"
  unfolding stores_def by (metis (mono_tags, lifting) case_prod_conv option.simps(4))

lemma wrapped_None: "wrapped what r = (None, w) \<longleftrightarrow> r = (None, w)"
  by (auto simp: wrapped_def split: prod.splits option.splits)

text \<open>A successful reconcile step leaves the desired object, and changes no other.\<close>

lemma reconcileObject_stores:
  assumes st: "stores key view R" and r: "reconcileObject R what x desired unchanged change w = (None, w')"
    and k: "\<And>obj. desired = Inr obj \<Longrightarrow> key obj = x" "\<And>obj. key (change obj) = key obj"
  obtains obj where "view w' = (view w)(x \<mapsto> obj)"
    and "view w x = None \<Longrightarrow> desired = Inr obj"
    and "\<And>old. view w x = Some old \<Longrightarrow> obj = (if unchanged old then old else change old)"
proof (cases "r_Get R x w")
  case (Pair res w1)
  show thesis
  proof (cases res)
    case (Inl e)
    with r Pair obtain s obj where e: "e = KNotFound s" and d: "desired = Inr obj" "r_Create R obj w1 = (None, w')"
      by (cases e) (auto simp: reconcileObject_def wrapped_None split: sum.splits)
    from stores_absent [OF st] Pair Inl e have v: "view w x = None" "view w1 = view w" by auto
    from stores_Create [OF st d(2)] k(1) d(1) v show thesis by (intro that [of obj]) auto
  next
    case (Inr old)
    from stores_Get [OF st] Pair Inr have v: "view w x = Some old" "key old = x" "view w1 = view w" by auto
    show thesis
    proof (cases "unchanged old")
      case True
      with r Pair Inr v show thesis by (intro that [of old]) (auto simp: reconcileObject_def fun_upd_idem)
    next
      case False
      with r Pair Inr have "r_Update R (change old) w1 = (None, w')" by (simp add: reconcileObject_def wrapped_None)
      from stores_Update [OF st this] v k(2) False show thesis by (intro that [of "change old"]) auto
    qed
  qed
qed

section \<open>The files of the pod\<close>

text \<open>The text a mounted ConfigMap has for a file, and the text a reference points to.\<close>

definition file_text :: "(NamespacedName \<rightharpoonup> ConfigMap) \<Rightarrow> NamespacedName \<Rightarrow> string \<Rightarrow> string" where
  "file_text cms x f = (case cms x of None \<Rightarrow> [] | Some cm \<Rightarrow> data_at (cm_Data cm) f)"

definition source_text :: "(NamespacedName \<rightharpoonup> ConfigMap) \<Rightarrow> MCPUpstream \<Rightarrow> ConfigMapKeyRef \<Rightarrow> string option" where
  "source_text cms up ref =
     (case cms (up_ns up, ck_Name ref) of None \<Rightarrow> None
      | Some cm \<Rightarrow> (case cm_Data cm of None \<Rightarrow> None | Some m \<Rightarrow> map_of m (ck_Key ref)))"

abbreviation specRef :: "MCPUpstream \<Rightarrow> ConfigMapKeyRef option" where
  "specRef up \<equiv> uo_ConfigMapRef (us_OpenAPI (mu_Spec up))"

abbreviation dest :: "MCPProxy \<Rightarrow> string \<Rightarrow> NamespacedName" where
  "dest proxy ending \<equiv> (px_ns proxy, px_name proxy @ ending)"

abbreviation cm_key :: "ConfigMap \<Rightarrow> NamespacedName" where
  "cm_key cm \<equiv> metaKey (cm_Meta cm)"

lemma data_at_update:
  "data_at (Some (AList.update key value m)) x = (if x = key then value else data_at (Some m) x)"
  by (simp add: data_at_def update_conv)

lemma upsertConfigMap_effect:
  assumes "stores cm_key view (k_ConfigMaps k)" "upsertConfigMap k proxy name key value w = (None, w')"
  shows "(\<exists>cm. view w' = (view w)((px_ns proxy, name) \<mapsto> cm)) \<and>
    file_text (view w') (px_ns proxy, name) x =
      (if x = key then value else file_text (view w) (px_ns proxy, name) x)"
proof -
  let ?at = "(px_ns proxy, name)"
  from assms(2) show ?thesis unfolding upsertConfigMap_def
  proof (rule reconcileObject_stores [OF assms(1)])
    show "metaKey (cm_Meta obj) = ?at"
      if "newConfigMap k proxy (''setting owner reference on configmap '' @ name) name [(key, value)] = Inr obj" for obj
      using that by (auto simp: newConfigMap_def objectMeta_def metaKey_def split: sum.splits)
  next
    fix cm
    assume v: "view w' = (view w)(?at \<mapsto> cm)"
      and n: "view w ?at = None \<Longrightarrow>
        newConfigMap k proxy (''setting owner reference on configmap '' @ name) name [(key, value)] = Inr cm"
      and o: "\<And>old. view w ?at = Some old \<Longrightarrow> cm =
        (if cm_Data old \<noteq> None \<and> data_at (cm_Data old) key = value then old
         else old\<lparr>cm_Data := Some (AList.update key value (case cm_Data old of None \<Rightarrow> [] | Some m \<Rightarrow> m))\<rparr>)"
    have "data_at (cm_Data cm) x = (if x = key then value else file_text (view w) ?at x)"
    proof (cases "view w ?at")
      case None
      with n show ?thesis by (auto simp: newConfigMap_def file_text_def data_at_def split: sum.splits)
    next
      case (Some old)
      with o [OF Some] show ?thesis
        by (cases "cm_Data old") (auto simp: file_text_def data_at_update, auto simp: data_at_def)
    qed
    with v show ?thesis by (auto simp: file_text_def)
  qed simp
qed

text \<open>The effect of one copy step, for the specification as for the overlay.\<close>

definition copied ::
    "MCPProxy \<Rightarrow> MCPUpstream \<Rightarrow> string \<Rightarrow> ConfigMapKeyRef option \<Rightarrow> (NamespacedName \<rightharpoonup> ConfigMap) \<Rightarrow>
     (NamespacedName \<rightharpoonup> ConfigMap) \<Rightarrow> bool" where
  "copied proxy up ending ref cms cms' \<longleftrightarrow>
     (\<forall>x. x \<noteq> dest proxy ending \<longrightarrow> cms' x = cms x) \<and>
     (\<forall>f. file_text cms' (dest proxy ending) f =
        (case ref of None \<Rightarrow> file_text cms (dest proxy ending) f
         | Some r \<Rightarrow> if f = fileKey up then the (source_text cms up r) else file_text cms (dest proxy ending) f)) \<and>
     (\<forall>r. ref = Some r \<longrightarrow> source_text cms up r \<noteq> None \<and> cms' (dest proxy ending) \<noteq> None) \<and>
     (cms (dest proxy ending) \<noteq> None \<longrightarrow> cms' (dest proxy ending) \<noteq> None)"

lemma copy_effect:
  assumes st: "stores cm_key view (k_ConfigMaps k)"
    and r: "copyConfigMapKey k proxy up what ending ref w = (None, w')"
  shows "copied proxy up ending (Some ref) (view w) (view w')"
proof -
  from r obtain src w1 m v where g: "r_Get (k_ConfigMaps k) (up_ns up, ck_Name ref) w = (Inr src, w1)"
    "cm_Data src = Some m" "map_of m (ck_Key ref) = Some v"
    "upsertConfigMap k proxy (px_name proxy @ ending) (fileKey up) v w1 = (None, w')"
    by (auto simp: copyConfigMapKey_def split: prod.splits sum.splits option.splits)
  from stores_Get [OF st g(1)] g(2,3) have s: "source_text (view w) up ref = Some v" "view w1 = view w"
    by (auto simp: source_text_def)
  from upsertConfigMap_effect [OF st g(4)] s obtain cm where "view w' = (view w)(dest proxy ending \<mapsto> cm)" by metis
  with upsertConfigMap_effect [OF st g(4)] s show ?thesis by (simp add: copied_def)
qed

lemma copied_none: "copied proxy up ending None cms cms"
  by (simp add: copied_def)

lemma and_then_None: "and_then f g w = (None, w') \<longleftrightarrow> (\<exists>w1. f w = (None, w1) \<and> g w1 = (None, w'))"
  by (auto simp: and_then_def split: prod.splits option.splits)

lemma specCM_effect:
  "stores cm_key view (k_ConfigMaps k) \<Longrightarrow> reconcileUpstreamSpecCM k proxy up w = (None, w') \<Longrightarrow>
     copied proxy up ''-specs'' (specRef up) (view w) (view w')"
  by (auto simp: reconcileUpstreamSpecCM_def copied_none copy_effect split: option.splits)

lemma overlayCM_effect:
  "stores cm_key view (k_ConfigMaps k) \<Longrightarrow> reconcileUpstreamOverlayCM k proxy up w = (None, w') \<Longrightarrow>
     copied proxy up ''-overlays'' (overlayRef up) (view w) (view w')"
  by (auto simp: reconcileUpstreamOverlayCM_def copied_none copy_effect split: option.splits)

text \<open>What a step leaves alone: every ConfigMap but the two of the proxy, and there every other file.\<close>

definition untouched ::
    "MCPProxy \<Rightarrow> string set \<Rightarrow> (NamespacedName \<rightharpoonup> ConfigMap) \<Rightarrow> (NamespacedName \<rightharpoonup> ConfigMap) \<Rightarrow> bool" where
  "untouched proxy F cms cms' \<longleftrightarrow>
     (\<forall>x. x \<noteq> dest proxy ''-specs'' \<and> x \<noteq> dest proxy ''-overlays'' \<longrightarrow> cms' x = cms x) \<and>
     (\<forall>e f. e \<in> {''-specs'', ''-overlays''} \<and> f \<notin> F \<longrightarrow> file_text cms' (dest proxy e) f = file_text cms (dest proxy e) f) \<and>
     (\<forall>e. e \<in> {''-specs'', ''-overlays''} \<and> cms (dest proxy e) \<noteq> None \<longrightarrow> cms' (dest proxy e) \<noteq> None)"

text \<open>The file of an upstream holds the text the reference points to.\<close>

definition published ::
    "MCPProxy \<Rightarrow> MCPUpstream \<Rightarrow> string \<Rightarrow> ConfigMapKeyRef option \<Rightarrow> (NamespacedName \<rightharpoonup> ConfigMap) \<Rightarrow>
     (NamespacedName \<rightharpoonup> ConfigMap) \<Rightarrow> bool" where
  "published proxy up ending ref cms cms' \<longleftrightarrow>
     (\<forall>r. ref = Some r \<longrightarrow> (\<exists>v. source_text cms up r = Some v \<and> cms' (dest proxy ending) \<noteq> None \<and>
        file_text cms' (dest proxy ending) (fileKey up) = v))"

text \<open>No reference of the upstream points to a ConfigMap the operator itself writes.\<close>

definition sources_apart :: "MCPProxy \<Rightarrow> MCPUpstream \<Rightarrow> bool" where
  "sources_apart proxy up \<longleftrightarrow>
     (\<forall>r. specRef up = Some r \<or> overlayRef up = Some r \<longrightarrow>
        (up_ns up, ck_Name r) \<noteq> dest proxy ''-specs'' \<and> (up_ns up, ck_Name r) \<noteq> dest proxy ''-overlays'')"

lemma untouched_trans: "untouched proxy F a b \<Longrightarrow> untouched proxy G b c \<Longrightarrow> untouched proxy (F \<union> G) a c"
  unfolding untouched_def by auto

lemma copied_untouched:
  "ending \<in> {''-specs'', ''-overlays''} \<Longrightarrow> copied proxy up ending ref a b \<Longrightarrow> untouched proxy {fileKey up} a b"
  by (cases ref) (auto simp: copied_def untouched_def file_text_def)

lemma copied_published: "copied proxy up ending ref a b \<Longrightarrow> published proxy up ending ref a b"
  by (auto simp: copied_def published_def)

lemma untouched_source:
  assumes "untouched proxy F a b" "sources_apart proxy up" "specRef up = Some r \<or> overlayRef up = Some r"
  shows "source_text b up r = source_text a up r"
proof -
  from assms have "b (up_ns up, ck_Name r) = a (up_ns up, ck_Name r)" unfolding untouched_def sources_apart_def by blast
  then show ?thesis by (simp add: source_text_def)
qed

lemma published_later:
  "published proxy up ending ref a b \<Longrightarrow> untouched proxy F b c \<Longrightarrow> fileKey up \<notin> F \<Longrightarrow>
     ending \<in> {''-specs'', ''-overlays''} \<Longrightarrow> published proxy up ending ref a c"
  unfolding published_def untouched_def by metis

lemma published_from:
  "published proxy up ending ref b c \<Longrightarrow> untouched proxy F a b \<Longrightarrow> sources_apart proxy up \<Longrightarrow>
     ref = specRef up \<or> ref = overlayRef up \<Longrightarrow> published proxy up ending ref a c"
  unfolding published_def using untouched_source by metis

abbreviation http_upstreams :: "MCPUpstream list \<Rightarrow> MCPUpstream list" where
  "http_upstreams \<equiv> filter (\<lambda>up. us_Type (mu_Spec up) \<noteq> ''command'')"

lemma reconcileUpstreamConfigMaps_effect:
  assumes st: "stores cm_key view (k_ConfigMaps k)"
  shows "reconcileUpstreamConfigMaps k proxy ups w = (None, w') \<Longrightarrow> distinct (map fileKey (http_upstreams ups)) \<Longrightarrow>
    \<forall>up \<in> set ups. sources_apart proxy up \<Longrightarrow>
    untouched proxy (fileKey ` set (http_upstreams ups)) (view w) (view w') \<and>
    (\<forall>up \<in> set (http_upstreams ups). published proxy up ''-specs'' (specRef up) (view w) (view w') \<and>
       published proxy up ''-overlays'' (overlayRef up) (view w) (view w'))"
proof (induction ups arbitrary: w)
  case Nil
  then show ?case by (simp add: untouched_def)
next
  case (Cons up ups)
  show ?case
  proof (cases "us_Type (mu_Spec up) = ''command''")
    case True
    with Cons show ?thesis by simp
  next
    case False
    with Cons.prems(1) obtain w1 w2 where s: "reconcileUpstreamSpecCM k proxy up w = (None, w1)"
      "reconcileUpstreamOverlayCM k proxy up w1 = (None, w2)"
      "reconcileUpstreamConfigMaps k proxy ups w2 = (None, w')" by (auto simp: and_then_None)
    note c1 = specCM_effect [OF st s(1)] and c2 = overlayCM_effect [OF st s(2)]
    let ?F = "fileKey ` set (http_upstreams ups)"
    from Cons.IH [OF s(3)] Cons.prems(2,3) False have rest: "untouched proxy ?F (view w2) (view w')"
      "\<And>u. u \<in> set (http_upstreams ups) \<Longrightarrow> published proxy u ''-specs'' (specRef u) (view w2) (view w') \<and>
         published proxy u ''-overlays'' (overlayRef u) (view w2) (view w')" by auto
    have u1: "untouched proxy {fileKey up} (view w) (view w1)" and u2: "untouched proxy {fileKey up} (view w1) (view w2)"
      using copied_untouched [OF _ c1] copied_untouched [OF _ c2] by auto
    from untouched_trans [OF u1 u2] have u: "untouched proxy {fileKey up} (view w) (view w2)" by simp
    have new: "fileKey up \<notin> ?F" using Cons.prems(2) False by simp
    have "view w2 (dest proxy ''-specs'') = view w1 (dest proxy ''-specs'')" using c2 by (simp add: copied_def)
    with copied_published [OF c1] have "published proxy up ''-specs'' (specRef up) (view w) (view w2)"
      by (simp add: published_def file_text_def)
    from published_later [OF this rest(1) new] have p1: "published proxy up ''-specs'' (specRef up) (view w) (view w')" by simp
    from published_from [OF copied_published [OF c2] u1] Cons.prems(3)
    have "published proxy up ''-overlays'' (overlayRef up) (view w) (view w2)" by simp
    from published_later [OF this rest(1) new] have p2: "published proxy up ''-overlays'' (overlayRef up) (view w) (view w')" by simp
    have "published proxy v ''-specs'' (specRef v) (view w) (view w') \<and> published proxy v ''-overlays'' (overlayRef v) (view w) (view w')"
      if v: "v \<in> set (http_upstreams ups)" for v
      using rest(2) [OF v] published_from [OF _ u] Cons.prems(3) v by auto
    with p1 p2 untouched_trans [OF u rest(1)] False show ?thesis by simp
  qed
qed

text \<open>Namespaces have no underscore, so the key of a file determines its upstream.\<close>

lemma fileKey_inj:
  assumes "CHR ''_'' \<notin> set (up_ns u)" "CHR ''_'' \<notin> set (up_ns v)" "fileKey u = fileKey v"
  shows "metaKey (mu_Meta u) = metaKey (mu_Meta v)"
proof -
  have t: "takeWhile (\<lambda>c. c \<noteq> CHR ''_'') (xs @ CHR ''_'' # ys) = xs" if "CHR ''_'' \<notin> set xs" for xs ys :: string
    using that by (induction xs) auto
  from assms(3) have e: "up_ns u @ CHR ''_'' # up_name u @ ''.yaml'' = up_ns v @ CHR ''_'' # up_name v @ ''.yaml''"
    by (simp add: fileKey_def)
  from arg_cong [OF e, of "takeWhile (\<lambda>c. c \<noteq> CHR ''_'')"] t assms(1,2) have "up_ns u = up_ns v" by metis
  with e show ?thesis by (simp add: metaKey_def)
qed

lemma fileKeys_distinct:
  assumes "distinct (map (metaKey \<circ> mu_Meta) ups)" "\<forall>up \<in> set ups. CHR ''_'' \<notin> set (up_ns up)"
  shows "distinct (map fileKey ups)"
  using assms by (induction ups) (auto simp: image_iff dest: fileKey_inj)

text \<open>A deployment whose container sees a ConfigMap under a path.\<close>

definition mounts :: "Deployment \<Rightarrow> string \<Rightarrow> string \<Rightarrow> bool" where
  "mounts d path name \<longleftrightarrow>
     list_ex (\<lambda>c. list_ex (\<lambda>m. vm_MountPath m = path \<and>
       list_ex (\<lambda>v. vo_Name v = vm_Name m \<and> vo_ConfigMap v = name) (ds_Volumes (dp_Spec d))) (cn_VolumeMounts c))
       (ds_Containers (dp_Spec d))"

lemma buildDeployment_mounts:
  assumes "up \<in> set ups" "us_Type (mu_Spec up) \<noteq> ''command''"
  shows "specRef up \<noteq> None \<Longrightarrow> mounts (buildDeployment k proxy ups) specsMountPath (px_name proxy @ ''-specs'')"
    and "overlayRef up \<noteq> None \<Longrightarrow> mounts (buildDeployment k proxy ups) overlaysMountPath (px_name proxy @ ''-overlays'')"
proof -
  assume "specRef up \<noteq> None"
  with assms have "list_ex (\<lambda>up. specRef up \<noteq> None) (http_upstreams ups)" by (auto simp: list_ex_iff)
  then show "mounts (buildDeployment k proxy ups) specsMountPath (px_name proxy @ ''-specs'')"
    by (simp add: mounts_def buildDeployment_def Let_def)
next
  assume "overlayRef up \<noteq> None"
  with assms have "list_ex (\<lambda>up. overlayRef up \<noteq> None) (http_upstreams ups)" by (auto simp: list_ex_iff)
  then show "mounts (buildDeployment k proxy ups) overlaysMountPath (px_name proxy @ ''-overlays'')"
    by (simp add: mounts_def buildDeployment_def Let_def)
qed

lemma generated_sources:
  assumes "buildUpstreamConfig up = Inr uc" "us_Type (mu_Spec up) \<noteq> ''command''"
  shows "specRef up \<noteq> None \<Longrightarrow> gu_OpenAPI uc = Some \<lparr>go_Source = specsMountPath @ ''/'' @ fileKey up\<rparr>"
    and "overlayRef up \<noteq> None \<Longrightarrow> gu_Overlay uc = Some \<lparr>gv_Source = overlaysMountPath @ ''/'' @ fileKey up\<rparr>"
  using assms by (auto simp: buildUpstreamConfig_def buildHTTPUpstreamConfig_def openapiSource_def overlayRef_def
      specsDir_def specsMountPath_def overlaysDir_def overlaysMountPath_def Let_def split: if_splits sum.splits option.splits)


section \<open>What a changed upstream wakes\<close>

text \<open>The list call with a namespace and a label selector, while it succeeds.\<close>

definition lists_upstreams :: "'w kube \<Rightarrow> ('w \<Rightarrow> MCPUpstream list) \<Rightarrow> bool" where
  "lists_upstreams k stored \<longleftrightarrow>
     (\<forall>ns sel w. case k_ListUpstreams k ns sel w of
        (res, w') \<Rightarrow> res = Inr (filter (\<lambda>up. up_ns up = ns \<and> sel (om_Labels (mu_Meta up))) (stored w)) \<and> stored w' = stored w)"

lemma list_each_filter:
  assumes "\<And>x w. \<exists>w'. f x w = (Inr (filter (P x) (stored w)), w') \<and> stored w' = stored w"
  shows "\<exists>w'. list_each f xs w = (Inr (concat (map (\<lambda>x. filter (P x) (stored w)) xs)), w') \<and> stored w' = stored w"
proof (induction xs arbitrary: w)
  case (Cons x xs)
  from assms [of x w] obtain w1 where 1: "f x w = (Inr (filter (P x) (stored w)), w1)" "stored w1 = stored w" by blast
  from Cons [of w1] 1 show ?case by auto
qed simp

text \<open>Selecting an upstream is collecting it in the next run.\<close>

lemma selects_iff_collected:
  assumes "lists_upstreams k stored" and "up \<in> set (stored w)"
  shows "selectsUpstream k up proxy \<longleftrightarrow> (\<exists>ups w'. listUpstreams k proxy w = (Inr ups, w') \<and> up \<in> set ups)"
proof (cases "k_selector k (ps_UpstreamSelector (px_Spec proxy))")
  case (Inr sel)
  let ?P = "\<lambda>ns up. up_ns up = ns \<and> sel (om_Labels (mu_Meta up))"
  let ?f = "\<lambda>ns w. case k_ListUpstreams k ns sel w of
            (Inl e, w1) \<Rightarrow> (Inl (ErrWrap (''listing upstreams in namespace '' @ ns) (kerr e)), w1)
          | (Inr items, w1) \<Rightarrow> (Inr items, w1)"
  have "\<exists>w'. ?f ns w = (Inr (filter (?P ns) (stored w)), w') \<and> stored w' = stored w" for ns w
    using assms(1) [unfolded lists_upstreams_def, rule_format, of ns sel w]
    by (cases "k_ListUpstreams k ns sel w") simp
  from list_each_filter [of ?f ?P stored "upstreamNamespaces proxy" w, OF this] Inr assms(2)
  show ?thesis by (auto simp: listUpstreams_def selectsUpstream_def list_ex_iff)
qed (simp add: listUpstreams_def selectsUpstream_def)

lemma requested_iff_selected:
  assumes "k_ListProxies k w = (Inr proxies, w1)" and "proxy \<in> set proxies" and "distinct (map (metaKey \<circ> px_Meta) proxies)"
  shows "metaKey (px_Meta proxy) \<in> set (fst (proxiesForUpstream k up w)) \<longleftrightarrow> selectsUpstream k up proxy"
  using assms by (auto simp: proxiesForUpstream_def distinct_map inj_on_def)

text \<open>C34: the map function of the upstream watch asks for a proxy exactly when the proxy's next run
  collects the upstream; which events reach it is up to the watch's predicate.\<close>

theorem upstream_change_wakes_its_proxies:
  assumes "lists_upstreams k stored" and "up \<in> set (stored w)"
    and "k_ListProxies k w = (Inr proxies, w1)" and "proxy \<in> set proxies" and "distinct (map (metaKey \<circ> px_Meta) proxies)"
  shows "metaKey (px_Meta proxy) \<in> set (fst (proxiesForUpstream k up w)) \<longleftrightarrow>
    (\<exists>ups w'. listUpstreams k proxy w = (Inr ups, w') \<and> up \<in> set ups)"
  using requested_iff_selected [OF assms(3-5)] selects_iff_collected [OF assms(1,2)] by blast

section \<open>Concrete instances\<close>

text \<open>A stored resource is a map from keys; the other resources fail.\<close>

definition map_resource :: "('o \<Rightarrow> NamespacedName) \<Rightarrow> ('o, NamespacedName \<rightharpoonup> 'o) resource" where
  "map_resource key =
    \<lparr>r_Get = (\<lambda>x w. (case w x of None \<Rightarrow> Inl (KNotFound ''not found'')
                     | Some obj \<Rightarrow> if key obj = x then Inr obj else Inl (KError ''corrupt''), w)),
     r_Create = (\<lambda>obj w. if w (key obj) = None then (None, w(key obj \<mapsto> obj)) else (Some (KError ''already exists''), w)),
     r_Update = (\<lambda>obj w. if w (key obj) = None then (Some (KNotFound ''not found''), w) else (None, w(key obj \<mapsto> obj))),
     r_Delete = (\<lambda>obj w. (None, w(key obj := None)))\<rparr>"

lemma map_resource_stores: "stores key (\<lambda>w. w) (map_resource key)"
  by (simp add: stores_def map_resource_def split: option.split)

definition no_resource :: "('o, 'w) resource" where
  "no_resource =
    \<lparr>r_Get = (\<lambda>x w. (Inl (KError ''down''), w)), r_Create = (\<lambda>obj w. (Some (KError ''down''), w)),
     r_Update = (\<lambda>obj w. (Some (KError ''down''), w)), r_Delete = (\<lambda>obj w. (Some (KError ''down''), w))\<rparr>"

definition sample_crd :: MCPUpstream where
  "sample_crd =
    \<lparr>mu_Meta = objectMeta ''team'' ''api'',
     mu_Spec = zeroUpstreamSpec\<lparr>us_BaseURL := ''http://a'', us_ToolPrefix := ''a'',
       us_OpenAPI := zeroOpenAPISpec\<lparr>uo_ConfigMapRef := Some \<lparr>ck_Name = ''src'', ck_Key = ''k''\<rparr>\<rparr>\<rparr>,
     mu_Status = \<lparr>ut_Conditions = [], ut_AssignedProxy = [], ut_ToolCount = 0\<rparr>\<rparr>"

definition sample_command :: MCPUpstream where
  "sample_command = sample_crd\<lparr>mu_Spec := zeroUpstreamSpec\<lparr>us_Type := ''command'', us_Commands :=
     [\<lparr>cs_ToolName = ''t'', cs_Description = [], cs_Command = ''date'',
       cs_InputSchema = \<lparr>ci_Type = [], ci_Properties = [], ci_Required = []\<rparr>, cs_Timeout = [], cs_Env = [],
       cs_WorkingDir = [], cs_Shell = False, cs_MaxOutput = 0\<rparr>]\<rparr>\<rparr>"

definition sample_service :: KService where
  "sample_service =
    \<lparr>sv_Meta = (objectMeta ''team'' ''svc'')\<lparr>om_Annotations :=
       [(''mcp-auto.ai/enabled'', ''true''), (''mcp-auto.ai/tool-prefix'', ''s''), (''mcp-auto.ai/openapi-path'', ''/spec'')]\<rparr>,
     sv_Selector = [], sv_Ports = [\<lparr>sp_Name = ''http'', sp_Port = 80, sp_TargetPort = ''http'', sp_Protocol = ''TCP''\<rparr>]\<rparr>"

definition sample_proxy :: MCPProxy where
  "sample_proxy =
    \<lparr>px_Meta = objectMeta ''team'' ''proxy'',
     px_Spec =
      \<lparr>ps_UpstreamSelector = [], ps_NamespaceSelector = \<lparr>ns_MatchNames = []\<rparr>, ps_ServiceDiscovery = None, ps_Replicas = None,
       ps_Image = [], ps_Resources = [], ps_Server = \<lparr>pv_Port = 0, pv_Transport = [], pv_TLS = None\<rparr>,
       ps_Naming = \<lparr>na_Separator = [], na_MaxLength = 0, na_ConflictResolution = [], na_DescriptionMaxLength = 0,
         na_DescriptionTruncationSuffix = [],
         na_DefaultSlugRules = \<lparr>sl_ReplaceSlashes = False, sl_ReplaceBraces = False, sl_ExpandCamelCase = False,
           sl_Lowercase = False, sl_CollapseSeparators = False\<rparr>\<rparr>,
       ps_InboundAuth = None, ps_Telemetry = None, ps_GatewayRef = None, ps_RateLimits = None\<rparr>,
     px_Status = \<lparr>st_Conditions = [], st_UpstreamCount = 0, st_AnnotatedServiceCount = 0, st_ToolCount = 0,
       st_ObservedGeneration = 0\<rparr>\<rparr>"

definition sample_kube :: "(NamespacedName \<rightharpoonup> ConfigMap) kube" where
  "sample_kube =
    \<lparr>k_ConfigMaps = map_resource cm_key, k_Deployments = no_resource, k_Services = no_resource, k_HTTPRoutes = no_resource,
     k_GetProxy = (\<lambda>x w. (Inr sample_proxy, w)), k_UpdateProxyStatus = (\<lambda>p w. (None, w)),
     k_GetUpstream = (\<lambda>x w. (Inr sample_crd, w)), k_UpdateUpstreamStatus = (\<lambda>u w. (None, w)),
     k_ListProxies = (\<lambda>w. (Inr [sample_proxy], w)),
     k_ListUpstreams = (\<lambda>ns sel w. (Inr (filter (\<lambda>up. up_ns up = ns \<and> sel (om_Labels (mu_Meta up))) [sample_crd]), w)),
     k_ListServices = (\<lambda>ns w. (Inr [], w)), k_ListNamespaces = (\<lambda>l w. (Inr [], w)),
     k_selector = (\<lambda>s. Inr (\<lambda>l. True)), k_owner = (\<lambda>p. Inr ''owner''),
     k_findCondition = (\<lambda>cs t. find (\<lambda>c. co_Type c = t) cs),
     k_setCondition = (\<lambda>c cs. filter (\<lambda>d. co_Type d \<noteq> co_Type c) cs @ [c]),
     k_marshal = (\<lambda>g. Inr []), k_sameDeployment = (=), k_sameRoute = (=)\<rparr>"


lemma command_upstreams_not_admitted_witness:
  "validateMCPUpstream sample_command \<noteq> None \<and> (\<exists>uc. buildUpstreamConfig sample_command = Inr uc \<and> gu_Type uc = ''command'')"
  using command_upstreams_not_admitted [of sample_command] by (auto simp: sample_command_def zeroUpstreamSpec_def)


lemma upstream_change_wakes_its_proxies_witness:
  "let w = (Map.empty :: NamespacedName \<rightharpoonup> ConfigMap) in
   (''team'', ''proxy'') \<in> set (fst (proxiesForUpstream sample_kube sample_crd w)) \<longleftrightarrow>
   (\<exists>ups w'. listUpstreams sample_kube sample_proxy w = (Inr ups, w') \<and> sample_crd \<in> set ups)"
proof -
  have "lists_upstreams sample_kube (\<lambda>w. [sample_crd])" by (simp add: lists_upstreams_def sample_kube_def)
  moreover have "k_ListProxies sample_kube w = (Inr [sample_proxy], w)" for w by (simp add: sample_kube_def)
  moreover have "metaKey (px_Meta sample_proxy) = (''team'', ''proxy'')" by code_simp
  ultimately show ?thesis
    using upstream_change_wakes_its_proxies [of sample_kube "\<lambda>w. [sample_crd]" sample_crd Map.empty "[sample_proxy]" Map.empty sample_proxy]
    by simp
qed

end
