(* ===== verification/Session.thy ===== *)
theory Session
  imports Executor
begin

text \<open>
  OAuth2 user sessions: the encrypted session stores (\<^verbatim>\<open>pkg/session\<close>), the authorization callback
  with its signed state (\<^verbatim>\<open>pkg/oauth/callbackmux\<close>) and the outbound strategy that stores and
  refreshes a token per user (\<^verbatim>\<open>pkg/auth/outbound/oauth2usersession\<close>). The ciphers, the MAC, the
  random source, JSON and the OAuth2 client are parameters; hexadecimal and base64 are defined.
\<close>

section \<open>Encodings\<close>

text \<open>\<^verbatim>\<open>hex.DecodeString\<close>.\<close>

fun hexDecode :: "string \<Rightarrow> string option" where
  "hexDecode [] = Some []"
| "hexDecode [a] = None"
| "hexDecode (a # b # s) =
     (case (hex_value a, hex_value b) of
        (Some x, Some y) \<Rightarrow> map_option (Cons (char_of (16 * x + y))) (hexDecode s)
      | _ \<Rightarrow> None)"

text \<open>\<^verbatim>\<open>base64.RawURLEncoding\<close>: no padding; the decoder skips line ends and ignores trailing bits.\<close>

definition b64_alphabet :: string where
  "b64_alphabet = ''ABCDEFGHIJKLMNOPQRSTUVWXYZabcdefghijklmnopqrstuvwxyz0123456789-_''"

definition b64_char :: "nat \<Rightarrow> char" where
  "b64_char n = b64_alphabet ! n"

definition b64_value :: "char \<Rightarrow> nat option" where
  "b64_value c = find (\<lambda>n. b64_char n = c) [0..<64]"

fun b64_bytes :: "nat list \<Rightarrow> string" where
  "b64_bytes [] = []"
| "b64_bytes [a] = [b64_char (a div 4), b64_char (a mod 4 * 16)]"
| "b64_bytes [a, b] = [b64_char (a div 4), b64_char (a mod 4 * 16 + b div 16), b64_char (b mod 16 * 4)]"
| "b64_bytes (a # b # c # s) =
     b64_char (a div 4) # b64_char (a mod 4 * 16 + b div 16) # b64_char (b mod 16 * 4 + c div 64) # b64_char (c mod 64) #
     b64_bytes s"

definition b64Encode :: "string \<Rightarrow> string" where
  "b64Encode s = b64_bytes (map of_char s)"

fun b64_groups :: "nat list \<Rightarrow> nat list option" where
  "b64_groups [] = Some []"
| "b64_groups [x] = None"
| "b64_groups [x, y] = Some [x * 4 + y div 16]"
| "b64_groups [x, y, z] = Some [x * 4 + y div 16, y mod 16 * 16 + z div 4]"
| "b64_groups (x # y # z # v # s) =
     map_option (\<lambda>r. (x * 4 + y div 16) # (y mod 16 * 16 + z div 4) # (z mod 4 * 64 + v) # r) (b64_groups s)"

definition line_end :: "char \<Rightarrow> bool" where
  "line_end c \<longleftrightarrow> c = CHR 0x0A \<or> c = CHR 0x0D"

definition b64Decode :: "string \<Rightarrow> goerr + string" where
  "b64Decode s =
     (let vs = map b64_value (filter (\<lambda>c. \<not> line_end c) s);
          res = (if None \<in> set vs then None else b64_groups (map the vs))
      in case res of None \<Rightarrow> Inl (ErrText ''illegal base64 data'') | Some bytes \<Rightarrow> Inr (map char_of bytes))"

section \<open>Encryption\<close>

text \<open>An authenticated cipher under one key, \<^verbatim>\<open>cipher.AEAD\<close>.\<close>

record aead =
  ae_NonceSize :: nat
  ae_Seal :: "string \<Rightarrow> string \<Rightarrow> string"
  ae_Open :: "string \<Rightarrow> string \<Rightarrow> goerr + string"

text \<open>\<^verbatim>\<open>aes.NewCipher\<close>, \<^verbatim>\<open>cipher.NewGCM\<close>, the random source, \<^verbatim>\<open>os.ExpandEnv\<close> and the JSON form of a
  token.\<close>

record 'w crypto =
  cy_NewCipher :: "string \<Rightarrow> goerr + nat"
  cy_NewGCM :: "nat \<Rightarrow> goerr + aead"
  cy_random :: "nat \<Rightarrow> 'w \<Rightarrow> (goerr + string) \<times> 'w"
  cy_expand :: "string \<Rightarrow> string"
  cy_marshal :: "OAuthToken \<Rightarrow> goerr + string"
  cy_unmarshal :: "string \<Rightarrow> goerr + OAuthToken"

definition ParseKey :: "'w crypto \<Rightarrow> string \<Rightarrow> goerr + string" where
  "ParseKey c hexKey =
     (case hexDecode (cy_expand c hexKey) of
        None \<Rightarrow> Inl (ErrText ''decoding encryption key: invalid hexadecimal text'')
      | Some key \<Rightarrow>
          if length key \<noteq> 32
          then Inl (ErrText (''encryption key must be 32 bytes (64 hex chars), got '' @ show_nat (length key) @ '' bytes''))
          else Inr key)"

definition newGCM :: "'w crypto \<Rightarrow> string \<Rightarrow> goerr + aead" where
  "newGCM c key =
     (case cy_NewCipher c key of Inl e \<Rightarrow> Inl (ErrWrap ''creating AES cipher'' e) | Inr block \<Rightarrow>
      (case cy_NewGCM c block of Inl e \<Rightarrow> Inl (ErrWrap ''creating GCM'' e) | Inr gcm \<Rightarrow> Inr gcm))"

definition Encrypt :: "'w crypto \<Rightarrow> string \<Rightarrow> string \<Rightarrow> 'w \<Rightarrow> (goerr + string) \<times> 'w" where
  "Encrypt c key plaintext w =
     (case newGCM c key of Inl e \<Rightarrow> (Inl e, w) | Inr gcm \<Rightarrow>
      (case cy_random c (ae_NonceSize gcm) w of
         (Inl e, w) \<Rightarrow> (Inl (ErrWrap ''generating nonce'' e), w)
       | (Inr nonce, w) \<Rightarrow> (Inr (nonce @ ae_Seal gcm nonce plaintext), w)))"

definition Decrypt :: "'w crypto \<Rightarrow> string \<Rightarrow> string \<Rightarrow> goerr + string" where
  "Decrypt c key ciphertext =
     (case newGCM c key of Inl e \<Rightarrow> Inl e | Inr gcm \<Rightarrow>
      (let n = ae_NonceSize gcm in
       if length ciphertext < n then Inl (ErrText ''ciphertext too short'')
       else (case ae_Open gcm (take n ciphertext) (drop n ciphertext) of
               Inl e \<Rightarrow> Inl (ErrWrap ''decrypting'' e)
             | Inr plaintext \<Rightarrow> Inr plaintext)))"

section \<open>Session stores\<close>

text \<open>The interface \<^verbatim>\<open>config.OAuthTokenStore\<close>: operations on the world for a subject and an upstream.\<close>

record 'w token_store =
  ts_Save :: "string \<Rightarrow> string \<Rightarrow> OAuthToken \<Rightarrow> 'w \<Rightarrow> goerr option \<times> 'w"
  ts_Load :: "string \<Rightarrow> string \<Rightarrow> 'w \<Rightarrow> (goerr + OAuthToken option) \<times> 'w"
  ts_Delete :: "string \<Rightarrow> string \<Rightarrow> 'w \<Rightarrow> goerr option \<times> 'w"

text \<open>\<^verbatim>\<open>pkg/session/memory\<close>: the state is the token map; tokens are copied in and out.\<close>

definition storeKey :: "string \<Rightarrow> string \<Rightarrow> string" where
  "storeKey userSubject upstreamName = userSubject @ [CHR 0x00] @ upstreamName"

definition memoryStore :: "(string \<rightharpoonup> OAuthToken) token_store" where
  "memoryStore =
    \<lparr>ts_Save = (\<lambda>s u tok m. (None, m(storeKey s u \<mapsto> tok))),
     ts_Load = (\<lambda>s u m. (Inr (m (storeKey s u)), m)),
     ts_Delete = (\<lambda>s u m. (None, m(storeKey s u := None)))\<rparr>"

text \<open>The encrypted form the two other stores keep.\<close>

definition sealToken :: "'w crypto \<Rightarrow> string \<Rightarrow> OAuthToken \<Rightarrow> 'w \<Rightarrow> (goerr + string) \<times> 'w" where
  "sealToken c key tok w =
     (case cy_marshal c tok of Inl e \<Rightarrow> (Inl (ErrWrap ''marshalling token'' e), w) | Inr plaintext \<Rightarrow>
      (case Encrypt c key plaintext w of
         (Inl e, w) \<Rightarrow> (Inl (ErrWrap ''encrypting token'' e), w)
       | (Inr data, w) \<Rightarrow> (Inr data, w)))"

definition openToken :: "'w crypto \<Rightarrow> string \<Rightarrow> string \<Rightarrow> goerr + OAuthToken" where
  "openToken c key data =
     (case Decrypt c key data of Inl e \<Rightarrow> Inl (ErrWrap ''decrypting token'' e) | Inr plaintext \<Rightarrow>
      (case cy_unmarshal c plaintext of Inl e \<Rightarrow> Inl (ErrWrap ''unmarshalling token'' e) | Inr tok \<Rightarrow> Inr tok))"

text \<open>The Redis client: \<^term>\<open>None\<close> is the reply \<^verbatim>\<open>redis.Nil\<close>. A TTL of zero stores without expiry.\<close>

record 'w redis_client =
  rc_Ping :: "string \<Rightarrow> string \<Rightarrow> 'w \<Rightarrow> goerr option \<times> 'w"
  rc_Instrument :: "goerr option"
  rc_Set :: "string \<Rightarrow> string \<Rightarrow> Duration \<Rightarrow> 'w \<Rightarrow> goerr option \<times> 'w"
  rc_Get :: "string \<Rightarrow> 'w \<Rightarrow> (goerr + string option) \<times> 'w"
  rc_Del :: "string \<Rightarrow> 'w \<Rightarrow> goerr option \<times> 'w"
  rc_now :: "'w \<Rightarrow> Time"

definition redisKey :: "string \<Rightarrow> string \<Rightarrow> string" where
  "redisKey userSubject upstreamName = ''mcp_session:'' @ userSubject @ '':'' @ upstreamName"

definition redisTTL :: "Time \<Rightarrow> OAuthToken \<Rightarrow> Duration" where
  "redisTTL now tok =
     (if Expiry tok = 0 then 0 else let ttl = Expiry tok - now in if ttl < 0 then 0 else ttl)"

definition redisSave :: "'w crypto \<Rightarrow> 'w redis_client \<Rightarrow> string \<Rightarrow> string \<Rightarrow> string \<Rightarrow> OAuthToken \<Rightarrow> 'w \<Rightarrow> goerr option \<times> 'w" where
  "redisSave c rc key s u tok w =
     (case sealToken c key tok w of
        (Inl e, w) \<Rightarrow> (Some e, w)
      | (Inr encrypted, w) \<Rightarrow>
          (case rc_Set rc (redisKey s u) encrypted (redisTTL (rc_now rc w) tok) w of
             (Some e, w) \<Rightarrow> (Some (ErrWrap ''saving session to redis'' e), w)
           | (None, w) \<Rightarrow> (None, w)))"

definition redisLoad :: "'w crypto \<Rightarrow> 'w redis_client \<Rightarrow> string \<Rightarrow> string \<Rightarrow> string \<Rightarrow> 'w \<Rightarrow> (goerr + OAuthToken option) \<times> 'w" where
  "redisLoad c rc key s u w =
     (case rc_Get rc (redisKey s u) w of
        (Inl e, w) \<Rightarrow> (Inl (ErrWrap ''loading session from redis'' e), w)
      | (Inr None, w) \<Rightarrow> (Inr None, w)
      | (Inr (Some val), w) \<Rightarrow>
          (case openToken c key val of Inl e \<Rightarrow> (Inl e, w) | Inr tok \<Rightarrow> (Inr (Some tok), w)))"

definition redisStore :: "'w crypto \<Rightarrow> 'w redis_client \<Rightarrow> string \<Rightarrow> 'w token_store" where
  "redisStore c rc key =
    \<lparr>ts_Save = redisSave c rc key, ts_Load = redisLoad c rc key,
     ts_Delete = (\<lambda>s u w. case rc_Del rc (redisKey s u) w of
        (Some e, w) \<Rightarrow> (Some (ErrWrap ''deleting session from redis'' e), w) | (None, w) \<Rightarrow> (None, w))\<rparr>"

definition newRedis :: "'w crypto \<Rightarrow> 'w redis_client \<Rightarrow> RedisSessionConfig \<Rightarrow> 'w \<Rightarrow> (goerr + 'w token_store) \<times> 'w" where
  "newRedis c rc cfg w =
     (case ParseKey c (RedisSessionConfig.EncryptionKey cfg) of
        Inl e \<Rightarrow> (Inl (ErrWrap ''redis session store encryption key'' e), w)
      | Inr key \<Rightarrow>
          (case rc_Ping rc (RedisSessionConfig.Addr cfg) (cy_expand c (RedisSessionConfig.Password cfg)) w of
             (Some e, w) \<Rightarrow> (Inl (ErrWrap ''connecting to redis'' e), w)
           | (None, w) \<Rightarrow>
               (case rc_Instrument rc of
                  Some e \<Rightarrow> (Inl (ErrWrap ''instrumenting redis session store tracing'' e), w)
                | None \<Rightarrow> (Inr (redisStore c rc key), w))))"

text \<open>The three statements of the PostgreSQL store, on the table's primary key.\<close>

record 'w sql_pool =
  sq_ParseConfig :: "string \<Rightarrow> goerr option"
  sq_Connect :: "string \<Rightarrow> 'w \<Rightarrow> goerr option \<times> 'w"
  sq_CreateTable :: "'w \<Rightarrow> goerr option \<times> 'w"
  sq_Upsert :: "string \<Rightarrow> string \<Rightarrow> string \<Rightarrow> 'w \<Rightarrow> goerr option \<times> 'w"
  sq_Select :: "string \<Rightarrow> string \<Rightarrow> 'w \<Rightarrow> (goerr + string option) \<times> 'w"
  sq_Delete :: "string \<Rightarrow> string \<Rightarrow> 'w \<Rightarrow> goerr option \<times> 'w"

definition postgresSave :: "'w crypto \<Rightarrow> 'w sql_pool \<Rightarrow> string \<Rightarrow> string \<Rightarrow> string \<Rightarrow> OAuthToken \<Rightarrow> 'w \<Rightarrow> goerr option \<times> 'w" where
  "postgresSave c q key s u tok w =
     (case sealToken c key tok w of
        (Inl e, w) \<Rightarrow> (Some e, w)
      | (Inr encrypted, w) \<Rightarrow>
          (case sq_Upsert q s u encrypted w of
             (Some e, w) \<Rightarrow> (Some (ErrWrap ''saving session to postgres'' e), w)
           | (None, w) \<Rightarrow> (None, w)))"

definition postgresLoad :: "'w crypto \<Rightarrow> 'w sql_pool \<Rightarrow> string \<Rightarrow> string \<Rightarrow> string \<Rightarrow> 'w \<Rightarrow> (goerr + OAuthToken option) \<times> 'w" where
  "postgresLoad c q key s u w =
     (case sq_Select q s u w of
        (Inl e, w) \<Rightarrow> (Inl (ErrWrap ''loading session from postgres'' e), w)
      | (Inr None, w) \<Rightarrow> (Inr None, w)
      | (Inr (Some encrypted), w) \<Rightarrow>
          (case openToken c key encrypted of Inl e \<Rightarrow> (Inl e, w) | Inr tok \<Rightarrow> (Inr (Some tok), w)))"

definition postgresStore :: "'w crypto \<Rightarrow> 'w sql_pool \<Rightarrow> string \<Rightarrow> 'w token_store" where
  "postgresStore c q key =
    \<lparr>ts_Save = postgresSave c q key, ts_Load = postgresLoad c q key,
     ts_Delete = (\<lambda>s u w. case sq_Delete q s u w of
        (Some e, w) \<Rightarrow> (Some (ErrWrap ''deleting session from postgres'' e), w) | (None, w) \<Rightarrow> (None, w))\<rparr>"

definition newPostgres :: "'w crypto \<Rightarrow> 'w sql_pool \<Rightarrow> PostgresSessionConfig \<Rightarrow> 'w \<Rightarrow> (goerr + 'w token_store) \<times> 'w" where
  "newPostgres c q cfg w =
     (case ParseKey c (PostgresSessionConfig.EncryptionKey cfg) of
        Inl e \<Rightarrow> (Inl (ErrWrap ''postgres session store encryption key'' e), w)
      | Inr key \<Rightarrow>
          (let dsn = cy_expand c (PostgresSessionConfig.DSN cfg) in
           case sq_ParseConfig q dsn of
             Some e \<Rightarrow> (Inl (ErrWrap ''parsing postgres DSN'' e), w)
           | None \<Rightarrow>
               (case sq_Connect q dsn w of
                  (Some e, w) \<Rightarrow> (Inl (ErrWrap ''connecting to postgres'' e), w)
                | (None, w) \<Rightarrow>
                    (case sq_CreateTable q w of
                       (Some e, w) \<Rightarrow> (Inl (ErrWrap ''creating mcp_sessions table'' e), w)
                     | (None, w) \<Rightarrow> (Inr (postgresStore c q key), w)))))"

text \<open>\<^verbatim>\<open>session.New\<close> with the registered factories.\<close>

definition newSessionStore ::
    "(SessionStoreConfig \<Rightarrow> 'w \<Rightarrow> (goerr + 'w token_store) \<times> 'w) registry \<Rightarrow> SessionStoreConfig \<Rightarrow> 'w \<Rightarrow>
     (goerr + 'w token_store) \<times> 'w" where
  "newSessionStore factories cfg w =
     (let provider = SessionStoreConfig.Provider cfg in
      if provider = [] then (Inl (ErrText ''session_store.provider is required''), w)
      else (case Get factories provider of
              None \<Rightarrow> (Inl (ErrText (''unknown session store provider '' @ go_quote provider @ '' '' @ em_dash @ '' import _ '' @
                go_quote (''github.com/lega4e/mcp-auto/pkg/session/'' @ provider))), w)
            | Some f \<Rightarrow> f cfg w))"

section \<open>The authorization callback\<close>

record oauth2_config =
  oc_ClientID :: string
  oc_ClientSecret :: string
  oc_AuthURL :: string
  oc_TokenURL :: string
  oc_RedirectURL :: string
  oc_Scopes :: "string list"

record statePayload =
  sp_Upstream :: string
  sp_Subject :: string
  sp_Nonce :: string

text \<open>
  The OAuth2 client: the URL for a state, the code exchange, and the token of a token source
  that starts with a given token. The last fields are HMAC-SHA256, the random source, the JSON
  form of a state payload and the fetch of a discovery document.
\<close>

record 'w oauth_lib =
  ol_AuthCodeURL :: "oauth2_config \<Rightarrow> string \<Rightarrow> string"
  ol_Exchange :: "oauth2_config \<Rightarrow> string \<Rightarrow> 'w \<Rightarrow> (goerr + OAuthToken) \<times> 'w"
  ol_SourceToken :: "oauth2_config \<Rightarrow> OAuthToken \<Rightarrow> 'w \<Rightarrow> (goerr + OAuthToken) \<times> 'w"
  ol_HMAC :: "string \<Rightarrow> string \<Rightarrow> string"
  ol_random :: "nat \<Rightarrow> 'w \<Rightarrow> (goerr + string) \<times> 'w"
  ol_marshal :: "statePayload \<Rightarrow> goerr + string"
  ol_unmarshal :: "string \<Rightarrow> goerr + statePayload"
  ol_newRequest :: "string \<Rightarrow> goerr option"
  ol_get :: "string \<Rightarrow> 'w \<Rightarrow> (goerr + int \<times> string) \<times> 'w"
  ol_discovery :: "string \<Rightarrow> goerr + string \<times> string"
  ol_expand :: "string \<Rightarrow> string"
  ol_now :: "'w \<Rightarrow> Time"

text \<open>The multiplexer: its store, its key; the registered providers are passed along.\<close>

record 'w Mux =
  mx_store :: "'w token_store option"
  mx_hmacKey :: string

type_synonym providers = "string \<rightharpoonup> oauth2_config"

definition RegisterProvider ::
    "string \<Rightarrow> string \<Rightarrow> string \<Rightarrow> string \<Rightarrow> string \<Rightarrow> string list \<Rightarrow> string \<Rightarrow> providers \<Rightarrow> providers" where
  "RegisterProvider upstreamName authURL tokenURL clientID clientSecret scopes redirectURL ps =
     ps(upstreamName \<mapsto> \<lparr>oc_ClientID = clientID, oc_ClientSecret = clientSecret, oc_AuthURL = authURL,
        oc_TokenURL = tokenURL, oc_RedirectURL = redirectURL, oc_Scopes = scopes\<rparr>)"

definition computeHMAC :: "'w oauth_lib \<Rightarrow> 'w Mux \<Rightarrow> string \<Rightarrow> string" where
  "computeHMAC ol m data = ol_HMAC ol (mx_hmacKey m) data"

definition signedState :: "'w oauth_lib \<Rightarrow> 'w Mux \<Rightarrow> string \<Rightarrow> string \<Rightarrow> 'w \<Rightarrow> (goerr + string) \<times> 'w" where
  "signedState ol m upstreamName userSubject w =
     (case ol_random ol 16 w of
        (Inl e, w) \<Rightarrow> (Inl (ErrWrap ''generating nonce'' e), w)
      | (Inr nonce, w) \<Rightarrow>
          (case ol_marshal ol \<lparr>sp_Upstream = upstreamName, sp_Subject = userSubject, sp_Nonce = b64Encode nonce\<rparr> of
             Inl e \<Rightarrow> (Inl (ErrWrap ''marshalling state'' e), w)
           | Inr data \<Rightarrow>
               (let encoded = b64Encode data; sig = computeHMAC ol m encoded
                in (Inr (encoded @ ''.'' @ b64Encode sig), w))))"

definition verifyState :: "'w oauth_lib \<Rightarrow> 'w Mux \<Rightarrow> string \<Rightarrow> string \<Rightarrow> goerr + string" where
  "verifyState ol m upstreamName state =
     (case cut_char (CHR ''.'') state of
        None \<Rightarrow> Inl (ErrText ''malformed state parameter'')
      | Some (encoded, sigEncoded) \<Rightarrow>
          (case b64Decode sigEncoded of
             Inl e \<Rightarrow> Inl (ErrWrap ''decoding state signature'' e)
           | Inr sig \<Rightarrow>
               if sig \<noteq> computeHMAC ol m encoded then Inl (ErrText ''invalid HMAC signature'')
               else (case b64Decode encoded of
                  Inl e \<Rightarrow> Inl (ErrWrap ''decoding state payload'' e)
                | Inr data \<Rightarrow>
                    (case ol_unmarshal ol data of
                       Inl e \<Rightarrow> Inl (ErrWrap ''parsing state payload'' e)
                     | Inr payload \<Rightarrow>
                         if sp_Upstream payload \<noteq> upstreamName
                         then Inl (ErrText (''state upstream '' @ go_quote (sp_Upstream payload) @
                           '' does not match callback upstream '' @ go_quote upstreamName))
                         else Inr (sp_Subject payload)))))"

definition AuthURL :: "'w oauth_lib \<Rightarrow> 'w Mux \<Rightarrow> providers \<Rightarrow> string \<Rightarrow> string \<Rightarrow> 'w \<Rightarrow> (goerr + string) \<times> 'w" where
  "AuthURL ol m ps upstreamName userSubject w =
     (case ps upstreamName of
        None \<Rightarrow> (Inl (ErrText (''no OAuth2 provider registered for upstream '' @ go_quote upstreamName)), w)
      | Some cfg \<Rightarrow>
          (case signedState ol m upstreamName userSubject w of
             (Inl e, w) \<Rightarrow> (Inl (ErrWrap ''generating state'' e), w)
           | (Inr state, w) \<Rightarrow> (Inr (ol_AuthCodeURL ol cfg state), w)))"

definition httpError :: "string \<Rightarrow> int \<Rightarrow> Response" where
  "httpError msg code =
    \<lparr>rsp_status = code, rsp_header = [''Content-Type'' \<mapsto> ''text/plain; charset=utf-8'', ''X-Content-Type-Options'' \<mapsto> ''nosniff''],
     rsp_body = msg @ newline\<rparr>"

definition queryParam :: "Request \<Rightarrow> string \<Rightarrow> string" where
  "queryParam r k = (case map_of (req_query r) k of None \<Rightarrow> [] | Some v \<Rightarrow> v)"

definition HandleCallback ::
    "'w oauth_lib \<Rightarrow> 'w Mux \<Rightarrow> providers \<Rightarrow> Request \<Rightarrow> string \<Rightarrow> 'w \<Rightarrow> Response \<times> 'w" where
  "HandleCallback ol m ps r upstreamName w =
     (case mx_store m of None \<Rightarrow> (httpError ''session store not configured'' 503, w) | Some store \<Rightarrow>
      (let code = queryParam r ''code''; state = queryParam r ''state'' in
       if code = [] \<or> state = [] then (httpError ''missing code or state parameter'' 400, w)
       else (case verifyState ol m upstreamName state of
               Inl err \<Rightarrow> (httpError (''invalid state parameter: '' @ err_text err) 400, w)
             | Inr userSubject \<Rightarrow>
                 (case ps upstreamName of
                    None \<Rightarrow> (httpError (''unknown upstream: '' @ upstreamName) 404, w)
                  | Some cfg \<Rightarrow>
                      (case ol_Exchange ol cfg code w of
                         (Inl err, w) \<Rightarrow> (httpError (''code exchange failed: '' @ err_text err) 502, w)
                       | (Inr tok, w) \<Rightarrow>
                           (case ts_Save store userSubject upstreamName tok w of
                              (Some err, w) \<Rightarrow> (httpError (''failed to save token: '' @ err_text err) 500, w)
                            | (None, w) \<Rightarrow>
                                (\<lparr>rsp_status = 200, rsp_header = [''Content-Type'' \<mapsto> ''text/plain; charset=utf-8''],
                                  rsp_body = ''Authorization successful! You can now close this window and retry your request.''\<rparr>, w)))))))"

section \<open>The outbound strategy\<close>

record 'w session_provider =
  ss_store :: "'w token_store"
  ss_mux :: "'w Mux"
  ss_upstream :: string
  ss_cfg :: oauth2_config

definition discoverOIDCEndpoints :: "'w oauth_lib \<Rightarrow> string \<Rightarrow> 'w \<Rightarrow> (goerr + string \<times> string) \<times> 'w" where
  "discoverOIDCEndpoints ol issuerURL w =
     (let discoveryURL = trim_right (\<lambda>c. c = CHR ''/'') issuerURL @ ''/.well-known/openid-configuration'' in
      case ol_newRequest ol discoveryURL of
        Some e \<Rightarrow> (Inl (ErrWrap ''building OIDC discovery request'' e), w)
      | None \<Rightarrow>
          (case ol_get ol discoveryURL w of
             (Inl e, w) \<Rightarrow> (Inl (ErrWrap (''fetching OIDC discovery doc from '' @ go_quote discoveryURL) e), w)
           | (Inr (status, body), w) \<Rightarrow>
               if status \<noteq> 200
               then (Inl (ErrText (''OIDC discovery from '' @ go_quote discoveryURL @ '' returned HTTP '' @ show_int status)), w)
               else (case ol_discovery ol body of
                       Inl e \<Rightarrow> (Inl (ErrWrap ''parsing OIDC discovery doc'' e), w)
                     | Inr (auth, token) \<Rightarrow>
                         if auth = [] \<or> token = []
                         then (Inl (ErrText ''OIDC discovery doc missing authorization_endpoint or token_endpoint''), w)
                         else (Inr (auth, token), w))))"

definition known_providers :: "(string \<times> string \<times> string) list" where
  "known_providers =
    [(''github'', ''https://github.com/login/oauth/authorize'', ''https://github.com/login/oauth/access_token''),
     (''google'', ''https://accounts.google.com/o/oauth2/auth'', ''https://oauth2.googleapis.com/token''),
     (''gitlab'', ''https://gitlab.com/oauth/authorize'', ''https://gitlab.com/oauth/token''),
     (''slack'', ''https://slack.com/oauth/v2/authorize'', ''https://slack.com/api/oauth.v2.access'')]"

definition resolveEndpoints ::
    "'w oauth_lib \<Rightarrow> OAuth2UserSessionConfig \<Rightarrow> 'w \<Rightarrow> (goerr + string \<times> string) \<times> 'w" where
  "resolveEndpoints ol cfg w =
     (let p = OAuth2UserSessionConfig.Provider cfg;
          requires = (\<lambda>what. (Inl (ErrText (''provider '' @ go_quote p @ '' requires '' @ what)), w))
      in case map_of known_providers p of
           Some endpoints \<Rightarrow> (Inr endpoints, w)
         | None \<Rightarrow>
             if p = ''oidc'' then
               (if OAuth2UserSessionConfig.IssuerURL cfg = [] then requires ''issuer_url''
                else discoverOIDCEndpoints ol (OAuth2UserSessionConfig.IssuerURL cfg) w)
             else if p = ''oauth2'' then
               (if OAuth2UserSessionConfig.AuthURL cfg = [] then requires ''auth_url''
                else if OAuth2UserSessionConfig.TokenURL cfg = [] then requires ''token_url''
                else (Inr (OAuth2UserSessionConfig.AuthURL cfg, OAuth2UserSessionConfig.TokenURL cfg), w))
             else if p = []
             then (Inl (ErrText ''oauth2_user_session.provider is required (github|google|gitlab|slack|oidc|oauth2)''), w)
             else (Inl (ErrText (''unknown oauth2_user_session.provider '' @ go_quote p)), w))"

text \<open>\<^verbatim>\<open>newProvider\<close>; the references of the configuration to the store and the multiplexer are resolved
  by \<^term>\<open>deref\<close>.\<close>

definition newProvider ::
    "'w oauth_lib \<Rightarrow> (nat \<Rightarrow> nat \<Rightarrow> 'w token_store \<times> 'w Mux) \<Rightarrow> OutboundAuthConfig \<Rightarrow> providers \<Rightarrow> 'w \<Rightarrow>
     (goerr + 'w session_provider) \<times> providers \<times> 'w" where
  "newProvider ol deref cfg ps w =
     (let ocfg = OutboundAuthConfig.OAuth2UserSession cfg; refused = (\<lambda>msg. (Inl (ErrText msg), ps, w)) in
      case OutboundAuthConfig.OAuthTokenStore cfg of
        None \<Rightarrow> refused ''oauth2_user_session strategy requires session_store to be configured in the top-level proxy config''
      | Some store_ref \<Rightarrow>
     (case OutboundAuthConfig.OAuthCallbackReg cfg of
        None \<Rightarrow> refused ''oauth2_user_session: OAuthCallbackReg not injected (internal error)''
      | Some mux_ref \<Rightarrow>
      if OutboundAuthConfig.Upstream cfg = [] then refused ''oauth2_user_session: upstream name not set''
      else if OAuth2UserSessionConfig.ClientID ocfg = [] then refused ''oauth2_user_session: client_id is required''
      else if OAuth2UserSessionConfig.CallbackURL ocfg = [] then refused ''oauth2_user_session: callback_url is required''
      else (case resolveEndpoints ol ocfg w of
              (Inl e, w) \<Rightarrow> (Inl (ErrWrap ''oauth2_user_session'' e), ps, w)
            | (Inr (authURL, tokenURL), w) \<Rightarrow>
                (let secret = ol_expand ol (OAuth2UserSessionConfig.ClientSecret ocfg);
                     (store, mux) = deref store_ref mux_ref;
                     ps' = RegisterProvider (OutboundAuthConfig.Upstream cfg) authURL tokenURL
                             (OAuth2UserSessionConfig.ClientID ocfg) secret (OAuth2UserSessionConfig.Scopes ocfg)
                             (OAuth2UserSessionConfig.CallbackURL ocfg) ps
                 in (Inr \<lparr>ss_store = store, ss_mux = mux, ss_upstream = OutboundAuthConfig.Upstream cfg,
                         ss_cfg = the (ps' (OutboundAuthConfig.Upstream cfg))\<rparr>, ps', w)))))"

definition subjectFromContext :: "Ctx \<Rightarrow> string" where
  "subjectFromContext ctx = (case ctx_token ctx of None \<Rightarrow> [] | Some info \<Rightarrow> Subject info)"

text \<open>The refreshed token is used even when it cannot be saved.\<close>

definition doRefresh ::
    "'w oauth_lib \<Rightarrow> 'w session_provider \<Rightarrow> string \<Rightarrow> OAuthToken \<Rightarrow> 'w \<Rightarrow> (goerr + OAuthToken) \<times> 'w" where
  "doRefresh ol p subject tok w =
     (case ol_SourceToken ol (ss_cfg p) tok w of
        (Inl e, w) \<Rightarrow> (Inl (ErrWrap ''token refresh'' e), w)
      | (Inr fresh, w) \<Rightarrow>
          (let newTok = (if RefreshToken fresh = [] then fresh\<lparr>RefreshToken := RefreshToken tok\<rparr> else fresh)
           in (Inr newTok, snd (ts_Save (ss_store p) subject (ss_upstream p) newTok w))))"

text \<open>In nanoseconds.\<close>

definition refreshWindow :: Duration where
  "refreshWindow = 5 * 60 * 1000000000"

definition requireAuth ::
    "'w oauth_lib \<Rightarrow> 'w session_provider \<Rightarrow> providers \<Rightarrow> string \<Rightarrow> string \<Rightarrow> 'w \<Rightarrow> (goerr + string) \<times> 'w" where
  "requireAuth ol p ps what subject w =
     (case AuthURL ol (ss_mux p) ps (ss_upstream p) subject w of
        (Inl e, w) \<Rightarrow> (Inl (ErrWrap (''generating '' @ what @ '' URL for upstream '' @ go_quote (ss_upstream p)) e), w)
      | (Inr url, w) \<Rightarrow> (Inl (AuthRequiredError url), w))"

text \<open>\<^verbatim>\<open>Token\<close>: its result and the token of the background refresh it starts, if any.\<close>

definition SessionToken ::
    "'w oauth_lib \<Rightarrow> 'w session_provider \<Rightarrow> providers \<Rightarrow> Ctx \<Rightarrow> 'w \<Rightarrow> (goerr + string) \<times> OAuthToken option \<times> 'w" where
  "SessionToken ol p ps ctx w =
     (let subject = subjectFromContext ctx; plain = (\<lambda>(res, w). (res, None, w)) in
      case ts_Load (ss_store p) subject (ss_upstream p) w of
        (Inl e, w) \<Rightarrow> (Inl (ErrWrap (''loading session token for upstream '' @ go_quote (ss_upstream p)) e), None, w)
      | (Inr None, w) \<Rightarrow> plain (requireAuth ol p ps ''auth'' subject w)
      | (Inr (Some tok), w) \<Rightarrow>
          (let now = ol_now ol w in
           if Expiry tok = 0 \<or> now + refreshWindow < Expiry tok then (Inr (AccessToken tok), None, w)
           else if now < Expiry tok
             then (Inr (AccessToken tok), if RefreshToken tok \<noteq> [] then Some tok else None, w)
           else if RefreshToken tok = [] then plain (requireAuth ol p ps ''re-auth'' subject w)
           else (case doRefresh ol p subject tok w of
                   (Inl e, w) \<Rightarrow> (Inl (ErrWrap (''refreshing token for upstream '' @ go_quote (ss_upstream p)) e), None, w)
                 | (Inr newTok, w) \<Rightarrow> (Inr (AccessToken newTok), None, w))))"

text \<open>The step of the background refresh.\<close>

definition backgroundRefresh ::
    "'w oauth_lib \<Rightarrow> 'w session_provider \<Rightarrow> Ctx \<Rightarrow> OAuthToken option \<Rightarrow> 'w \<Rightarrow> 'w" where
  "backgroundRefresh ol p ctx job w =
     (case job of None \<Rightarrow> w | Some tok \<Rightarrow> snd (doRefresh ol p (subjectFromContext ctx) tok w))"

text \<open>The strategy as the outbound middleware uses it, with the background refresh run at once.\<close>

definition sessionProvider :: "'w oauth_lib \<Rightarrow> 'w session_provider \<Rightarrow> providers \<Rightarrow> 'w TokenProvider" where
  "sessionProvider ol p ps =
    \<lparr>tp_Token = (\<lambda>ctx w. case SessionToken ol p ps ctx w of (res, job, w) \<Rightarrow> (res, backgroundRefresh ol p ctx job w)),
     tp_RawHeaders = (\<lambda>ctx w. (Inr [], w))\<rparr>"

section \<open>Start-up\<close>

text \<open>The key that signs the states, \<^verbatim>\<open>resolveHMACKey\<close>; \<^term>\<open>sha\<close> is SHA-256.\<close>

definition resolveHMACKey ::
    "'w oauth_lib \<Rightarrow> (string \<Rightarrow> string) \<Rightarrow> string \<Rightarrow> 'w \<Rightarrow> string \<times> 'w" where
  "resolveHMACKey ol sha raw w =
     (let expanded = ol_expand ol raw in
      if expanded = [] then
        (case ol_random ol 32 w of
           (Inl e, w) \<Rightarrow> (sha ''mcp-auto-ephemeral-hmac-key'', w)
         | (Inr b, w) \<Rightarrow> (b, w))
      else (sha expanded, w))"

definition buildSessionStore ::
    "'w oauth_lib \<Rightarrow> (string \<Rightarrow> string) \<Rightarrow> (SessionStoreConfig \<Rightarrow> 'w \<Rightarrow> (goerr + 'w token_store) \<times> 'w) registry \<Rightarrow>
     SessionStoreConfig \<Rightarrow> 'w \<Rightarrow> (goerr + ('w token_store \<times> 'w Mux) option) \<times> 'w" where
  "buildSessionStore ol sha factories cfg w =
     (if SessionStoreConfig.Provider cfg = [] then (Inr None, w)
      else (case newSessionStore factories cfg w of
              (Inl e, w) \<Rightarrow> (Inl (ErrWrap ''session store'' e), w)
            | (Inr store, w) \<Rightarrow>
                (case resolveHMACKey ol sha (SessionStoreConfig.HMACKey cfg) w of
                   (key, w) \<Rightarrow> (Inr (Some (store, \<lparr>mx_store = Some store, mx_hmacKey = key\<rparr>)), w))))"

end
