(* ===== verification/SessionLaws.thy ===== *)
theory SessionLaws
  imports Session
begin

text \<open>
  What the user sessions guarantee: the encodings and the encryption are undone exactly, a
  signed state is accepted for its own upstream and subject only, the callback writes no other
  session, an authorization that completes makes the next call succeed, and the stores behind the
  interface the callback and the strategy share. Two behaviours fall short of their comments: the
  background refresh, and the lifetime the Redis store gives a session.
\<close>

section \<open>Base64\<close>

lemma b64_alphabet_values: "\<forall>n \<in> set [0..<64]. b64_value (b64_char n) = Some n \<and> b64_char n \<noteq> CHR ''.'' \<and> \<not> line_end (b64_char n)"
  by code_simp

lemma b64_char_value [simp]: "n < 64 \<Longrightarrow> b64_value (b64_char n) = Some n"
  using b64_alphabet_values by simp

lemma b64_char_plain: "n < 64 \<Longrightarrow> b64_char n \<noteq> CHR ''.'' \<and> \<not> line_end (b64_char n)"
  using b64_alphabet_values by simp

lemma b64_group_bytes:
  fixes a b c :: nat
  assumes "b < 256" "c < 256"
  shows "a div 4 * 4 + (a mod 4 * 16 + b div 16) div 16 = a"
    and "(a mod 4 * 16 + b div 16) mod 16 * 16 + (b mod 16 * 4 + c div 64) div 4 = b"
    and "(b mod 16 * 4 + c div 64) mod 4 * 64 + c mod 64 = c"
proof -
  have dm: "(k * n + q) div n = k" "(k * n + q) mod n = q" if "q < n" for k n q :: nat
    using that by simp_all
  have lt: "b div 16 < 16" "c div 64 < 4" using assms by auto
  note d = dm [OF lt(1)] dm [OF lt(2)]
  show "a div 4 * 4 + (a mod 4 * 16 + b div 16) div 16 = a" unfolding d by simp
  show "(a mod 4 * 16 + b div 16) mod 16 * 16 + (b mod 16 * 4 + c div 64) div 4 = b" unfolding d by simp
  show "(b mod 16 * 4 + c div 64) mod 4 * 64 + c mod 64 = c" unfolding d by simp
qed

lemma b64_bytes_groups:
  "\<forall>x \<in> set bs. x < 256 \<Longrightarrow> \<exists>vs. b64_bytes bs = map b64_char vs \<and> (\<forall>v \<in> set vs. v < 64) \<and> b64_groups vs = Some bs"
proof (induction bs rule: b64_bytes.induct)
  case (2 a)
  then show ?case by (intro exI [of _ "[a div 4, a mod 4 * 16]"]) auto
next
  case (3 a b)
  have "a mod 4 * 16 + b div 16 < 64" "b mod 16 * 4 < 64" using 3 by auto
  with 3 show ?case
    by (intro exI [of _ "[a div 4, a mod 4 * 16 + b div 16, b mod 16 * 4]"]) (auto simp: div_add1_eq)
next
  case (4 a b c s)
  then obtain vs where vs: "b64_bytes s = map b64_char vs" "\<forall>v \<in> set vs. v < 64" "b64_groups vs = Some s" by auto
  have lt: "a mod 4 * 16 + b div 16 < 64" "b mod 16 * 4 + c div 64 < 64" "c mod 64 < 64" "a div 4 < 64" using 4 by auto
  have "b < 256" "c < 256" using 4 by auto
  note eqs = b64_group_bytes [OF this]
  let ?vs = "a div 4 # (a mod 4 * 16 + b div 16) # (b mod 16 * 4 + c div 64) # (c mod 64) # vs"
  have "b64_groups ?vs = Some (a # b # c # s)" by (simp only: b64_groups.simps eqs vs(3) option.map)
  moreover have "b64_bytes (a # b # c # s) = map b64_char ?vs" by (simp add: vs(1))
  moreover have "\<forall>v \<in> set ?vs. v < 64" using vs(2) lt by simp
  ultimately show ?case by blast
qed simp

lemma b64_round_trip [simp]: "b64Decode (b64Encode s) = Inr s"
proof -
  have "\<forall>x \<in> set (map of_char s). x < (256::nat)" by simp
  from b64_bytes_groups [OF this] obtain vs where
    vs: "b64_bytes (map of_char s) = map b64_char vs" "\<forall>v \<in> set vs. v < 64" "b64_groups vs = Some (map of_char s)" by blast
  have "filter (\<lambda>c. \<not> line_end c) (map b64_char vs) = map b64_char vs"
    using vs(2) b64_char_plain by (auto simp: filter_id_conv)
  moreover have "map b64_value (map b64_char vs) = map Some vs" using vs(2) by simp
  moreover have "map the (map Some vs) = vs" by (simp add: map_idI)
  ultimately have "b64Decode (b64Encode s) = Inr (map char_of (map of_char s :: nat list))"
    using vs(3) by (auto simp: b64Decode_def b64Encode_def vs(1) Let_def simp del: map_map)
  then show ?thesis by (simp add: map_idI)
qed

lemma b64Encode_no_dot: "CHR ''.'' \<notin> set (b64Encode s)"
proof -
  have "\<forall>x \<in> set (map of_char s). x < (256::nat)" by simp
  from b64_bytes_groups [OF this] b64_char_plain show ?thesis by (force simp: b64Encode_def)
qed

section \<open>The signed state\<close>

lemma cut_char_first: "c \<notin> set xs \<Longrightarrow> cut_char c (xs @ c # ys) = Some (xs, ys)"
  by (induction xs) (auto simp: cut_char_def before_char_def)

text \<open>The decoder undoes the encoder on state payloads.\<close>

definition payload_json :: "'w oauth_lib \<Rightarrow> bool" where
  "payload_json ol \<longleftrightarrow> (\<forall>p d. ol_marshal ol p = Inr d \<longrightarrow> ol_unmarshal ol d = Inr p)"

lemma signed_verifies:
  assumes "payload_json ol" "signedState ol m u s w = (Inr state, w')"
  shows "verifyState ol m v state = (if v = u then Inr s
    else Inl (ErrText (''state upstream '' @ go_quote u @ '' does not match callback upstream '' @ go_quote v)))"
proof -
  from assms(2) obtain nonce data where d: "ol_marshal ol \<lparr>sp_Upstream = u, sp_Subject = s, sp_Nonce = b64Encode nonce\<rparr> = Inr data"
    "state = b64Encode data @ CHR ''.'' # b64Encode (computeHMAC ol m (b64Encode data))"
    by (auto simp: signedState_def Let_def split: prod.splits sum.splits)
  from d(1) assms(1) have "ol_unmarshal ol data = Inr \<lparr>sp_Upstream = u, sp_Subject = s, sp_Nonce = b64Encode nonce\<rparr>"
    by (simp add: payload_json_def)
  then show ?thesis by (simp add: verifyState_def d(2) cut_char_first [OF b64Encode_no_dot])
qed

text \<open>C9: a state that was signed for an upstream and a subject is accepted at that upstream's callback, for
  that subject, and refused at the callback of every other upstream.\<close>

theorem state_round_trip:
  assumes "\<forall>p d. ol_marshal ol p = Inr d \<longrightarrow> ol_unmarshal ol d = Inr p" and "signedState ol m u s w = (Inr state, w')"
  shows "verifyState ol m u state = Inr s \<and> (\<forall>v. v \<noteq> u \<longrightarrow> (\<exists>e. verifyState ol m v state = Inl e))"
  using signed_verifies [of ol, OF _ assms(2)] assms(1) by (simp add: payload_json_def)

section \<open>The interface of the stores\<close>

text \<open>
  What a client of a session store relies on: \<^term>\<open>view w\<close> are the sessions as a load returns them; a save
  sets one of them and a load none. \<^term>\<open>ok\<close> are the pairs of subject and upstream the store keeps
  apart.
\<close>

locale session_store =
  fixes st :: "'w token_store"
    and view :: "'w \<Rightarrow> string \<Rightarrow> string \<Rightarrow> OAuthToken option"
    and ok :: "string \<Rightarrow> string \<Rightarrow> bool"
  assumes load: "ok s u \<Longrightarrow> ts_Load st s u w = (Inr t, w') \<Longrightarrow> t = view w s u"
    and load_view: "ok s u \<Longrightarrow> ts_Load st s u w = (res, w') \<Longrightarrow> ok s' u' \<Longrightarrow> view w' s' u' = view w s' u'"
    and save: "ok s u \<Longrightarrow> ts_Save st s u tok w = (None, w') \<Longrightarrow> view w' s u = Some tok"
    and save_other: "ok s u \<Longrightarrow> ts_Save st s u tok w = (r, w') \<Longrightarrow> ok s' u' \<Longrightarrow> (s', u') \<noteq> (s, u) \<or> r \<noteq> None \<Longrightarrow>
      view w' s' u' = view w s' u'"
begin

lemma save_view:
  "ok s u \<Longrightarrow> ts_Save st s u tok w = (r, w') \<Longrightarrow> ok s' u' \<Longrightarrow>
     view w' s' u' = (if r = None \<and> s' = s \<and> u' = u then Some tok else view w s' u')"
  using save [of s u tok w w'] save_other [of s u tok w r w' s' u'] by auto

text \<open>The callback writes at most the session of the subject the state was signed for.\<close>

lemma callback_effect:
  assumes "mx_store m = Some st" "HandleCallback ol m ps r u w = (rsp, w')"
    and exch: "\<And>cfg code w res w1 s' u'. ol_Exchange ol cfg code w = (res, w1) \<Longrightarrow> ok s' u' \<Longrightarrow> view w1 s' u' = view w s' u'"
    and okv: "\<And>s'. verifyState ol m u (queryParam r ''state'') = Inr s' \<Longrightarrow> ok s' u"
    and k: "ok s v"
  shows "view w' s v = view w s v \<or>
    v = u \<and> verifyState ol m u (queryParam r ''state'') = Inr s \<and> rsp_status rsp = 200 \<and>
    (\<exists>cfg tok w1. ps u = Some cfg \<and> ol_Exchange ol cfg (queryParam r ''code'') w = (Inr tok, w1) \<and> view w' s v = Some tok)"
proof (cases "\<exists>subj cfg tok w1. verifyState ol m u (queryParam r ''state'') = Inr subj \<and> ps u = Some cfg \<and>
    ol_Exchange ol cfg (queryParam r ''code'') w = (Inr tok, w1) \<and> queryParam r ''code'' \<noteq> [] \<and> queryParam r ''state'' \<noteq> []")
  case True
  then obtain subj cfg tok w1 where h: "verifyState ol m u (queryParam r ''state'') = Inr subj" "ps u = Some cfg"
    "ol_Exchange ol cfg (queryParam r ''code'') w = (Inr tok, w1)" "queryParam r ''code'' \<noteq> []" "queryParam r ''state'' \<noteq> []" by blast
  obtain e w2 where sv: "ts_Save st subj u tok w1 = (e, w2)" by fastforce
  from assms(2) h sv assms(1) have w': "w' = w2" and rsp: "e = None \<Longrightarrow> rsp_status rsp = 200"
    by (auto simp: HandleCallback_def split: option.splits)
  from save_view [OF okv [OF h(1)] sv k] exch [OF h(3) k]
  show ?thesis using h rsp unfolding w' by (cases "e = None \<and> s = subj \<and> v = u") auto
next
  case False
  with assms(1,2) have "w' = w \<or> (\<exists>cfg res. ol_Exchange ol cfg (queryParam r ''code'') w = (res, w'))"
    by (auto simp: HandleCallback_def Let_def split: if_splits sum.splits option.splits prod.splits)
  with exch [OF _ k] show ?thesis by blast
qed

text \<open>A session with enough time left answers at once, without contacting the provider.\<close>

lemma fresh_token:
  assumes "ss_store p = st" "ok (subjectFromContext ctx) (ss_upstream p)"
    and "ts_Load st (subjectFromContext ctx) (ss_upstream p) w = (Inr t, w1)"
    and "view w (subjectFromContext ctx) (ss_upstream p) = Some tok"
    and "Expiry tok = 0 \<or> ol_now ol w1 + refreshWindow < Expiry tok"
  shows "SessionToken ol p ps ctx w = (Inr (AccessToken tok), None, w1)"
  using load [OF assms(2,3)] assms(1,3,4,5) by (auto simp: SessionToken_def Let_def)

end

text \<open>The memory store keeps all subjects without a zero byte apart.\<close>

lemma storeKey_inj: "CHR 0x00 \<notin> set s \<Longrightarrow> CHR 0x00 \<notin> set s' \<Longrightarrow> storeKey s u = storeKey s' u' \<longleftrightarrow> s = s' \<and> u = u'"
  unfolding storeKey_def append.simps by (metis cut_char_first option.inject prod.inject)

interpretation memory: session_store memoryStore "\<lambda>m s u. m (storeKey s u)" "\<lambda>s u. CHR 0x00 \<notin> set s"
  by unfold_locales (auto simp: memoryStore_def storeKey_inj)

section \<open>Encrypted stores\<close>

text \<open>An authenticated cipher opens what it sealed, the random source delivers what is asked for, and
  the decoder undoes the encoder on tokens.\<close>

definition sound_crypto :: "'w crypto \<Rightarrow> bool" where
  "sound_crypto c \<longleftrightarrow>
     (\<forall>key gcm nonce p. newGCM c key = Inr gcm \<longrightarrow> length nonce = ae_NonceSize gcm \<longrightarrow>
        ae_Open gcm nonce (ae_Seal gcm nonce p) = Inr p) \<and>
     (\<forall>n w nonce w'. cy_random c n w = (Inr nonce, w') \<longrightarrow> length nonce = n) \<and>
     (\<forall>tok d. cy_marshal c tok = Inr d \<longrightarrow> cy_unmarshal c d = Inr tok)"

lemma decrypt_encrypt:
  assumes "sound_crypto c" "Encrypt c key p w = (Inr data, w')"
  shows "Decrypt c key data = Inr p"
proof -
  from assms(2) obtain gcm nonce where g: "newGCM c key = Inr gcm" "cy_random c (ae_NonceSize gcm) w = (Inr nonce, w')"
    "data = nonce @ ae_Seal gcm nonce p" by (auto simp: Encrypt_def split: sum.splits prod.splits)
  with assms(1) have "length nonce = ae_NonceSize gcm" "ae_Open gcm nonce (ae_Seal gcm nonce p) = Inr p"
    unfolding sound_crypto_def by blast+
  with g show ?thesis by (simp add: Decrypt_def Let_def)
qed

lemma open_seal:
  assumes "sound_crypto c" "sealToken c key tok w = (Inr data, w')"
  shows "openToken c key data = Inr tok"
proof -
  from assms(2) obtain d where d: "cy_marshal c tok = Inr d" "Encrypt c key d w = (Inr data, w')"
    by (auto simp: sealToken_def split: sum.splits prod.splits)
  from d(1) assms(1) have "cy_unmarshal c d = Inr tok" unfolding sound_crypto_def by blast
  with decrypt_encrypt [OF assms(1) d(2)] show ?thesis by (simp add: openToken_def)
qed

text \<open>The table behind the SQL statements: one row per subject and upstream.\<close>

definition sql_table :: "'w sql_pool \<Rightarrow> ('w \<Rightarrow> string \<times> string \<rightharpoonup> string) \<Rightarrow> bool" where
  "sql_table q rows \<longleftrightarrow>
     (\<forall>s u d w. case sq_Upsert q s u d w of
        (None, w') \<Rightarrow> rows w' = (rows w)((s, u) \<mapsto> d) | (Some e, w') \<Rightarrow> rows w' = rows w) \<and>
     (\<forall>s u w. case sq_Select q s u w of
        (Inr d, w') \<Rightarrow> d = rows w (s, u) \<and> rows w' = rows w | (Inl e, w') \<Rightarrow> rows w' = rows w)"

definition sealed_view :: "'w crypto \<Rightarrow> string \<Rightarrow> ('w \<Rightarrow> string \<times> string \<rightharpoonup> string) \<Rightarrow> 'w \<Rightarrow> string \<Rightarrow> string \<Rightarrow> OAuthToken option" where
  "sealed_view c key rows w s u =
     (case rows w (s, u) of None \<Rightarrow> None
      | Some d \<Rightarrow> (case openToken c key d of Inl e \<Rightarrow> None | Inr tok \<Rightarrow> Some tok))"

text \<open>C33: the encrypted PostgreSQL store is a session store: what a load decrypts and parses is exactly the
  token the last save for that user and upstream encrypted, and sessions of others are kept.\<close>

theorem encrypted_store_keeps_sessions:
  assumes c: "sound_crypto c" and q: "sql_table q rows"
    and rnd: "\<forall>n w r w'. cy_random c n w = (r, w') \<longrightarrow> rows w' = rows w"
  shows "session_store (postgresStore c q key) (sealed_view c key rows) (\<lambda>s u. True)"
proof -
  have select: "rows w' = rows w" if "sq_Select q s u w = (r, w')" for s u w r w'
    using conjunct2 [OF q [unfolded sql_table_def], rule_format, where s = s and u = u and w = w] that by (cases r) auto
  have selected: "d = rows w (s, u)" if "sq_Select q s u w = (Inr d, w')" for s u w d w'
    using conjunct2 [OF q [unfolded sql_table_def], rule_format, where s = s and u = u and w = w] that by auto
  have sealed: "rows w' = rows w" if "sealToken c key tok w = (r, w')" for tok w r w'
    using that rnd by (auto simp: sealToken_def Encrypt_def split: sum.splits prod.splits)
  have upsert: "rows w' = (rows w)((s, u) \<mapsto> d)" if "sq_Upsert q s u d w = (None, w')" for s u d w w'
    using conjunct1 [OF q [unfolded sql_table_def], rule_format, where s = s and u = u and d = d and w = w] that by auto
  have failed: "rows w' = rows w" if "sq_Upsert q s u d w = (Some e, w')" for s u d w e w'
    using conjunct1 [OF q [unfolded sql_table_def], rule_format, where s = s and u = u and d = d and w = w] that by auto
  note d = postgresStore_def postgresLoad_def postgresSave_def sealed_view_def
  show ?thesis
  proof
    fix s u w t w'
    assume "ts_Load (postgresStore c q key) s u w = (Inr t, w')"
    then show "t = sealed_view c key rows w s u"
      by (auto simp: d dest!: selected split: prod.splits sum.splits option.splits)
  next
    fix s u s' u' w w' and r :: "goerr + OAuthToken option"
    assume "ts_Load (postgresStore c q key) s u w = (r, w')"
    then have "rows w' = rows w" by (auto simp: d dest: select split: prod.splits sum.splits option.splits)
    then show "sealed_view c key rows w' s' u' = sealed_view c key rows w s' u'" by (simp add: sealed_view_def)
  next
    fix s u tok w w'
    assume "ts_Save (postgresStore c q key) s u tok w = (None, w')"
    then obtain data w1 where "sealToken c key tok w = (Inr data, w1)" "sq_Upsert q s u data w1 = (None, w')"
      by (auto simp: d split: prod.splits sum.splits option.splits)
    then show "sealed_view c key rows w' s u = Some tok"
      using upsert open_seal [OF c] by (simp add: sealed_view_def)
  next
    fix s u tok w w' s' u' and r :: "goerr option"
    assume sv: "ts_Save (postgresStore c q key) s u tok w = (r, w')" and ne: "(s', u') \<noteq> (s, u) \<or> r \<noteq> None"
    have "rows w' (s', u') = rows w (s', u')"
    proof (cases r)
      case None
      with sv obtain data w1 where "sealToken c key tok w = (Inr data, w1)" "sq_Upsert q s u data w1 = (None, w')"
        by (auto simp: d split: prod.splits sum.splits option.splits)
      with upsert sealed ne None show ?thesis by auto
    next
      case (Some e)
      with sv have "rows w' = rows w"
        by (auto simp: d dest!: sealed failed split: prod.splits sum.splits option.splits)
      then show ?thesis by simp
    qed
    then show "sealed_view c key rows w' s' u' = sealed_view c key rows w s' u'" by (simp add: sealed_view_def)
  qed
qed

section \<open>The callback and the next call\<close>

text \<open>C32: the callback changes a session only for the subject of a state that verifies for the upstream of
  the callback, only to the token the code was exchanged for, and only when it answers with success;
  every other session, and every session after a refused callback, is as before.\<close>

theorem callback_writes_signed_subject_only:
  assumes "session_store st view ok" "mx_store m = Some st" "HandleCallback ol m ps r u w = (rsp, w')"
    and "\<forall>cfg code w. \<forall>s' u'. ok s' u' \<longrightarrow> view (snd (ol_Exchange ol cfg code w)) s' u' = view w s' u'"
    and "\<forall>s'. verifyState ol m u (queryParam r ''state'') = Inr s' \<longrightarrow> ok s' u"
    and "ok s v" "view w' s v \<noteq> view w s v"
  shows "v = u \<and> verifyState ol m u (queryParam r ''state'') = Inr s \<and> rsp_status rsp = 200 \<and>
    (\<exists>cfg tok w1. ps u = Some cfg \<and> ol_Exchange ol cfg (queryParam r ''code'') w = (Inr tok, w1) \<and> view w' s v = Some tok)"
  using session_store.callback_effect [OF assms(1-3) _ _ assms(6)] assms(4,5,7) by (metis snd_conv)


section \<open>Refreshing ahead of time\<close>

text \<open>The background refresh of a token that is about to expire does not refresh it: a token source
  hands out the token it starts with until ten seconds before its expiry, so before that the
  refresh stores the same token again and every session stays as it is.\<close>

theorem background_refresh_changes_nothing:
  assumes st: "session_store (ss_store p) view ok" "ok (subjectFromContext ctx) (ss_upstream p)"
    and reuse: "\<forall>cfg tok w. AccessToken tok \<noteq> [] \<longrightarrow> ol_now ol w + 10 * 1000000000 < Expiry tok \<longrightarrow>
      ol_SourceToken ol cfg tok w = (Inr tok, w)"
    and t: "SessionToken ol p ps ctx w = (Inr access, Some tok, w1)" and a: "access \<noteq> []"
    and later: "ol_now ol w2 + 10 * 1000000000 < Expiry tok"
      "view w2 (subjectFromContext ctx) (ss_upstream p) = Some tok"
    and k: "ok s v"
  shows "view (backgroundRefresh ol p ctx (Some tok) w2) s v = view w2 s v"
proof -
  let ?s = "subjectFromContext ctx" and ?u = "ss_upstream p"
  from t have "access = AccessToken tok" "RefreshToken tok \<noteq> []"
    by (auto simp: SessionToken_def Let_def split: prod.splits sum.splits option.splits if_splits)
  with a reuse later(1) have "doRefresh ol p ?s tok w2 = (Inr tok, snd (ts_Save (ss_store p) ?s ?u tok w2))"
    by (simp add: doRefresh_def)
  moreover obtain e w3 where "ts_Save (ss_store p) ?s ?u tok w2 = (e, w3)" by fastforce
  ultimately show ?thesis
    using session_store.save_view [OF st(1,2), of tok w2 e w3 s v] k later(2) by (simp add: backgroundRefresh_def)
qed

section \<open>Sessions in Redis\<close>

text \<open>The entries of a Redis server with their deadlines.\<close>

definition redis_server :: "'w redis_client \<Rightarrow> ('w \<Rightarrow> string \<rightharpoonup> string \<times> Time option) \<Rightarrow> bool" where
  "redis_server rc entries \<longleftrightarrow>
     (\<forall>k v ttl w. case rc_Set rc k v ttl w of
        (None, w') \<Rightarrow> entries w' = (entries w)(k \<mapsto> (v, if ttl = 0 then None else Some (rc_now rc w + ttl)))
      | (Some e, w') \<Rightarrow> entries w' = entries w) \<and>
     (\<forall>k w. case rc_Get rc k w of
        (Inr res, w') \<Rightarrow> res = (case entries w k of None \<Rightarrow> None
           | Some (v, d) \<Rightarrow> if (case d of None \<Rightarrow> True | Some t \<Rightarrow> rc_now rc w < t) then Some v else None) \<and>
           entries w' = entries w
      | (Inl e, w') \<Rightarrow> entries w' = entries w)"

text \<open>The Redis store drops a session at the moment its access token expires, also when a refresh
  token in it could still renew it, and keeps for ever a session that is saved after its token has
  expired.\<close>

theorem redis_session_lifetime:
  assumes r: "redis_server rc entries" and sv: "redisSave c rc key s u tok w = (None, w1)" and x: "Expiry tok \<noteq> 0"
    and rnd: "\<forall>n w r w'. cy_random c n w = (r, w') \<longrightarrow> rc_now rc w' = rc_now rc w"
    and later: "entries w2 = entries w1" "redisLoad c rc key s u w2 = (Inr t, w3)"
  shows "(rc_now rc w < Expiry tok \<and> Expiry tok \<le> rc_now rc w2 \<longrightarrow> t = None) \<and>
    (Expiry tok \<le> rc_now rc w \<longrightarrow> t \<noteq> None)"
proof -
  have sealed: "rc_now rc w' = rc_now rc w" if "sealToken c key tok w = (res, w')" for res w'
    using that rnd by (auto simp: sealToken_def Encrypt_def split: sum.splits prod.splits)
  from sv obtain d w0 where "sealToken c key tok w = (Inr d, w0)"
    and set: "rc_Set rc (redisKey s u) d (redisTTL (rc_now rc w0) tok) w0 = (None, w1)"
    by (auto simp: redisSave_def split: prod.splits sum.splits option.splits)
  with sealed have now: "rc_now rc w0 = rc_now rc w" by blast
  from r set have e: "entries w1 (redisKey s u) =
      Some (d, if redisTTL (rc_now rc w) tok = 0 then None else Some (rc_now rc w + redisTTL (rc_now rc w) tok))"
    using conjunct1 [OF r [unfolded redis_server_def], rule_format,
        where k = "redisKey s u" and v = d and ttl = "redisTTL (rc_now rc w0) tok" and w = w0]
    by (simp add: now)
  note g = conjunct2 [OF r [unfolded redis_server_def], rule_format, where k = "redisKey s u" and w = w2, unfolded later(1)]
  show ?thesis
  proof (cases "rc_now rc w < Expiry tok")
    case True
    then have "redisTTL (rc_now rc w) tok = Expiry tok - rc_now rc w" "Expiry tok - rc_now rc w \<noteq> 0"
      using x by (auto simp: redisTTL_def)
    with e g later(2) True show ?thesis
      by (auto simp: redisLoad_def split: prod.splits sum.splits option.splits if_splits)
  next
    case False
    then have "redisTTL (rc_now rc w) tok = 0" by (simp add: redisTTL_def Let_def)
    with e g later(2) False show ?thesis
      by (auto simp: redisLoad_def split: prod.splits sum.splits option.splits)
  qed
qed

text \<open>Two users of different upstreams can have the same key.\<close>

lemma redis_keys_collide: "redisKey ''alice:crm'' ''mail'' = redisKey ''alice'' ''crm:mail''"
  by (simp add: redisKey_def)

section \<open>Concrete instances\<close>

definition sample_token :: OAuthToken where
  "sample_token = \<lparr>AccessToken = ''at'', RefreshToken = ''rt'', Expiry = 60000000000, TokenType = ''Bearer''\<rparr>"

text \<open>Payloads as three encoded fields, a clock that stands still, and a provider with one token.\<close>

definition sample_oauth :: "(string \<rightharpoonup> OAuthToken) oauth_lib" where
  "sample_oauth =
    \<lparr>ol_AuthCodeURL = (\<lambda>cfg state. oc_AuthURL cfg @ ''?state='' @ state),
     ol_Exchange = (\<lambda>cfg code w. (Inr sample_token, w)), ol_SourceToken = (\<lambda>cfg tok w. (Inr tok, w)),
     ol_HMAC = (\<lambda>key data. key @ data), ol_random = (\<lambda>n w. (Inr (replicate n (CHR ''x'')), w)),
     ol_marshal = (\<lambda>p. Inr (b64Encode (sp_Upstream p) @ ''.'' @ b64Encode (sp_Subject p) @ ''.'' @ b64Encode (sp_Nonce p))),
     ol_unmarshal = (\<lambda>d. case cut_char (CHR ''.'') d of None \<Rightarrow> Inl (ErrText ''bad'') | Some (u, r) \<Rightarrow>
       (case cut_char (CHR ''.'') r of None \<Rightarrow> Inl (ErrText ''bad'') | Some (s, n) \<Rightarrow>
         (case (b64Decode u, b64Decode s, b64Decode n) of
            (Inr u, Inr s, Inr n) \<Rightarrow> Inr \<lparr>sp_Upstream = u, sp_Subject = s, sp_Nonce = n\<rparr> | _ \<Rightarrow> Inl (ErrText ''bad'')))),
     ol_newRequest = (\<lambda>u. None), ol_get = (\<lambda>u w. (Inr (200, []), w)), ol_discovery = (\<lambda>b. Inr (''a'', ''t'')),
     ol_expand = (\<lambda>s. s), ol_now = (\<lambda>w. 0)\<rparr>"

lemma sample_oauth_json: "\<forall>p d. ol_marshal sample_oauth p = Inr d \<longrightarrow> ol_unmarshal sample_oauth d = Inr p"
  by (auto simp: sample_oauth_def cut_char_first [OF b64Encode_no_dot])

definition sample_mux :: "(string \<rightharpoonup> OAuthToken) Mux" where
  "sample_mux = \<lparr>mx_store = Some memoryStore, mx_hmacKey = ''k''\<rparr>"

definition sample_providers :: providers where
  "sample_providers = RegisterProvider ''gh'' ''https://a'' ''https://t'' ''id'' ''secret'' [] ''https://cb'' Map.empty"

definition sample_session :: "(string \<rightharpoonup> OAuthToken) session_provider" where
  "sample_session = \<lparr>ss_store = memoryStore, ss_mux = sample_mux, ss_upstream = ''gh'', ss_cfg = the (sample_providers ''gh'')\<rparr>"

definition bob :: Ctx where
  "bob = background\<lparr>ctx_token := Some (emptyTokenInfo\<lparr>Subject := ''bob''\<rparr>)\<rparr>"

lemma bob_subject: "subjectFromContext bob = ''bob''"
  by (simp add: bob_def subjectFromContext_def)

lemma sample_session_sel [simp]: "ss_store sample_session = memoryStore" "ss_upstream sample_session = ''gh''"
    "ss_mux sample_session = sample_mux" "mx_store sample_mux = Some memoryStore"
  by (simp_all add: sample_session_def sample_mux_def)

lemma state_round_trip_witness:
  "\<exists>state. verifyState sample_oauth sample_mux ''gh'' state = Inr ''bob'' \<and> (\<exists>e. verifyState sample_oauth sample_mux ''gl'' state = Inl e)"
proof -
  obtain state w' where "signedState sample_oauth sample_mux ''gh'' ''bob'' Map.empty = (Inr state, w')"
    by (simp add: signedState_def sample_oauth_def Let_def)
  from state_round_trip [OF sample_oauth_json this] show ?thesis by auto
qed

text \<open>The refusal of a user without a session.\<close>

lemma bob_refused:
  obtains url where "SessionToken sample_oauth sample_session sample_providers bob Map.empty = (Inl (AuthRequiredError url), None, Map.empty)"
proof -
  have "ts_Load memoryStore ''bob'' ''gh'' Map.empty = (Inr None, Map.empty)" by (simp add: memoryStore_def)
  moreover obtain url where "AuthURL sample_oauth sample_mux sample_providers ''gh'' ''bob'' Map.empty = (Inr url, Map.empty)"
    by (simp add: AuthURL_def signedState_def sample_oauth_def sample_providers_def RegisterProvider_def Let_def)
  ultimately show thesis by (intro that) (simp add: SessionToken_def requireAuth_def bob_subject)
qed


lemma callback_writes_signed_subject_only_witness:
  "let state = projr (fst (signedState sample_oauth sample_mux ''gh'' ''bob'' Map.empty));
       r = \<lparr>req_method = ''GET'', req_path = ''/oauth/callback/gh'', req_header = Map.empty, req_remote = [], req_host = [],
            req_url_host = [], req_tls = True, req_body = None, req_query = [(''code'', ''c''), (''state'', state)], req_ctx = background\<rparr>;
       (rsp, w') = HandleCallback sample_oauth sample_mux sample_providers r ''gh'' Map.empty
   in rsp_status rsp = 200 \<and> w' (storeKey ''bob'' ''gh'') = Some sample_token"
proof -
  let ?state = "projr (fst (signedState sample_oauth sample_mux ''gh'' ''bob'' Map.empty))"
  let ?r = "\<lparr>req_method = ''GET'', req_path = ''/oauth/callback/gh'', req_header = Map.empty, req_remote = [], req_host = [],
    req_url_host = [], req_tls = True, req_body = None, req_query = [(''code'', ''c''), (''state'', ?state)], req_ctx = background\<rparr>"
  obtain w0 where sg: "signedState sample_oauth sample_mux ''gh'' ''bob'' Map.empty = (Inr ?state, w0)"
    by (simp add: signedState_def sample_oauth_def Let_def)
  from signed_verifies [OF _ this, of "''gh''"] sample_oauth_json
  have v: "verifyState sample_oauth sample_mux ''gh'' ?state = Inr ''bob''" by (simp add: payload_json_def)
  then have "?state \<noteq> []" by (auto simp: verifyState_def cut_char_def)
  with v obtain rsp where h: "HandleCallback sample_oauth sample_mux sample_providers ?r ''gh'' Map.empty =
      (rsp, [storeKey ''bob'' ''gh'' \<mapsto> sample_token])"
    by (simp add: HandleCallback_def queryParam_def sample_providers_def RegisterProvider_def Let_def memoryStore_def sample_mux_def
        sample_oauth_def)
  have q: "queryParam ?r ''state'' = ?state" by (simp add: queryParam_def)
  from callback_writes_signed_subject_only [OF memory.session_store_axioms _ h, of "''bob''" "''gh''"] v q
  have "rsp_status rsp = 200" by (simp add: sample_mux_def sample_oauth_def)
  with h show ?thesis by (simp add: Let_def)
qed

lemma background_refresh_changes_nothing_witness:
  "let w = [storeKey ''bob'' ''gh'' \<mapsto> sample_token] in
   backgroundRefresh sample_oauth sample_session bob (Some sample_token) w (storeKey ''bob'' ''gh'') = Some sample_token"
proof -
  let ?w = "[storeKey ''bob'' ''gh'' \<mapsto> sample_token]"
  have t: "SessionToken sample_oauth sample_session sample_providers bob ?w = (Inr ''at'', Some sample_token, ?w)"
    by (simp add: SessionToken_def bob_subject memoryStore_def sample_token_def sample_oauth_def refreshWindow_def Let_def)
  have st: "session_store (ss_store sample_session) (\<lambda>m s u. m (storeKey s u)) (\<lambda>s u. CHR 0x00 \<notin> set s)"
    by (simp add: memory.session_store_axioms)
  from background_refresh_changes_nothing [OF st _ _ t, of ?w "''bob''" "''gh''"] show ?thesis
    by (simp add: bob_subject sample_oauth_def sample_token_def)
qed

text \<open>A Redis server and a table as maps; the cipher of the instances is the identity.\<close>

type_synonym redis_world = "(string \<rightharpoonup> string \<times> Time option) \<times> Time"

definition sample_redis :: "redis_world redis_client" where
  "sample_redis =
    \<lparr>rc_Ping = (\<lambda>a p w. (None, w)), rc_Instrument = None,
     rc_Set = (\<lambda>k v ttl w. (None, ((fst w)(k \<mapsto> (v, if ttl = 0 then None else Some (snd w + ttl))), snd w))),
     rc_Get = (\<lambda>k w. (Inr (case fst w k of None \<Rightarrow> None
        | Some (v, d) \<Rightarrow> if (case d of None \<Rightarrow> True | Some t \<Rightarrow> snd w < t) then Some v else None), w)),
     rc_Del = (\<lambda>k w. (None, ((fst w)(k := None), snd w))), rc_now = snd\<rparr>"

definition sample_crypto :: "'w crypto" where
  "sample_crypto =
    \<lparr>cy_NewCipher = (\<lambda>k. Inr 0), cy_NewGCM = (\<lambda>b. Inr \<lparr>ae_NonceSize = 12, ae_Seal = (\<lambda>n p. p), ae_Open = (\<lambda>n c. Inr c)\<rparr>),
     cy_random = (\<lambda>n w. (Inr (replicate n (CHR ''x'')), w)), cy_expand = (\<lambda>s. s),
     cy_marshal = (\<lambda>tok. if tok = sample_token then Inr ''t'' else Inl (ErrText ''other'')),
     cy_unmarshal = (\<lambda>d. if d = ''t'' then Inr sample_token else Inl (ErrText ''other''))\<rparr>"

lemma sample_crypto_sound: "sound_crypto sample_crypto"
  by (auto simp: sound_crypto_def sample_crypto_def newGCM_def split: if_splits)

lemma redis_session_lifetime_witness:
  "let w1 = snd (redisSave sample_crypto sample_redis ''key'' ''bob'' ''gh'' sample_token (Map.empty, 0))
   in fst (redisLoad sample_crypto sample_redis ''key'' ''bob'' ''gh'' (fst w1, 60000000000)) = Inr None"
proof -
  let ?w1 = "snd (redisSave sample_crypto sample_redis ''key'' ''bob'' ''gh'' sample_token (Map.empty, 0))"
  have sv: "redisSave sample_crypto sample_redis ''key'' ''bob'' ''gh'' sample_token (Map.empty, 0) = (None, ?w1)"
    by (simp add: redisSave_def sealToken_def Encrypt_def newGCM_def sample_crypto_def sample_redis_def)
  obtain t w3 where l: "redisLoad sample_crypto sample_redis ''key'' ''bob'' ''gh'' (fst ?w1, 60000000000) = (Inr t, w3)"
    by (simp add: redisLoad_def redisSave_def sealToken_def Encrypt_def newGCM_def sample_crypto_def sample_redis_def redisTTL_def
        sample_token_def)
  have n: "rc_now sample_redis = snd" by (simp add: sample_redis_def)
  have "redis_server sample_redis fst" unfolding redis_server_def n by (simp add: sample_redis_def)
  from redis_session_lifetime [OF this sv _ _ _ l] l show ?thesis by (simp add: sample_token_def sample_crypto_def sample_redis_def)
qed

definition sample_sql :: "(string \<times> string \<rightharpoonup> string) sql_pool" where
  "sample_sql =
    \<lparr>sq_ParseConfig = (\<lambda>dsn. None), sq_Connect = (\<lambda>dsn w. (None, w)), sq_CreateTable = (\<lambda>w. (None, w)), sq_Upsert = (\<lambda>s u d w. (None, w((s, u) \<mapsto> d))),
     sq_Select = (\<lambda>s u w. (Inr (w (s, u)), w)), sq_Delete = (\<lambda>s u w. (None, w((s, u) := None)))\<rparr>"

lemma encrypted_store_keeps_sessions_witness:
  "session_store (postgresStore sample_crypto sample_sql ''key'') (sealed_view sample_crypto ''key'' (\<lambda>w. w)) (\<lambda>s u. True)"
proof -
  have "sql_table sample_sql (\<lambda>w. w)" by (simp add: sql_table_def sample_sql_def)
  from encrypted_store_keeps_sessions [OF sample_crypto_sound this] show ?thesis by (simp add: sample_crypto_def)
qed

end
