(* ===== verification/CommandUpstream.thy ===== *)
theory CommandUpstream
  imports Validator ToolRegistry
begin

text \<open>
  Upstreams of type \<^verbatim>\<open>command\<close>, \<^verbatim>\<open>pkg/upstream/command\<close>: the construction of their tools, the
  rendering of a command for direct execution and for \<^verbatim>\<open>sh -c\<close>, its environment, the bounded
  capture of its output and the result of a call. The engine of \<^verbatim>\<open>text/template\<close> and the execution of
  a process are parameters; a process is what it writes to its two outputs, chunk by chunk,
  and the error \<^verbatim>\<open>Run\<close> returns.
\<close>

section \<open>Captured output\<close>

record limitWriter =
  lw_w :: string
  lw_remaining :: int

definition Write :: "string \<Rightarrow> limitWriter \<Rightarrow> int \<times> limitWriter" where
  "Write p lw =
     (let origLen = int (length p) in
      if lw_remaining lw \<le> 0 then (origLen, lw)
      else (let p = (if origLen > lw_remaining lw then take (nat (lw_remaining lw)) p else p)
            in (origLen, \<lparr>lw_w = lw_w lw @ p, lw_remaining = lw_remaining lw - int (length p)\<rparr>)))"

definition captured :: "int \<Rightarrow> string list \<Rightarrow> string" where
  "captured maxOut chunks = lw_w (fold (\<lambda>p lw. snd (Write p lw)) chunks \<lparr>lw_w = [], lw_remaining = maxOut\<rparr>)"

section \<open>Template values\<close>

text \<open>The values the template engine sees: \<^term>\<open>TSafe s\<close> is a \<^verbatim>\<open>shellSafeString\<close>.\<close>

datatype tval =
    TNil
  | TBool bool
  | TNum rat
  | TStr string
  | TSafe string
  | TList "tval list"
  | TMap "(string \<times> tval) list"

fun template_value :: "goval \<Rightarrow> tval" where
  "template_value GNil = TNil"
| "template_value (GBool b) = TBool b"
| "template_value (GNum r) = TNum r"
| "template_value (GStr s) = TStr s"
| "template_value (GList vs) = TList (map template_value vs)"
| "template_value (GMap kvs) = TMap (map (\<lambda>(k, v). (k, template_value v)) kvs)"

fun shellSafeValue :: "goval \<Rightarrow> tval" where
  "shellSafeValue (GStr s) = TSafe s"
| "shellSafeValue (GMap kvs) = TMap (map (\<lambda>(k, v). (k, shellSafeValue v)) kvs)"
| "shellSafeValue (GList vs) = TList (map shellSafeValue vs)"
| "shellSafeValue v = template_value v"

definition shellQuote :: "string \<Rightarrow> string" where
  "shellQuote s =
     [CHR 0x27] @ replace_char CHR 0x27 [CHR 0x27, CHR 0x5C, CHR 0x27, CHR 0x27] s @ [CHR 0x27]"

text \<open>\<^verbatim>\<open>shellSafeString.String\<close>, the form a printer takes for the value.\<close>

definition String :: "string \<Rightarrow> string" where
  "String s = shellQuote s"

section \<open>Rendering\<close>

text \<open>A parsed template is the function it executes; both steps may fail.\<close>

record Cmd =
  cmd_Args :: "string list"
  cmd_Env :: "string list"
  cmd_Dir :: string
  cmd_Timeout :: "Duration option"

record 'w process_lib =
  pl_Parse :: "string \<Rightarrow> goerr + (tval \<Rightarrow> goerr + string)"
  pl_environ :: "'w \<Rightarrow> string gomap"
  pl_range :: "string gomap \<Rightarrow> string gomap"
  pl_Run :: "Cmd \<Rightarrow> 'w \<Rightarrow> ((string list \<times> string list) \<times> goerr option) \<times> 'w"
  pl_json :: go_json
  pl_gojq :: gojq
  pl_alloc :: "'w \<Rightarrow> nat \<times> 'w"

definition execute_template :: "'w process_lib \<Rightarrow> string \<Rightarrow> tval \<Rightarrow> goerr + string" where
  "execute_template lib tmplStr data =
     (case pl_Parse lib tmplStr of
        Inl e \<Rightarrow> Inl (ErrWrap ''parsing template'' e)
      | Inr tmpl \<Rightarrow>
          (case tmpl data of Inl e \<Rightarrow> Inl (ErrWrap ''executing template'' e) | Inr s \<Rightarrow> Inr s))"

definition renderToken :: "'w process_lib \<Rightarrow> string \<Rightarrow> args \<Rightarrow> goerr + string" where
  "renderToken lib tmplStr args = execute_template lib tmplStr (template_value (GMap args))"

definition renderShellTemplate :: "'w process_lib \<Rightarrow> string \<Rightarrow> args \<Rightarrow> goerr + string" where
  "renderShellTemplate lib tmplStr args =
     (let safeArgs = map (\<lambda>(k, v). (k, shellSafeValue v)) args in execute_template lib tmplStr (TMap safeArgs))"

definition validateTemplate :: "'w process_lib \<Rightarrow> string \<Rightarrow> goerr option" where
  "validateTemplate lib tmplStr = (case pl_Parse lib tmplStr of Inl e \<Rightarrow> Some e | Inr t \<Rightarrow> None)"

definition token_error :: "string \<Rightarrow> goerr option" where
  "token_error tok =
     (let hasOpen = has_prefix tok ''{{''; hasClose = has_suffix tok ''}}'' in
      if tok = ''{{'' \<or> (hasOpen \<and> \<not> hasClose)
        then Some (ErrText (''template delimiter fragment '' @ go_quote tok @
          '' in non-shell command; use {{.var}} without spaces or enable shell: true''))
      else if hasClose \<and> \<not> hasOpen
        then Some (ErrText (''dangling '' @ go_quote ''}}'' @ '' in token '' @ go_quote tok @
          ''; template delimiters must not span whitespace in non-shell mode''))
      else None)"

fun first_error :: "('a \<Rightarrow> goerr option) \<Rightarrow> 'a list \<Rightarrow> goerr option" where
  "first_error f [] = None"
| "first_error f (x # xs) = (case f x of Some e \<Rightarrow> Some e | None \<Rightarrow> first_error f xs)"

definition validateNonShellTokens :: "string \<Rightarrow> goerr option" where
  "validateNonShellTokens command = first_error token_error (GoLib.fields command)"

text \<open>The loop of \<^verbatim>\<open>expandBraced\<close> at position \<^term>\<open>i\<close> of the value.\<close>

function expand_from :: "(string \<Rightarrow> string option) \<Rightarrow> nat \<Rightarrow> string \<Rightarrow> goerr + string" where
  "expand_from env i [] = Inr []"
| "expand_from env i (c # cs) =
     (if c \<noteq> CHR ''$'' then map_sum id (Cons c) (expand_from env (i + 1) cs)
      else (case cs of
        [] \<Rightarrow> Inr ''$''
      | d # rest \<Rightarrow>
          if d \<noteq> CHR ''{'' then Inl (ErrText (''unbraced $VAR syntax at position '' @ show_nat i @ ''; use ${VAR} instead''))
          else (case cut_char CHR ''}'' rest of
            None \<Rightarrow> Inl (ErrText ''unclosed ${ in env value'')
          | Some (varName, after) \<Rightarrow>
              if varName = [] then Inl (ErrText ''empty variable name in ${}'')
              else (case env varName of
                None \<Rightarrow> Inl (ErrText (''env var ${'' @ varName @ ''} is not set''))
              | Some expanded \<Rightarrow>
                  map_sum id ((@) expanded) (expand_from env (i + 2 + length varName + 1) after)))))"
  by pat_completeness auto

lemma cut_char_Some: "cut_char c s = Some (a, b) \<longleftrightarrow> s = a @ c # b \<and> c \<notin> set a"
proof
  assume "cut_char c s = Some (a, b)"
  then have c: "c \<in> set s" and a: "a = takeWhile (\<lambda>x. x \<noteq> c) s" and b: "b = tl (dropWhile (\<lambda>x. x \<noteq> c) s)"
    by (auto simp: cut_char_def before_char_def split: if_splits)
  from c have "dropWhile (\<lambda>x. x \<noteq> c) s \<noteq> []" by (auto simp: dropWhile_eq_Nil_conv)
  then have "dropWhile (\<lambda>x. x \<noteq> c) s = c # b"
    using hd_dropWhile [of "\<lambda>x. x \<noteq> c" s] b by (metis list.collapse)
  then show "s = a @ c # b \<and> c \<notin> set a"
    using a takeWhile_dropWhile_id [of "\<lambda>x. x \<noteq> c" s] by (metis (mono_tags, lifting) set_takeWhileD)
next
  assume s: "s = a @ c # b \<and> c \<notin> set a"
  then have "takeWhile (\<lambda>x. x \<noteq> c) s = a" "dropWhile (\<lambda>x. x \<noteq> c) s = c # b"
    by (auto simp: takeWhile_tail takeWhile_append dropWhile_append)
  with s show "cut_char c s = Some (a, b)" by (simp add: cut_char_def before_char_def)
qed

termination expand_from
  by (relation "measure (\<lambda>(env, i, s). length s)") (auto simp: cut_char_Some)

definition expandBraced :: "(string \<Rightarrow> string option) \<Rightarrow> string \<Rightarrow> goerr + string" where
  "expandBraced env v = (if CHR ''$'' \<notin> set v then Inr v else expand_from env 0 v)"

section \<open>Execution\<close>

record CommandDef =
  cd_Command :: string
  cd_Env :: "string gomap"
  cd_WorkingDir :: string
  cd_Timeout :: Duration
  cd_MaxOutput :: int
  cd_Shell :: bool

definition DefaultMaxOutputBytes :: int where
  "DefaultMaxOutputBytes = 1048576"

text \<open>\<^verbatim>\<open>exec.CommandContext\<close>\<close>

definition exec_command :: "string list \<Rightarrow> Cmd" where
  "exec_command argv = \<lparr>cmd_Args = argv, cmd_Env = [], cmd_Dir = [], cmd_Timeout = None\<rparr>"

definition buildCmd :: "'w process_lib \<Rightarrow> CommandDef \<Rightarrow> args \<Rightarrow> goerr + Cmd" where
  "buildCmd lib d args =
     (if cd_Shell d then
        (case renderShellTemplate lib (cd_Command d) args of
           Inl e \<Rightarrow> Inl (ErrWrap ''rendering shell command template'' e)
         | Inr rendered \<Rightarrow> Inr (exec_command [''sh'', ''-c'', rendered]))
      else
        (let tokens = GoLib.fields (cd_Command d) in
         if tokens = [] then Inl (ErrText ''empty command'')
         else (case sum_map (\<lambda>tok. case renderToken lib tok args of
                   Inl e \<Rightarrow> Inl (ErrWrap (''rendering token '' @ go_quote tok) e) | Inr r \<Rightarrow> Inr r) tokens of
                 Inl e \<Rightarrow> Inl e
               | Inr rendered \<Rightarrow> Inr (exec_command rendered))))"

definition env_override :: "(string \<Rightarrow> string option) \<Rightarrow> string \<times> string \<Rightarrow> goerr + string" where
  "env_override env kv =
     (case expandBraced env (snd kv) of
        Inl e \<Rightarrow> Inl (ErrWrap (''expanding env var '' @ go_quote (fst kv)) e)
      | Inr expanded \<Rightarrow> Inr (fst kv @ ''='' @ expanded))"

definition commandExecute ::
    "'w process_lib \<Rightarrow> CommandDef \<Rightarrow> args \<Rightarrow> 'w \<Rightarrow> ((string \<times> string) \<times> goerr option) \<times> 'w" where
  "commandExecute lib d args w =
     (case buildCmd lib d args of
        Inl e \<Rightarrow> ((([], []), Some (ErrWrap ''building command'' e)), w)
      | Inr cmd \<Rightarrow>
          (case sum_map (env_override (map_of (pl_environ lib w))) (pl_range lib (cd_Env d)) of
             Inl e \<Rightarrow> ((([], []), Some e), w)
           | Inr overrides \<Rightarrow>
               (let cmd = cmd\<lparr>cmd_Env := map (\<lambda>(k, v). k @ ''='' @ v) (pl_environ lib w) @ overrides,
                     cmd_Dir := cd_WorkingDir d,
                     cmd_Timeout := (if cd_Timeout d > 0 then Some (cd_Timeout d) else None)\<rparr>;
                    maxOut = (if cd_MaxOutput d \<le> 0 then DefaultMaxOutputBytes else cd_MaxOutput d)
                in case pl_Run lib cmd w of
                     (((out, err), e), w) \<Rightarrow> (((captured maxOut out, captured maxOut err), e), w))))"

definition commandTextResult :: "go_json \<Rightarrow> string \<Rightarrow> CallToolResult" where
  "commandTextResult js stdout =
     (let text = trim_right (\<lambda>c. c = CHR 0x0A) stdout;
          text = (if text = [] then stdout else text);
          text = (case js_decode js stdout of
                    Inl e \<Rightarrow> text
                  | Inr v \<Rightarrow> (case marshalSorted (num_json (js_nums js)) v of None \<Rightarrow> text | Some b \<Rightarrow> b))
      in ok_result [TextContent text])"

definition commandErrorResult :: "string \<Rightarrow> goerr \<Rightarrow> CallToolResult" where
  "commandErrorResult stderr execErr =
     (let msg = trim_right (\<lambda>c. c = CHR 0x0A) stderr
      in error_result (if msg = [] then err_text execErr else msg))"

definition commandExecutor :: "'w process_lib \<Rightarrow> CommandDef \<Rightarrow> 'w executor" where
  "commandExecutor lib d ctx args w =
     (case commandExecute lib d args w of
        (((stdout, stderr), Some e), w) \<Rightarrow> ((Some (commandErrorResult stderr e), None), w)
      | (((stdout, stderr), None), w) \<Rightarrow> ((Some (commandTextResult (pl_json lib) stdout), None), w))"

section \<open>Construction\<close>

text \<open>A \<^verbatim>\<open>jsonschema.Schema\<close> as the JSON object it stands for; unset fields are left out.\<close>

definition property_schema :: "CommandSchemaProperty \<Rightarrow> goval" where
  "property_schema p =
     GMap ((if CommandSchemaProperty.Type p \<noteq> [] then [(''type'', GStr (CommandSchemaProperty.Type p))] else []) @
           (if CommandSchemaProperty.Description p \<noteq> []
            then [(''description'', GStr (CommandSchemaProperty.Description p))] else []))"

definition buildJSONSchema :: "CommandInputSchema \<Rightarrow> goval" where
  "buildJSONSchema s =
     (let schemaType = (if CommandInputSchema.Type s = [] then ''object'' else CommandInputSchema.Type s) in
      GMap ([(''type'', GStr schemaType)] @
            (if CommandInputSchema.Properties s \<noteq> []
             then [(''properties'', GMap (map (\<lambda>(name, prop). (name, property_schema prop)) (CommandInputSchema.Properties s)))]
             else []) @
            (if CommandInputSchema.Required s \<noteq> []
             then [(''required'', GList (map GStr (CommandInputSchema.Required s)))] else [])))"

record CommandTool =
  ct_PrefixedName :: string
  ct_OriginalName :: string
  ct_MCPTool :: Tool
  ct_Def :: CommandDef
  ct_Transforms :: CompiledTransforms

text \<open>The body of the loop of \<^verbatim>\<open>BuildTools\<close>, for entry \<^term>\<open>i\<close> and the names seen before it.\<close>

definition buildTool ::
    "'w process_lib \<Rightarrow> UpstreamConfig \<Rightarrow> NamingConfig \<Rightarrow> nat \<Rightarrow> string list \<Rightarrow> CommandConfig \<Rightarrow> goerr + CommandTool" where
  "buildTool lib up naming i seen cfg =
     (let toolName = CommandConfig.ToolName cfg; command = CommandConfig.Command cfg;
          failing = ErrWrap (''command '' @ go_quote toolName);
          prefixedName = UpstreamConfig.ToolPrefix up @ Separator naming @ toolName
      in if toolName = [] then Inl (ErrText (''command['' @ show_nat i @ '']: tool_name is required''))
      else if command = [] then Inl (ErrText (''command '' @ go_quote toolName @ '': command string is required''))
      else (case validateTemplate lib command of
        Some e \<Rightarrow> Inl (failing (ErrWrap ''invalid command template'' e))
      | None \<Rightarrow>
          (case (if CommandConfig.Shell cfg then None else validateNonShellTokens command) of
             Some e \<Rightarrow> Inl (failing e)
           | None \<Rightarrow>
               if prefixedName \<in> set seen
               then Inl (ErrText (''duplicate tool_name '' @ go_quote toolName @ '' in command upstream '' @
                      go_quote (UpstreamConfig.Name up)))
               else (case Compile (pl_gojq lib) DefaultResponseExpr DefaultResponseExpr DefaultErrorExpr of
                 Inl e \<Rightarrow> Inl (failing (ErrWrap ''compiling transforms'' e))
               | Inr compiled \<Rightarrow>
                   Inr \<lparr>ct_PrefixedName = prefixedName, ct_OriginalName = toolName,
                     ct_MCPTool = \<lparr>Tool.Name = prefixedName, Tool.Description = CommandConfig.Description cfg,
                       Tool.InputSchema = buildJSONSchema (CommandConfig.InputSchema cfg), Tool.Meta = []\<rparr>,
                     ct_Def = \<lparr>cd_Command = command, cd_Env = CommandConfig.Env cfg,
                       cd_WorkingDir = CommandConfig.WorkingDir cfg, cd_Timeout = CommandConfig.Timeout cfg,
                       cd_MaxOutput = CommandConfig.MaxOutput cfg, cd_Shell = CommandConfig.Shell cfg\<rparr>,
                     ct_Transforms = compiled\<rparr>))))"

fun build_each ::
    "(nat \<Rightarrow> string list \<Rightarrow> 'c \<Rightarrow> goerr + 't) \<Rightarrow> ('t \<Rightarrow> string) \<Rightarrow> nat \<Rightarrow> string list \<Rightarrow> 'c list \<Rightarrow> goerr + 't list" where
  "build_each f name i seen [] = Inr []"
| "build_each f name i seen (cfg # cfgs) =
     (case f i seen cfg of
        Inl e \<Rightarrow> Inl e
      | Inr t \<Rightarrow>
          (case build_each f name (i + 1) (name t # seen) cfgs of Inl e \<Rightarrow> Inl e | Inr ts \<Rightarrow> Inr (t # ts)))"

definition BuildTools ::
    "'w process_lib \<Rightarrow> CommandConfig list \<Rightarrow> UpstreamConfig \<Rightarrow> NamingConfig \<Rightarrow> goerr + CommandTool list" where
  "BuildTools lib cfgs up naming = build_each (buildTool lib up naming) ct_PrefixedName 0 [] cfgs"

definition plainUpstream :: "UpstreamConfig \<Rightarrow> nat \<Rightarrow> Upstream" where
  "plainUpstream cfg addr =
     \<lparr>up_addr = addr, Upstream.Name = UpstreamConfig.Name cfg, Upstream.ToolPrefix = UpstreamConfig.ToolPrefix cfg,
      Upstream.BaseURL = []\<rparr>"

definition plainEntry :: "UpstreamConfig \<Rightarrow> Upstream \<Rightarrow> string \<Rightarrow> string \<Rightarrow> Tool \<Rightarrow> 'w executor \<Rightarrow> 'w RegistryEntry" where
  "plainEntry cfg up prefixed original t ex =
     \<lparr>PrefixedName = prefixed, OriginalName = original, Upstream = Some up, MCPTool = Some t, ResponseFormat = [],
      AuthRequired = True, Method = [], PathTemplate = [], ValidationCfg = zeroValidationConfig, OperationNode = None,
      Executor = ex, RateLimit = UpstreamConfig.RateLimit cfg, UIHandler = None, CacheName = []\<rparr>"

definition commandBuild :: "'w process_lib \<Rightarrow> 'w builder" where
  "commandBuild lib cfg naming w =
     (case BuildTools lib (UpstreamConfig.Commands cfg) cfg naming of
        Inl e \<Rightarrow> (Inl (ErrWrap (''upstream '' @ go_quote (UpstreamConfig.Name cfg) @ '' command validation failed'') e), w)
      | Inr cmdTools \<Rightarrow>
          (let (addr, w) = pl_alloc lib w; up = plainUpstream cfg addr in
           (Inr \<lparr>VConfig = cfg,
              Entries = map (\<lambda>ct. plainEntry cfg up (ct_PrefixedName ct) (ct_OriginalName ct) (ct_MCPTool ct)
                (commandExecutor lib (ct_Def ct))) cmdTools,
              SpecYAMLRoot = None\<rparr>, w)))"

end
