(* ===== verification/CommandLaws.thy ===== *)
theory CommandLaws
  imports CommandUpstream
begin

text \<open>
  What a command upstream promises: its shell commands carry the arguments quoted, its direct
  commands keep one argument per word of the template, captured output is cut at the limit,
  environment references are all expanded or refused, and the tools built are exactly the
  configured ones. The rules by which a shell removes quotes (POSIX, 2.2) are the specification
  the quoting is measured against.
\<close>

section \<open>Quoting in a shell\<close>

text \<open>Scanning gives each character that survives quote removal, \<^term>\<open>Active\<close> when the shell still
  looks at its meaning.\<close>

datatype shell_char = Active char | Quoted char

datatype quoting = Plain | Escape | Single | Double | DoubleEscape

fun quote_step :: "quoting \<Rightarrow> char \<Rightarrow> shell_char list \<times> quoting" where
  "quote_step Plain c =
     (if c = CHR 0x27 then ([], Single) else if c = CHR 0x22 then ([], Double)
      else if c = CHR 0x5C then ([], Escape) else ([Active c], Plain))"
| "quote_step Escape c = ((if c = CHR 0x0A then [] else [Quoted c]), Plain)"
| "quote_step Single c = (if c = CHR 0x27 then ([], Plain) else ([Quoted c], Single))"
| "quote_step Double c =
     (if c = CHR 0x22 then ([], Plain) else if c = CHR 0x5C then ([], DoubleEscape)
      else if c \<in> {CHR ''$'', CHR 0x60} then ([Active c], Double) else ([Quoted c], Double))"
| "quote_step DoubleEscape c =
     ((if c = CHR 0x0A then [] else if c \<in> {CHR ''$'', CHR 0x60, CHR 0x22, CHR 0x5C} then [Quoted c]
       else [Quoted CHR 0x5C, Quoted c]), Double)"

fun shell_scan :: "quoting \<Rightarrow> string \<Rightarrow> shell_char list \<times> quoting" where
  "shell_scan q [] = ([], q)"
| "shell_scan q (c # cs) =
     (let (xs, q) = quote_step q c; (ys, q) = shell_scan q cs in (xs @ ys, q))"

lemma shell_scan_append:
  "shell_scan q (a @ b) = (let (xs, q) = shell_scan q a; (ys, q) = shell_scan q b in (xs @ ys, q))"
  by (induction a arbitrary: q) (auto simp: Let_def split: prod.splits)

lemma scan_single:
  "shell_scan Single (replace_char CHR 0x27 [CHR 0x27, CHR 0x5C, CHR 0x27, CHR 0x27] s) = (map Quoted s, Single)"
  by (induction s) (auto simp: replace_char_def Let_def split: prod.splits)

lemma scan_shellQuote: "shell_scan Plain (shellQuote s) = (map Quoted s, Plain)"
  by (simp add: shellQuote_def shell_scan_append scan_single)

text \<open>A template as its text and the fields of the arguments it prints. The text of a shell template
  may have quotes of its own around text, but prints fields outside quotes only; comments,
  substitutions and here-documents, inside which other rules hold, are left out.\<close>

datatype piece = Text string | Field string

definition plain_text :: "string \<Rightarrow> bool" where
  "plain_text s \<longleftrightarrow> snd (shell_scan Plain s) = Plain \<and>
     set s \<inter> {CHR ''#'', CHR ''$'', CHR 0x60} = {} \<and> \<not> contains_str s ''<<''"

fun nested_print :: "(rat \<Rightarrow> string) \<Rightarrow> tval \<Rightarrow> string" where
  "nested_print num TNil = ''<nil>''"
| "nested_print num (TBool b) = (if b then ''true'' else ''false'')"
| "nested_print num (TNum r) = num r"
| "nested_print num (TStr s) = s"
| "nested_print num (TSafe s) = String s"
| "nested_print num (TList vs) = ''['' @ join_with '' '' (map (nested_print num) vs) @ '']''"
| "nested_print num (TMap kvs) =
     (let shown = map (\<lambda>(k, v). (k, k @ '':'' @ nested_print num v)) kvs
      in ''map['' @ join_with '' '' (map (\<lambda>k. the (map_of shown k)) (sort (map fst kvs))) @ '']'')"

definition field_print :: "(rat \<Rightarrow> string) \<Rightarrow> tval option \<Rightarrow> string" where
  "field_print num v =
     (case v of None \<Rightarrow> ''<no value>'' | Some TNil \<Rightarrow> ''<no value>'' | Some v \<Rightarrow> nested_print num v)"

fun piece_print :: "(rat \<Rightarrow> string) \<Rightarrow> (string \<times> tval) list \<Rightarrow> piece \<Rightarrow> string" where
  "piece_print num kvs (Text s) = s"
| "piece_print num kvs (Field n) = field_print num (map_of kvs n)"

text \<open>The documented behaviour of \<^verbatim>\<open>text/template\<close> for a template of text and \<^verbatim>\<open>{{.field}}\<close> actions
  over a map.\<close>

definition renders :: "'w process_lib \<Rightarrow> (rat \<Rightarrow> string) \<Rightarrow> string \<Rightarrow> piece list \<Rightarrow> bool" where
  "renders lib num tmpl ps \<longleftrightarrow>
     (\<exists>t. pl_Parse lib tmpl = Inr t \<and> (\<forall>kvs. t (TMap kvs) = Inr (concat (map (piece_print num kvs) ps))))"

lemma execute_renders:
  "renders lib num tmpl ps \<Longrightarrow> execute_template lib tmpl (TMap kvs) = Inr (concat (map (piece_print num kvs) ps))"
  by (auto simp: renders_def execute_template_def)

text \<open>What the shell sees of an argument.\<close>

definition shell_argument :: "args \<Rightarrow> string \<Rightarrow> shell_char list" where
  "shell_argument args n =
     (case map_of args n of Some (GStr s) \<Rightarrow> map Quoted s | _ \<Rightarrow> map Active ''<no value>'')"

fun shell_piece :: "args \<Rightarrow> piece \<Rightarrow> shell_char list" where
  "shell_piece args (Text s) = fst (shell_scan Plain s)"
| "shell_piece args (Field n) = shell_argument args n"

lemma map_of_safe: "map_of (map (\<lambda>(k, v). (k, f v)) kvs) n = map_option f (map_of kvs n)"
  by (induction kvs) auto

lemma scan_no_value: "shell_scan Plain ''<no value>'' = (map Active ''<no value>'', Plain)"
  by (simp add: Let_def)

lemma scan_piece:
  assumes "\<forall>s. p = Text s \<longrightarrow> plain_text s"
    and "\<forall>n. p = Field n \<longrightarrow> map_of args n \<in> {None, Some GNil} \<union> range (Some \<circ> GStr)"
  shows "shell_scan Plain (piece_print num (map (\<lambda>(k, v). (k, shellSafeValue v)) args) p) = (shell_piece args p, Plain)"
proof (cases p)
  case (Text s)
  with assms(1) show ?thesis by (simp add: plain_text_def prod_eq_iff)
next
  case (Field n)
  with assms(2) consider "map_of args n = None" | "map_of args n = Some GNil" | s where "map_of args n = Some (GStr s)"
    by auto
  then show ?thesis
    by cases (simp_all only: Field piece_print.simps shell_piece.simps map_of_safe option.map shell_argument_def
        option.case goval.case field_print_def shellSafeValue.simps template_value.simps tval.case nested_print.simps
        String_def scan_shellQuote scan_no_value)
qed

lemma scan_pieces:
  assumes "\<forall>p \<in> set ps. shell_scan Plain (f p) = (g p, Plain)"
  shows "shell_scan Plain (concat (map f ps)) = (concat (map g ps), Plain)"
  using assms by (induction ps) (simp_all add: shell_scan_append)


text \<open>Keys of an object argument are not quoted.\<close>

lemma object_keys_reach_the_shell:
  "fst (shell_scan Plain (nested_print num (shellSafeValue (GMap [('';reboot;'', GStr [])])))) =
   map Active ''map[;reboot;:]''"
  by (simp add: Let_def String_def shellQuote_def replace_char_def)

section \<open>Direct execution\<close>

text \<open>Without a shell the process gets one argument per word of the template, whatever blanks and
  special characters the tool's arguments have; an argument is only ever part of the words that
  name it.\<close>

theorem direct_exec_keeps_words:
  assumes "\<not> cd_Shell d" "GoLib.fields (cd_Command d) \<noteq> []" "list_all2 (renders lib num) (GoLib.fields (cd_Command d)) pss"
  shows "buildCmd lib d args = Inr (exec_command
    (map (\<lambda>ps. concat (map (piece_print num (map (\<lambda>(k, v). (k, template_value v)) args)) ps)) pss))"
proof -
  let ?show = "\<lambda>ps. concat (map (piece_print num (map (\<lambda>(k, v). (k, template_value v)) args)) ps)"
  have "sum_map (\<lambda>tok. case renderToken lib tok args of
      Inl e \<Rightarrow> Inl (ErrWrap (''rendering token '' @ go_quote tok) e) | Inr r \<Rightarrow> Inr r) toks = Inr (map ?show pss)"
    if "list_all2 (renders lib num) toks pss" for toks
    unfolding sum_map_Inr_iff list.rel_map using that
    by (rule list_all2_mono) (simp add: renderToken_def execute_renders)
  from this [OF assms(3)] assms(1,2) show ?thesis by (simp add: buildCmd_def Let_def)
qed

section \<open>Captured output\<close>

lemma Write_count: "fst (Write p lw) = int (length p)"
  by (simp add: Write_def Let_def)

lemma Write_effect:
  "lw_w (snd (Write p lw)) = lw_w lw @ take (nat (lw_remaining lw)) p"
  "nat (lw_remaining (snd (Write p lw))) = nat (lw_remaining lw) - length p"
  by (auto simp: Write_def Let_def)

lemma captured_from:
  "lw_w (fold (\<lambda>p lw. snd (Write p lw)) chunks lw) = lw_w lw @ take (nat (lw_remaining lw)) (concat chunks)"
  by (induction chunks arbitrary: lw) (simp_all add: Write_effect)

lemma captured_eq: "captured maxOut chunks = take (nat maxOut) (concat chunks)"
  by (simp add: captured_def captured_from)

text \<open>C15: a call always answers with a result, an error result exactly when the process fails, and what
  it keeps of an output is its first bytes up to the limit, however the process splits its
  writes; each write is acknowledged in full, so a process that writes more is not stopped.\<close>

theorem command_call_outcome:
  assumes "buildCmd lib d args = Inr cmd" "sum_map (env_override (map_of (pl_environ lib w))) (pl_range lib (cd_Env d)) = Inr vars"
    and "pl_Run lib (cmd\<lparr>cmd_Env := map (\<lambda>(k, v). k @ ''='' @ v) (pl_environ lib w) @ vars, cmd_Dir := cd_WorkingDir d,
      cmd_Timeout := (if cd_Timeout d > 0 then Some (cd_Timeout d) else None)\<rparr>) w = (((outs, errs), e), w')"
    and "limit = (if cd_MaxOutput d \<le> 0 then 1048576 else nat (cd_MaxOutput d))"
  shows "commandExecutor lib d ctx args w =
      ((Some (case e of None \<Rightarrow> commandTextResult (pl_json lib) (take limit (concat outs))
              | Some e \<Rightarrow> commandErrorResult (take limit (concat errs)) e), None), w') \<and>
    (\<exists>r. fst (commandExecutor lib d ctx args w) = (Some r, None) \<and> (IsError r \<longleftrightarrow> e \<noteq> None)) \<and>
    (\<forall>p lw. fst (Write p lw) = int (length p))"
  using assms
  by (auto simp: commandExecutor_def commandExecute_def Let_def captured_eq Write_count DefaultMaxOutputBytes_def
      commandTextResult_def commandErrorResult_def split: option.splits)

section \<open>Environment references\<close>

text \<open>The convention: a reference is braced and its variable is set; a dollar sign may end a value.\<close>

inductive expands :: "(string \<Rightarrow> string option) \<Rightarrow> string \<Rightarrow> string \<Rightarrow> bool" for env where
  none: "expands env [] []"
| dollar: "expands env ''$'' ''$''"
| other: "c \<noteq> CHR ''$'' \<Longrightarrow> expands env s r \<Longrightarrow> expands env (c # s) (c # r)"
| var: "n \<noteq> [] \<Longrightarrow> CHR ''}'' \<notin> set n \<Longrightarrow> env n = Some v \<Longrightarrow> expands env s r \<Longrightarrow>
    expands env (CHR ''$'' # CHR ''{'' # n @ CHR ''}'' # s) (v @ r)"

inductive_cases expands_cons: "expands env (c # s) r"
inductive_simps expands_nil: "expands env [] r"

lemma map_sum_Inr: "map_sum id f x = Inr r \<longleftrightarrow> (\<exists>y. x = Inr y \<and> r = f y)"
  by (cases x) auto

lemma expand_from_sound: "expand_from env i s = Inr r \<Longrightarrow> expands env s r"
proof (induction env i s arbitrary: r rule: expand_from.induct)
  case (2 env i c cs)
  consider "c \<noteq> CHR ''$''" | "c = CHR ''$''" "cs = []" | d rest where "c = CHR ''$''" "cs = d # rest"
    by (cases cs) auto
  then show ?case
  proof cases
    case 1
    with 2 show ?thesis by (auto simp: map_sum_Inr intro: expands.other)
  next
    case 2
    with "2.prems" expands.dollar [of env] show ?thesis by auto
  next
    case 3
    with "2.prems" obtain n v s' r' where n: "d = CHR ''{''" "cut_char CHR ''}'' rest = Some (n, s')" "n \<noteq> []" "env n = Some v"
        and r: "expand_from env (i + 2 + length n + 1) s' = Inr r'" "r = v @ r'"
      by (auto simp: map_sum_Inr split: if_splits option.splits)
    from "2.IH"(2) 3 n r(1) have "expands env s' r'" by simp
    with 3 n r(2) show ?thesis by (simp add: cut_char_Some expands.var)
  qed
qed (simp add: expands.none)

lemma expand_from_complete: "expands env s r \<Longrightarrow> expand_from env i s = Inr r"
proof (induction arbitrary: i rule: expands.induct)
  case (var n v s r)
  then have "cut_char CHR ''}'' (n @ CHR ''}'' # s) = Some (n, s)" by (simp add: cut_char_Some)
  with var show ?case by simp
qed simp_all

lemma expands_plain: "CHR ''$'' \<notin> set s \<Longrightarrow> expands env s s"
  by (induction s) (auto intro: expands.intros)

text \<open>The value of an environment override is expanded exactly when every reference in it is braced
  and names a variable that is set, and then every reference is replaced by its value; everything
  else is an error.\<close>

theorem env_values_expand_iff: "expandBraced env v = Inr r \<longleftrightarrow> expands env v r"
  by (metis expandBraced_def expand_from_complete expand_from_sound expands_plain)

section \<open>Construction\<close>

lemma ex_list_all2: "(\<exists>ys. list_all2 P xs ys) \<longleftrightarrow> list_all (\<lambda>x. \<exists>y. P x y) xs"
  by (induction xs) (auto simp: list_all2_Cons1)

lemma build_each_Inr:
  assumes f: "\<And>i seen cfg t. f i seen cfg = Inr t \<longleftrightarrow> key cfg \<notin> set seen \<and> f 0 [] cfg = Inr t"
    and name: "\<And>cfg t. f 0 [] cfg = Inr t \<Longrightarrow> name t = key cfg"
  shows "build_each f name i seen cfgs = Inr ts \<longleftrightarrow>
    distinct (map key cfgs) \<and> set (map key cfgs) \<inter> set seen = {} \<and> list_all2 (\<lambda>c t. f 0 [] c = Inr t) cfgs ts"
proof (induction cfgs arbitrary: i seen ts)
  case (Cons c cfgs)
  have "build_each f name i seen (c # cfgs) = Inr ts \<longleftrightarrow>
    (\<exists>t us. ts = t # us \<and> f i seen c = Inr t \<and> build_each f name (i + 1) (name t # seen) cfgs = Inr us)"
    by (auto split: sum.splits)
  also have "\<dots> \<longleftrightarrow> (\<exists>t us. ts = t # us \<and> key c \<notin> set seen \<and> f 0 [] c = Inr t \<and>
      distinct (map key cfgs) \<and> set (map key cfgs) \<inter> set (key c # seen) = {} \<and> list_all2 (\<lambda>c t. f 0 [] c = Inr t) cfgs us)"
  proof -
    have "build_each f name (i + 1) (name t # seen) cfgs = Inr us \<longleftrightarrow>
        distinct (map key cfgs) \<and> set (map key cfgs) \<inter> set (key c # seen) = {} \<and> list_all2 (\<lambda>c t. f 0 [] c = Inr t) cfgs us"
      if "f 0 [] c = Inr t" for t us
      using Cons.IH [of "i + 1" "key c # seen" us] name [OF that] by simp
    moreover have "f i seen c = Inr t \<longleftrightarrow> key c \<notin> set seen \<and> f 0 [] c = Inr t" for t by (rule f)
    ultimately show ?thesis by blast
  qed
  finally show ?case by (auto simp: list_all2_Cons1)
qed auto

definition valid_command :: "'w process_lib \<Rightarrow> CommandConfig \<Rightarrow> bool" where
  "valid_command lib c \<longleftrightarrow> CommandConfig.ToolName c \<noteq> [] \<and> CommandConfig.Command c \<noteq> [] \<and>
     (\<exists>t. pl_Parse lib (CommandConfig.Command c) = Inr t) \<and>
     (CommandConfig.Shell c \<or> validateNonShellTokens (CommandConfig.Command c) = None) \<and>
     (\<exists>code. Compile (pl_gojq lib) DefaultResponseExpr DefaultResponseExpr DefaultErrorExpr = Inr code)"

abbreviation command_name :: "UpstreamConfig \<Rightarrow> NamingConfig \<Rightarrow> CommandConfig \<Rightarrow> string" where
  "command_name cfg naming c \<equiv> UpstreamConfig.ToolPrefix cfg @ Separator naming @ CommandConfig.ToolName c"

lemma buildTool_Inr:
  "(\<exists>t. buildTool lib cfg naming i seen c = Inr t) \<longleftrightarrow> command_name cfg naming c \<notin> set seen \<and> valid_command lib c"
  by (auto simp: buildTool_def valid_command_def Let_def validateTemplate_def split: sum.splits option.splits)

lemma buildTool_step:
  "buildTool lib cfg naming i seen c = Inr t \<longleftrightarrow>
     command_name cfg naming c \<notin> set seen \<and> buildTool lib cfg naming 0 [] c = Inr t"
  by (auto simp: buildTool_def Let_def split: sum.splits option.splits)

lemma buildTool_names:
  "buildTool lib cfg naming i seen c = Inr t \<Longrightarrow>
     ct_PrefixedName t = command_name cfg naming c \<and> cd_Command (ct_Def t) = CommandConfig.Command c"
  by (auto simp: buildTool_def Let_def split: sum.splits option.splits if_splits)

lemma BuildTools_Inr:
  "BuildTools lib cs cfg naming = Inr ts \<longleftrightarrow>
     distinct (map CommandConfig.ToolName cs) \<and> list_all2 (\<lambda>c t. buildTool lib cfg naming 0 [] c = Inr t) cs ts"
proof -
  have "distinct (map (command_name cfg naming) cs) = distinct (map CommandConfig.ToolName cs)"
    by (simp add: distinct_map inj_on_def)
  then show ?thesis
    unfolding BuildTools_def
    by (subst build_each_Inr [where key = "command_name cfg naming"])
      (use buildTool_step buildTool_names in \<open>blast+, simp\<close>)
qed

text \<open>A command upstream is built exactly when every command has a name and a template that parses,
  direct commands keep their actions within words and no two commands share a name; then it has one
  entry per command, in order, under pairwise distinct names, each behind authentication and the
  upstream's rate limit.\<close>

theorem command_upstream_builds_iff:
  "case fst (commandBuild lib cfg naming w) of
     Inl e \<Rightarrow> \<not> (distinct (map CommandConfig.ToolName (UpstreamConfig.Commands cfg)) \<and>
               list_all (valid_command lib) (UpstreamConfig.Commands cfg))
   | Inr vu \<Rightarrow> distinct (map CommandConfig.ToolName (UpstreamConfig.Commands cfg)) \<and>
       list_all (valid_command lib) (UpstreamConfig.Commands cfg) \<and>
       map RegistryEntry.PrefixedName (Entries vu) = map (command_name cfg naming) (UpstreamConfig.Commands cfg) \<and>
       distinct (map RegistryEntry.PrefixedName (Entries vu)) \<and>
       list_all (\<lambda>e. AuthRequired e \<and> RegistryEntry.RateLimit e = UpstreamConfig.RateLimit cfg) (Entries vu)"
proof -
  let ?cs = "UpstreamConfig.Commands cfg"
  have valid: "list_all (valid_command lib) ?cs \<longleftrightarrow> (\<exists>ts. list_all2 (\<lambda>c t. buildTool lib cfg naming 0 [] c = Inr t) ?cs ts)"
    using buildTool_Inr [of lib cfg naming 0 "[]"] by (simp add: ex_list_all2)
  show ?thesis
  proof (cases "BuildTools lib ?cs cfg naming")
    case (Inl e)
    then have "\<nexists>ts. BuildTools lib ?cs cfg naming = Inr ts" by simp
    then have "\<not> (distinct (map CommandConfig.ToolName ?cs) \<and> list_all (valid_command lib) ?cs)"
      unfolding BuildTools_Inr valid by blast
    with Inl show ?thesis by (simp add: commandBuild_def)
  next
    case (Inr ts)
    then have d: "distinct (map CommandConfig.ToolName ?cs)"
      and l: "list_all2 (\<lambda>c t. buildTool lib cfg naming 0 [] c = Inr t) ?cs ts" by (simp_all add: BuildTools_Inr)
    from l have "map ct_PrefixedName ts = map (command_name cfg naming) ?cs"
      by (induction rule: list_all2_induct) (auto dest: buildTool_names)
    with Inr d l valid show ?thesis
      by (auto simp: commandBuild_def plainEntry_def Let_def list_all_iff comp_def distinct_map inj_on_def split: prod.splits)
  qed
qed

section \<open>Witnesses\<close>

text \<open>A template engine for one greeting, and a process that prints its last argument in two writes.\<close>

definition greeting_parse :: "string \<Rightarrow> goerr + (tval \<Rightarrow> goerr + string)" where
  "greeting_parse tmpl =
     (let ps = (if tmpl = ''echo {{.x}}'' then [Text ''echo '', Field ''x'']
                else if tmpl = ''{{.x}}'' then [Field ''x''] else [Text tmpl])
      in Inr (\<lambda>v. case v of TMap kvs \<Rightarrow> Inr (concat (map (piece_print (\<lambda>r. []) kvs) ps)) | _ \<Rightarrow> Inr []))"

definition sample_process :: "unit process_lib" where
  "sample_process = \<lparr>pl_Parse = greeting_parse, pl_environ = (\<lambda>w. [(''HOME'', ''/root'')]), pl_range = id,
     pl_Run = (\<lambda>cmd w. (((cmd_Args cmd, [''no '', ''space'']), (if cmd_Dir cmd = [] then None else Some (ErrText ''exit status 1''))), w)),
     pl_json = \<lparr>js_decode = (\<lambda>s. Inl (ErrText ''no JSON'')), js_encode = (\<lambda>v. None),
       js_nums = \<lparr>num_json = (\<lambda>r. None), num_sprint = (\<lambda>r. [])\<rparr>\<rparr>,
     pl_gojq = \<lparr>jq_Parse = Inr, jq_Compile = (\<lambda>q. Inr (\<lambda>v. [Inr v]))\<rparr>, pl_alloc = (\<lambda>w. (0, w))\<rparr>"

definition sample_command :: CommandDef where
  "sample_command = \<lparr>cd_Command = ''echo {{.x}}'', cd_Env = [(''H'', ''${HOME}/x'')], cd_WorkingDir = [], cd_Timeout = 0,
     cd_MaxOutput = 6, cd_Shell = True\<rparr>"

lemma sample_process_sel [simp]:
  "pl_Parse sample_process = greeting_parse" "pl_environ sample_process w = [(''HOME'', ''/root'')]"
  "pl_range sample_process = id"
  by (simp_all add: sample_process_def)

lemma sample_renders:
  "renders sample_process (\<lambda>r. []) ''echo {{.x}}'' [Text ''echo '', Field ''x'']"
  "renders sample_process (\<lambda>r. []) ''{{.x}}'' [Field ''x'']"
  "renders sample_process (\<lambda>r. []) ''echo'' [Text ''echo'']"
  by (simp_all add: renders_def greeting_parse_def Let_def)


lemma direct_exec_keeps_words_witness:
  "buildCmd sample_process (sample_command\<lparr>cd_Shell := False\<rparr>) [(''x'', GStr ''a; b'')] =
   Inr (exec_command [''echo'', ''a; b''])"
proof -
  have "GoLib.fields (cd_Command (sample_command\<lparr>cd_Shell := False\<rparr>)) = [''echo'', ''{{.x}}'']"
    by (simp add: sample_command_def is_space_def)
  with direct_exec_keeps_words [of "sample_command\<lparr>cd_Shell := False\<rparr>" sample_process "\<lambda>r. []"
      "[[Text ''echo''], [Field ''x'']]" "[(''x'', GStr ''a; b'')]"] sample_renders(2,3)
  show ?thesis by (simp add: sample_command_def field_print_def)
qed

lemma sample_env: "sum_map (env_override (map_of [(''HOME'', ''/root'')])) [(''H'', ''${HOME}/x'')] = Inr [''H=/root/x'']"
  by (simp add: env_override_def expandBraced_def cut_char_def before_char_def)

lemma command_call_outcome_witness:
  "\<exists>r. fst (commandExecutor sample_process (sample_command\<lparr>cd_Shell := False\<rparr>) background [(''x'', GStr ''a; b'')] ()) =
     (Some r, None) \<and> \<not> IsError r"
proof -
  from command_call_outcome [of sample_process "sample_command\<lparr>cd_Shell := False\<rparr>" "[(''x'', GStr ''a; b'')]"
      "exec_command [''echo'', ''a; b'']" "()" "[''H=/root/x'']" "[''echo'', ''a; b'']" "[''no '', ''space'']" None "()" 6 background]
  show ?thesis
    using direct_exec_keeps_words_witness sample_env
    by (auto simp: sample_command_def sample_process_def exec_command_def)
qed

end
