(* ===== verification/ScriptRuntime.thy ===== *)
theory ScriptRuntime
  imports Session
begin

text \<open>
  Script runtimes, \<^verbatim>\<open>pkg/runtime\<close>: the pools and their registry, and the authentication strategies
  written in JavaScript (\<^verbatim>\<open>js/js.go\<close>) and Lua (\<^verbatim>\<open>lua/lua.go\<close>). The interpreters sobek and
  gopher-lua are parameters: a run takes a compiled program, what the host offers to it and its
  arguments, and ends with a value or an error. The semaphore, the HTTP client, the clock and
  the environment are parameters as well; logging is left out.
\<close>

section \<open>Pools\<close>

record Pool =
  cap :: int

definition NewPool :: "int \<Rightarrow> goerr + Pool" where
  "NewPool limit =
     (if limit \<le> 0 then Inl (ErrText (''runtime.NewPool: max must be > 0, got '' @ show_int limit))
      else Inr \<lparr>cap = limit\<rparr>)"

definition Cap :: "Pool \<Rightarrow> int" where
  "Cap p = cap p"

text \<open>A weighted semaphore, \<^verbatim>\<open>golang.org/x/sync\<close>, known by the name of its pool. Acquiring waits and
  fails when the context ends first.\<close>

record 'w semaphore =
  sem_Acquire :: "PoolAcquirer \<Rightarrow> Ctx \<Rightarrow> 'w \<Rightarrow> goerr option \<times> 'w"
  sem_Release :: "PoolAcquirer \<Rightarrow> 'w \<Rightarrow> 'w"

definition Acquire :: "'w semaphore \<Rightarrow> PoolAcquirer \<Rightarrow> Ctx \<Rightarrow> 'w \<Rightarrow> (goerr + ('w \<Rightarrow> 'w)) \<times> 'w" where
  "Acquire sem p ctx w =
     (case sem_Acquire sem p ctx w of
        (Some e, w) \<Rightarrow> (Inl (ErrWrap ''acquiring runtime slot'' e), w)
      | (None, w) \<Rightarrow> (Inr (sem_Release sem p), w))"

text \<open>A function that acquires a slot first and defers its release.\<close>

definition with_slot ::
    "'w semaphore \<Rightarrow> string \<Rightarrow> PoolAcquirer \<Rightarrow> Ctx \<Rightarrow> ('c \<times> 'w \<Rightarrow> (goerr + 'a) \<times> 'c \<times> 'w) \<Rightarrow>
     'c \<times> 'w \<Rightarrow> (goerr + 'a) \<times> 'c \<times> 'w" where
  "with_slot sem what p ctx body cw =
     (case cw of (c, w) \<Rightarrow>
       (case Acquire sem p ctx w of
          (Inl e, w) \<Rightarrow> (Inl (ErrWrap what e), c, w)
        | (Inr release, w) \<Rightarrow> (case body (c, w) of (res, c, w) \<Rightarrow> (res, c, release w))))"

section \<open>The registry of runtimes\<close>

type_synonym runtime_factory = "RuntimeConfig \<Rightarrow> goerr + Pool"

definition DefaultMaxAuthVMs :: int where "DefaultMaxAuthVMs = 10"

definition DefaultMaxScriptVMs :: int where "DefaultMaxScriptVMs = 20"

definition registerRuntime :: "string \<Rightarrow> runtime_factory \<Rightarrow> runtime_factory registry \<Rightarrow> runtime_factory registry" where
  "registerRuntime name f factories = (if name = [] then factories else snd (RegisterIfAbsent name f factories))"

record Registry =
  pools :: "Pool registry"

text \<open>The registered factories in the order the range visits them.\<close>

definition NewRegistry :: "(string \<times> runtime_factory) list \<Rightarrow> RuntimeConfig \<Rightarrow> goerr + Registry" where
  "NewRegistry snap cfg =
     (case sum_map (\<lambda>(name, f). case f cfg of
          Inl e \<Rightarrow> Inl (ErrWrap (''building runtime pool '' @ go_quote name) e)
        | Inr rt \<Rightarrow> Inr (name, rt)) snap of
        Inl e \<Rightarrow> Inl e
      | Inr rts \<Rightarrow> Inr \<lparr>pools = fold (\<lambda>(name, rt) m. m(name \<mapsto> rt)) rts Map.empty\<rparr>)"

definition getRuntime :: "Registry option \<Rightarrow> string \<Rightarrow> Pool option" where
  "getRuntime r name = (case r of None \<Rightarrow> None | Some r \<Rightarrow> pools r name)"

definition All :: "Registry option \<Rightarrow> Pool registry" where
  "All r = (case r of None \<Rightarrow> Map.empty | Some r \<Rightarrow> pools r)"

definition bounded_pool :: "string \<Rightarrow> int \<Rightarrow> int \<Rightarrow> goerr + Pool" where
  "bounded_pool key configured fallback =
     (let limit = (if configured = 0 then fallback else configured) in
      if limit < 0 then Inl (ErrText (key @ '' must be > 0, got '' @ show_int limit)) else NewPool limit)"

definition jsAuthPool :: runtime_factory where
  "jsAuthPool cfg = bounded_pool ''runtime.js.max_auth_vms'' (JSRuntimeConfig.MaxAuthVMs (RuntimeConfig.JS cfg)) DefaultMaxAuthVMs"

definition jsScriptPool :: runtime_factory where
  "jsScriptPool cfg =
     bounded_pool ''runtime.js.max_script_vms'' (JSRuntimeConfig.MaxScriptVMs (RuntimeConfig.JS cfg)) DefaultMaxScriptVMs"

definition luaAuthPool :: runtime_factory where
  "luaAuthPool cfg = bounded_pool ''runtime.lua.max_auth_vms'' (LuaRuntimeConfig.MaxAuthVMs (RuntimeConfig.Lua cfg)) DefaultMaxAuthVMs"

section \<open>The cache scripts share\<close>

record scriptCacheItem =
  sc_value :: goval
  sc_expiresAt :: "Time option"

type_synonym scriptCache = "string \<rightharpoonup> scriptCacheItem"

definition newScriptCache :: scriptCache where
  "newScriptCache = Map.empty"

definition cacheGet :: "Time \<Rightarrow> string \<Rightarrow> scriptCache \<Rightarrow> goval \<times> scriptCache" where
  "cacheGet now key c =
     (case c key of
        None \<Rightarrow> (GNil, c)
      | Some item \<Rightarrow>
          (case sc_expiresAt item of
             Some t \<Rightarrow> if t < now then (GNil, c(key := None)) else (sc_value item, c)
           | None \<Rightarrow> (sc_value item, c)))"

text \<open>A time to live that is no number is \<^term>\<open>None\<close>; it is not positive.\<close>

definition cacheSet :: "Time \<Rightarrow> string \<Rightarrow> goval \<Rightarrow> rat option \<Rightarrow> scriptCache \<Rightarrow> scriptCache" where
  "cacheSet now key v ttlSeconds c =
     c(key \<mapsto> \<lparr>sc_value = v,
        sc_expiresAt = (case ttlSeconds of
          Some ttl \<Rightarrow> if ttl > 0 then Some (now + go_trunc (ttl * 1000000000)) else None
        | None \<Rightarrow> None)\<rparr>)"

section \<open>JavaScript: what the host offers\<close>

text \<open>Values of the interpreter and the conversions the code uses. \<^verbatim>\<open>Get\<close> of a missing property is nil.\<close>

record 'v js_values =
  jv_String :: "'v \<Rightarrow> string"
  jv_missing :: "'v \<Rightarrow> bool"
  jv_ToObject :: "'v \<Rightarrow> goerr + 'v"
  jv_Get :: "'v \<Rightarrow> string \<Rightarrow> 'v option"
  jv_Keys :: "'v \<Rightarrow> string list"
  jv_ToFloat :: "'v \<Rightarrow> rat option"
  jv_Export :: "'v \<Rightarrow> goval"
  jv_ToValue :: "goval \<Rightarrow> 'v"
  jv_Undefined :: 'v
  jv_Null :: 'v

text \<open>The functions a script can call; an error is thrown into the script.\<close>

record ('v, 'w) js_host =
  jh_env :: "string gomap"
  jh_jwt_decode :: "'v list \<Rightarrow> goerr + 'v"
  jh_cache_get :: "'v list \<Rightarrow> scriptCache \<times> 'w \<Rightarrow> 'v \<times> scriptCache \<times> 'w"
  jh_cache_set :: "'v list \<Rightarrow> scriptCache \<times> 'w \<Rightarrow> 'v \<times> scriptCache \<times> 'w"
  jh_fetch :: "'v list \<Rightarrow> 'w \<Rightarrow> (goerr + 'v) \<times> 'w"

text \<open>How a run ends: the context object cannot be set, the program fails, it exports no function, the
  function throws or is interrupted, or it returns.\<close>

datatype 'v script_end = SetFailed goerr | RunFailed goerr | NotCallable | CallFailed goerr | Returned 'v

record ('p, 'v, 'w) js_lib =
  js_values :: "'v js_values"
  js_Compile :: "string \<Rightarrow> string \<Rightarrow> goerr + 'p"
  js_Run :: "'p \<Rightarrow> ('v, 'w) js_host \<Rightarrow> 'v \<Rightarrow> Duration \<Rightarrow> scriptCache \<times> 'w \<Rightarrow> 'v script_end \<times> scriptCache \<times> 'w"
  js_readFile :: "string \<Rightarrow> 'w \<Rightarrow> goerr + string"
  js_expandEnv :: "'w \<Rightarrow> string \<Rightarrow> string"
  js_now :: "'w \<Rightarrow> Time"
  js_newRequest :: "string \<Rightarrow> string \<Rightarrow> goerr option"
  js_Do :: "'w round_tripper"
  js_range :: "string gomap \<Rightarrow> string gomap"
  js_json :: go_json
  js_typeName :: "goval \<Rightarrow> string"
  js_pools :: "'w semaphore"

definition jwtDecode :: "('p, 'v, 'w) js_lib \<Rightarrow> 'v list \<Rightarrow> goerr + 'v" where
  "jwtDecode lib call =
     (case call of
        [] \<Rightarrow> Inl (ErrText ''ctx.jwt.decode requires a token argument'')
      | arg # _ \<Rightarrow>
          (let parts = split_char CHR ''.'' (jv_String (js_values lib) arg) in
           if length parts < 2 then Inl (ErrText ''ctx.jwt.decode: invalid JWT format'')
           else (case b64Decode (parts ! 1) of
             Inl e \<Rightarrow> Inl (ErrWrap ''ctx.jwt.decode: decoding payload'' e)
           | Inr payload \<Rightarrow>
               (case js_decode (js_json lib) payload of
                  Inl e \<Rightarrow> Inl (ErrWrap ''ctx.jwt.decode: parsing claims'' e)
                | Inr claims \<Rightarrow> Inr (jv_ToValue (js_values lib) claims)))))"

definition hostCacheGet :: "('p, 'v, 'w) js_lib \<Rightarrow> 'v list \<Rightarrow> scriptCache \<times> 'w \<Rightarrow> 'v \<times> scriptCache \<times> 'w" where
  "hostCacheGet lib call cw =
     (let V = js_values lib in
      case (call, cw) of
        ([], _) \<Rightarrow> (jv_Null V, cw)
      | (arg # _, (c, w)) \<Rightarrow>
          (let (val, c) = cacheGet (js_now lib w) (jv_String V arg) c
           in (if val = GNil then jv_Null V else jv_ToValue V val, c, w)))"

definition hostCacheSet :: "('p, 'v, 'w) js_lib \<Rightarrow> 'v list \<Rightarrow> scriptCache \<times> 'w \<Rightarrow> 'v \<times> scriptCache \<times> 'w" where
  "hostCacheSet lib call cw =
     (let V = js_values lib in
      case (call, cw) of
        (key # val # rest, (c, w)) \<Rightarrow>
          (let ttl = (case rest of [] \<Rightarrow> Some 0 | t # _ \<Rightarrow> jv_ToFloat V t)
           in (jv_Undefined V, cacheSet (js_now lib w) (jv_String V key) (jv_Export V val) ttl c, w))
      | _ \<Rightarrow> (jv_Undefined V, cw))"

text \<open>The options of a fetch: method, headers in the order of the object's keys, body. A header set twice
  keeps its last value.\<close>

definition present :: "'v js_values \<Rightarrow> 'v \<Rightarrow> string \<Rightarrow> 'v option" where
  "present V obj key =
     (case jv_Get V obj key of None \<Rightarrow> None | Some v \<Rightarrow> if jv_missing V v then None else Some v)"

definition fetchHeaders :: "'v js_values \<Rightarrow> 'v \<Rightarrow> goerr + string gomap" where
  "fetchHeaders V h =
     (case jv_ToObject V h of
        Inl e \<Rightarrow> Inl e
      | Inr obj \<Rightarrow>
          Inr (fold (\<lambda>k hs. AList.update k (case jv_Get V obj k of None \<Rightarrow> [] | Some v \<Rightarrow> jv_String V v) hs)
            (jv_Keys V obj) []))"

definition fetchOptions :: "'v js_values \<Rightarrow> 'v list \<Rightarrow> goerr + string \<times> string gomap \<times> string option" where
  "fetchOptions V call =
     (case call of
        url # opt # _ \<Rightarrow>
          (case jv_ToObject V opt of
             Inl e \<Rightarrow> Inl e
           | Inr opts \<Rightarrow>
               (let httpMethod = (case present V opts ''method'' of None \<Rightarrow> ''GET'' | Some m \<Rightarrow> to_upper (jv_String V m));
                    body = map_option (jv_String V) (present V opts ''body'')
                in case present V opts ''headers'' of
                     None \<Rightarrow> Inr (httpMethod, [], body)
                   | Some h \<Rightarrow> map_sum id (\<lambda>hs. (httpMethod, hs, body)) (fetchHeaders V h)))
      | _ \<Rightarrow> Inr (''GET'', [], None))"

definition fetchResult :: "('p, 'v, 'w) js_lib \<Rightarrow> ClientResponse \<Rightarrow> goerr + 'v" where
  "fetchResult lib resp =
     (case cp_body resp of
        Inl e \<Rightarrow> Inl (ErrWrap ''ctx.fetch: reading response body'' e)
      | Inr body \<Rightarrow>
          if cp_status resp \<ge> 400
          then Inl (ErrText (''ctx.fetch: HTTP '' @ show_int (cp_status resp) @ '': '' @ trim_space body))
          else Inr (jv_ToValue (js_values lib)
            (case js_decode (js_json lib) body of Inr parsed \<Rightarrow> parsed | Inl e \<Rightarrow> GStr body)))"

definition jsFetch :: "('p, 'v, 'w) js_lib \<Rightarrow> Ctx \<Rightarrow> 'v list \<Rightarrow> 'w \<Rightarrow> (goerr + 'v) \<times> 'w" where
  "jsFetch lib ctx call w =
     (case call of
        [] \<Rightarrow> (Inl (ErrText ''ctx.fetch requires a URL argument''), w)
      | u # _ \<Rightarrow>
          (let rawURL = jv_String (js_values lib) u in
           case fetchOptions (js_values lib) call of
             Inl e \<Rightarrow> (Inl e, w)
           | Inr (httpMethod, headers, body) \<Rightarrow>
               (case js_newRequest lib httpMethod rawURL of
                  Some e \<Rightarrow> (Inl (ErrWrap ''ctx.fetch: creating request'' e), w)
                | None \<Rightarrow>
                    (let req = \<lparr>cr_method = httpMethod, cr_url = rawURL,
                        cr_header = set_headers (js_range lib headers) Map.empty, cr_body = body, cr_ctx = ctx\<rparr>
                     in case js_Do lib req w of
                          (Inl e, w) \<Rightarrow> (Inl (ErrWrap ''ctx.fetch'' e), w)
                        | (Inr resp, w) \<Rightarrow> (fetchResult lib resp, w)))))"

definition buildCtxObject :: "('p, 'v, 'w) js_lib \<Rightarrow> Ctx \<Rightarrow> string gomap \<Rightarrow> 'w \<Rightarrow> ('v, 'w) js_host" where
  "buildCtxObject lib ctx env w =
     \<lparr>jh_env = map (\<lambda>(k, v). (k, js_expandEnv lib w v)) env, jh_jwt_decode = jwtDecode lib,
      jh_cache_get = hostCacheGet lib, jh_cache_set = hostCacheSet lib, jh_fetch = jsFetch lib ctx\<rparr>"

definition script_prelude :: string where
  "script_prelude = newline @ ''var __mcp_default__;'' @ newline @ ''var exports = {};'' @ newline @
     ''var module = {exports: exports};'' @ newline"

definition script_postlude :: string where
  "script_postlude = newline @
     ''if (typeof __mcp_default__ === '' @ [CHR 0x27] @ ''undefined'' @ [CHR 0x27] @
     '' && typeof module.exports === '' @ [CHR 0x27] @ ''function'' @ [CHR 0x27] @ '') {'' @ newline @
     ''    __mcp_default__ = module.exports;'' @ newline @ ''}'' @ newline"

definition wrapScript :: "string \<Rightarrow> string" where
  "wrapScript src =
     (let processed = replace_all ''export default '' ''__mcp_default__ = '' src
      in script_prelude @ processed @ script_postlude)"

definition compileScript :: "('p, 'v, 'w) js_lib \<Rightarrow> string \<Rightarrow> string \<Rightarrow> goerr + 'p" where
  "compileScript lib name src =
     (case js_Compile lib (name @ ''.js'') (wrapScript src) of
        Inl e \<Rightarrow> Inl (ErrWrap ''parse error'' e) | Inr prog \<Rightarrow> Inr prog)"

definition loadScript :: "('p, 'v, 'w) js_lib \<Rightarrow> string \<Rightarrow> string \<Rightarrow> 'w \<Rightarrow> goerr + 'p" where
  "loadScript lib kind path w =
     (case js_readFile lib path w of
        Inl e \<Rightarrow> Inl (ErrWrap (''reading '' @ kind @ '' script '' @ go_quote path) e)
      | Inr src \<Rightarrow>
          (case compileScript lib path src of
             Inl e \<Rightarrow> Inl (ErrWrap (''compiling '' @ kind @ '' script '' @ go_quote path) e)
           | Inr prog \<Rightarrow> Inr prog))"

definition defaultTimeout :: Duration where "defaultTimeout = 500000000"

section \<open>JavaScript: inbound\<close>

record 'p jsValidator =
  jsv_program :: 'p
  jsv_timeout :: Duration
  jsv_env :: "string gomap"
  jsv_pool :: PoolAcquirer

definition newJSValidator ::
    "('p, 'v, 'w) js_lib \<Rightarrow> JSAuthConfig \<Rightarrow> PoolAcquirer \<Rightarrow> 'w \<Rightarrow> goerr + 'p jsValidator" where
  "newJSValidator lib cfg pool w =
     (case loadScript lib ''js auth'' (JSAuthConfig.ScriptPath cfg) w of
        Inl e \<Rightarrow> Inl e
      | Inr prog \<Rightarrow>
          Inr \<lparr>jsv_program = prog,
               jsv_timeout = (if JSAuthConfig.Timeout cfg \<le> 0 then defaultTimeout else JSAuthConfig.Timeout cfg),
               jsv_env = JSAuthConfig.Env cfg, jsv_pool = pool\<rparr>)"

definition parseInboundResult :: "('p, 'v, 'w) js_lib \<Rightarrow> 'v \<Rightarrow> goerr + TokenInfo" where
  "parseInboundResult lib result =
     (let exported = jv_Export (js_values lib) result in
      case exported of
        GMap resMap \<Rightarrow>
          if map_of resMap ''allowed'' \<noteq> Some (GBool True) then
            (let status = (case map_of resMap ''status'' of Some (GNum r) \<Rightarrow> go_trunc r | _ \<Rightarrow> 401);
                 errMsg = (case map_of resMap ''error'' of Some (GStr s) \<Rightarrow> s | _ \<Rightarrow> [])
             in Inl (DeniedError status errMsg))
          else
            (let sub = (case map_of resMap ''subject'' of
                          Some (GStr s) \<Rightarrow> if s \<noteq> [] then s else ''js-authenticated'' | _ \<Rightarrow> ''js-authenticated'');
                 extra = (case map_of resMap ''extra_headers'' of
                            Some (GMap hs) \<Rightarrow>
                              List.map_filter (\<lambda>(k, v). case v of GStr s \<Rightarrow> Some (''header:'' @ k, GStr s) | _ \<Rightarrow> None) hs
                          | _ \<Rightarrow> [])
             in Inr \<lparr>Subject = sub, Scopes = [], Audience = [], Extra = extra\<rparr>)
      | _ \<Rightarrow> Inl (ErrText (''js check_auth: return value must be an object, got '' @ js_typeName lib exported)))"

definition jsValidateToken ::
    "('p, 'v, 'w) js_lib \<Rightarrow> 'p jsValidator \<Rightarrow> (scriptCache \<times> 'w) token_validator" where
  "jsValidateToken lib v ctx token =
     with_slot (js_pools lib) ''js auth'' (jsv_pool v) ctx (\<lambda>(c, w).
       case js_Run lib (jsv_program v) (buildCtxObject lib ctx (jsv_env v) w) (jv_ToValue (js_values lib) (GStr token))
              (jsv_timeout v) (c, w) of
         (ending, c, w) \<Rightarrow>
           ((case ending of
               SetFailed e \<Rightarrow> Inl (ErrWrap ''setting js auth ctx'' e)
             | RunFailed e \<Rightarrow> Inl (ErrWrap ''running js auth script'' e)
             | NotCallable \<Rightarrow> Inl (ErrText ''js auth script does not export a callable default function'')
             | CallFailed e \<Rightarrow> Inl (ErrWrap ''js check_auth'' e)
             | Returned result \<Rightarrow> parseInboundResult lib result), c, w))"

section \<open>Cached credentials\<close>

text \<open>The credential cache of an outbound provider. An expiry of 0 asks for a run at the next call.\<close>

record credentialCache =
  cc_token :: string
  cc_expiry :: int
  cc_rawHeaders :: "string gomap"

definition noCacheExpiry :: int where "noCacheExpiry = 1"

definition unix :: "Time \<Rightarrow> int" where
  "unix t = t div 1000000000"

definition cachedToken :: "credentialCache \<Rightarrow> string" where
  "cachedToken cc = (if cc_rawHeaders cc \<noteq> [] then [] else cc_token cc)"

text \<open>What a script returned, at time \<^term>\<open>now\<close> in seconds.\<close>

definition storeCredentials :: "int \<Rightarrow> string \<times> int \<times> string gomap \<Rightarrow> credentialCache" where
  "storeCredentials now res =
     (case res of (token, expiry, rawHeaders) \<Rightarrow>
       \<lparr>cc_token = token, cc_expiry = (if expiry = 0 then now + noCacheExpiry else expiry), cc_rawHeaders = rawHeaders\<rparr>)"

section \<open>JavaScript: outbound\<close>

record 'p jsProvider =
  jsp_upstreamName :: string
  jsp_program :: 'p
  jsp_timeout :: Duration
  jsp_env :: "string gomap"
  jsp_pool :: PoolAcquirer

definition newJSProvider ::
    "('p, 'v, 'w) js_lib \<Rightarrow> string \<Rightarrow> JSOutboundConfig \<Rightarrow> PoolAcquirer \<Rightarrow> 'w \<Rightarrow> goerr + 'p jsProvider" where
  "newJSProvider lib upstreamName cfg pool w =
     (case loadScript lib ''js outbound'' (JSOutboundConfig.ScriptPath cfg) w of
        Inl e \<Rightarrow> Inl e
      | Inr prog \<Rightarrow>
          Inr \<lparr>jsp_upstreamName = upstreamName, jsp_program = prog,
               jsp_timeout = (if JSOutboundConfig.Timeout cfg \<le> 0 then defaultTimeout else JSOutboundConfig.Timeout cfg),
               jsp_env = JSOutboundConfig.Env cfg, jsp_pool = pool\<rparr>)"

definition parseOutboundResult :: "('p, 'v, 'w) js_lib \<Rightarrow> 'v \<Rightarrow> goerr + string \<times> int \<times> string gomap" where
  "parseOutboundResult lib result =
     (let exported = jv_Export (js_values lib) result in
      case exported of
        GMap resMap \<Rightarrow>
          (let errMsg = (case map_of resMap ''error'' of Some (GStr s) \<Rightarrow> s | _ \<Rightarrow> []);
               token = (case map_of resMap ''token'' of Some (GStr s) \<Rightarrow> s | _ \<Rightarrow> []);
               expiry = (case map_of resMap ''expiry'' of Some (GNum r) \<Rightarrow> go_trunc r | _ \<Rightarrow> 0);
               rawHeaders = (case map_of resMap ''raw_headers'' of
                   Some (GMap hs) \<Rightarrow> List.map_filter (\<lambda>(k, v). case v of GStr s \<Rightarrow> Some (k, s) | _ \<Rightarrow> None) hs
                 | _ \<Rightarrow> [])
           in if errMsg \<noteq> [] then Inl (ErrText (''js get_upstream_token error: '' @ errMsg))
              else if token = [] \<and> rawHeaders = []
              then Inl (ErrText ''js get_upstream_token: script must return token or raw_headers'')
              else Inr (token, expiry, rawHeaders))
      | _ \<Rightarrow> Inl (ErrText (''js get_upstream_token: return value must be an object, got '' @ js_typeName lib exported)))"

definition callScript ::
    "('p, 'v, 'w) js_lib \<Rightarrow> 'p jsProvider \<Rightarrow> Ctx \<Rightarrow> scriptCache \<times> 'w \<Rightarrow>
     (goerr + string \<times> int \<times> string gomap) \<times> scriptCache \<times> 'w" where
  "callScript lib p ctx =
     with_slot (js_pools lib) ''js outbound auth'' (jsp_pool p) ctx (\<lambda>(c, w).
       case js_Run lib (jsp_program p) (buildCtxObject lib ctx (jsp_env p) w)
              (jv_ToValue (js_values lib) (GStr (jsp_upstreamName p))) (jsp_timeout p) (c, w) of
         (ending, c, w) \<Rightarrow>
           ((case ending of
               SetFailed e \<Rightarrow> Inl (ErrWrap ''setting js outbound ctx'' e)
             | RunFailed e \<Rightarrow> Inl (ErrWrap ''running js outbound auth script'' e)
             | NotCallable \<Rightarrow> Inl (ErrText ''js outbound auth script does not export a callable default function'')
             | CallFailed e \<Rightarrow> Inl (ErrWrap ''js get_upstream_token'' e)
             | Returned result \<Rightarrow> parseOutboundResult lib result), c, w))"

type_synonym 'w js_state = "credentialCache \<times> scriptCache \<times> 'w"

definition ensureCredentials :: "('p, 'v, 'w) js_lib \<Rightarrow> 'p jsProvider \<Rightarrow> Ctx \<Rightarrow> 'w js_state \<Rightarrow> goerr option \<times> 'w js_state" where
  "ensureCredentials lib p ctx st =
     (case st of (cc, c, w) \<Rightarrow>
       (let now = unix (js_now lib w) in
        if cc_expiry cc \<noteq> 0 \<and> now < cc_expiry cc then (None, st)
        else (case callScript lib p ctx (c, w) of
                (Inl e, c, w) \<Rightarrow> (Some e, cc, c, w)
              | (Inr res, c, w) \<Rightarrow> (None, storeCredentials now res, c, w))))"

definition jsToken :: "('p, 'v, 'w) js_lib \<Rightarrow> 'p jsProvider \<Rightarrow> Ctx \<Rightarrow> 'w js_state \<Rightarrow> (goerr + string) \<times> 'w js_state" where
  "jsToken lib p ctx st =
     (case ensureCredentials lib p ctx st of
        (Some e, st) \<Rightarrow> (Inl e, st)
      | (None, st) \<Rightarrow> (Inr (cachedToken (fst st)), st))"

definition jsRawHeaders ::
    "('p, 'v, 'w) js_lib \<Rightarrow> 'p jsProvider \<Rightarrow> Ctx \<Rightarrow> 'w js_state \<Rightarrow> (goerr + string gomap) \<times> 'w js_state" where
  "jsRawHeaders lib p ctx st =
     (case ensureCredentials lib p ctx st of
        (Some e, st) \<Rightarrow> (Inl e, st)
      | (None, st) \<Rightarrow> (Inr (cc_rawHeaders (fst st)), st))"

definition jsTokenProvider :: "('p, 'v, 'w) js_lib \<Rightarrow> 'p jsProvider \<Rightarrow> 'w js_state TokenProvider" where
  "jsTokenProvider lib p = \<lparr>tp_Token = jsToken lib p, tp_RawHeaders = jsRawHeaders lib p\<rparr>"

section \<open>Lua\<close>

text \<open>Values of gopher-lua and the conversions the code uses; a table is its pairs.\<close>

record 'l lua_values =
  lv_ToString :: "'l \<Rightarrow> string"
  lv_ToInt :: "'l \<Rightarrow> int"
  lv_ToBool :: "'l \<Rightarrow> bool"
  lv_ToTable :: "'l \<Rightarrow> ('l \<times> 'l) list option"
  lv_Type :: "'l \<Rightarrow> string"
  lv_LString :: "'l \<Rightarrow> string option"
  lv_string :: "string \<Rightarrow> 'l"
  lv_number :: "int \<Rightarrow> 'l"

text \<open>The options and libraries of a new state, and the globals taken away from it.\<close>

record sandbox =
  sb_CallStackSize :: nat
  sb_opened :: "string list"
  sb_removed :: "string list"

definition newSandboxedVM :: sandbox where
  "newSandboxedVM = \<lparr>sb_CallStackSize = 64, sb_opened = [''base'', ''table'', ''string'', ''math''],
     sb_removed = [''dofile'', ''loadfile'']\<rparr>"

text \<open>A protected call with four results.\<close>

record ('p, 'l, 'w) lua_lib =
  lu_values :: "'l lua_values"
  lu_Parse :: "string \<Rightarrow> string \<Rightarrow> goerr + string"
  lu_Compile :: "string \<Rightarrow> string \<Rightarrow> goerr + 'p"
  lu_PCall :: "sandbox \<Rightarrow> 'p \<Rightarrow> 'l list \<Rightarrow> Duration \<Rightarrow> 'w \<Rightarrow> (goerr + 'l \<times> 'l \<times> 'l \<times> 'l) \<times> 'w"
  lu_readFile :: "string \<Rightarrow> 'w \<Rightarrow> goerr + string"
  lu_now :: "'w \<Rightarrow> Time"
  lu_pools :: "'w semaphore"

definition luaTableToMap :: "'l lua_values \<Rightarrow> ('l \<times> 'l) list option \<Rightarrow> string gomap" where
  "luaTableToMap V tbl =
     (case tbl of
        None \<Rightarrow> []
      | Some kvs \<Rightarrow> fold (\<lambda>(k, v) m. case (lv_LString V k, lv_LString V v) of
            (Some ks, Some vs) \<Rightarrow> AList.update ks vs m | _ \<Rightarrow> m) kvs [])"

definition compileLuaSource :: "('p, 'l, 'w) lua_lib \<Rightarrow> string \<Rightarrow> string \<Rightarrow> goerr + 'p" where
  "compileLuaSource lib src name =
     (case lu_Parse lib src name of
        Inl e \<Rightarrow> Inl (ErrWrap (''parsing lua source '' @ go_quote name) e)
      | Inr chunk \<Rightarrow> lu_Compile lib chunk name)"

definition loadLua :: "('p, 'l, 'w) lua_lib \<Rightarrow> string \<Rightarrow> string \<Rightarrow> 'w \<Rightarrow> goerr + 'p" where
  "loadLua lib kind path w =
     (case lu_readFile lib path w of
        Inl e \<Rightarrow> Inl (ErrWrap (''reading lua '' @ kind @ '' script '' @ go_quote path) e)
      | Inr src \<Rightarrow>
          (case compileLuaSource lib src path of
             Inl e \<Rightarrow> Inl (ErrWrap (''compiling lua '' @ kind @ '' script '' @ go_quote path) e)
           | Inr proto \<Rightarrow> Inr proto))"

record 'p luaValidator =
  luv_proto :: 'p
  luv_timeout :: Duration
  luv_pool :: PoolAcquirer

definition newLuaValidator ::
    "('p, 'l, 'w) lua_lib \<Rightarrow> LuaAuthConfig \<Rightarrow> PoolAcquirer \<Rightarrow> 'w \<Rightarrow> goerr + 'p luaValidator" where
  "newLuaValidator lib cfg pool w =
     (case loadLua lib ''auth'' (LuaAuthConfig.ScriptPath cfg) w of
        Inl e \<Rightarrow> Inl e
      | Inr proto \<Rightarrow>
          Inr \<lparr>luv_proto = proto,
               luv_timeout = (if LuaAuthConfig.Timeout cfg \<le> 0 then defaultTimeout else LuaAuthConfig.Timeout cfg),
               luv_pool = pool\<rparr>)"

definition luaValidateToken ::
    "('p, 'l, 'w) lua_lib \<Rightarrow> 'p luaValidator \<Rightarrow> (unit \<times> 'w) token_validator" where
  "luaValidateToken lib v ctx token =
     (let V = lu_values lib in
      with_slot (lu_pools lib) ''lua auth'' (luv_pool v) ctx (\<lambda>(c, w).
        case lu_PCall lib newSandboxedVM (luv_proto v) [lv_string V token] (luv_timeout v) w of
          (Inl e, w) \<Rightarrow> (Inl (ErrWrap ''lua check_auth'' e), c, w)
        | (Inr (allowed, status, hs, errMsg), w) \<Rightarrow>
            ((if \<not> lv_ToBool V allowed then Inl (DeniedError (lv_ToInt V status) (lv_ToString V errMsg))
              else Inr \<lparr>Subject = ''lua-authenticated'', Scopes = [], Audience = [],
                Extra = map (\<lambda>(k, v). (''header:'' @ k, GStr v)) (luaTableToMap V (lv_ToTable V hs))\<rparr>), c, w)))"

record 'p luaProvider =
  lup_upstreamName :: string
  lup_proto :: 'p
  lup_timeout :: Duration
  lup_pool :: PoolAcquirer

definition newLuaProvider ::
    "('p, 'l, 'w) lua_lib \<Rightarrow> string \<Rightarrow> LuaOutboundConfig \<Rightarrow> PoolAcquirer \<Rightarrow> 'w \<Rightarrow> goerr + 'p luaProvider" where
  "newLuaProvider lib upstreamName cfg pool w =
     (case loadLua lib ''outbound'' (LuaOutboundConfig.ScriptPath cfg) w of
        Inl e \<Rightarrow> Inl e
      | Inr proto \<Rightarrow>
          Inr \<lparr>lup_upstreamName = upstreamName, lup_proto = proto,
               lup_timeout = (if LuaOutboundConfig.Timeout cfg \<le> 0 then defaultTimeout else LuaOutboundConfig.Timeout cfg),
               lup_pool = pool\<rparr>)"

definition luaResult :: "'l lua_values \<Rightarrow> 'l \<times> 'l \<times> 'l \<times> 'l \<Rightarrow> goerr + string \<times> int \<times> string gomap" where
  "luaResult V res =
     (case res of (token, expiry, hs, errMsg) \<Rightarrow>
       (let must = (\<lambda>what kind v. Inl (ErrText (''lua get_upstream_token: '' @ what @ '' must be '' @ kind @ '', got '' @ lv_Type V v))) in
        if lv_Type V errMsg \<noteq> ''string'' then must ''error_msg (return 4)'' ''string'' errMsg
        else if lv_Type V hs \<noteq> ''table'' \<and> lv_Type V hs \<noteq> ''nil'' then must ''raw_headers (return 3)'' ''table or nil'' hs
        else if lv_Type V expiry \<noteq> ''number'' then must ''expiry_unix (return 2)'' ''number'' expiry
        else if lv_Type V token \<noteq> ''string'' then must ''token (return 1)'' ''string'' token
        else if lv_ToString V errMsg \<noteq> [] then Inl (ErrText (''lua get_upstream_token error: '' @ lv_ToString V errMsg))
        else Inr (lv_ToString V token, lv_ToInt V expiry, luaTableToMap V (lv_ToTable V hs))))"

definition callLua ::
    "('p, 'l, 'w) lua_lib \<Rightarrow> 'p luaProvider \<Rightarrow> Ctx \<Rightarrow> credentialCache \<times> 'w \<Rightarrow>
     (goerr + string \<times> int \<times> string gomap) \<times> credentialCache \<times> 'w" where
  "callLua lib p ctx =
     (let V = lu_values lib in
      with_slot (lu_pools lib) ''lua outbound auth'' (lup_pool p) ctx (\<lambda>(cc, w).
        case lu_PCall lib newSandboxedVM (lup_proto p)
               [lv_string V (lup_upstreamName p), lv_string V (cc_token cc), lv_number V (cc_expiry cc)] (lup_timeout p) w of
          (Inl e, w) \<Rightarrow> (Inl (ErrWrap ''lua get_upstream_token'' e), cc, w)
        | (Inr res, w) \<Rightarrow> (luaResult V res, cc, w)))"

definition ensureToken ::
    "('p, 'l, 'w) lua_lib \<Rightarrow> 'p luaProvider \<Rightarrow> Ctx \<Rightarrow> credentialCache \<times> 'w \<Rightarrow> goerr option \<times> credentialCache \<times> 'w" where
  "ensureToken lib p ctx st =
     (case st of (cc, w) \<Rightarrow>
       (let now = unix (lu_now lib w) in
        if cc_expiry cc \<noteq> 0 \<and> now < cc_expiry cc then (None, st)
        else (case callLua lib p ctx st of
                (Inl e, st) \<Rightarrow> (Some e, st)
              | (Inr res, cc, w) \<Rightarrow> (None, storeCredentials now res, w))))"

definition luaToken ::
    "('p, 'l, 'w) lua_lib \<Rightarrow> 'p luaProvider \<Rightarrow> Ctx \<Rightarrow> credentialCache \<times> 'w \<Rightarrow> (goerr + string) \<times> credentialCache \<times> 'w" where
  "luaToken lib p ctx st =
     (case ensureToken lib p ctx st of
        (Some e, st) \<Rightarrow> (Inl e, st)
      | (None, st) \<Rightarrow> (Inr (cachedToken (fst st)), st))"

definition luaRawHeaders ::
    "('p, 'l, 'w) lua_lib \<Rightarrow> 'p luaProvider \<Rightarrow> Ctx \<Rightarrow> credentialCache \<times> 'w \<Rightarrow>
     (goerr + string gomap) \<times> credentialCache \<times> 'w" where
  "luaRawHeaders lib p ctx st =
     (case ensureToken lib p ctx st of
        (Some e, st) \<Rightarrow> (Inl e, st)
      | (None, st) \<Rightarrow> (Inr (cc_rawHeaders (fst st)), st))"

definition luaTokenProvider :: "('p, 'l, 'w) lua_lib \<Rightarrow> 'p luaProvider \<Rightarrow> (credentialCache \<times> 'w) TokenProvider" where
  "luaTokenProvider lib p = \<lparr>tp_Token = luaToken lib p, tp_RawHeaders = luaRawHeaders lib p\<rparr>"

section \<open>Strategies\<close>

text \<open>The registered strategies. A new validator has a new script cache, a new provider no credentials.\<close>

definition noCredentials :: credentialCache where
  "noCredentials = \<lparr>cc_token = [], cc_expiry = 0, cc_rawHeaders = []\<rparr>"

definition jsInbound :: "('p, 'v, 'w) js_lib \<Rightarrow> (scriptCache \<times> 'w) mw_factory" where
  "jsInbound lib ic cw =
     (case InboundAuthConfig.JSAuthPool ic of
        None \<Rightarrow> (Inl (ErrText ''js inbound auth requires runtime pools; set InboundAuthConfig.JSAuthPool''), cw)
      | Some pool \<Rightarrow>
          (case newJSValidator lib (InboundAuthConfig.JS ic) pool (snd cw) of
             Inl e \<Rightarrow> (Inl e, cw)
           | Inr v \<Rightarrow> (Inr (ValidatorMiddleware (jsValidateToken lib v) []), newScriptCache, snd cw)))"

definition luaInbound :: "('p, 'l, 'w) lua_lib \<Rightarrow> (unit \<times> 'w) mw_factory" where
  "luaInbound lib ic cw =
     (case InboundAuthConfig.LuaAuthPool ic of
        None \<Rightarrow> (Inl (ErrText ''lua inbound auth requires runtime pools; set InboundAuthConfig.LuaAuthPool''), cw)
      | Some pool \<Rightarrow>
          (case newLuaValidator lib (InboundAuthConfig.Lua ic) pool (snd cw) of
             Inl e \<Rightarrow> (Inl e, cw)
           | Inr v \<Rightarrow> (Inr (ValidatorMiddleware (luaValidateToken lib v) []), cw)))"

definition jsOutbound :: "('p, 'v, 'w) js_lib \<Rightarrow> 'w js_state outbound_factory" where
  "jsOutbound lib oc st =
     (case OutboundAuthConfig.JSAuthPool oc of
        None \<Rightarrow> (Inl (ErrText ''js outbound auth requires runtime pools; set OutboundAuthConfig.JSAuthPool''), st)
      | Some pool \<Rightarrow>
          (case newJSProvider lib (OutboundAuthConfig.Upstream oc) (OutboundAuthConfig.JS oc) pool (snd (snd st)) of
             Inl e \<Rightarrow> (Inl e, st)
           | Inr p \<Rightarrow> (Inr (outboundMiddleware (jsTokenProvider lib p)), noCredentials, newScriptCache, snd (snd st))))"

definition luaOutbound :: "('p, 'l, 'w) lua_lib \<Rightarrow> (credentialCache \<times> 'w) outbound_factory" where
  "luaOutbound lib oc st =
     (case OutboundAuthConfig.LuaAuthPool oc of
        None \<Rightarrow> (Inl (ErrText ''lua outbound auth requires runtime pools; set OutboundAuthConfig.LuaAuthPool''), st)
      | Some pool \<Rightarrow>
          (case newLuaProvider lib (OutboundAuthConfig.Upstream oc) (OutboundAuthConfig.Lua oc) pool (snd st) of
             Inl e \<Rightarrow> (Inl e, st)
           | Inr p \<Rightarrow> (Inr (outboundMiddleware (luaTokenProvider lib p)), noCredentials, snd st)))"

end
