(* ===== verification/ScriptLaws.thy ===== *)
theory ScriptLaws
  imports ScriptRuntime Manager
begin

text \<open>
  What the script strategies guarantee: a run gives its slot back however it ends, only an explicit
  permission lets a request through, credentials are reused until they expire, and the pools
  have the configured size. The theorems also show where the strategies fall short: Lua users
  are one subject for caches and limits, and a second run within one call can lose credentials.
\<close>

section \<open>Pools\<close>

text \<open>The runtimes the packages register, in any order.\<close>

definition builtin_runtimes :: "(string \<times> runtime_factory) list" where
  "builtin_runtimes = [(''js/auth'', jsAuthPool), (''js/script'', jsScriptPool), (''lua/auth'', luaAuthPool)]"

definition configured_or :: "int \<Rightarrow> int \<Rightarrow> int" where
  "configured_or fallback n = (if n = 0 then fallback else n)"

lemma bounded_pool_if: "0 < fallback \<Longrightarrow> bounded_pool key n fallback =
    (if n < 0 then Inl (ErrText (key @ '' must be > 0, got '' @ show_int n)) else Inr \<lparr>cap = configured_or fallback n\<rparr>)"
  by (auto simp: bounded_pool_def NewPool_def configured_or_def Let_def)

text \<open>The runtimes can be built exactly when no configured bound is negative, and then every pool has
  at least one slot: the configured number, or the default where the bound is 0.\<close>

theorem runtime_pools_bounded:
  "let a = JSRuntimeConfig.MaxAuthVMs (RuntimeConfig.JS cfg); s = JSRuntimeConfig.MaxScriptVMs (RuntimeConfig.JS cfg);
       l = LuaRuntimeConfig.MaxAuthVMs (RuntimeConfig.Lua cfg) in
   case NewRegistry builtin_runtimes cfg of
      Inl e \<Rightarrow> a < 0 \<or> s < 0 \<or> l < 0
    | Inr r \<Rightarrow> 0 \<le> a \<and> 0 \<le> s \<and> 0 \<le> l \<and>
        map (\<lambda>name. map_option Cap (getRuntime (Some r) name)) [''js/auth'', ''js/script'', ''lua/auth''] =
        [Some (configured_or 10 a), Some (configured_or 20 s), Some (configured_or 10 l)] \<and>
        0 < configured_or 10 a \<and> 0 < configured_or 20 s \<and> 0 < configured_or 10 l"
proof -
  have pos: "0 \<le> n \<Longrightarrow> 0 < fallback \<Longrightarrow> 0 < configured_or fallback n" for n fallback
    by (simp add: configured_or_def)
  show ?thesis
    unfolding NewRegistry_def builtin_runtimes_def jsAuthPool_def jsScriptPool_def luaAuthPool_def
      DefaultMaxAuthVMs_def DefaultMaxScriptVMs_def Let_def
    by (auto simp: bounded_pool_if getRuntime_def Cap_def pos split: if_splits)
qed

section \<open>Slots\<close>

text \<open>The documented behaviour of a weighted semaphore: an acquisition that succeeds takes one slot of its
  pool, one that fails takes none, a release gives one back.\<close>

definition counts_slots :: "'w semaphore \<Rightarrow> ('w \<Rightarrow> PoolAcquirer \<Rightarrow> int) \<Rightarrow> bool" where
  "counts_slots sem in_use \<longleftrightarrow>
     (\<forall>p ctx w e w'. sem_Acquire sem p ctx w = (e, w') \<longrightarrow>
        in_use w' = (if e = None then (in_use w)(p := in_use w p + 1) else in_use w)) \<and>
     (\<forall>p w. in_use (sem_Release sem p w) = (in_use w)(p := in_use w p - 1))"

lemma with_slot_returns:
  assumes s: "counts_slots sem in_use" and b: "\<And>cw. in_use (snd (snd (body cw))) = in_use (snd cw)"
  shows "in_use (snd (snd (with_slot sem what p ctx body cw))) = in_use (snd cw)"
proof -
  obtain c w where cw: "cw = (c, w)" by fastforce
  obtain e w1 where a: "sem_Acquire sem p ctx w = (e, w1)" by fastforce
  with s have w1: "in_use w1 = (if e = None then (in_use w)(p := in_use w p + 1) else in_use w)"
    by (simp add: counts_slots_def)
  obtain res c2 w2 where r: "body (c, w1) = (res, c2, w2)" by (metis prod_cases3)
  with b [of "(c, w1)"] have w2: "in_use w2 = in_use w1" by simp
  from s have "in_use (sem_Release sem p w2) = (in_use w2)(p := in_use w2 p - 1)" by (simp add: counts_slots_def)
  with w1 w2 a r show ?thesis by (cases e) (simp_all add: with_slot_def Acquire_def cw)
qed

definition keeps_slots :: "('p, 'v, 'w) js_lib \<Rightarrow> ('w \<Rightarrow> PoolAcquirer \<Rightarrow> int) \<Rightarrow> bool" where
  "keeps_slots lib in_use \<longleftrightarrow>
     (\<forall>prog host arg t cw. in_use (snd (snd (js_Run lib prog host arg t cw))) = in_use (snd cw))"

lemma keeps_slots_run: "keeps_slots lib in_use \<Longrightarrow> js_Run lib prog host arg t cw = (e, c, w) \<Longrightarrow> in_use w = in_use (snd cw)"
  by (metis keeps_slots_def snd_conv)

lemma jsValidateToken_slots:
  assumes "counts_slots (js_pools lib) in_use" "keeps_slots lib in_use"
  shows "in_use (snd (snd (jsValidateToken lib v ctx token cw))) = in_use (snd cw)"
  unfolding jsValidateToken_def
  by (rule with_slot_returns [OF assms(1)])
    (auto dest: keeps_slots_run [OF assms(2)] split: prod.splits)

lemma ensureCredentials_slots:
  assumes "counts_slots (js_pools lib) in_use" "keeps_slots lib in_use"
  shows "in_use (snd (snd (snd (ensureCredentials lib p ctx st)))) = in_use (snd (snd st))"
proof -
  have "in_use (snd (snd (callScript lib p ctx cw))) = in_use (snd cw)" for cw
    unfolding callScript_def
    by (rule with_slot_returns [OF assms(1)]) (auto dest: keeps_slots_run [OF assms(2)] split: prod.splits)
  then show ?thesis
    by (cases st) (simp add: ensureCredentials_def Let_def split: prod.split sum.split, metis snd_conv)
qed

text \<open>C10: every use of a JavaScript strategy, to validate a token or to get credentials, leaves as many
  slots of every pool in use as before, whether the script returns, throws, is interrupted, cannot
  run or returns nonsense: slots cannot leak.\<close>

theorem script_slots_returned:
  assumes "counts_slots (js_pools lib) in_use" "keeps_slots lib in_use"
  shows "in_use (snd (snd (jsValidateToken lib v ctx token (c, w)))) = in_use w \<and>
    in_use (snd (snd (snd (jsToken lib p ctx (cc, c, w))))) = in_use w \<and>
    in_use (snd (snd (snd (jsRawHeaders lib p ctx (cc, c, w))))) = in_use w"
  using jsValidateToken_slots [OF assms, of v ctx token "(c, w)"] ensureCredentials_slots [OF assms, of p ctx "(cc, c, w)"]
  by (auto simp: jsToken_def jsRawHeaders_def split: prod.splits option.splits)

section \<open>Inbound\<close>

lemma parseInboundResult_Inr: "parseInboundResult lib result = Inr info \<Longrightarrow>
    \<exists>kvs. jv_Export (js_values lib) result = GMap kvs \<and> map_of kvs ''allowed'' = Some (GBool True)"
  by (auto simp: parseInboundResult_def Let_def split: goval.splits if_splits)

lemma with_slot_Inr:
  assumes "with_slot sem what p ctx body (c, w) = (Inr a, c', w')"
  obtains w1 w2 where "sem_Acquire sem p ctx w = (None, w1)" "body (c, w1) = (Inr a, c', w2)" "w' = sem_Release sem p w2"
  using assms by (auto simp: with_slot_def Acquire_def split: prod.splits sum.splits option.splits)

lemma jsValidateToken_Inr:
  assumes "jsValidateToken lib v ctx token (c, w) = (Inr info, c', w')"
  shows "\<exists>w1 result kvs w2. js_Run lib (jsv_program v) (buildCtxObject lib ctx (jsv_env v) w1)
      (jv_ToValue (js_values lib) (GStr token)) (jsv_timeout v) (c, w1) = (Returned result, c', w2) \<and>
    jv_Export (js_values lib) result = GMap kvs \<and> map_of kvs ''allowed'' = Some (GBool True)"
  using assms unfolding jsValidateToken_def
  by (elim with_slot_Inr) (auto split: prod.splits script_end.splits, blast dest: parseInboundResult_Inr)

text \<open>C6: the JavaScript strategy lets a request through only when it has a token and the script returned
  an object for it whose \<^verbatim>\<open>allowed\<close> is true; after an error, a timeout, a missing function, a
  value of another kind or a full pool the request is answered without looking at the handler.\<close>

theorem js_auth_fails_closed:
  "(\<exists>info c' w' w1 result kvs w2. requestToken [] r \<noteq> [] \<and>
      js_Run lib (jsv_program v) (buildCtxObject lib (req_ctx r) (jsv_env v) w1)
        (jv_ToValue (js_values lib) (GStr (requestToken [] r))) (jsv_timeout v) (c, w1) = (Returned result, c', w2) \<and>
      jv_Export (js_values lib) result = GMap kvs \<and> map_of kvs ''allowed'' = Some (GBool True) \<and>
      (\<forall>nxt. ValidatorMiddleware (jsValidateToken lib v) [] nxt r (c, w) =
         nxt (r\<lparr>req_ctx := withTokenInfo info (req_ctx r)\<rparr>) (c', w'))) \<or>
   (\<exists>rsp st. \<forall>nxt. ValidatorMiddleware (jsValidateToken lib v) [] nxt r (c, w) = (rsp, st))"
proof (cases rule: ValidatorMiddleware_cases [of "[]" r "jsValidateToken lib v" "(c, w)"])
  case (accepted info st)
  obtain c' w' where st: "st = (c', w')" by fastforce
  from jsValidateToken_Inr [OF accepted(2) [unfolded st]] accepted(1,3) st show ?thesis by blast
next
  case (refused rsp st)
  then show ?thesis by blast
qed

lemma luaValidateToken_Subject:
  assumes "luaValidateToken lib v ctx token st = (Inr info, st')"
  shows "Subject info = ''lua-authenticated''"
proof -
  obtain c w c' w' where st: "st = (c, w)" "st' = (c', w')" by (metis surj_pair)
  show ?thesis
    using assms unfolding luaValidateToken_def Let_def st
    by (elim with_slot_Inr) (auto split: prod.splits sum.splits if_splits)
qed

text \<open>Everyone the Lua strategy accepts is the same subject, so in a cache that is kept per user two
  different users' identical calls share one entry, and a limit per user is one limit for all.\<close>

theorem lua_users_share_cache:
  assumes "luaValidateToken lib v ctx token st = (Inr info, st1)" "luaValidateToken lib v ctx' token' st' = (Inr info', st1')"
  shows "ComputeKey num sha tool args (PerUser c) (cacheSubject c (withTokenInfo info ctx)) =
      ComputeKey num sha tool args (PerUser c) (cacheSubject c (withTokenInfo info' ctx')) \<and>
    rateLimitKey (withTokenInfo info ctx) ''user'' limit s = rateLimitKey (withTokenInfo info' ctx') ''user'' limit s'"
  using luaValidateToken_Subject [OF assms(1)] luaValidateToken_Subject [OF assms(2)]
  by (simp add: cacheSubject_def rateLimitKey_def withTokenInfo_def)

section \<open>Outbound\<close>

text \<open>Credentials that are in use came from a script that returned a token or headers.\<close>

definition usable :: "credentialCache \<Rightarrow> bool" where
  "usable cc \<longleftrightarrow> cc_expiry cc = 0 \<or> cc_token cc \<noteq> [] \<or> cc_rawHeaders cc \<noteq> []"

lemma noCredentials_usable: "usable noCredentials"
  by (simp add: usable_def noCredentials_def)

lemma parseOutboundResult_Inr:
  "parseOutboundResult lib result = Inr (token, expiry, hs) \<Longrightarrow> token \<noteq> [] \<or> hs \<noteq> []"
  by (auto simp: parseOutboundResult_def Let_def split: goval.splits if_splits)

lemma callScript_Inr:
  assumes "callScript lib p ctx (c, w) = (Inr (token, expiry, hs), c', w')"
  shows "token \<noteq> [] \<or> hs \<noteq> []"
  using assms unfolding callScript_def
  by (elim with_slot_Inr) (auto split: prod.splits script_end.splits dest: parseOutboundResult_Inr)

lemma ensureCredentials_valid:
  assumes "cc_expiry cc \<noteq> 0" "unix (js_now lib w) < cc_expiry cc"
  shows "ensureCredentials lib p ctx (cc, c, w) = (None, cc, c, w)"
  using assms by (simp add: ensureCredentials_def)

lemma ensureCredentials_run:
  assumes "\<not> (cc_expiry cc \<noteq> 0 \<and> unix (js_now lib w) < cc_expiry cc)"
  shows "ensureCredentials lib p ctx (cc, c, w) =
    (case callScript lib p ctx (c, w) of
       (Inl e, st) \<Rightarrow> (Some e, cc, st)
     | (Inr res, st) \<Rightarrow> (None, storeCredentials (unix (js_now lib w)) res, st))"
  using assms by (auto simp: ensureCredentials_def Let_def split: prod.splits sum.splits)

lemma ensureCredentials_None:
  assumes e: "ensureCredentials lib p ctx (cc, c, w) = (None, cc', c', w')" and u: "usable cc"
  shows "cc_token cc' \<noteq> [] \<or> cc_rawHeaders cc' \<noteq> []"
proof (cases "cc_expiry cc \<noteq> 0 \<and> unix (js_now lib w) < cc_expiry cc")
  case True
  with ensureCredentials_valid [of cc lib w p ctx c] e u show ?thesis by (simp add: usable_def)
next
  case False
  with ensureCredentials_run [OF this, of p ctx c] e obtain token expiry hs where
      "callScript lib p ctx (c, w) = (Inr (token, expiry, hs), c', w')"
      "cc' = storeCredentials (unix (js_now lib w)) (token, expiry, hs)"
    by (auto split: prod.splits sum.splits)
  with callScript_Inr show ?thesis by (fastforce simp: storeCredentials_def)
qed

lemma usable_kept:
  assumes e: "ensureCredentials lib p ctx (cc, c, w) = (r, cc', c', w')" and u: "usable cc"
  shows "usable cc'"
proof (cases r)
  case None
  with ensureCredentials_None [of lib p ctx cc c w] e u show ?thesis by (auto simp: usable_def)
next
  case (Some err)
  with e have "\<not> (cc_expiry cc \<noteq> 0 \<and> unix (js_now lib w) < cc_expiry cc)"
    using ensureCredentials_valid [of cc lib w p ctx c] by auto
  from ensureCredentials_run [OF this, of p ctx c] e u Some show ?thesis by (auto split: prod.splits sum.splits)
qed

text \<open>Until they expire, credentials are handed out without a run.\<close>

lemma credentials_reused:
  assumes "cc_expiry cc \<noteq> 0" "unix (js_now lib w) < cc_expiry cc"
  shows "jsToken lib p ctx (cc, c, w) = (Inr (cachedToken cc), cc, c, w)"
    and "jsRawHeaders lib p ctx (cc, c, w) = (Inr (cc_rawHeaders cc), cc, c, w)"
  using ensureCredentials_valid [OF assms, of p ctx c] by (simp_all add: jsToken_def jsRawHeaders_def)


text \<open>But when the credentials have expired between the two questions and the second run returns headers,
  the call is sent without any credentials.\<close>

lemma second_run_loses_headers:
  assumes "jsRawHeaders lib p ctx st = (Inr [], st1)" "ensureCredentials lib p ctx st1 = (None, st2)"
    and "cc_rawHeaders (fst st2) \<noteq> []"
  shows "outboundMiddleware (jsTokenProvider lib p) nxt ctx st = nxt ctx st2"
  using assms by (cases st2) (simp add: outboundMiddleware_def jsTokenProvider_def jsToken_def cachedToken_def)

section \<open>The script cache\<close>

text \<open>A script reads back what it, or another run of the same strategy, stored last under the key, until
  the time to live has passed; without a positive time to live, also a negative one, the value
  stays for ever. Other keys are not touched, and what has expired is removed.\<close>

theorem script_cache_lifetime:
  "(let c' = cacheSet now key v ttl c;
        live = (case ttl of Some t \<Rightarrow> t \<le> 0 \<or> later \<le> now + go_trunc (t * 1000000000) | None \<Rightarrow> True)
    in cacheGet later k c' =
       (if k = key then (if live then (v, c') else (GNil, c(key := None)))
        else (fst (cacheGet later k c),
              (snd (cacheGet later k c))(key := c' key))))"
  by (auto simp: cacheGet_def cacheSet_def Let_def fun_upd_twist split: option.splits)

section \<open>Witnesses\<close>

text \<open>An interpreter whose values are the exported ones and whose scripts return their own program.\<close>

definition plain_values :: "goval js_values" where
  "plain_values = \<lparr>jv_String = (\<lambda>v. case v of GStr s \<Rightarrow> s | _ \<Rightarrow> []), jv_missing = (\<lambda>v. v = GNil), jv_ToObject = Inr,
     jv_Get = (\<lambda>v k. case v of GMap kvs \<Rightarrow> map_of kvs k | _ \<Rightarrow> None),
     jv_Keys = (\<lambda>v. case v of GMap kvs \<Rightarrow> map fst kvs | _ \<Rightarrow> []), jv_ToFloat = (\<lambda>v. case v of GNum r \<Rightarrow> Some r | _ \<Rightarrow> None),
     jv_Export = id, jv_ToValue = id, jv_Undefined = GNil, jv_Null = GNil\<rparr>"

text \<open>The world is the time and the number of slots in use of each pool, at most ten.\<close>

type_synonym pool_world = "Time \<times> (PoolAcquirer \<Rightarrow> int)"

definition ten_slots :: "pool_world semaphore" where
  "ten_slots = \<lparr>sem_Acquire = (\<lambda>p ctx (t, n). (if n p < 10 then (None, (t, n(p := n p + 1)))
      else (Some (ErrText ''context deadline exceeded''), (t, n)))),
     sem_Release = (\<lambda>p (t, n). (t, n(p := n p - 1)))\<rparr>"

lemma ten_slots_count: "counts_slots ten_slots snd"
  by (auto simp: counts_slots_def ten_slots_def)

definition echo_lib :: "(goval, goval, pool_world) js_lib" where
  "echo_lib = \<lparr>js_values = plain_values, js_Compile = (\<lambda>name src. Inr (GStr src)),
     js_Run = (\<lambda>prog host arg t cw. (if prog = GNil then NotCallable else Returned prog, cw)),
     js_readFile = (\<lambda>path w. Inr []), js_expandEnv = (\<lambda>w s. s), js_now = fst, js_newRequest = (\<lambda>m u. None),
     js_Do = (\<lambda>req w. (Inl (ErrText ''offline''), w)), js_range = id,
     js_json = \<lparr>js_decode = (\<lambda>s. Inr (GStr s)), js_encode = (\<lambda>v. None),
       js_nums = \<lparr>num_json = (\<lambda>r. None), num_sprint = (\<lambda>r. [])\<rparr>\<rparr>,
     js_typeName = (\<lambda>v. ''string''), js_pools = ten_slots\<rparr>"

lemma echo_keeps: "keeps_slots echo_lib snd"
  by (auto simp: keeps_slots_def echo_lib_def)

definition token_script :: goval where
  "token_script = GMap [(''token'', GStr ''t''), (''expiry'', GNum 100)]"

definition echo_provider :: "goval jsProvider" where
  "echo_provider = \<lparr>jsp_upstreamName = ''crm'', jsp_program = token_script, jsp_timeout = 1, jsp_env = [],
     jsp_pool = ''js/auth''\<rparr>"

definition echo_validator :: "goval jsValidator" where
  "echo_validator = \<lparr>jsv_program = GNil, jsv_timeout = 1, jsv_env = [], jsv_pool = ''js/auth''\<rparr>"

lemma script_slots_returned_witness:
  "snd (snd (snd (jsValidateToken echo_lib echo_validator background ''x'' (Map.empty, (0, \<lambda>p. 3))))) ''js/auth'' = 3"
  using script_slots_returned [of echo_lib snd echo_validator background "''x''" Map.empty "(0, \<lambda>p. 3)" echo_provider]
    ten_slots_count echo_keeps
  by (simp add: echo_lib_def)

lemma echo_headers:
  "jsRawHeaders echo_lib echo_provider background (noCredentials, Map.empty, (0, \<lambda>p. 3)) =
   (Inr [], \<lparr>cc_token = ''t'', cc_expiry = 100, cc_rawHeaders = []\<rparr>, Map.empty, (0, \<lambda>p. 3))"
  by (simp add: jsRawHeaders_def ensureCredentials_def noCredentials_def callScript_def with_slot_def Acquire_def
      echo_lib_def ten_slots_def echo_provider_def token_script_def plain_values_def parseOutboundResult_def
      go_trunc_def storeCredentials_def unix_def Let_def fun_eq_iff)

definition show_authorization :: "(credentialCache \<times> scriptCache \<times> pool_world) stage" where
  "show_authorization ctx st = ((Some (ok_result (map (TextContent \<circ> snd) (HeadersFromContext ctx))), None), st)"


text \<open>A Lua interpreter whose scripts allow every token.\<close>

definition true_values :: "string lua_values" where
  "true_values = \<lparr>lv_ToString = id, lv_ToInt = (\<lambda>s. 0), lv_ToBool = (\<lambda>s. s = ''true''), lv_ToTable = (\<lambda>s. None),
     lv_Type = (\<lambda>s. ''string''), lv_LString = Some, lv_string = id, lv_number = (\<lambda>n. [])\<rparr>"

definition allow_lib :: "(unit, string, pool_world) lua_lib" where
  "allow_lib = \<lparr>lu_values = true_values, lu_Parse = (\<lambda>src name. Inr src), lu_Compile = (\<lambda>chunk name. Inr ()),
     lu_PCall = (\<lambda>sb p vs t w. (Inr (''true'', [], [], []), w)), lu_readFile = (\<lambda>path w. Inr []), lu_now = fst, lu_pools = ten_slots\<rparr>"

definition allow_validator :: "unit luaValidator" where
  "allow_validator = \<lparr>luv_proto = (), luv_timeout = 1, luv_pool = ''js/auth''\<rparr>"

lemma allow_all: "luaValidateToken allow_lib allow_validator ctx token ((), (0, \<lambda>p. 3)) =
    (Inr (emptyTokenInfo\<lparr>Subject := ''lua-authenticated''\<rparr>), (), (0, \<lambda>p. 3))"
  by (simp add: luaValidateToken_def with_slot_def Acquire_def allow_lib_def allow_validator_def ten_slots_def
      true_values_def luaTableToMap_def emptyTokenInfo_def Let_def fun_eq_iff)

lemma lua_users_share_cache_witness:
  "let i = emptyTokenInfo\<lparr>Subject := ''lua-authenticated''\<rparr>; c = \<lparr>TTL = 0, PerUser = True\<rparr>;
       alice = background; bob = background\<lparr>ctx_ip := ''10.0.0.7''\<rparr> in
   luaValidateToken allow_lib allow_validator alice ''alice'' ((), (0, \<lambda>p. 3)) = (Inr i, (), (0, \<lambda>p. 3)) \<and>
   ComputeKey (\<lambda>r. None) id ''mail'' [] True (cacheSubject c (withTokenInfo i alice)) =
   ComputeKey (\<lambda>r. None) id ''mail'' [] True (cacheSubject c (withTokenInfo i bob))"
  using lua_users_share_cache [OF allow_all [of background "''alice''"] allow_all [of "background\<lparr>ctx_ip := ''10.0.0.7''\<rparr>" "''bob''"],
      of "\<lambda>r. None" id "''mail''" "[]" "\<lparr>TTL = 0, PerUser = True\<rparr>" "''rl''" "[]" "[]"] allow_all
  by (simp add: Let_def)

end
