(* ===== verification/ScriptUpstream.thy ===== *)
theory ScriptUpstream
  imports ScriptLaws CommandLaws
begin

text \<open>
  Upstreams of type \<^verbatim>\<open>script\<close>, \<^verbatim>\<open>pkg/upstream/script\<close>: the construction of their tools and the
  execution of a script for a call, on the interpreter of \<^theory_text>\<open>ScriptRuntime\<close>. The package repeats
  the fetch function, the wrapper of sources and the schema of the runtime and command
  packages word for word; here they are the same definitions.
\<close>

section \<open>Definitions\<close>

definition defaultFetchTimeout :: Duration where "defaultFetchTimeout = 30000000000"

record 'p ScriptDef =
  sd_Program :: 'p
  sd_Timeout :: Duration
  sd_Env :: "string gomap"
  sd_HTTPClient :: "Duration option"
  sd_Pool :: PoolAcquirer

text \<open>The client is known by its timeout. The interpreter gets the environment, the arguments, the timeout
  of the run (none when it is not positive) and the fetch function.\<close>

record ('p, 'v, 'w) script_lib =
  sl_js :: "Duration \<Rightarrow> ('p, 'v, 'w) js_lib"
  sl_Run :: "'p \<Rightarrow> string gomap \<Rightarrow> ('v list \<Rightarrow> 'w \<Rightarrow> (goerr + 'v) \<times> 'w) \<Rightarrow> 'v \<Rightarrow> Duration option \<Rightarrow> 'w \<Rightarrow>
    'v script_end \<times> 'w"
  sl_gojq :: gojq
  sl_alloc :: "'w \<Rightarrow> nat \<times> 'w"

definition scriptFetch :: "('p, 'v, 'w) script_lib \<Rightarrow> Duration \<Rightarrow> Ctx \<Rightarrow> 'v list \<Rightarrow> 'w \<Rightarrow> (goerr + 'v) \<times> 'w" where
  "scriptFetch lib client = jsFetch (sl_js lib client)"

definition clientTimeout :: "'p ScriptDef \<Rightarrow> Duration" where
  "clientTimeout d = (case sd_HTTPClient d of None \<Rightarrow> defaultFetchTimeout | Some t \<Rightarrow> t)"

definition scriptEnv :: "('p, 'v, 'w) script_lib \<Rightarrow> 'p ScriptDef \<Rightarrow> 'w \<Rightarrow> string gomap" where
  "scriptEnv lib d w = map (\<lambda>(k, v). (k, js_expandEnv (sl_js lib (clientTimeout d)) w v)) (sd_Env d)"

definition scriptRun ::
    "('p, 'v, 'w) script_lib \<Rightarrow> 'p ScriptDef \<Rightarrow> Ctx \<Rightarrow> args \<Rightarrow> unit \<times> 'w \<Rightarrow> (goerr + string) \<times> unit \<times> 'w" where
  "scriptRun lib d ctx args =
     (let client = clientTimeout d; js = sl_js lib client in
      with_slot (js_pools js) ''script'' (sd_Pool d) ctx (\<lambda>(u, w).
        case sl_Run lib (sd_Program d) (scriptEnv lib d w) (scriptFetch lib client ctx)
               (jv_ToValue (js_values js) (GMap args)) (if sd_Timeout d > 0 then Some (sd_Timeout d) else None) w of
          (ending, w) \<Rightarrow>
            ((case ending of
                SetFailed e \<Rightarrow> Inl (ErrWrap ''setting context object'' e)
              | RunFailed e \<Rightarrow> Inl (ErrWrap ''running script'' e)
              | NotCallable \<Rightarrow> Inl (ErrText (''script does not export a callable default function '' @
                    ''(assign to module.exports or use '' @ [CHR 0x27] @ ''export default'' @ [CHR 0x27] @ '')''))
              | CallFailed e \<Rightarrow> Inl (ErrWrap ''script execution failed'' e)
              | Returned result \<Rightarrow>
                  (case marshalSorted (num_json (js_nums (js_json js))) (jv_Export (js_values js) result) of
                     None \<Rightarrow> Inl (ErrText ''marshalling script result'')
                   | Some out \<Rightarrow> Inr out)), u, w)))"

definition scriptExecute ::
    "('p, 'v, 'w) script_lib \<Rightarrow> 'p ScriptDef \<Rightarrow> Ctx \<Rightarrow> args \<Rightarrow> 'w \<Rightarrow> (goerr + string) \<times> 'w" where
  "scriptExecute lib d ctx args w = (case scriptRun lib d ctx args ((), w) of (res, u, w) \<Rightarrow> (res, w))"

definition scriptTextResult :: "go_json \<Rightarrow> string \<Rightarrow> CallToolResult" where
  "scriptTextResult js out =
     (let text = trim_right (\<lambda>c. c = CHR 0x0A) out;
          text = (if text = [] then out else text);
          text = (case js_decode js out of
                    Inl e \<Rightarrow> text
                  | Inr v \<Rightarrow> (case marshalSorted (num_json (js_nums js)) v of None \<Rightarrow> text | Some b \<Rightarrow> b))
      in ok_result [TextContent text])"

definition scriptErrorResult :: "goerr \<Rightarrow> CallToolResult" where
  "scriptErrorResult execErr = error_result (err_text execErr)"

definition scriptExecutor :: "('p, 'v, 'w) script_lib \<Rightarrow> 'p ScriptDef \<Rightarrow> 'w executor" where
  "scriptExecutor lib d ctx args w =
     (case scriptExecute lib d ctx args w of
        (Inl e, w) \<Rightarrow> ((Some (scriptErrorResult e), None), w)
      | (Inr out, w) \<Rightarrow> ((Some (scriptTextResult (js_json (sl_js lib (clientTimeout d))) out), None), w))"

section \<open>Construction\<close>

record 'p ScriptTool =
  st_PrefixedName :: string
  st_OriginalName :: string
  st_MCPTool :: Tool
  st_Def :: "'p ScriptDef"
  st_Transforms :: CompiledTransforms

definition scriptJSONSchema :: "CommandInputSchema \<Rightarrow> goval" where
  "scriptJSONSchema s = buildJSONSchema s"

definition CompileScript :: "('p, 'v, 'w) js_lib \<Rightarrow> string \<Rightarrow> string \<Rightarrow> goerr + 'p" where
  "CompileScript js name src =
     (case js_Compile js (name @ ''.js'') (wrapScript src) of
        Inl e \<Rightarrow> Inl (ErrWrap ''parse error'' e) | Inr prog \<Rightarrow> Inr prog)"

definition buildScript ::
    "('p, 'v, 'w) script_lib \<Rightarrow> UpstreamConfig \<Rightarrow> NamingConfig \<Rightarrow> Duration option \<Rightarrow> PoolAcquirer \<Rightarrow> 'w \<Rightarrow>
     nat \<Rightarrow> string list \<Rightarrow> ScriptConfig \<Rightarrow> goerr + 'p ScriptTool" where
  "buildScript lib up naming httpClient pool w i seen cfg =
     (let toolName = ScriptConfig.ToolName cfg; path = ScriptConfig.ScriptPath cfg; js = sl_js lib defaultFetchTimeout;
          failing = ErrWrap (''script '' @ go_quote toolName);
          prefixedName = UpstreamConfig.ToolPrefix up @ Separator naming @ toolName
      in if toolName = [] then Inl (ErrText (''script['' @ show_nat i @ '']: tool_name is required''))
      else if path = [] then Inl (ErrText (''script '' @ go_quote toolName @ '': script_path is required''))
      else (case js_readFile js path w of
        Inl e \<Rightarrow> Inl (failing (ErrWrap (''reading script file '' @ go_quote path) e))
      | Inr src \<Rightarrow>
          (case CompileScript js toolName src of
             Inl e \<Rightarrow> Inl (failing (ErrWrap ''compiling script'' e))
           | Inr prog \<Rightarrow>
               if prefixedName \<in> set seen
               then Inl (ErrText (''duplicate tool_name '' @ go_quote toolName @ '' in script upstream '' @
                      go_quote (UpstreamConfig.Name up)))
               else (let client = (case httpClient of
                         None \<Rightarrow> (if ScriptConfig.Timeout cfg > 0 then ScriptConfig.Timeout cfg else defaultFetchTimeout)
                       | Some t \<Rightarrow> t)
                 in case Compile (sl_gojq lib) DefaultResponseExpr DefaultResponseExpr DefaultErrorExpr of
                      Inl e \<Rightarrow> Inl (failing (ErrWrap ''compiling transforms'' e))
                    | Inr compiled \<Rightarrow>
                        Inr \<lparr>st_PrefixedName = prefixedName, st_OriginalName = toolName,
                          st_MCPTool = \<lparr>Tool.Name = prefixedName, Tool.Description = ScriptConfig.Description cfg,
                            Tool.InputSchema = scriptJSONSchema (ScriptConfig.InputSchema cfg), Tool.Meta = []\<rparr>,
                          st_Def = \<lparr>sd_Program = prog, sd_Timeout = ScriptConfig.Timeout cfg,
                            sd_Env = ScriptConfig.Env cfg, sd_HTTPClient = Some client, sd_Pool = pool\<rparr>,
                          st_Transforms = compiled\<rparr>))))"

definition BuildScripts ::
    "('p, 'v, 'w) script_lib \<Rightarrow> ScriptConfig list \<Rightarrow> UpstreamConfig \<Rightarrow> NamingConfig \<Rightarrow> Duration option \<Rightarrow> PoolAcquirer \<Rightarrow>
     'w \<Rightarrow> goerr + 'p ScriptTool list" where
  "BuildScripts lib cfgs up naming httpClient pool w =
     build_each (buildScript lib up naming httpClient pool w) st_PrefixedName 0 [] cfgs"

definition scriptBuild :: "('p, 'v, 'w) script_lib \<Rightarrow> 'w builder" where
  "scriptBuild lib cfg naming w =
     (let name = UpstreamConfig.Name cfg in
      case UpstreamConfig.JSScriptPool cfg of
        None \<Rightarrow> (Inl (ErrText (''upstream '' @ go_quote name @ '': JSScriptPool must be set before building a script upstream'')), w)
      | Some pool \<Rightarrow>
          (let fetchTimeout = (if UpstreamConfig.Timeout cfg \<le> 0 then 30000000000 else UpstreamConfig.Timeout cfg) in
           case BuildScripts lib (UpstreamConfig.Scripts cfg) cfg naming (Some fetchTimeout) pool w of
             Inl e \<Rightarrow> (Inl (ErrWrap (''upstream '' @ go_quote name @ '' script validation failed'') e), w)
           | Inr scriptTools \<Rightarrow>
               (let (addr, w) = sl_alloc lib w; up = plainUpstream cfg addr in
                (Inr \<lparr>VConfig = cfg,
                   Entries = map (\<lambda>t. plainEntry cfg up (st_PrefixedName t) (st_OriginalName t) (st_MCPTool t)
                     (scriptExecutor lib (st_Def t))) scriptTools,
                   SpecYAMLRoot = None\<rparr>, w))))"

section \<open>Properties\<close>

text \<open>The two packages' copies agree.\<close>

lemma copies_agree:
  "CompileScript js = compileScript js" "scriptJSONSchema = buildJSONSchema" "scriptTextResult = commandTextResult"
  by (simp_all add: fun_eq_iff CompileScript_def compileScript_def scriptJSONSchema_def scriptTextResult_def
      commandTextResult_def)

definition script_keeps_slots :: "('p, 'v, 'w) script_lib \<Rightarrow> ('w \<Rightarrow> PoolAcquirer \<Rightarrow> int) \<Rightarrow> bool" where
  "script_keeps_slots lib in_use \<longleftrightarrow>
     (\<forall>prog env fetch arg t w. in_use (snd (sl_Run lib prog env fetch arg t w)) = in_use w)"

lemma script_keeps_slots_run:
  "script_keeps_slots lib in_use \<Longrightarrow> sl_Run lib prog env fetch arg t w = (e, w') \<Longrightarrow> in_use w' = in_use w"
  by (metis script_keeps_slots_def snd_conv)

lemma scriptRun_slots:
  assumes "counts_slots (js_pools (sl_js lib (clientTimeout d))) in_use" "script_keeps_slots lib in_use"
  shows "in_use (snd (snd (scriptRun lib d ctx args uw))) = in_use (snd uw)"
  unfolding scriptRun_def Let_def
  by (rule with_slot_returns [OF assms(1)]) (auto dest: script_keeps_slots_run [OF assms(2)] split: prod.splits)


section \<open>Construction\<close>

definition valid_script :: "('p, 'v, 'w) script_lib \<Rightarrow> 'w \<Rightarrow> ScriptConfig \<Rightarrow> bool" where
  "valid_script lib w c \<longleftrightarrow> ScriptConfig.ToolName c \<noteq> [] \<and> ScriptConfig.ScriptPath c \<noteq> [] \<and>
     (\<exists>src prog. js_readFile (sl_js lib defaultFetchTimeout) (ScriptConfig.ScriptPath c) w = Inr src \<and>
        compileScript (sl_js lib defaultFetchTimeout) (ScriptConfig.ToolName c) src = Inr prog) \<and>
     (\<exists>code. Compile (sl_gojq lib) DefaultResponseExpr DefaultResponseExpr DefaultErrorExpr = Inr code)"

abbreviation script_name :: "UpstreamConfig \<Rightarrow> NamingConfig \<Rightarrow> ScriptConfig \<Rightarrow> string" where
  "script_name cfg naming c \<equiv> UpstreamConfig.ToolPrefix cfg @ Separator naming @ ScriptConfig.ToolName c"

lemma buildScript_Inr:
  "(\<exists>t. buildScript lib cfg naming cl pool w i seen c = Inr t) \<longleftrightarrow> script_name cfg naming c \<notin> set seen \<and> valid_script lib w c"
  by (auto simp: buildScript_def valid_script_def Let_def copies_agree split: sum.splits)

lemma buildScript_step:
  "buildScript lib cfg naming cl pool w i seen c = Inr t \<longleftrightarrow>
     script_name cfg naming c \<notin> set seen \<and> buildScript lib cfg naming cl pool w 0 [] c = Inr t"
  by (auto simp: buildScript_def Let_def split: sum.splits)

lemma buildScript_names:
  "buildScript lib cfg naming cl pool w i seen c = Inr t \<Longrightarrow>
     st_PrefixedName t = script_name cfg naming c \<and> sd_Pool (st_Def t) = pool"
  by (auto simp: buildScript_def Let_def split: sum.splits if_splits)

lemma BuildScripts_Inr:
  "BuildScripts lib cs cfg naming cl pool w = Inr ts \<longleftrightarrow>
     distinct (map ScriptConfig.ToolName cs) \<and> list_all2 (\<lambda>c t. buildScript lib cfg naming cl pool w 0 [] c = Inr t) cs ts"
proof -
  have "distinct (map (script_name cfg naming) cs) = distinct (map ScriptConfig.ToolName cs)"
    by (simp add: distinct_map inj_on_def)
  then show ?thesis
    unfolding BuildScripts_def
    by (subst build_each_Inr [where key = "script_name cfg naming"])
      (rule buildScript_step, erule buildScript_names [THEN conjunct1], simp)
qed

text \<open>A script upstream is built exactly when it has a pool, every script has a name and a file that
  compiles, and no two scripts share a name; then all its scripts run in that one pool, under
  pairwise distinct names, behind authentication and the upstream's rate limit.\<close>

theorem script_upstream_builds_iff:
  "case fst (scriptBuild lib cfg naming w) of
     Inl e \<Rightarrow> \<not> (UpstreamConfig.JSScriptPool cfg \<noteq> None \<and>
       distinct (map ScriptConfig.ToolName (UpstreamConfig.Scripts cfg)) \<and>
       list_all (valid_script lib w) (UpstreamConfig.Scripts cfg))
   | Inr vu \<Rightarrow> UpstreamConfig.JSScriptPool cfg \<noteq> None \<and>
       distinct (map ScriptConfig.ToolName (UpstreamConfig.Scripts cfg)) \<and>
       list_all (valid_script lib w) (UpstreamConfig.Scripts cfg) \<and>
       map RegistryEntry.PrefixedName (Entries vu) = map (script_name cfg naming) (UpstreamConfig.Scripts cfg) \<and>
       distinct (map RegistryEntry.PrefixedName (Entries vu)) \<and>
       list_all (\<lambda>e. AuthRequired e \<and> RegistryEntry.RateLimit e = UpstreamConfig.RateLimit cfg \<and>
         (\<exists>d. Executor e = scriptExecutor lib d \<and> Some (sd_Pool d) = UpstreamConfig.JSScriptPool cfg)) (Entries vu)"
proof (cases "UpstreamConfig.JSScriptPool cfg")
  case None
  then show ?thesis by (simp add: scriptBuild_def Let_def)
next
  case (Some pool)
  let ?cs = "UpstreamConfig.Scripts cfg"
  let ?cl = "Some (if UpstreamConfig.Timeout cfg \<le> 0 then 30000000000 else UpstreamConfig.Timeout cfg)"
  have valid: "list_all (valid_script lib w) ?cs \<longleftrightarrow>
      (\<exists>ts. list_all2 (\<lambda>c t. buildScript lib cfg naming ?cl pool w 0 [] c = Inr t) ?cs ts)"
    using buildScript_Inr [of lib cfg naming ?cl pool w 0 "[]"] by (simp add: ex_list_all2)
  show ?thesis
  proof (cases "BuildScripts lib ?cs cfg naming ?cl pool w")
    case (Inl e)
    then have "\<nexists>ts. BuildScripts lib ?cs cfg naming ?cl pool w = Inr ts" by simp
    then have "\<not> (distinct (map ScriptConfig.ToolName ?cs) \<and> list_all (valid_script lib w) ?cs)"
      unfolding BuildScripts_Inr valid by blast
    with Inl Some show ?thesis by (simp add: scriptBuild_def Let_def)
  next
    case (Inr ts)
    then have d: "distinct (map ScriptConfig.ToolName ?cs)"
      and l: "list_all2 (\<lambda>c t. buildScript lib cfg naming ?cl pool w 0 [] c = Inr t) ?cs ts" by (simp_all add: BuildScripts_Inr)
    from l have "map st_PrefixedName ts = map (script_name cfg naming) ?cs \<and> (\<forall>t \<in> set ts. sd_Pool (st_Def t) = pool)"
      by (induction rule: list_all2_induct) (auto dest: buildScript_names)
    with Inr Some d l valid show ?thesis
      by (auto simp: scriptBuild_def plainEntry_def Let_def list_all_iff comp_def distinct_map inj_on_def split: prod.splits)
  qed
qed

section \<open>Witness\<close>

definition echo_scripts :: "(goval, goval, pool_world) script_lib" where
  "echo_scripts = \<lparr>sl_js = (\<lambda>client. echo_lib),
     sl_Run = (\<lambda>prog env fetch arg t w. (if prog = GNil then NotCallable else Returned arg, w)),
     sl_gojq = \<lparr>jq_Parse = Inr, jq_Compile = (\<lambda>q. Inr (\<lambda>v. [Inr v]))\<rparr>, sl_alloc = Pair 0\<rparr>"

definition no_function :: "goval ScriptDef" where
  "no_function = \<lparr>sd_Program = GNil, sd_Timeout = 0, sd_Env = [], sd_HTTPClient = None, sd_Pool = ''js/script''\<rparr>"


end
