(* ===== verification/Ui.thy ===== *)
theory Ui
  imports ScriptUpstream Refresh
begin

text \<open>
  The HTML interfaces of tools, \<^verbatim>\<open>pkg/ui/ui.go\<close>, and their hook into the HTTP builder
  (\<^verbatim>\<open>pkg/upstream/http/withui\<close>). A render script runs on the interpreter of
  \<^theory_text>\<open>ScriptRuntime\<close>, without a timeout; the fetch function repeats the one there word for word.
\<close>

section \<open>Loaders\<close>

datatype 'p Loader =
    StaticLoader string
  | ScriptLoader 'p "string gomap" Duration PoolAcquirer

record render_ctx =
  rc_toolName :: string
  rc_description :: string
  rc_schema :: goval
  rc_env :: "string gomap"

text \<open>The interpreter compiles under the given name and calls the exported function with the context.\<close>

record ('p, 'v, 'w) ui_lib =
  ul_js :: "Duration \<Rightarrow> ('p, 'v, 'w) js_lib"
  ul_Run :: "'p \<Rightarrow> render_ctx \<Rightarrow> ('v list \<Rightarrow> 'w \<Rightarrow> (goerr + 'v) \<times> 'w) \<Rightarrow> 'w \<Rightarrow> 'v script_end \<times> 'w"

definition uiFetch :: "('p, 'v, 'w) ui_lib \<Rightarrow> Duration \<Rightarrow> Ctx \<Rightarrow> 'v list \<Rightarrow> 'w \<Rightarrow> (goerr + 'v) \<times> 'w" where
  "uiFetch lib client = jsFetch (ul_js lib client)"

definition render_prelude :: string where
  "render_prelude = newline @ ''var __mcp_render__;'' @ newline @ ''var exports = {};'' @ newline @
     ''var module = {exports: exports};'' @ newline"

definition render_postlude :: string where
  "render_postlude = newline @
     ''if (typeof __mcp_render__ === '' @ [CHR 0x27] @ ''undefined'' @ [CHR 0x27] @
     '' && typeof module.exports === '' @ [CHR 0x27] @ ''function'' @ [CHR 0x27] @ '') {'' @ newline @
     ''    __mcp_render__ = module.exports;'' @ newline @ ''}'' @ newline"

definition wrapRenderScript :: "string \<Rightarrow> string" where
  "wrapRenderScript src =
     (let processed = replace_all ''export default '' ''__mcp_render__ = '' src
      in render_prelude @ processed @ render_postlude)"

definition compileRenderScript :: "('p, 'v, 'w) js_lib \<Rightarrow> string \<Rightarrow> string \<Rightarrow> goerr + 'p" where
  "compileRenderScript js name src =
     (case js_Compile js name (wrapRenderScript src) of
        Inl e \<Rightarrow> Inl (ErrWrap ''parse error'' e) | Inr prog \<Rightarrow> Inr prog)"

definition NewStaticLoader :: "('p, 'v, 'w) js_lib \<Rightarrow> string \<Rightarrow> 'w \<Rightarrow> goerr + 'p Loader" where
  "NewStaticLoader js path w =
     (case js_readFile js path w of
        Inl e \<Rightarrow> Inl (ErrWrap (''reading static UI file '' @ go_quote path) e)
      | Inr content \<Rightarrow>
          if trim_space content = [] then Inl (ErrText (''static UI file '' @ go_quote path @ '' is empty''))
          else Inr (StaticLoader content))"

definition NewScriptLoader ::
    "('p, 'v, 'w) js_lib \<Rightarrow> string \<Rightarrow> string gomap \<Rightarrow> Duration option \<Rightarrow> PoolAcquirer \<Rightarrow> 'w \<Rightarrow> goerr + 'p Loader" where
  "NewScriptLoader js path env client pool w =
     (case js_readFile js path w of
        Inl e \<Rightarrow> Inl (ErrWrap (''reading UI render script '' @ go_quote path) e)
      | Inr src \<Rightarrow>
          (case compileRenderScript js path src of
             Inl e \<Rightarrow> Inl (ErrWrap (''compiling UI render script '' @ go_quote path) e)
           | Inr prog \<Rightarrow> Inr (ScriptLoader prog env (case client of None \<Rightarrow> defaultFetchTimeout | Some t \<Rightarrow> t) pool)))"

definition newLoader ::
    "('p, 'v, 'w) js_lib \<Rightarrow> ToolUIConfig \<Rightarrow> string gomap \<Rightarrow> Duration option \<Rightarrow> PoolAcquirer option \<Rightarrow> 'w \<Rightarrow>
     goerr + 'p Loader" where
  "newLoader js cfg env client pool w =
     (if ToolUIConfig.Script cfg \<noteq> [] then
        (case pool of
           None \<Rightarrow> Inl (ErrText ''ui: JSScriptPool must be set when using a render script'')
         | Some p \<Rightarrow> NewScriptLoader js (ToolUIConfig.Script cfg) env client p w)
      else if ToolUIConfig.Static cfg \<noteq> [] then NewStaticLoader js (ToolUIConfig.Static cfg) w
      else Inl (ErrText ''ui: no source configured (set static or script path)''))"

section \<open>Rendering\<close>

definition renderResult :: "('p, 'v, 'w) js_lib \<Rightarrow> 'v script_end \<Rightarrow> goerr + string" where
  "renderResult js ending =
     (case ending of
        SetFailed e \<Rightarrow> Inl (ErrWrap ''setting context object'' e)
      | RunFailed e \<Rightarrow> Inl (ErrWrap ''running render script'' e)
      | NotCallable \<Rightarrow> Inl (ErrText (''render script does not export a callable default function (use '' @
            [CHR 0x27] @ ''export default'' @ [CHR 0x27] @ '' or module.exports)''))
      | CallFailed e \<Rightarrow> Inl (ErrWrap ''render script execution failed'' e)
      | Returned result \<Rightarrow>
          (case jv_Export (js_values js) result of
             GNil \<Rightarrow> Inl (ErrText ''render script returned nil; it must return an HTML string'')
           | GStr s \<Rightarrow> Inr s
           | v \<Rightarrow> Inl (ErrText (''render script must return a string, got '' @ js_typeName js v))))"

definition buildRenderCtx :: "('p, 'v, 'w) js_lib \<Rightarrow> string gomap \<Rightarrow> string \<Rightarrow> string \<Rightarrow> goval \<Rightarrow> 'w \<Rightarrow> render_ctx" where
  "buildRenderCtx js vars toolName description schema w =
     \<lparr>rc_toolName = toolName, rc_description = description, rc_schema = schema,
      rc_env = map (\<lambda>(k, v). (k, js_expandEnv js w v)) vars\<rparr>"

definition renderScript ::
    "('p, 'v, 'w) ui_lib \<Rightarrow> 'p \<Rightarrow> string gomap \<Rightarrow> Duration \<Rightarrow> PoolAcquirer \<Rightarrow> Ctx \<Rightarrow> string \<Rightarrow> string \<Rightarrow> goval \<Rightarrow>
     unit \<times> 'w \<Rightarrow> (goerr + string) \<times> unit \<times> 'w" where
  "renderScript lib prog vars client pl ctx toolName description schema =
     (let js = ul_js lib client in
      with_slot (js_pools js) ''acquiring render script pool slot'' pl ctx (\<lambda>(u, w).
        case ul_Run lib prog (buildRenderCtx js vars toolName description schema w) (uiFetch lib client ctx) w of
          (ending, w) \<Rightarrow> (renderResult js ending, u, w)))"

definition RenderHTML ::
    "('p, 'v, 'w) ui_lib \<Rightarrow> 'p Loader \<Rightarrow> Ctx \<Rightarrow> string \<Rightarrow> string \<Rightarrow> goval \<Rightarrow> 'w \<Rightarrow> (goerr + string) \<times> 'w" where
  "RenderHTML lib l ctx toolName description schema w =
     (case l of
        StaticLoader html \<Rightarrow> (Inr html, w)
      | ScriptLoader prog vars client pl \<Rightarrow>
          (case renderScript lib prog vars client pl ctx toolName description schema ((), w) of (res, u, w) \<Rightarrow> (res, w)))"

text \<open>\<^verbatim>\<open>toJSONValue\<close>: the value JSON reads back from what it writes, the value itself when it cannot.\<close>

definition toJSONValue :: "go_json \<Rightarrow> goval \<Rightarrow> goval" where
  "toJSONValue j v =
     (if v = GNil then GNil
      else (case marshalSorted (num_json (js_nums j)) v of
              None \<Rightarrow> v
            | Some b \<Rightarrow> (case js_decode j b of Inl e \<Rightarrow> v | Inr result \<Rightarrow> result)))"

record ResourceContents =
  rs_URI :: string
  rs_MIMEType :: string
  rs_Text :: string

definition ResourceHandler ::
    "('p, 'v, 'w) ui_lib \<Rightarrow> 'p Loader \<Rightarrow> string \<Rightarrow> string \<Rightarrow> goval \<Rightarrow> string \<Rightarrow> Ctx \<Rightarrow> 'w \<Rightarrow>
     (goerr + ResourceContents list) \<times> 'w" where
  "ResourceHandler lib l toolName description schema uri ctx w =
     (let schemaVal = toJSONValue (js_json (ul_js lib 0)) schema in
      case RenderHTML lib l ctx toolName description schemaVal w of
        (Inl e, w) \<Rightarrow> (Inl (ErrWrap (''rendering UI for '' @ go_quote toolName) e), w)
      | (Inr html, w) \<Rightarrow> (Inr [\<lparr>rs_URI = uri, rs_MIMEType = ''text/html'', rs_Text = html\<rparr>], w))"

text \<open>The factory \<^verbatim>\<open>withui\<close> registers, as the builder of the HTTP upstream calls it in the world
  \<^term>\<open>w\<close>: a handler or the error of the loader.\<close>

definition withuiFactory ::
    "('p, 'v, 'w) ui_lib \<Rightarrow> ToolUIConfig \<Rightarrow> Duration option \<Rightarrow> PoolAcquirer option \<Rightarrow> string \<Rightarrow> string \<Rightarrow> goval \<Rightarrow> string \<Rightarrow> 'w \<Rightarrow>
     goerr + (Ctx \<Rightarrow> 'w \<Rightarrow> (goerr + ResourceContents list) \<times> 'w)" where
  "withuiFactory lib cfg client pool toolName description schema uri w =
     (case newLoader (ul_js lib 0) cfg [] client pool w of
        Inl e \<Rightarrow> Inl e
      | Inr loader \<Rightarrow> Inr (ResourceHandler lib loader toolName description schema uri))"

section \<open>Properties\<close>

lemma renderResult_Inr: "renderResult js ending = Inr html \<longleftrightarrow>
    (\<exists>v. ending = Returned v \<and> jv_Export (js_values js) v = GStr html)"
  by (auto simp: renderResult_def split: script_end.splits goval.splits)

lemma NewStaticLoader_Inr: "NewStaticLoader js path w = Inr l \<longleftrightarrow>
    (\<exists>html. js_readFile js path w = Inr html \<and> trim_space html \<noteq> [] \<and> l = StaticLoader html)"
  by (auto simp: NewStaticLoader_def split: sum.splits)

text \<open>The page of a tool is the one thing its configuration names: without a script the file as it was
  when the upstream was built, not blank, for every request; with a script, which wins over a
  file, the text its function returns now. Nothing else is ever served as a page.\<close>

theorem served_page_is_the_configured_one:
  assumes "withuiFactory lib cfg client pool toolName description schema uri w = Inr h" and "h ctx w1 = (Inr pages, w2)"
  shows "\<exists>html. pages = [\<lparr>rs_URI = uri, rs_MIMEType = ''text/html'', rs_Text = html\<rparr>] \<and>
    (if ToolUIConfig.Script cfg = [] then
       js_readFile (ul_js lib 0) (ToolUIConfig.Static cfg) w = Inr html \<and> trim_space html \<noteq> [] \<and> w2 = w1
     else (\<exists>prog t rctx fetch wa v wb. ul_Run lib prog rctx fetch wa = (Returned v, wb) \<and>
       rc_toolName rctx = toolName \<and> rc_description rctx = description \<and>
       rc_schema rctx = toJSONValue (js_json (ul_js lib 0)) schema \<and>
       jv_Export (js_values (ul_js lib t)) v = GStr html))"
proof -
  obtain l where l: "newLoader (ul_js lib 0) cfg [] client pool w = Inr l"
      and h: "h = ResourceHandler lib l toolName description schema uri"
    using assms(1) by (auto simp: withuiFactory_def split: sum.splits)
  from assms(2) h obtain html where
      r: "RenderHTML lib l ctx toolName description (toJSONValue (js_json (ul_js lib 0)) schema) w1 = (Inr html, w2)"
      and p: "pages = [\<lparr>rs_URI = uri, rs_MIMEType = ''text/html'', rs_Text = html\<rparr>]"
    by (auto simp: ResourceHandler_def Let_def split: prod.splits sum.splits)
  show ?thesis
  proof (cases "ToolUIConfig.Script cfg = []")
    case True
    with l obtain html' where "js_readFile (ul_js lib 0) (ToolUIConfig.Static cfg) w = Inr html'" "trim_space html' \<noteq> []"
        "l = StaticLoader html'"
      by (auto simp: newLoader_def NewStaticLoader_Inr split: if_splits)
    with r p True show ?thesis by (auto simp: RenderHTML_def)
  next
    case False
    with l obtain prog vars t pl where "l = ScriptLoader prog vars t pl"
      by (auto simp: newLoader_def NewScriptLoader_def split: option.splits sum.splits)
    with r obtain u where "renderScript lib prog vars t pl ctx toolName description
        (toJSONValue (js_json (ul_js lib 0)) schema) ((), w1) = (Inr html, u, w2)"
      by (auto simp: RenderHTML_def split: prod.splits)
    then obtain wa wb where
        "(case ul_Run lib prog (buildRenderCtx (ul_js lib t) vars toolName description
            (toJSONValue (js_json (ul_js lib 0)) schema) wa) (uiFetch lib t ctx) wa of
            (ending, w) \<Rightarrow> (renderResult (ul_js lib t) ending, (), w)) = (Inr html, u, wb)"
      unfolding renderScript_def Let_def by (elim with_slot_Inr) auto
    then obtain v where run: "ul_Run lib prog (buildRenderCtx (ul_js lib t) vars toolName description
            (toJSONValue (js_json (ul_js lib 0)) schema) wa) (uiFetch lib t ctx) wa = (Returned v, wb)"
        and v: "jv_Export (js_values (ul_js lib t)) v = GStr html"
      by (auto simp: renderResult_Inr split: prod.splits)
    have "rc_toolName (buildRenderCtx js vars toolName description s wa) = toolName"
        "rc_description (buildRenderCtx js vars toolName description s wa) = description"
        "rc_schema (buildRenderCtx js vars toolName description s wa) = s" for js s
      by (simp_all add: buildRenderCtx_def)
    with run v have "\<exists>prog t rctx fetch wa v wb. ul_Run lib prog rctx fetch wa = (Returned v, wb) \<and>
       rc_toolName rctx = toolName \<and> rc_description rctx = description \<and>
       rc_schema rctx = toJSONValue (js_json (ul_js lib 0)) schema \<and>
       jv_Export (js_values (ul_js lib t)) v = GStr html"
      by blast
    with p False show ?thesis by (intro exI [of _ html]) simp
  qed
qed

definition one_page :: "(goval, goval, pool_world) ui_lib" where
  "one_page = \<lparr>ul_js = (\<lambda>t. echo_lib\<lparr>js_readFile := (\<lambda>path w. Inr ''<p>'')\<rparr>), ul_Run = (\<lambda>prog rctx fetch w. (NotCallable, w))\<rparr>"

lemma served_page_is_the_configured_one_witness:
  "\<exists>h. withuiFactory one_page \<lparr>ToolUIConfig.Static = ''a.html'', Script = []\<rparr> None None ''t'' [] GNil ''ui://t'' (0, \<lambda>p. 0) = Inr h \<and>
     h background (7, \<lambda>p. 0) = (Inr [\<lparr>rs_URI = ''ui://t'', rs_MIMEType = ''text/html'', rs_Text = ''<p>''\<rparr>], (7, \<lambda>p. 0))"
proof -
  let ?f = "withuiFactory one_page \<lparr>ToolUIConfig.Static = ''a.html'', Script = []\<rparr> None None ''t'' [] GNil ''ui://t'' (0, \<lambda>p. 0)"
  have t: "trim_space ''<p>'' \<noteq> []" by code_simp
  then obtain h where h: "?f = Inr h"
    by (simp add: withuiFactory_def newLoader_def NewStaticLoader_def one_page_def)
  then obtain pages w2 where r: "h background (7, \<lambda>p. 0) = (Inr pages, w2)"
    using t by (auto simp: withuiFactory_def newLoader_def NewStaticLoader_def one_page_def ResourceHandler_def RenderHTML_def)
  from served_page_is_the_configured_one [OF h r] r h show ?thesis by (auto simp: one_page_def)
qed

end
