(* ===== verification/Backends.thy ===== *)
theory Backends
  imports Manager
begin

text \<open>
  The replaceable back ends: the cache stores (\<^verbatim>\<open>pkg/cache/memory\<close>, \<^verbatim>\<open>pkg/cache/redis\<close>), the rate
  limit stores (\<^verbatim>\<open>pkg/ratelimit/memory\<close>, \<^verbatim>\<open>pkg/ratelimit/redis\<close>), the embedding providers
  (\<^verbatim>\<open>pkg/embedding\<close>), token counting (\<^verbatim>\<open>pkg/tokencounter\<close>) and the metrics and reload counters of
  \<^verbatim>\<open>pkg/telemetry\<close>. The clients they call are parameters.
\<close>

section \<open>Cache stores\<close>

text \<open>The client of \<^verbatim>\<open>go-redis\<close> as both Redis stores use it, opened for an address and a password.\<close>

record 'w redis_client =
  rc_ping :: "'w \<Rightarrow> goerr option \<times> 'w"
  rc_instrument :: "goerr option"
  rc_get :: "string \<Rightarrow> 'w \<Rightarrow> (goerr + string) \<times> 'w"
  rc_set :: "string \<Rightarrow> string \<Rightarrow> Duration \<Rightarrow> 'w \<Rightarrow> goerr option \<times> 'w"

text \<open>The JSON form of a result, by the SDK.\<close>

record result_codec =
  rc_marshal :: "CallToolResult \<Rightarrow> goerr + string"
  rc_unmarshal :: "string \<Rightarrow> goerr + CallToolResult"

definition redisCacheGet :: "result_codec \<Rightarrow> 'w redis_client \<Rightarrow> string \<Rightarrow> 'w \<Rightarrow> CallToolResult option \<times> 'w" where
  "redisCacheGet codec client key w =
     (case rc_get client key w of
        (Inl e, w1) \<Rightarrow> (None, w1)
      | (Inr data, w1) \<Rightarrow>
          (case rc_unmarshal codec data of Inl e \<Rightarrow> (None, w1) | Inr result \<Rightarrow> (Some result, w1)))"

definition redisCacheSet ::
    "result_codec \<Rightarrow> 'w redis_client \<Rightarrow> string \<Rightarrow> CallToolResult \<Rightarrow> Duration \<Rightarrow> 'w \<Rightarrow> goerr option \<times> 'w" where
  "redisCacheSet codec client key v ttl w =
     (case rc_marshal codec v of
        Inl e \<Rightarrow> (Some (ErrWrap ''marshalling cache value'' e), w)
      | Inr data \<Rightarrow> rc_set client key data ttl w)"

definition connectRedis ::
    "string \<Rightarrow> string \<Rightarrow> 'w redis_client \<Rightarrow> 'w \<Rightarrow> goerr option \<times> 'w" where
  "connectRedis what addr client w =
     (case rc_ping client w of
        (Some e, w1) \<Rightarrow> (Some (ErrWrap (''connecting to Redis at '' @ go_quote addr) e), w1)
      | (None, w1) \<Rightarrow>
          (case rc_instrument client of
             Some e \<Rightarrow> (Some (ErrWrap (''instrumenting redis '' @ what @ '' store tracing'') e), w1)
           | None \<Rightarrow> (None, w1)))"

definition redisCacheStore ::
    "result_codec \<Rightarrow> (string \<Rightarrow> string \<Rightarrow> 'w redis_client) \<Rightarrow> 'w store_factory" where
  "redisCacheStore codec connect cfg w =
     (case CacheStoreConfig.Redis cfg of
        None \<Rightarrow> (Inl (ErrText ''cache_store.redis config is required for provider \"redis\"''), w)
      | Some rc \<Rightarrow>
          (let client = connect (RedisCacheConfig.Addr rc) (RedisCacheConfig.Password rc) in
           case connectRedis ''cache'' (RedisCacheConfig.Addr rc) client w of
             (Some e, w1) \<Rightarrow> (Inl e, w1)
           | (None, w1) \<Rightarrow>
               (Inr \<lparr>st_get = redisCacheGet codec client, st_set = redisCacheSet codec client\<rparr>, w1)))"

text \<open>The in-process cache of \<^verbatim>\<open>ristretto\<close>: storing waits until the buffers are applied.\<close>

record 'w ristretto =
  ri_get :: "string \<Rightarrow> 'w \<Rightarrow> CallToolResult option \<times> 'w"
  ri_setWithTTL :: "string \<Rightarrow> CallToolResult \<Rightarrow> int \<Rightarrow> Duration \<Rightarrow> 'w \<Rightarrow> 'w"
  ri_wait :: "'w \<Rightarrow> 'w"

definition memoryCacheStore :: "('w \<Rightarrow> (goerr + 'w ristretto) \<times> 'w) \<Rightarrow> 'w store_factory" where
  "memoryCacheStore newCache cfg w =
     (case newCache w of
        (Inl e, w1) \<Rightarrow> (Inl (ErrWrap ''creating ristretto cache'' e), w1)
      | (Inr c, w1) \<Rightarrow>
          (Inr \<lparr>st_get = ri_get c,
             st_set = (\<lambda>key v ttl w. (None, ri_wait c (ri_setWithTTL c key v 1 ttl w)))\<rparr>, w1))"

section \<open>Rate limit stores\<close>

definition memoryLimitStore :: "('w \<Rightarrow> 'w limiter_store \<times> 'w) \<Rightarrow> 'w limit_factory" where
  "memoryLimitStore newStore cfg w = (case newStore w of (s, w1) \<Rightarrow> (Inr s, w1))"

definition redisLimitStore ::
    "(string \<Rightarrow> string \<Rightarrow> 'w redis_client) \<Rightarrow> ('w redis_client \<Rightarrow> 'w \<Rightarrow> (goerr + 'w limiter_store) \<times> 'w) \<Rightarrow>
     'w limit_factory" where
  "redisLimitStore connect newStore cfg w =
     (case RateLimitStoreConfig.Redis (RateLimitStore cfg) of
        None \<Rightarrow> (Inl (ErrText ''rate_limit_store.redis is required for the redis store''), w)
      | Some rc \<Rightarrow>
          (let client = connect (RedisStoreConfig.Addr rc) (RedisStoreConfig.Password rc) in
           case connectRedis ''rate limit'' (RedisStoreConfig.Addr rc) client w of
             (Some e, w1) \<Rightarrow> (Inl e, w1)
           | (None, w1) \<Rightarrow>
               (case newStore client w1 of
                  (Inl e, w2) \<Rightarrow> (Inl (ErrWrap ''creating Redis rate limit store'' e), w2)
                | (Inr s, w2) \<Rightarrow> (Inr s, w2))))"

section \<open>Embedding providers\<close>

text \<open>An embedding function is the constructor of \<^verbatim>\<open>chromem\<close> with its arguments.\<close>

datatype EmbeddingFunc =
    EmbeddingFuncOpenAI string string
  | EmbeddingFuncOpenAICompat string string string
  | EmbeddingFuncOllama string string
  | EmbeddingFuncCohere string string
  | EmbeddingFuncMistral string
  | EmbeddingFuncJina string string
  | EmbeddingFuncMixedbread string string
  | EmbeddingFuncVertex string string string
  | EmbeddingFuncAzureOpenAI string string string string
  | EmbeddingFuncLocalAI string

definition sectionRequired :: "string \<Rightarrow> string \<Rightarrow> goerr + EmbeddingFunc" where
  "sectionRequired what provider =
     Inl (ErrText (''embedding.'' @ what @ '' config is required for provider '' @ go_quote provider))"

definition newBuiltinEmbeddingFunc :: "(string \<Rightarrow> string) \<Rightarrow> EmbeddingConfig \<Rightarrow> goerr + EmbeddingFunc" where
  "newBuiltinEmbeddingFunc expandEnv cfg =
     (let p = EmbeddingConfig.Provider cfg in
      if p = ''openai'' then
        (case OpenAI cfg of None \<Rightarrow> sectionRequired ''openai'' p
         | Some c \<Rightarrow> Inr (EmbeddingFuncOpenAI (expandEnv (OpenAIEmbedConfig.APIKey c)) (OpenAIEmbedConfig.Model c)))
      else if p = ''openai_compat'' then
        (case OpenAICompat cfg of None \<Rightarrow> sectionRequired ''openai_compat'' p
         | Some c \<Rightarrow> Inr (EmbeddingFuncOpenAICompat (OpenAICompatEmbedConfig.BaseURL c)
                      (expandEnv (OpenAICompatEmbedConfig.APIKey c)) (OpenAICompatEmbedConfig.Model c)))
      else if p = ''ollama'' then
        (case Ollama cfg of None \<Rightarrow> sectionRequired ''ollama'' p
         | Some c \<Rightarrow> Inr (EmbeddingFuncOllama (OllamaEmbedConfig.Model c) (OllamaEmbedConfig.BaseURL c)))
      else if p = ''cohere'' then
        (case Cohere cfg of None \<Rightarrow> sectionRequired ''cohere'' p
         | Some c \<Rightarrow> Inr (EmbeddingFuncCohere (expandEnv (CohereEmbedConfig.APIKey c)) (CohereEmbedConfig.Model c)))
      else if p = ''mistral'' then
        (case Mistral cfg of None \<Rightarrow> sectionRequired ''mistral'' p
         | Some c \<Rightarrow> Inr (EmbeddingFuncMistral (expandEnv (MistralEmbedConfig.APIKey c))))
      else if p = ''jina'' then
        (case Jina cfg of None \<Rightarrow> sectionRequired ''jina'' p
         | Some c \<Rightarrow> Inr (EmbeddingFuncJina (expandEnv (JinaEmbedConfig.APIKey c)) (JinaEmbedConfig.Model c)))
      else if p = ''mixedbread'' then
        (case Mixedbread cfg of None \<Rightarrow> sectionRequired ''mixedbread'' p
         | Some c \<Rightarrow> Inr (EmbeddingFuncMixedbread (expandEnv (MixedbreadEmbedConfig.APIKey c))
                      (MixedbreadEmbedConfig.Model c)))
      else if p = ''vertex'' then
        (case Vertex cfg of None \<Rightarrow> sectionRequired ''vertex'' p
         | Some c \<Rightarrow> Inr (EmbeddingFuncVertex (expandEnv (VertexEmbedConfig.APIKey c)) (VertexEmbedConfig.Project c)
                      (VertexEmbedConfig.Model c)))
      else if p = ''azure_openai'' then
        (case AzureOpenAI cfg of None \<Rightarrow> sectionRequired ''azure_openai'' p
         | Some c \<Rightarrow> Inr (EmbeddingFuncAzureOpenAI (expandEnv (AzureOpenAIEmbedConfig.APIKey c))
                      (AzureOpenAIEmbedConfig.DeploymentURL c) (AzureOpenAIEmbedConfig.APIVersion c)
                      (AzureOpenAIEmbedConfig.Model c)))
      else if p = ''localai'' then
        Inr (EmbeddingFuncLocalAI (case OpenAICompat cfg of None \<Rightarrow> [] | Some c \<Rightarrow> OpenAICompatEmbedConfig.Model c))
      else Inl (ErrText (''unknown built-in embedding provider '' @ go_quote p)))"

definition builtinProviders :: "string list" where
  "builtinProviders = [''openai'', ''openai_compat'', ''ollama'', ''cohere'', ''mistral'', ''jina'', ''mixedbread'',
     ''vertex'', ''azure_openai'', ''localai'']"

type_synonym ('f, 'w) embed_factory = "EmbeddingConfig \<Rightarrow> 'w \<Rightarrow> (goerr + 'f) \<times> 'w"

text \<open>The registrations of the package; \<^term>\<open>mk\<close> is what the library makes of a constructor.\<close>

definition registerBuiltinEmbeddings ::
    "(string \<Rightarrow> string) \<Rightarrow> (EmbeddingFunc \<Rightarrow> 'f) \<Rightarrow> ('f, 'w) embed_factory registry \<Rightarrow> ('f, 'w) embed_factory registry" where
  "registerBuiltinEmbeddings expandEnv mk reg =
     fold (\<lambda>p r. r(p \<mapsto> (\<lambda>cfg w. (map_sum id mk (newBuiltinEmbeddingFunc expandEnv cfg), w)))) builtinProviders reg"

definition newEmbedding :: "('f, 'w) embed_factory registry \<Rightarrow> ('f, 'w) embed_factory" where
  "newEmbedding reg cfg w =
     (case Get reg (EmbeddingConfig.Provider cfg) of
        None \<Rightarrow> (Inl (ErrText (''unknown embedding provider '' @ go_quote (EmbeddingConfig.Provider cfg) @ '' '' @ em_dash @
          '' import the provider package or pkg/embedding/all'')), w)
      | Some f \<Rightarrow> f cfg w)"

text \<open>The in-process provider: the session and the pipeline of \<^verbatim>\<open>hugot\<close> are parameters; a session whose
  pipeline fails is destroyed.\<close>

record ('sess, 'pipe, 'w) hugot_lib =
  hg_session :: "'w \<Rightarrow> (goerr + 'sess) \<times> 'w"
  hg_pipeline :: "'sess \<Rightarrow> string \<Rightarrow> string \<Rightarrow> 'w \<Rightarrow> (goerr + 'pipe) \<times> 'w"
  hg_destroy :: "'sess \<Rightarrow> 'w \<Rightarrow> 'w"
  hg_run :: "'pipe \<Rightarrow> string \<Rightarrow> 'w \<Rightarrow> (goerr + rat list list) \<times> 'w"

type_synonym 'w embed_func = "string \<Rightarrow> 'w \<Rightarrow> (goerr + rat list) \<times> 'w"

definition hugotEmbed :: "('sess, 'pipe, 'w) hugot_lib \<Rightarrow> 'pipe \<Rightarrow> 'w embed_func" where
  "hugotEmbed lib pipe txt w =
     (case hg_run lib pipe txt w of
        (Inl e, w1) \<Rightarrow> (Inl (ErrWrap ''hugot: running pipeline'' e), w1)
      | (Inr [], w1) \<Rightarrow> (Inl (ErrText ''hugot: no embeddings returned''), w1)
      | (Inr (v # vs), w1) \<Rightarrow> (Inr v, w1))"

definition newHugotEmbeddingFunc ::
    "('sess, 'pipe, 'w) hugot_lib \<Rightarrow> HugotEmbedConfig \<Rightarrow> 'w \<Rightarrow> (goerr + 'w embed_func) \<times> 'w" where
  "newHugotEmbeddingFunc lib cfg w =
     (if ModelPath cfg = [] then (Inl (ErrText ''hugot: model_path is required''), w)
      else (case hg_session lib w of
              (Inl e, w1) \<Rightarrow> (Inl (ErrWrap ''hugot: creating session'' e), w1)
            | (Inr sess, w1) \<Rightarrow>
                (case hg_pipeline lib sess (ModelPath cfg)
                        (if OnnxFilename cfg = [] then ''model.onnx'' else OnnxFilename cfg) w1 of
                   (Inl e, w2) \<Rightarrow> (Inl (ErrWrap ''hugot: creating pipeline'' e), hg_destroy lib sess w2)
                 | (Inr pipe, w2) \<Rightarrow> (Inr (hugotEmbed lib pipe), w2))))"

definition hugotFactory :: "('sess, 'pipe, 'w) hugot_lib \<Rightarrow> ('w embed_func, 'w) embed_factory" where
  "hugotFactory lib cfg w =
     (case Hugot cfg of
        None \<Rightarrow> (Inl (ErrText ''embedding.hugot config is required for provider \"hugot\"''), w)
      | Some c \<Rightarrow> newHugotEmbeddingFunc lib c w)"

section \<open>Token counting\<close>

text \<open>\<^verbatim>\<open>base64.StdEncoding\<close>, with padding.\<close>

definition std_char :: "nat \<Rightarrow> char" where
  "std_char n = ''ABCDEFGHIJKLMNOPQRSTUVWXYZabcdefghijklmnopqrstuvwxyz0123456789+/'' ! n"

fun std_encode :: "nat list \<Rightarrow> string" where
  "std_encode [] = []"
| "std_encode [a] = [std_char (a div 4), std_char (a mod 4 * 16), CHR ''='', CHR ''='']"
| "std_encode [a, b] =
     [std_char (a div 4), std_char (a mod 4 * 16 + b div 16), std_char (b mod 16 * 4), CHR ''='']"
| "std_encode (a # b # c # bs) =
     std_char (a div 4) # std_char (a mod 4 * 16 + b div 16) # std_char (b mod 16 * 4 + c div 64) #
     std_char (c mod 64) # std_encode bs"

text \<open>The encoding a counter holds is its name; \<^term>\<open>encode\<close> is \<^verbatim>\<open>tiktoken\<close>'s tokenizer.\<close>

definition newCounter :: "(string \<Rightarrow> goerr + string) \<Rightarrow> string \<Rightarrow> goerr + string" where
  "newCounter getEncoding encoding0 =
     (let encoding = (if encoding0 = [] then ''cl100k_base'' else encoding0) in
      case getEncoding encoding of
        Inl e \<Rightarrow> Inl (ErrWrap (''loading tiktoken encoding '' @ go_quote encoding) e)
      | Inr enc \<Rightarrow> Inr enc)"

definition countString :: "(string \<Rightarrow> string \<Rightarrow> int list) \<Rightarrow> string \<Rightarrow> string \<Rightarrow> nat" where
  "countString encode enc txt = length (encode enc txt)"

fun countItem :: "(string \<Rightarrow> string \<Rightarrow> int list) \<Rightarrow> string \<Rightarrow> Content \<Rightarrow> nat" where
  "countItem encode enc (TextContent t) = countString encode enc t"
| "countItem encode enc (ImageContent d _) = countString encode enc (std_encode (map of_char d))"
| "countItem encode enc (AudioContent d _) = countString encode enc (std_encode (map of_char d))"
| "countItem encode enc (EmbeddedResource _ _) = 0"

definition countContent :: "(string \<Rightarrow> string \<Rightarrow> int list) \<Rightarrow> string \<Rightarrow> Content list \<Rightarrow> nat" where
  "countContent encode enc content = fold (\<lambda>item total. total + countItem encode enc item) content 0"

record token_event =
  te_total :: nat
  te_tool :: string
  te_upstream :: string

text \<open>The histogram, when the metrics are initialised, is the list of its observations.\<close>

definition RecordTokens ::
    "(string \<Rightarrow> string \<Rightarrow> int list) \<Rightarrow> string option \<Rightarrow> string \<Rightarrow> string \<Rightarrow> CallToolResult option \<Rightarrow>
     token_event list option \<Rightarrow> token_event list option" where
  "RecordTokens encode c toolName upstreamName result hist =
     (case (c, result) of
        (Some enc, Some r) \<Rightarrow>
          if IsError r then hist
          else (case hist of
                  None \<Rightarrow> None
                | Some es \<Rightarrow> Some (es @ [\<lparr>te_total = countContent encode enc (Content r), te_tool = toolName,
                                          te_upstream = upstreamName\<rparr>]))
      | _ \<Rightarrow> hist)"

section \<open>Telemetry\<close>

text \<open>The instruments in the order \<^verbatim>\<open>InitMetrics\<close> creates them. Each assignment also happens with an error.\<close>

record 'i Instruments =
  ToolCallDuration :: "'i option"
  ToolCallErrors :: "'i option"
  TransformDuration :: "'i option"
  ConfigReloadCounter :: "'i option"
  SpecRefreshCounter :: "'i option"
  ToolResultTokens :: "'i option"

definition createInstrument ::
    "(string \<Rightarrow> 'i option \<times> goerr option) \<Rightarrow> string \<Rightarrow> ('i option \<Rightarrow> 'i Instruments \<Rightarrow> 'i Instruments) \<Rightarrow>
     goerr option \<times> 'i Instruments \<Rightarrow> goerr option \<times> 'i Instruments" where
  "createInstrument create name upd s =
     (case s of
        (Some e, is) \<Rightarrow> (Some e, is)
      | (None, is) \<Rightarrow>
          (case create name of
             (i, None) \<Rightarrow> (None, upd i is)
           | (i, Some e) \<Rightarrow> (Some (ErrWrap (''creating '' @ name) e), upd i is)))"

definition InitMetrics ::
    "(string \<Rightarrow> 'i option \<times> goerr option) \<Rightarrow> 'i Instruments \<Rightarrow> goerr option \<times> 'i Instruments" where
  "InitMetrics create is =
     createInstrument create ''mcp_tool_result_tokens'' (\<lambda>i s. s\<lparr>ToolResultTokens := i\<rparr>)
      (createInstrument create ''mcp_anything.spec_refresh'' (\<lambda>i s. s\<lparr>SpecRefreshCounter := i\<rparr>)
       (createInstrument create ''mcp_anything.config_reload'' (\<lambda>i s. s\<lparr>ConfigReloadCounter := i\<rparr>)
        (createInstrument create ''mcp_anything.transform.duration'' (\<lambda>i s. s\<lparr>TransformDuration := i\<rparr>)
         (createInstrument create ''mcp.tool.call.errors.total'' (\<lambda>i s. s\<lparr>ToolCallErrors := i\<rparr>)
          (createInstrument create ''mcp.tool.call.duration'' (\<lambda>i s. s\<lparr>ToolCallDuration := i\<rparr>) (None, is))))))"

text \<open>An addition to a counter, with its labels.\<close>

type_synonym counter_event = "(string \<times> string) list"

definition statusLabel :: "bool \<Rightarrow> string \<times> string" where
  "statusLabel success = (''status'', if success then ''success'' else ''failure'')"

definition RecordConfigReload :: "counter_event list option \<Rightarrow> bool \<Rightarrow> counter_event list option" where
  "RecordConfigReload ctr success = map_option (\<lambda>es. es @ [[statusLabel success]]) ctr"

definition RecordSpecRefresh :: "counter_event list option \<Rightarrow> string \<Rightarrow> bool \<Rightarrow> counter_event list option" where
  "RecordSpecRefresh ctr upstreamName success =
     map_option (\<lambda>es. es @ [[(''upstream'', upstreamName), statusLabel success]]) ctr"

text \<open>The initialisation of the SDK, with the exporters and providers as parameters. A provider's
  shutdown is a step on the world.\<close>

record ('i, 'w) otel_lib =
  ot_resource :: "string \<Rightarrow> string \<Rightarrow> goerr option"
  ot_prometheus :: "goerr option"
  ot_instrument :: "string \<Rightarrow> 'i option \<times> goerr option"
  ot_meterShutdown :: "'w \<Rightarrow> goerr option \<times> 'w"
  ot_exporter :: "string \<Rightarrow> bool \<Rightarrow> goerr + ('w \<Rightarrow> goerr option \<times> 'w)"

fun runShutdowns :: "('w \<Rightarrow> goerr option \<times> 'w) list \<Rightarrow> goerr option \<Rightarrow> 'w \<Rightarrow> goerr option \<times> 'w" where
  "runShutdowns [] firstErr w = (firstErr, w)"
| "runShutdowns (f # fs) firstErr w =
     (let (err, w1) = f w in runShutdowns fs (if err \<noteq> None \<and> firstErr = None then err else firstErr) w1)"

definition initTelemetry ::
    "('i, 'w) otel_lib \<Rightarrow> TelemetryConfig \<Rightarrow> 'i Instruments \<Rightarrow>
     (goerr + ('w \<Rightarrow> goerr option \<times> 'w)) \<times> 'i Instruments" where
  "initTelemetry lib cfg is =
     (case ot_resource lib (ServiceName cfg) (ServiceVersion cfg) of
        Some e \<Rightarrow> (Inl (ErrWrap ''creating OTel resource'' e), is)
      | None \<Rightarrow>
         (case ot_prometheus lib of
            Some e \<Rightarrow> (Inl (ErrWrap ''creating Prometheus exporter'' e), is)
          | None \<Rightarrow>
             (case InitMetrics (ot_instrument lib) is of
                (Some e, is) \<Rightarrow> (Inl (ErrWrap ''initialising metrics'' e), is)
              | (None, is) \<Rightarrow>
                  if OTLPEndpoint cfg \<noteq> [] then
                    (case ot_exporter lib (OTLPEndpoint cfg) (Insecure cfg) of
                       Inl e \<Rightarrow> (Inl (ErrWrap ''creating OTLP gRPC trace exporter'' e), is)
                     | Inr tp \<Rightarrow> (Inr (runShutdowns [ot_meterShutdown lib, tp] None), is))
                  else (Inr (runShutdowns [ot_meterShutdown lib] None), is))))"

text \<open>The plain text form of the reload counters.\<close>

definition ReloadMetricsHandler :: "('s \<Rightarrow> int \<times> int) \<Rightarrow> 's handler" where
  "ReloadMetricsHandler counters r w =
     (let (total, errors) = counters w in
      (\<lparr>rsp_status = 200, rsp_header = [''Content-Type'' \<mapsto> ''text/plain; charset=utf-8''],
        rsp_body = ''mcp_anything_config_reload_total '' @ show_int total @ [CHR 0x0A] @
          ''mcp_anything_config_reload_errors_total '' @ show_int errors @ [CHR 0x0A]\<rparr>, w))"

definition ToolCallAttributes :: "string \<Rightarrow> string \<Rightarrow> string \<Rightarrow> (string \<times> string) list" where
  "ToolCallAttributes toolName meth sessionID =
     [(''mcp.tool.name'', toolName), (''mcp.method'', meth)] @
     (if sessionID \<noteq> [] then [(''mcp.session.id'', sessionID)] else [])"

definition UpstreamAttributes :: "string \<Rightarrow> (string \<times> string) list" where
  "UpstreamAttributes upstreamName = [(''upstream.name'', upstreamName)]"

section \<open>What the stores promise\<close>

datatype cache_op = CacheGet string | CacheSet string CallToolResult Duration

fun cacheStep :: "'w Store \<Rightarrow> cache_op \<Rightarrow> 'w \<Rightarrow> 'w" where
  "cacheStep s (CacheGet k) w = snd (st_get s k w)"
| "cacheStep s (CacheSet k v ttl) w = snd (st_set s k v ttl w)"

definition stored :: "cache_op list \<Rightarrow> (string \<times> CallToolResult) set" where
  "stored ops = {(k, v). \<exists>ttl. CacheSet k v ttl \<in> set ops}"

text \<open>The promise over a view of the contents: entries are read as they are, reading adds nothing, and
  setting adds at most the new entry. Entries may vanish at any time.\<close>

definition keeps_entries :: "'w Store \<Rightarrow> ('w \<Rightarrow> (string \<times> CallToolResult) set) \<Rightarrow> bool" where
  "keeps_entries s entries \<longleftrightarrow>
     (\<forall>k w. (\<forall>r. fst (st_get s k w) = Some r \<longrightarrow> (k, r) \<in> entries w) \<and> entries (snd (st_get s k w)) \<subseteq> entries w) \<and>
     (\<forall>k v ttl w. entries (snd (st_set s k v ttl w)) \<subseteq> insert (k, v) (entries w))"

lemma keeps_entries_run:
  assumes "keeps_entries s entries"
  shows "entries (fold (cacheStep s) ops w) \<subseteq> entries w \<union> stored ops"
proof (induction ops arbitrary: w)
  case (Cons x ops)
  have "entries (cacheStep s x w) \<subseteq> entries w \<union> stored [x]"
    using assms by (cases x) (fastforce simp: keeps_entries_def stored_def)+
  with Cons [of "cacheStep s x w"] show ?case by (auto simp: stored_def)
qed (simp add: stored_def)

lemma keeps_entries_answer:
  assumes "keeps_entries s entries" and "entries w = {}" and "st_get s k (fold (cacheStep s) ops w) = (Some r, w')"
  shows "(k, r) \<in> stored ops"
  using keeps_entries_run [OF assms(1), of ops w] assms unfolding keeps_entries_def
  by (metis (no_types, lifting) fst_conv subsetD sup_bot.left_neutral)

text \<open>What the Redis client documents: the data of the server are a map; a value that is read is in it,
  and writing a key changes at most that key, if the write arrives at all.\<close>

definition redis_laws :: "'w redis_client \<Rightarrow> ('w \<Rightarrow> (string \<times> string) set) \<Rightarrow> bool" where
  "redis_laws client data \<longleftrightarrow>
     (\<forall>k w. (\<forall>x. fst (rc_get client k w) = Inr x \<longrightarrow> (k, x) \<in> data w) \<and> data (snd (rc_get client k w)) \<subseteq> data w) \<and>
     (\<forall>k x ttl w. data (snd (rc_set client k x ttl w)) \<subseteq> insert (k, x) (data w))"

definition codec_laws :: "result_codec \<Rightarrow> bool" where
  "codec_laws codec \<longleftrightarrow> (\<forall>v x. rc_marshal codec v = Inr x \<longrightarrow> rc_unmarshal codec x = Inr v)"

definition decoded :: "result_codec \<Rightarrow> (string \<times> string) set \<Rightarrow> (string \<times> CallToolResult) set" where
  "decoded codec d = {(k, r). \<exists>x. (k, x) \<in> d \<and> rc_unmarshal codec x = Inr r}"

lemma redis_keeps_entries:
  assumes "redis_laws client data" and "codec_laws codec"
  shows "keeps_entries \<lparr>st_get = redisCacheGet codec client, st_set = redisCacheSet codec client\<rparr>
     (\<lambda>w. decoded codec (data w))"
proof -
  have get: "(\<forall>r. fst (redisCacheGet codec client k w) = Some r \<longrightarrow> (k, r) \<in> decoded codec (data w)) \<and>
      decoded codec (data (snd (redisCacheGet codec client k w))) \<subseteq> decoded codec (data w)" for k w
  proof (cases "rc_get client k w")
    case (Pair a w1)
    with assms(1) have d: "\<forall>x. a = Inr x \<longrightarrow> (k, x) \<in> data w" "data w1 \<subseteq> data w"
      unfolding redis_laws_def by (metis fst_conv, metis snd_conv)
    then have "decoded codec (data w1) \<subseteq> decoded codec (data w)" by (auto simp: decoded_def)
    with Pair d(1) show ?thesis by (auto simp: redisCacheGet_def decoded_def split: sum.splits)
  qed
  have "decoded codec (data (snd (redisCacheSet codec client k v ttl w))) \<subseteq> insert (k, v) (decoded codec (data w))"
    for k v ttl w
  proof (cases "rc_marshal codec v")
    case (Inr x)
    with assms(2) have "rc_unmarshal codec x = Inr v" by (simp add: codec_laws_def)
    moreover from assms(1) have "data (snd (rc_set client k x ttl w)) \<subseteq> insert (k, x) (data w)"
      by (simp add: redis_laws_def)
    ultimately show ?thesis unfolding redisCacheSet_def Inr sum.case decoded_def by fastforce
  qed (auto simp: redisCacheSet_def)
  with get show ?thesis by (simp add: keeps_entries_def)
qed


text \<open>A server that is an association list, and a codec that knows the results with one text.\<close>

definition list_client :: "(string \<times> string) list redis_client" where
  "list_client =
     \<lparr>rc_ping = (\<lambda>w. (None, w)), rc_instrument = None,
      rc_get = (\<lambda>k w. (case map_of w k of None \<Rightarrow> Inl (ErrText ''redis: nil'') | Some x \<Rightarrow> Inr x, w)),
      rc_set = (\<lambda>k x ttl w. (None, (k, x) # w))\<rparr>"

definition text_codec :: result_codec where
  "text_codec =
     \<lparr>rc_marshal = (\<lambda>v. case (IsError v, Content v) of (False, [TextContent t]) \<Rightarrow> Inr t
                     | _ \<Rightarrow> Inl (ErrText ''unsupported'')),
      rc_unmarshal = (\<lambda>x. Inr \<lparr>IsError = False, Content = [TextContent x]\<rparr>)\<rparr>"


section \<open>Embedding, tokens and telemetry\<close>

text \<open>A built-in provider gives an embedding function exactly when its own section is present;
  no other section matters, and the local provider needs none.\<close>

theorem embedding_uses_its_own_section:
  "(\<exists>f. newBuiltinEmbeddingFunc ex cfg = Inr f) \<longleftrightarrow>
     (EmbeddingConfig.Provider cfg, True) \<in> set
       [(''openai'', OpenAI cfg \<noteq> None), (''openai_compat'', OpenAICompat cfg \<noteq> None), (''ollama'', Ollama cfg \<noteq> None),
        (''cohere'', Cohere cfg \<noteq> None), (''mistral'', Mistral cfg \<noteq> None), (''jina'', Jina cfg \<noteq> None),
        (''mixedbread'', Mixedbread cfg \<noteq> None), (''vertex'', Vertex cfg \<noteq> None),
        (''azure_openai'', AzureOpenAI cfg \<noteq> None), (''localai'', True)]"
proof (cases "EmbeddingConfig.Provider cfg \<in> set builtinProviders")
  case True
  then consider "EmbeddingConfig.Provider cfg = ''openai''" | "EmbeddingConfig.Provider cfg = ''openai_compat''"
    | "EmbeddingConfig.Provider cfg = ''ollama''" | "EmbeddingConfig.Provider cfg = ''cohere''"
    | "EmbeddingConfig.Provider cfg = ''mistral''" | "EmbeddingConfig.Provider cfg = ''jina''"
    | "EmbeddingConfig.Provider cfg = ''mixedbread''" | "EmbeddingConfig.Provider cfg = ''vertex''"
    | "EmbeddingConfig.Provider cfg = ''azure_openai''" | "EmbeddingConfig.Provider cfg = ''localai''"
    unfolding builtinProviders_def list.set by blast
  then show ?thesis
    by cases (simp_all add: newBuiltinEmbeddingFunc_def sectionRequired_def Let_def split: option.splits)
next
  case False
  then show ?thesis by (simp add: newBuiltinEmbeddingFunc_def builtinProviders_def)
qed

lemma registered_embedding:
  assumes "EmbeddingConfig.Provider cfg \<in> set builtinProviders"
  shows "newEmbedding (registerBuiltinEmbeddings ex mk reg) cfg w = (map_sum id mk (newBuiltinEmbeddingFunc ex cfg), w)"
  using assms by (auto simp: newEmbedding_def registerBuiltinEmbeddings_def builtinProviders_def Get_def)

lemma countContent_sum: "countContent encode enc cs = sum_list (map (countItem encode enc) cs)"
proof -
  have "fold (\<lambda>item total. total + countItem encode enc item) cs t = t + sum_list (map (countItem encode enc) cs)" for t
    by (induction cs arbitrary: t) simp_all
  then show ?thesis by (simp add: countContent_def)
qed

lemma length_std_encode: "length (std_encode bs) = 4 * ((length bs + 2) div 3)"
proof (induction bs rule: std_encode.induct)
  case (4 a b c bs)
  have "(length (a # b # c # bs) + 2) div 3 = Suc ((length bs + 2) div 3)"
    using div_add_self2 [of 3 "length bs + 2"] by simp
  with 4 show ?case by simp
qed simp_all

lemma runShutdowns_first:
  "fst (runShutdowns fs (Some e) w) = Some e"
  by (induction fs arbitrary: w) (simp_all add: case_prod_unfold Let_def)

text \<open>At shutdown every provider is stopped, in order and whatever the others answer, and the error
  reported is the first one.\<close>

theorem shutdown_stops_every_provider:
  "snd (runShutdowns fs None w) = fold (\<lambda>f w. snd (f w)) fs w \<and>
   (fst (runShutdowns (fs @ gs) None w) = (case fst (runShutdowns fs None w) of
      None \<Rightarrow> fst (runShutdowns gs None (snd (runShutdowns fs None w))) | Some e \<Rightarrow> Some e))"
proof -
  have snd_indep: "snd (runShutdowns hs x v) = fold (\<lambda>f w. snd (f w)) hs v" for hs x v
    by (induction hs arbitrary: x v) (simp_all add: case_prod_unfold Let_def)
  have firsts: "fst (runShutdowns (hs @ gs) None v) = (case fst (runShutdowns hs None v) of
      None \<Rightarrow> fst (runShutdowns gs None (snd (runShutdowns hs None v))) | Some e \<Rightarrow> Some e)" for hs v
  proof (induction hs arbitrary: v)
    case (Cons f hs)
    show ?case
    proof (cases "f v")
      case (Pair err v1)
      have s: "runShutdowns (f # hs) None v = runShutdowns hs err v1"
        "runShutdowns ((f # hs) @ gs) None v = runShutdowns (hs @ gs) err v1"
        by (auto simp: Pair)
      show ?thesis unfolding s using Cons [of v1] by (cases err) (simp_all add: runShutdowns_first split: option.splits)
    qed
  qed simp
  show ?thesis by (rule conjI, rule snd_indep, rule firsts)
qed

lemma createInstrument_failed: "createInstrument create n upd (Some e, is) = (Some e, is)"
  by (simp add: createInstrument_def)

text \<open>Metrics are initialised exactly when every instrument can be created, and then all are set.\<close>

lemma InitMetrics_ok:
  "fst (InitMetrics create is) = None \<longleftrightarrow>
     (\<forall>n \<in> {''mcp.tool.call.duration'', ''mcp.tool.call.errors.total'', ''mcp_anything.transform.duration'',
            ''mcp_anything.config_reload'', ''mcp_anything.spec_refresh'', ''mcp_tool_result_tokens''}. snd (create n) = None)"
proof -
  have step: "fst (createInstrument create n upd s) = None \<longleftrightarrow> fst s = None \<and> snd (create n) = None" for n upd s
    by (auto simp: createInstrument_def split: prod.splits option.splits)
  show ?thesis by (auto simp: InitMetrics_def step)
qed

end
