(* ===== verification/Transport.thy ===== *)
theory Transport
  imports Config Mcp
begin

text \<open>
  Connections: the TLS configurations of both sides (\<^verbatim>\<open>pkg/transport/tls.go\<close>) and the outgoing
  HTTP transport (\<^verbatim>\<open>pkg/transport/transport.go\<close>). Reading files, parsing certificates and URLs,
  and the SOCKS5 dialer are parameters; a TLS version is the protocol number of \<^verbatim>\<open>crypto/tls\<close>.
\<close>

section \<open>Parameters\<close>

record ProxyAuth =
  pa_User :: string
  pa_Password :: string

record ProxyURL =
  pu_scheme :: string
  pu_user :: "ProxyAuth option"
  pu_host :: string

record ('pool, 'cert, 'dial) transport_lib =
  tl_read :: "string \<Rightarrow> goerr + string"
  tl_certs :: "string \<Rightarrow> 'pool option"
  tl_keypair :: "string \<Rightarrow> string \<Rightarrow> goerr + 'cert"
  tl_url :: "string \<Rightarrow> goerr + ProxyURL"
  tl_socks5 :: "string \<Rightarrow> ProxyAuth option \<Rightarrow> goerr + 'dial"

section \<open>TLS\<close>

definition VersionTLS10 :: "16 word" where "VersionTLS10 = 0x0301"
definition VersionTLS11 :: "16 word" where "VersionTLS11 = 0x0302"
definition VersionTLS12 :: "16 word" where "VersionTLS12 = 0x0303"
definition VersionTLS13 :: "16 word" where "VersionTLS13 = 0x0304"

lemmas tls_versions = VersionTLS10_def VersionTLS11_def VersionTLS12_def VersionTLS13_def

definition parseTLSVersion :: "string \<Rightarrow> goerr + 16 word" where
  "parseTLSVersion v =
     (if v = ''1.0'' then Inr VersionTLS10
      else if v = ''1.1'' then Inr VersionTLS11
      else if v = ''1.2'' then Inr VersionTLS12
      else if v = ''1.3'' then Inr VersionTLS13
      else Inl (ErrText (''unsupported TLS version '' @ go_quote v @ '' (use 1.0, 1.1, 1.2, or 1.3)'')))"

datatype ClientAuthType = NoClientCert | RequestClientCert | RequireAndVerifyClientCert

definition parseClientAuth :: "string \<Rightarrow> goerr + ClientAuthType" where
  "parseClientAuth s =
     (if s = [] \<or> s = ''none'' then Inr NoClientCert
      else if s = ''request'' then Inr RequestClientCert
      else if s = ''require_and_verify'' then Inr RequireAndVerifyClientCert
      else Inl (ErrText (''unsupported client_auth mode '' @ go_quote s @
        '' (use none, request, or require_and_verify)'')))"

record ('pool, 'cert) tls_config =
  tc_InsecureSkipVerify :: bool
  tc_ServerName :: string
  tc_MinVersion :: "16 word"
  tc_MaxVersion :: "16 word"
  tc_cacheSize :: int
  tc_RootCAs :: "'pool option"
  tc_Certificates :: "'cert list"

text \<open>A bundle of certificates from a file, as both sides read it.\<close>

definition readPool :: "('pool, 'cert, 'dial) transport_lib \<Rightarrow> string \<Rightarrow> string \<Rightarrow> goerr + 'pool" where
  "readPool lib what path =
     (case tl_read lib path of
        Inl e \<Rightarrow> Inl (ErrWrap (''reading '' @ what @ '' '' @ go_quote path) e)
      | Inr pem \<Rightarrow>
          (case tl_certs lib pem of
             None \<Rightarrow> Inl (ErrText (''no valid certificate found in '' @ go_quote path))
           | Some pool \<Rightarrow> Inr pool))"

definition optVersion :: "16 word \<Rightarrow> string \<Rightarrow> string \<Rightarrow> goerr + 16 word" where
  "optVersion dflt key v =
     (if v \<noteq> [] then (case parseTLSVersion v of Inl e \<Rightarrow> Inl (ErrWrap key e) | Inr x \<Rightarrow> Inr x) else Inr dflt)"

definition BuildTLSConfig ::
    "('pool, 'cert, 'dial) transport_lib \<Rightarrow> TLSConfig \<Rightarrow> goerr + ('pool, 'cert) tls_config" where
  "BuildTLSConfig lib cfg =
     (case optVersion VersionTLS12 ''min_version'' (TLSConfig.MinVersion cfg) of Inl e \<Rightarrow> Inl e | Inr minVer \<Rightarrow>
      (case optVersion 0 ''max_version'' (TLSConfig.MaxVersion cfg) of Inl e \<Rightarrow> Inl e | Inr maxVer \<Rightarrow>
       (let cacheSize = (if TLSConfig.SessionCacheSize cfg \<le> 0 then 64 else TLSConfig.SessionCacheSize cfg);
            tlsCfg = \<lparr>tc_InsecureSkipVerify = TLSConfig.InsecureSkipVerify cfg, tc_ServerName = TLSConfig.ServerName cfg,
              tc_MinVersion = minVer, tc_MaxVersion = maxVer, tc_cacheSize = cacheSize, tc_RootCAs = None,
              tc_Certificates = []\<rparr> in
        case (if TLSConfig.RootCAPath cfg \<noteq> []
              then (case readPool lib ''root CA'' (TLSConfig.RootCAPath cfg) of
                      Inl e \<Rightarrow> Inl e | Inr pool \<Rightarrow> Inr (tlsCfg\<lparr>tc_RootCAs := Some pool\<rparr>))
              else Inr tlsCfg) of
          Inl e \<Rightarrow> Inl e
        | Inr tlsCfg \<Rightarrow>
            (let cert = TLSConfig.ClientCertPath cfg; key = TLSConfig.ClientKeyPath cfg in
             if cert \<noteq> [] \<or> key \<noteq> [] then
               (if cert = [] \<or> key = []
                then Inl (ErrText ''both client_cert_path and client_key_path must be set for mTLS'')
                else (case tl_keypair lib cert key of
                        Inl e \<Rightarrow> Inl (ErrWrap ''loading client certificate'' e)
                      | Inr c \<Rightarrow> Inr (tlsCfg\<lparr>tc_Certificates := [c]\<rparr>)))
             else Inr tlsCfg))))"

record ('pool, 'cert) server_tls =
  sv_Certificates :: "'cert list"
  sv_MinVersion :: "16 word"
  sv_ClientAuth :: ClientAuthType
  sv_ClientCAs :: "'pool option"

definition BuildServerTLSConfig ::
    "('pool, 'cert, 'dial) transport_lib \<Rightarrow> ServerTLSConfig \<Rightarrow> goerr + ('pool, 'cert) server_tls" where
  "BuildServerTLSConfig lib cfg =
     (case tl_keypair lib (ServerTLSConfig.CertPath cfg) (ServerTLSConfig.KeyPath cfg) of
        Inl e \<Rightarrow> Inl (ErrWrap ''loading server certificate'' e)
      | Inr cert \<Rightarrow>
      (case optVersion VersionTLS12 ''min_version'' (ServerTLSConfig.MinVersion cfg) of Inl e \<Rightarrow> Inl e | Inr minVer \<Rightarrow>
       (case parseClientAuth (ServerTLSConfig.ClientAuth cfg) of Inl e \<Rightarrow> Inl (ErrWrap ''client_auth'' e)
        | Inr clientAuth \<Rightarrow>
           (let tlsCfg = \<lparr>sv_Certificates = [cert], sv_MinVersion = minVer, sv_ClientAuth = clientAuth,
                  sv_ClientCAs = None\<rparr> in
            if ServerTLSConfig.ClientCAPath cfg \<noteq> []
            then (case readPool lib ''client CA'' (ServerTLSConfig.ClientCAPath cfg) of
                    Inl e \<Rightarrow> Inl e | Inr pool \<Rightarrow> Inr (tlsCfg\<lparr>sv_ClientCAs := Some pool\<rparr>))
            else Inr tlsCfg))))"

section \<open>The HTTP transport\<close>

datatype 'dial dialer = NetDialer Duration Duration | ProxyDialer 'dial

record ('pool, 'cert, 'dial) http_transport =
  ht_TLS :: "('pool, 'cert) tls_config"
  ht_MaxIdleConns :: int
  ht_MaxIdleConnsPerHost :: int
  ht_IdleConnTimeout :: Duration
  ht_ResponseHeaderTimeout :: Duration
  ht_ForceAttemptHTTP2 :: bool
  ht_Dial :: "'dial dialer"
  ht_Proxy :: "ProxyURL option"

definition applyProxy ::
    "('pool, 'cert, 'dial) transport_lib \<Rightarrow> ('pool, 'cert, 'dial) http_transport \<Rightarrow> string \<Rightarrow>
     goerr + ('pool, 'cert, 'dial) http_transport" where
  "applyProxy lib t rawURL =
     (case tl_url lib rawURL of
        Inl e \<Rightarrow> Inl (ErrWrap (''parsing proxy URL '' @ go_quote rawURL) e)
      | Inr u \<Rightarrow>
          if pu_scheme u = ''socks5'' \<or> pu_scheme u = ''socks5h'' then
            (case tl_socks5 lib (pu_host u) (pu_user u) of
               Inl e \<Rightarrow> Inl (ErrWrap ''creating SOCKS5 proxy dialer'' e)
             | Inr s5 \<Rightarrow> Inr (t\<lparr>ht_Dial := ProxyDialer s5\<rparr>))
          else Inr (t\<lparr>ht_Proxy := Some u\<rparr>))"

definition orDefault :: "int \<Rightarrow> int \<Rightarrow> int" where
  "orDefault x d = (if x = 0 then d else x)"

definition transportDefaults :: "TransportConfig \<Rightarrow> TransportConfig" where
  "transportDefaults cfg = cfg
     \<lparr>TransportConfig.MaxIdleConns := orDefault (TransportConfig.MaxIdleConns cfg) 100,
      TransportConfig.MaxIdleConnsPerHost := orDefault (TransportConfig.MaxIdleConnsPerHost cfg) 10,
      TransportConfig.IdleConnTimeout := orDefault (TransportConfig.IdleConnTimeout cfg) 90000000000,
      TransportConfig.DialTimeout := orDefault (TransportConfig.DialTimeout cfg) 30000000000,
      TransportConfig.DialKeepalive := orDefault (TransportConfig.DialKeepalive cfg) 30000000000\<rparr>"

definition BuildTransport ::
    "('pool, 'cert, 'dial) transport_lib \<Rightarrow> TransportConfig \<Rightarrow> goerr + ('pool, 'cert, 'dial) http_transport" where
  "BuildTransport lib cfg0 =
     (let cfg = transportDefaults cfg0 in
      case BuildTLSConfig lib (TransportConfig.TLS cfg) of
        Inl e \<Rightarrow> Inl (ErrWrap ''tls config'' e)
      | Inr tlsCfg \<Rightarrow>
          (let t = \<lparr>ht_TLS = tlsCfg, ht_MaxIdleConns = TransportConfig.MaxIdleConns cfg,
                 ht_MaxIdleConnsPerHost = TransportConfig.MaxIdleConnsPerHost cfg,
                 ht_IdleConnTimeout = TransportConfig.IdleConnTimeout cfg,
                 ht_ResponseHeaderTimeout = TransportConfig.ResponseHeaderTimeout cfg,
                 ht_ForceAttemptHTTP2 = TransportConfig.ForceHTTP2 cfg,
                 ht_Dial = NetDialer (TransportConfig.DialTimeout cfg) (TransportConfig.DialKeepalive cfg),
                 ht_Proxy = None\<rparr> in
           if TransportConfig.ProxyURL cfg \<noteq> [] then
             (case applyProxy lib t (TransportConfig.ProxyURL cfg) of
                Inl e \<Rightarrow> Inl (ErrWrap ''proxy'' e) | Inr t \<Rightarrow> Inr t)
           else Inr t))"

section \<open>Properties\<close>

lemma optVersion_Inr:
  "optVersion d k v = Inr x \<longleftrightarrow> (if v = [] then x = d else parseTLSVersion v = Inr x)"
  by (auto simp: optVersion_def split: sum.splits)

lemma parseTLSVersion_Inr:
  "(\<exists>x. parseTLSVersion v = Inr x) \<longleftrightarrow> v \<in> {''1.0'', ''1.1'', ''1.2'', ''1.3''}"
  by (simp add: parseTLSVersion_def)

lemma optVersion_ok: "(\<exists>x. optVersion d k v = Inr x) \<longleftrightarrow> v \<in> {[], ''1.0'', ''1.1'', ''1.2'', ''1.3''}"
  using parseTLSVersion_Inr [of v] by (cases "v = []") (auto simp: optVersion_Inr)

lemma readPool_ok:
  "(\<exists>p. readPool lib what path = Inr p) \<longleftrightarrow> (\<exists>pem. tl_read lib path = Inr pem \<and> tl_certs lib pem \<noteq> None)"
  by (auto simp: readPool_def split: sum.splits option.splits)

text \<open>An outgoing TLS configuration is built exactly when both versions are known ones, the root
  bundle, if any, can be read and holds a certificate, and a client certificate comes with its
  key and loads. Whatever else goes wrong is an error, never a weaker configuration.\<close>

theorem outbound_tls_builds_iff:
  "(\<exists>t. BuildTLSConfig lib cfg = Inr t) \<longleftrightarrow>
     TLSConfig.MinVersion cfg \<in> {[], ''1.0'', ''1.1'', ''1.2'', ''1.3''} \<and>
     TLSConfig.MaxVersion cfg \<in> {[], ''1.0'', ''1.1'', ''1.2'', ''1.3''} \<and>
     (TLSConfig.RootCAPath cfg = [] \<or>
        (\<exists>pem. tl_read lib (TLSConfig.RootCAPath cfg) = Inr pem \<and> tl_certs lib pem \<noteq> None)) \<and>
     ((TLSConfig.ClientCertPath cfg = [] \<and> TLSConfig.ClientKeyPath cfg = []) \<or>
        (TLSConfig.ClientCertPath cfg \<noteq> [] \<and> TLSConfig.ClientKeyPath cfg \<noteq> [] \<and>
         (\<exists>c. tl_keypair lib (TLSConfig.ClientCertPath cfg) (TLSConfig.ClientKeyPath cfg) = Inr c)))"
  unfolding optVersion_ok [of VersionTLS12 "''min_version''" "TLSConfig.MinVersion cfg", symmetric]
    optVersion_ok [of 0 "''max_version''" "TLSConfig.MaxVersion cfg", symmetric] readPool_ok [of lib "''root CA''", symmetric]
  by (auto simp: BuildTLSConfig_def Let_def split: sum.splits)

text \<open>What a configuration that was built verifies: below TLS 1.2 only when the configuration names such
  a version, certificates unverified only when it says so, and the roots are the configured
  bundle whenever one is configured.\<close>

theorem outbound_tls_is_as_configured:
  assumes "BuildTLSConfig lib cfg = Inr t"
  shows "(tc_MinVersion t < VersionTLS12 \<longleftrightarrow> TLSConfig.MinVersion cfg \<in> {''1.0'', ''1.1''})"
    and "tc_InsecureSkipVerify t = TLSConfig.InsecureSkipVerify cfg"
    and "tc_RootCAs t = None \<longleftrightarrow> TLSConfig.RootCAPath cfg = []"
    and "tc_Certificates t = [] \<longleftrightarrow> TLSConfig.ClientCertPath cfg = []"
    and "0 < tc_cacheSize t"
proof -
  from assms obtain mn where m: "optVersion VersionTLS12 ''min_version'' (TLSConfig.MinVersion cfg) = Inr mn"
    and t: "tc_MinVersion t = mn"
    by (auto simp: BuildTLSConfig_def Let_def split: sum.splits if_splits)
  show "tc_MinVersion t < VersionTLS12 \<longleftrightarrow> TLSConfig.MinVersion cfg \<in> {''1.0'', ''1.1''}"
    using m unfolding t optVersion_Inr by (auto simp: parseTLSVersion_def tls_versions split: if_splits)
  show "tc_InsecureSkipVerify t = TLSConfig.InsecureSkipVerify cfg"
    "tc_RootCAs t = None \<longleftrightarrow> TLSConfig.RootCAPath cfg = []"
    "tc_Certificates t = [] \<longleftrightarrow> TLSConfig.ClientCertPath cfg = []" "0 < tc_cacheSize t"
    using assms by (auto simp: BuildTLSConfig_def Let_def split: sum.splits if_splits)
qed

text \<open>The server side: clients are asked for a certificate only in two modes, and requiring one is
  accepted without a configured CA bundle, so that the system's roots decide who is a client.\<close>

lemma server_tls_is_as_configured:
  assumes "BuildServerTLSConfig lib cfg = Inr t"
  shows "sv_MinVersion t < VersionTLS12 \<longleftrightarrow> ServerTLSConfig.MinVersion cfg \<in> {''1.0'', ''1.1''}"
    and "parseClientAuth (ServerTLSConfig.ClientAuth cfg) = Inr (sv_ClientAuth t)"
    and "sv_ClientCAs t = None \<longleftrightarrow> ServerTLSConfig.ClientCAPath cfg = []"
proof -
  from assms obtain mn where m: "optVersion VersionTLS12 ''min_version'' (ServerTLSConfig.MinVersion cfg) = Inr mn"
    and t: "sv_MinVersion t = mn"
    by (auto simp: BuildServerTLSConfig_def Let_def split: sum.splits if_splits)
  show "sv_MinVersion t < VersionTLS12 \<longleftrightarrow> ServerTLSConfig.MinVersion cfg \<in> {''1.0'', ''1.1''}"
    using m unfolding t optVersion_Inr by (auto simp: parseTLSVersion_def tls_versions split: if_splits)
  show "parseClientAuth (ServerTLSConfig.ClientAuth cfg) = Inr (sv_ClientAuth t)"
    "sv_ClientCAs t = None \<longleftrightarrow> ServerTLSConfig.ClientCAPath cfg = []"
    using assms by (auto simp: BuildServerTLSConfig_def Let_def split: sum.splits if_splits)
qed

lemma applyProxy_keeps:
  assumes "applyProxy lib t u = Inr t'"
  shows "ht_MaxIdleConns t' = ht_MaxIdleConns t" and "ht_IdleConnTimeout t' = ht_IdleConnTimeout t"
    and "ht_TLS t' = ht_TLS t"
  using assms by (auto simp: applyProxy_def split: sum.splits if_splits)

lemma applyProxy_sets_one:
  "applyProxy lib t u = Inr t' \<Longrightarrow> ht_Dial t = NetDialer a b \<Longrightarrow> ht_Proxy t = None \<Longrightarrow>
     (\<exists>d. ht_Dial t' = ProxyDialer d) \<noteq> (ht_Proxy t' \<noteq> None)"
  by (auto simp: applyProxy_def split: sum.splits if_splits)

lemma BuildTransport_Inr:
  assumes "BuildTransport lib cfg = Inr t"
  obtains tls t0 where "BuildTLSConfig lib (TransportConfig.TLS cfg) = Inr tls"
    and "ht_TLS t0 = tls" and "ht_MaxIdleConns t0 = orDefault (TransportConfig.MaxIdleConns cfg) 100"
    and "ht_IdleConnTimeout t0 = orDefault (TransportConfig.IdleConnTimeout cfg) 90000000000"
    and "\<exists>a b. ht_Dial t0 = NetDialer a b" and "ht_Proxy t0 = None"
    and "if TransportConfig.ProxyURL cfg = [] then t = t0 else applyProxy lib t0 (TransportConfig.ProxyURL cfg) = Inr t"
proof -
  from assms obtain tls where tls: "BuildTLSConfig lib (TransportConfig.TLS cfg) = Inr tls"
    by (auto simp: BuildTransport_def Let_def transportDefaults_def split: sum.splits)
  show ?thesis
    using assms by (rule_tac that [OF tls, of "\<lparr>ht_TLS = tls, ht_MaxIdleConns = orDefault (TransportConfig.MaxIdleConns cfg) 100,
        ht_MaxIdleConnsPerHost = orDefault (TransportConfig.MaxIdleConnsPerHost cfg) 10,
        ht_IdleConnTimeout = orDefault (TransportConfig.IdleConnTimeout cfg) 90000000000,
        ht_ResponseHeaderTimeout = TransportConfig.ResponseHeaderTimeout cfg,
        ht_ForceAttemptHTTP2 = TransportConfig.ForceHTTP2 cfg,
        ht_Dial = NetDialer (orDefault (TransportConfig.DialTimeout cfg) 30000000000)
          (orDefault (TransportConfig.DialKeepalive cfg) 30000000000), ht_Proxy = None\<rparr>"])
      (simp_all add: BuildTransport_def Let_def transportDefaults_def tls split: sum.splits if_splits)
qed

text \<open>A proxy is either a dialer or a URL, never both, and a configured proxy is never dropped; the
  limits of the connection pool are positive unless the configuration makes them negative, and
  the TLS configuration is the one built from the configuration.\<close>

theorem transport_is_as_configured:
  assumes "BuildTransport lib cfg = Inr t"
  shows "BuildTLSConfig lib (TransportConfig.TLS cfg) = Inr (ht_TLS t)"
    and "TransportConfig.ProxyURL cfg \<noteq> [] \<Longrightarrow> (\<exists>d. ht_Dial t = ProxyDialer d) \<noteq> (ht_Proxy t \<noteq> None)"
    and "0 \<le> TransportConfig.MaxIdleConns cfg \<Longrightarrow> 0 < ht_MaxIdleConns t"
    and "0 \<le> TransportConfig.IdleConnTimeout cfg \<Longrightarrow> 0 < ht_IdleConnTimeout t"
proof -
  from assms obtain t0 where t0: "BuildTLSConfig lib (TransportConfig.TLS cfg) = Inr (ht_TLS t0)"
    "ht_MaxIdleConns t0 = orDefault (TransportConfig.MaxIdleConns cfg) 100"
    "ht_IdleConnTimeout t0 = orDefault (TransportConfig.IdleConnTimeout cfg) 90000000000"
    "\<exists>a b. ht_Dial t0 = NetDialer a b" "ht_Proxy t0 = None"
    and t: "if TransportConfig.ProxyURL cfg = [] then t = t0 else applyProxy lib t0 (TransportConfig.ProxyURL cfg) = Inr t"
    by (rule BuildTransport_Inr) blast
  have keep: "ht_MaxIdleConns t = ht_MaxIdleConns t0" "ht_IdleConnTimeout t = ht_IdleConnTimeout t0" "ht_TLS t = ht_TLS t0"
    using t applyProxy_keeps [of lib t0 "TransportConfig.ProxyURL cfg" t] by (auto split: if_splits)
  show "BuildTLSConfig lib (TransportConfig.TLS cfg) = Inr (ht_TLS t)" using t0(1) keep by simp
  show "0 \<le> TransportConfig.MaxIdleConns cfg \<Longrightarrow> 0 < ht_MaxIdleConns t"
    and "0 \<le> TransportConfig.IdleConnTimeout cfg \<Longrightarrow> 0 < ht_IdleConnTimeout t"
    using t0(2,3) keep by (simp_all add: orDefault_def)
  assume "TransportConfig.ProxyURL cfg \<noteq> []"
  with t t0(4,5) show "(\<exists>d. ht_Dial t = ProxyDialer d) \<noteq> (ht_Proxy t \<noteq> None)"
    using applyProxy_sets_one by fastforce
qed

end
