(* ===== verification/Assembly.thy ===== *)
theory Assembly
  imports Proxy Ui Backends Transport
begin

text \<open>
  The assembled program: \<^verbatim>\<open>mcpanything.New\<close> puts pools, manager, session store, configuration
  loader, authentication, handlers and refreshers together, \<^verbatim>\<open>pkg/server\<close> mounts them, and the
  Caddy module (\<^verbatim>\<open>pkg/caddy\<close>) serves the same handlers inside another server. Telemetry, the
  listener and the go-sdk's handler of a server are parameters.
\<close>

section \<open>Configuration\<close>

definition configPath :: "(string \<Rightarrow> string) \<Rightarrow> string" where
  "configPath getenv =
     (let path = getenv ''CONFIG_PATH'' in if path = [] then ''/etc/mcp-auto/config.yaml'' else path)"

text \<open>The sources handed to the configuration library; it merges defaults, files and environment in this
  precedence whatever their order.\<close>

datatype load_option = WithDefaults "(string \<times> goval) list" | WithRequiredFile string | WithEnv string

definition EnvPrefix :: string where "EnvPrefix = ''MCP_ANYTHING''"

definition scalarDefaults :: "(string \<times> goval) list" where
  "scalarDefaults =
     [(''server.port'', GNum 8080),
      (''server.startup_validation_timeout'', GStr ''30s''),
      (''naming.separator'', GStr ''__''),
      (''naming.max_length'', GNum 128),
      (''naming.conflict_resolution'', GStr ''error''),
      (''naming.description_max_length'', GNum 1024),
      (''naming.description_truncation_suffix'', GStr ''...''),
      (''naming.default_slug_rules.replace_slashes'', GBool True),
      (''naming.default_slug_rules.replace_braces'', GBool True),
      (''naming.default_slug_rules.expand_camel_case'', GBool True),
      (''naming.default_slug_rules.lowercase'', GBool True),
      (''naming.default_slug_rules.collapse_separators'', GBool True)]"

definition loadOptions :: "string \<Rightarrow> load_option list" where
  "loadOptions path = [WithDefaults scalarDefaults, WithRequiredFile path, WithEnv EnvPrefix]"

type_synonym ('s, 'e) goga_lib = "load_option list \<Rightarrow> 's \<Rightarrow> 'e + (ProxyConfig \<times> goval option)"

definition gogaLoad :: "('s, 'e) goga_lib \<Rightarrow> ('s, 'e) goga_load" where
  "gogaLoad goga path = goga (loadOptions path)"

definition LoadConfig ::
    "(string \<Rightarrow> string) \<Rightarrow> ('s, 'e) goga_load \<Rightarrow> 's \<Rightarrow> (string \<times> 'e) + string \<times> ProxyConfig" where
  "LoadConfig getenv goga w =
     (let path = configPath getenv in
      case Load goga path w of Inl e \<Rightarrow> Inl (path, e) | Inr cfg \<Rightarrow> Inr (path, cfg))"

section \<open>The HTTP server\<close>

text \<open>A registration at the router of \<^verbatim>\<open>chi\<close>: a \<^verbatim>\<open>GET\<close> route for a pattern, or a handler mounted at a
  prefix. The router itself is not under \<^verbatim>\<open>src\<close>.\<close>

datatype pattern = GetRoute string | MountAt string

type_synonym 's routes = "(pattern \<times> 's handler) list"

definition healthz :: "'s handler" where
  "healthz r w = (empty_response, w)"

definition serverRoutes ::
    "(Request \<Rightarrow> string) \<Rightarrow> (string \<Rightarrow> 's middleware) \<Rightarrow> (string \<times> 's handler) list \<Rightarrow> 's handler option \<Rightarrow>
     's handler option \<Rightarrow> 's handler option \<Rightarrow> 's readiness option \<Rightarrow> (Request \<Rightarrow> string \<Rightarrow> 's \<Rightarrow> Response \<times> 's) option \<Rightarrow>
     's routes" where
  "serverRoutes urlParam otel mcpHandlers wellKnown reloadMetrics prometheusMetrics readiness oauthCallback =
     [(GetRoute ''/healthz'', healthz), (GetRoute ''/readyz'', readyz readiness)] @
     (case reloadMetrics of None \<Rightarrow> [] | Some h \<Rightarrow> [(GetRoute ''/metrics/reload'', h)]) @
     (case prometheusMetrics of None \<Rightarrow> [] | Some h \<Rightarrow> [(GetRoute ''/metrics'', h)]) @
     (case wellKnown of None \<Rightarrow> [] | Some h \<Rightarrow> [(GetRoute ''/.well-known/oauth-protected-resource'', h)]) @
     (case oauthCallback of None \<Rightarrow> []
      | Some cb \<Rightarrow> [(GetRoute ''/oauth/callback/{upstreamName}'', \<lambda>r. cb r (urlParam r))]) @
     map (\<lambda>(path, h). (MountAt path, otel path h)) mcpHandlers"

record 's Server =
  sr_cfg :: ProxyConfig
  sr_Addr :: string
  sr_Handler :: "'s routes"
  sr_ReadTimeout :: Duration
  sr_WriteTimeout :: Duration

definition newServer :: "ProxyConfig \<Rightarrow> 's routes \<Rightarrow> 's Server" where
  "newServer cfg routes =
     \<lparr>sr_cfg = cfg, sr_Addr = '':'' @ show_int (Port (Server cfg)), sr_Handler = routes,
      sr_ReadTimeout = ReadTimeout (Server cfg), sr_WriteTimeout = WriteTimeout (Server cfg)\<rparr>"

text \<open>The listener's side of \<^verbatim>\<open>Start\<close>: what it sends when it stops. \<^term>\<open>None\<close> from the serving functions
  is \<^verbatim>\<open>ErrServerClosed\<close> or nil.\<close>

record ('pool, 'cert, 'dial) net_lib =
  nt_tls :: "('pool, 'cert, 'dial) transport_lib"
  nt_listenTLS :: "string \<Rightarrow> ('pool, 'cert) server_tls \<Rightarrow> goerr option"
  nt_serve :: "string \<Rightarrow> goerr option"
  nt_shutdown :: "Duration option \<Rightarrow> goerr option"

definition listenAndServe :: "('pool, 'cert, 'dial) net_lib \<Rightarrow> 's Server \<Rightarrow> goerr option" where
  "listenAndServe net s =
     (let tls = ServerConfig.TLS (Server (sr_cfg s)) in
      if ServerTLSConfig.CertPath tls \<noteq> [] then
        (case BuildServerTLSConfig (nt_tls net) tls of
           Inl e \<Rightarrow> Some (ErrWrap ''server TLS config'' e)
         | Inr tlsCfg \<Rightarrow>
             (case nt_listenTLS net (sr_Addr s) tlsCfg of
                Some e \<Rightarrow> Some (ErrWrap ''TLS listen'' e)
              | None \<Rightarrow> nt_serve net (sr_Addr s)))
      else nt_serve net (sr_Addr s))"

text \<open>What wakes the blocked \<^verbatim>\<open>Start\<close>: the context with its error, or the listener.\<close>

datatype wake = CtxDone goerr | ListenerStopped

fun startServer :: "('pool, 'cert, 'dial) net_lib \<Rightarrow> 's Server \<Rightarrow> wake \<Rightarrow> goerr option" where
  "startServer net s (CtxDone ctxErr) =
     (case nt_shutdown net (Some (ShutdownTimeout (Server (sr_cfg s)))) of
        Some e \<Rightarrow> Some (ErrWrap ''graceful shutdown'' e)
      | None \<Rightarrow> Some ctxErr)"
| "startServer net s ListenerStopped = listenAndServe net s"

section \<open>Assembly\<close>

datatype proxy_error =
    ProxyError goerr
  | LoaderError "rebuild_error load_error"
  | InitialRebuildError rebuild_error

type_synonym 'w refresher_factory =
  "UpstreamConfig \<Rightarrow> NamingConfig \<Rightarrow> (string \<rightharpoonup> PoolAcquirer) \<Rightarrow> 'w \<Rightarrow> (goerr + 'w Refresher) \<times> 'w"

record 'w proxy_lib =
  pb_runtimes :: "(string \<times> runtime_factory) list"
  pb_oauth :: "'w oauth_lib"
  pb_sha :: "string \<Rightarrow> string"
  pb_sessions :: "(SessionStoreConfig \<Rightarrow> 'w \<Rightarrow> (goerr + 'w token_store) \<times> 'w) registry"
  pb_telemetry :: "TelemetryConfig \<Rightarrow> goerr option"
  pb_goga :: "('w served_world, rebuild_error) goga_lib"
  pb_env :: "'w Env"
  pb_middlewares :: "'w served_world mw_factory registry"
  pb_parse :: "string \<Rightarrow> goval option"
  pb_sdk :: "string \<Rightarrow> 'w served_world handler"
  pb_refresher :: "'w refresher_factory option"
  pb_providers :: "'w \<Rightarrow> providers"
  pb_urlParam :: "Request \<Rightarrow> string"
  pb_prometheus :: "'w served_world handler"
  pb_otel :: "string \<Rightarrow> 'w served_world middleware"
  pb_counters :: "'w served_world \<Rightarrow> int \<times> int"
  pb_refreshers :: "'w served_world \<Rightarrow> 'w Refresher list"
  pb_breaker :: "'w served_world \<Rightarrow> Breaker \<Rightarrow> breaker_state"
  pb_endpoints :: "(string \<rightharpoonup> 'w served_world handler) \<Rightarrow> string list"

text \<open>A pool is known by its name. The one session store and the one callback registrar of the process
  have the handle 0.\<close>

definition poolHandles :: "Registry \<Rightarrow> (string \<rightharpoonup> PoolAcquirer)" where
  "poolHandles r name = map_option (\<lambda>_. name) (getRuntime (Some r) name)"

record 'w Proxy =
  px_cfg :: ProxyConfig
  px_loader :: "Config.Loader option"
  px_pools :: Registry
  px_refreshers :: "'w Refresher list"
  px_mcpHandlers :: "string \<rightharpoonup> 'w served_world handler"
  px_wellKnown :: "'w served_world handler option"
  px_oauthMux :: "'w Mux option"
  px_srv :: "'w served_world Server"

definition newRefresher :: "'w refresher_factory option \<Rightarrow> 'w refresher_factory" where
  "newRefresher factory cfg naming rts w =
     (case factory of
        None \<Rightarrow> (Inl (ErrText (''no refresher factory registered for upstream '' @ go_quote (UpstreamConfig.Name cfg) @
          '' - import pkg/upstream/http to enable background spec refresh'')), w)
      | Some f \<Rightarrow> f cfg naming rts w)"

fun buildRefreshers ::
    "'w refresher_factory option \<Rightarrow> NamingConfig \<Rightarrow> (string \<rightharpoonup> PoolAcquirer) \<Rightarrow> UpstreamConfig list \<Rightarrow> 'w \<Rightarrow>
     (goerr + 'w Refresher list) \<times> 'w" where
  "buildRefreshers f naming rts [] w = (Inr [], w)"
| "buildRefreshers f naming rts (up # ups) w =
     (if \<not> UpstreamConfig.Enabled up \<or> OpenAPISourceConfig.RefreshInterval (UpstreamConfig.OpenAPI up) \<le> 0 then buildRefreshers f naming rts ups w
      else if \<not> has_prefix (OpenAPISourceConfig.Source (UpstreamConfig.OpenAPI up)) ''http'' then buildRefreshers f naming rts ups w
      else (case newRefresher f up naming rts w of
              (Inl e, w) \<Rightarrow> (Inl (ErrWrap (''creating refresher for '' @ go_quote (UpstreamConfig.Name up)) e), w)
            | (Inr r, w) \<Rightarrow>
                (case buildRefreshers f naming rts ups w of
                   (Inl e, w) \<Rightarrow> (Inl e, w)
                 | (Inr rs, w) \<Rightarrow> (Inr (r # rs), w))))"

text \<open>The initial load: with a path through the loader, without one straight from the configuration.\<close>

definition initialLoad ::
    "'w proxy_lib \<Rightarrow> string \<Rightarrow> ProxyConfig \<Rightarrow> 'w served_world \<Rightarrow>
     (proxy_error + Config.Loader option \<times> ProxyConfig) \<times> 'w served_world" where
  "initialLoad lib cfgPath cfg mw =
     (if cfgPath \<noteq> [] then
        (case NewLoader (gogaLoad (pb_goga lib)) (rebuild_on_load (pb_env lib)) cfgPath mw of
           (Inl e, mw) \<Rightarrow> (Inl (LoaderError e), mw)
         | (Inr loader, mw) \<Rightarrow>
             (Inr (Some loader, case current loader of None \<Rightarrow> cfg | Some c \<Rightarrow> c), mw))
      else
        (case Rebuild (pb_env lib) cfg (fst mw) (snd mw) of
           (Some e, m, w) \<Rightarrow> (Inl (InitialRebuildError e), m, w)
         | (None, m, w) \<Rightarrow> (Inr (None, cfg), m, w)))"

definition IsCircuitBreakerReady :: "(Breaker \<Rightarrow> breaker_state) \<Rightarrow> 'w Manager \<Rightarrow> bool \<times> string" where
  "IsCircuitBreakerReady state m =
     (case m_circuitBreakerSet m of
        None \<Rightarrow> (True, []) | Some bs \<Rightarrow> setIsReady (map (\<lambda>b. (b, state b)) bs))"

definition newReadiness ::
    "bool \<Rightarrow> ('w served_world \<Rightarrow> 'w Refresher list) \<Rightarrow> ('w served_world \<Rightarrow> Breaker \<Rightarrow> breaker_state) \<Rightarrow>
     'w served_world readiness" where
  "newReadiness hasRefreshers refreshers state =
     CompositeIsReady
       ((if hasRefreshers
         then [\<lambda>mw. RefresherSetIsReady (map (\<lambda>r. (UpstreamConfig.Name (rf_cfg r), IsHealthy r)) (refreshers mw))]
         else []) @
        [\<lambda>mw. IsCircuitBreakerReady (state mw) (fst mw)])"

definition callbackHandler ::
    "'w proxy_lib \<Rightarrow> 'w Mux \<Rightarrow> Request \<Rightarrow> string \<Rightarrow> 'w served_world \<Rightarrow> Response \<times> 'w served_world" where
  "callbackHandler lib mux r upstreamName mw =
     (case HandleCallback (pb_oauth lib) mux (pb_providers lib (snd mw)) r upstreamName (snd mw) of
        (rsp, w) \<Rightarrow> (rsp, fst mw, w))"

text \<open>The handlers in the order the range over the map visits them.\<close>

definition rangeHandlers :: "(string \<rightharpoonup> 's handler) \<Rightarrow> string list \<Rightarrow> (string \<times> 's handler) list" where
  "rangeHandlers handlers endpoints = List.map_filter (\<lambda>e. map_option (Pair e) (handlers e)) endpoints"

text \<open>The second half of \<^verbatim>\<open>New\<close>, after the initial load.\<close>

definition finishProxy ::
    "'w proxy_lib \<Rightarrow> Registry \<Rightarrow> 'w Mux option \<Rightarrow> Config.Loader option \<Rightarrow> ProxyConfig \<Rightarrow> 'w served_world \<Rightarrow>
     (proxy_error + 'w Proxy) \<times> 'w served_world" where
  "finishProxy lib rts mux loader cfg mw =
     (case buildAuth (pb_middlewares lib) (pb_parse lib) (poolHandles rts) cfg mw of
        (Inl e, mw) \<Rightarrow> (Inl (ProxyError e), mw)
      | (Inr (auth, wellKnown), mw) \<Rightarrow>
          (let handlers = mountHandlers auth (HTTPHandlers (pb_sdk lib) (fst mw)) in
           case buildRefreshers (pb_refresher lib) (Naming cfg) (poolHandles rts) (ProxyConfig.Upstreams cfg) (snd mw) of
             (Inl e, w) \<Rightarrow> (Inl (ProxyError e), fst mw, w)
           | (Inr rs, w) \<Rightarrow>
               (Inr \<lparr>px_cfg = cfg, px_loader = loader, px_pools = rts, px_refreshers = rs, px_mcpHandlers = handlers,
                  px_wellKnown = wellKnown, px_oauthMux = mux,
                  px_srv = newServer cfg (serverRoutes (pb_urlParam lib) (pb_otel lib)
                    (rangeHandlers handlers (pb_endpoints lib handlers)) wellKnown
                    (Some (ReloadMetricsHandler (pb_counters lib))) (Some (pb_prometheus lib))
                    (Some (newReadiness (rs \<noteq> []) (pb_refreshers lib) (pb_breaker lib)))
                    (map_option (callbackHandler lib) mux))\<rparr>, fst mw, w)))"

definition newProxy ::
    "'w proxy_lib \<Rightarrow> string \<Rightarrow> ProxyConfig \<Rightarrow> 'w \<Rightarrow> (proxy_error + 'w Proxy) \<times> 'w served_world" where
  "newProxy lib cfgPath cfg w =
     (case NewRegistry (pb_runtimes lib) (ProxyConfig.Runtime cfg) of
        Inl e \<Rightarrow> (Inl (ProxyError (ErrWrap ''runtime pools'' e)), NewManager None, w)
      | Inr rts \<Rightarrow>
          (let m = NewManager (Some (poolHandles rts)) in
           case buildSessionStore (pb_oauth lib) (pb_sha lib) (pb_sessions lib) (SessionStore cfg) w of
             (Inl e, w) \<Rightarrow> (Inl (ProxyError e), m, w)
           | (Inr session, w) \<Rightarrow>
               (let m = (case session of None \<Rightarrow> m | Some _ \<Rightarrow> SetOAuthConfig (Some 0) (Some 0) m) in
                case pb_telemetry lib (Telemetry cfg) of
                  Some e \<Rightarrow> (Inl (ProxyError (ErrWrap ''telemetry init'' e)), m, w)
                | None \<Rightarrow>
                    (case initialLoad lib cfgPath cfg (m, w) of
                       (Inl e, mw) \<Rightarrow> (Inl e, mw)
                     | (Inr (loader, cfg), mw) \<Rightarrow> finishProxy lib rts (map_option snd session) loader cfg mw))))"


section \<open>Running and stopping\<close>

text \<open>The background tasks in the order they are started.\<close>

datatype background_task = RefreshTask string | WatchTask string

definition StartBackground :: "'w Proxy \<Rightarrow> background_task list" where
  "StartBackground p =
     map (\<lambda>r. RefreshTask (UpstreamConfig.Name (rf_cfg r))) (px_refreshers p) @
     (case px_loader p of None \<Rightarrow> [] | Some l \<Rightarrow> [WatchTask (l_path l)])"

definition startProxy :: "('pool, 'cert, 'dial) net_lib \<Rightarrow> 'w Proxy \<Rightarrow> wake \<Rightarrow> background_task list \<times> goerr option" where
  "startProxy net p wk = (StartBackground p, startServer net (px_srv p) wk)"

definition shutdownProxy ::
    "('pool, 'cert, 'dial) net_lib \<Rightarrow> ('w \<Rightarrow> goerr option \<times> 'w) option \<Rightarrow> 'w \<Rightarrow> goerr option \<times> 'w" where
  "shutdownProxy net telShutdown w =
     (let (firstErr, w) = (case telShutdown of None \<Rightarrow> (None, w) | Some f \<Rightarrow> f w) in
      (case nt_shutdown net None of
         None \<Rightarrow> firstErr
       | Some e \<Rightarrow> (case firstErr of None \<Rightarrow> Some e | Some e0 \<Rightarrow> Some e0), w))"

text \<open>\<^verbatim>\<open>cmd/proxy\<close>: the exit status. A cancelled context is a normal end.\<close>

definition mainProxy ::
    "'w proxy_lib \<Rightarrow> ('pool, 'cert, 'dial) net_lib \<Rightarrow> (goerr \<Rightarrow> bool) \<Rightarrow> (string \<Rightarrow> string) \<Rightarrow> wake \<Rightarrow> 'w served_world \<Rightarrow> nat" where
  "mainProxy lib net canceled getenv wk mw =
     (case LoadConfig getenv (gogaLoad (pb_goga lib)) mw of
        Inl _ \<Rightarrow> 1
      | Inr (path, cfg) \<Rightarrow>
          (case newProxy lib path cfg (snd mw) of
             (Inl _, _) \<Rightarrow> 1
           | (Inr p, _) \<Rightarrow>
               (case snd (startProxy net p wk) of
                  None \<Rightarrow> 0 | Some e \<Rightarrow> if canceled e then 0 else 1)))"

section \<open>The Caddy module\<close>

record 'w MCPAnything =
  ca_ConfigPath :: string
  ca_proxy :: "'w Proxy option"
  ca_handlers :: "string \<rightharpoonup> 'w served_world handler"

datatype caddy_error =
    CaddyLoad string rebuild_error
  | CaddyProxy proxy_error
  | CaddyNotProvisioned

text \<open>\<^verbatim>\<open>Provision\<close>: the background tasks it starts are part of the result.\<close>

definition Provision ::
    "'w proxy_lib \<Rightarrow> (string \<Rightarrow> string) \<Rightarrow> 'w MCPAnything \<Rightarrow> 'w served_world \<Rightarrow>
     (caddy_error + 'w MCPAnything \<times> background_task list) \<times> 'w served_world" where
  "Provision lib getenv m mw =
     (case (if ca_ConfigPath m \<noteq> [] then map_sum (Pair (ca_ConfigPath m)) (Pair (ca_ConfigPath m)) (Load (gogaLoad (pb_goga lib)) (ca_ConfigPath m) mw)
            else LoadConfig getenv (gogaLoad (pb_goga lib)) mw) of
        Inl (path, e) \<Rightarrow> (Inl (CaddyLoad path e), mw)
      | Inr (path, cfg) \<Rightarrow>
          (case newProxy lib path cfg (snd mw) of
             (Inl e, mw) \<Rightarrow> (Inl (CaddyProxy e), mw)
           | (Inr p, mw) \<Rightarrow> (Inr (m\<lparr>ca_proxy := Some p, ca_handlers := px_mcpHandlers p\<rparr>, StartBackground p), mw)))"

definition Validate :: "'w MCPAnything \<Rightarrow> caddy_error option" where
  "Validate m = (if ca_proxy m = None then Some CaddyNotProvisioned else None)"

text \<open>The dispatch of a request, for one order of the range over the handlers: the endpoint it selects,
  an exact match first, then a match of a proper prefix.\<close>

definition caddyTarget :: "string list \<Rightarrow> (string \<rightharpoonup> 'h) \<Rightarrow> string \<Rightarrow> string option" where
  "caddyTarget order handlers path =
     (if handlers path \<noteq> None then Some path
      else find (\<lambda>e. handlers e \<noteq> None \<and> has_prefix path (e @ ''/'')) order)"

definition caddyServeHTTP ::
    "string list \<Rightarrow> 'w MCPAnything \<Rightarrow> 'w served_world handler \<Rightarrow> 'w served_world handler" where
  "caddyServeHTTP order m nxt r =
     (case caddyTarget order (ca_handlers m) (req_path r) of
        None \<Rightarrow> nxt r
      | Some e \<Rightarrow> (case ca_handlers m e of None \<Rightarrow> nxt r | Some h \<Rightarrow> h r))"

definition Cleanup ::
    "('pool, 'cert, 'dial) net_lib \<Rightarrow> ('w \<Rightarrow> goerr option \<times> 'w) option \<Rightarrow> 'w MCPAnything \<Rightarrow> 'w \<Rightarrow> goerr option \<times> 'w" where
  "Cleanup net telShutdown m w =
     (case ca_proxy m of None \<Rightarrow> (None, w) | Some p \<Rightarrow> shutdownProxy net telShutdown w)"

end
