(* ===== verification/AssemblyLaws.thy ===== *)
theory AssemblyLaws
  imports Assembly ManagerLaws SessionLaws
begin

text \<open>
  Properties of the assembled program: every endpoint of a proxy with authentication is guarded in
  every later state, what a reload leaves running, and how the Caddy module dispatches.
\<close>

section \<open>Guarded endpoints\<close>

text \<open>A middleware guards a request when it either sets an identity and goes on, or answers on its own.\<close>

definition guards :: "'s middleware \<Rightarrow> Request \<Rightarrow> 's \<Rightarrow> bool" where
  "guards mw r w \<longleftrightarrow>
     (\<exists>info w1. \<forall>nxt. mw nxt r w = nxt (r\<lparr>req_ctx := withTokenInfo info (req_ctx r)\<rparr>) w1) \<or>
     (\<exists>rsp w1. \<forall>nxt. mw nxt r w = (rsp, w1))"

lemma validator_mw_guards: "guards (ValidatorMiddleware v h) r w"
  by (rule ValidatorMiddleware_cases [of h r v w]) (unfold guards_def, blast+)

text \<open>The inbound strategies registered under a name starting with \<^verbatim>\<open>inbound/\<close> guard every request; all of
  the repository's do, since each of them is a \<^term>\<open>ValidatorMiddleware\<close>.\<close>

definition guarding_factories :: "'s mw_factory registry \<Rightarrow> bool" where
  "guarding_factories reg \<longleftrightarrow>
     (\<forall>s f cfg w mw w'. Get reg (''inbound/'' @ s) = Some f \<longrightarrow> f cfg w = (Inr mw, w') \<longrightarrow> (\<forall>r w. guards mw r w))"

lemma builtin_strategies_guard:
  "apiKeyMiddleware getenv ic w = (Inr mw, w') \<Longrightarrow> guards mw r v"
  "jwtMiddleware oidc ic w = (Inr mw, w') \<Longrightarrow> guards mw r v"
  "introspectionMiddleware oidc ic w = (Inr mw, w') \<Longrightarrow> guards mw r v"
  by (auto simp: apiKeyMiddleware_def jwtMiddleware_def introspectionMiddleware_def validator_mw_guards
      split: sum.splits prod.splits)

lemma script_strategies_guard:
  "jsInbound js ic cw = (Inr smw, cw') \<Longrightarrow> guards smw r cv"
  "luaInbound lua ic lw = (Inr lmw, lw') \<Longrightarrow> guards lmw r lv"
  by (auto simp: jsInbound_def luaInbound_def validator_mw_guards split: sum.splits option.splits prod.splits)

lemma newMiddleware_guards:
  assumes "guarding_factories reg" and "newMiddleware reg (''inbound/'' @ s) cfg w = (Inr mw, w')"
  shows "guards mw r v"
proof (cases "Get reg (''inbound/'' @ s)")
  case (Some f)
  with assms(2) have "f cfg w = (Inr mw, w')" by (simp add: newMiddleware_def)
  with assms(1) Some show ?thesis unfolding guarding_factories_def by metis
qed (use assms(2) in \<open>simp add: newMiddleware_def\<close>)

lemma buildOverrides_guards:
  assumes "guarding_factories reg" and "\<forall>u m r v. ov u = Some m \<longrightarrow> guards m r v"
    and "buildOverrides reg rts ups ov w = (Inr ov', w')" and "ov' u = Some m"
  shows "guards m r v"
  using assms(2-4)
proof (induction ups arbitrary: ov w)
  case (Cons up ups)
  show ?case
  proof (cases "UpstreamConfig.Enabled up \<and> InboundAuthOverride up \<noteq> None")
    case False
    with Cons.prems show ?thesis by (intro Cons.IH [of ov w]) (auto split: if_splits)
  next
    case True
    then obtain ic where ic: "InboundAuthOverride up = Some ic" by blast
    obtain res w1 where n: "newMiddleware reg (''inbound/'' @ InboundAuthConfig.Strategy ic) (injectAuthPools rts ic) w = (res, w1)"
      by fastforce
    with True ic Cons.prems(2) obtain mw where res: "res = Inr mw"
      and b: "buildOverrides reg rts ups (ov(UpstreamConfig.Name up \<mapsto> mw)) w1 = (Inr ov', w')"
      by (cases res) auto
    have "\<forall>u m r v. (ov(UpstreamConfig.Name up \<mapsto> mw)) u = Some m \<longrightarrow> guards m r v"
      using Cons.prems(1) newMiddleware_guards [OF assms(1) n [unfolded res]] by auto
    from Cons.IH [OF this b Cons.prems(3)] show ?thesis .
  qed
qed auto

lemma DispatchMiddleware_guards:
  assumes "\<forall>r v. guards g r v" and "\<forall>u m r v. ov u = Some m \<longrightarrow> guards m r v"
    and "\<not> (snd (peekToolCallName parse r) \<and> \<not> req w (fst (peekToolCallName parse r)))"
  shows "guards (DispatchMiddleware parse g ov req lookup) r w"
proof -
  define mw where "mw = (case lookup of None \<Rightarrow> g | Some l \<Rightarrow>
      if fst (peekToolCallName parse r) = [] then g
      else (case ov (l w (fst (peekToolCallName parse r))) of Some mw \<Rightarrow> mw | None \<Rightarrow> g))"
  have "DispatchMiddleware parse g ov req lookup nxt r w = mw nxt r w" for nxt
    using assms(3) by (auto simp: DispatchMiddleware_def mw_def Let_def split: prod.splits option.splits)
  moreover have "guards mw r w"
    using assms(1,2) by (auto simp: mw_def split: option.splits)
  ultimately show ?thesis by (simp add: guards_def)
qed

text \<open>What \<^verbatim>\<open>New\<close> made of its parts.\<close>

lemma newProxy_parts:
  assumes "newProxy lib path cfg w = (Inr p, mw)"
  obtains auth mw1 mw2 where
    "buildAuth (pb_middlewares lib) (pb_parse lib) (poolHandles (px_pools p)) (px_cfg p) mw1 = (Inr (auth, px_wellKnown p), mw2)"
    and "px_mcpHandlers p = mountHandlers auth (HTTPHandlers (pb_sdk lib) (fst mw2))"
    and "fst mw = fst mw2"
proof -
  from assms obtain rts mux loader cfg' mw1 where f: "finishProxy lib rts mux loader cfg' mw1 = (Inr p, mw)"
    unfolding newProxy_def Let_def
    by (auto split: sum.splits prod.splits option.splits)
  then obtain auth wk mw2 rs w2 where b: "buildAuth (pb_middlewares lib) (pb_parse lib) (poolHandles rts) cfg' mw1 = (Inr (auth, wk), mw2)"
    and p: "px_pools p = rts" "px_cfg p = cfg'" "px_wellKnown p = wk" "fst mw = fst mw2"
      "px_mcpHandlers p = mountHandlers auth (HTTPHandlers (pb_sdk lib) (fst mw2))"
    unfolding finishProxy_def Let_def
    by (auto split: sum.splits prod.splits)
  with that [of mw1 auth mw2] show thesis by simp
qed

lemma peek_ctx [simp]: "peekToolCallName parse (r\<lparr>req_ctx := c\<rparr>) = peekToolCallName parse r"
  by (simp add: peekToolCallName_def)


text \<open>Libraries for a proxy with one registered strategy, and a configuration that uses it.\<close>

definition guarded_lib :: "(string \<rightharpoonup> OAuthToken) proxy_lib" where
  "guarded_lib =
     \<lparr>pb_runtimes = [], pb_oauth = sample_oauth, pb_sha = id, pb_sessions = Map.empty, pb_telemetry = (\<lambda>c. None),
      pb_goga = (\<lambda>p w. Inl (UnknownBreaker [] [])), pb_env = sample_env,
      pb_middlewares = [''inbound/apikey'' \<mapsto> apiKeyMiddleware (\<lambda>_. ''k'')], pb_parse = (\<lambda>_. None),
      pb_sdk = (\<lambda>e r w. (empty_response, w)), pb_refresher = None, pb_providers = (\<lambda>w. Map.empty),
      pb_urlParam = (\<lambda>r. []), pb_prometheus = (\<lambda>r w. (empty_response, w)), pb_otel = (\<lambda>e h. h),
      pb_counters = (\<lambda>w. (0, 0)), pb_refreshers = (\<lambda>w. []), pb_breaker = (\<lambda>w b. Closed),
      pb_endpoints = (\<lambda>m. [''/mcp''])\<rparr>"

definition guarded_config :: ProxyConfig where
  "guarded_config = (sample_config [''a''])\<lparr>InboundAuth := sample_apikey\<lparr>InboundAuthConfig.Strategy := ''apikey''\<rparr>\<rparr>"

lemma sample_guarding: "guarding_factories (pb_middlewares guarded_lib)"
  unfolding guarding_factories_def
proof (intro allI impI)
  fix s f cfg w mw w' r v
  assume f: "Get (pb_middlewares guarded_lib) (''inbound/'' @ s) = Some f" and r: "f cfg w = (Inr mw, w')"
  from f have "f = apiKeyMiddleware (\<lambda>_. ''k'')" by (simp add: guarded_lib_def Get_def split: if_splits)
  with r have "apiKeyMiddleware (\<lambda>_. ''k'') cfg w = (Inr mw, w')" by (simp only:)
  then show "guards mw r v" by (rule builtin_strategies_guard(1))
qed


section \<open>What a reload leaves running\<close>

text \<open>Refreshers are created once, from the configuration at start. When a reload removes an upstream,
  its tools are gone, but the next successful refresh of its old refresher brings exactly its
  entries back, whatever the new configuration says.\<close>

theorem removed_upstream_returns:
  assumes "Rebuild env cfg m0 w = (None, m, w')" and "map_of (m_upstreamByName m) u = None"
    and "permutes_range \<sigma>" and "UpdateUpstream env \<sigma> u es rt m = (None, m')"
  shows "visible_entries m u = [] \<and> visible_entries m' = (visible_entries m)(u := es)"
proof -
  have i: "in_step env m" by (rule rebuild_in_step_lemma [OF assms(1)])
  then have "visible_entries m u = []" using assms(2) by (auto simp: in_step_def state_entries_def)
  moreover from assms(4) have "update_step env \<sigma> u (es, rt) m = (True, m')" by (simp add: update_step_def)
  from update_step_done [OF i assms(3) this] have "visible_entries m' = (visible_entries m)(u := es)" by blast
  ultimately show ?thesis by blast
qed

lemma removed_upstream_returns_witness:
  "\<exists>m m'. Rebuild sample_env (sample_config [''b'']) sample_manager () = (None, m, ()) \<and>
     visible_entries m ''a'' = [] \<and>
     UpdateUpstream sample_env id ''a'' [sample_entry 1 ''a'' ''a__x'' None] None m = (None, m') \<and>
     visible_entries m' ''a'' = [sample_entry 1 ''a'' ''a__x'' None]"
proof -
  let ?R = "Rebuild sample_env (sample_config [''b'']) sample_manager ()"
  let ?U = "UpdateUpstream sample_env id ''a'' [sample_entry 1 ''a'' ''a__x'' None] None (fst (snd ?R))"
  have "fst ?R = None" "(case map_of (m_upstreamByName (fst (snd ?R))) ''a'' of None \<Rightarrow> True | Some _ \<Rightarrow> False)"
    "fst ?U = None" by code_simp+
  then obtain m m' where R: "?R = (None, m, ())" and l: "map_of (m_upstreamByName m) ''a'' = None"
    and U: "UpdateUpstream sample_env id ''a'' [sample_entry 1 ''a'' ''a__x'' None] None m = (None, m')"
    by (cases ?R; cases ?U) (auto split: option.splits)
  have "permutes_range id" by (simp add: permutes_range_def)
  from removed_upstream_returns [OF R l this U] R U show ?thesis by simp
qed

section \<open>The Caddy module\<close>

text \<open>An order of the range over a map: every key once.\<close>

definition range_order :: "(string \<rightharpoonup> 'h) \<Rightarrow> string list \<Rightarrow> bool" where
  "range_order handlers order \<longleftrightarrow> set order = dom handlers \<and> distinct order"

definition nested :: "string \<Rightarrow> string \<Rightarrow> bool" where
  "nested e e' \<longleftrightarrow> has_prefix e' (e @ ''/'')"

lemma both_match_nested:
  assumes "has_prefix path (e @ ''/'')" and "has_prefix path (e' @ ''/'')" and "e \<noteq> e'"
  shows "nested e e' \<or> nested e' e"
proof -
  from assms(1,2) obtain u v where "path = (e @ ''/'') @ u" "path = (e' @ ''/'') @ v"
    unfolding has_prefix_iff by blast
  then have "(e @ ''/'') @ u = (e' @ ''/'') @ v" by simp
  then obtain us where "e @ ''/'' = (e' @ ''/'') @ us \<or> (e @ ''/'') @ us = e' @ ''/''"
    using append_eq_append_conv2 [of "e @ ''/''" u "e' @ ''/''" v] by blast
  then show ?thesis
  proof
    assume a: "e @ ''/'' = (e' @ ''/'') @ us"
    with assms(3) obtain us' x where "us = us' @ [x]" by (cases us rule: rev_cases) auto
    with a have "e = (e' @ ''/'') @ us'" by simp
    then show ?thesis unfolding nested_def has_prefix_iff by blast
  next
    assume a: "(e @ ''/'') @ us = e' @ ''/''"
    with assms(3) obtain us' x where "us = us' @ [x]" by (cases us rule: rev_cases) auto
    with a have "e' = (e @ ''/'') @ us'" by simp
    then show ?thesis unfolding nested_def has_prefix_iff by blast
  qed
qed

text \<open>At most one endpoint below which a path lies: the order in which they are tried is immaterial.\<close>

lemma flat_order_irrelevant:
  assumes flat: "\<forall>e e'. e \<in> dom handlers \<and> e' \<in> dom handlers \<longrightarrow> \<not> nested e e'"
    and r: "range_order handlers order" "range_order handlers order'"
  shows "caddyTarget order handlers path = caddyTarget order' handlers path"
proof -
  let ?P = "\<lambda>e. handlers e \<noteq> None \<and> has_prefix path (e @ ''/'')"
  have unique: "e = e'" if "?P e" "?P e'" for e e'
    using both_match_nested [of path e e'] that flat by blast
  have "find ?P order = find ?P order'"
  proof (cases "find ?P order")
    case None
    then have "find ?P order' = None" using r by (auto simp: find_None_iff range_order_def)
    with None show ?thesis by simp
  next
    case (Some e)
    then have e: "?P e" "e \<in> set order'" using r find_SomeD [OF Some] by (auto simp: range_order_def)
    then have "find ?P order' \<noteq> None" unfolding find_None_iff by blast
    then obtain e' where e': "find ?P order' = Some e'" by blast
    have "e = e'" using find_SomeD [OF e'] by (intro unique [OF e(1)]) blast
    with Some e' show ?thesis by simp
  qed
  then show ?thesis by (simp add: caddyTarget_def)
qed

text \<open>For nested endpoints some path lies below both and is neither's own.\<close>

lemma nested_path:
  assumes "finite (dom handlers)" and "nested e e'"
  obtains path where "handlers path = None" "has_prefix path (e @ ''/'')" "has_prefix path (e' @ ''/'')" "e \<noteq> e'"
proof -
  obtain t where t: "e' = (e @ ''/'') @ t" using assms(2) unfolding nested_def has_prefix_iff by blast
  then have ne: "e \<noteq> e'" by auto
  obtain N where N: "\<And>x. x \<in> dom handlers \<Longrightarrow> length x < N"
    using assms(1) finite_nat_set_iff_bounded [of "length ` dom handlers"] by auto
  define path where "path = e' @ ''/'' @ replicate N (CHR ''x'')"
  have out: "handlers path = None"
  proof (rule ccontr)
    assume "handlers path \<noteq> None"
    then have "length path < N" by (intro N) blast
    then show False by (simp add: path_def)
  qed
  have "path = (e' @ ''/'') @ replicate N (CHR ''x'')" "path = (e @ ''/'') @ t @ ''/'' @ replicate N (CHR ''x'')"
    by (simp_all add: path_def t)
  then have "has_prefix path (e @ ''/'')" "has_prefix path (e' @ ''/'')"
    unfolding has_prefix_iff by blast+
  with out ne show ?thesis by (intro that [of path])
qed

text \<open>C20: which endpoint serves a request does not depend on the iteration order of the map exactly
  when no endpoint lies below another one.\<close>

theorem caddy_dispatch_unambiguous_iff:
  assumes "finite (dom handlers)"
  shows "(\<forall>path order order'. range_order handlers order \<and> range_order handlers order' \<longrightarrow>
      caddyTarget order handlers path = caddyTarget order' handlers path) \<longleftrightarrow>
    (\<forall>e e'. e \<in> dom handlers \<and> e' \<in> dom handlers \<longrightarrow> \<not> nested e e')"
proof
  assume same: "\<forall>path order order'. range_order handlers order \<and> range_order handlers order' \<longrightarrow>
      caddyTarget order handlers path = caddyTarget order' handlers path"
  show "\<forall>e e'. e \<in> dom handlers \<and> e' \<in> dom handlers \<longrightarrow> \<not> nested e e'"
  proof (intro allI impI notI)
    fix e e' assume d: "e \<in> dom handlers \<and> e' \<in> dom handlers" and n: "nested e e'"
    obtain path where p: "handlers path = None" "has_prefix path (e @ ''/'')" "has_prefix path (e' @ ''/'')" "e \<noteq> e'"
      using nested_path [OF assms n] .
    obtain rest where rest: "set rest = dom handlers - {e, e'}" "distinct rest"
      using finite_distinct_list [of "dom handlers - {e, e'}"] assms by auto
    have "range_order handlers (e # e' # rest)" "range_order handlers (e' # e # rest)"
      using rest d p(4) by (auto simp: range_order_def)
    with same have "caddyTarget (e # e' # rest) handlers path = caddyTarget (e' # e # rest) handlers path" by blast
    with p d show False by (auto simp: caddyTarget_def)
  qed
qed (blast intro: flat_order_irrelevant)

lemma caddy_dispatch_unambiguous_iff_witness:
  "\<not> (\<forall>path order order'. range_order [''/mcp'' \<mapsto> True, ''/mcp/ro'' \<mapsto> False] order \<and>
        range_order [''/mcp'' \<mapsto> True, ''/mcp/ro'' \<mapsto> False] order' \<longrightarrow>
      caddyTarget order [''/mcp'' \<mapsto> True, ''/mcp/ro'' \<mapsto> False] path =
      caddyTarget order' [''/mcp'' \<mapsto> True, ''/mcp/ro'' \<mapsto> False] path)"
proof -
  have "''/mcp'' \<in> dom [''/mcp'' \<mapsto> True, ''/mcp/ro'' \<mapsto> False]" "''/mcp/ro'' \<in> dom [''/mcp'' \<mapsto> True, ''/mcp/ro'' \<mapsto> False]"
    "nested ''/mcp'' ''/mcp/ro''" by (simp_all add: nested_def has_prefix_def)
  with caddy_dispatch_unambiguous_iff [of "[''/mcp'' \<mapsto> True, ''/mcp/ro'' \<mapsto> False]"] show ?thesis by auto
qed

text \<open>What is selected is mounted, so a request either reaches the handler of an endpoint it lies at or
  below, or goes on to the next handler.\<close>

lemma caddy_target_mounted:
  assumes "caddyTarget order handlers path = Some e"
  shows "handlers e \<noteq> None \<and> (path = e \<or> has_prefix path (e @ ''/''))"
  using assms by (auto simp: caddyTarget_def dest: find_SomeD split: if_splits)

end
