(* ===== verification/Caddyfile.thy ===== *)
theory Caddyfile
  imports Assembly
begin

text \<open>
  The Caddyfile directive \<^verbatim>\<open>mcpanything\<close> of \<^verbatim>\<open>pkg/caddy\<close>. Caddy's dispenser, which walks over the tokens
  of the file, is a parameter with a state of its own.
\<close>

record 'd dispenser =
  d_Next :: "'d \<Rightarrow> bool \<times> 'd"
  d_NextBlock :: "nat \<Rightarrow> 'd \<Rightarrow> bool \<times> 'd"
  d_NextArg :: "'d \<Rightarrow> bool \<times> 'd"
  d_Val :: "'d \<Rightarrow> string"
  d_ArgErr :: "'d \<Rightarrow> goerr"
  d_Errf :: "string \<Rightarrow> 'd \<Rightarrow> goerr"

text \<open>The body of the inner loop, at an option: an error, and the path afterwards.\<close>

definition blockOption :: "'d dispenser \<Rightarrow> string \<Rightarrow> 'd \<Rightarrow> (goerr option \<times> string) \<times> 'd" where
  "blockOption lib path d =
     (if d_Val lib d = ''config_path''
      then (case d_NextArg lib d of
              (False, d) \<Rightarrow> ((Some (d_ArgErr lib d), path), d)
            | (True, d) \<Rightarrow> ((None, d_Val lib d), d))
      else ((Some (d_Errf lib (''unrecognised mcpanything option: '' @ d_Val lib d) d), path), d))"

text \<open>The loops end only if the dispenser runs out of tokens; \<^term>\<open>None\<close> is a loop that does not. What an
  earlier option set stays set when a later one is an error.\<close>

partial_function (option) blockLoop :: "'d dispenser \<Rightarrow> string \<Rightarrow> 'd \<Rightarrow> ((goerr option \<times> string) \<times> 'd) option" where
  "blockLoop lib path d =
     (case d_NextBlock lib 0 d of
        (inside, d) \<Rightarrow>
          if \<not> inside then Some ((None, path), d)
          else (case blockOption lib path d of
                  ((err, path), d) \<Rightarrow> if err \<noteq> None then Some ((err, path), d) else blockLoop lib path d))"

partial_function (option) directiveLoop :: "'d dispenser \<Rightarrow> string \<Rightarrow> 'd \<Rightarrow> ((goerr option \<times> string) \<times> 'd) option" where
  "directiveLoop lib path d =
     (case d_Next lib d of
        (found, d) \<Rightarrow>
          if \<not> found then Some ((None, path), d)
          else Option.bind (blockLoop lib path d)
                 (\<lambda>((err, path), d). if err \<noteq> None then Some ((err, path), d) else directiveLoop lib path d))"

definition UnmarshalCaddyfile ::
    "'d dispenser \<Rightarrow> 'w MCPAnything \<Rightarrow> 'd \<Rightarrow> (goerr option \<times> 'w MCPAnything) option" where
  "UnmarshalCaddyfile lib m d =
     map_option (\<lambda>((err, path), d). (err, m\<lparr>ca_ConfigPath := path\<rparr>)) (directiveLoop lib (ca_ConfigPath m) d)"

definition newMCPAnything :: "'w MCPAnything" where
  "newMCPAnything = \<lparr>ca_ConfigPath = [], ca_proxy = None, ca_handlers = Map.empty\<rparr>"

definition parseCaddyfile :: "'d dispenser \<Rightarrow> 'd \<Rightarrow> (goerr + 'w MCPAnything) option" where
  "parseCaddyfile lib d =
     map_option (\<lambda>(err, m). case err of Some e \<Rightarrow> Inl e | None \<Rightarrow> Inr m)
       (UnmarshalCaddyfile lib newMCPAnything d)"

section \<open>Properties\<close>

text \<open>The dispenser consumes: entering an option or a directive uses up a token, an argument gives none back.\<close>

definition consuming :: "'d dispenser \<Rightarrow> ('d \<Rightarrow> nat) \<Rightarrow> bool" where
  "consuming lib left \<longleftrightarrow>
     (\<forall>d d'. (d_Next lib d = (True, d') \<longrightarrow> left d' < left d) \<and>
        (\<forall>n. d_NextBlock lib n d = (True, d') \<longrightarrow> left d' < left d) \<and>
        (\<forall>n. d_NextBlock lib n d = (False, d') \<longrightarrow> left d' \<le> left d) \<and>
        (\<forall>b. d_NextArg lib d = (b, d') \<longrightarrow> left d' \<le> left d))"

lemma consumingD:
  assumes "consuming lib left"
  shows "d_Next lib d = (b, d') \<Longrightarrow> b \<Longrightarrow> left d' < left d"
    and "d_NextBlock lib n d = (b, d') \<Longrightarrow> b \<Longrightarrow> left d' < left d"
    and "d_NextBlock lib n d = (b, d') \<Longrightarrow> \<not> b \<Longrightarrow> left d' \<le> left d"
proof -
  note c = assms [unfolded consuming_def, rule_format]
  show "d_Next lib d = (b, d') \<Longrightarrow> b \<Longrightarrow> left d' < left d" using c [of d d'] by simp
  show "d_NextBlock lib n d = (b, d') \<Longrightarrow> b \<Longrightarrow> left d' < left d" using c [of d d'] by fastforce
  show "d_NextBlock lib n d = (b, d') \<Longrightarrow> \<not> b \<Longrightarrow> left d' \<le> left d" using c [of d d'] by fastforce
qed

lemma blockOption_left: "consuming lib left \<Longrightarrow> blockOption lib path d = (r, d') \<Longrightarrow> left d' \<le> left d"
  by (auto simp: blockOption_def consuming_def split: if_splits prod.splits bool.splits)

lemma blockLoop_returns:
  assumes "consuming lib left"
  shows "\<exists>r d'. blockLoop lib path d = Some (r, d') \<and> left d' \<le> left d"
proof (induction "left d" arbitrary: path d rule: less_induct)
  case less
  obtain b d1 where b: "d_NextBlock lib 0 d = (b, d1)" by fastforce
  obtain err p d2 where o: "blockOption lib path d1 = ((err, p), d2)" by (metis prod.exhaust)
  note l = blockOption_left [OF assms o]
  show ?case
  proof (cases b)
    case True
    with b have lt: "left d1 < left d" by (simp add: consumingD(2) [OF assms])
    with less [of d2 p] l obtain r' d' where "blockLoop lib p d2 = Some (r', d') \<and> left d' \<le> left d2" by auto
    with True b o l lt show ?thesis by (subst blockLoop.simps) simp
  next
    case False
    with b have "left d1 \<le> left d" by (simp add: consumingD(3) [OF assms])
    with False b show ?thesis by (subst blockLoop.simps) simp
  qed
qed

text \<open>Parsing the directive ends for every file, and all it can set is the path.\<close>

theorem unmarshal_returns:
  assumes "consuming lib left"
  shows "\<exists>err p. UnmarshalCaddyfile lib m d = Some (err, m\<lparr>ca_ConfigPath := p\<rparr>)"
proof -
  have "\<exists>r d'. directiveLoop lib path d = Some (r, d')" for path d
  proof (induction "left d" arbitrary: path d rule: less_induct)
    case less
    obtain b d1 where b: "d_Next lib d = (b, d1)" by fastforce
    obtain r d2 where o: "blockLoop lib path d1 = Some (r, d2)" "left d2 \<le> left d1"
      using blockLoop_returns [OF assms] by blast
    obtain err p where r: "r = (err, p)" by fastforce
    show ?case
    proof (cases b)
      case True
      with b have "left d1 < left d" by (simp add: consumingD(1) [OF assms])
      with less [of d2 p] o obtain r' d' where "directiveLoop lib p d2 = Some (r', d')" by auto
      with True b o r show ?thesis by (subst directiveLoop.simps) simp
    next
      case False
      with b show ?thesis by (subst directiveLoop.simps) simp
    qed
  qed
  then obtain r d' where "directiveLoop lib (ca_ConfigPath m) d = Some (r, d')" by blast
  then show ?thesis by (cases r) (auto simp: UnmarshalCaddyfile_def)
qed

end
