(* ===== verification/OperatorMain.thy ===== *)
theory OperatorMain
  imports OperatorLaws
begin

text \<open>
  The operator's process, \<^verbatim>\<open>cmd/operator/main.go\<close>, and the set-up of both controllers with their
  watches (\<^verbatim>\<open>SetupWithManager\<close>). The command line is parsed as the \<^verbatim>\<open>flag\<close> package does; the scheme,
  the manager and the predicates and handlers of controller-runtime are parameters.
\<close>

section \<open>The command line\<close>

datatype flag_kind = StringFlag | BoolFlag

text \<open>\<^verbatim>\<open>strconv.ParseBool\<close>\<close>

definition parseBool :: "string \<Rightarrow> bool option" where
  "parseBool s =
     (if s \<in> set [''1'', ''t'', ''T'', ''true'', ''TRUE'', ''True''] then Some True
      else if s \<in> set [''0'', ''f'', ''F'', ''false'', ''FALSE'', ''False''] then Some False
      else None)"

text \<open>The name of a flag and the value behind the first \<^verbatim>\<open>=\<close>, which is looked for after the first character.\<close>

definition cutValue :: "string \<Rightarrow> string \<times> string option" where
  "cutValue s =
     (let n = hd s # takeWhile (\<lambda>c. c \<noteq> CHR ''='') (tl s) in
      case dropWhile (\<lambda>c. c \<noteq> CHR ''='') (tl s) of [] \<Rightarrow> (n, None) | _ # v \<Rightarrow> (n, Some v))"

text \<open>\<^verbatim>\<open>FlagSet.Parse\<close> of the command line: the exit status when it ends the process, and otherwise the
  settings in order. It stops at the first argument that is not a flag.\<close>

fun parseFlags :: "(string \<Rightarrow> flag_kind option) \<Rightarrow> string list \<Rightarrow> nat + (string \<times> string) list" where
  "parseFlags formal [] = Inr []"
| "parseFlags formal (s # args) =
     (if length s < 2 \<or> hd s \<noteq> CHR ''-'' \<or> s = ''--'' then Inr []
      else
        (let body = (if s ! 1 = CHR ''-'' then drop 2 s else drop 1 s) in
         if body = [] \<or> hd body \<in> {CHR ''-'', CHR ''=''} then Inl 2
         else
           (case cutValue body of (n, v) \<Rightarrow>
              (case formal n of
                 None \<Rightarrow> Inl (if n = ''help'' \<or> n = ''h'' then 0 else 2)
               | Some BoolFlag \<Rightarrow>
                   (let x = (case v of None \<Rightarrow> ''true'' | Some x \<Rightarrow> x) in
                    if parseBool x = None then Inl 2 else map_sum id (Cons (n, x)) (parseFlags formal args))
               | Some StringFlag \<Rightarrow>
                   (case v of
                      Some x \<Rightarrow> map_sum id (Cons (n, x)) (parseFlags formal args)
                    | None \<Rightarrow>
                        (case args of
                           [] \<Rightarrow> Inl 2
                         | x # args' \<Rightarrow> map_sum id (Cons (n, x)) (parseFlags formal args')))))))"

record operator_flags =
  of_metricsAddr :: string
  of_healthProbeAddr :: string
  of_enableLeaderElection :: bool
  of_namespace :: string
  of_enableWebhooks :: bool

definition defaultFlags :: operator_flags where
  "defaultFlags =
     \<lparr>of_metricsAddr = '':8443'', of_healthProbeAddr = '':8081'', of_enableLeaderElection = False,
      of_namespace = [], of_enableWebhooks = False\<rparr>"

text \<open>The packages the operator imports add string flags of their own.\<close>

definition operatorFormal :: "string list \<Rightarrow> string \<Rightarrow> flag_kind option" where
  "operatorFormal imported n =
     (if n \<in> set [''metrics-bind-address'', ''health-probe-bind-address'', ''namespace''] then Some StringFlag
      else if n \<in> set [''leader-elect'', ''enable-webhooks''] then Some BoolFlag
      else if n \<in> set imported then Some StringFlag
      else None)"

definition setFlag :: "string \<times> string \<Rightarrow> operator_flags \<Rightarrow> operator_flags" where
  "setFlag nv fl =
     (let n = fst nv; v = snd nv; b = (parseBool v = Some True) in
      if n = ''metrics-bind-address'' then fl\<lparr>of_metricsAddr := v\<rparr>
      else if n = ''health-probe-bind-address'' then fl\<lparr>of_healthProbeAddr := v\<rparr>
      else if n = ''leader-elect'' then fl\<lparr>of_enableLeaderElection := b\<rparr>
      else if n = ''namespace'' then fl\<lparr>of_namespace := v\<rparr>
      else if n = ''enable-webhooks'' then fl\<lparr>of_enableWebhooks := b\<rparr>
      else fl)"

definition operatorFlags :: "string list \<Rightarrow> string list \<Rightarrow> nat + operator_flags" where
  "operatorFlags imported args =
     map_sum id (\<lambda>settings. fold setFlag settings defaultFlags) (parseFlags (operatorFormal imported) args)"

section \<open>Controllers and watches\<close>

text \<open>What a controller is built from: the resource it reconciles, the resources it owns and watches, and
  whether changes of the first and of a watched one are filtered by generation.\<close>

record controller_setup =
  cs_For :: string
  cs_ForGenerationOnly :: bool
  cs_Owns :: "string list"
  cs_Watches :: "(string \<times> bool) list"

definition proxySetup :: controller_setup where
  "proxySetup =
     \<lparr>cs_For = ''MCPProxy'', cs_ForGenerationOnly = True, cs_Owns = [''Deployment'', ''ConfigMap'', ''Service''],
      cs_Watches = [(''MCPUpstream'', True), (''Service'', False)]\<rparr>"

definition upstreamSetup :: controller_setup where
  "upstreamSetup = \<lparr>cs_For = ''MCPUpstream'', cs_ForGenerationOnly = True, cs_Owns = [], cs_Watches = []\<rparr>"

datatype watched_object = UpstreamObject MCPUpstream | ServiceObject KService | OtherObject

definition mapUpstreamToProxy :: "'w kube \<Rightarrow> watched_object \<Rightarrow> 'w \<Rightarrow> NamespacedName list \<times> 'w" where
  "mapUpstreamToProxy k obj w =
     (case obj of UpstreamObject up \<Rightarrow> proxiesForUpstream k up w | _ \<Rightarrow> ([], w))"

datatype 'o watch_event = Created 'o | Updated 'o 'o | Deleted 'o

text \<open>The predicate, the objects a handler maps for an event, and the calls of the set-up.\<close>

record 'w operator_lib =
  ol_flags :: "string list"
  ol_AddToScheme :: "string \<Rightarrow> 'w \<Rightarrow> goerr option \<times> 'w"
  ol_GetConfig :: "'w \<Rightarrow> bool \<times> 'w"
  ol_NewManager :: "(string \<times> string) list \<Rightarrow> bool \<Rightarrow> string list option \<Rightarrow> 'w \<Rightarrow> goerr option \<times> 'w"
  ol_Complete :: "controller_setup \<Rightarrow> 'w \<Rightarrow> goerr option \<times> 'w"
  ol_Register :: "string \<Rightarrow> 'w \<Rightarrow> 'w"
  ol_AddHealthz :: "string \<Rightarrow> 'w \<Rightarrow> goerr option \<times> 'w"
  ol_AddReadyz :: "string \<Rightarrow> 'w \<Rightarrow> goerr option \<times> 'w"
  ol_Start :: "'w \<Rightarrow> goerr option \<times> 'w"
  ol_generationChanged :: "watched_object watch_event \<Rightarrow> bool"
  ol_objects :: "watched_object watch_event \<Rightarrow> watched_object list"

fun mapAll :: "('o \<Rightarrow> 'w \<Rightarrow> NamespacedName list \<times> 'w) \<Rightarrow> 'o list \<Rightarrow> 'w \<Rightarrow> NamespacedName list \<times> 'w" where
  "mapAll f [] w = ([], w)"
| "mapAll f (x # xs) w = (let (rs, w) = f x w; (rss, w) = mapAll f xs w in (rs @ rss, w))"

text \<open>The requests of an event at the watch of the upstreams.\<close>

definition upstreamWatch :: "'w operator_lib \<Rightarrow> 'w kube \<Rightarrow> watched_object watch_event \<Rightarrow> 'w \<Rightarrow> NamespacedName list \<times> 'w" where
  "upstreamWatch lib k ev w =
     (if ol_generationChanged lib ev then mapAll (mapUpstreamToProxy k) (ol_objects lib ev) w else ([], w))"

section \<open>The process\<close>

text \<open>Steps up to the first error.\<close>

fun runSteps :: "('w \<Rightarrow> goerr option \<times> 'w) list \<Rightarrow> 'w \<Rightarrow> goerr option \<times> 'w" where
  "runSteps [] w = (None, w)"
| "runSteps (f # fs) w = (case f w of (Some e, w) \<Rightarrow> (Some e, w) | (None, w) \<Rightarrow> runSteps fs w)"

definition schemeGroups :: "string list" where
  "schemeGroups = [''client-go'', ''core/v1'', ''apps/v1'', ''mcp-auto.ai/v1alpha1'', ''gateway.networking.k8s.io/v1'']"

definition newManager :: "'w operator_lib \<Rightarrow> operator_flags \<Rightarrow> 'w \<Rightarrow> goerr option \<times> 'w" where
  "newManager lib fl =
     ol_NewManager lib
       [(''Metrics.BindAddress'', of_metricsAddr fl), (''HealthProbeBindAddress'', of_healthProbeAddr fl),
        (''LeaderElectionID'', ''mcp-auto-operator.mcp-auto.ai'')]
       (of_enableLeaderElection fl)
       (if of_namespace fl \<noteq> [] then Some [of_namespace fl] else None)"

definition webhookSteps :: "'w operator_lib \<Rightarrow> operator_flags \<Rightarrow> ('w \<Rightarrow> goerr option \<times> 'w) list" where
  "webhookSteps lib fl =
     (if of_enableWebhooks fl
      then map (\<lambda>path w. (None, ol_Register lib path w))
             [''/validate-mcp-auto-ai-v1alpha1-mcpproxy'', ''/validate-mcp-auto-ai-v1alpha1-mcpupstream'']
      else [])"

definition operatorSteps :: "'w operator_lib \<Rightarrow> operator_flags \<Rightarrow> ('w \<Rightarrow> goerr option \<times> 'w) list" where
  "operatorSteps lib fl =
     [newManager lib fl, ol_Complete lib proxySetup, ol_Complete lib upstreamSetup] @ webhookSteps lib fl @
     [ol_AddHealthz lib ''healthz'', ol_AddReadyz lib ''readyz'', ol_Start lib]"

text \<open>The exit status: a panic of the initialisation ends the process with 2.\<close>

definition operatorMain :: "'w operator_lib \<Rightarrow> string list \<Rightarrow> 'w \<Rightarrow> nat \<times> 'w" where
  "operatorMain lib args w =
     (case runSteps (map (ol_AddToScheme lib) schemeGroups) w of
        (Some e, w) \<Rightarrow> (2, w)
      | (None, w) \<Rightarrow>
          (case operatorFlags (ol_flags lib) args of
             Inl status \<Rightarrow> (status, w)
           | Inr fl \<Rightarrow>
               (case ol_GetConfig lib w of
                  (False, w) \<Rightarrow> (1, w)
                | (True, w) \<Rightarrow>
                    (case runSteps (operatorSteps lib fl) w of
                       (Some e, w) \<Rightarrow> (1, w)
                     | (None, w) \<Rightarrow> (0, w)))))"

section \<open>Properties\<close>

text \<open>A command line that spells out all flags is read back as these flags, whatever the values are.\<close>

definition boolText :: "bool \<Rightarrow> string" where
  "boolText b = (if b then ''true'' else ''false'')"

definition renderFlags :: "operator_flags \<Rightarrow> string list" where
  "renderFlags fl =
     [''--metrics-bind-address='' @ of_metricsAddr fl, ''--health-probe-bind-address='' @ of_healthProbeAddr fl,
      ''--leader-elect='' @ boolText (of_enableLeaderElection fl), ''--namespace'', of_namespace fl,
      ''--enable-webhooks='' @ boolText (of_enableWebhooks fl)]"

lemma parseBool_text: "parseBool (boolText b) = Some b"
  by (cases b) (simp_all add: parseBool_def boolText_def)

theorem flags_read_back: "operatorFlags imported (renderFlags fl) = Inr fl"
proof -
  have "parseFlags (operatorFormal imported) (renderFlags fl) =
      Inr [(''metrics-bind-address'', of_metricsAddr fl), (''health-probe-bind-address'', of_healthProbeAddr fl),
        (''leader-elect'', boolText (of_enableLeaderElection fl)), (''namespace'', of_namespace fl),
        (''enable-webhooks'', boolText (of_enableWebhooks fl))]"
    by (simp add: renderFlags_def cutValue_def operatorFormal_def parseBool_text)
  then show ?thesis
    by (simp add: operatorFlags_def setFlag_def defaultFlags_def parseBool_text)
qed

text \<open>The process ends with status 0 exactly when every step succeeds; webhooks are registered only if asked
  for, and before the manager starts.\<close>

lemma runSteps_ok: "fst (runSteps (fs @ gs) w) = None \<longleftrightarrow>
    fst (runSteps fs w) = None \<and> fst (runSteps gs (snd (runSteps fs w))) = None"
  by (induction fs arbitrary: w) (auto split: prod.splits option.splits)

lemma operator_status:
  assumes "runSteps (map (ol_AddToScheme lib) schemeGroups) w = (None, w1)" and "operatorFlags (ol_flags lib) args = Inr fl"
    and "ol_GetConfig lib w1 = (True, w2)"
  shows "fst (operatorMain lib args w) = (if fst (runSteps (operatorSteps lib fl) w2) = None then 0 else 1)"
  using assms by (auto simp: operatorMain_def split: prod.splits option.splits)

text \<open>What the documentation of \<^verbatim>\<open>GenerationChangedPredicate\<close> says of updates: they pass only if the generation
  changed; and the API server leaves the generation alone when only metadata such as labels changes.\<close>

definition generation_predicate :: "'w operator_lib \<Rightarrow> bool" where
  "generation_predicate lib \<longleftrightarrow>
     (\<forall>old new. ol_generationChanged lib (Updated (UpstreamObject old) (UpstreamObject new)) \<longleftrightarrow>
        om_Generation (mu_Meta old) \<noteq> om_Generation (mu_Meta new))"

text \<open>So a relabelled upstream wakes no proxy, although the next run of a proxy whose selector matches the
  new labels only would collect it: until the periodic run the proxy serves without it.\<close>

theorem relabelled_upstream_wakes_nobody:
  assumes "generation_predicate lib" and "om_Generation (mu_Meta old) = om_Generation (mu_Meta new)"
    and "lists_upstreams k stored" and "new \<in> set (stored w)"
    and "k_ListProxies k w = (Inr proxies, w1)" and "proxy \<in> set proxies" and "distinct (map (metaKey \<circ> px_Meta) proxies)"
    and "selectsUpstream k new proxy"
  shows "fst (upstreamWatch lib k (Updated (UpstreamObject old) (UpstreamObject new)) w) = [] \<and>
    metaKey (px_Meta proxy) \<in> set (fst (mapUpstreamToProxy k (UpstreamObject new) w)) \<and>
    (\<exists>ups w'. listUpstreams k proxy w = (Inr ups, w') \<and> new \<in> set ups)"
  using assms(1,2,8) requested_iff_selected [OF assms(5-7)] selects_iff_collected [OF assms(3,4)]
  by (simp add: upstreamWatch_def generation_predicate_def mapUpstreamToProxy_def)

end
