(* ===== verification/DeepCopy.thy ===== *)
theory DeepCopy
  imports GoLib
begin

text \<open>
  Values of Go in memory, for the deep copies of \<^verbatim>\<open>pkg/crd/v1alpha1\<close>: pointers, slices and maps are
  addresses of cells in a store, so that two values can share memory. The store is a list, an
  address an index, and allocation appends. The statements of which a generated \<^verbatim>\<open>DeepCopyInto\<close>
  consists are combinators here; each is proved to give a copy that reads the same and shares
  nothing if its parts do.
\<close>

section \<open>Values and layouts\<close>

datatype scalar = SStr string | SInt int | SBool bool

text \<open>\<^term>\<open>None\<close> is nil. A slice stands for its whole backing array.\<close>

datatype memval =
    MScal scalar
  | MStruct "(string \<times> memval) list"
  | MPtr "nat option"
  | MSlice "nat option"
  | MMap "nat option"

datatype cell = CVal memval | CArr "memval list" | CMap "(string \<times> memval) list"

type_synonym store = "cell list"

datatype layout =
    TScal
  | TStruct "(string \<times> layout) list"
  | TPtr layout
  | TSlice layout
  | TMap layout

definition cell_at :: "store \<Rightarrow> nat \<Rightarrow> cell option" where
  "cell_at h a = (if a < length h then Some (h ! a) else None)"

text \<open>What a program reads from a value, whatever the addresses are.\<close>

datatype readout =
    RScal scalar
  | RStruct "(string \<times> readout) list"
  | RNil
  | RRef readout
  | RList "readout list"
  | RMap "(string \<times> readout) list"

text \<open>A value of a layout in a store: what is read from it and the addresses of the cells it reaches,
  or \<^term>\<open>None\<close> if the value does not have that layout.\<close>

definition joined :: "(readout \<times> nat list) list \<Rightarrow> readout list \<times> nat list" where
  "joined rs = (map fst rs, concat (map snd rs))"

fun all_some :: "'a option list \<Rightarrow> 'a list option" where
  "all_some [] = Some []"
| "all_some (None # xs) = None"
| "all_some (Some x # xs) = map_option (Cons x) (all_some xs)"

fun view :: "store \<Rightarrow> layout \<Rightarrow> memval \<Rightarrow> (readout \<times> nat list) option"
and view_fields :: "store \<Rightarrow> (string \<times> layout) list \<Rightarrow> (string \<times> memval) list \<Rightarrow> (readout \<times> nat list) list option" where
  "view h TScal (MScal s) = Some (RScal s, [])"
| "view h (TStruct ts) (MStruct fs) =
     map_option (\<lambda>rs. (RStruct (zip (map fst ts) (map fst rs)), concat (map snd rs))) (view_fields h ts fs)"
| "view h (TPtr t) (MPtr None) = Some (RNil, [])"
| "view h (TPtr t) (MPtr (Some a)) =
     (case cell_at h a of
        Some (CVal v) \<Rightarrow> map_option (\<lambda>(r, as). (RRef r, a # as)) (view h t v)
      | _ \<Rightarrow> None)"
| "view h (TSlice t) (MSlice None) = Some (RNil, [])"
| "view h (TSlice t) (MSlice (Some a)) =
     (case cell_at h a of
        Some (CArr vs) \<Rightarrow>
          map_option (\<lambda>rs. (RList (map fst rs), a # concat (map snd rs))) (all_some (map (view h t) vs))
      | _ \<Rightarrow> None)"
| "view h (TMap t) (MMap None) = Some (RNil, [])"
| "view h (TMap t) (MMap (Some a)) =
     (case cell_at h a of
        Some (CMap kvs) \<Rightarrow>
          map_option (\<lambda>rs. (RMap (zip (map fst kvs) (map fst rs)), a # concat (map snd rs)))
            (all_some (map (\<lambda>kv. view h t (snd kv)) kvs))
      | _ \<Rightarrow> None)"
| "view h _ _ = None"
| "view_fields h [] [] = Some []"
| "view_fields h ((n, t) # ts) ((m, v) # fs) =
     (if n = m then
        (case (view h t v, view_fields h ts fs) of (Some r, Some rs) \<Rightarrow> Some (r # rs) | _ \<Rightarrow> None)
      else None)"
| "view_fields h _ _ = None"

section \<open>Copying\<close>

text \<open>A copier gives what \<^verbatim>\<open>*out\<close> holds after the statement and the store with the cells it allocated.\<close>

type_synonym copier = "memval \<Rightarrow> store \<Rightarrow> memval \<times> store"

text \<open>\<^verbatim>\<open>*out = *in\<close>\<close>

definition copy_plain :: copier where
  "copy_plain v h = (v, h)"

fun copy_seq :: "copier \<Rightarrow> memval list \<Rightarrow> store \<Rightarrow> memval list \<times> store" where
  "copy_seq f [] h = ([], h)"
| "copy_seq f (v # vs) h =
     (let (v', h1) = f v h; (vs', h2) = copy_seq f vs h1 in (v' # vs', h2))"

text \<open>\<^verbatim>\<open>if in.F != nil { *out = new(T); (*in).DeepCopyInto(*out) }\<close>\<close>

definition copy_ptr :: "copier \<Rightarrow> copier" where
  "copy_ptr f v h =
     (case v of
        MPtr (Some a) \<Rightarrow>
          (case cell_at h a of
             Some (CVal x) \<Rightarrow> (let (x', h') = f x h in (MPtr (Some (length h')), h' @ [CVal x']))
           | _ \<Rightarrow> (v, h))
      | _ \<Rightarrow> (v, h))"

text \<open>\<^verbatim>\<open>*out = make([]T, len(*in))\<close> and the loop or \<^verbatim>\<open>copy\<close> over the elements\<close>

definition copy_slice :: "copier \<Rightarrow> copier" where
  "copy_slice f v h =
     (case v of
        MSlice (Some a) \<Rightarrow>
          (case cell_at h a of
             Some (CArr xs) \<Rightarrow> (let (xs', h') = copy_seq f xs h in (MSlice (Some (length h')), h' @ [CArr xs']))
           | _ \<Rightarrow> (v, h))
      | _ \<Rightarrow> (v, h))"

text \<open>\<^verbatim>\<open>*out = make(map[string]T, len(*in))\<close> and the loop over the entries\<close>

definition copy_map :: "copier \<Rightarrow> copier" where
  "copy_map f v h =
     (case v of
        MMap (Some a) \<Rightarrow>
          (case cell_at h a of
             Some (CMap kvs) \<Rightarrow>
               (let (xs', h') = copy_seq f (map snd kvs) h
                in (MMap (Some (length h')), h' @ [CMap (zip (map fst kvs) xs')]))
           | _ \<Rightarrow> (v, h))
      | _ \<Rightarrow> (v, h))"

text \<open>\<^verbatim>\<open>*out = *in\<close> and then, in the order of the fields, one statement for each field named in
  \<^term>\<open>cs\<close>; the other fields keep what the assignment put there.\<close>

fun copy_fields :: "(string \<times> copier) list \<Rightarrow> (string \<times> memval) list \<Rightarrow> store \<Rightarrow> (string \<times> memval) list \<times> store" where
  "copy_fields cs [] h = ([], h)"
| "copy_fields cs ((n, v) # fs) h =
     (let (v', h1) = (case map_of cs n of None \<Rightarrow> (v, h) | Some f \<Rightarrow> f v h);
          (fs', h2) = copy_fields cs fs h1
      in ((n, v') # fs', h2))"

definition copy_struct :: "(string \<times> copier) list \<Rightarrow> copier" where
  "copy_struct cs v h =
     (case v of
        MStruct fs \<Rightarrow> (let (fs', h') = copy_fields cs fs h in (MStruct fs', h'))
      | _ \<Rightarrow> (v, h))"

text \<open>\<^verbatim>\<open>DeepCopyObject\<close>: an interface value, \<^term>\<open>None\<close> for the nil interface.\<close>

definition copy_object :: "copier \<Rightarrow> memval \<Rightarrow> store \<Rightarrow> memval option \<times> store" where
  "copy_object f p h = (let (c, h') = f p h in if c \<noteq> MPtr None then (Some c, h') else (None, h'))"

section \<open>Reading depends on the reached cells only\<close>

lemma all_some_Cons: "all_some (x # xs) = Some rs \<longleftrightarrow> (\<exists>r rs'. rs = r # rs' \<and> x = Some r \<and> all_some xs = Some rs')"
  by (cases x) auto

lemma all_some_map_cong:
  assumes "all_some (map g xs) = Some rs"
    and "\<And>x r. x \<in> set xs \<Longrightarrow> r \<in> set rs \<Longrightarrow> g x = Some r \<Longrightarrow> g' x = Some r"
  shows "all_some (map g' xs) = Some rs"
  using assms
proof (induction xs arbitrary: rs)
  case (Cons x xs)
  then obtain r rs' where rs: "rs = r # rs'" "g x = Some r" "all_some (map g xs) = Some rs'"
    by (auto simp: all_some_Cons)
  have "all_some (map g' xs) = Some rs'" using Cons.IH [OF rs(3)] Cons.prems(2) rs(1) by simp
  then show ?case using Cons.prems(2) [of x r] rs by simp
qed simp

lemma cell_at_Some: "cell_at h a = Some c \<longleftrightarrow> a < length h \<and> h ! a = c"
  by (auto simp: cell_at_def)

lemma view_ptr: "view h (TPtr t) (MPtr (Some a)) = Some (r, as) \<longleftrightarrow>
    (\<exists>v q bs. cell_at h a = Some (CVal v) \<and> view h t v = Some (q, bs) \<and> r = RRef q \<and> as = a # bs)"
  by (auto split: option.splits cell.splits)

lemma view_slice: "view h (TSlice t) (MSlice (Some a)) = Some (r, as) \<longleftrightarrow>
    (\<exists>vs rs. cell_at h a = Some (CArr vs) \<and> all_some (map (view h t) vs) = Some rs \<and>
      r = RList (map fst rs) \<and> as = a # concat (map snd rs))"
  by (auto split: option.splits cell.splits)

lemma view_map: "view h (TMap t) (MMap (Some a)) = Some (r, as) \<longleftrightarrow>
    (\<exists>kvs rs. cell_at h a = Some (CMap kvs) \<and> all_some (map (\<lambda>kv. view h t (snd kv)) kvs) = Some rs \<and>
      r = RMap (zip (map fst kvs) (map fst rs)) \<and> as = a # concat (map snd rs))"
  by (auto split: option.splits cell.splits)

lemma view_struct: "view h (TStruct ts) (MStruct fs) = Some (r, as) \<longleftrightarrow>
    (\<exists>rs. view_fields h ts fs = Some rs \<and> r = RStruct (zip (map fst ts) (map fst rs)) \<and> as = concat (map snd rs))"
  by auto

lemma view_fields_Cons: "view_fields h ((n, t) # ts) ((m, v) # fs) = Some rs \<longleftrightarrow>
    n = m \<and> (\<exists>r rs'. rs = r # rs' \<and> view h t v = Some r \<and> view_fields h ts fs = Some rs')"
  by (auto split: option.splits)

lemmas view_composite = view_ptr view_slice view_map view_struct view_fields_Cons

lemma view_cong:
  "view h t v = Some (r, as) \<Longrightarrow> \<forall>a \<in> set as. cell_at h' a = cell_at h a \<Longrightarrow> view h' t v = Some (r, as)"
  "view_fields h ts fs = Some rs \<Longrightarrow> \<forall>a \<in> set (concat (map snd rs)). cell_at h' a = cell_at h a \<Longrightarrow>
     view_fields h' ts fs = Some rs"
proof (induction h t v and h ts fs arbitrary: r as and rs rule: view_view_fields.induct)
  case (2 h ts fs)
  then show ?case unfolding view_struct by metis
next
  case (4 h t a)
  then show ?case unfolding view_ptr by (metis list.set_intros)
next
  case (6 h t a)
  then obtain vs rs where c: "cell_at h a = Some (CArr vs)" and rs: "all_some (map (view h t) vs) = Some rs"
    and r: "r = RList (map fst rs)" "as = a # concat (map snd rs)" unfolding view_slice by blast
  have "all_some (map (view h' t) vs) = Some rs"
  proof (rule all_some_map_cong [OF rs])
    fix x q assume "x \<in> set vs" "q \<in> set rs" "view h t x = Some q"
    with 6(1) [OF c refl, of x "fst q" "snd q"] 6(3) show "view h' t x = Some q" by (force simp: r)
  qed
  moreover have "cell_at h' a = Some (CArr vs)" using 6(3) c r by simp
  ultimately show ?case unfolding view_slice using r by blast
next
  case (8 h t a)
  then obtain kvs rs where c: "cell_at h a = Some (CMap kvs)"
    and rs: "all_some (map (\<lambda>kv. view h t (snd kv)) kvs) = Some rs"
    and r: "r = RMap (zip (map fst kvs) (map fst rs))" "as = a # concat (map snd rs)" unfolding view_map by blast
  have "all_some (map (\<lambda>kv. view h' t (snd kv)) kvs) = Some rs"
  proof (rule all_some_map_cong [OF rs])
    fix x q assume "x \<in> set kvs" "q \<in> set rs" "view h t (snd x) = Some q"
    with 8(1) [OF c refl, of x "fst q" "snd q"] 8(3) show "view h' t (snd x) = Some q" by (force simp: r)
  qed
  moreover have "cell_at h' a = Some (CMap kvs)" using 8(3) c r by simp
  ultimately show ?case unfolding view_map using r by blast
qed (auto split: option.splits if_splits)

lemma all_some_map_mem:
  "all_some (map g xs) = Some rs \<Longrightarrow> r \<in> set rs \<Longrightarrow> \<exists>x \<in> set xs. g x = Some r"
  by (induction xs arbitrary: rs) (auto simp: all_some_Cons)

lemma view_reach:
  "view h t v = Some (r, as) \<Longrightarrow> \<forall>a \<in> set as. a < length h"
  "view_fields h ts fs = Some rs \<Longrightarrow> \<forall>a \<in> set (concat (map snd rs)). a < length h"
proof (induction h t v and h ts fs arbitrary: r as and rs rule: view_view_fields.induct)
  case (2 h ts fs)
  then show ?case unfolding view_struct by metis
next
  case (4 h t a)
  then show ?case unfolding view_ptr cell_at_Some by (metis set_ConsD)
next
  case (6 h t a)
  then obtain vs rs where c: "cell_at h a = Some (CArr vs)" and rs: "all_some (map (view h t) vs) = Some rs"
    and as: "as = a # concat (map snd rs)" unfolding view_slice by blast
  have "b < length h" if "q \<in> set rs" "b \<in> set (snd q)" for q b
    using all_some_map_mem [OF rs that(1)] 6(1) [OF c refl, of _ "fst q" "snd q"] that by force
  with c show ?case by (auto simp: as cell_at_Some)
next
  case (8 h t a)
  then obtain kvs rs where c: "cell_at h a = Some (CMap kvs)"
    and rs: "all_some (map (\<lambda>kv. view h t (snd kv)) kvs) = Some rs"
    and as: "as = a # concat (map snd rs)" unfolding view_map by blast
  have "b < length h" if "q \<in> set rs" "b \<in> set (snd q)" for q b
    using all_some_map_mem [OF rs that(1)] 8(1) [OF c refl, of _ "fst q" "snd q"] that by force
  with c show ?case by (auto simp: as cell_at_Some)
qed (auto split: option.splits if_splits)

lemma cell_at_append: "a < length h \<Longrightarrow> cell_at (h @ ys) a = cell_at h a"
  by (simp add: cell_at_def nth_append)

lemma view_append: "view h t v = Some (r, as) \<Longrightarrow> view (h @ ys) t v = Some (r, as)"
  using view_cong(1) [of h t v r as "h @ ys"] view_reach(1) [of h t v r as] by (auto simp: cell_at_append)

lemma view_update: "view h t v = Some (r, as) \<Longrightarrow> a \<notin> set as \<Longrightarrow> view (h[a := c]) t v = Some (r, as)"
  by (erule view_cong(1)) (metis cell_at_def length_list_update nth_list_update_neq)

section \<open>Copies that share nothing\<close>

text \<open>A layout without pointers, slices and maps.\<close>

fun flat :: "layout \<Rightarrow> bool" where
  "flat TScal \<longleftrightarrow> True"
| "flat (TStruct ts) \<longleftrightarrow> (\<forall>nt \<in> set ts. flat (snd nt))"
| "flat _ \<longleftrightarrow> False"

lemma flat_reach:
  "view h t v = Some (r, as) \<Longrightarrow> flat t \<Longrightarrow> as = []"
  "view_fields h ts fs = Some rs \<Longrightarrow> \<forall>nt \<in> set ts. flat (snd nt) \<Longrightarrow> concat (map snd rs) = []"
proof (induction h t v and h ts fs arbitrary: r as and rs rule: view_view_fields.induct)
  case (2 h ts fs)
  then show ?case unfolding view_struct by auto
qed (auto split: option.splits if_splits)

text \<open>The new cells are appended, the copy reads as the value did, and it reaches new cells only, each
  of them once.\<close>

definition separate_copy :: "layout \<Rightarrow> store \<Rightarrow> readout \<Rightarrow> memval \<Rightarrow> store \<Rightarrow> bool" where
  "separate_copy t h r v' h' \<longleftrightarrow>
     (\<exists>ys as. h' = h @ ys \<and> view h' t v' = Some (r, as) \<and> distinct as \<and>
        (\<forall>a \<in> set as. length h \<le> a \<and> a < length h'))"

lemma new_cells_join:
  fixes as :: "nat list"
  assumes "distinct as" "\<forall>a \<in> set as. l \<le> a \<and> a < m" "distinct bs" "\<forall>a \<in> set bs. m \<le> a \<and> a < n" "l \<le> m" "m \<le> n"
  shows "distinct (as @ bs)" "\<forall>a \<in> set (as @ bs). l \<le> a \<and> a < n"
proof -
  have "x \<notin> set bs" if "x \<in> set as" for x using assms(2,4) that by (meson leD)
  then show "distinct (as @ bs)" using assms(1,3) by auto
  show "\<forall>a \<in> set (as @ bs). l \<le> a \<and> a < n" using assms by auto
qed

lemma separate_new_cell:
  assumes "h1 = h @ ys" and "distinct as" and "\<forall>a \<in> set as. length h \<le> a \<and> a < length h1"
    and "view (h1 @ [c]) t v' = Some (r, length h1 # as)"
  shows "separate_copy t h r v' (h1 @ [c])"
  unfolding separate_copy_def using assms(2-4)
  by (intro exI [of _ "ys @ [c]"] exI [of _ "length h1 # as"]) (auto simp: assms(1) less_Suc_eq simp del: view.simps)

locale deep_copier =
  fixes t :: layout and f :: copier
  assumes copies: "view h t v = Some (r, as) \<Longrightarrow> f v h = (v', h') \<Longrightarrow> separate_copy t h r v' h'"
begin

lemma sequence:
  "all_some (map (view h t) vs) = Some rs \<Longrightarrow> copy_seq f vs h = (vs', h') \<Longrightarrow>
    \<exists>ys ss. h' = h @ ys \<and> length vs' = length vs \<and> all_some (map (view h' t) vs') = Some ss \<and> map fst ss = map fst rs \<and>
      distinct (concat (map snd ss)) \<and> (\<forall>a \<in> set (concat (map snd ss)). length h \<le> a \<and> a < length h')"
proof (induction vs arbitrary: h rs vs' h')
  case (Cons v vs)
  then obtain q bs rs' where v: "view h t v = Some (q, bs)" and vs: "all_some (map (view h t) vs) = Some rs'"
    and rs: "rs = (q, bs) # rs'" by (auto simp: all_some_Cons)
  obtain v1 h1 where f: "f v h = (v1, h1)" by fastforce
  obtain vs1 where s: "copy_seq f vs h1 = (vs1, h')" and vs': "vs' = v1 # vs1"
    using Cons.prems(2) f by (auto split: prod.splits)
  obtain ys as where h1: "h1 = h @ ys" and v1: "view h1 t v1 = Some (q, as)"
    and as: "distinct as" "\<forall>a \<in> set as. length h \<le> a \<and> a < length h1"
    using copies [OF v f] by (auto simp: separate_copy_def)
  have "all_some (map (view h1 t) vs) = Some rs'"
    by (rule all_some_map_cong [OF vs]) (auto simp: h1 view_append)
  from Cons.IH [OF this s] obtain zs ss where h': "h' = h1 @ zs" and l: "length vs1 = length vs"
    and ss: "all_some (map (view h' t) vs1) = Some ss" "map fst ss = map fst rs'"
      "distinct (concat (map snd ss))" "\<forall>a \<in> set (concat (map snd ss)). length h1 \<le> a \<and> a < length h'" by blast
  have "view h' t v1 = Some (q, as)" using view_append [OF v1] by (simp add: h')
  then have "all_some (map (view h' t) vs') = Some ((q, as) # ss)" using ss(1) by (simp add: vs')
  moreover have "distinct (as @ concat (map snd ss))" "\<forall>a \<in> set (as @ concat (map snd ss)). length h \<le> a \<and> a < length h'"
    by (rule new_cells_join [OF as ss(3,4)]; simp add: h1 h')+
  ultimately show ?case using l ss(2) by (intro exI [of _ "ys @ zs"] exI [of _ "(q, as) # ss"]) (simp add: h1 h' vs' rs)
qed auto

text \<open>Pointers, slices and maps whose elements are copied by \<^term>\<open>f\<close>.\<close>

lemma pointer: "deep_copier (TPtr t) (copy_ptr f)"
proof
  fix h v r as v' h'
  assume v: "view h (TPtr t) v = Some (r, as)" and c: "copy_ptr f v h = (v', h')"
  show "separate_copy (TPtr t) h r v' h'"
  proof (cases "\<exists>a. v = MPtr (Some a)")
    case True
    then obtain a x q bs where a: "v = MPtr (Some a)" "cell_at h a = Some (CVal x)" "view h t x = Some (q, bs)" "r = RRef q"
      using v by (auto simp only: view_ptr)
    obtain x1 h1 where f: "f x h = (x1, h1)" by fastforce
    obtain ys as' where h1: "h1 = h @ ys" and x1: "view h1 t x1 = Some (q, as')" and as': "distinct as'" "\<forall>a \<in> set as'. length h \<le> a \<and> a < length h1"
      using copies [OF a(3) f] by (auto simp: separate_copy_def)
    have r: "v' = MPtr (Some (length h1))" "h' = h1 @ [CVal x1]" using c f by (simp_all add: copy_ptr_def a)
    have "view h' (TPtr t) v' = Some (r, length h1 # as')"
      using view_append [OF x1] by (simp only: view_ptr r) (simp add: cell_at_def a)
    then show ?thesis unfolding r(2) by (rule separate_new_cell [OF h1 as'])
  next
    case False
    with v have "v = MPtr None" by (cases v) auto
    with v c show ?thesis by (auto simp: separate_copy_def copy_ptr_def)
  qed
qed

lemma slice: "deep_copier (TSlice t) (copy_slice f)"
proof
  fix h v r as v' h'
  assume v: "view h (TSlice t) v = Some (r, as)" and c: "copy_slice f v h = (v', h')"
  show "separate_copy (TSlice t) h r v' h'"
  proof (cases "\<exists>a. v = MSlice (Some a)")
    case True
    then obtain a xs rs where a: "v = MSlice (Some a)" "cell_at h a = Some (CArr xs)"
        "all_some (map (view h t) xs) = Some rs" "r = RList (map fst rs)"
      using v by (auto simp only: view_slice)
    obtain xs1 h1 where f: "copy_seq f xs h = (xs1, h1)" by fastforce
    obtain ys ss where h1: "h1 = h @ ys" and x1: "all_some (map (view h1 t) xs1) = Some ss" "map fst ss = map fst rs"
      and n: "distinct (concat (map snd ss))" "\<forall>a \<in> set (concat (map snd ss)). length h \<le> a \<and> a < length h1"
      using sequence [OF a(3) f] by blast
    have r: "v' = MSlice (Some (length h1))" "h' = h1 @ [CArr xs1]" using c f by (simp_all add: copy_slice_def a)
    have "all_some (map (view h' t) xs1) = Some ss"
      by (rule all_some_map_cong [OF x1(1)]) (auto simp: r view_append)
    then have "view h' (TSlice t) v' = Some (r, length h1 # concat (map snd ss))"
      by (simp only: view_slice r) (simp add: cell_at_def a x1(2))
    then show ?thesis unfolding r(2) by (rule separate_new_cell [OF h1 n])
  next
    case False
    with v have "v = MSlice None" by (cases v) auto
    with v c show ?thesis by (auto simp: separate_copy_def copy_slice_def)
  qed
qed

lemma string_map: "deep_copier (TMap t) (copy_map f)"
proof
  fix h v r as v' h'
  assume v: "view h (TMap t) v = Some (r, as)" and c: "copy_map f v h = (v', h')"
  show "separate_copy (TMap t) h r v' h'"
  proof (cases "\<exists>a. v = MMap (Some a)")
    case True
    then obtain a kvs rs where a: "v = MMap (Some a)" "cell_at h a = Some (CMap kvs)"
        "all_some (map (\<lambda>kv. view h t (snd kv)) kvs) = Some rs" "r = RMap (zip (map fst kvs) (map fst rs))"
      using v by (auto simp only: view_map)
    obtain xs1 h1 where f: "copy_seq f (map snd kvs) h = (xs1, h1)" by fastforce
    have "all_some (map (view h t) (map snd kvs)) = Some rs" using a(3) by (simp add: comp_def)
    from sequence [OF this f] obtain ys ss where h1: "h1 = h @ ys" and l: "length xs1 = length kvs"
      and x1: "all_some (map (view h1 t) xs1) = Some ss" "map fst ss = map fst rs"
      and n: "distinct (concat (map snd ss))" "\<forall>a \<in> set (concat (map snd ss)). length h \<le> a \<and> a < length h1"
      by auto
    have r: "v' = MMap (Some (length h1))" "h' = h1 @ [CMap (zip (map fst kvs) xs1)]"
      using c f by (simp_all add: copy_map_def a)
    have "all_some (map (view h' t) xs1) = Some ss"
      by (rule all_some_map_cong [OF x1(1)]) (auto simp: r view_append)
    moreover have "map (\<lambda>kv. view h' t (snd kv)) (zip (map fst kvs) xs1) = map (view h' t) (map snd (zip (map fst kvs) xs1))"
      by simp
    ultimately have "all_some (map (\<lambda>kv. view h' t (snd kv)) (zip (map fst kvs) xs1)) = Some ss"
      by (simp only: map_snd_zip length_map l)
    then have "view h' (TMap t) v' = Some (r, length h1 # concat (map snd ss))"
      by (simp only: view_map r) (simp add: cell_at_def a x1(2) l)
    then show ?thesis unfolding r(2) by (rule separate_new_cell [OF h1 n])
  next
    case False
    with v have "v = MMap None" by (cases v) auto
    with v c show ?thesis by (auto simp: separate_copy_def copy_map_def)
  qed
qed

end

text \<open>An assignment is a deep copy of a flat layout only.\<close>

lemma plain_copier: "flat t \<Longrightarrow> deep_copier t copy_plain"
  by standard (auto simp: copy_plain_def separate_copy_def dest: flat_reach(1))

text \<open>A struct is copied deeply if every field is, by its own statement or because it is flat.\<close>

definition field_copied :: "(string \<times> copier) list \<Rightarrow> string \<times> layout \<Rightarrow> bool" where
  "field_copied cs nt \<longleftrightarrow> (case map_of cs (fst nt) of None \<Rightarrow> flat (snd nt) | Some f \<Rightarrow> deep_copier (snd nt) f)"

lemma field_separate:
  assumes "field_copied cs (n, t)" and "view h t v = Some (r, as)"
    and "(case map_of cs n of None \<Rightarrow> (v, h) | Some f \<Rightarrow> f v h) = (v', h')"
  shows "separate_copy t h r v' h'"
proof (cases "map_of cs n")
  case None
  with assms deep_copier.copies [OF plain_copier, of t h v r as v' h'] show ?thesis
    by (simp add: field_copied_def copy_plain_def)
next
  case (Some f)
  with assms deep_copier.copies [of t f h v r as v' h'] show ?thesis by (simp add: field_copied_def)
qed

lemma view_fields_append: "view_fields h ts fs = Some rs \<Longrightarrow> view_fields (h @ ys) ts fs = Some rs"
  using view_cong(2) [of h ts fs rs "h @ ys"] view_reach(2) [of h ts fs rs] cell_at_append by blast

lemma fields_separate:
  "list_all (field_copied cs) ts \<Longrightarrow> view_fields h ts fs = Some rs \<Longrightarrow> copy_fields cs fs h = (fs', h') \<Longrightarrow>
    \<exists>ys ss. h' = h @ ys \<and> view_fields h' ts fs' = Some ss \<and> map fst ss = map fst rs \<and>
      distinct (concat (map snd ss)) \<and> (\<forall>a \<in> set (concat (map snd ss)). length h \<le> a \<and> a < length h')"
proof (induction ts arbitrary: fs h rs fs' h')
  case Nil
  then show ?case by (cases fs) auto
next
  case (Cons nt ts)
  obtain n t where nt: "nt = (n, t)" by fastforce
  obtain v fs0 where fs: "fs = (n, v) # fs0"
    using Cons.prems(2) by (cases fs) (auto simp: nt split: prod.splits if_splits)
  obtain q bs rs' where v: "view h t v = Some (q, bs)" and vs: "view_fields h ts fs0 = Some rs'" and rs: "rs = (q, bs) # rs'"
    using Cons.prems(2) by (auto simp: nt fs view_fields_Cons simp del: view_fields.simps)
  obtain v1 h1 where f: "(case map_of cs n of None \<Rightarrow> (v, h) | Some f \<Rightarrow> f v h) = (v1, h1)" by fastforce
  obtain fs1 where s: "copy_fields cs fs0 h1 = (fs1, h')" and fs': "fs' = (n, v1) # fs1"
    using Cons.prems(3) f by (auto simp: fs split: prod.splits)
  obtain ys as where h1: "h1 = h @ ys" and v1: "view h1 t v1 = Some (q, as)"
    and as: "distinct as" "\<forall>a \<in> set as. length h \<le> a \<and> a < length h1"
    using field_separate [OF _ v f] Cons.prems(1) by (auto simp: separate_copy_def nt)
  have "view_fields h1 ts fs0 = Some rs'" using view_fields_append [OF vs] by (simp add: h1)
  from Cons.IH [OF _ this s] Cons.prems(1) obtain zs ss where h': "h' = h1 @ zs"
    and ss: "view_fields h' ts fs1 = Some ss" "map fst ss = map fst rs'"
      "distinct (concat (map snd ss))" "\<forall>a \<in> set (concat (map snd ss)). length h1 \<le> a \<and> a < length h'" by auto
  have "view h' t v1 = Some (q, as)" using view_append [OF v1] by (simp add: h')
  then have "view_fields h' (nt # ts) fs' = Some ((q, as) # ss)" using ss(1) by (simp add: fs' nt)
  moreover have "distinct (as @ concat (map snd ss))" "\<forall>a \<in> set (as @ concat (map snd ss)). length h \<le> a \<and> a < length h'"
    by (rule new_cells_join [OF as ss(3,4)]; simp add: h1 h')+
  ultimately show ?case using ss(2) by (intro exI [of _ "ys @ zs"] exI [of _ "(q, as) # ss"]) (simp add: h1 h' rs)
qed

lemma struct_copier:
  assumes "list_all (field_copied cs) ts"
  shows "deep_copier (TStruct ts) (copy_struct cs)"
proof
  fix h v r as v' h'
  assume v: "view h (TStruct ts) v = Some (r, as)" and c: "copy_struct cs v h = (v', h')"
  then obtain fs where fs: "v = MStruct fs" by (cases v) auto
  obtain rs where rs: "view_fields h ts fs = Some rs" "r = RStruct (zip (map fst ts) (map fst rs))"
    using v by (auto simp only: fs view_struct)
  obtain fs' where fs': "copy_fields cs fs h = (fs', h')" "v' = MStruct fs'"
    using c by (auto simp: fs copy_struct_def split: prod.splits)
  obtain ys ss where ss: "h' = h @ ys" "view_fields h' ts fs' = Some ss" "map fst ss = map fst rs"
      "distinct (concat (map snd ss))" "\<forall>a \<in> set (concat (map snd ss)). length h \<le> a \<and> a < length h'"
    using fields_separate [OF assms rs(1) fs'(1)] by blast
  then have "view h' (TStruct ts) v' = Some (r, concat (map snd ss))"
    by (simp only: fs'(2) view_struct) (auto simp: rs(2))
  with ss show "separate_copy (TStruct ts) h r v' h'" unfolding separate_copy_def by blast
qed

lemmas copier_rules = plain_copier deep_copier.pointer deep_copier.slice deep_copier.string_map struct_copier

text \<open>What a program does to the original is not seen through the copy, and conversely.\<close>

theorem deep_copier_independent:
  assumes "deep_copier t f" and "view h t v = Some (r, as)" and "f v h = (v', h')"
  shows "\<exists>bs. view h' t v' = Some (r, bs) \<and> distinct bs \<and> set as \<inter> set bs = {} \<and>
    (\<forall>b \<in> set bs. \<forall>c. view (h'[b := c]) t v = Some (r, as)) \<and>
    (\<forall>a \<in> set as. \<forall>c. view (h'[a := c]) t v' = Some (r, bs))"
proof -
  obtain ys bs where h': "h' = h @ ys" and v': "view h' t v' = Some (r, bs)" and d: "distinct bs"
    and b: "\<forall>b \<in> set bs. length h \<le> b"
    using deep_copier.copies [OF assms] by (auto simp: separate_copy_def)
  have v: "view h' t v = Some (r, as)" using view_append [OF assms(2)] by (simp add: h')
  have "set as \<inter> set bs = {}" using view_reach(1) [OF assms(2)] b by fastforce
  with v' d show ?thesis using view_update [OF v] view_update [OF v'] by blast
qed

end
