(* ===== verification/CrdCopies.thy ===== *)
theory CrdCopies
  imports DeepCopy
begin

text \<open>
  The deep copies of the custom resources, \<^verbatim>\<open>pkg/crd/v1alpha1/zz_generated.deepcopy.go\<close>: for each
  type its layout in memory (\<^verbatim>\<open>types.go\<close>, \<^verbatim>\<open>spec_gen.go\<close>), the statements of \<^verbatim>\<open>DeepCopyInto\<close> and the
  functions built on it. The types of the Kubernetes libraries and their own deep copies are a
  parameter; the hypothesis \<^verbatim>\<open>k8s_copies\<close> is what their documentation promises, for whatever memory
  their layouts describe.
\<close>

named_theorems copier

declare plain_copier [copier] deep_copier.pointer [copier] deep_copier.slice [copier] deep_copier.string_map [copier]

record k8s_types =
  k_ObjectMeta :: "layout \<times> copier"
  k_ListMeta :: "layout \<times> copier"
  k_LabelSelector :: "layout \<times> copier"
  k_ResourceRequirements :: "layout \<times> copier"
  k_Condition :: "layout \<times> copier"

definition k8s_copies :: "k8s_types \<Rightarrow> bool" where
  "k8s_copies k \<longleftrightarrow> (\<forall>tf \<in> {k_ObjectMeta k, k_ListMeta k, k_LabelSelector k, k_ResourceRequirements k, k_Condition k}.
     deep_copier (fst tf) (snd tf))"

lemma k8s_copies_parts [copier]:
  "k8s_copies k \<Longrightarrow> deep_copier (fst (k_ObjectMeta k)) (snd (k_ObjectMeta k))"
  "k8s_copies k \<Longrightarrow> deep_copier (fst (k_ListMeta k)) (snd (k_ListMeta k))"
  "k8s_copies k \<Longrightarrow> deep_copier (fst (k_LabelSelector k)) (snd (k_LabelSelector k))"
  "k8s_copies k \<Longrightarrow> deep_copier (fst (k_ResourceRequirements k)) (snd (k_ResourceRequirements k))"
  "k8s_copies k \<Longrightarrow> deep_copier (fst (k_Condition k)) (snd (k_Condition k))"
  by (simp_all add: k8s_copies_def)

section \<open>The types\<close>

definition AutoDiscoverSpec_layout :: "layout" where
  "AutoDiscoverSpec_layout = TStruct
     [(''Path'', TScal)]"

definition AutoDiscoverSpec_DeepCopyInto :: "copier" where
  "AutoDiscoverSpec_DeepCopyInto = copy_plain"

definition AutoDiscoverSpec_DeepCopy :: "copier" where
  "AutoDiscoverSpec_DeepCopy = copy_ptr AutoDiscoverSpec_DeepCopyInto"

lemma AutoDiscoverSpec_flat [copier]: "flat AutoDiscoverSpec_layout"
  by (simp add: AutoDiscoverSpec_layout_def copier)

lemma AutoDiscoverSpec_copier [copier]: "deep_copier AutoDiscoverSpec_layout AutoDiscoverSpec_DeepCopyInto"
  unfolding AutoDiscoverSpec_DeepCopyInto_def
  by (rule plain_copier) (simp add: field_copied_def copier)

definition SecretRef_layout :: "layout" where
  "SecretRef_layout = TStruct
     [(''Name'', TScal)]"

definition SecretRef_DeepCopyInto :: "copier" where
  "SecretRef_DeepCopyInto = copy_plain"

definition SecretRef_DeepCopy :: "copier" where
  "SecretRef_DeepCopy = copy_ptr SecretRef_DeepCopyInto"

lemma SecretRef_flat [copier]: "flat SecretRef_layout"
  by (simp add: SecretRef_layout_def copier)

lemma SecretRef_copier [copier]: "deep_copier SecretRef_layout SecretRef_DeepCopyInto"
  unfolding SecretRef_DeepCopyInto_def
  by (rule plain_copier) (simp add: field_copied_def copier)

definition BearerSpec_layout :: "layout" where
  "BearerSpec_layout = TStruct
     [(''SecretRef'', TPtr SecretRef_layout)]"

definition BearerSpec_DeepCopyInto :: "copier" where
  "BearerSpec_DeepCopyInto = copy_struct
     [(''SecretRef'', copy_ptr copy_plain)]"

definition BearerSpec_DeepCopy :: "copier" where
  "BearerSpec_DeepCopy = copy_ptr BearerSpec_DeepCopyInto"

lemma BearerSpec_copier [copier]: "deep_copier BearerSpec_layout BearerSpec_DeepCopyInto"
  unfolding BearerSpec_layout_def BearerSpec_DeepCopyInto_def
  by (rule struct_copier) (simp add: field_copied_def copier)

definition ConfigMapKeyRef_layout :: "layout" where
  "ConfigMapKeyRef_layout = TStruct
     [(''Name'', TScal),
      (''Key'', TScal)]"

definition ConfigMapKeyRef_DeepCopyInto :: "copier" where
  "ConfigMapKeyRef_DeepCopyInto = copy_plain"

definition ConfigMapKeyRef_DeepCopy :: "copier" where
  "ConfigMapKeyRef_DeepCopy = copy_ptr ConfigMapKeyRef_DeepCopyInto"

lemma ConfigMapKeyRef_flat [copier]: "flat ConfigMapKeyRef_layout"
  by (simp add: ConfigMapKeyRef_layout_def copier)

lemma ConfigMapKeyRef_copier [copier]: "deep_copier ConfigMapKeyRef_layout ConfigMapKeyRef_DeepCopyInto"
  unfolding ConfigMapKeyRef_DeepCopyInto_def
  by (rule plain_copier) (simp add: field_copied_def copier)

definition GatewayRefSpec_layout :: "layout" where
  "GatewayRefSpec_layout = TStruct
     [(''Name'', TScal),
      (''Namespace'', TScal),
      (''Hostname'', TScal)]"

definition GatewayRefSpec_DeepCopyInto :: "copier" where
  "GatewayRefSpec_DeepCopyInto = copy_plain"

definition GatewayRefSpec_DeepCopy :: "copier" where
  "GatewayRefSpec_DeepCopy = copy_ptr GatewayRefSpec_DeepCopyInto"

lemma GatewayRefSpec_flat [copier]: "flat GatewayRefSpec_layout"
  by (simp add: GatewayRefSpec_layout_def copier)

lemma GatewayRefSpec_copier [copier]: "deep_copier GatewayRefSpec_layout GatewayRefSpec_DeepCopyInto"
  unfolding GatewayRefSpec_DeepCopyInto_def
  by (rule plain_copier) (simp add: field_copied_def copier)

definition JWTAuthSpec_layout :: "layout" where
  "JWTAuthSpec_layout = TStruct
     [(''Issuer'', TScal),
      (''Audience'', TScal),
      (''JWKSURL'', TScal)]"

definition JWTAuthSpec_DeepCopyInto :: "copier" where
  "JWTAuthSpec_DeepCopyInto = copy_plain"

definition JWTAuthSpec_DeepCopy :: "copier" where
  "JWTAuthSpec_DeepCopy = copy_ptr JWTAuthSpec_DeepCopyInto"

lemma JWTAuthSpec_flat [copier]: "flat JWTAuthSpec_layout"
  by (simp add: JWTAuthSpec_layout_def copier)

lemma JWTAuthSpec_copier [copier]: "deep_copier JWTAuthSpec_layout JWTAuthSpec_DeepCopyInto"
  unfolding JWTAuthSpec_DeepCopyInto_def
  by (rule plain_copier) (simp add: field_copied_def copier)

definition NamespaceSelectorSpec_layout :: "layout" where
  "NamespaceSelectorSpec_layout = TStruct
     [(''MatchNames'', TSlice TScal)]"

definition NamespaceSelectorSpec_DeepCopyInto :: "copier" where
  "NamespaceSelectorSpec_DeepCopyInto = copy_struct
     [(''MatchNames'', copy_slice copy_plain)]"

definition NamespaceSelectorSpec_DeepCopy :: "copier" where
  "NamespaceSelectorSpec_DeepCopy = copy_ptr NamespaceSelectorSpec_DeepCopyInto"

lemma NamespaceSelectorSpec_copier [copier]: "deep_copier NamespaceSelectorSpec_layout NamespaceSelectorSpec_DeepCopyInto"
  unfolding NamespaceSelectorSpec_layout_def NamespaceSelectorSpec_DeepCopyInto_def
  by (rule struct_copier) (simp add: field_copied_def copier)

definition ServiceDiscoveryNamespaceSelector_layout :: "layout" where
  "ServiceDiscoveryNamespaceSelector_layout = TStruct
     [(''MatchNames'', TSlice TScal),
      (''MatchLabels'', TMap TScal)]"

definition ServiceDiscoveryNamespaceSelector_DeepCopyInto :: "copier" where
  "ServiceDiscoveryNamespaceSelector_DeepCopyInto = copy_struct
     [(''MatchNames'', copy_slice copy_plain),
      (''MatchLabels'', copy_map copy_plain)]"

definition ServiceDiscoveryNamespaceSelector_DeepCopy :: "copier" where
  "ServiceDiscoveryNamespaceSelector_DeepCopy = copy_ptr ServiceDiscoveryNamespaceSelector_DeepCopyInto"

lemma ServiceDiscoveryNamespaceSelector_copier [copier]: "deep_copier ServiceDiscoveryNamespaceSelector_layout ServiceDiscoveryNamespaceSelector_DeepCopyInto"
  unfolding ServiceDiscoveryNamespaceSelector_layout_def ServiceDiscoveryNamespaceSelector_DeepCopyInto_def
  by (rule struct_copier) (simp add: field_copied_def copier)

definition ServiceDiscoverySpec_layout :: "layout" where
  "ServiceDiscoverySpec_layout = TStruct
     [(''Enabled'', TScal),
      (''NamespaceSelector'', TPtr ServiceDiscoveryNamespaceSelector_layout)]"

definition ServiceDiscoverySpec_DeepCopyInto :: "copier" where
  "ServiceDiscoverySpec_DeepCopyInto = copy_struct
     [(''NamespaceSelector'', copy_ptr ServiceDiscoveryNamespaceSelector_DeepCopyInto)]"

definition ServiceDiscoverySpec_DeepCopy :: "copier" where
  "ServiceDiscoverySpec_DeepCopy = copy_ptr ServiceDiscoverySpec_DeepCopyInto"

lemma ServiceDiscoverySpec_copier [copier]: "deep_copier ServiceDiscoverySpec_layout ServiceDiscoverySpec_DeepCopyInto"
  unfolding ServiceDiscoverySpec_layout_def ServiceDiscoverySpec_DeepCopyInto_def
  by (rule struct_copier) (simp add: field_copied_def copier)

definition ProxyTLSSpec_layout :: "layout" where
  "ProxyTLSSpec_layout = TStruct
     [(''SecretName'', TScal)]"

definition ProxyTLSSpec_DeepCopyInto :: "copier" where
  "ProxyTLSSpec_DeepCopyInto = copy_plain"

definition ProxyTLSSpec_DeepCopy :: "copier" where
  "ProxyTLSSpec_DeepCopy = copy_ptr ProxyTLSSpec_DeepCopyInto"

lemma ProxyTLSSpec_flat [copier]: "flat ProxyTLSSpec_layout"
  by (simp add: ProxyTLSSpec_layout_def copier)

lemma ProxyTLSSpec_copier [copier]: "deep_copier ProxyTLSSpec_layout ProxyTLSSpec_DeepCopyInto"
  unfolding ProxyTLSSpec_DeepCopyInto_def
  by (rule plain_copier) (simp add: field_copied_def copier)

definition ProxyServerSpec_layout :: "layout" where
  "ProxyServerSpec_layout = TStruct
     [(''Port'', TScal),
      (''Transport'', TSlice TScal),
      (''TLS'', TPtr ProxyTLSSpec_layout)]"

definition ProxyServerSpec_DeepCopyInto :: "copier" where
  "ProxyServerSpec_DeepCopyInto = copy_struct
     [(''Transport'', copy_slice copy_plain),
      (''TLS'', copy_ptr copy_plain)]"

definition ProxyServerSpec_DeepCopy :: "copier" where
  "ProxyServerSpec_DeepCopy = copy_ptr ProxyServerSpec_DeepCopyInto"

lemma ProxyServerSpec_copier [copier]: "deep_copier ProxyServerSpec_layout ProxyServerSpec_DeepCopyInto"
  unfolding ProxyServerSpec_layout_def ProxyServerSpec_DeepCopyInto_def
  by (rule struct_copier) (simp add: field_copied_def copier)

definition ProxySlugRulesSpec_layout :: "layout" where
  "ProxySlugRulesSpec_layout = TStruct
     [(''ReplaceSlashes'', TScal),
      (''ReplaceBraces'', TScal),
      (''ExpandCamelCase'', TScal),
      (''Lowercase'', TScal),
      (''CollapseSeparators'', TScal)]"

definition ProxySlugRulesSpec_DeepCopyInto :: "copier" where
  "ProxySlugRulesSpec_DeepCopyInto = copy_plain"

definition ProxySlugRulesSpec_DeepCopy :: "copier" where
  "ProxySlugRulesSpec_DeepCopy = copy_ptr ProxySlugRulesSpec_DeepCopyInto"

lemma ProxySlugRulesSpec_flat [copier]: "flat ProxySlugRulesSpec_layout"
  by (simp add: ProxySlugRulesSpec_layout_def copier)

lemma ProxySlugRulesSpec_copier [copier]: "deep_copier ProxySlugRulesSpec_layout ProxySlugRulesSpec_DeepCopyInto"
  unfolding ProxySlugRulesSpec_DeepCopyInto_def
  by (rule plain_copier) (simp add: field_copied_def copier)

definition ProxyNamingSpec_layout :: "layout" where
  "ProxyNamingSpec_layout = TStruct
     [(''Separator'', TScal),
      (''MaxLength'', TScal),
      (''ConflictResolution'', TScal),
      (''DescriptionMaxLength'', TScal),
      (''DescriptionTruncationSuffix'', TScal),
      (''DefaultSlugRules'', ProxySlugRulesSpec_layout)]"

definition ProxyNamingSpec_DeepCopyInto :: "copier" where
  "ProxyNamingSpec_DeepCopyInto = copy_struct
     [(''DefaultSlugRules'', copy_plain)]"

definition ProxyNamingSpec_DeepCopy :: "copier" where
  "ProxyNamingSpec_DeepCopy = copy_ptr ProxyNamingSpec_DeepCopyInto"

lemma ProxyNamingSpec_flat [copier]: "flat ProxyNamingSpec_layout"
  by (simp add: ProxyNamingSpec_layout_def copier)

lemma ProxyNamingSpec_copier [copier]: "deep_copier ProxyNamingSpec_layout ProxyNamingSpec_DeepCopyInto"
  unfolding ProxyNamingSpec_layout_def ProxyNamingSpec_DeepCopyInto_def
  by (rule struct_copier) (simp add: field_copied_def copier)

definition ProxyInboundAuthSpec_layout :: "layout" where
  "ProxyInboundAuthSpec_layout = TStruct
     [(''Strategy'', TScal),
      (''JWT'', TPtr JWTAuthSpec_layout)]"

definition ProxyInboundAuthSpec_DeepCopyInto :: "copier" where
  "ProxyInboundAuthSpec_DeepCopyInto = copy_struct
     [(''JWT'', copy_ptr copy_plain)]"

definition ProxyInboundAuthSpec_DeepCopy :: "copier" where
  "ProxyInboundAuthSpec_DeepCopy = copy_ptr ProxyInboundAuthSpec_DeepCopyInto"

lemma ProxyInboundAuthSpec_copier [copier]: "deep_copier ProxyInboundAuthSpec_layout ProxyInboundAuthSpec_DeepCopyInto"
  unfolding ProxyInboundAuthSpec_layout_def ProxyInboundAuthSpec_DeepCopyInto_def
  by (rule struct_copier) (simp add: field_copied_def copier)

definition ProxyTelemetrySpec_layout :: "layout" where
  "ProxyTelemetrySpec_layout = TStruct
     [(''ServiceName'', TScal),
      (''ServiceVersion'', TScal),
      (''OTLPEndpoint'', TScal),
      (''Insecure'', TScal)]"

definition ProxyTelemetrySpec_DeepCopyInto :: "copier" where
  "ProxyTelemetrySpec_DeepCopyInto = copy_plain"

definition ProxyTelemetrySpec_DeepCopy :: "copier" where
  "ProxyTelemetrySpec_DeepCopy = copy_ptr ProxyTelemetrySpec_DeepCopyInto"

lemma ProxyTelemetrySpec_flat [copier]: "flat ProxyTelemetrySpec_layout"
  by (simp add: ProxyTelemetrySpec_layout_def copier)

lemma ProxyTelemetrySpec_copier [copier]: "deep_copier ProxyTelemetrySpec_layout ProxyTelemetrySpec_DeepCopyInto"
  unfolding ProxyTelemetrySpec_DeepCopyInto_def
  by (rule plain_copier) (simp add: field_copied_def copier)

definition MCPProxyRateLimitPolicySpec_layout :: "layout" where
  "MCPProxyRateLimitPolicySpec_layout = TStruct
     [(''Average'', TScal),
      (''Period'', TScal),
      (''Burst'', TScal),
      (''Source'', TScal)]"

definition MCPProxyRateLimitPolicySpec_DeepCopyInto :: "copier" where
  "MCPProxyRateLimitPolicySpec_DeepCopyInto = copy_plain"

definition MCPProxyRateLimitPolicySpec_DeepCopy :: "copier" where
  "MCPProxyRateLimitPolicySpec_DeepCopy = copy_ptr MCPProxyRateLimitPolicySpec_DeepCopyInto"

lemma MCPProxyRateLimitPolicySpec_flat [copier]: "flat MCPProxyRateLimitPolicySpec_layout"
  by (simp add: MCPProxyRateLimitPolicySpec_layout_def copier)

lemma MCPProxyRateLimitPolicySpec_copier [copier]: "deep_copier MCPProxyRateLimitPolicySpec_layout MCPProxyRateLimitPolicySpec_DeepCopyInto"
  unfolding MCPProxyRateLimitPolicySpec_DeepCopyInto_def
  by (rule plain_copier) (simp add: field_copied_def copier)

definition MCPProxyRateLimitsSpec_layout :: "layout" where
  "MCPProxyRateLimitsSpec_layout = TStruct
     [(''Policies'', TMap MCPProxyRateLimitPolicySpec_layout)]"

definition MCPProxyRateLimitsSpec_DeepCopyInto :: "copier" where
  "MCPProxyRateLimitsSpec_DeepCopyInto = copy_struct
     [(''Policies'', copy_map copy_plain)]"

definition MCPProxyRateLimitsSpec_DeepCopy :: "copier" where
  "MCPProxyRateLimitsSpec_DeepCopy = copy_ptr MCPProxyRateLimitsSpec_DeepCopyInto"

lemma MCPProxyRateLimitsSpec_copier [copier]: "deep_copier MCPProxyRateLimitsSpec_layout MCPProxyRateLimitsSpec_DeepCopyInto"
  unfolding MCPProxyRateLimitsSpec_layout_def MCPProxyRateLimitsSpec_DeepCopyInto_def
  by (rule struct_copier) (simp add: field_copied_def copier)

definition MCPProxySpec_layout :: "k8s_types \<Rightarrow> layout" where
  "MCPProxySpec_layout k = TStruct
     [(''UpstreamSelector'', fst (k_LabelSelector k)),
      (''NamespaceSelector'', NamespaceSelectorSpec_layout),
      (''ServiceDiscovery'', TPtr ServiceDiscoverySpec_layout),
      (''Replicas'', TPtr TScal),
      (''Image'', TScal),
      (''Resources'', fst (k_ResourceRequirements k)),
      (''Server'', ProxyServerSpec_layout),
      (''Naming'', ProxyNamingSpec_layout),
      (''InboundAuth'', TPtr ProxyInboundAuthSpec_layout),
      (''Telemetry'', TPtr ProxyTelemetrySpec_layout),
      (''GatewayRef'', TPtr GatewayRefSpec_layout),
      (''RateLimits'', TPtr MCPProxyRateLimitsSpec_layout)]"

definition MCPProxySpec_DeepCopyInto :: "k8s_types \<Rightarrow> copier" where
  "MCPProxySpec_DeepCopyInto k = copy_struct
     [(''UpstreamSelector'', snd (k_LabelSelector k)),
      (''NamespaceSelector'', NamespaceSelectorSpec_DeepCopyInto),
      (''ServiceDiscovery'', copy_ptr ServiceDiscoverySpec_DeepCopyInto),
      (''Replicas'', copy_ptr copy_plain),
      (''Resources'', snd (k_ResourceRequirements k)),
      (''Server'', ProxyServerSpec_DeepCopyInto),
      (''Naming'', copy_plain),
      (''InboundAuth'', copy_ptr ProxyInboundAuthSpec_DeepCopyInto),
      (''Telemetry'', copy_ptr copy_plain),
      (''GatewayRef'', copy_ptr copy_plain),
      (''RateLimits'', copy_ptr MCPProxyRateLimitsSpec_DeepCopyInto)]"

definition MCPProxySpec_DeepCopy :: "k8s_types \<Rightarrow> copier" where
  "MCPProxySpec_DeepCopy k = copy_ptr (MCPProxySpec_DeepCopyInto k)"

lemma MCPProxySpec_copier [copier]:
  assumes "k8s_copies k"
  shows "deep_copier (MCPProxySpec_layout k) (MCPProxySpec_DeepCopyInto k)"
  unfolding MCPProxySpec_layout_def MCPProxySpec_DeepCopyInto_def
  by (rule struct_copier) (simp add: field_copied_def copier assms)

definition MCPProxyStatus_layout :: "k8s_types \<Rightarrow> layout" where
  "MCPProxyStatus_layout k = TStruct
     [(''Conditions'', TSlice (fst (k_Condition k))),
      (''UpstreamCount'', TScal),
      (''AnnotatedServiceCount'', TScal),
      (''ToolCount'', TScal),
      (''ObservedGeneration'', TScal)]"

definition MCPProxyStatus_DeepCopyInto :: "k8s_types \<Rightarrow> copier" where
  "MCPProxyStatus_DeepCopyInto k = copy_struct
     [(''Conditions'', copy_slice (snd (k_Condition k)))]"

definition MCPProxyStatus_DeepCopy :: "k8s_types \<Rightarrow> copier" where
  "MCPProxyStatus_DeepCopy k = copy_ptr (MCPProxyStatus_DeepCopyInto k)"

lemma MCPProxyStatus_copier [copier]:
  assumes "k8s_copies k"
  shows "deep_copier (MCPProxyStatus_layout k) (MCPProxyStatus_DeepCopyInto k)"
  unfolding MCPProxyStatus_layout_def MCPProxyStatus_DeepCopyInto_def
  by (rule struct_copier) (simp add: field_copied_def copier assms)

definition MCPProxy_layout :: "k8s_types \<Rightarrow> layout" where
  "MCPProxy_layout k = TStruct
     [(''TypeMeta'', TStruct [(''Kind'', TScal), (''APIVersion'', TScal)]),
      (''ObjectMeta'', fst (k_ObjectMeta k)),
      (''Spec'', MCPProxySpec_layout k),
      (''Status'', MCPProxyStatus_layout k)]"

definition MCPProxy_DeepCopyInto :: "k8s_types \<Rightarrow> copier" where
  "MCPProxy_DeepCopyInto k = copy_struct
     [(''TypeMeta'', copy_plain),
      (''ObjectMeta'', snd (k_ObjectMeta k)),
      (''Spec'', MCPProxySpec_DeepCopyInto k),
      (''Status'', MCPProxyStatus_DeepCopyInto k)]"

definition MCPProxy_DeepCopy :: "k8s_types \<Rightarrow> copier" where
  "MCPProxy_DeepCopy k = copy_ptr (MCPProxy_DeepCopyInto k)"

definition MCPProxy_DeepCopyObject :: "k8s_types \<Rightarrow> memval \<Rightarrow> store \<Rightarrow> memval option \<times> store" where
  "MCPProxy_DeepCopyObject k = copy_object (MCPProxy_DeepCopy k)"

lemma MCPProxy_copier [copier]:
  assumes "k8s_copies k"
  shows "deep_copier (MCPProxy_layout k) (MCPProxy_DeepCopyInto k)"
  unfolding MCPProxy_layout_def MCPProxy_DeepCopyInto_def
  by (rule struct_copier) (simp add: field_copied_def copier assms)

definition MCPProxyList_layout :: "k8s_types \<Rightarrow> layout" where
  "MCPProxyList_layout k = TStruct
     [(''TypeMeta'', TStruct [(''Kind'', TScal), (''APIVersion'', TScal)]),
      (''ListMeta'', fst (k_ListMeta k)),
      (''Items'', TSlice (MCPProxy_layout k))]"

definition MCPProxyList_DeepCopyInto :: "k8s_types \<Rightarrow> copier" where
  "MCPProxyList_DeepCopyInto k = copy_struct
     [(''TypeMeta'', copy_plain),
      (''ListMeta'', snd (k_ListMeta k)),
      (''Items'', copy_slice (MCPProxy_DeepCopyInto k))]"

definition MCPProxyList_DeepCopy :: "k8s_types \<Rightarrow> copier" where
  "MCPProxyList_DeepCopy k = copy_ptr (MCPProxyList_DeepCopyInto k)"

definition MCPProxyList_DeepCopyObject :: "k8s_types \<Rightarrow> memval \<Rightarrow> store \<Rightarrow> memval option \<times> store" where
  "MCPProxyList_DeepCopyObject k = copy_object (MCPProxyList_DeepCopy k)"

lemma MCPProxyList_copier [copier]:
  assumes "k8s_copies k"
  shows "deep_copier (MCPProxyList_layout k) (MCPProxyList_DeepCopyInto k)"
  unfolding MCPProxyList_layout_def MCPProxyList_DeepCopyInto_def
  by (rule struct_copier) (simp add: field_copied_def copier assms)

definition ServiceRefSpec_layout :: "layout" where
  "ServiceRefSpec_layout = TStruct
     [(''Name'', TScal),
      (''Port'', TScal)]"

definition ServiceRefSpec_DeepCopyInto :: "copier" where
  "ServiceRefSpec_DeepCopyInto = copy_plain"

definition ServiceRefSpec_DeepCopy :: "copier" where
  "ServiceRefSpec_DeepCopy = copy_ptr ServiceRefSpec_DeepCopyInto"

lemma ServiceRefSpec_flat [copier]: "flat ServiceRefSpec_layout"
  by (simp add: ServiceRefSpec_layout_def copier)

lemma ServiceRefSpec_copier [copier]: "deep_copier ServiceRefSpec_layout ServiceRefSpec_DeepCopyInto"
  unfolding ServiceRefSpec_DeepCopyInto_def
  by (rule plain_copier) (simp add: field_copied_def copier)

definition MCPUpstreamOpenAPISpec_layout :: "layout" where
  "MCPUpstreamOpenAPISpec_layout = TStruct
     [(''ConfigMapRef'', TPtr ConfigMapKeyRef_layout),
      (''URL'', TScal),
      (''AutoDiscover'', TPtr AutoDiscoverSpec_layout)]"

definition MCPUpstreamOpenAPISpec_DeepCopyInto :: "copier" where
  "MCPUpstreamOpenAPISpec_DeepCopyInto = copy_struct
     [(''ConfigMapRef'', copy_ptr copy_plain),
      (''AutoDiscover'', copy_ptr copy_plain)]"

definition MCPUpstreamOpenAPISpec_DeepCopy :: "copier" where
  "MCPUpstreamOpenAPISpec_DeepCopy = copy_ptr MCPUpstreamOpenAPISpec_DeepCopyInto"

lemma MCPUpstreamOpenAPISpec_copier [copier]: "deep_copier MCPUpstreamOpenAPISpec_layout MCPUpstreamOpenAPISpec_DeepCopyInto"
  unfolding MCPUpstreamOpenAPISpec_layout_def MCPUpstreamOpenAPISpec_DeepCopyInto_def
  by (rule struct_copier) (simp add: field_copied_def copier)

definition MCPUpstreamOverlaySpec_layout :: "layout" where
  "MCPUpstreamOverlaySpec_layout = TStruct
     [(''ConfigMapRef'', TPtr ConfigMapKeyRef_layout)]"

definition MCPUpstreamOverlaySpec_DeepCopyInto :: "copier" where
  "MCPUpstreamOverlaySpec_DeepCopyInto = copy_struct
     [(''ConfigMapRef'', copy_ptr copy_plain)]"

definition MCPUpstreamOverlaySpec_DeepCopy :: "copier" where
  "MCPUpstreamOverlaySpec_DeepCopy = copy_ptr MCPUpstreamOverlaySpec_DeepCopyInto"

lemma MCPUpstreamOverlaySpec_copier [copier]: "deep_copier MCPUpstreamOverlaySpec_layout MCPUpstreamOverlaySpec_DeepCopyInto"
  unfolding MCPUpstreamOverlaySpec_layout_def MCPUpstreamOverlaySpec_DeepCopyInto_def
  by (rule struct_copier) (simp add: field_copied_def copier)

definition OAuth2Spec_layout :: "layout" where
  "OAuth2Spec_layout = TStruct
     [(''TokenURL'', TScal),
      (''SecretRef'', TPtr SecretRef_layout)]"

definition OAuth2Spec_DeepCopyInto :: "copier" where
  "OAuth2Spec_DeepCopyInto = copy_struct
     [(''SecretRef'', copy_ptr copy_plain)]"

definition OAuth2Spec_DeepCopy :: "copier" where
  "OAuth2Spec_DeepCopy = copy_ptr OAuth2Spec_DeepCopyInto"

lemma OAuth2Spec_copier [copier]: "deep_copier OAuth2Spec_layout OAuth2Spec_DeepCopyInto"
  unfolding OAuth2Spec_layout_def OAuth2Spec_DeepCopyInto_def
  by (rule struct_copier) (simp add: field_copied_def copier)

definition MCPUpstreamOutboundAuthSpec_layout :: "layout" where
  "MCPUpstreamOutboundAuthSpec_layout = TStruct
     [(''Strategy'', TScal),
      (''Bearer'', TPtr BearerSpec_layout),
      (''OAuth2'', TPtr OAuth2Spec_layout)]"

definition MCPUpstreamOutboundAuthSpec_DeepCopyInto :: "copier" where
  "MCPUpstreamOutboundAuthSpec_DeepCopyInto = copy_struct
     [(''Bearer'', copy_ptr BearerSpec_DeepCopyInto),
      (''OAuth2'', copy_ptr OAuth2Spec_DeepCopyInto)]"

definition MCPUpstreamOutboundAuthSpec_DeepCopy :: "copier" where
  "MCPUpstreamOutboundAuthSpec_DeepCopy = copy_ptr MCPUpstreamOutboundAuthSpec_DeepCopyInto"

lemma MCPUpstreamOutboundAuthSpec_copier [copier]: "deep_copier MCPUpstreamOutboundAuthSpec_layout MCPUpstreamOutboundAuthSpec_DeepCopyInto"
  unfolding MCPUpstreamOutboundAuthSpec_layout_def MCPUpstreamOutboundAuthSpec_DeepCopyInto_def
  by (rule struct_copier) (simp add: field_copied_def copier)

definition UpstreamTLSSpec_layout :: "layout" where
  "UpstreamTLSSpec_layout = TStruct
     [(''SecretName'', TScal)]"

definition UpstreamTLSSpec_DeepCopyInto :: "copier" where
  "UpstreamTLSSpec_DeepCopyInto = copy_plain"

definition UpstreamTLSSpec_DeepCopy :: "copier" where
  "UpstreamTLSSpec_DeepCopy = copy_ptr UpstreamTLSSpec_DeepCopyInto"

lemma UpstreamTLSSpec_flat [copier]: "flat UpstreamTLSSpec_layout"
  by (simp add: UpstreamTLSSpec_layout_def copier)

lemma UpstreamTLSSpec_copier [copier]: "deep_copier UpstreamTLSSpec_layout UpstreamTLSSpec_DeepCopyInto"
  unfolding UpstreamTLSSpec_DeepCopyInto_def
  by (rule plain_copier) (simp add: field_copied_def copier)

definition MCPUpstreamTransportSpec_layout :: "layout" where
  "MCPUpstreamTransportSpec_layout = TStruct
     [(''MaxIdleConns'', TScal),
      (''MaxIdleConnsPerHost'', TScal),
      (''TLS'', TPtr UpstreamTLSSpec_layout)]"

definition MCPUpstreamTransportSpec_DeepCopyInto :: "copier" where
  "MCPUpstreamTransportSpec_DeepCopyInto = copy_struct
     [(''TLS'', copy_ptr copy_plain)]"

definition MCPUpstreamTransportSpec_DeepCopy :: "copier" where
  "MCPUpstreamTransportSpec_DeepCopy = copy_ptr MCPUpstreamTransportSpec_DeepCopyInto"

lemma MCPUpstreamTransportSpec_copier [copier]: "deep_copier MCPUpstreamTransportSpec_layout MCPUpstreamTransportSpec_DeepCopyInto"
  unfolding MCPUpstreamTransportSpec_layout_def MCPUpstreamTransportSpec_DeepCopyInto_def
  by (rule struct_copier) (simp add: field_copied_def copier)

definition MCPUpstreamValidationSpec_layout :: "layout" where
  "MCPUpstreamValidationSpec_layout = TStruct
     [(''ValidateRequest'', TScal),
      (''ValidateResponse'', TScal),
      (''ResponseValidationFailure'', TScal),
      (''SuccessStatus'', TSlice TScal),
      (''ErrorStatus'', TSlice TScal)]"

definition MCPUpstreamValidationSpec_DeepCopyInto :: "copier" where
  "MCPUpstreamValidationSpec_DeepCopyInto = copy_struct
     [(''SuccessStatus'', copy_slice copy_plain),
      (''ErrorStatus'', copy_slice copy_plain)]"

definition MCPUpstreamValidationSpec_DeepCopy :: "copier" where
  "MCPUpstreamValidationSpec_DeepCopy = copy_ptr MCPUpstreamValidationSpec_DeepCopyInto"

lemma MCPUpstreamValidationSpec_copier [copier]: "deep_copier MCPUpstreamValidationSpec_layout MCPUpstreamValidationSpec_DeepCopyInto"
  unfolding MCPUpstreamValidationSpec_layout_def MCPUpstreamValidationSpec_DeepCopyInto_def
  by (rule struct_copier) (simp add: field_copied_def copier)

definition MCPUpstreamCommandSchemaProperty_layout :: "layout" where
  "MCPUpstreamCommandSchemaProperty_layout = TStruct
     [(''Type'', TScal),
      (''Description'', TScal)]"

definition MCPUpstreamCommandSchemaProperty_DeepCopyInto :: "copier" where
  "MCPUpstreamCommandSchemaProperty_DeepCopyInto = copy_plain"

definition MCPUpstreamCommandSchemaProperty_DeepCopy :: "copier" where
  "MCPUpstreamCommandSchemaProperty_DeepCopy = copy_ptr MCPUpstreamCommandSchemaProperty_DeepCopyInto"

lemma MCPUpstreamCommandSchemaProperty_flat [copier]: "flat MCPUpstreamCommandSchemaProperty_layout"
  by (simp add: MCPUpstreamCommandSchemaProperty_layout_def copier)

lemma MCPUpstreamCommandSchemaProperty_copier [copier]: "deep_copier MCPUpstreamCommandSchemaProperty_layout MCPUpstreamCommandSchemaProperty_DeepCopyInto"
  unfolding MCPUpstreamCommandSchemaProperty_DeepCopyInto_def
  by (rule plain_copier) (simp add: field_copied_def copier)

definition MCPUpstreamCommandInputSchema_layout :: "layout" where
  "MCPUpstreamCommandInputSchema_layout = TStruct
     [(''Type'', TScal),
      (''Properties'', TMap MCPUpstreamCommandSchemaProperty_layout),
      (''Required'', TSlice TScal)]"

definition MCPUpstreamCommandInputSchema_DeepCopyInto :: "copier" where
  "MCPUpstreamCommandInputSchema_DeepCopyInto = copy_struct
     [(''Properties'', copy_map copy_plain),
      (''Required'', copy_slice copy_plain)]"

definition MCPUpstreamCommandInputSchema_DeepCopy :: "copier" where
  "MCPUpstreamCommandInputSchema_DeepCopy = copy_ptr MCPUpstreamCommandInputSchema_DeepCopyInto"

lemma MCPUpstreamCommandInputSchema_copier [copier]: "deep_copier MCPUpstreamCommandInputSchema_layout MCPUpstreamCommandInputSchema_DeepCopyInto"
  unfolding MCPUpstreamCommandInputSchema_layout_def MCPUpstreamCommandInputSchema_DeepCopyInto_def
  by (rule struct_copier) (simp add: field_copied_def copier)

definition MCPUpstreamCommandSpec_layout :: "layout" where
  "MCPUpstreamCommandSpec_layout = TStruct
     [(''ToolName'', TScal),
      (''Description'', TScal),
      (''Command'', TScal),
      (''InputSchema'', MCPUpstreamCommandInputSchema_layout),
      (''Timeout'', TScal),
      (''Env'', TMap TScal),
      (''WorkingDir'', TScal),
      (''Shell'', TScal),
      (''MaxOutput'', TScal)]"

definition MCPUpstreamCommandSpec_DeepCopyInto :: "copier" where
  "MCPUpstreamCommandSpec_DeepCopyInto = copy_struct
     [(''InputSchema'', MCPUpstreamCommandInputSchema_DeepCopyInto),
      (''Env'', copy_map copy_plain)]"

definition MCPUpstreamCommandSpec_DeepCopy :: "copier" where
  "MCPUpstreamCommandSpec_DeepCopy = copy_ptr MCPUpstreamCommandSpec_DeepCopyInto"

lemma MCPUpstreamCommandSpec_copier [copier]: "deep_copier MCPUpstreamCommandSpec_layout MCPUpstreamCommandSpec_DeepCopyInto"
  unfolding MCPUpstreamCommandSpec_layout_def MCPUpstreamCommandSpec_DeepCopyInto_def
  by (rule struct_copier) (simp add: field_copied_def copier)

definition MCPUpstreamSpec_layout :: "layout" where
  "MCPUpstreamSpec_layout = TStruct
     [(''Type'', TScal),
      (''ToolPrefix'', TScal),
      (''ServiceRef'', TPtr ServiceRefSpec_layout),
      (''BaseURL'', TScal),
      (''OpenAPI'', MCPUpstreamOpenAPISpec_layout),
      (''Overlay'', TPtr MCPUpstreamOverlaySpec_layout),
      (''OutboundAuth'', TPtr MCPUpstreamOutboundAuthSpec_layout),
      (''Transport'', TPtr MCPUpstreamTransportSpec_layout),
      (''Validation'', TPtr MCPUpstreamValidationSpec_layout),
      (''Commands'', TSlice MCPUpstreamCommandSpec_layout),
      (''RateLimit'', TScal)]"

definition MCPUpstreamSpec_DeepCopyInto :: "copier" where
  "MCPUpstreamSpec_DeepCopyInto = copy_struct
     [(''ServiceRef'', copy_ptr copy_plain),
      (''OpenAPI'', MCPUpstreamOpenAPISpec_DeepCopyInto),
      (''Overlay'', copy_ptr MCPUpstreamOverlaySpec_DeepCopyInto),
      (''OutboundAuth'', copy_ptr MCPUpstreamOutboundAuthSpec_DeepCopyInto),
      (''Transport'', copy_ptr MCPUpstreamTransportSpec_DeepCopyInto),
      (''Validation'', copy_ptr MCPUpstreamValidationSpec_DeepCopyInto),
      (''Commands'', copy_slice MCPUpstreamCommandSpec_DeepCopyInto)]"

definition MCPUpstreamSpec_DeepCopy :: "copier" where
  "MCPUpstreamSpec_DeepCopy = copy_ptr MCPUpstreamSpec_DeepCopyInto"

lemma MCPUpstreamSpec_copier [copier]: "deep_copier MCPUpstreamSpec_layout MCPUpstreamSpec_DeepCopyInto"
  unfolding MCPUpstreamSpec_layout_def MCPUpstreamSpec_DeepCopyInto_def
  by (rule struct_copier) (simp add: field_copied_def copier)

definition MCPUpstreamStatus_layout :: "k8s_types \<Rightarrow> layout" where
  "MCPUpstreamStatus_layout k = TStruct
     [(''Conditions'', TSlice (fst (k_Condition k))),
      (''AssignedProxy'', TScal),
      (''ToolCount'', TScal)]"

definition MCPUpstreamStatus_DeepCopyInto :: "k8s_types \<Rightarrow> copier" where
  "MCPUpstreamStatus_DeepCopyInto k = copy_struct
     [(''Conditions'', copy_slice (snd (k_Condition k)))]"

definition MCPUpstreamStatus_DeepCopy :: "k8s_types \<Rightarrow> copier" where
  "MCPUpstreamStatus_DeepCopy k = copy_ptr (MCPUpstreamStatus_DeepCopyInto k)"

lemma MCPUpstreamStatus_copier [copier]:
  assumes "k8s_copies k"
  shows "deep_copier (MCPUpstreamStatus_layout k) (MCPUpstreamStatus_DeepCopyInto k)"
  unfolding MCPUpstreamStatus_layout_def MCPUpstreamStatus_DeepCopyInto_def
  by (rule struct_copier) (simp add: field_copied_def copier assms)

definition MCPUpstream_layout :: "k8s_types \<Rightarrow> layout" where
  "MCPUpstream_layout k = TStruct
     [(''TypeMeta'', TStruct [(''Kind'', TScal), (''APIVersion'', TScal)]),
      (''ObjectMeta'', fst (k_ObjectMeta k)),
      (''Spec'', MCPUpstreamSpec_layout),
      (''Status'', MCPUpstreamStatus_layout k)]"

definition MCPUpstream_DeepCopyInto :: "k8s_types \<Rightarrow> copier" where
  "MCPUpstream_DeepCopyInto k = copy_struct
     [(''TypeMeta'', copy_plain),
      (''ObjectMeta'', snd (k_ObjectMeta k)),
      (''Spec'', MCPUpstreamSpec_DeepCopyInto),
      (''Status'', MCPUpstreamStatus_DeepCopyInto k)]"

definition MCPUpstream_DeepCopy :: "k8s_types \<Rightarrow> copier" where
  "MCPUpstream_DeepCopy k = copy_ptr (MCPUpstream_DeepCopyInto k)"

definition MCPUpstream_DeepCopyObject :: "k8s_types \<Rightarrow> memval \<Rightarrow> store \<Rightarrow> memval option \<times> store" where
  "MCPUpstream_DeepCopyObject k = copy_object (MCPUpstream_DeepCopy k)"

lemma MCPUpstream_copier [copier]:
  assumes "k8s_copies k"
  shows "deep_copier (MCPUpstream_layout k) (MCPUpstream_DeepCopyInto k)"
  unfolding MCPUpstream_layout_def MCPUpstream_DeepCopyInto_def
  by (rule struct_copier) (simp add: field_copied_def copier assms)

definition MCPUpstreamList_layout :: "k8s_types \<Rightarrow> layout" where
  "MCPUpstreamList_layout k = TStruct
     [(''TypeMeta'', TStruct [(''Kind'', TScal), (''APIVersion'', TScal)]),
      (''ListMeta'', fst (k_ListMeta k)),
      (''Items'', TSlice (MCPUpstream_layout k))]"

definition MCPUpstreamList_DeepCopyInto :: "k8s_types \<Rightarrow> copier" where
  "MCPUpstreamList_DeepCopyInto k = copy_struct
     [(''TypeMeta'', copy_plain),
      (''ListMeta'', snd (k_ListMeta k)),
      (''Items'', copy_slice (MCPUpstream_DeepCopyInto k))]"

definition MCPUpstreamList_DeepCopy :: "k8s_types \<Rightarrow> copier" where
  "MCPUpstreamList_DeepCopy k = copy_ptr (MCPUpstreamList_DeepCopyInto k)"

definition MCPUpstreamList_DeepCopyObject :: "k8s_types \<Rightarrow> memval \<Rightarrow> store \<Rightarrow> memval option \<times> store" where
  "MCPUpstreamList_DeepCopyObject k = copy_object (MCPUpstreamList_DeepCopy k)"

lemma MCPUpstreamList_copier [copier]:
  assumes "k8s_copies k"
  shows "deep_copier (MCPUpstreamList_layout k) (MCPUpstreamList_DeepCopyInto k)"
  unfolding MCPUpstreamList_layout_def MCPUpstreamList_DeepCopyInto_def
  by (rule struct_copier) (simp add: field_copied_def copier assms)

section \<open>All generated copies\<close>

text \<open>Every type with its layout and its \<^verbatim>\<open>DeepCopy\<close>.\<close>

definition generated :: "k8s_types \<Rightarrow> (string \<times> layout \<times> copier) list" where
  "generated k =
     [(''AutoDiscoverSpec'', AutoDiscoverSpec_layout, AutoDiscoverSpec_DeepCopy),
      (''BearerSpec'', BearerSpec_layout, BearerSpec_DeepCopy),
      (''ConfigMapKeyRef'', ConfigMapKeyRef_layout, ConfigMapKeyRef_DeepCopy),
      (''GatewayRefSpec'', GatewayRefSpec_layout, GatewayRefSpec_DeepCopy),
      (''JWTAuthSpec'', JWTAuthSpec_layout, JWTAuthSpec_DeepCopy),
      (''MCPProxy'', MCPProxy_layout k, MCPProxy_DeepCopy k),
      (''MCPProxyList'', MCPProxyList_layout k, MCPProxyList_DeepCopy k),
      (''MCPProxyRateLimitPolicySpec'', MCPProxyRateLimitPolicySpec_layout, MCPProxyRateLimitPolicySpec_DeepCopy),
      (''MCPProxyRateLimitsSpec'', MCPProxyRateLimitsSpec_layout, MCPProxyRateLimitsSpec_DeepCopy),
      (''MCPProxySpec'', MCPProxySpec_layout k, MCPProxySpec_DeepCopy k),
      (''MCPProxyStatus'', MCPProxyStatus_layout k, MCPProxyStatus_DeepCopy k),
      (''MCPUpstream'', MCPUpstream_layout k, MCPUpstream_DeepCopy k),
      (''MCPUpstreamCommandInputSchema'', MCPUpstreamCommandInputSchema_layout, MCPUpstreamCommandInputSchema_DeepCopy),
      (''MCPUpstreamCommandSchemaProperty'', MCPUpstreamCommandSchemaProperty_layout, MCPUpstreamCommandSchemaProperty_DeepCopy),
      (''MCPUpstreamCommandSpec'', MCPUpstreamCommandSpec_layout, MCPUpstreamCommandSpec_DeepCopy),
      (''MCPUpstreamList'', MCPUpstreamList_layout k, MCPUpstreamList_DeepCopy k),
      (''MCPUpstreamOpenAPISpec'', MCPUpstreamOpenAPISpec_layout, MCPUpstreamOpenAPISpec_DeepCopy),
      (''MCPUpstreamOutboundAuthSpec'', MCPUpstreamOutboundAuthSpec_layout, MCPUpstreamOutboundAuthSpec_DeepCopy),
      (''MCPUpstreamOverlaySpec'', MCPUpstreamOverlaySpec_layout, MCPUpstreamOverlaySpec_DeepCopy),
      (''MCPUpstreamSpec'', MCPUpstreamSpec_layout, MCPUpstreamSpec_DeepCopy),
      (''MCPUpstreamStatus'', MCPUpstreamStatus_layout k, MCPUpstreamStatus_DeepCopy k),
      (''MCPUpstreamTransportSpec'', MCPUpstreamTransportSpec_layout, MCPUpstreamTransportSpec_DeepCopy),
      (''MCPUpstreamValidationSpec'', MCPUpstreamValidationSpec_layout, MCPUpstreamValidationSpec_DeepCopy),
      (''NamespaceSelectorSpec'', NamespaceSelectorSpec_layout, NamespaceSelectorSpec_DeepCopy),
      (''OAuth2Spec'', OAuth2Spec_layout, OAuth2Spec_DeepCopy),
      (''ProxyInboundAuthSpec'', ProxyInboundAuthSpec_layout, ProxyInboundAuthSpec_DeepCopy),
      (''ProxyNamingSpec'', ProxyNamingSpec_layout, ProxyNamingSpec_DeepCopy),
      (''ProxyServerSpec'', ProxyServerSpec_layout, ProxyServerSpec_DeepCopy),
      (''ProxySlugRulesSpec'', ProxySlugRulesSpec_layout, ProxySlugRulesSpec_DeepCopy),
      (''ProxyTLSSpec'', ProxyTLSSpec_layout, ProxyTLSSpec_DeepCopy),
      (''ProxyTelemetrySpec'', ProxyTelemetrySpec_layout, ProxyTelemetrySpec_DeepCopy),
      (''SecretRef'', SecretRef_layout, SecretRef_DeepCopy),
      (''ServiceDiscoveryNamespaceSelector'', ServiceDiscoveryNamespaceSelector_layout, ServiceDiscoveryNamespaceSelector_DeepCopy),
      (''ServiceDiscoverySpec'', ServiceDiscoverySpec_layout, ServiceDiscoverySpec_DeepCopy),
      (''ServiceRefSpec'', ServiceRefSpec_layout, ServiceRefSpec_DeepCopy),
      (''UpstreamTLSSpec'', UpstreamTLSSpec_layout, UpstreamTLSSpec_DeepCopy)]"

interpretation secret_ref: deep_copier SecretRef_layout SecretRef_DeepCopyInto
  by (rule SecretRef_copier)

interpretation upstream_spec: deep_copier MCPUpstreamSpec_layout MCPUpstreamSpec_DeepCopyInto
  by (rule MCPUpstreamSpec_copier)

lemma generated_copiers:
  assumes "k8s_copies k" and "(n, t, f) \<in> set (generated k)"
  shows "deep_copier (TPtr t) f"
proof -
  have "list_all (\<lambda>(n, t, f). deep_copier (TPtr t) f) (generated k)"
    unfolding generated_def
    by (simp add: copier assms(1) AutoDiscoverSpec_DeepCopy_def
      SecretRef_DeepCopy_def
      BearerSpec_DeepCopy_def
      ConfigMapKeyRef_DeepCopy_def
      GatewayRefSpec_DeepCopy_def
      JWTAuthSpec_DeepCopy_def
      NamespaceSelectorSpec_DeepCopy_def
      ServiceDiscoveryNamespaceSelector_DeepCopy_def
      ServiceDiscoverySpec_DeepCopy_def
      ProxyTLSSpec_DeepCopy_def
      ProxyServerSpec_DeepCopy_def
      ProxySlugRulesSpec_DeepCopy_def
      ProxyNamingSpec_DeepCopy_def
      ProxyInboundAuthSpec_DeepCopy_def
      ProxyTelemetrySpec_DeepCopy_def
      MCPProxyRateLimitPolicySpec_DeepCopy_def
      MCPProxyRateLimitsSpec_DeepCopy_def
      MCPProxySpec_DeepCopy_def
      MCPProxyStatus_DeepCopy_def
      MCPProxy_DeepCopy_def
      MCPProxyList_DeepCopy_def
      ServiceRefSpec_DeepCopy_def
      MCPUpstreamOpenAPISpec_DeepCopy_def
      MCPUpstreamOverlaySpec_DeepCopy_def
      OAuth2Spec_DeepCopy_def
      MCPUpstreamOutboundAuthSpec_DeepCopy_def
      UpstreamTLSSpec_DeepCopy_def
      MCPUpstreamTransportSpec_DeepCopy_def
      MCPUpstreamValidationSpec_DeepCopy_def
      MCPUpstreamCommandSchemaProperty_DeepCopy_def
      MCPUpstreamCommandInputSchema_DeepCopy_def
      MCPUpstreamCommandSpec_DeepCopy_def
      MCPUpstreamSpec_DeepCopy_def
      MCPUpstreamStatus_DeepCopy_def
      MCPUpstream_DeepCopy_def
      MCPUpstreamList_DeepCopy_def)
  with assms(2) show ?thesis by (auto simp: list_all_iff)
qed

text \<open>\<^verbatim>\<open>DeepCopyObject\<close> returns the nil interface, and not an interface that holds a nil pointer, exactly
  for a nil receiver.\<close>

lemma copy_object_nil:
  "copy_object (copy_ptr f) p h = (None, h') \<longleftrightarrow> copy_ptr f p h = (MPtr None, h')"
  by (auto simp: copy_object_def split: prod.splits if_splits)

lemma copy_ptr_nil: "fst (copy_ptr f p h) = MPtr None \<longleftrightarrow> p = MPtr None"
  by (auto simp: copy_ptr_def split: memval.splits option.splits cell.splits prod.splits)

text \<open>C38: for every custom resource type the generated copy of a value reads exactly as the value, and
  the two share no memory: no cell is reached twice in the copy, overwriting any cell of the copy with
  anything leaves the original as it was, and overwriting any cell of the original leaves the copy.\<close>

theorem deep_copies_share_nothing:
  assumes "k8s_copies k" and "(n, t, f) \<in> set (generated k)"
    and "view h (TPtr t) p = Some (r, as)" and "f p h = (q, h')"
  shows "\<exists>bs. view h' (TPtr t) q = Some (r, bs) \<and> distinct bs \<and> set as \<inter> set bs = {} \<and>
    (\<forall>b \<in> set bs. \<forall>c. view (h'[b := c]) (TPtr t) p = Some (r, as)) \<and>
    (\<forall>a \<in> set as. \<forall>c. view (h'[a := c]) (TPtr t) q = Some (r, bs))"
  by (rule deep_copier_independent [OF generated_copiers [OF assms(1,2)] assms(3,4)])

definition sample_types :: k8s_types where
  "sample_types =
     \<lparr>k_ObjectMeta = (TStruct [(''Labels'', TMap TScal)], copy_struct [(''Labels'', copy_map copy_plain)]),
      k_ListMeta = (TScal, copy_plain), k_LabelSelector = (TScal, copy_plain),
      k_ResourceRequirements = (TScal, copy_plain), k_Condition = (TScal, copy_plain)\<rparr>"

lemma sample_types_copies: "k8s_copies sample_types"
  by (simp add: k8s_copies_def sample_types_def copier struct_copier field_copied_def)

definition sample_store :: store where
  "sample_store =
     [CArr [MScal (SStr ''Ready'')],
      CVal (MStruct [(''Conditions'', MSlice (Some 0)), (''AssignedProxy'', MScal (SStr ''p'')), (''ToolCount'', MScal (SInt 3))])]"

lemma deep_copies_share_nothing_witness:
  "\<exists>q h'. MCPUpstreamStatus_DeepCopy sample_types (MPtr (Some 1)) sample_store = (q, h') \<and>
    (\<exists>bs r. view h' (TPtr (MCPUpstreamStatus_layout sample_types)) q = Some (r, bs) \<and> set [1, 0] \<inter> set bs = {} \<and>
      (\<forall>a \<in> set [1, 0]. \<forall>c. view (h'[a := c]) (TPtr (MCPUpstreamStatus_layout sample_types)) q = Some (r, bs)))"
proof -
  have m: "(''MCPUpstreamStatus'', MCPUpstreamStatus_layout sample_types, MCPUpstreamStatus_DeepCopy sample_types)
      \<in> set (generated sample_types)" by (simp add: generated_def)
  have "\<exists>r. view sample_store (TPtr (MCPUpstreamStatus_layout sample_types)) (MPtr (Some 1)) = Some (r, [1, 0])"
    by (simp add: sample_store_def MCPUpstreamStatus_layout_def sample_types_def cell_at_def)
  then obtain r where v: "view sample_store (TPtr (MCPUpstreamStatus_layout sample_types)) (MPtr (Some 1)) = Some (r, [1, 0])" ..
  obtain q h' where c: "MCPUpstreamStatus_DeepCopy sample_types (MPtr (Some 1)) sample_store = (q, h')" by fastforce
  show ?thesis using deep_copies_share_nothing [OF sample_types_copies m v c] c by blast
qed

end
