(* ===== verification/CrdTools.thy ===== *)
theory CrdTools
  imports Http
begin

text \<open>
  The tools that keep the custom resource definitions in step with the configuration types:
  the generator of the mirror types (\<^verbatim>\<open>internal/crdutil/typegen.go\<close>), the commands \<^verbatim>\<open>crdgen\<close> and
  \<^verbatim>\<open>crdlint\<close>, and the analyzer of \<^verbatim>\<open>pkg/analysis/crdlint\<close>. Files are a map from paths to contents.
  The Go parser and formatter, SHA-256 and \<^verbatim>\<open>controller-gen\<close> are parameters.
\<close>

section \<open>Syntax trees\<close>

text \<open>The type expressions and declarations of \<^verbatim>\<open>go/ast\<close> the generator looks at. A comment group is its
  text; an array type has its length expression, if any.\<close>

datatype type_expr =
    Ident string
  | SelectorExpr type_expr string
  | StarExpr type_expr
  | ArrayType "string option" type_expr
  | MapType type_expr type_expr
  | OtherExpr string

record ast_field =
  af_Names :: "string list"
  af_Tag :: "string option"
  af_Type :: type_expr
  af_Doc :: "string option"
  af_Comment :: "string option"

datatype ast_type = StructType "ast_field list" | OtherType

record type_spec =
  ts_Name :: string
  ts_Doc :: "string option"
  ts_Type :: ast_type

datatype ast_decl = TypeDecl "string option" "type_spec list" | OtherDecl

section \<open>Names\<close>

text \<open>\<^verbatim>\<open>unicode.IsUpper\<close> of the first byte of a name, read as a code point.\<close>

definition upper_byte :: "char \<Rightarrow> bool" where
  "upper_byte c \<longleftrightarrow> is_upper c \<or> (CHR 0xC0 \<le> c \<and> c \<le> CHR 0xDE \<and> c \<noteq> CHR 0xD7)"

text \<open>\<^verbatim>\<open>snakeToCamel\<close>, for keys whose parts start with an ASCII character.\<close>

definition capitalize :: "string \<Rightarrow> string" where
  "capitalize s = (case s of [] \<Rightarrow> [] | c # cs \<Rightarrow> upper_char c # cs)"

definition snakeToCamel :: "string \<Rightarrow> string" where
  "snakeToCamel s = (case split_char (CHR ''_'') s of [] \<Rightarrow> [] | p # ps \<Rightarrow> concat (p # map capitalize ps))"

text \<open>\<^verbatim>\<open>reflect.StructTag.Get\<close>. A quoted value with an escape, which no tag of the repository has, counts
  as unreadable.\<close>

definition unquoteTag :: "string \<Rightarrow> string option" where
  "unquoteTag s = (if CHR 0x5C \<in> set s \<or> CHR 0x0A \<in> set s then None else Some s)"

definition tag_name_char :: "char \<Rightarrow> bool" where
  "tag_name_char c \<longleftrightarrow> CHR '' '' < c \<and> c \<noteq> CHR '':'' \<and> c \<noteq> CHR 0x22 \<and> c \<noteq> CHR 0x7F"

text \<open>The text up to the closing quote, with its escapes, and what follows the quote.\<close>

fun quoted_value :: "string \<Rightarrow> (string \<times> string) option" where
  "quoted_value [] = None"
| "quoted_value (c # cs) =
     (if c = CHR 0x22 then Some ([], cs)
      else if c = CHR 0x5C
      then (case cs of [] \<Rightarrow> None | d # ds \<Rightarrow> map_option (\<lambda>(v, r). (c # d # v, r)) (quoted_value ds))
      else map_option (\<lambda>(v, r). (c # v, r)) (quoted_value cs))"

lemma quoted_value_shorter: "quoted_value s = Some (v, r) \<Longrightarrow> length r < length s"
  by (induction s arbitrary: v r rule: quoted_value.induct) (fastforce split: if_splits list.splits)+

function tagGet :: "string \<Rightarrow> string \<Rightarrow> string" where
  "tagGet key tag =
     (let tag1 = dropWhile (\<lambda>c. c = CHR '' '') tag;
          name = takeWhile tag_name_char tag1;
          rest = dropWhile tag_name_char tag1 in
      case rest of
        a # b # body \<Rightarrow>
          if name = [] \<or> a \<noteq> CHR '':'' \<or> b \<noteq> CHR 0x22 then []
          else (case quoted_value body of
                  None \<Rightarrow> []
                | Some (v, rest') \<Rightarrow>
                    if name = key then (case unquoteTag v of None \<Rightarrow> [] | Some x \<Rightarrow> x)
                    else tagGet key rest')
      | _ \<Rightarrow> [])"
  by pat_completeness auto
termination
proof (relation "measure (\<lambda>(key, tag). length tag)", goal_cases)
  case (2 key tag tag1 name rest a b1 b body p v r)
  then have "length r < length body" by (auto dest: quoted_value_shorter)
  also have "dropWhile tag_name_char tag1 = a # b # body" using 2 by metis
  then have "length body < length (dropWhile tag_name_char tag1)" by simp
  also have "\<dots> \<le> length tag" using 2(1) by (simp add: length_dropWhile_le order_trans [OF length_dropWhile_le])
  finally show ?case by simp
qed simp

declare tagGet.simps [simp del]

section \<open>Generation\<close>

definition SpecGenPath :: string where "SpecGenPath = ''pkg/crd/v1alpha1/spec_gen.go''"

definition SpecMapping :: "(string \<times> string) list" where
  "SpecMapping =
     [(''JWTAuthConfig'', ''JWTAuthSpec''), (''NamingConfig'', ''ProxyNamingSpec''),
      (''SlugRulesConfig'', ''ProxySlugRulesSpec''), (''TelemetryConfig'', ''ProxyTelemetrySpec''),
      (''CommandConfig'', ''MCPUpstreamCommandSpec''), (''CommandInputSchema'', ''MCPUpstreamCommandInputSchema''),
      (''CommandSchemaProperty'', ''MCPUpstreamCommandSchemaProperty''), (''ValidationConfig'', ''MCPUpstreamValidationSpec'')]"

record generatedField =
  gf_Name :: string
  gf_Type :: string
  gf_JSONTag :: string
  gf_Doc :: string

record generatedType =
  gt_Name :: string
  gt_Doc :: string
  gt_Fields :: "generatedField list"

fun convertTypeExpr :: "(string \<rightharpoonup> string) \<Rightarrow> type_expr \<Rightarrow> goerr + string" where
  "convertTypeExpr nm (Ident n) =
     (case nm n of
        Some mapped \<Rightarrow> Inr mapped
      | None \<Rightarrow>
          if n \<noteq> [] \<and> upper_byte (hd n)
          then Inl (ErrText (''type '' @ go_quote n @ '' is not in SpecMapping '' @ em_dash @
            '' add it to internal/crdutil/typegen.go and re-run make generate-crds''))
          else Inr n)"
| "convertTypeExpr nm (SelectorExpr x sel) =
     (case x of
        Ident pkg \<Rightarrow> if pkg = ''time'' \<and> sel = ''Duration'' then Inr ''string'' else Inr (pkg @ ''.'' @ sel)
      | _ \<Rightarrow> Inl (ErrText ''unexpected selector expression''))"
| "convertTypeExpr nm (StarExpr x) = map_sum id (\<lambda>inner. ''*'' @ inner) (convertTypeExpr nm x)"
| "convertTypeExpr nm (ArrayType _ x) = map_sum id (\<lambda>inner. ''[]'' @ inner) (convertTypeExpr nm x)"
| "convertTypeExpr nm (MapType k v) =
     (case convertTypeExpr nm k of
        Inl e \<Rightarrow> Inl e
      | Inr key \<Rightarrow> map_sum id (\<lambda>val. ''map['' @ key @ '']'' @ val) (convertTypeExpr nm v))"
| "convertTypeExpr nm (OtherExpr t) = Inl (ErrText (''unsupported type expression '' @ t))"

definition extractFieldDoc :: "ast_field \<Rightarrow> string" where
  "extractFieldDoc f =
     (case af_Doc f of
        Some d \<Rightarrow> trim_space d
      | None \<Rightarrow> (case af_Comment f of Some c \<Rightarrow> trim_space c | None \<Rightarrow> []))"

definition trim_backquotes :: "string \<Rightarrow> string" where
  "trim_backquotes s = trim_with (\<lambda>c. c = CHR 0x60) s"

definition koanfKey :: "ast_field \<Rightarrow> string" where
  "koanfKey f = (case af_Tag f of None \<Rightarrow> [] | Some t \<Rightarrow> tagGet ''koanf'' (trim_backquotes t))"

definition convertField :: "(string \<rightharpoonup> string) \<Rightarrow> ast_field \<Rightarrow> goerr + generatedField option" where
  "convertField nm f =
     (case af_Names f of
        [] \<Rightarrow> Inr None
      | n # _ \<Rightarrow>
          (let key = koanfKey f in
           if key = ''-'' \<or> key = [] then Inr None
           else (case convertTypeExpr nm (af_Type f) of
                   Inl e \<Rightarrow> Inl (ErrWrap (''field '' @ n) e)
                 | Inr t \<Rightarrow> Inr (Some \<lparr>gf_Name = n, gf_Type = t, gf_JSONTag = snakeToCamel key,
                                        gf_Doc = extractFieldDoc f\<rparr>))))"

definition extractTypeDoc :: "type_spec \<Rightarrow> string" where
  "extractTypeDoc ts = (case ts_Doc ts of None \<Rightarrow> [] | Some d \<Rightarrow> trim_space d)"

definition buildTypeIndex :: "ast_decl list \<Rightarrow> (string \<rightharpoonup> type_spec)" where
  "buildTypeIndex decls =
     fold (\<lambda>d idx. case d of
         OtherDecl \<Rightarrow> idx
       | TypeDecl doc specs \<Rightarrow>
           fold (\<lambda>ts idx. idx(ts_Name ts \<mapsto> (if ts_Doc ts = None then ts\<lparr>ts_Doc := doc\<rparr> else ts))) specs idx)
       decls Map.empty"

definition generateType ::
    "(string \<rightharpoonup> string) \<Rightarrow> (string \<rightharpoonup> type_spec) \<Rightarrow> string \<Rightarrow> string \<times> string \<Rightarrow> goerr + generatedType" where
  "generateType nm idx path entry =
     (case idx (fst entry) of
        None \<Rightarrow> Inl (ErrText (''type '' @ go_quote (fst entry) @ '' not found in '' @ path))
      | Some ts \<Rightarrow>
          (case ts_Type ts of
             OtherType \<Rightarrow> Inl (ErrText (''type '' @ go_quote (fst entry) @ '' is not a struct in '' @ path))
           | StructType fs \<Rightarrow>
               (case sum_map (convertField nm) fs of
                  Inl e \<Rightarrow> Inl (ErrWrap (''field in '' @ fst entry) e)
                | Inr gfs \<Rightarrow> Inr \<lparr>gt_Name = snd entry, gt_Doc = extractTypeDoc ts,
                                  gt_Fields = List.map_filter id gfs\<rparr>)))"

definition comment_lines :: "string \<Rightarrow> string \<Rightarrow> string" where
  "comment_lines indent doc =
     (if doc = [] then []
      else concat (map (\<lambda>l. if l = [] then indent @ ''//'' @ [CHR 0x0A] else indent @ ''// '' @ l @ [CHR 0x0A])
             (split_char (CHR 0x0A) doc)))"

definition renderField :: "generatedField \<Rightarrow> string" where
  "renderField f =
     [CHR 0x09] @ ''// +optional'' @ [CHR 0x0A] @ comment_lines [CHR 0x09] (gf_Doc f) @
     [CHR 0x09] @ gf_Name f @ '' '' @ gf_Type f @ '' '' @ [CHR 0x60] @ ''json:'' @ [CHR 0x22] @ gf_JSONTag f @
     '',omitempty'' @ [CHR 0x22, CHR 0x60, CHR 0x0A]"

definition renderType :: "generatedType \<Rightarrow> string" where
  "renderType gt =
     [CHR 0x0A] @ comment_lines [] (gt_Doc gt) @
     ''type '' @ gt_Name gt @ '' struct {'' @ [CHR 0x0A] @ concat (map renderField (gt_Fields gt)) @ ''}'' @ [CHR 0x0A]"

definition spec_header :: string where
  "spec_header =
     ''// Code generated by '' @ [CHR 0x22] @ ''go run ./cmd/crdgen'' @ [CHR 0x22] @ ''. DO NOT EDIT.'' @ [CHR 0x0A] @
     ''// Source: pkg/config/config.go'' @ [CHR 0x0A] @
     ''// Regenerate with: make generate-crds'' @ [CHR 0x0A, CHR 0x0A] @
     ''package v1alpha1'' @ [CHR 0x0A]"

definition renderSpecContent :: "(string \<Rightarrow> goerr + string) \<Rightarrow> generatedType list \<Rightarrow> goerr + string" where
  "renderSpecContent format types =
     (let raw = spec_header @ concat (map renderType types) in
      case format raw of
        Inl e \<Rightarrow> Inl (ErrText (''formatting generated code: '' @ err_text e @ [CHR 0x0A] @ ''raw source:'' @ [CHR 0x0A] @ raw))
      | Inr s \<Rightarrow> Inr s)"

section \<open>Files and tools\<close>

type_synonym files = "string \<rightharpoonup> string"

text \<open>Reading a file fails only when there is none.\<close>

definition noSuchFile :: "string \<Rightarrow> goerr" where
  "noSuchFile path = ErrText (''open '' @ path @ '': no such file or directory'')"

text \<open>\<^verbatim>\<open>ct_go\<close> runs the \<^verbatim>\<open>go\<close> command with its arguments in a directory: an error with the standard error
  output, or the files it left in the temporary directory and the files of the repository.\<close>

record tool_lib =
  ct_parse :: "string \<Rightarrow> goerr + ast_decl list"
  ct_format :: "string \<Rightarrow> goerr + string"
  ct_sha :: "string \<Rightarrow> string"
  ct_write :: "string \<Rightarrow> goerr option"
  ct_mkdir :: "string \<Rightarrow> goerr option"
  ct_tmp :: "goerr + string"
  ct_go :: "string list \<Rightarrow> string \<Rightarrow> files \<Rightarrow> goerr \<times> string + files \<times> files"

definition joinPath :: "string \<Rightarrow> string \<Rightarrow> string" where
  "joinPath a b = (if a = ''/'' then a @ b else a @ ''/'' @ b)"

definition pathDir :: "string \<Rightarrow> string" where
  "pathDir p = (case before_last (CHR ''/'') p of None \<Rightarrow> ''.'' | Some d \<Rightarrow> if d = [] then ''/'' else d)"

text \<open>The arguments of \<^verbatim>\<open>controller-gen\<close>: only \<^verbatim>\<open>crdgen\<close> has it write the deep copies.\<close>

definition controllerGenArgs :: "bool \<Rightarrow> string \<Rightarrow> string list" where
  "controllerGenArgs deepcopies outDir =
     [''run'', ''sigs.k8s.io/controller-tools/cmd/controller-gen@v0.17.0'', ''crd''] @
     (if deepcopies then [''object:headerFile=''] else []) @
     [''paths=./pkg/crd/v1alpha1/...'', ''output:crd:dir='' @ outDir]"

definition runControllerGen :: "tool_lib \<Rightarrow> bool \<Rightarrow> string \<Rightarrow> string \<Rightarrow> files \<Rightarrow> goerr + files \<times> files" where
  "runControllerGen lib deepcopies repo outDir fs =
     (case ct_go lib (controllerGenArgs deepcopies outDir) repo fs of
        Inl (e, stderr) \<Rightarrow> Inl (ErrText (''controller-gen: '' @ err_text e @ [CHR 0x0A] @ ''stderr: '' @ stderr))
      | Inr r \<Rightarrow> Inr r)"

text \<open>The walk up from an absolute directory; at the top the parent is the directory itself. The left
  result is the directory where it stopped.\<close>

function findUp :: "files \<Rightarrow> string \<Rightarrow> string + string" where
  "findUp fs dir =
     (if fs (joinPath dir ''go.mod'') \<noteq> None then Inr dir
      else (let parent = pathDir dir in
            if parent = dir \<or> length dir \<le> length parent then Inl dir else findUp fs parent))"
  by pat_completeness auto
termination by (relation "measure (\<lambda>(fs, dir). length dir)") auto

declare findUp.simps [simp del]

definition findRepoRootFromWd :: "files \<Rightarrow> goerr + string \<Rightarrow> goerr + string" where
  "findRepoRootFromWd fs wd =
     (case wd of
        Inl e \<Rightarrow> Inl (ErrWrap ''getting working directory'' e)
      | Inr dir \<Rightarrow>
          (case findUp fs dir of
             Inl top_dir \<Rightarrow> Inl (ErrText (''go.mod not found in any parent directory of '' @ top_dir))
           | Inr d \<Rightarrow> Inr d))"

definition GenerateSpecContent :: "tool_lib \<Rightarrow> files \<Rightarrow> string \<Rightarrow> goerr + string" where
  "GenerateSpecContent lib fs configPath =
     (case fs configPath of
        None \<Rightarrow> Inl (ErrWrap (''parsing '' @ configPath) (noSuchFile configPath))
      | Some src \<Rightarrow>
          (case ct_parse lib src of
             Inl e \<Rightarrow> Inl (ErrWrap (''parsing '' @ configPath) e)
           | Inr decls \<Rightarrow>
               (case sum_map (generateType (map_of SpecMapping) (buildTypeIndex decls) configPath) SpecMapping of
                  Inl e \<Rightarrow> Inl e
                | Inr types \<Rightarrow> renderSpecContent (ct_format lib) types)))"

definition configSource :: "string \<Rightarrow> string" where
  "configSource repo = joinPath repo ''pkg/config/config.go''"

definition writeFile :: "tool_lib \<Rightarrow> string \<Rightarrow> string \<Rightarrow> files \<Rightarrow> goerr option \<times> files" where
  "writeFile lib path content fs =
     (case ct_write lib path of Some e \<Rightarrow> (Some e, fs) | None \<Rightarrow> (None, fs(path \<mapsto> content)))"

definition WriteSpecFile :: "tool_lib \<Rightarrow> string \<Rightarrow> files \<Rightarrow> goerr option \<times> files" where
  "WriteSpecFile lib repo fs =
     (case GenerateSpecContent lib fs (configSource repo) of
        Inl e \<Rightarrow> (Some (ErrWrap ''generating spec content'' e), fs)
      | Inr content \<Rightarrow> writeFile lib (joinPath repo SpecGenPath) content fs)"

definition ValidateSpecFile :: "tool_lib \<Rightarrow> string \<Rightarrow> files \<Rightarrow> goerr + bool" where
  "ValidateSpecFile lib repo fs =
     (case GenerateSpecContent lib fs (configSource repo) of
        Inl e \<Rightarrow> Inl (ErrWrap ''generating expected content'' e)
      | Inr want \<Rightarrow>
          (case fs (joinPath repo SpecGenPath) of
             None \<Rightarrow> Inl (ErrWrap (''reading '' @ SpecGenPath) (noSuchFile (joinPath repo SpecGenPath)))
           | Some got \<Rightarrow> Inr (ct_sha lib want = ct_sha lib got)))"

definition crdRenames :: "(string \<times> string) list" where
  "crdRenames = [(''mcp-auto.ai_mcpproxies.yaml'', ''mcpproxy.yaml''), (''mcp-auto.ai_mcpupstreams.yaml'', ''mcpupstream.yaml'')]"

definition crdPath :: "string \<Rightarrow> string \<Rightarrow> string" where
  "crdPath repo dst = joinPath (joinPath repo ''charts/mcp-auto/crds'') dst"

section \<open>crdgen\<close>

definition genRepoRoot :: "files \<Rightarrow> string option \<Rightarrow> goerr + string \<Rightarrow> goerr + string" where
  "genRepoRoot fs caller wd =
     (case caller of
        None \<Rightarrow> findRepoRootFromWd fs wd
      | Some file \<Rightarrow> (case findUp fs (pathDir file) of Inl _ \<Rightarrow> findRepoRootFromWd fs wd | Inr d \<Rightarrow> Inr d))"

fun writeCrds :: "tool_lib \<Rightarrow> string \<Rightarrow> files \<Rightarrow> (string \<times> string) list \<Rightarrow> files \<Rightarrow> goerr option \<times> files" where
  "writeCrds lib repo generated [] fs = (None, fs)"
| "writeCrds lib repo generated ((src, dst) # rs) fs =
     (case writeFile lib (crdPath repo dst) (case generated src of None \<Rightarrow> [] | Some d \<Rightarrow> d) fs of
        (Some e, fs) \<Rightarrow> (Some (ErrWrap (''writing '' @ crdPath repo dst) e), fs)
      | (None, fs) \<Rightarrow> writeCrds lib repo generated rs fs)"

definition runCrdgen ::
    "tool_lib \<Rightarrow> ((string \<times> string) list \<Rightarrow> (string \<times> string) list) \<Rightarrow> string option \<Rightarrow> goerr + string \<Rightarrow> files \<Rightarrow> goerr option \<times> files" where
  "runCrdgen lib \<sigma> caller wd fs =
     (case genRepoRoot fs caller wd of
        Inl e \<Rightarrow> (Some (ErrWrap ''finding repo root'' e), fs)
      | Inr repo \<Rightarrow>
          (case WriteSpecFile lib repo fs of
             (Some e, fs) \<Rightarrow> (Some (ErrWrap ''writing spec file'' e), fs)
           | (None, fs) \<Rightarrow>
               (case ct_tmp lib of
                  Inl e \<Rightarrow> (Some (ErrWrap ''creating temp dir'' e), fs)
                | Inr tmp \<Rightarrow>
                    (case runControllerGen lib True repo tmp fs of
                       Inl e \<Rightarrow> (Some (ErrWrap ''running controller-gen'' e), fs)
                     | Inr (out, fs) \<Rightarrow>
                         (case find (\<lambda>(src, dst). out src = None) (\<sigma> crdRenames) of
                            Some (src, dst) \<Rightarrow> (Some (ErrWrap (''reading generated CRD '' @ src) (noSuchFile (joinPath tmp src))), fs)
                          | None \<Rightarrow>
                              (case ct_mkdir lib (joinPath repo ''charts/mcp-auto/crds'') of
                                 Some e \<Rightarrow> (Some (ErrWrap (''creating output dir '' @ joinPath repo ''charts/mcp-auto/crds'') e), fs)
                               | None \<Rightarrow> writeCrds lib repo out (\<sigma> crdRenames) fs))))))"

section \<open>crdlint\<close>

definition lintCrd :: "tool_lib \<Rightarrow> string \<Rightarrow> string \<Rightarrow> files \<Rightarrow> files \<Rightarrow> string \<times> string \<Rightarrow> goerr + bool" where
  "lintCrd lib repo tmp out fs entry =
     (case out (fst entry) of
        None \<Rightarrow> Inl (ErrWrap (''hashing generated CRD '' @ fst entry) (noSuchFile (joinPath tmp (fst entry))))
      | Some g \<Rightarrow>
          (case fs (crdPath repo (snd entry)) of
             None \<Rightarrow> Inr False
           | Some x \<Rightarrow> Inr (ct_sha lib g = ct_sha lib x)))"

definition runCrdlint ::
    "tool_lib \<Rightarrow> ((string \<times> string) list \<Rightarrow> (string \<times> string) list) \<Rightarrow> goerr + string \<Rightarrow> files \<Rightarrow> goerr + bool" where
  "runCrdlint lib \<sigma> wd fs =
     (case findRepoRootFromWd fs wd of
        Inl e \<Rightarrow> Inl (ErrWrap ''finding repo root'' e)
      | Inr repo \<Rightarrow>
          (case ValidateSpecFile lib repo fs of
             Inl e \<Rightarrow> Inl (ErrWrap ''validating spec file'' e)
           | Inr specOK \<Rightarrow>
               (case ct_tmp lib of
                  Inl e \<Rightarrow> Inl (ErrWrap ''creating temp dir'' e)
                | Inr tmp \<Rightarrow>
                    (case runControllerGen lib False repo tmp fs of
                       Inl e \<Rightarrow> Inl (ErrWrap ''running controller-gen'' e)
                     | Inr (out, fs) \<Rightarrow>
                         map_sum id (\<lambda>oks. specOK \<and> list_all id oks) (sum_map (lintCrd lib repo tmp out fs) (\<sigma> crdRenames))))))"

text \<open>The exit statuses of both commands.\<close>

definition mainCrdgen :: "goerr option \<times> files \<Rightarrow> nat" where
  "mainCrdgen r = (case fst r of Some _ \<Rightarrow> 1 | None \<Rightarrow> 0)"

definition mainCrdlint :: "goerr + bool \<Rightarrow> nat" where
  "mainCrdlint r = (case r of Inl _ \<Rightarrow> 1 | Inr ok \<Rightarrow> if \<not> ok then 1 else 0)"

section \<open>The analyzer\<close>

definition reportCrd :: "tool_lib \<Rightarrow> string \<Rightarrow> string \<Rightarrow> files \<Rightarrow> files \<Rightarrow> string \<times> string \<Rightarrow> goerr + string list" where
  "reportCrd lib repo tmp out fs entry =
     (let rel = joinPath ''charts/mcp-auto/crds'' (snd entry) in
      case out (fst entry) of
        None \<Rightarrow> Inl (ErrWrap (''crdlint: hashing generated CRD '' @ fst entry) (noSuchFile (joinPath tmp (fst entry))))
      | Some g \<Rightarrow>
          (case fs (crdPath repo (snd entry)) of
             None \<Rightarrow> Inr [''CRD file '' @ rel @ '' is missing '' @ em_dash @ '' run: make generate-crds'']
           | Some x \<Rightarrow>
               if ct_sha lib g \<noteq> ct_sha lib x
               then Inr [''CRD file '' @ rel @ '' is out of date (generated sha256='' @ ct_sha lib g @
                         '', on-disk sha256='' @ ct_sha lib x @ '') '' @ em_dash @ '' run: make generate-crds'']
               else Inr []))"

text \<open>A pass over a package: the paths of its files, where positions know them. The result is the list of
  reports.\<close>

definition passRepoRoot :: "files \<Rightarrow> string option \<Rightarrow> goerr + string" where
  "passRepoRoot fs pos =
     (case pos of
        None \<Rightarrow> Inl (ErrText ''no position info for package files'')
      | Some file \<Rightarrow>
          (case findUp fs (pathDir file) of
             Inl _ \<Rightarrow> Inl (ErrText (''go.mod not found above '' @ pathDir file))
           | Inr d \<Rightarrow> Inr d))"

definition runAnalyzer ::
    "tool_lib \<Rightarrow> ((string \<times> string) list \<Rightarrow> (string \<times> string) list) \<Rightarrow> string option list \<Rightarrow> files \<Rightarrow> goerr + string list" where
  "runAnalyzer lib \<sigma> passFiles fs =
     (case passFiles of
        [] \<Rightarrow> Inr []
      | pos # _ \<Rightarrow>
          (case passRepoRoot fs pos of
             Inl e \<Rightarrow> Inl (ErrWrap ''crdlint: finding repo root'' e)
           | Inr repo \<Rightarrow>
               if map_option pathDir pos \<noteq> Some (joinPath repo ''pkg/crd/v1alpha1'') then Inr []
               else
                 (case ValidateSpecFile lib repo fs of
                    Inl e \<Rightarrow> Inl (ErrWrap ''crdlint: validating spec_gen.go'' e)
                  | Inr specOK \<Rightarrow>
                      (case ct_tmp lib of
                         Inl e \<Rightarrow> Inl (ErrWrap ''crdlint: creating temp dir'' e)
                       | Inr tmp \<Rightarrow>
                           (case runControllerGen lib False repo tmp fs of
                              Inl e \<Rightarrow> Inl (ErrWrap ''crdlint: running controller-gen'' e)
                            | Inr (out, fs) \<Rightarrow>
                                map_sum id (\<lambda>rs. (if specOK then [] else [SpecGenPath @ '' is out of date '' @ em_dash @ '' run: make generate-crds'']) @ concat rs)
                                  (sum_map (reportCrd lib repo tmp out fs) (\<sigma> crdRenames)))))))"

section \<open>Names and types\<close>

text \<open>Which type expressions the generator understands.\<close>

fun translatable :: "(string \<rightharpoonup> string) \<Rightarrow> type_expr \<Rightarrow> bool" where
  "translatable nm (Ident n) \<longleftrightarrow> nm n \<noteq> None \<or> n = [] \<or> \<not> upper_byte (hd n)"
| "translatable nm (SelectorExpr x sel) \<longleftrightarrow> (case x of Ident _ \<Rightarrow> True | _ \<Rightarrow> False)"
| "translatable nm (StarExpr x) = translatable nm x"
| "translatable nm (ArrayType _ x) = translatable nm x"
| "translatable nm (MapType k v) \<longleftrightarrow> translatable nm k \<and> translatable nm v"
| "translatable nm (OtherExpr _) = False"

lemma map_sum_ok: "(\<exists>s. map_sum id f x = Inr s) \<longleftrightarrow> (\<exists>s. x = Inr s)"
  by (cases x) auto

lemma convertTypeExpr_ok: "(\<exists>s. convertTypeExpr nm e = Inr s) \<longleftrightarrow> translatable nm e"
proof (induction e)
  case (SelectorExpr x sel)
  then show ?case by (simp split: type_expr.splits)
next
  case (MapType k v)
  then show ?case by (cases "convertTypeExpr nm k") (auto simp: map_sum_ok)
qed (auto simp: map_sum_ok split: option.splits)

definition translatable_field :: "(string \<rightharpoonup> string) \<Rightarrow> ast_field \<Rightarrow> bool" where
  "translatable_field nm f \<longleftrightarrow>
     af_Names f = [] \<or> koanfKey f = [] \<or> koanfKey f = ''-'' \<or> translatable nm (af_Type f)"

definition translatable_type :: "(string \<rightharpoonup> string) \<Rightarrow> (string \<rightharpoonup> type_spec) \<Rightarrow> string \<Rightarrow> bool" where
  "translatable_type nm idx t =
     (case idx t of None \<Rightarrow> False
      | Some ts \<Rightarrow> (case ts_Type ts of OtherType \<Rightarrow> False | StructType fs \<Rightarrow> list_all (translatable_field nm) fs))"

lemma convertField_ok: "(\<exists>x. convertField nm f = Inr x) \<longleftrightarrow> translatable_field nm f"
  unfolding translatable_field_def convertTypeExpr_ok [symmetric]
  by (auto simp: convertField_def Let_def split: list.splits sum.splits)

lemma sum_map_ok: "(\<exists>ys. sum_map f xs = Inr ys) \<longleftrightarrow> (\<forall>x \<in> set xs. \<exists>y. f x = Inr y)"
proof (induction xs)
  case (Cons x xs)
  then show ?case by (cases "f x"; cases "sum_map f xs") auto
qed simp

lemma generateType_ok: "(\<exists>y. generateType nm idx path entry = Inr y) \<longleftrightarrow> translatable_type nm idx (fst entry)"
proof -
  have ok: "(\<exists>ys. sum_map (convertField nm) fs = Inr ys) \<longleftrightarrow> list_all (translatable_field nm) fs" for fs
    unfolding sum_map_ok convertField_ok list_all_iff ..
  show ?thesis unfolding translatable_type_def ok [symmetric]
    by (auto simp: generateType_def split: option.splits ast_type.splits sum.splits)
qed

text \<open>The mirror types can be generated exactly when the file parses, every listed type is declared as a
  struct, every field with a key has a type the generator can name, and the text put together is
  valid Go.\<close>

theorem spec_generated_iff:
  "(\<exists>content. GenerateSpecContent lib fs path = Inr content) \<longleftrightarrow>
     (\<exists>src decls. fs path = Some src \<and> ct_parse lib src = Inr decls \<and>
        list_all (translatable_type (map_of SpecMapping) (buildTypeIndex decls) \<circ> fst) SpecMapping \<and>
        (\<exists>types out. sum_map (generateType (map_of SpecMapping) (buildTypeIndex decls) path) SpecMapping = Inr types \<and>
           ct_format lib (spec_header @ concat (map renderType types)) = Inr out))"
proof -
  have all: "(\<exists>ts. sum_map (generateType nm idx path) ms = Inr ts) \<longleftrightarrow> list_all (translatable_type nm idx \<circ> fst) ms" for nm idx ms
    unfolding sum_map_ok list_all_iff generateType_ok by simp
  have "(\<exists>content. GenerateSpecContent lib fs path = Inr content) \<longleftrightarrow>
      (\<exists>src decls types out. fs path = Some src \<and> ct_parse lib src = Inr decls \<and>
         sum_map (generateType (map_of SpecMapping) (buildTypeIndex decls) path) SpecMapping = Inr types \<and>
         ct_format lib (spec_header @ concat (map renderType types)) = Inr out)"
    by (auto simp: GenerateSpecContent_def renderSpecContent_def Let_def split: option.splits sum.splits)
  with all [of "map_of SpecMapping" _ SpecMapping] show ?thesis by blast
qed

section \<open>Generating and linting\<close>

text \<open>What \<^verbatim>\<open>controller-gen\<close> does: its manifests depend on the sources only, not on the manifests of the
  charts nor on the deep copies, which are the only file it may change, and only when asked to.\<close>

definition deepcopyPath :: "string \<Rightarrow> string" where
  "deepcopyPath repo = joinPath repo ''pkg/crd/v1alpha1/zz_generated.deepcopy.go''"

definition crd_files :: "string \<Rightarrow> string set" where
  "crd_files repo = insert (deepcopyPath repo) (crdPath repo ` snd ` set crdRenames)"

definition controller_gen_laws :: "tool_lib \<Rightarrow> string \<Rightarrow> bool" where
  "controller_gen_laws lib repo \<longleftrightarrow>
     (\<forall>obj tmp fs out fs1. runControllerGen lib obj repo tmp fs = Inr (out, fs1) \<longrightarrow>
        (\<forall>p. p \<noteq> deepcopyPath repo \<longrightarrow> fs1 p = fs p) \<and> (\<not> obj \<longrightarrow> fs1 = fs) \<and>
        (\<forall>fs2. (\<forall>p. p \<notin> crd_files repo \<longrightarrow> fs2 p = fs p) \<longrightarrow> runControllerGen lib False repo tmp fs2 = Inr (out, fs2)))"

lemma repo_paths:
  "configSource repo \<noteq> joinPath repo SpecGenPath" "configSource repo \<notin> crd_files repo"
  "joinPath repo SpecGenPath \<notin> crd_files repo"
  "deepcopyPath repo \<noteq> crdPath repo ''mcpproxy.yaml''" "deepcopyPath repo \<noteq> crdPath repo ''mcpupstream.yaml''"
  "crdPath repo ''mcpproxy.yaml'' \<noteq> crdPath repo ''mcpupstream.yaml''"
  by (auto simp: configSource_def joinPath_def SpecGenPath_def crd_files_def deepcopyPath_def crdPath_def crdRenames_def)

lemma writeCrds_done:
  assumes "writeCrds lib repo out rs fs = (None, fs')" and "distinct (map snd rs)"
    and "\<forall>(src, dst) \<in> set rs. out src \<noteq> None"
  shows "(\<forall>(src, dst) \<in> set rs. fs' (crdPath repo dst) = out src) \<and>
    (\<forall>p. p \<notin> crdPath repo ` snd ` set rs \<longrightarrow> fs' p = fs p)"
  using assms
proof (induction rs arbitrary: fs)
  case (Cons r rs)
  obtain src dst where r: "r = (src, dst)" by (cases r)
  from Cons.prems(3) obtain d where d: "out src = Some d" by (auto simp: r)
  have w: "writeCrds lib repo out rs (fs(crdPath repo dst \<mapsto> d)) = (None, fs')"
    using Cons.prems(1) by (simp add: r d writeFile_def split: option.splits)
  have inj: "crdPath repo a = crdPath repo b \<longleftrightarrow> a = b" for a b by (simp add: crdPath_def joinPath_def)
  from Cons.IH [OF w] Cons.prems(2,3)
  have IH: "\<forall>(src, dst) \<in> set rs. fs' (crdPath repo dst) = out src"
    "\<forall>p. p \<notin> crdPath repo ` snd ` set rs \<longrightarrow> fs' p = (fs(crdPath repo dst \<mapsto> d)) p" by (auto simp: r)
  have "crdPath repo dst \<notin> crdPath repo ` snd ` set rs" using Cons.prems(2) by (force simp: r inj)
  with IH d show ?case by (auto simp: r)
qed simp

lemma GenerateSpecContent_source:
  "fs p = fs' p \<Longrightarrow> GenerateSpecContent lib fs p = GenerateSpecContent lib fs' p"
  by (simp add: GenerateSpecContent_def)

lemma crd_range:
  assumes "permutes_range \<sigma>"
  shows "set (\<sigma> crdRenames) = set crdRenames" and "distinct (map snd (\<sigma> crdRenames))"
proof -
  from assms have m: "mset (\<sigma> crdRenames) = mset crdRenames" by (simp add: permutes_range_def)
  then show "set (\<sigma> crdRenames) = set crdRenames" by (metis set_mset_mset)
  have "distinct (map snd crdRenames)" by (simp add: crdRenames_def)
  with m show "distinct (map snd (\<sigma> crdRenames))" by (metis mset_eq_imp_distinct_iff mset_map)
qed

text \<open>What a successful generation leaves.\<close>

lemma runCrdgen_done:
  assumes "runCrdgen lib \<sigma> caller wd fs = (None, fs')" and "genRepoRoot fs caller wd = Inr repo"
    and "controller_gen_laws lib repo" and "permutes_range \<sigma>"
  obtains content out tmp where "GenerateSpecContent lib fs' (configSource repo) = Inr content"
    and "fs' (joinPath repo SpecGenPath) = Some content" and "ct_tmp lib = Inr tmp"
    and "runControllerGen lib False repo tmp fs' = Inr (out, fs')"
    and "\<forall>(src, dst) \<in> set crdRenames. out src \<noteq> None \<and> fs' (crdPath repo dst) = out src"
proof -
  from assms(1,2) obtain fs1 out fs2 tmp where w: "WriteSpecFile lib repo fs = (None, fs1)" and tmp: "ct_tmp lib = Inr tmp"
    and cg: "runControllerGen lib True repo tmp fs1 = Inr (out, fs2)"
    and all: "find (\<lambda>(src, dst). out src = None) (\<sigma> crdRenames) = None"
    and wr: "writeCrds lib repo out (\<sigma> crdRenames) fs2 = (None, fs')"
    by (auto simp: runCrdgen_def split: prod.splits option.splits sum.splits)
  from w obtain content where c: "GenerateSpecContent lib fs (configSource repo) = Inr content"
    and fs1: "fs1 = fs(joinPath repo SpecGenPath \<mapsto> content)"
    by (auto simp: WriteSpecFile_def writeFile_def split: sum.splits option.splits)
  note r = crd_range [OF assms(4)]
  have some: "\<forall>(src, dst) \<in> set (\<sigma> crdRenames). out src \<noteq> None" using all by (auto simp: find_None_iff)
  from writeCrds_done [OF wr r(2) some] r(1)
  have files: "\<forall>(src, dst) \<in> set crdRenames. fs' (crdPath repo dst) = out src"
    and rest: "\<forall>p. p \<notin> crdPath repo ` snd ` set crdRenames \<longrightarrow> fs' p = fs2 p" by auto
  from assms(3) cg have law: "\<forall>p. p \<noteq> deepcopyPath repo \<longrightarrow> fs2 p = fs1 p"
    and det: "\<forall>fs3. (\<forall>p. p \<notin> crd_files repo \<longrightarrow> fs3 p = fs1 p) \<longrightarrow> runControllerGen lib False repo tmp fs3 = Inr (out, fs3)"
    unfolding controller_gen_laws_def by blast+
  have same: "fs' p = fs1 p" if "p \<notin> crd_files repo" for p
    using that rest law by (auto simp: crd_files_def)
  show thesis
  proof (rule that)
    show "GenerateSpecContent lib fs' (configSource repo) = Inr content"
      using c GenerateSpecContent_source [of fs' "configSource repo" fs lib] same [of "configSource repo"] repo_paths(1,2) [of repo]
      by (simp add: fs1)
    show "fs' (joinPath repo SpecGenPath) = Some content"
      using same [of "joinPath repo SpecGenPath"] repo_paths(3) [of repo] by (simp add: fs1)
    show "ct_tmp lib = Inr tmp" by (rule tmp)
    show "runControllerGen lib False repo tmp fs' = Inr (out, fs')" using det same by blast
    show "\<forall>(src, dst) \<in> set crdRenames. out src \<noteq> None \<and> fs' (crdPath repo dst) = out src"
      using files some r(1) by auto
  qed
qed

text \<open>C36: after \<^verbatim>\<open>crdgen\<close> has run without an error, \<^verbatim>\<open>crdlint\<close> accepts the repository, in whatever order
  either of them visits the manifests.\<close>

theorem generated_files_lint_clean:
  assumes "runCrdgen lib \<sigma> caller wd fs = (None, fs')" and "genRepoRoot fs caller wd = Inr repo"
    and "controller_gen_laws lib repo" and "permutes_range \<sigma>" and "permutes_range \<tau>"
    and "findRepoRootFromWd fs' wd' = Inr repo"
  shows "runCrdlint lib \<tau> wd' fs' = Inr True"
  using assms(1-4)
proof (rule runCrdgen_done)
  fix content out tmp
  assume c: "GenerateSpecContent lib fs' (configSource repo) = Inr content" "fs' (joinPath repo SpecGenPath) = Some content"
    and t: "ct_tmp lib = Inr tmp" and cg: "runControllerGen lib False repo tmp fs' = Inr (out, fs')"
    and f: "\<forall>(src, dst) \<in> set crdRenames. out src \<noteq> None \<and> fs' (crdPath repo dst) = out src"
  from c have v: "ValidateSpecFile lib repo fs' = Inr True" by (simp add: ValidateSpecFile_def)
  have "sum_map (lintCrd lib repo tmp out fs') es = Inr (map (\<lambda>_. True) es)" if "set es \<subseteq> set crdRenames" for es
    using that
  proof (induction es)
    case (Cons e es)
    from f Cons.prems obtain d where "out (fst e) = Some d" "fs' (crdPath repo (snd e)) = Some d" by (cases e) auto
    with Cons show ?case by (simp add: lintCrd_def)
  qed simp
  from this [of "\<tau> crdRenames"] crd_range(1) [OF assms(5)] show ?thesis
    using v t cg assms(6) by (simp add: runCrdlint_def list_all_iff)
qed

text \<open>A repository whose configuration types have no fields.\<close>

definition sample_tools :: tool_lib where
  "sample_tools =
     \<lparr>ct_parse = (\<lambda>src. Inr [TypeDecl None (map (\<lambda>(t, _). \<lparr>ts_Name = t, ts_Doc = None, ts_Type = StructType []\<rparr>) SpecMapping)]),
      ct_format = Inr, ct_sha = id, ct_write = (\<lambda>p. None), ct_mkdir = (\<lambda>p. None), ct_tmp = Inr ''/tmp'',
      ct_go = (\<lambda>args repo fs. Inr (map_of (map (\<lambda>(src, dst). (src, dst)) crdRenames), fs))\<rparr>"

definition sample_files :: files where
  "sample_files = [''/r/go.mod'' \<mapsto> [], ''/r/pkg/config/config.go'' \<mapsto> []]"

lemma generated_files_lint_clean_witness:
  "\<exists>fs'. runCrdgen sample_tools id None (Inr ''/r'') sample_files = (None, fs') \<and> runCrdlint sample_tools rev (Inr ''/r'') fs' = Inr True"
proof -
  obtain fs' where r: "runCrdgen sample_tools id None (Inr ''/r'') sample_files = (None, fs')"
  proof -
    have "case runCrdgen sample_tools id None (Inr ''/r'') sample_files of (None, _) \<Rightarrow> True | _ \<Rightarrow> False" by code_simp
    then show thesis
      by (cases "runCrdgen sample_tools id None (Inr ''/r'') sample_files") (auto intro: that split: option.splits)
  qed
  have g: "genRepoRoot sample_files None (Inr ''/r'') = Inr ''/r''" by code_simp
  have l: "controller_gen_laws sample_tools ''/r''" by (simp add: controller_gen_laws_def runControllerGen_def sample_tools_def)
  have "case findRepoRootFromWd (snd (runCrdgen sample_tools id None (Inr ''/r'') sample_files)) (Inr ''/r'') of Inl _ \<Rightarrow> False | Inr d \<Rightarrow> d = ''/r''" by code_simp
  then have f: "findRepoRootFromWd fs' (Inr ''/r'') = Inr ''/r''" by (simp add: r split: sum.splits)
  have p: "permutes_range id" "permutes_range rev" by (simp_all add: permutes_range_def)
  from generated_files_lint_clean [OF r g l p f] r show ?thesis by blast
qed

text \<open>And a repository that \<^verbatim>\<open>crdlint\<close> accepts holds exactly what the generators would write.\<close>

theorem lint_clean_iff_generated:
  assumes "findRepoRootFromWd fs wd = Inr repo" and "inj (ct_sha lib)" and "ct_tmp lib = Inr tmp" and "permutes_range \<sigma>"
    and "runControllerGen lib False repo tmp fs = Inr (out, fs)"
  shows "runCrdlint lib \<sigma> wd fs = Inr True \<longleftrightarrow>
    (\<exists>content. GenerateSpecContent lib fs (configSource repo) = Inr content \<and>
       fs (joinPath repo SpecGenPath) = Some content) \<and>
    (\<forall>(src, dst) \<in> set crdRenames. out src \<noteq> None \<and> fs (crdPath repo dst) = out src)"
proof -
  have v: "ValidateSpecFile lib repo fs = Inr True \<longleftrightarrow> (\<exists>content. GenerateSpecContent lib fs (configSource repo) = Inr content \<and>
       fs (joinPath repo SpecGenPath) = Some content)"
    using assms(2) by (auto simp: ValidateSpecFile_def inj_eq split: sum.splits option.splits)
  have one: "lintCrd lib repo tmp out fs entry = Inr True \<longleftrightarrow> out (fst entry) \<noteq> None \<and> fs (crdPath repo (snd entry)) = out (fst entry)" for entry
    using assms(2) by (auto simp: lintCrd_def inj_eq split: option.splits)
  have all: "(\<exists>oks. sum_map (lintCrd lib repo tmp out fs) es = Inr oks \<and> list_all id oks) \<longleftrightarrow>
      (\<forall>entry \<in> set es. lintCrd lib repo tmp out fs entry = Inr True)" for es
  proof (induction es)
    case (Cons entry es)
    show ?case
    proof (cases "lintCrd lib repo tmp out fs entry")
      case (Inr b)
      with Cons show ?thesis by (cases "sum_map (lintCrd lib repo tmp out fs) es") auto
    qed simp
  qed simp
  have "runCrdlint lib \<sigma> wd fs = Inr True \<longleftrightarrow> ValidateSpecFile lib repo fs = Inr True \<and>
      (\<exists>oks. sum_map (lintCrd lib repo tmp out fs) (\<sigma> crdRenames) = Inr oks \<and> list_all id oks)"
  proof (cases "ValidateSpecFile lib repo fs")
    case (Inr b)
    show ?thesis
      by (cases "sum_map (lintCrd lib repo tmp out fs) (\<sigma> crdRenames)") (simp_all add: runCrdlint_def assms(1,3,5) Inr)
  qed (simp add: runCrdlint_def assms(1))
  then show ?thesis unfolding v all one crd_range(1) [OF assms(4)] by (auto simp: split_paired_all)
qed

text \<open>The analyzer agrees with the command: for the package of the custom resources it reports nothing
  exactly when the command accepts.\<close>

theorem analyzer_agrees_with_lint:
  assumes "findUp fs (pathDir file) = Inr repo" and "findRepoRootFromWd fs wd = Inr repo"
    and "pathDir file = joinPath repo ''pkg/crd/v1alpha1''"
  shows "runAnalyzer lib \<sigma> (Some file # files) fs = Inr [] \<longleftrightarrow> runCrdlint lib \<sigma> wd fs = Inr True"
proof -
  have all: "(\<exists>rs. sum_map (reportCrd lib repo tmp out fs') es = Inr rs \<and> concat rs = []) \<longleftrightarrow>
      (\<exists>oks. sum_map (lintCrd lib repo tmp out fs') es = Inr oks \<and> list_all id oks)" for tmp out fs' es
  proof (induction es)
    case (Cons entry es)
    have one: "(case reportCrd lib repo tmp out fs' entry of Inl _ \<Rightarrow> (\<exists>e. lintCrd lib repo tmp out fs' entry = Inl e)
        | Inr r \<Rightarrow> lintCrd lib repo tmp out fs' entry = Inr (r = []))"
      by (simp add: reportCrd_def lintCrd_def Let_def split: option.splits)
    show ?case
    proof (cases "reportCrd lib repo tmp out fs' entry")
      case (Inl e)
      with one show ?thesis by auto
    next
      case (Inr r)
      with one have l: "lintCrd lib repo tmp out fs' entry = Inr (r = [])" by simp
      show ?thesis using Cons Inr l
        by (cases "sum_map (reportCrd lib repo tmp out fs') es"; cases "sum_map (lintCrd lib repo tmp out fs') es") auto
    qed
  qed simp
  have f: "passRepoRoot fs (Some file) = Inr repo" using assms(1) by (simp add: passRepoRoot_def)
  show ?thesis
  proof (cases "ValidateSpecFile lib repo fs")
    case v: (Inr b)
    show ?thesis
    proof (cases "ct_tmp lib")
      case t: (Inr tmp)
      show ?thesis
      proof (cases "runControllerGen lib False repo tmp fs")
        case cg: (Inr p)
        obtain out fs' where p: "p = (out, fs')" by (cases p)
        from all [of tmp out fs' "\<sigma> crdRenames"] show ?thesis
          by (cases "sum_map (reportCrd lib repo tmp out fs') (\<sigma> crdRenames)"; cases "sum_map (lintCrd lib repo tmp out fs') (\<sigma> crdRenames)")
            (auto simp: runAnalyzer_def runCrdlint_def f assms(2,3) v t cg p)
      qed (simp add: runAnalyzer_def runCrdlint_def f assms(2,3) v t)
    qed (simp add: runAnalyzer_def runCrdlint_def f assms(2,3) v)
  qed (simp add: runAnalyzer_def runCrdlint_def f assms(2,3))
qed

end
