(* ===== verification/WriteFile.thy ===== *)
theory WriteFile
  imports CrdTools "HOL-Library.Sublist"
begin

text \<open>
  The helper command \<^verbatim>\<open>write-file\<close> (\<^verbatim>\<open>cmd/testhelpers/write-file\<close>) that a command upstream of the tests
  runs: it writes one file, atomically, and only below the workspace. The lexical part of
  \<^verbatim>\<open>path/filepath\<close> is defined; creating directories and files may fail as the parameters say.
\<close>

section \<open>Clean paths\<close>

text \<open>\<^verbatim>\<open>filepath.Clean\<close>: the elements left of a path, in reverse.\<close>

fun clean_step :: "bool \<Rightarrow> string \<Rightarrow> string list \<Rightarrow> string list" where
  "clean_step rooted seg acc =
     (if seg = [] \<or> seg = ''.'' then acc
      else if seg = ''..'' then
        (case acc of
           [] \<Rightarrow> if rooted then [] else [seg]
         | a # as \<Rightarrow> if a = ''..'' then seg # acc else as)
      else seg # acc)"

definition clean_segs :: "string \<Rightarrow> string list" where
  "clean_segs p = rev (fold (clean_step (has_prefix p ''/'')) (split_char (CHR ''/'') p) [])"

definition rooted_path :: "string list \<Rightarrow> string" where
  "rooted_path segs = (if segs = [] then ''/'' else concat (map (\<lambda>s. CHR ''/'' # s) segs))"

definition IsAbs :: "string \<Rightarrow> bool" where
  "IsAbs p \<longleftrightarrow> has_prefix p ''/''"

definition Clean :: "string \<Rightarrow> string" where
  "Clean p =
     (let segs = clean_segs p in
      if IsAbs p then rooted_path segs
      else if segs = [] then ''.'' else join_with ''/'' segs)"

text \<open>\<^verbatim>\<open>filepath.Join\<close> and \<^verbatim>\<open>filepath.Abs\<close>; \<^term>\<open>wd\<close> is the working directory.\<close>

definition Join2 :: "string \<Rightarrow> string \<Rightarrow> string" where
  "Join2 a b = (let ps = filter (\<lambda>p. p \<noteq> []) [a, b] in if ps = [] then [] else Clean (join_with ''/'' ps))"

definition Abs :: "(goerr + string) \<Rightarrow> string \<Rightarrow> goerr + string" where
  "Abs wd p = (if IsAbs p then Inr (Clean p) else map_sum id (\<lambda>d. Join2 d p) wd)"

section \<open>Writing\<close>

record write_lib =
  wf_wd :: "goerr + string"
  wf_mkdir :: "string \<Rightarrow> goerr option"
  wf_temp :: "string \<Rightarrow> goerr + string"
  wf_write :: "goerr option"
  wf_close :: "goerr option"
  wf_rename :: "string \<Rightarrow> string \<Rightarrow> goerr option"

definition targetPath :: "string \<Rightarrow> string \<Rightarrow> string" where
  "targetPath absRoot target = (if IsAbs target then Clean target else Clean (Join2 absRoot target))"

definition inWorkspace :: "string \<Rightarrow> string \<Rightarrow> bool" where
  "inWorkspace absRoot absTarget \<longleftrightarrow> has_prefix (absTarget @ ''/'') (absRoot @ ''/'')"

text \<open>The temporary file is removed by the deferred function on every failure.\<close>

definition writeAtomically :: "write_lib \<Rightarrow> string \<Rightarrow> string \<Rightarrow> files \<Rightarrow> goerr option \<times> files" where
  "writeAtomically lib absTarget content fs =
     (case wf_temp lib (pathDir absTarget) of
        Inl e \<Rightarrow> (Some (ErrWrap (''creating temp file in '' @ go_quote (pathDir absTarget)) e), fs)
      | Inr tmp \<Rightarrow>
          (let failed = (\<lambda>e. (Some e, fs(tmp := None))) in
           case wf_write lib of Some e \<Rightarrow> failed (ErrWrap ''writing content to temp file'' e)
           | None \<Rightarrow>
               (case wf_close lib of Some e \<Rightarrow> failed (ErrWrap ''closing temp file'' e)
                | None \<Rightarrow>
                    (case wf_rename lib tmp absTarget of
                       Some e \<Rightarrow> failed (ErrWrap (''renaming temp file to '' @ go_quote absTarget) e)
                     | None \<Rightarrow> (None, (fs(tmp := None))(absTarget \<mapsto> content))))))"

definition writeWorkspaceFile ::
    "write_lib \<Rightarrow> string \<Rightarrow> string \<Rightarrow> string \<Rightarrow> files \<Rightarrow> goerr option \<times> files" where
  "writeWorkspaceFile lib workspace target content fs =
     (case Abs (wf_wd lib) workspace of
        Inl e \<Rightarrow> (Some (ErrWrap (''resolving workspace root '' @ go_quote workspace) e), fs)
      | Inr absRoot \<Rightarrow>
          (let absTarget = targetPath absRoot target in
           if \<not> inWorkspace absRoot absTarget
           then (Some (ErrText (''path '' @ go_quote target @ '' is outside workspace root '' @ go_quote workspace)), fs)
           else (case wf_mkdir lib (pathDir absTarget) of
                   Some e \<Rightarrow> (Some (ErrWrap (''creating parent directories for '' @ go_quote absTarget) e), fs)
                 | None \<Rightarrow> writeAtomically lib absTarget content fs)))"

text \<open>\<^verbatim>\<open>main\<close>: the exit status; the arguments include the program's name.\<close>

definition mainWriteFile :: "write_lib \<Rightarrow> string list \<Rightarrow> string \<Rightarrow> files \<Rightarrow> nat \<times> files" where
  "mainWriteFile lib args workspaceEnv fs =
     (case args of
        [_, target, content] \<Rightarrow>
          (let workspace = (if workspaceEnv = [] then ''/workspace'' else workspaceEnv) in
           case writeWorkspaceFile lib workspace target content fs of
             (Some e, fs) \<Rightarrow> (1, fs) | (None, fs) \<Rightarrow> (0, fs))
      | _ \<Rightarrow> (1, fs))"

section \<open>Properties\<close>

definition proper_seg :: "string \<Rightarrow> bool" where
  "proper_seg s \<longleftrightarrow> s \<noteq> [] \<and> s \<noteq> ''.'' \<and> s \<noteq> ''..'' \<and> CHR ''/'' \<notin> set s"

lemma split_char_no_sep: "w \<in> set (split_char c s) \<Longrightarrow> c \<notin> set w"
  by (induction c s arbitrary: w rule: split_char.induct) (auto split: if_splits list.splits)

lemma rooted_steps:
  assumes "\<forall>w \<in> set ws. CHR ''/'' \<notin> set w" and "\<forall>s \<in> set acc. proper_seg s"
  shows "\<forall>s \<in> set (fold (clean_step True) ws acc). proper_seg s"
  using assms
proof (induction ws arbitrary: acc)
  case (Cons w ws)
  have "\<forall>s \<in> set (clean_step True w acc). proper_seg s"
    using Cons.prems by (auto simp: proper_seg_def split: list.splits)
  with Cons show ?case by simp
qed simp

text \<open>A clean rooted path has no empty, \<^verbatim>\<open>.\<close> or \<^verbatim>\<open>..\<close> element.\<close>

lemma clean_segs_proper:
  assumes "IsAbs p"
  shows "\<forall>s \<in> set (clean_segs p). proper_seg s"
  using rooted_steps [of "split_char (CHR ''/'') p" "[]"] split_char_no_sep [of _ "CHR ''/''" p] assms
  by (auto simp: clean_segs_def IsAbs_def)

lemma seg_split:
  assumes "CHR ''/'' \<notin> set s" "CHR ''/'' \<notin> set t" "s @ CHR ''/'' # u = t @ CHR ''/'' # v"
  shows "s = t \<and> u = v"
  using assms
proof (induction s arbitrary: t)
  case Nil
  then show ?case by (cases t) auto
next
  case (Cons x s)
  then show ?case by (cases t) auto
qed

text \<open>The textual check compares element lists.\<close>

lemma rooted_prefix:
  assumes "\<forall>s \<in> set rs. proper_seg s" and "\<forall>s \<in> set ts. proper_seg s" and "rs \<noteq> []"
  shows "inWorkspace (rooted_path rs) (rooted_path ts) \<longleftrightarrow> prefix rs ts"
proof -
  let ?c = "\<lambda>ss. concat (map (\<lambda>s. CHR ''/'' # s) ss) @ ''/''"
  have c_Nil: "?c [] = ''/''" and c_Cons: "?c (s # ss) = CHR ''/'' # s @ ?c ss" for s ss by simp_all
  have c_slash: "\<exists>x. ?c ss = CHR ''/'' # x" for ss by (cases ss) auto
  have P: "(\<exists>z. ?c ts = ?c rs @ z) \<longleftrightarrow> prefix rs ts" if "\<forall>s \<in> set rs. proper_seg s" "\<forall>s \<in> set ts. proper_seg s" for rs ts
    using that
  proof (induction rs arbitrary: ts)
    case Nil
    from c_slash [of ts] show ?case by (auto simp: c_Nil)
  next
    case (Cons r rs)
    show ?case
    proof (cases ts)
      case Nil
      then show ?thesis using Cons.prems(1) by (auto simp: proper_seg_def)
    next
      case ts: (Cons t ts')
      obtain x where x: "?c rs = CHR ''/'' # x" using c_slash by blast
      obtain y where y: "?c ts' = CHR ''/'' # y" using c_slash by blast
      have n: "CHR ''/'' \<notin> set r" "CHR ''/'' \<notin> set t" using Cons.prems by (auto simp: ts proper_seg_def)
      have "(\<exists>z. ?c ts = ?c (r # rs) @ z) \<longleftrightarrow> (\<exists>z. t @ CHR ''/'' # y = r @ CHR ''/'' # (x @ z))"
        unfolding ts c_Cons x y by simp
      also have "\<dots> \<longleftrightarrow> t = r \<and> (\<exists>z. y = x @ z)" using seg_split [OF n(2,1)] by blast
      also have "(\<exists>z. y = x @ z) \<longleftrightarrow> (\<exists>z. ?c ts' = ?c rs @ z)" unfolding x y by simp
      also have "\<dots> \<longleftrightarrow> prefix rs ts'" using Cons.IH [of ts'] Cons.prems by (simp add: ts)
      finally show ?thesis by (auto simp: ts)
    qed
  qed
  have hp: "has_prefix a b \<longleftrightarrow> (\<exists>z. a = b @ z)" for a b
    unfolding has_prefix_def by (metis append_eq_conv_conj)
  show ?thesis
  proof (cases "ts = []")
    case True
    obtain r rs' where rs: "rs = r # rs'" using assms(3) by (cases rs) auto
    have "\<not> (\<exists>z. ''//'' = ?c rs @ z)"
      using assms(1) by (auto simp: rs proper_seg_def Cons_eq_append_conv)
    with True rs show ?thesis by (simp add: inWorkspace_def hp rooted_path_def)
  next
    case False
    with P [OF assms(1,2)] assms(3) show ?thesis by (simp add: inWorkspace_def hp rooted_path_def)
  qed
qed

text \<open>A path rendered from proper elements reads back as those elements, so \<^verbatim>\<open>Clean\<close> is idempotent on
  absolute paths.\<close>

lemma split_char_plain: "c \<notin> set s \<Longrightarrow> split_char c s = [s]"
  by (induction s) auto

lemma split_char_seg: "c \<notin> set s \<Longrightarrow> split_char c (s @ c # r) = s # split_char c r"
  by (induction s) auto

lemma split_char_rooted:
  assumes "\<forall>s \<in> set ss. proper_seg s" and "ss \<noteq> []"
  shows "split_char (CHR ''/'') (concat (map (\<lambda>s. CHR ''/'' # s) ss)) = [] # ss"
  using assms
proof (induction ss)
  case (Cons s ss)
  from Cons.prems have n: "CHR ''/'' \<notin> set s" by (simp add: proper_seg_def)
  show ?case
  proof (cases ss)
    case Nil
    with n show ?thesis by (simp add: split_char_plain)
  next
    case (Cons t ts)
    with Cons.IH Cons.prems n show ?thesis by (simp add: split_char_seg)
  qed
qed simp

lemma proper_steps: "\<forall>s \<in> set ss. proper_seg s \<Longrightarrow> fold (clean_step r) ss acc = rev ss @ acc"
  by (induction ss arbitrary: acc) (auto simp: proper_seg_def)

lemma clean_segs_rooted:
  assumes "\<forall>s \<in> set ss. proper_seg s"
  shows "clean_segs (rooted_path ss) = ss"
proof (cases "ss = []")
  case True
  then show ?thesis by (simp add: clean_segs_def rooted_path_def has_prefix_def)
next
  case False
  then show ?thesis
    by (simp add: clean_segs_def rooted_path_def split_char_rooted [OF assms] proper_steps [OF assms])
qed

lemma Clean_abs: "IsAbs p \<Longrightarrow> Clean p = rooted_path (clean_segs p)"
  by (simp add: Clean_def)

lemma IsAbs_rooted: "IsAbs (rooted_path ss)"
  by (cases ss) (auto simp: IsAbs_def rooted_path_def has_prefix_def)

lemma clean_segs_Clean: "IsAbs p \<Longrightarrow> clean_segs (Clean p) = clean_segs p"
  by (simp add: Clean_abs clean_segs_rooted clean_segs_proper)

lemma targetPath_rooted:
  assumes "IsAbs rt"
  obtains p where "IsAbs p" "targetPath rt target = Clean p"
proof (cases "IsAbs target")
  case True
  with that show ?thesis by (simp add: targetPath_def)
next
  case False
  have "\<exists>q. IsAbs q \<and> Join2 rt target = Clean q"
  proof (cases "target = []")
    case True
    with assms show ?thesis by (intro exI [of _ rt]) (auto simp: Join2_def IsAbs_def has_prefix_def)
  next
    case ne: False
    with assms show ?thesis
      by (intro exI [of _ "rt @ ''/'' @ target"]) (cases rt, auto simp: Join2_def IsAbs_def has_prefix_def)
  qed
  then obtain q where q: "IsAbs q" "Join2 rt target = Clean q" by blast
  then show ?thesis using that [of "Clean q"] False by (simp add: targetPath_def Clean_abs IsAbs_rooted)
qed

text \<open>The check accepts exactly the targets whose clean path extends the workspace's.\<close>

lemma accepted_iff_below:
  assumes "IsAbs workspace" and "clean_segs workspace \<noteq> []"
  shows "inWorkspace (Clean workspace) (targetPath (Clean workspace) target) \<longleftrightarrow>
    prefix (clean_segs workspace) (clean_segs (targetPath (Clean workspace) target))"
proof -
  obtain p where p: "IsAbs p" "targetPath (Clean workspace) target = Clean p"
    using targetPath_rooted [of "Clean workspace"] assms(1) by (auto simp: Clean_abs IsAbs_rooted)
  show ?thesis
    using rooted_prefix [OF clean_segs_proper [OF assms(1)] clean_segs_proper [OF p(1)] assms(2)]
    by (simp add: p clean_segs_Clean) (simp add: Clean_abs assms(1) p(1))
qed

lemma target_has_no_dotdot:
  assumes "IsAbs workspace" and "s \<in> set (clean_segs (targetPath (Clean workspace) target))"
  shows "s \<noteq> ''..''"
proof -
  obtain p where p: "IsAbs p" "targetPath (Clean workspace) target = Clean p"
    using targetPath_rooted [of "Clean workspace"] assms(1) by (auto simp: Clean_abs IsAbs_rooted)
  show ?thesis using clean_segs_proper [OF p(1)] assms(2) by (auto simp: p clean_segs_Clean proper_seg_def)
qed

lemma writeAtomically_all_or_nothing:
  assumes "\<And>d tmp. wf_temp lib d = Inr tmp \<Longrightarrow> fs tmp = None"
    and "writeAtomically lib path content fs = (err, fs')"
  shows "fs' = (if err \<noteq> None then fs else fs(path \<mapsto> content))"
proof -
  have "fs(tmp := None) = fs" if "wf_temp lib d = Inr tmp" for d tmp
    using assms(1) [OF that] by (simp add: fun_upd_idem)
  with assms(2) show ?thesis
    by (auto simp: writeAtomically_def Let_def split: sum.splits option.splits)
qed

text \<open>C22: a write below a workspace other than the file system's root either changes nothing at all or
  changes exactly one file, to exactly the content, and the clean path of that file starts with all
  elements of the workspace's; a target that climbs out with \<^verbatim>\<open>..\<close> is refused.\<close>

theorem writes_are_atomic_and_contained:
  assumes "IsAbs workspace" and "clean_segs workspace \<noteq> []"
    and "\<And>d tmp. wf_temp lib d = Inr tmp \<Longrightarrow> fs tmp = None"
    and "writeWorkspaceFile lib workspace target content fs = (err, fs')"
  shows "if err \<noteq> None then fs' = fs
    else (let path = targetPath (Clean workspace) target in
      fs' = fs(path \<mapsto> content) \<and> prefix (clean_segs workspace) (clean_segs path) \<and>
      (\<forall>s \<in> set (clean_segs path). s \<noteq> ''..''))"
proof -
  let ?path = "targetPath (Clean workspace) target"
  have abs: "Abs (wf_wd lib) workspace = Inr (Clean workspace)" using assms(1) by (simp add: Abs_def)
  show ?thesis
  proof (cases "inWorkspace (Clean workspace) ?path \<and> wf_mkdir lib (pathDir ?path) = None")
    case True
    then have "writeAtomically lib ?path content fs = (err, fs')"
      using assms(4) by (simp add: writeWorkspaceFile_def abs Let_def)
    from writeAtomically_all_or_nothing [OF assms(3) this] True
    show ?thesis
      using accepted_iff_below [OF assms(1,2), of target] target_has_no_dotdot [OF assms(1), of _ target]
      by (simp add: Let_def)
  next
    case False
    then show ?thesis using assms(4)
      by (auto simp: writeWorkspaceFile_def abs Let_def split: if_splits option.splits)
  qed
qed

definition sample_write :: write_lib where
  "sample_write =
     \<lparr>wf_wd = Inr ''/home'', wf_mkdir = (\<lambda>d. None), wf_temp = (\<lambda>d. Inr (d @ ''/.write-file-1'')),
      wf_write = None, wf_close = None, wf_rename = (\<lambda>a b. None)\<rparr>"

lemma writes_are_atomic_and_contained_witness:
  "\<exists>fs'. writeWorkspaceFile sample_write ''/workspace'' ''a/../notes'' ''x'' Map.empty = (None, fs') \<and>
    fs' = [''/workspace/notes'' \<mapsto> ''x''] \<and> prefix [''workspace''] (clean_segs ''/workspace/notes'')"
proof -
  obtain err fs' where w: "writeWorkspaceFile sample_write ''/workspace'' ''a/../notes'' ''x'' Map.empty = (err, fs')" by fastforce
  have "case fst (writeWorkspaceFile sample_write ''/workspace'' ''a/../notes'' ''x'' Map.empty) of None \<Rightarrow> True | Some _ \<Rightarrow> False"
    by code_simp
  then have e: "err = None" by (simp add: w split: option.splits)
  have t: "targetPath (Clean ''/workspace'') ''a/../notes'' = ''/workspace/notes''" "clean_segs ''/workspace'' = [''workspace'']" by code_simp+
  have "IsAbs ''/workspace''" by code_simp
  from writes_are_atomic_and_contained [OF this _ _ w] t e w show ?thesis by (simp add: Let_def)
qed

text \<open>For the file system's root itself the check compares with two slashes and refuses every target.\<close>

lemma root_workspace_refuses_all:
  assumes "proper_seg s"
  shows "\<not> inWorkspace (Clean ''/'') (targetPath (Clean ''/'') (CHR ''/'' # s))"
proof -
  have "CHR ''/'' \<notin> set s" using assms by (simp add: proper_seg_def)
  moreover have "Clean (CHR ''/'' # s) = CHR ''/'' # s"
    using clean_segs_rooted [of "[s]"] assms
    by (simp add: Clean_def IsAbs_def has_prefix_def rooted_path_def)
  moreover obtain a s' where "s = a # s'" using assms by (cases s) (auto simp: proper_seg_def)
  ultimately show ?thesis
    by (auto simp: inWorkspace_def targetPath_def IsAbs_def has_prefix_def Clean_def clean_segs_def rooted_path_def)
qed

end
