(* ===== verification/Spec2Isabelle.thy ===== *)
theory Spec2Isabelle
  imports Proxy Refresh OperatorLaws SessionLaws CommandLaws ScriptLaws ScriptUpstream AssemblyLaws Caddyfile OperatorMain
    CrdCopies CrdTools WriteFile
begin

text \<open>
  A verification library for mcp-auto, a proxy that publishes the operations of HTTP upstreams with an
  OpenAPI document, shell commands and JavaScript functions as MCP tools, and for the Kubernetes
  operator that deploys it.

  \<^bold>\<open>The program.\<close> A configuration lists upstreams, groups and strategies. For each enabled upstream a
  builder registered for its type makes registry entries; the tool registry
  (\<^verbatim>\<open>pkg/upstream/registry.go\<close>) indexes them by name and group; the manager (\<^verbatim>\<open>pkg/mcp\<close>) keeps one MCP
  server per group endpoint in step with the registry, through reloads of the configuration
  (\<^verbatim>\<open>pkg/config/loader.go\<close>) and background refreshes of single upstreams
  (\<^verbatim>\<open>pkg/upstream/http/refresh.go\<close>). A request passes the client address, the inbound authentication
  (\<^verbatim>\<open>pkg/auth/inbound\<close>), the SDK's handler of its endpoint, the rate limit and the cache, and then
  the executor of its entry, which for HTTP upstreams transforms the arguments, adds outbound
  credentials (\<^verbatim>\<open>pkg/auth/outbound\<close>, \<^verbatim>\<open>pkg/runtime\<close>, \<^verbatim>\<open>pkg/session\<close>), passes the circuit breaker and
  converts the response. \<^verbatim>\<open>pkg/mcpanything\<close> assembles all of it; \<^verbatim>\<open>pkg/server\<close> and \<^verbatim>\<open>pkg/caddy\<close> serve it.

  \<^bold>\<open>How it is modelled.\<close> Structs are records with the source's field names, tagged values and errors
  are datatypes, a Go function is a HOL function of the same name (lengthened where a name is
  taken, as \<^verbatim>\<open>New\<close> of several packages: \<^verbatim>\<open>newServer\<close>, \<^verbatim>\<open>newProxy\<close>, \<^verbatim>\<open>newMiddleware\<close>). A result with an error
  is a sum, \<^term>\<open>Inl\<close> the error. What a function changes outside its values is an explicit world of an
  arbitrary type that is passed through; the lock of an object makes each of its operations one
  step, and a goroutine is a sequence of such steps with anything in between. A range over a map
  takes the order it happens to have as an argument, and properties hold for every order.
  Machine integers keep their width where they can overflow; a float64 is a rational. Messages are the
  source's texts; where a component has an error datatype of its own, the constructors stand for them.
  Only the deep copies need memory as it is: \<^verbatim>\<open>DeepCopy\<close> has a store with addresses, so that sharing is
  visible.

  \<^bold>\<open>Theories.\<close>
  \<^item> Foundations: \<^verbatim>\<open>GoLib\<close> (strings, quoting, error results, range order), \<^verbatim>\<open>Json\<close> (values and the canonical
    rendering of \<^verbatim>\<open>pkg/cache\<close>), \<^verbatim>\<open>Mcp\<close> (errors, tools, results, contexts, \<^verbatim>\<open>pkg/registry\<close>), \<^verbatim>\<open>Http\<close>
    (headers, requests, handlers, path escaping), \<^verbatim>\<open>Config\<close> (\<^verbatim>\<open>pkg/config\<close>: types, defaults, loader).
  \<^item> Tools: \<^verbatim>\<open>Naming\<close>, \<^verbatim>\<open>OpenApi\<close>, \<^verbatim>\<open>Generator\<close>, \<^verbatim>\<open>Synthetic\<close>, \<^verbatim>\<open>Validator\<close>, \<^verbatim>\<open>Fetch\<close> (\<^verbatim>\<open>pkg/openapi\<close>), \<^verbatim>\<open>Transform\<close>
    (\<^verbatim>\<open>pkg/transform\<close>, \<^verbatim>\<open>pkg/content\<close>).
  \<^item> Registry and manager: \<^verbatim>\<open>ToolRegistry\<close>, \<^verbatim>\<open>Cache\<close>, \<^verbatim>\<open>RateLimit\<close>, \<^verbatim>\<open>Breaker\<close>, \<^verbatim>\<open>Search\<close>, \<^verbatim>\<open>Manager\<close>, and the
    properties in \<^verbatim>\<open>ManagerProps\<close>, \<^verbatim>\<open>ManagerLaws\<close> and \<^verbatim>\<open>Reload\<close>.
  \<^item> Requests: \<^verbatim>\<open>Inbound\<close> (strategies and dispatch), \<^verbatim>\<open>Proxy\<close> (selection, mounting, readiness), \<^verbatim>\<open>Executor\<close>
    (outbound strategies, the HTTP client and the pipeline of a call), \<^verbatim>\<open>Refresh\<close> (builder and
    background refresh).
  \<^item> Sessions: \<^verbatim>\<open>Session\<close> (\<^verbatim>\<open>pkg/session\<close>, \<^verbatim>\<open>pkg/oauth/callbackmux\<close>, the user session strategy), \<^verbatim>\<open>SessionLaws\<close>.
  \<^item> Other upstreams: \<^verbatim>\<open>CommandUpstream\<close>, \<^verbatim>\<open>CommandLaws\<close> (\<^verbatim>\<open>pkg/upstream/command\<close>), \<^verbatim>\<open>ScriptRuntime\<close>,
    \<^verbatim>\<open>ScriptLaws\<close> (\<^verbatim>\<open>pkg/runtime\<close>), \<^verbatim>\<open>ScriptUpstream\<close> (\<^verbatim>\<open>pkg/upstream/script\<close>), \<^verbatim>\<open>Ui\<close> (\<^verbatim>\<open>pkg/ui\<close>).
  \<^item> Back ends and process: \<^verbatim>\<open>Backends\<close> (cache, rate limit and embedding providers, token counting,
    telemetry), \<^verbatim>\<open>Transport\<close> (\<^verbatim>\<open>pkg/transport\<close>), \<^verbatim>\<open>Assembly\<close> and \<^verbatim>\<open>AssemblyLaws\<close> (\<^verbatim>\<open>pkg/mcpanything\<close>,
    \<^verbatim>\<open>pkg/server\<close>, \<^verbatim>\<open>pkg/caddy\<close>, \<^verbatim>\<open>cmd/proxy\<close>), \<^verbatim>\<open>Caddyfile\<close> (the directive of the Caddy module).
  \<^item> Operator: \<^verbatim>\<open>Crd\<close>, \<^verbatim>\<open>ConfigGen\<close>, \<^verbatim>\<open>Operator\<close>, \<^verbatim>\<open>OperatorLaws\<close> (\<^verbatim>\<open>pkg/crd\<close>, \<^verbatim>\<open>pkg/operator\<close>),
    \<^verbatim>\<open>OperatorMain\<close> (\<^verbatim>\<open>cmd/operator\<close>, the controllers and their watches), \<^verbatim>\<open>DeepCopy\<close> and \<^verbatim>\<open>CrdCopies\<close> (the
    generated copies of the resource types), and \<^verbatim>\<open>CrdTools\<close> (\<^verbatim>\<open>internal/crdutil\<close>, \<^verbatim>\<open>cmd/crdgen\<close>, \<^verbatim>\<open>cmd/crdlint\<close>, \<^verbatim>\<open>pkg/analysis/crdlint\<close>).
  \<^item> Helper commands: \<^verbatim>\<open>WriteFile\<close> (\<^verbatim>\<open>cmd/testhelpers/write-file\<close>), with the lexical part of
    \<^verbatim>\<open>path/filepath\<close>.

  \<^bold>\<open>Interfaces.\<close> The contracts between components are locales, each interpreted where the model provides
  it: the generic registry (\<^verbatim>\<open>Mcp\<close>), the reader the inbound middleware asks (\<^verbatim>\<open>ToolRegistry\<close>, interpreted
  for a registry and in \<^verbatim>\<open>Proxy\<close> for the manager), the manager the refresher drives (\<^verbatim>\<open>ManagerProps\<close> as an
  update-and-remove contract, \<^verbatim>\<open>Refresh\<close> from the refresher's side), the session store the callback
  writes and the strategy reads (\<^verbatim>\<open>SessionLaws\<close>), the generator of synthetic values
  (\<^verbatim>\<open>Synthetic\<close>: that it returns, and that what it returns fits the schema), and the deep copy of a
  layout (\<^verbatim>\<open>DeepCopy\<close>, interpreted for the resource types in \<^verbatim>\<open>CrdCopies\<close>).

  \<^bold>\<open>What is shown.\<close>
  \<^item> The servers always serve the tools of the current registry, a call at an endpoint reaches only
    tools of its group, a failed rebuild leaves no trace, a reload keeps the last configuration that
    was accepted, and refreshes amount to the last write per upstream.
  \<^item> With authentication on, every mounted handler is behind a middleware that lets a request through
    with an identity or for a public tool only; the API key and JavaScript strategies fail closed;
    an OAuth2 state verifies for its own upstream and subject, and the callback writes only there.
  \<^item> Cache keys identify arguments and hits answer what was stored under the key; responses are
    classified as configured; path arguments stay in their segment and shell arguments stay quoted,
    with the exceptions the statements name.
  \<^item> Tools are accepted exactly under the stated conditions; generation of synthetic values ends and
    fits the schema; registries, upstreams, TLS configurations and mirror types are built exactly
    under the stated conditions.
  \<^item> Pool slots, refresher health, rate and output limits obey their bounds on every path, errors
    included; script and command calls always answer.
  \<^item> The operator mounts what the generated configuration names and its map functions wake exactly the
    proxies concerned, except that the watch's predicate hides a change of labels
    (\<^verbatim>\<open>relabelled_upstream_wakes_nobody\<close>); copies of resources share no memory with the original; the
    generator of the custom resources satisfies its linter, and the file helper writes all or nothing
    and only below its workspace.

  \<^bold>\<open>Bounds.\<close> The recursion over schemas carries fuel; \<^verbatim>\<open>gen_bound\<close>, one more than the number of schemas, is
  enough because a schema on the path is never entered again (\<^verbatim>\<open>generation_terminates\<close>). A
  specification is fetched at most five times. The loops over Caddy's dispenser return because it
  consumes tokens (\<^verbatim>\<open>unmarshal_returns\<close>). All other loops are structural or have a measure.

  \<^bold>\<open>Parameters.\<close> Code that is not under \<^verbatim>\<open>src\<close> is an argument: gojq, kin-openapi, the overlay and YAML
  libraries, JSONPath, goga's loading of the configuration file and environment, gobreaker's state
  machine, ulule/limiter, ristretto, Redis and PostgreSQL clients, OIDC and OAuth2 clients, SHA-256,
  HMAC and AES-GCM, sobek and gopher-lua, the weighted semaphore, text/template's parser, process
  execution, chromem and hugot, tiktoken, the go-sdk's server, chi, Caddy, OpenTelemetry with the
  wrappers of otelhttp, the Kubernetes client and controller-runtime, go/parser, go/format and controller-gen. What a property needs of them is a
  hypothesis that states their documented behaviour, and each such property has a witness with a
  concrete instance.

  \<^bold>\<open>Not modelled.\<close> The decoding of YAML and environment into the configuration, which goga does from the
  sources and scalar defaults it is handed; log output, and with it the \<^verbatim>\<open>log\<close> and \<^verbatim>\<open>console\<close> objects
  of the scripts; the main functions of the Caddy and golangci-lint binaries, which only call those
  programs; the registrations at start-up, which fill the registries that are arguments here.
  Real concurrency is modelled
  as interleaving of the locked steps, so data races and goroutine leaks are out of reach, and
  durations matter only where the code compares them.
\<close>

end
